(* ===== verification/Prelude.thy ===== *)
theory Prelude
  imports Main "HOL-Library.Char_ord" "HOL-Library.List_Lexorder"
begin

text \<open>
  What every component of the development shares: Go's integers with their wrap-around
  written out, results that may be an error or a panic, and the ordered key-value store the
  Cosmos modules keep their state in.

  \<^item> \<open>i64\<close> and \<open>u64\<close> are the conversions to Go's \<open>int64\<close> and \<open>uint64\<close>. A Go expression
    \<open>a + b\<close> over \<open>int64\<close> is written \<open>i64 (a + b)\<close>. The collection \<open>go_int\<close> removes the
    conversions where the value fits.
  \<^item> A Go function that may fail returns \<open>'e + 'a\<close>, with \<open>Inl\<close> for the error. A panic is an
    error of type \<open>go_panic\<close>.
  \<^item> A store is a list of pairs sorted by key. That is the order in which an iterator of the
    store visits the keys.
\<close>

section \<open>Go integers\<close>

named_theorems go_int "conversions between Go integer types that change nothing"

definition i64 :: "int \<Rightarrow> int" where
  "i64 x = (x + 2 ^ 63) mod 2 ^ 64 - 2 ^ 63"

definition u64 :: "int \<Rightarrow> int" where
  "u64 x = x mod 2 ^ 64"

definition in_i64 :: "int \<Rightarrow> bool" where
  "in_i64 x \<longleftrightarrow> - (2 ^ 63) \<le> x \<and> x < 2 ^ 63"

definition in_u64 :: "int \<Rightarrow> bool" where
  "in_u64 x \<longleftrightarrow> 0 \<le> x \<and> x < 2 ^ 64"

lemma i64_id [go_int]: "- (2 ^ 63) \<le> x \<Longrightarrow> x < 2 ^ 63 \<Longrightarrow> i64 x = x"
  by (simp add: i64_def)

lemma u64_id [go_int]: "0 \<le> x \<Longrightarrow> x < 2 ^ 64 \<Longrightarrow> u64 x = x"
  by (simp add: u64_def)

lemma i64_in_i64: "in_i64 (i64 x)"
  by (simp add: i64_def in_i64_def)

lemma u64_in_u64: "in_u64 (u64 x)"
  by (simp add: u64_def in_u64_def)

lemma i64_fix: "in_i64 x \<Longrightarrow> i64 x = x"
  by (simp add: in_i64_def i64_id)

lemma u64_fix: "in_u64 x \<Longrightarrow> u64 x = x"
  by (simp add: in_u64_def u64_id)

lemma u64_i64 [simp]: "u64 (i64 x) = u64 x"
  by (simp add: u64_def i64_def mod_diff_left_eq)

lemma i64_u64 [simp]: "i64 (u64 x) = i64 x"
  by (simp add: u64_def i64_def mod_add_left_eq)

section \<open>Results\<close>

text \<open>A Go panic carries a message and unwinds to the caller of the block or the transaction.\<close>

datatype go_panic = GoPanic string

text \<open>\<open>rbind\<close> is the \<open>if err != nil { return err }\<close> that follows a call.\<close>

definition rbind :: "'e + 'a \<Rightarrow> ('a \<Rightarrow> 'e + 'b) \<Rightarrow> 'e + 'b" where
  "rbind r f = (case r of Inl e \<Rightarrow> Inl e | Inr x \<Rightarrow> f x)"

definition ensure :: "bool \<Rightarrow> 'e \<Rightarrow> 'e + unit" where
  "ensure b e = (if b then Inr () else Inl e)"

lemma rbind_Inl [simp]: "rbind (Inl e) f = Inl e"
  by (simp add: rbind_def)

lemma rbind_Inr [simp]: "rbind (Inr x) f = f x"
  by (simp add: rbind_def)

lemma rbind_eq_Inr [simp]: "rbind r f = Inr y \<longleftrightarrow> (\<exists>x. r = Inr x \<and> f x = Inr y)"
  by (cases r) auto

lemma rbind_assoc [simp]: "rbind (rbind r f) g = rbind r (\<lambda>x. rbind (f x) g)"
  by (cases r) auto

lemma rbind_cong [fundef_cong]: "r = s \<Longrightarrow> (\<And>x. s = Inr x \<Longrightarrow> f x = g x) \<Longrightarrow> rbind r f = rbind s g"
  by (cases s) auto

lemma ensure_True [simp]: "ensure True e = Inr ()"
  by (simp add: ensure_def)

lemma ensure_False [simp]: "ensure False e = Inl e"
  by (simp add: ensure_def)

lemma ensure_eq_Inr [simp]: "ensure b e = Inr u \<longleftrightarrow> b"
  by (simp add: ensure_def)

lemma ensure_eq_Inl [simp]: "ensure b e = Inl e' \<longleftrightarrow> \<not> b \<and> e' = e"
  by (auto simp: ensure_def)

text \<open>A Go function that returns an error or panics.\<close>

datatype go_err = GoErr string | GoPanicked go_panic

definition lift_panic :: "go_panic + 'x \<Rightarrow> go_err + 'x" where
  "lift_panic r = (case r of Inl p \<Rightarrow> Inl (GoPanicked p) | Inr x \<Rightarrow> Inr x)"

definition lift_err :: "string + 'x \<Rightarrow> go_err + 'x" where
  "lift_err r = (case r of Inl e \<Rightarrow> Inl (GoErr e) | Inr x \<Rightarrow> Inr x)"

lemma lift_simps [simp]:
  "lift_panic (Inr x) = Inr x" "lift_panic (Inl p) = Inl (GoPanicked p)"
  "lift_err (Inr x) = Inr x" "lift_err (Inl e) = Inl (GoErr e)"
  by (simp_all add: lift_panic_def lift_err_def)

lemma lift_eq_Inr [simp]: "lift_panic r = Inr x \<longleftrightarrow> r = Inr x" "lift_err q = Inr y \<longleftrightarrow> q = Inr y"
  by (cases r; simp) (cases q; simp)

text \<open>A loop whose body may stop with an error, over a list and a state.\<close>

fun fold_res :: "('a \<Rightarrow> 's \<Rightarrow> 'e + 's) \<Rightarrow> 'a list \<Rightarrow> 's \<Rightarrow> 'e + 's" where
  "fold_res f [] s = Inr s"
| "fold_res f (x # xs) s = rbind (f x s) (fold_res f xs)"

lemma fold_res_append: "fold_res f (xs @ ys) s = rbind (fold_res f xs s) (fold_res f ys)"
  by (induction xs arbitrary: s) (auto simp: rbind_def split: sum.splits)

lemma fold_res_inv:
  assumes "fold_res f xs s = Inr t" and "P s"
    and "\<And>x s t. x \<in> set xs \<Longrightarrow> P s \<Longrightarrow> f x s = Inr t \<Longrightarrow> P t"
  shows "P t"
  using assms by (induction xs arbitrary: s) auto

section \<open>Strings\<close>

text \<open>Go's \<open>strings.TrimSpace\<close> on ASCII text.\<close>

definition is_space :: "char \<Rightarrow> bool" where
  "is_space c \<longleftrightarrow> c \<in> {CHR 0x09, CHR 0x0A, CHR 0x0B, CHR 0x0C, CHR 0x0D, CHR '' ''}"

definition trim_space :: "string \<Rightarrow> string" where
  "trim_space s = rev (dropWhile is_space (rev (dropWhile is_space s)))"

lemma dropWhile_rev_nil: "dropWhile P (rev xs) = [] \<longleftrightarrow> (\<forall>x \<in> set xs. P x)"
  by (simp add: dropWhile_eq_Nil_conv)

lemma trim_space_nil_iff: "trim_space s = [] \<longleftrightarrow> (\<forall>c \<in> set s. is_space c)"
proof -
  have "trim_space s = [] \<longleftrightarrow> (\<forall>c \<in> set (dropWhile is_space s). is_space c)"
    by (simp add: trim_space_def dropWhile_rev_nil)
  also have "\<dots> \<longleftrightarrow> (\<forall>c \<in> set s. is_space c)"
    by (induction s) auto
  finally show ?thesis .
qed

section \<open>The ordered key-value store\<close>

text \<open>
  The interface of a store as the keepers use it: \<open>Get\<close>, \<open>Set\<close>, \<open>Delete\<close> and the keys in
  the order of an iterator.
\<close>

locale kv_store =
  fixes get :: "'m \<Rightarrow> 'k::linorder \<Rightarrow> 'v option"
    and put :: "'k \<Rightarrow> 'v \<Rightarrow> 'm \<Rightarrow> 'm"
    and del :: "'k \<Rightarrow> 'm \<Rightarrow> 'm"
    and keys :: "'m \<Rightarrow> 'k list"
    and ok :: "'m \<Rightarrow> bool"
  assumes get_put: "ok m \<Longrightarrow> get (put k v m) j = (if j = k then Some v else get m j)"
    and get_del: "ok m \<Longrightarrow> get (del k m) j = (if j = k then None else get m j)"
    and ok_put: "ok m \<Longrightarrow> ok (put k v m)"
    and ok_del: "ok m \<Longrightarrow> ok (del k m)"
    and keys_get: "ok m \<Longrightarrow> k \<in> set (keys m) \<longleftrightarrow> get m k \<noteq> None"
    and keys_sorted: "ok m \<Longrightarrow> sorted (keys m) \<and> distinct (keys m)"
begin

lemma keys_put: "ok m \<Longrightarrow> set (keys (put k v m)) = insert k (set (keys m))"
  by (auto simp: keys_get ok_put get_put split: if_splits)

lemma keys_del: "ok m \<Longrightarrow> set (keys (del k m)) = set (keys m) - {k}"
  by (auto simp: keys_get ok_del get_del split: if_splits)

lemma put_present_keys: "ok m \<Longrightarrow> get m k \<noteq> None \<Longrightarrow> keys (put k v m) = keys m"
  by (metis insert_absorb keys_get keys_put keys_sorted ok_put sorted_distinct_set_unique)

lemma del_absent_get: "ok m \<Longrightarrow> get m k = None \<Longrightarrow> get (del k m) = get m"
  by (auto simp: get_del fun_eq_iff)

lemma put_commute:
  "ok m \<Longrightarrow> j \<noteq> k \<Longrightarrow> get (put j u (put k v m)) = get (put k v (put j u m))"
  by (auto simp: get_put ok_put fun_eq_iff)

end

type_synonym ('k, 'v) kv = "('k \<times> 'v) list"

definition kv_get :: "('k, 'v) kv \<Rightarrow> 'k \<Rightarrow> 'v option" where
  "kv_get m k = map_of m k"

fun kv_set :: "'k::linorder \<Rightarrow> 'v \<Rightarrow> ('k, 'v) kv \<Rightarrow> ('k, 'v) kv" where
  "kv_set k v [] = [(k, v)]"
| "kv_set k v ((j, u) # m) =
     (if k < j then (k, v) # (j, u) # m
      else if k = j then (k, v) # m
      else (j, u) # kv_set k v m)"

definition kv_del :: "'k \<Rightarrow> ('k, 'v) kv \<Rightarrow> ('k, 'v) kv" where
  "kv_del k m = filter (\<lambda>(j, u). j \<noteq> k) m"

definition kv_keys :: "('k, 'v) kv \<Rightarrow> 'k list" where
  "kv_keys m = map fst m"

definition kv_ok :: "('k::linorder, 'v) kv \<Rightarrow> bool" where
  "kv_ok m \<longleftrightarrow> sorted (map fst m) \<and> distinct (map fst m)"

lemma kv_set_keys_set: "fst ` set (kv_set k v m) = insert k (fst ` set m)"
  by (induction k v m rule: kv_set.induct) auto

lemma kv_set_ok: "kv_ok m \<Longrightarrow> kv_ok (kv_set k v m)"
proof (induction k v m rule: kv_set.induct)
  case (2 k v j u m)
  then have "kv_ok m" and j: "\<forall>x \<in> fst ` set m. j < x"
    by (auto simp: kv_ok_def order_le_less)
  with 2 show ?case
    by (auto simp: kv_ok_def kv_set_keys_set order_le_less dest: order.strict_trans)
qed (simp add: kv_ok_def)

lemma kv_get_set: "kv_ok m \<Longrightarrow> kv_get (kv_set k v m) j = (if j = k then Some v else kv_get m j)"
proof (induction k v m rule: kv_set.induct)
  case (2 k v i u m)
  then have "kv_ok m" by (simp add: kv_ok_def)
  with 2 show ?case
    by (auto simp: kv_get_def)
qed (simp add: kv_get_def)

lemma kv_get_del: "kv_get (kv_del k m) j = (if j = k then None else kv_get m j)"
  by (induction m) (auto simp: kv_get_def kv_del_def)

lemma kv_del_ok: "kv_ok m \<Longrightarrow> kv_ok (kv_del k m)"
  by (auto simp: kv_ok_def kv_del_def intro: sorted_filter distinct_map_filter)

lemma kv_keys_iff: "k \<in> set (kv_keys m) \<longleftrightarrow> (\<exists>v. kv_get m k = Some v)"
  using map_of_eq_None_iff [of m k] by (auto simp: kv_keys_def kv_get_def)

lemma kv_keys_ok: "kv_ok m \<Longrightarrow> sorted (kv_keys m) \<and> distinct (kv_keys m)"
  by (simp add: kv_ok_def kv_keys_def)

interpretation kv: kv_store kv_get kv_set kv_del kv_keys kv_ok
  by unfold_locales
    (simp_all add: kv_get_set kv_get_del kv_set_ok kv_del_ok kv_keys_iff kv_keys_ok)

lemma kv_set_last:
  "\<forall>j \<in> fst ` set m. j < k \<Longrightarrow> kv_set k v m = m @ [(k, v)]"
  by (induction m) (auto simp: not_less_iff_gr_or_eq)

lemma kv_set_present:
  assumes "kv_ok (xs @ (k, u) # ys)"
  shows "kv_set k v (xs @ (k, u) # ys) = xs @ (k, v) # ys"
  using assms
proof (induction xs)
  case (Cons x xs)
  obtain j w where x: "x = (j, w)" by (cases x)
  from Cons.prems have "j < k" and "kv_ok (xs @ (k, u) # ys)"
    by (auto simp: x kv_ok_def order_le_less)
  with Cons.IH show ?case by (auto simp: x dest: order.asym)
qed simp

lemma kv_ok_map_values: "kv_ok (map (\<lambda>(k, v). (k, f k v)) m) = kv_ok m"
  by (simp add: kv_ok_def comp_def case_prod_beta)

end
