(* ===== verification/Epochs.thy ===== *)
theory Epochs
  imports Prelude "HOL-Library.Multiset"
begin

text \<open>
  The epochs module (x/epochs): named timers that count epochs from a start time, advanced at
  the beginning of every block, and the hooks other modules hang on the end and the start of an
  epoch.

  \<^item> \<open>EpochInfo\<close> and its operations follow types/epoch_info.go.
  \<^item> The store of the keeper is a key-value store by identifier (keeper/epoch_infos.go).
  \<^item> \<open>BeginBlocker\<close> follows keeper/abci.go: it walks over the store and runs
    \<open>begin_block_epoch\<close> on every entry. The state it threads holds the store, the emitted
    events and the state \<open>'s\<close> of the modules behind the hooks.
  \<^item> A \<open>time.Time\<close> is the number of nanoseconds since Go's zero time, a \<open>time.Duration\<close> a number
    of nanoseconds. The epoch counter is an \<open>int64\<close>.
\<close>

section \<open>Identifiers and epoch information\<close>

definition WeekEpochID :: string where "WeekEpochID = ''week''"
definition DayEpochID :: string where "DayEpochID = ''day''"
definition HourEpochID :: string where "HourEpochID = ''hour''"

definition ValidateEpochIdentifierString :: "string \<Rightarrow> string + unit" where
  "ValidateEpochIdentifierString s =
     (if trim_space s = '''' then Inl ''blank epoch identifier'' else Inr ())"

record EpochInfo =
  Identifier :: string
  StartTime :: int
  Duration :: int
  CurrentEpoch :: int
  CurrentEpochStartTime :: int
  EpochCountingStarted :: bool
  CurrentEpochStartHeight :: int

definition StartInitialEpoch :: "EpochInfo \<Rightarrow> EpochInfo" where
  "StartInitialEpoch ei = ei
     \<lparr>EpochCountingStarted := True, CurrentEpoch := 1, CurrentEpochStartTime := StartTime ei\<rparr>"

definition EndEpoch :: "EpochInfo \<Rightarrow> EpochInfo" where
  "EndEpoch ei = ei
     \<lparr>CurrentEpoch := i64 (CurrentEpoch ei + 1),
      CurrentEpochStartTime := CurrentEpochStartTime ei + Duration ei\<rparr>"

definition EpochInfo_Validate :: "EpochInfo \<Rightarrow> string + unit" where
  "EpochInfo_Validate ei =
     (if trim_space (Identifier ei) = '''' then Inl ''epoch identifier cannot be blank''
      else if Duration ei = 0 then Inl ''epoch duration cannot be 0''
      else if CurrentEpoch ei < 0 then Inl ''current epoch cannot be negative''
      else if CurrentEpochStartHeight ei < 0
        then Inl ''current epoch start height cannot be negative''
      else Inr ())"

section \<open>The keeper's store\<close>

type_synonym epoch_store = "(string, EpochInfo) kv"

definition GetEpochInfo :: "epoch_store \<Rightarrow> string \<Rightarrow> EpochInfo option" where
  "GetEpochInfo m identifier = kv_get m identifier"

definition SetEpochInfo :: "EpochInfo \<Rightarrow> epoch_store \<Rightarrow> epoch_store" where
  "SetEpochInfo epoch m = kv_set (Identifier epoch) epoch m"

definition DeleteEpochInfo :: "string \<Rightarrow> epoch_store \<Rightarrow> epoch_store" where
  "DeleteEpochInfo identifier m = kv_del identifier m"

text \<open>
  \<open>IterateEpochInfo\<close> calls \<open>fn\<close> with the index and the value of every entry, in key order, and
  stops when \<open>fn\<close> says so. A panic of \<open>fn\<close> unwinds through the loop.
\<close>

fun iterate_from ::
  "(int \<Rightarrow> EpochInfo \<Rightarrow> 'st \<Rightarrow> go_panic + bool \<times> 'st) \<Rightarrow> int \<Rightarrow> EpochInfo list \<Rightarrow> 'st
     \<Rightarrow> go_panic + 'st" where
  "iterate_from fn i [] st = Inr st"
| "iterate_from fn i (epoch # rest) st =
     rbind (fn i epoch st) (\<lambda>(stop, st').
       if stop then Inr st' else iterate_from fn (i64 (i + 1)) rest st')"

definition IterateEpochInfo ::
  "epoch_store \<Rightarrow> (int \<Rightarrow> EpochInfo \<Rightarrow> 'st \<Rightarrow> go_panic + bool \<times> 'st) \<Rightarrow> 'st \<Rightarrow> go_panic + 'st" where
  "IterateEpochInfo m fn st = iterate_from fn 0 (map snd m) st"

definition AllEpochInfos :: "epoch_store \<Rightarrow> go_panic + EpochInfo list" where
  "AllEpochInfos m = IterateEpochInfo m (\<lambda>_ epoch epochs. Inr (False, epochs @ [epoch])) []"

section \<open>Hooks\<close>

record 's EpochHooks =
  AfterEpochEnd_hook :: "string \<Rightarrow> int \<Rightarrow> 's \<Rightarrow> go_panic + 's"
  BeforeEpochStart_hook :: "string \<Rightarrow> int \<Rightarrow> 's \<Rightarrow> go_panic + 's"

definition MultiEpochHooks_AfterEpochEnd ::
  "'s EpochHooks list \<Rightarrow> string \<Rightarrow> int \<Rightarrow> 's \<Rightarrow> go_panic + 's" where
  "MultiEpochHooks_AfterEpochEnd mh identifier number s =
     fold_res (\<lambda>h. AfterEpochEnd_hook h identifier number) mh s"

definition MultiEpochHooks_BeforeEpochStart ::
  "'s EpochHooks list \<Rightarrow> string \<Rightarrow> int \<Rightarrow> 's \<Rightarrow> go_panic + 's" where
  "MultiEpochHooks_BeforeEpochStart mh identifier number s =
     fold_res (\<lambda>h. BeforeEpochStart_hook h identifier number) mh s"

section \<open>The block handler\<close>

datatype epoch_event =
  EventEpochEnd int
| EventEpochStart int int

record 's epochs_ctx =
  ec_store :: epoch_store
  ec_events :: "epoch_event list"
  ec_mods :: 's

text \<open>\<open>Unix\<close> gives the seconds of a time since 1970, which is 62135596800 seconds after the zero time.\<close>

definition time_Unix :: "int \<Rightarrow> int" where
  "time_Unix t = t div 1000000000 - 62135596800"

definition shouldInitialEpochStart :: "int \<Rightarrow> EpochInfo \<Rightarrow> bool" where
  "shouldInitialEpochStart blockTime ei \<longleftrightarrow>
     \<not> EpochCountingStarted ei \<and> \<not> StartTime ei > blockTime"

definition shouldEpochEnd :: "int \<Rightarrow> EpochInfo \<Rightarrow> bool" where
  "shouldEpochEnd blockTime ei \<longleftrightarrow>
     (let epochEndTime = CurrentEpochStartTime ei + Duration ei
      in blockTime > epochEndTime \<and> \<not> shouldInitialEpochStart blockTime ei
         \<and> \<not> StartTime ei > blockTime)"

definition finish_epoch_start ::
  "'s EpochHooks list \<Rightarrow> EpochInfo \<Rightarrow> 's epochs_ctx \<Rightarrow> go_panic + bool \<times> 's epochs_ctx" where
  "finish_epoch_start mh ei st =
     (let st' = st\<lparr>ec_store := SetEpochInfo ei (ec_store st),
                   ec_events := ec_events st @
                     [EventEpochStart (CurrentEpoch ei) (time_Unix (CurrentEpochStartTime ei))]\<rparr>
      in rbind (MultiEpochHooks_BeforeEpochStart mh (Identifier ei) (CurrentEpoch ei) (ec_mods st'))
           (\<lambda>s. Inr (False, st'\<lparr>ec_mods := s\<rparr>)))"

definition begin_block_epoch ::
  "'s EpochHooks list \<Rightarrow> int \<Rightarrow> int \<Rightarrow> int \<Rightarrow> EpochInfo \<Rightarrow> 's epochs_ctx
     \<Rightarrow> go_panic + bool \<times> 's epochs_ctx" where
  "begin_block_epoch mh blockTime blockHeight i epochInfo st =
     (let initial = shouldInitialEpochStart blockTime epochInfo;
          ends = shouldEpochEnd blockTime epochInfo;
          ei = epochInfo\<lparr>CurrentEpochStartHeight := blockHeight\<rparr>
      in if initial then finish_epoch_start mh (StartInitialEpoch ei) st
         else if ends then
           (let ei' = EndEpoch ei;
                st' = st\<lparr>ec_events := ec_events st @ [EventEpochEnd (CurrentEpoch ei')]\<rparr>
            in rbind (MultiEpochHooks_AfterEpochEnd mh (Identifier ei') (CurrentEpoch ei') (ec_mods st'))
                 (\<lambda>s. finish_epoch_start mh ei' (st'\<lparr>ec_mods := s\<rparr>)))
         else Inr (False, st))"

definition BeginBlocker ::
  "'s EpochHooks list \<Rightarrow> int \<Rightarrow> int \<Rightarrow> 's epochs_ctx \<Rightarrow> go_panic + 's epochs_ctx" where
  "BeginBlocker mh blockTime blockHeight st =
     IterateEpochInfo (ec_store st) (begin_block_epoch mh blockTime blockHeight) st"

section \<open>Genesis\<close>

definition DefaultGenesisState :: "EpochInfo list" where
  "DefaultGenesisState =
     [\<lparr>Identifier = WeekEpochID, StartTime = 0, Duration = 3600 * 1000000000 * 24 * 7,
       CurrentEpoch = 0, CurrentEpochStartTime = 0, EpochCountingStarted = False,
       CurrentEpochStartHeight = 0\<rparr>,
      \<lparr>Identifier = DayEpochID, StartTime = 0, Duration = 3600 * 1000000000 * 24,
       CurrentEpoch = 0, CurrentEpochStartTime = 0, EpochCountingStarted = False,
       CurrentEpochStartHeight = 0\<rparr>]"

fun genesis_validate_from :: "string list \<Rightarrow> EpochInfo list \<Rightarrow> string + unit" where
  "genesis_validate_from seen [] = Inr ()"
| "genesis_validate_from seen (epoch # rest) =
     (if Identifier epoch \<in> set seen then Inl ''duplicated epoch entry''
      else rbind (EpochInfo_Validate epoch)
             (\<lambda>_. genesis_validate_from (Identifier epoch # seen) rest))"

definition GenesisState_Validate :: "EpochInfo list \<Rightarrow> string + unit" where
  "GenesisState_Validate epochs = genesis_validate_from [] epochs"

definition genesis_epoch :: "int \<Rightarrow> int \<Rightarrow> EpochInfo \<Rightarrow> EpochInfo" where
  "genesis_epoch blockTime blockHeight epoch =
     (if StartTime epoch = 0 then epoch\<lparr>StartTime := blockTime\<rparr> else epoch)
       \<lparr>CurrentEpochStartHeight := blockHeight\<rparr>"

fun InitGenesis :: "int \<Rightarrow> int \<Rightarrow> EpochInfo list \<Rightarrow> epoch_store \<Rightarrow> epoch_store" where
  "InitGenesis blockTime blockHeight [] m = m"
| "InitGenesis blockTime blockHeight (epoch # rest) m =
     InitGenesis blockTime blockHeight rest (SetEpochInfo (genesis_epoch blockTime blockHeight epoch) m)"

definition ExportGenesis :: "epoch_store \<Rightarrow> go_panic + EpochInfo list" where
  "ExportGenesis m = AllEpochInfos m"

section \<open>One step of a timer\<close>

text \<open>
  What a block does to one timer, without the store, the events and the hooks, and what it
  tells the hooks and the event log.
\<close>

definition advance :: "int \<Rightarrow> int \<Rightarrow> EpochInfo \<Rightarrow> EpochInfo" where
  "advance blockTime blockHeight ei =
     (if shouldInitialEpochStart blockTime ei
        then StartInitialEpoch (ei\<lparr>CurrentEpochStartHeight := blockHeight\<rparr>)
      else if shouldEpochEnd blockTime ei
        then EndEpoch (ei\<lparr>CurrentEpochStartHeight := blockHeight\<rparr>)
      else ei)"

definition step_events :: "int \<Rightarrow> EpochInfo \<Rightarrow> epoch_event list" where
  "step_events blockTime ei =
     (let ei' = advance blockTime 0 ei;
          start = EventEpochStart (CurrentEpoch ei') (time_Unix (CurrentEpochStartTime ei'))
      in if shouldInitialEpochStart blockTime ei then [start]
         else if shouldEpochEnd blockTime ei then [EventEpochEnd (CurrentEpoch ei'), start]
         else [])"

definition step_hooks :: "'s EpochHooks list \<Rightarrow> int \<Rightarrow> EpochInfo \<Rightarrow> 's \<Rightarrow> go_panic + 's" where
  "step_hooks mh blockTime ei s =
     (let n = CurrentEpoch (advance blockTime 0 ei)
      in if shouldInitialEpochStart blockTime ei
           then MultiEpochHooks_BeforeEpochStart mh (Identifier ei) n s
         else if shouldEpochEnd blockTime ei
           then rbind (MultiEpochHooks_AfterEpochEnd mh (Identifier ei) n s)
                  (MultiEpochHooks_BeforeEpochStart mh (Identifier ei) n)
         else Inr s)"

definition advance_store :: "int \<Rightarrow> int \<Rightarrow> epoch_store \<Rightarrow> epoch_store" where
  "advance_store blockTime blockHeight m =
     map (\<lambda>(k, ei). (k, advance blockTime blockHeight ei)) m"

definition keyed :: "epoch_store \<Rightarrow> bool" where
  "keyed m \<longleftrightarrow> kv_ok m \<and> (\<forall>(k, ei) \<in> set m. Identifier ei = k)"

lemmas epoch_step_defs =
  advance_def StartInitialEpoch_def EndEpoch_def Let_def

lemma advance_Identifier [simp]: "Identifier (advance t h ei) = Identifier ei"
  by (simp add: epoch_step_defs)

lemma advance_StartTime [simp]: "StartTime (advance t h ei) = StartTime ei"
  by (simp add: epoch_step_defs)

lemma advance_Duration [simp]: "Duration (advance t h ei) = Duration ei"
  by (simp add: epoch_step_defs)

lemma keyed_advance: "keyed m \<Longrightarrow> keyed (advance_store t h m)"
  by (auto simp: keyed_def advance_store_def kv_ok_map_values)

lemma begin_block_epoch_eq:
  "begin_block_epoch mh t h i ei st =
     rbind (step_hooks mh t ei (ec_mods st)) (\<lambda>s. Inr (False, st
       \<lparr>ec_store := (if advance t h ei = ei \<and> step_events t ei = [] then ec_store st
                     else SetEpochInfo (advance t h ei) (ec_store st)),
        ec_events := ec_events st @ step_events t ei,
        ec_mods := s\<rparr>))"
proof -
  consider (initial) "shouldInitialEpochStart t ei"
    | (ends) "\<not> shouldInitialEpochStart t ei" "shouldEpochEnd t ei"
    | (idle) "\<not> shouldInitialEpochStart t ei" "\<not> shouldEpochEnd t ei"
    by blast
  then show ?thesis
    by cases (simp_all add: begin_block_epoch_def finish_epoch_start_def step_hooks_def
        step_events_def epoch_step_defs)
qed

lemma SetEpochInfo_head:
  assumes "keyed (xs @ (k, ei) # ys)" and "Identifier ei' = k"
  shows "SetEpochInfo ei' (xs @ (k, ei) # ys) = xs @ (k, ei') # ys"
  using assms by (simp add: SetEpochInfo_def keyed_def kv_set_present)

lemma iterate_begin_block:
  assumes "keyed (xs @ ys)" and "ec_store st = xs @ ys"
  shows "iterate_from (begin_block_epoch mh t h) i (map snd ys) st =
    rbind (fold_res (step_hooks mh t) (map snd ys) (ec_mods st)) (\<lambda>s. Inr (st
       \<lparr>ec_store := xs @ advance_store t h ys,
        ec_events := ec_events st @ concat (map (step_events t \<circ> snd) ys),
        ec_mods := s\<rparr>))"
  using assms
proof (induction ys arbitrary: xs st i)
  case Nil
  then show ?case by (simp add: advance_store_def)
next
  case (Cons y ys)
  obtain k ei where y: "y = (k, ei)" by (cases y)
  let ?xs = "xs @ [(k, advance t h ei)]"
  from Cons.prems(1) have id: "Identifier ei = k" by (simp add: keyed_def y)
  from Cons.prems(1) have keyed: "keyed (?xs @ ys)"
    by (auto simp: keyed_def kv_ok_def y)
  have store: "(if advance t h ei = ei \<and> step_events t ei = [] then ec_store st
      else SetEpochInfo (advance t h ei) (ec_store st)) = ?xs @ ys"
    using Cons.prems by (simp add: y id SetEpochInfo_head)
  show ?case
  proof (cases "step_hooks mh t ei (ec_mods st)")
    case (Inl p)
    then show ?thesis by (simp add: y begin_block_epoch_eq)
  next
    case (Inr s)
    let ?st = "st\<lparr>ec_store := ?xs @ ys, ec_events := ec_events st @ step_events t ei, ec_mods := s\<rparr>"
    from Cons.IH [OF keyed, of ?st "i64 (i + 1)"] Inr store
    show ?thesis by (simp add: y begin_block_epoch_eq advance_store_def)
  qed
qed

section \<open>The block handler refines the per-timer step\<close>

lemma BeginBlocker_eq:
  assumes "keyed (ec_store st)"
  shows "BeginBlocker mh t h st =
    rbind (fold_res (step_hooks mh t) (map snd (ec_store st)) (ec_mods st)) (\<lambda>s. Inr (st
       \<lparr>ec_store := advance_store t h (ec_store st),
        ec_events := ec_events st @ concat (map (step_events t \<circ> snd) (ec_store st)),
        ec_mods := s\<rparr>))"
  using iterate_begin_block [of "[]" "ec_store st" st mh t h 0] assms
  by (simp add: BeginBlocker_def IterateEpochInfo_def)

text \<open>
  C32: BeginBlocker is exactly this: every stored timer is advanced once, in key order, the keys
  stay as they are, and the hooks and the event log see the steps in the same order. A panic of
  a hook is a panic of the block.
\<close>

theorem BeginBlocker_refines:
  assumes "keyed (ec_store st)"
  shows "BeginBlocker mh t h st =
    rbind (fold_res (step_hooks mh t) (map snd (ec_store st)) (ec_mods st)) (\<lambda>s. Inr (st
       \<lparr>ec_store := advance_store t h (ec_store st),
        ec_events := ec_events st @ concat (map (step_events t \<circ> snd) (ec_store st)),
        ec_mods := s\<rparr>))"
  using assms by (rule BeginBlocker_eq)

section \<open>The timing invariant\<close>

text \<open>
  A running timer is where it should be: in epoch \<open>n\<close>, which began \<open>n - 1\<close> durations after the
  start time.
\<close>

definition epoch_inv :: "EpochInfo \<Rightarrow> bool" where
  "epoch_inv ei \<longleftrightarrow> EpochCountingStarted ei \<longrightarrow>
     1 \<le> CurrentEpoch ei \<and>
     CurrentEpochStartTime ei = StartTime ei + (CurrentEpoch ei - 1) * Duration ei"

definition epoch_room :: "EpochInfo \<Rightarrow> bool" where
  "epoch_room ei \<longleftrightarrow> CurrentEpoch ei < 2 ^ 63 - 1"

lemma EndEpoch_CurrentEpoch:
  "epoch_room ei \<Longrightarrow> 1 \<le> CurrentEpoch ei \<Longrightarrow> CurrentEpoch (EndEpoch ei) = CurrentEpoch ei + 1"
  by (simp add: EndEpoch_def epoch_room_def go_int)

lemma advance_inv: "epoch_inv ei \<Longrightarrow> epoch_room ei \<Longrightarrow> EpochCountingStarted ei \<or> \<not> shouldEpochEnd t ei
    \<Longrightarrow> epoch_inv (advance t h ei)"
  by (auto simp: epoch_inv_def epoch_room_def advance_def StartInitialEpoch_def EndEpoch_def
      go_int algebra_simps)

text \<open>A timer that has not started does not end an epoch: it starts at the same condition first.\<close>

lemma shouldEpochEnd_started: "shouldEpochEnd t ei \<Longrightarrow> EpochCountingStarted ei"
  by (auto simp: shouldEpochEnd_def shouldInitialEpochStart_def Let_def)

definition store_inv :: "epoch_store \<Rightarrow> bool" where
  "store_inv m \<longleftrightarrow> keyed m \<and> (\<forall>(k, ei) \<in> set m. epoch_inv ei)"

definition store_room :: "epoch_store \<Rightarrow> bool" where
  "store_room m \<longleftrightarrow> (\<forall>(k, ei) \<in> set m. epoch_room ei)"

text \<open>
  C33: BeginBlocker keeps every timer on its schedule: if each started timer is in epoch n with a
  start of StartTime + (n - 1) * Duration, this is so after the block as well.
\<close>

theorem BeginBlocker_store_inv:
  assumes "store_inv (ec_store st)" and "store_room (ec_store st)"
    and "BeginBlocker mh t h st = Inr st'"
  shows "store_inv (ec_store st')"
proof -
  from assms(1) have keyed: "keyed (ec_store st)" by (simp add: store_inv_def)
  with assms(3) have "ec_store st' = advance_store t h (ec_store st)"
    by (auto simp: BeginBlocker_eq)
  moreover from assms(1,2) have "epoch_inv (advance t h ei)" if "(k, ei) \<in> set (ec_store st)" for k ei
    using that shouldEpochEnd_started [of t ei]
    by (auto simp: store_inv_def store_room_def intro!: advance_inv)
  ultimately show ?thesis
    using keyed_advance [OF keyed, of t h] by (auto simp: store_inv_def advance_store_def)
qed

definition sample_day :: EpochInfo where
  "sample_day = \<lparr>Identifier = DayEpochID, StartTime = 100, Duration = 10, CurrentEpoch = 2,
     CurrentEpochStartTime = 110, EpochCountingStarted = True, CurrentEpochStartHeight = 5\<rparr>"

definition sample_ctx :: "unit epochs_ctx" where
  "sample_ctx = \<lparr>ec_store = [(DayEpochID, sample_day)], ec_events = [], ec_mods = ()\<rparr>"

theorem BeginBlocker_refines_witness:
  "keyed (ec_store sample_ctx) \<and>
   BeginBlocker [] 121 7 sample_ctx = Inr \<lparr>ec_store = [(DayEpochID, sample_day
       \<lparr>CurrentEpoch := 3, CurrentEpochStartTime := 120, CurrentEpochStartHeight := 7\<rparr>)],
     ec_events = [EventEpochEnd 3, EventEpochStart 3 (- 62135596800)], ec_mods = ()\<rparr>"
proof -
  have k: "keyed (ec_store sample_ctx)"
    by (simp add: keyed_def kv_ok_def sample_ctx_def sample_day_def)
  show ?thesis
    using k unfolding BeginBlocker_refines [OF k]
    by (simp add: sample_ctx_def sample_day_def step_hooks_def step_events_def advance_store_def
        epoch_step_defs shouldInitialEpochStart_def shouldEpochEnd_def time_Unix_def i64_def
        MultiEpochHooks_AfterEpochEnd_def MultiEpochHooks_BeforeEpochStart_def)
qed

theorem BeginBlocker_store_inv_witness:
  "\<exists>st'. BeginBlocker [] 121 7 sample_ctx = Inr st' \<and> store_inv (ec_store st')"
proof -
  have inv: "store_inv (ec_store sample_ctx)" and room: "store_room (ec_store sample_ctx)"
    by (simp_all add: store_inv_def store_room_def epoch_room_def epoch_inv_def keyed_def
        kv_ok_def sample_ctx_def sample_day_def)
  obtain st' where run: "BeginBlocker [] 121 7 sample_ctx = Inr st'"
    by (simp add: BeginBlocker_def IterateEpochInfo_def begin_block_epoch_eq
        sample_ctx_def sample_day_def step_hooks_def shouldInitialEpochStart_def shouldEpochEnd_def
        MultiEpochHooks_AfterEpochEnd_def MultiEpochHooks_BeforeEpochStart_def)
  with BeginBlocker_store_inv [OF inv room run] show ?thesis by blast
qed

section \<open>Catching up\<close>

text \<open>
  A timer that is late ends one epoch per block, and no more. \<open>epochs_behind\<close> counts the whole epochs between the start of
  its current epoch and a block time.
\<close>

definition advance_blocks :: "(int \<times> int) list \<Rightarrow> EpochInfo \<Rightarrow> EpochInfo" where
  "advance_blocks = fold (\<lambda>(t, h). advance t h)"

definition epochs_behind :: "int \<Rightarrow> EpochInfo \<Rightarrow> nat" where
  "epochs_behind t ei = nat ((t - CurrentEpochStartTime ei - 1) div Duration ei)"

lemma not_behind_not_due: "0 < Duration ei \<Longrightarrow> epochs_behind t ei = 0 \<Longrightarrow> \<not> shouldEpochEnd t ei"
  using pos_imp_zdiv_pos_iff [of "Duration ei" "t - CurrentEpochStartTime ei - 1"]
  by (simp add: epochs_behind_def shouldEpochEnd_def Let_def)

lemma behind_due:
  assumes "EpochCountingStarted ei" and "StartTime ei \<le> t" and "0 < Duration ei" and "0 < epochs_behind t ei"
  shows "shouldEpochEnd t ei \<and> \<not> shouldInitialEpochStart t ei"
  using assms pos_imp_zdiv_pos_iff [of "Duration ei" "t - CurrentEpochStartTime ei - 1"]
  by (simp add: epochs_behind_def shouldEpochEnd_def shouldInitialEpochStart_def Let_def)

lemma epochs_behind_mono: "0 < Duration ei \<Longrightarrow> t \<le> u \<Longrightarrow> epochs_behind t ei \<le> epochs_behind u ei"
  by (simp add: epochs_behind_def nat_mono zdiv_mono1)

lemma advance_ending:
  assumes "EpochCountingStarted ei" and "StartTime ei \<le> t" and "0 < Duration ei"
    and "0 < epochs_behind t ei" and "1 \<le> CurrentEpoch ei" and "epoch_room ei"
  shows "CurrentEpoch (advance t h ei) = CurrentEpoch ei + 1"
    and "epochs_behind u (advance t h ei) = epochs_behind u ei - 1"
    and "EpochCountingStarted (advance t h ei)"
    and "StartTime (advance t h ei) = StartTime ei" and "Duration (advance t h ei) = Duration ei"
proof -
  have adv: "advance t h ei = EndEpoch (ei\<lparr>CurrentEpochStartHeight := h\<rparr>)"
    using behind_due [OF assms(1-4)] by (simp add: advance_def)
  show "CurrentEpoch (advance t h ei) = CurrentEpoch ei + 1"
    using assms(5,6) by (simp add: adv EndEpoch_def epoch_room_def go_int)
  show "EpochCountingStarted (advance t h ei)" "StartTime (advance t h ei) = StartTime ei" "Duration (advance t h ei) = Duration ei"
    using assms(1) by (simp_all add: adv EndEpoch_def)
  have "(u - CurrentEpochStartTime ei - 1 - Duration ei) div Duration ei = (u - CurrentEpochStartTime ei - 1) div Duration ei - 1"
    using assms(3) div_add_self2 [of "Duration ei" "u - CurrentEpochStartTime ei - 1 - Duration ei"] by simp
  then show "epochs_behind u (advance t h ei) = epochs_behind u ei - 1"
    by (simp add: epochs_behind_def adv EndEpoch_def algebra_simps)
qed

text \<open>While a timer is behind at every block, each block ends exactly one epoch.\<close>

lemma late_blocks:
  assumes "EpochCountingStarted ei" and "0 < Duration ei" and "1 \<le> CurrentEpoch ei" and "CurrentEpoch ei + int (length bs) < 2 ^ 63"
    and "\<forall>j < length bs. StartTime ei \<le> fst (bs ! j) \<and> j < epochs_behind (fst (bs ! j)) ei"
  shows "CurrentEpoch (advance_blocks bs ei) = CurrentEpoch ei + int (length bs) \<and>
    epochs_behind u (advance_blocks bs ei) = epochs_behind u ei - length bs \<and> EpochCountingStarted (advance_blocks bs ei) \<and>
    StartTime (advance_blocks bs ei) = StartTime ei \<and> Duration (advance_blocks bs ei) = Duration ei"
  using assms
proof (induction bs arbitrary: ei)
  case (Cons b bs)
  obtain t h where b: "b = (t, h)" by fastforce
  have first: "StartTime ei \<le> t" "0 < epochs_behind t ei" using Cons.prems(5) b by auto
  have room: "epoch_room ei" using Cons.prems(4) by (simp add: epoch_room_def)
  note step = advance_ending [OF Cons.prems(1) first(1) Cons.prems(2) first(2) Cons.prems(3) room, where h = h]
  have "StartTime ei \<le> fst (bs ! j) \<and> j < epochs_behind (fst (bs ! j)) ei - 1" if "j < length bs" for j
    using Cons.prems(5) that by (auto dest!: spec [of _ "Suc j"])
  then have "CurrentEpoch (advance_blocks bs (advance t h ei)) = CurrentEpoch (advance t h ei) + int (length bs) \<and>
      epochs_behind u (advance_blocks bs (advance t h ei)) = epochs_behind u (advance t h ei) - length bs \<and>
      EpochCountingStarted (advance_blocks bs (advance t h ei)) \<and> StartTime (advance_blocks bs (advance t h ei)) = StartTime (advance t h ei) \<and>
      Duration (advance_blocks bs (advance t h ei)) = Duration (advance t h ei)"
    using Cons.prems step by (intro Cons.IH) simp_all
  then show ?case using step by (simp add: advance_blocks_def b)
qed (simp add: advance_blocks_def)

section \<open>Runs of blocks\<close>

definition run_blocks ::
  "'s EpochHooks list \<Rightarrow> (int \<times> int) list \<Rightarrow> 's epochs_ctx \<Rightarrow> go_panic + 's epochs_ctx" where
  "run_blocks mh blocks st = fold_res (\<lambda>(t, h). BeginBlocker mh t h) blocks st"

lemma BeginBlocker_store:
  "keyed (ec_store st) \<Longrightarrow> BeginBlocker mh t h st = Inr st'
     \<Longrightarrow> ec_store st' = advance_store t h (ec_store st)"
  by (auto simp: BeginBlocker_eq)

lemma run_blocks_store:
  assumes "keyed (ec_store st)" and "run_blocks mh bs st = Inr st'"
  shows "ec_store st' = map (\<lambda>(i, ei). (i, advance_blocks bs ei)) (ec_store st)"
  using assms
proof (induction bs arbitrary: st)
  case Nil
  then show ?case by (simp add: run_blocks_def advance_blocks_def)
next
  case (Cons b bs)
  obtain t h where b: "b = (t, h)" by fastforce
  from Cons.prems(2) obtain st1 where st1: "BeginBlocker mh t h st = Inr st1" and run: "run_blocks mh bs st1 = Inr st'"
    by (auto simp: run_blocks_def b)
  have store: "ec_store st1 = advance_store t h (ec_store st)" using BeginBlocker_store [OF Cons.prems(1) st1] .
  with Cons.prems(1) have "keyed (ec_store st1)" by (simp add: keyed_advance)
  from Cons.IH [OF this run] show ?case
    by (simp add: store advance_store_def case_prod_beta comp_def advance_blocks_def b)
qed

lemma run_blocks_take: "run_blocks mh bs st = Inr st' \<Longrightarrow> \<exists>st1. run_blocks mh (take n bs) st = Inr st1"
  using fold_res_append [of "\<lambda>(t, h). BeginBlocker mh t h" "take n bs" "drop n bs" st]
  by (cases "run_blocks mh (take n bs) st") (simp_all add: run_blocks_def)

lemma run_blocks_timer:
  assumes "keyed (ec_store st)" and "(i, ei) \<in> set (ec_store st)" and "run_blocks mh bs st = Inr st'"
  shows "GetEpochInfo (ec_store st') i = Some (advance_blocks bs ei)"
proof -
  have "map_of (ec_store st) i = Some ei" using assms(1,2) by (simp add: keyed_def kv_ok_def)
  then show ?thesis by (simp add: GetEpochInfo_def kv_get_def run_blocks_store [OF assms(1,3)] map_of_map)
qed

text \<open>
  Along blocks that come faster than epochs there is a first one that has caught up: before it the timer is further
  behind than blocks have come.
\<close>

lemma first_caught_up:
  fixes behind :: "nat \<Rightarrow> nat"
  assumes "0 < n" and "0 < behind 0" and "\<forall>i j. i \<le> j \<and> j < n \<longrightarrow> behind i \<le> behind j" and "behind (n - 1) \<le> n"
  shows "\<exists>m < n. behind m = Suc m \<and> (\<forall>j \<le> m. j < behind j)"
proof -
  define m where "m = (LEAST m. m < n \<and> behind m \<le> Suc m)"
  have "n - 1 < n \<and> behind (n - 1) \<le> Suc (n - 1)" using assms(1,4) by simp
  then have m: "m < n" "behind m \<le> Suc m" unfolding m_def by (metis (mono_tags, lifting) LeastI)+
  have before: "Suc j < behind j" if "j < m" for j
    using not_less_Least [of j "\<lambda>m. m < n \<and> behind m \<le> Suc m"] that m(1) by (auto simp: m_def)
  have "m < behind m"
  proof (cases m)
    case 0
    with assms(2) show ?thesis by simp
  next
    case (Suc k)
    with before [of k] assms(3) m(1) have "Suc k < behind k" "behind k \<le> behind m" by auto
    with Suc show ?thesis by simp
  qed
  with m before show ?thesis by (metis Suc_lessD le_antisym le_eq_less_or_eq not_less_eq_eq not_le)
qed

text \<open>
  C34: A late timer catches up along any blocks, whatever their heights, whose times do not decrease and which are as
  many as the timer is epochs behind at the last of them: there is a block \<open>n\<close> after which the timer is not due any more
  at the time of that block. Up to that block every block has ended exactly one epoch, so that none is skipped.
\<close>

theorem late_timer_catches_up:
  assumes "keyed (ec_store st)" and "(i, ei) \<in> set (ec_store st)"
    and "EpochCountingStarted ei" and "0 < Duration ei" and "1 \<le> CurrentEpoch ei" and "CurrentEpoch ei + int (length bs) < 2 ^ 63"
    and "bs \<noteq> []" and "sorted (map fst bs)" and "StartTime ei \<le> fst (hd bs)"
    and "0 < epochs_behind (fst (hd bs)) ei" and "epochs_behind (fst (last bs)) ei \<le> length bs"
    and "run_blocks mh bs st = Inr st'"
  shows "\<exists>n st1 ei1. n < length bs \<and> run_blocks mh (take (Suc n) bs) st = Inr st1 \<and> GetEpochInfo (ec_store st1) i = Some ei1 \<and>
    \<not> shouldEpochEnd (fst (bs ! n)) ei1 \<and> CurrentEpoch ei1 = CurrentEpoch ei + int (Suc n) \<and>
    (\<forall>m \<le> n. \<exists>st2 ei2. run_blocks mh (take m bs) st = Inr st2 \<and> GetEpochInfo (ec_store st2) i = Some ei2 \<and>
       shouldEpochEnd (fst (bs ! m)) ei2 \<and> CurrentEpoch ei2 = CurrentEpoch ei + int m)"
proof -
  let ?behind = "\<lambda>j. epochs_behind (fst (bs ! j)) ei"
  have times: "fst (bs ! j) \<le> fst (bs ! l)" if "j \<le> l" "l < length bs" for j l
    using sorted_nth_mono [OF assms(8), of j l] that by simp
  have "0 < length bs" "0 < ?behind 0" "?behind (length bs - 1) \<le> length bs"
    using assms(7,10,11) by (simp_all add: hd_conv_nth last_conv_nth)
  moreover have "\<forall>j l. j \<le> l \<and> l < length bs \<longrightarrow> ?behind j \<le> ?behind l"
    using times epochs_behind_mono [OF assms(4)] by blast
  ultimately obtain n where n: "n < length bs" "?behind n = Suc n" "\<forall>j \<le> n. j < ?behind j"
    using first_caught_up [of "length bs" ?behind] by blast
  have start: "StartTime ei \<le> fst (bs ! j)" if "j < length bs" for j
    using times [of 0 j] that assms(7,9) by (simp add: hd_conv_nth)
  have run: "\<exists>st2. run_blocks mh (take m bs) st = Inr st2 \<and> GetEpochInfo (ec_store st2) i = Some (advance_blocks (take m bs) ei)" for m
    using run_blocks_take [OF assms(12)] run_blocks_timer [OF assms(1,2)] by blast
  have late: "CurrentEpoch (advance_blocks (take m bs) ei) = CurrentEpoch ei + int m \<and>
      epochs_behind u (advance_blocks (take m bs) ei) = epochs_behind u ei - m \<and> EpochCountingStarted (advance_blocks (take m bs) ei) \<and>
      StartTime (advance_blocks (take m bs) ei) = StartTime ei \<and> Duration (advance_blocks (take m bs) ei) = Duration ei"
    if "m \<le> Suc n" for m u
    using late_blocks [OF assms(3,4,5), of "take m bs" u] that n assms(6) start by (auto simp: min_def)
  have "\<not> shouldEpochEnd (fst (bs ! n)) (advance_blocks (take (Suc n) bs) ei)"
    using late [of "Suc n"] n(2) assms(4) by (intro not_behind_not_due) simp_all
  moreover have "shouldEpochEnd (fst (bs ! m)) (advance_blocks (take m bs) ei)" if "m \<le> n" for m
    using late [of m "fst (bs ! m)"] that n(1,3) start [of m] assms(4) behind_due [of "advance_blocks (take m bs) ei" "fst (bs ! m)"] by auto
  ultimately show ?thesis using n(1) run late by (metis le_SucI le_refl)
qed

theorem late_timer_catches_up_witness:
  "\<exists>n st1 ei1. run_blocks [] (take n [(145, 9), (146, 10), (152, 11), (153, 12)]) sample_ctx = Inr st1 \<and>
     GetEpochInfo (ec_store st1) DayEpochID = Some ei1 \<and> 2 < CurrentEpoch ei1 \<and> CurrentEpoch ei1 \<le> 6"
proof -
  let ?bs = "[(145, 9), (146, 10), (152, 11), (153, 12)] :: (int \<times> int) list"
  have keyed: "keyed (ec_store sample_ctx)"
    by (simp add: keyed_def kv_ok_def sample_ctx_def sample_day_def)
  have some: "\<exists>st'. run_blocks [] bs st = Inr st'" if "keyed (ec_store st)" for bs and st :: "unit epochs_ctx"
    using that
  proof (induction bs arbitrary: st)
    case (Cons b bs)
    have quiet: "fold_res (step_hooks [] t) es s = Inr s" for t es and s :: unit
      by (induction es) (simp_all add: step_hooks_def MultiEpochHooks_AfterEpochEnd_def
          MultiEpochHooks_BeforeEpochStart_def Let_def)
    obtain st1 where st1: "BeginBlocker [] (fst b) (snd b) st = Inr st1"
      using BeginBlocker_eq [OF Cons.prems, of "[]" "fst b" "snd b"] by (simp add: quiet)
    with Cons.prems have "keyed (ec_store st1)" by (simp add: BeginBlocker_store keyed_advance)
    from Cons.IH [OF this] st1 show ?case by (cases b) (auto simp: run_blocks_def)
  qed (simp add: run_blocks_def)
  then obtain st' where run: "run_blocks [] ?bs sample_ctx = Inr st'" using keyed by blast
  have "(DayEpochID, sample_day) \<in> set (ec_store sample_ctx)" by (simp add: sample_ctx_def)
  moreover have "EpochCountingStarted sample_day" "0 < Duration sample_day" "1 \<le> CurrentEpoch sample_day"
    "CurrentEpoch sample_day + int (length ?bs) < 2 ^ 63" "?bs \<noteq> []" "sorted (map fst ?bs)" "StartTime sample_day \<le> fst (hd ?bs)"
    "0 < epochs_behind (fst (hd ?bs)) sample_day" "epochs_behind (fst (last ?bs)) sample_day \<le> length ?bs"
    by (simp_all add: sample_day_def epochs_behind_def)
  ultimately obtain n st1 ei1 where n: "n < length ?bs" "run_blocks [] (take (Suc n) ?bs) sample_ctx = Inr st1"
    "GetEpochInfo (ec_store st1) DayEpochID = Some ei1" "CurrentEpoch ei1 = CurrentEpoch sample_day + int (Suc n)"
    using late_timer_catches_up [OF keyed _ _ _ _ _ _ _ _ _ _ run] by blast
  moreover have "CurrentEpoch sample_day = 2" by (simp add: sample_day_def)
  ultimately show ?thesis by (intro exI [of _ "Suc n"] exI [of _ st1] exI [of _ ei1]) auto
qed

section \<open>Modules behind the hooks\<close>

text \<open>
  What a module that hangs hooks on the epochs promises: an invariant of its state that every
  hook keeps. The block handler then keeps it, over any run of blocks.
\<close>

locale epoch_client =
  fixes mh :: "'s EpochHooks list"
    and inv :: "'s \<Rightarrow> bool"
  assumes after_inv: "hk \<in> set mh \<Longrightarrow> inv s \<Longrightarrow> AfterEpochEnd_hook hk i n s = Inr s' \<Longrightarrow> inv s'"
    and before_inv: "hk \<in> set mh \<Longrightarrow> inv s \<Longrightarrow> BeforeEpochStart_hook hk i n s = Inr s' \<Longrightarrow> inv s'"
begin

lemma multi_after: "MultiEpochHooks_AfterEpochEnd mh i n s = Inr s' \<Longrightarrow> inv s \<Longrightarrow> inv s'"
  unfolding MultiEpochHooks_AfterEpochEnd_def by (erule fold_res_inv) (auto intro: after_inv)

lemma multi_before: "MultiEpochHooks_BeforeEpochStart mh i n s = Inr s' \<Longrightarrow> inv s \<Longrightarrow> inv s'"
  unfolding MultiEpochHooks_BeforeEpochStart_def by (erule fold_res_inv) (auto intro: before_inv)

lemma step_hooks_inv: "step_hooks mh t ei s = Inr s' \<Longrightarrow> inv s \<Longrightarrow> inv s'"
  by (auto simp: step_hooks_def Let_def split: if_splits dest: multi_after multi_before)

lemma block_inv:
  assumes "keyed (ec_store st)" and "inv (ec_mods st)" and "BeginBlocker mh t h st = Inr st'"
  shows "inv (ec_mods st')"
  using assms by (auto simp: BeginBlocker_eq intro: fold_res_inv step_hooks_inv)

lemma run_inv:
  assumes "keyed (ec_store st)" and "inv (ec_mods st)" and "run_blocks mh bs st = Inr st'"
  shows "keyed (ec_store st') \<and> inv (ec_mods st')"
  using assms
proof (induction bs arbitrary: st)
  case (Cons b bs)
  obtain t h where b: "b = (t, h)" by (cases b)
  with Cons.prems(3) obtain st1 where st1: "BeginBlocker mh t h st = Inr st1"
    and run: "run_blocks mh bs st1 = Inr st'"
    by (auto simp: run_blocks_def)
  from Cons.prems(1) st1 have "keyed (ec_store st1)"
    by (simp add: BeginBlocker_store keyed_advance)
  then show ?case
    using block_inv [OF Cons.prems(1,2) st1] run by (rule Cons.IH)
qed (simp add: run_blocks_def)

end

section \<open>Genesis\<close>

lemma AllEpochInfos_eq: "AllEpochInfos m = Inr (map snd m)"
proof -
  have "iterate_from (\<lambda>_ epoch epochs. Inr (False, epochs @ [epoch])) i es acc
      = (Inr (acc @ es) :: go_panic + _)" for i es acc
    by (induction es arbitrary: i acc) auto
  then show ?thesis by (simp add: AllEpochInfos_def IterateEpochInfo_def)
qed

lemma keyed_SetEpochInfo: "keyed m \<Longrightarrow> keyed (SetEpochInfo ei m)"
proof -
  have "\<forall>(k, ei) \<in> set m. Identifier ei = k \<Longrightarrow> Identifier e = j
      \<Longrightarrow> \<forall>(k, ei) \<in> set (kv_set j e m). Identifier ei = k" for e j
    by (induction j e m rule: kv_set.induct) auto
  then show "keyed m \<Longrightarrow> keyed (SetEpochInfo ei m)"
    by (auto simp: keyed_def SetEpochInfo_def kv_set_ok)
qed

lemma kv_set_fresh_mset: "k \<notin> fst ` set m \<Longrightarrow> mset (kv_set k v m) = add_mset (k, v) (mset m)"
  by (induction k v m rule: kv_set.induct) auto

lemma genesis_epoch_Identifier [simp]: "Identifier (genesis_epoch t h ei) = Identifier ei"
  by (simp add: genesis_epoch_def)

lemma InitGenesis_store:
  assumes "keyed m" and "distinct (map Identifier es)"
    and "\<forall>ei \<in> set es. Identifier ei \<notin> fst ` set m"
  shows "keyed (InitGenesis t h es m) \<and>
    mset (InitGenesis t h es m) =
      mset m + mset (map (\<lambda>ei. (Identifier ei, genesis_epoch t h ei)) es)"
  using assms
proof (induction es arbitrary: m)
  case (Cons ei es)
  let ?m = "SetEpochInfo (genesis_epoch t h ei) m"
  have "mset ?m = add_mset (Identifier ei, genesis_epoch t h ei) (mset m)"
    using Cons.prems(3) by (simp add: SetEpochInfo_def kv_set_fresh_mset)
  moreover have "fst ` set ?m = insert (Identifier ei) (fst ` set m)"
    by (simp add: SetEpochInfo_def kv_set_keys_set)
  moreover have "\<forall>e \<in> set es. Identifier e \<noteq> Identifier ei"
    using Cons.prems(2) by (auto simp: image_iff)
  ultimately show ?case
    using Cons.IH [of ?m] Cons.prems by (simp add: keyed_SetEpochInfo)
qed simp

lemma genesis_validate_from_iff:
  "genesis_validate_from seen es = Inr () \<longleftrightarrow>
     distinct (map Identifier es) \<and> set (map Identifier es) \<inter> set seen = {}
     \<and> (\<forall>ei \<in> set es. EpochInfo_Validate ei = Inr ())"
  by (induction seen es rule: genesis_validate_from.induct) auto

text \<open>
  Genesis round trip: what a validated genesis state initialises, the export returns, sorted
  by identifier, with no timer lost or added; an unset start time is the block time.
\<close>

theorem genesis_roundtrip:
  assumes "GenesisState_Validate es = Inr ()"
  shows "\<exists>out. ExportGenesis (InitGenesis t h es []) = Inr out
    \<and> mset out = mset (map (genesis_epoch t h) es)
    \<and> sorted (map Identifier out) \<and> distinct (map Identifier out)"
proof -
  let ?m = "InitGenesis t h es []"
  from assms have "distinct (map Identifier es)"
    by (simp add: GenesisState_Validate_def genesis_validate_from_iff)
  then have keyed: "keyed ?m"
    and mset: "mset ?m = mset (map (\<lambda>ei. (Identifier ei, genesis_epoch t h ei)) es)"
    using InitGenesis_store [of "[]" es t h] by (simp_all add: keyed_def kv_ok_def)
  have "mset (map snd ?m) = image_mset snd (mset ?m)" by simp
  also have "\<dots> = mset (map (genesis_epoch t h) es)"
    by (simp add: mset comp_def multiset.map_comp flip: mset_map)
  finally have "mset (map snd ?m) = mset (map (genesis_epoch t h) es)" .
  moreover from keyed have "map Identifier (map snd ?m) = map fst ?m"
    by (auto simp: keyed_def)
  ultimately show ?thesis
    using keyed by (metis ExportGenesis_def AllEpochInfos_eq keyed_def kv_ok_def)
qed

theorem genesis_roundtrip_witness:
  "GenesisState_Validate DefaultGenesisState = Inr () \<and>
   (\<exists>out. ExportGenesis (InitGenesis 50 1 DefaultGenesisState []) = Inr out
      \<and> sorted (map Identifier out) \<and> length out = 2)"
proof -
  have valid: "GenesisState_Validate DefaultGenesisState = Inr ()"
    by (simp add: GenesisState_Validate_def DefaultGenesisState_def EpochInfo_Validate_def
        WeekEpochID_def DayEpochID_def trim_space_def is_space_def)
  from genesis_roundtrip [OF valid, of 50 1] obtain out where
    out: "ExportGenesis (InitGenesis 50 1 DefaultGenesisState []) = Inr out"
      "mset out = mset (map (genesis_epoch 50 1) DefaultGenesisState)"
      "sorted (map Identifier out)" by blast
  from out(2) have "length out = length (map (genesis_epoch 50 1) DefaultGenesisState)"
    by (rule mset_eq_length)
  with valid out show ?thesis by (auto simp: DefaultGenesisState_def)
qed

end
