(* ===== verification/Halving.thy ===== *)
theory Halving
  imports Epochs "HOL-Library.Signed_Division"
begin

text \<open>
  The emission schedule of the chain (x/inflation/v1/types): the halving period of an epoch, the
  daily emission of a period, the supply cap, the module's parameters and their validation.

  \<^item> Epoch numbers are \<open>int64\<close>, periods and intervals \<open>uint64\<close>; every operation on them is
    written with its wrap-around.
  \<^item> \<open>math.Int\<close> is an unbounded integer here (the library stops at 256 bits). The parameters hold
    it as an option, because the zero value of the Go type is nil: an operation on nil panics.
  \<^item> \<open>math.LegacyDec\<close> is the integer \<open>10 ^ 18\<close> times the value. Its rounding operations come from
    outside the repository, so they are the argument \<open>dec_ops\<close>. So are the address and the
    denomination checks of the SDK, in \<open>sdk_fns\<close>.
\<close>

section \<open>The halving calculation\<close>

definition MaxHalvingPeriod :: int where "MaxHalvingPeriod = 63"

definition CalculateHalvingPeriod :: "int \<Rightarrow> int \<Rightarrow> int \<Rightarrow> go_panic + int" where
  "CalculateHalvingPeriod currentEpoch startEpoch halvingInterval =
     (if currentEpoch < startEpoch then Inr 0
      else let epochsSinceStart = u64 (i64 (i64 (currentEpoch - startEpoch) + 1))
           in if halvingInterval = 0 then Inl (GoPanic ''integer divide by zero'')
              else Inr (u64 (epochsSinceStart - 1) div halvingInterval))"

record ExponentialCalculation =
  ec_A :: int
  ec_R :: int
  ec_C :: int
  ec_BondingTarget :: int
  ec_MaxVariance :: int

record InflationDistribution =
  StakingRewards :: int
  UsageIncentives :: int
  CommunityPool :: int

record Params =
  MintDenom :: string
  Exponential :: ExponentialCalculation
  Distribution :: InflationDistribution
  EnableInflation :: bool
  DailyEmission :: "int option"
  HalvingIntervalEpochs :: int
  MultiSigAddress :: string
  MaxSupply :: "int option"

definition not_nil :: "int option \<Rightarrow> go_panic + int" where
  "not_nil x = (case x of None \<Rightarrow> Inl (GoPanic ''nil pointer dereference'') | Some v \<Rightarrow> Inr v)"

text \<open>\<open>math.NewInt(1 << p)\<close> shifts an \<open>int64\<close>; \<open>Quo\<close> truncates towards zero.\<close>

definition CalculateDailyEmission :: "Params \<Rightarrow> int \<Rightarrow> go_panic + int option" where
  "CalculateDailyEmission params currentHalvingPeriod =
     (if currentHalvingPeriod \<ge> MaxHalvingPeriod then Inr (Some 0)
      else if currentHalvingPeriod > 0 then
        (let divisor = i64 (2 ^ nat currentHalvingPeriod)
         in rbind (not_nil (DailyEmission params)) (\<lambda>e. Inr (Some (e sdiv divisor))))
      else Inr (DailyEmission params))"

definition ValidateSupplyCap :: "int \<Rightarrow> int \<Rightarrow> int \<Rightarrow> string + unit" where
  "ValidateSupplyCap currentSupply mintAmount maxSupply =
     (let newSupply = currentSupply + mintAmount
      in if newSupply > maxSupply then Inl ''minting would exceed max supply'' else Inr ())"

definition ShouldHalve :: "int \<Rightarrow> int \<Rightarrow> int \<Rightarrow> int \<Rightarrow> go_panic + bool" where
  "ShouldHalve currentEpoch startEpoch lastHalvingEpoch halvingInterval =
     rbind (CalculateHalvingPeriod currentEpoch startEpoch halvingInterval) (\<lambda>currentPeriod.
     rbind (CalculateHalvingPeriod (i64 lastHalvingEpoch) startEpoch halvingInterval) (\<lambda>lastPeriod.
     Inr (currentPeriod > lastPeriod)))"

definition GetNextHalvingEpoch :: "int \<Rightarrow> int \<Rightarrow> int \<Rightarrow> go_panic + int" where
  "GetNextHalvingEpoch currentEpoch startEpoch halvingInterval =
     rbind (CalculateHalvingPeriod currentEpoch startEpoch halvingInterval) (\<lambda>currentPeriod.
     Inr (i64 (startEpoch + i64 (u64 (u64 (currentPeriod + 1) * halvingInterval)))))"

definition EstimateRemainingSupply :: "int \<Rightarrow> int \<Rightarrow> int" where
  "EstimateRemainingSupply currentSupply maxSupply =
     (if currentSupply \<ge> maxSupply then 0 else maxSupply - currentSupply)"

definition IsValidEpochForHalving :: "string \<Rightarrow> bool" where
  "IsValidEpochForHalving epochIdentifier \<longleftrightarrow> epochIdentifier = DayEpochID"

record HalvingScheduleInfo =
  info_CurrentPeriod :: int
  info_CurrentEmission :: "int option"
  info_NextHalvingEpoch :: int
  info_EpochsUntilHalving :: int

definition GetHalvingScheduleInfo :: "int \<Rightarrow> int \<Rightarrow> Params \<Rightarrow> go_panic + HalvingScheduleInfo" where
  "GetHalvingScheduleInfo currentEpoch startEpoch params =
     rbind (CalculateHalvingPeriod currentEpoch startEpoch (HalvingIntervalEpochs params)) (\<lambda>currentPeriod.
     rbind (CalculateDailyEmission params currentPeriod) (\<lambda>currentEmission.
     rbind (GetNextHalvingEpoch currentEpoch startEpoch (HalvingIntervalEpochs params)) (\<lambda>nextHalvingEpoch.
     Inr \<lparr>info_CurrentPeriod = currentPeriod, info_CurrentEmission = currentEmission,
          info_NextHalvingEpoch = nextHalvingEpoch,
          info_EpochsUntilHalving = i64 (nextHalvingEpoch - currentEpoch)\<rparr>)))"

section \<open>Parameters and their validation\<close>

definition dec_one :: int where "dec_one = 10 ^ 18"

definition TruncateInt :: "int \<Rightarrow> int" where
  "TruncateInt d = d sdiv dec_one"

record 'a sdk_fns =
  AccAddressFromBech32 :: "string \<Rightarrow> string + 'a"
  ValidateDenom :: "string \<Rightarrow> string + unit"

definition DefaultMultiSigAddress :: string where
  "DefaultMultiSigAddress = ''nxq12zprcmal9hv52jqf2x4m59ztng0gnh7r96muj5''"

definition DefaultParams :: Params where
  "DefaultParams =
     \<lparr>MintDenom = ''unxq'',
      Exponential = \<lparr>ec_A = 300000000 * dec_one, ec_R = 50 * 10 ^ 16, ec_C = 9375000 * dec_one,
        ec_BondingTarget = 66 * 10 ^ 16, ec_MaxVariance = 0\<rparr>,
      Distribution = \<lparr>StakingRewards = 533333334 * 10 ^ 9, UsageIncentives = 0,
        CommunityPool = 466666666 * 10 ^ 9\<rparr>,
      EnableInflation = True,
      DailyEmission = Some 7200000000000000000000,
      HalvingIntervalEpochs = 1461,
      MultiSigAddress = DefaultMultiSigAddress,
      MaxSupply = Some 21000000000000000000000000\<rparr>"

definition NewParams ::
  "string \<Rightarrow> ExponentialCalculation \<Rightarrow> InflationDistribution \<Rightarrow> bool \<Rightarrow> Params" where
  "NewParams mintDenom exponentialCalculation inflationDistribution enableInflation =
     \<lparr>MintDenom = mintDenom, Exponential = exponentialCalculation,
      Distribution = inflationDistribution, EnableInflation = enableInflation,
      DailyEmission = None, HalvingIntervalEpochs = 0, MultiSigAddress = '''', MaxSupply = None\<rparr>"

definition validateMintDenom :: "'a sdk_fns \<Rightarrow> string \<Rightarrow> string + unit" where
  "validateMintDenom sdk v =
     (if trim_space v = '''' then Inl ''mint denom cannot be blank'' else ValidateDenom sdk v)"

definition validateExponentialCalculation :: "ExponentialCalculation \<Rightarrow> string + unit" where
  "validateExponentialCalculation v =
     (if ec_A v < 0 then Inl ''initial value cannot be negative''
      else if ec_R v > dec_one then Inl ''reduction factor cannot be greater than 1''
      else if ec_R v < 0 then Inl ''reduction factor cannot be negative''
      else if ec_C v < 0 then Inl ''long term inflation cannot be negative''
      else if ec_BondingTarget v > dec_one then Inl ''bonded target cannot be greater than 1''
      else if \<not> ec_BondingTarget v > 0 then Inl ''bonded target cannot be zero or negative''
      else if ec_MaxVariance v < 0 then Inl ''max variance cannot be negative''
      else Inr ())"

definition validateInflationDistribution :: "InflationDistribution \<Rightarrow> string + unit" where
  "validateInflationDistribution v =
     (if StakingRewards v < 0 then Inl ''staking distribution ratio must not be negative''
      else if UsageIncentives v \<noteq> 0 then Inl ''incentives pool distribution is deprecated''
      else if CommunityPool v < 0
        then Inl ''community pool distribution ratio must not be negative''
      else let totalProportions = StakingRewards v + UsageIncentives v + CommunityPool v
           in if totalProportions \<noteq> dec_one then Inl ''total distributions ratio should be 1''
              else Inr ())"

definition validateMultiSigAddress :: "'a sdk_fns \<Rightarrow> string \<Rightarrow> string + unit" where
  "validateMultiSigAddress sdk addr =
     (if addr = '''' then Inr ()
      else case AccAddressFromBech32 sdk addr of
             Inl err \<Rightarrow> Inl (''invalid bech32 address: '' @ err)
           | Inr _ \<Rightarrow> Inr ())"

definition ValidateHalvingParams :: "'a sdk_fns \<Rightarrow> Params \<Rightarrow> string + unit" where
  "ValidateHalvingParams sdk params =
     (case (DailyEmission params, MaxSupply params) of
        (Some dailyEmission, Some maxSupply) \<Rightarrow>
          if dailyEmission = 0 \<or> dailyEmission < 0 then Inl ''daily emission must be positive''
          else if HalvingIntervalEpochs params = 0
            then Inl ''halving interval epochs must be positive''
          else if maxSupply = 0 \<or> maxSupply < 0 then Inl ''max supply must be positive''
          else if dailyEmission > maxSupply then Inl ''daily emission cannot exceed max supply''
          else (case validateMultiSigAddress sdk (MultiSigAddress params) of
                  Inl err \<Rightarrow> Inl (''invalid multi-sig address in halving params: '' @ err)
                | Inr _ \<Rightarrow> Inr ())
      | _ \<Rightarrow> Inr ())"

definition Params_Validate :: "'a sdk_fns \<Rightarrow> Params \<Rightarrow> string + unit" where
  "Params_Validate sdk p =
     rbind (validateMintDenom sdk (MintDenom p)) (\<lambda>_.
     rbind (validateExponentialCalculation (Exponential p)) (\<lambda>_.
     rbind (validateInflationDistribution (Distribution p)) (\<lambda>_.
     rbind (validateMultiSigAddress sdk (MultiSigAddress p)) (\<lambda>_.
     ValidateHalvingParams sdk p))))"

section \<open>Genesis state\<close>

record HalvingData =
  CurrentPeriod :: int
  LastHalvingEpoch :: int
  StartEpoch :: int

record GenesisState =
  gs_Params :: Params
  gs_Period :: int
  gs_EpochIdentifier :: string
  gs_EpochsPerPeriod :: int
  gs_SkippedEpochs :: int
  gs_HalvingData :: HalvingData

definition infl_DefaultGenesisState :: GenesisState where
  "infl_DefaultGenesisState =
     \<lparr>gs_Params = DefaultParams, gs_Period = 0, gs_EpochIdentifier = DayEpochID,
      gs_EpochsPerPeriod = 365, gs_SkippedEpochs = 0,
      gs_HalvingData = \<lparr>CurrentPeriod = 0, LastHalvingEpoch = 0, StartEpoch = 1\<rparr>\<rparr>"

definition validateEpochsPerPeriod :: "int \<Rightarrow> string + unit" where
  "validateEpochsPerPeriod v =
     (if v \<le> 0 then Inl ''epochs per period must be positive'' else Inr ())"

definition validateHalvingData :: "HalvingData \<Rightarrow> string + unit" where
  "validateHalvingData halvingData =
     (if StartEpoch halvingData = 0 then Inl ''halving start epoch must be positive'' else Inr ())"

definition infl_GenesisState_Validate :: "'a sdk_fns \<Rightarrow> GenesisState \<Rightarrow> string + unit" where
  "infl_GenesisState_Validate sdk gs =
     rbind (ValidateEpochIdentifierString (gs_EpochIdentifier gs)) (\<lambda>_.
     rbind (validateEpochsPerPeriod (gs_EpochsPerPeriod gs)) (\<lambda>_.
     rbind (validateHalvingData (gs_HalvingData gs)) (\<lambda>_.
     Params_Validate sdk (gs_Params gs))))"

section \<open>The exponential calculation kept for old queries\<close>

record dec_ops =
  dec_Mul :: "int \<Rightarrow> int \<Rightarrow> int"
  dec_Quo :: "int \<Rightarrow> int \<Rightarrow> go_panic + int"
  dec_QuoInt :: "int \<Rightarrow> int \<Rightarrow> go_panic + int"
  dec_Power :: "int \<Rightarrow> int \<Rightarrow> int"

definition ReductionFactor :: int where "ReductionFactor = 3"

definition PowerReduction :: int where "PowerReduction = 10 ^ 18"

text \<open>
  The code compares \<open>maxVariance != math.LegacyZeroDec()\<close>. That compares the pointers inside two
  structs, so it is always true, and the model takes the first branch.
\<close>

definition CalculateEpochMintProvision ::
  "dec_ops \<Rightarrow> Params \<Rightarrow> int \<Rightarrow> int \<Rightarrow> int \<Rightarrow> go_panic + int" where
  "CalculateEpochMintProvision D params period epochsPerPeriod bondedRatio0 =
     (let x = period;
          a = ec_A (Exponential params); r = ec_R (Exponential params); c = ec_C (Exponential params);
          bTarget = ec_BondingTarget (Exponential params);
          maxVariance = ec_MaxVariance (Exponential params);
          decay = dec_one - r;
          exponentialDecay = dec_Mul D a (dec_Power D decay x);
          bondedRatio = (if bondedRatio0 \<ge> bTarget then bTarget else bondedRatio0)
      in rbind (dec_Quo D bondedRatio bTarget) (\<lambda>ratio.
         let sub = dec_Mul D maxVariance ratio;
             bondingIncentive = dec_one + maxVariance - sub;
             periodProvision = dec_Mul D exponentialDecay bondingIncentive + c
         in rbind (dec_Quo D periodProvision (ReductionFactor * dec_one)) (\<lambda>reducedPeriodProvision.
            rbind (dec_Quo D reducedPeriodProvision (epochsPerPeriod * dec_one)) (\<lambda>epochProvision.
            Inr (dec_Mul D epochProvision (PowerReduction * dec_one))))))"

section \<open>Periods and emissions as closed formulas\<close>

lemma CalculateHalvingPeriod_before:
  "currentEpoch < startEpoch \<Longrightarrow> CalculateHalvingPeriod currentEpoch startEpoch interval = Inr 0"
  by (simp add: CalculateHalvingPeriod_def)

lemma CalculateHalvingPeriod_eq:
  assumes "0 \<le> startEpoch" and "startEpoch \<le> currentEpoch" and "currentEpoch < 2 ^ 63"
    and "0 < interval"
  shows "CalculateHalvingPeriod currentEpoch startEpoch interval
    = Inr ((currentEpoch - startEpoch) div interval)"
proof -
  have "u64 (i64 (i64 (currentEpoch - startEpoch) + 1)) = currentEpoch - startEpoch + 1"
    using assms by (simp add: i64_id u64_id)
  then show ?thesis
    using assms by (simp add: CalculateHalvingPeriod_def u64_id)
qed

lemma CalculateHalvingPeriod_panics:
  "startEpoch \<le> currentEpoch \<Longrightarrow>
     CalculateHalvingPeriod currentEpoch startEpoch 0 = Inl (GoPanic ''integer divide by zero'')"
  by (simp add: CalculateHalvingPeriod_def)

lemma CalculateHalvingPeriod_total:
  "interval \<noteq> 0 \<Longrightarrow> \<exists>p. CalculateHalvingPeriod currentEpoch startEpoch interval = Inr p"
  by (simp add: CalculateHalvingPeriod_def Let_def)

lemma CalculateHalvingPeriod_nonneg:
  assumes "CalculateHalvingPeriod currentEpoch startEpoch interval = Inr p" and "0 \<le> interval"
  shows "0 \<le> p"
proof -
  have "0 \<le> u64 x div interval" for x
    using assms(2) by (simp add: u64_def pos_imp_zdiv_nonneg_iff div_int_pos_iff)
  with assms(1) show ?thesis
    by (auto simp: CalculateHalvingPeriod_def Let_def split: if_splits)
qed

lemma period_iff:
  assumes "0 \<le> startEpoch" and "startEpoch \<le> currentEpoch" and "currentEpoch < 2 ^ 63"
    and "0 < interval"
  shows "CalculateHalvingPeriod currentEpoch startEpoch interval = Inr p \<longleftrightarrow>
    startEpoch + p * interval \<le> currentEpoch \<and> currentEpoch < startEpoch + (p + 1) * interval"
proof -
  let ?d = "currentEpoch - startEpoch"
  have "?d div interval = p \<longleftrightarrow> p * interval \<le> ?d \<and> ?d < (p + 1) * interval"
  proof
    assume "?d div interval = p"
    then have "?d = p * interval + ?d mod interval" by (metis div_mult_mod_eq)
    moreover have "0 \<le> ?d mod interval" and "?d mod interval < interval"
      using assms(4) by simp_all
    moreover have "(p + 1) * interval = p * interval + interval" by (simp add: distrib_right)
    ultimately show "p * interval \<le> ?d \<and> ?d < (p + 1) * interval" by linarith
  next
    assume "p * interval \<le> ?d \<and> ?d < (p + 1) * interval"
    then have "0 \<le> ?d - p * interval" "?d - p * interval < interval"
      by (simp_all add: distrib_right)
    then show "?d div interval = p"
      by (intro int_div_pos_eq [of _ _ _ "?d - p * interval"]) simp_all
  qed
  then show ?thesis
    by (auto simp: CalculateHalvingPeriod_eq [OF assms])
qed

text \<open>
  The halving period is the step function the schedule promises: an epoch is in period p
  exactly when it is at least p and less than p + 1 intervals after the start epoch.
\<close>

theorem halving_period_iff:
  assumes "0 \<le> startEpoch" and "startEpoch \<le> currentEpoch" and "currentEpoch < 2 ^ 63"
    and "0 < interval"
  shows "CalculateHalvingPeriod currentEpoch startEpoch interval = Inr p \<longleftrightarrow>
    startEpoch + p * interval \<le> currentEpoch \<and> currentEpoch < startEpoch + (p + 1) * interval"
  using assms by (rule period_iff)

theorem halving_period_iff_witness:
  "CalculateHalvingPeriod 1461 1 1461 = Inr 0 \<and> CalculateHalvingPeriod 1462 1 1461 = Inr 1"
  using halving_period_iff [of 1 1461 1461 0] halving_period_iff [of 1 1462 1461 1] by simp

definition emission :: "int \<Rightarrow> int \<Rightarrow> int" where
  "emission initial p = (if p < MaxHalvingPeriod then initial div 2 ^ nat p else 0)"

lemma CalculateDailyEmission_eq:
  assumes "DailyEmission params = Some initial" and "0 \<le> initial" and "0 \<le> p"
  shows "CalculateDailyEmission params p = Inr (Some (emission initial p))"
proof -
  have "initial sdiv i64 (2 ^ nat p) = initial div 2 ^ nat p" if "p < 63"
  proof -
    have "(2::int) ^ nat p < 2 ^ 63"
      using that by (intro power_strict_increasing) auto
    moreover have "0 \<le> (2::int) ^ nat p" by simp
    ultimately have "i64 (2 ^ nat p) = 2 ^ nat p" by (intro i64_id) linarith+
    then show ?thesis using assms(2) by (simp add: signed_divide_int_def sgn_if)
  qed
  then show ?thesis
    using assms by (auto simp: CalculateDailyEmission_def not_nil_def emission_def
        MaxHalvingPeriod_def Let_def)
qed

text \<open>
  The daily emission halves from one period to the next, rounding down, and is zero from
  period 63 on; it starts at the configured amount.
\<close>

theorem daily_emission_halves:
  assumes "DailyEmission params = Some initial" and "0 \<le> initial" and "0 \<le> p"
  shows "CalculateDailyEmission params 0 = Inr (Some initial)
    \<and> CalculateDailyEmission params p = Inr (Some (emission initial p))
    \<and> (p + 1 < 63 \<longrightarrow> CalculateDailyEmission params (p + 1) = Inr (Some (emission initial p div 2)))
    \<and> (63 \<le> p \<longrightarrow> emission initial p = 0)"
proof -
  have "emission initial (p + 1) = emission initial p div 2" if "p + 1 < 63"
  proof -
    have "(2::int) ^ nat (p + 1) = 2 ^ nat p * 2"
      using assms(3) by (simp add: nat_add_distrib)
    with that show ?thesis
      by (simp add: emission_def MaxHalvingPeriod_def zdiv_zmult2_eq)
  qed
  moreover have "CalculateDailyEmission params 0 = Inr (Some initial)"
    using assms by (simp add: CalculateDailyEmission_def MaxHalvingPeriod_def)
  ultimately show ?thesis
    using assms CalculateDailyEmission_eq [OF assms(1,2), of "p + 1"]
    by (simp add: CalculateDailyEmission_eq emission_def MaxHalvingPeriod_def)
qed

theorem daily_emission_halves_witness:
  "CalculateDailyEmission DefaultParams 1 = Inr (Some 3600000000000000000000)"
  using daily_emission_halves [of DefaultParams 7200000000000000000000 0]
  by (simp add: DefaultParams_def emission_def MaxHalvingPeriod_def)

lemma emission_nonneg: "0 \<le> initial \<Longrightarrow> 0 \<le> emission initial p"
  by (simp add: emission_def pos_imp_zdiv_nonneg_iff)

lemma emission_le: "0 \<le> initial \<Longrightarrow> emission initial p \<le> initial"
  using zdiv_mono2 [of initial 1 "2 ^ nat p"] by (simp add: emission_def)

section \<open>The whole schedule\<close>

text \<open>The sum of the halved emissions of the first \<open>m\<close> periods never reaches twice the first one.\<close>

lemma halves_sum:
  assumes "0 \<le> (initial::int)"
  shows "(\<Sum>p<m. initial div 2 ^ p) + 2 * (initial div 2 ^ m) \<le> 2 * initial"
proof (induction m)
  case (Suc m)
  have "initial div 2 ^ Suc m = initial div 2 ^ m div 2"
    by (simp add: mult.commute flip: zdiv_zmult2_eq)
  then have "2 * (initial div 2 ^ Suc m) \<le> initial div 2 ^ m" by simp
  with Suc.IH show ?case by simp
qed simp

lemma emission_sum:
  assumes "0 \<le> initial"
  shows "(\<Sum>p<m. emission initial (int p)) \<le> 2 * initial"
proof -
  have "(\<Sum>p<m. emission initial (int p)) \<le> (\<Sum>p<m. initial div 2 ^ p)"
    using assms by (intro sum_mono) (auto simp: emission_def pos_imp_zdiv_nonneg_iff)
  also have "\<dots> \<le> 2 * initial"
    using halves_sum [OF assms, of m] assms
    by (smt (verit) pos_imp_zdiv_nonneg_iff zero_less_power)
  finally show ?thesis .
qed

lemma grouped_sum:
  fixes f :: "nat \<Rightarrow> int"
  shows "0 < i \<Longrightarrow> (\<Sum>k<m * i. f (k div i)) = int i * (\<Sum>p<m. f p)"
proof (induction m)
  case (Suc m)
  have "(\<Sum>k = m * i..<m * i + i. f (k div i)) = (\<Sum>k = m * i..<m * i + i. f m)"
  proof (intro sum.cong refl)
    fix k assume "k \<in> {m * i..<m * i + i}"
    then have "k div i = m" by (intro div_nat_eqI) (auto simp: algebra_simps)
    then show "f (k div i) = f m" by simp
  qed
  moreover have "{..<Suc m * i} = {..<m * i} \<union> {m * i..<m * i + i}" by auto
  ultimately have "(\<Sum>k<Suc m * i. f (k div i)) = (\<Sum>k<m * i. f (k div i)) + int i * f m"
    by (simp add: sum.union_disjoint ivl_disj_int)
  with Suc show ?case by (simp add: distrib_left)
qed simp

text \<open>What the schedule emits for the epoch \<open>e\<close>, and in the first \<open>n\<close> epochs together.\<close>

definition epoch_emission :: "Params \<Rightarrow> int \<Rightarrow> int \<Rightarrow> go_panic + int option" where
  "epoch_emission params startEpoch e =
     rbind (CalculateHalvingPeriod e startEpoch (HalvingIntervalEpochs params))
       (CalculateDailyEmission params)"

definition scheduled :: "Params \<Rightarrow> int \<Rightarrow> nat \<Rightarrow> int" where
  "scheduled params startEpoch n =
     (\<Sum>k<n. case epoch_emission params startEpoch (startEpoch + int k) of
        Inr (Some x) \<Rightarrow> x | _ \<Rightarrow> 0)"

lemma epoch_emission_eq:
  assumes "DailyEmission params = Some initial" and "0 \<le> initial"
    and "0 < HalvingIntervalEpochs params" and "0 \<le> startEpoch" and "startEpoch \<le> e" and "e < 2 ^ 63"
  shows "epoch_emission params startEpoch e
    = Inr (Some (emission initial ((e - startEpoch) div HalvingIntervalEpochs params)))"
proof -
  have "0 \<le> (e - startEpoch) div HalvingIntervalEpochs params"
    using assms by (simp add: pos_imp_zdiv_nonneg_iff)
  with assms show ?thesis
    by (simp add: epoch_emission_def CalculateHalvingPeriod_eq CalculateDailyEmission_eq)
qed

text \<open>
  C24: The whole schedule is bounded: however many epochs pass, the emissions of all of them
  together stay within twice the halving interval times the first daily emission.
\<close>

theorem schedule_bounded:
  assumes "DailyEmission params = Some initial" and "0 \<le> initial"
    and "0 < HalvingIntervalEpochs params" and "0 \<le> startEpoch" and "startEpoch + int n < 2 ^ 63"
  shows "scheduled params startEpoch n \<le> 2 * HalvingIntervalEpochs params * initial"
proof -
  let ?i = "nat (HalvingIntervalEpochs params)"
  let ?m = "n div ?i + 1"
  have i: "HalvingIntervalEpochs params = int ?i" and "0 < ?i" using assms(3) by simp_all
  have "scheduled params startEpoch n = (\<Sum>k<n. emission initial (int (k div ?i)))"
    unfolding scheduled_def
  proof (intro sum.cong refl)
    fix k assume "k \<in> {..<n}"
    then have "epoch_emission params startEpoch (startEpoch + int k)
        = Inr (Some (emission initial (int k div HalvingIntervalEpochs params)))"
      using assms epoch_emission_eq [OF assms(1-4), of "startEpoch + int k"] by simp
    moreover have "int k div HalvingIntervalEpochs params = int (k div ?i)"
      by (subst i) (simp add: zdiv_int)
    ultimately show "(case epoch_emission params startEpoch (startEpoch + int k) of
        Inr (Some x) \<Rightarrow> x | _ \<Rightarrow> 0) = emission initial (int (k div ?i))" by simp
  qed
  also have "\<dots> \<le> (\<Sum>k<?m * ?i. emission initial (int (k div ?i)))"
  proof (rule sum_mono2)
    have "n < ?m * ?i" using \<open>0 < ?i\<close> dividend_less_div_times [of ?i n] by simp
    then show "{..<n} \<subseteq> {..<?m * ?i}" by auto
  qed (simp_all add: emission_nonneg assms(2))
  also have "\<dots> = int ?i * (\<Sum>p<?m. emission initial (int p))"
    using \<open>0 < ?i\<close> by (rule grouped_sum)
  also have "\<dots> \<le> int ?i * (2 * initial)"
    using emission_sum [OF assms(2), of ?m] by (intro mult_left_mono) simp_all
  finally show ?thesis using i by (simp add: mult.assoc mult.left_commute)
qed

theorem schedule_bounded_witness:
  "scheduled DefaultParams 1 100000 \<le> 21038400000000000000000000"
  using schedule_bounded [of DefaultParams 7200000000000000000000 1 100000]
  by (simp add: DefaultParams_def)

text \<open>
  GetNextHalvingEpoch returns the first epoch after the current one with a later period, and
  that period is the next one.
\<close>

theorem next_halving_epoch_first:
  assumes "0 \<le> startEpoch" and "startEpoch \<le> currentEpoch" and "currentEpoch < 2 ^ 63"
    and "0 < interval" and "CalculateHalvingPeriod currentEpoch startEpoch interval = Inr p"
    and "startEpoch + (p + 1) * interval < 2 ^ 63"
  shows "\<exists>e. GetNextHalvingEpoch currentEpoch startEpoch interval = Inr e
    \<and> currentEpoch < e
    \<and> CalculateHalvingPeriod e startEpoch interval = Inr (p + 1)
    \<and> CalculateHalvingPeriod (e - 1) startEpoch interval = Inr p"
proof -
  let ?e = "startEpoch + (p + 1) * interval"
  note range = period_iff [OF assms(1-4), of p]
  have "0 \<le> p" using assms(4,5) by (auto intro: CalculateHalvingPeriod_nonneg)
  then have pos: "0 < (p + 1) * interval" using assms(4) by simp
  have "p + 1 \<le> (p + 1) * interval"
    using \<open>0 \<le> p\<close> assms(4) by (simp add: mult_le_cancel_left1)
  with pos assms(1,6) have "p + 1 < 2 ^ 63" and "(p + 1) * interval < 2 ^ 63" by linarith+
  then have "i64 (startEpoch + i64 (u64 (u64 (p + 1) * interval))) = ?e"
    using \<open>0 \<le> p\<close> pos assms(1,6) by (simp add: u64_id i64_id)
  then have next_: "GetNextHalvingEpoch currentEpoch startEpoch interval = Inr ?e"
    by (simp add: GetNextHalvingEpoch_def assms(5))
  have "currentEpoch < ?e" using range assms(5) by simp
  moreover have "CalculateHalvingPeriod ?e startEpoch interval = Inr (p + 1)"
    using assms(1,4,6) pos
    by (intro iffD2 [OF period_iff]) (simp_all add: distrib_right)
  moreover have "CalculateHalvingPeriod (?e - 1) startEpoch interval = Inr p"
    using assms(1,4,6) pos
    by (intro iffD2 [OF period_iff]) (simp_all add: distrib_right)
  ultimately show ?thesis using next_ by blast
qed

theorem next_halving_epoch_first_witness:
  "\<exists>e. GetNextHalvingEpoch 5 1 1461 = Inr e \<and> CalculateHalvingPeriod e 1 1461 = Inr 1"
proof -
  have "CalculateHalvingPeriod 5 1 1461 = Inr 0"
    by (simp add: CalculateHalvingPeriod_eq)
  from next_halving_epoch_first [OF _ _ _ _ this] show ?thesis by auto
qed

end
