(* ===== verification/Inflation.thy ===== *)
theory Inflation
  imports Halving
begin

text \<open>
  The keeper of the inflation module (x/inflation/v1/keeper): its store, the mint at the end of a
  day, the message that changes the parameters, genesis.

  \<^item> \<open>infl_store\<close> has one field per key of the module's store; \<open>None\<close> is an unset key.
  \<^item> The bank, account, staking and distribution keepers and the address codec are outside the
    module. They are the functions of \<open>infl_env\<close> over a ledger of any type \<open>'b\<close>;
    \<open>bank_laws\<close> states the documented behaviour the properties use.
  \<^item> \<open>AfterEpochEnd\<close> returns the new state or the panic that stops the block. Logging and
    telemetry are left out.
\<close>

section \<open>The store\<close>

record infl_store =
  st_Params :: "Params option"
  st_Period :: "int option"
  st_EpochIdentifier :: "string option"
  st_EpochsPerPeriod :: "int option"
  st_SkippedEpochs :: "int option"
  st_EpochMintProvision :: "int option"
  st_HalvingData :: "HalvingData option"

definition get_or :: "'v \<Rightarrow> 'v option \<Rightarrow> 'v" where
  "get_or d x = (case x of None \<Rightarrow> d | Some v \<Rightarrow> v)"

lemma get_or_simps [simp]: "get_or d None = d" "get_or d (Some v) = v"
  by (simp_all add: get_or_def)

text \<open>The zero value of the parameters, which \<open>GetParams\<close> returns when nothing is stored.\<close>

definition zero_Params :: Params where
  "zero_Params = NewParams '''' \<lparr>ec_A = 0, ec_R = 0, ec_C = 0, ec_BondingTarget = 0,
     ec_MaxVariance = 0\<rparr> \<lparr>StakingRewards = 0, UsageIncentives = 0, CommunityPool = 0\<rparr> False"

definition GetParams :: "infl_store \<Rightarrow> Params" where
  "GetParams m = get_or zero_Params (st_Params m)"

text \<open>
  \<open>math.Int\<close> encodes nil as zero, so parameters with unset amounts read back with zero amounts.
\<close>

definition encoded_Params :: "Params \<Rightarrow> Params" where
  "encoded_Params params = params
     \<lparr>DailyEmission := Some (get_or 0 (DailyEmission params)),
      MaxSupply := Some (get_or 0 (MaxSupply params))\<rparr>"

definition SetParams :: "'a sdk_fns \<Rightarrow> Params \<Rightarrow> infl_store \<Rightarrow> string + infl_store" where
  "SetParams sdk params m =
     (case Params_Validate sdk params of
        Inl err \<Rightarrow> Inl (''invalid params: '' @ err)
      | Inr _ \<Rightarrow> (case ValidateHalvingParams sdk params of
          Inl err \<Rightarrow> Inl (''invalid halving params: '' @ err)
        | Inr _ \<Rightarrow> Inr (m\<lparr>st_Params := Some (encoded_Params params)\<rparr>)))"

definition GetPeriod :: "infl_store \<Rightarrow> int" where
  "GetPeriod m = get_or 0 (st_Period m)"

definition SetPeriod :: "int \<Rightarrow> infl_store \<Rightarrow> infl_store" where
  "SetPeriod period m = m\<lparr>st_Period := Some period\<rparr>"

definition GetEpochIdentifier :: "infl_store \<Rightarrow> string" where
  "GetEpochIdentifier m = get_or '''' (st_EpochIdentifier m)"

definition SetEpochIdentifier :: "string \<Rightarrow> infl_store \<Rightarrow> infl_store" where
  "SetEpochIdentifier epochIdentifier m = m\<lparr>st_EpochIdentifier := Some epochIdentifier\<rparr>"

definition GetEpochsPerPeriod :: "infl_store \<Rightarrow> int" where
  "GetEpochsPerPeriod m = i64 (get_or 0 (st_EpochsPerPeriod m))"

definition SetEpochsPerPeriod :: "int \<Rightarrow> infl_store \<Rightarrow> infl_store" where
  "SetEpochsPerPeriod epochsPerPeriod m = m\<lparr>st_EpochsPerPeriod := Some (u64 epochsPerPeriod)\<rparr>"

definition GetSkippedEpochs :: "infl_store \<Rightarrow> int" where
  "GetSkippedEpochs m = get_or 0 (st_SkippedEpochs m)"

definition SetSkippedEpochs :: "int \<Rightarrow> infl_store \<Rightarrow> infl_store" where
  "SetSkippedEpochs skippedEpochs m = m\<lparr>st_SkippedEpochs := Some skippedEpochs\<rparr>"

definition SetEpochMintProvision :: "int \<Rightarrow> infl_store \<Rightarrow> infl_store" where
  "SetEpochMintProvision provision m = m\<lparr>st_EpochMintProvision := Some provision\<rparr>"

definition GetStoredEpochMintProvision :: "infl_store \<Rightarrow> int" where
  "GetStoredEpochMintProvision m = get_or 0 (st_EpochMintProvision m)"

text \<open>
  A \<open>HalvingData\<close> whose fields are all zero is encoded as no bytes at all, and \<open>GetHalvingData\<close>
  takes an empty value for an unset key.
\<close>

definition default_HalvingData :: HalvingData where
  "default_HalvingData = \<lparr>CurrentPeriod = 0, LastHalvingEpoch = 0, StartEpoch = 1\<rparr>"

definition zero_HalvingData :: HalvingData where
  "zero_HalvingData = \<lparr>CurrentPeriod = 0, LastHalvingEpoch = 0, StartEpoch = 0\<rparr>"

definition GetHalvingData :: "infl_store \<Rightarrow> HalvingData" where
  "GetHalvingData m =
     (case st_HalvingData m of
        None \<Rightarrow> default_HalvingData
      | Some halvingData \<Rightarrow>
          if halvingData = zero_HalvingData then default_HalvingData else halvingData)"

definition SetHalvingData :: "HalvingData \<Rightarrow> infl_store \<Rightarrow> infl_store" where
  "SetHalvingData halvingData m = m\<lparr>st_HalvingData := Some halvingData\<rparr>"

definition InitializeHalvingData :: "int \<Rightarrow> infl_store \<Rightarrow> infl_store" where
  "InitializeHalvingData startEpoch m =
     SetHalvingData \<lparr>CurrentPeriod = 0, LastHalvingEpoch = 0, StartEpoch = startEpoch\<rparr> m"

section \<open>The other keepers\<close>

type_synonym coin = "string \<times> int"

record ('b, 'a) infl_env =
  env_sdk :: "'a sdk_fns"
  env_dec :: dec_ops
  bank_GetSupply :: "'b \<Rightarrow> string \<Rightarrow> int"
  bank_MintCoins :: "'b \<Rightarrow> string \<Rightarrow> coin list \<Rightarrow> string + 'b"
  bank_SendCoinsFromModuleToAccount :: "'b \<Rightarrow> string \<Rightarrow> 'a \<Rightarrow> coin list \<Rightarrow> string + 'b"
  bank_SendCoinsFromModuleToModule :: "'b \<Rightarrow> string \<Rightarrow> string \<Rightarrow> coin list \<Rightarrow> string + 'b"
  bank_GetAllBalances :: "'b \<Rightarrow> 'a \<Rightarrow> coin list"
  account_GetModuleAddress :: "string \<Rightarrow> 'a"
  distr_FundCommunityPool :: "'b \<Rightarrow> coin list \<Rightarrow> 'a \<Rightarrow> string + 'b"
  staking_StakingTokenSupply :: "'b \<Rightarrow> int"
  staking_TotalBondedTokens :: "'b \<Rightarrow> int"
  evm_MultiSigAddress :: "('b \<Rightarrow> string) option"
  env_ChainID :: string
  env_feeCollectorName :: string
  env_authority :: string

definition ModuleName :: string where "ModuleName = ''inflation''"

definition MainnetChainID :: string where "MainnetChainID = ''nxqd_90009''"

definition IsMainnet :: "string \<Rightarrow> bool" where
  "IsMainnet chainID \<longleftrightarrow> take (length MainnetChainID) chainID = MainnetChainID"

section \<open>Minting\<close>

definition MintCoins :: "('b, 'a) infl_env \<Rightarrow> coin \<Rightarrow> 'b \<Rightarrow> string + 'b" where
  "MintCoins E coin b = bank_MintCoins E b ModuleName [coin]"

definition GetProportions :: "('b, 'a) infl_env \<Rightarrow> coin \<Rightarrow> int \<Rightarrow> coin" where
  "GetProportions E coin distribution =
     (fst coin, TruncateInt (dec_Mul (env_dec E) (snd coin * dec_one) distribution))"

definition AllocateExponentialInflation ::
  "('b, 'a) infl_env \<Rightarrow> coin \<Rightarrow> Params \<Rightarrow> 'b \<Rightarrow> string + (coin list \<times> coin list) \<times> 'b" where
  "AllocateExponentialInflation E mintedCoin params b =
     (let staking = [GetProportions E mintedCoin (StakingRewards (Distribution params))]
      in rbind (bank_SendCoinsFromModuleToModule E b ModuleName (env_feeCollectorName E) staking) (\<lambda>b1.
         let moduleAddr = account_GetModuleAddress E ModuleName;
             inflationBalance = bank_GetAllBalances E b1 moduleAddr
         in rbind (distr_FundCommunityPool E b1 inflationBalance moduleAddr) (\<lambda>b2.
            Inr ((staking, []), b2))))"

definition MintAndAllocateInflation ::
  "('b, 'a) infl_env \<Rightarrow> coin \<Rightarrow> Params \<Rightarrow> 'b \<Rightarrow> string + (coin list \<times> coin list) \<times> 'b" where
  "MintAndAllocateInflation E coin params b =
     (if \<not> snd coin > 0 then Inr (([], []), b)
      else rbind (MintCoins E coin b) (AllocateExponentialInflation E coin params))"

definition MintAndSendToMultiSig ::
  "('b, 'a) infl_env \<Rightarrow> coin \<Rightarrow> Params \<Rightarrow> 'b \<Rightarrow> string + 'b" where
  "MintAndSendToMultiSig E coin params b =
     (if \<not> snd coin > 0 then Inr b
      else if MultiSigAddress params = '''' then Inl ''multi-sig address is not set''
      else case AccAddressFromBech32 (env_sdk E) (MultiSigAddress params) of
        Inl err \<Rightarrow> Inl (''invalid multi-sig address: '' @ err)
      | Inr multiSigAddr \<Rightarrow>
          (case MintCoins E coin b of
             Inl err \<Rightarrow> Inl (''failed to mint coins: '' @ err)
           | Inr b1 \<Rightarrow>
               (case bank_SendCoinsFromModuleToAccount E b1 ModuleName multiSigAddr [coin] of
                  Inl err \<Rightarrow> Inl (''failed to send coins to multi-sig: '' @ err)
                | Inr b2 \<Rightarrow> Inr b2)))"

definition teamAlloc :: int where "teamAlloc = 0"

definition BondedRatio :: "('b, 'a) infl_env \<Rightarrow> 'b \<Rightarrow> go_panic + int" where
  "BondedRatio E b =
     (let stakeSupply = staking_StakingTokenSupply E b;
          isMainnet = IsMainnet (env_ChainID E)
      in if \<not> stakeSupply > 0 \<or> (isMainnet \<and> stakeSupply \<le> teamAlloc) then Inr 0
         else let stakeSupply' = (if isMainnet then stakeSupply - teamAlloc else stakeSupply)
              in dec_QuoInt (env_dec E) (staking_TotalBondedTokens E b * dec_one) stakeSupply')"

definition GetCirculatingSupply :: "('b, 'a) infl_env \<Rightarrow> string \<Rightarrow> 'b \<Rightarrow> int" where
  "GetCirculatingSupply E mintDenom b =
     (let circulatingSupply = bank_GetSupply E b mintDenom * dec_one;
          teamAllocation = teamAlloc * dec_one
      in if IsMainnet (env_ChainID E) then circulatingSupply - teamAllocation else circulatingSupply)"

definition GetEpochMintProvision :: "('b, 'a) infl_env \<Rightarrow> infl_store \<Rightarrow> 'b \<Rightarrow> go_panic + int" where
  "GetEpochMintProvision E m b =
     (let stored = GetStoredEpochMintProvision m
      in if stored \<noteq> 0 then Inr stored
         else rbind (BondedRatio E b) (\<lambda>bondedRatio.
           CalculateEpochMintProvision (env_dec E) (GetParams m) (GetPeriod m)
             (GetEpochsPerPeriod m) bondedRatio))"

definition GetInflationRate :: "('b, 'a) infl_env \<Rightarrow> string \<Rightarrow> infl_store \<Rightarrow> 'b \<Rightarrow> go_panic + int" where
  "GetInflationRate E mintDenom m b =
     (let epp = GetEpochsPerPeriod m
      in if epp = 0 then Inr 0
         else rbind (GetEpochMintProvision E m b) (\<lambda>epochMintProvision.
           if epochMintProvision = 0 then Inr 0
           else let epochsPerPeriod = epp * dec_one;
                    circulatingSupply = GetCirculatingSupply E mintDenom b
                in if circulatingSupply = 0 then Inr 0
                   else rbind (dec_Quo (env_dec E)
                          (dec_Mul (env_dec E) epochMintProvision epochsPerPeriod) circulatingSupply)
                        (\<lambda>q. Inr (dec_Mul (env_dec E) q (100 * dec_one)))))"

section \<open>The hook at the end of an epoch\<close>

datatype infl_event =
  EventMint int int int int
| EventMultiSig string

record 'b infl_ctx =
  ic_store :: infl_store
  ic_bank :: 'b
  ic_events :: "infl_event list"

definition evm_multi_sig :: "('b, 'a) infl_env \<Rightarrow> 'b \<Rightarrow> string" where
  "evm_multi_sig E b = (case evm_MultiSigAddress E of None \<Rightarrow> '''' | Some f \<Rightarrow> f b)"

definition resolve_multi_sig :: "('b, 'a) infl_env \<Rightarrow> Params \<Rightarrow> 'b \<Rightarrow> string" where
  "resolve_multi_sig E params b =
     (let a0 = evm_multi_sig E b;
          a1 = (if a0 = '''' then MultiSigAddress params else a0)
      in if a1 = '''' then DefaultMultiSigAddress else a1)"

definition reconcile_halving :: "Params \<Rightarrow> int \<Rightarrow> int \<Rightarrow> infl_store \<Rightarrow> go_panic + infl_store" where
  "reconcile_halving params epochNumber currentPeriod m =
     (let halvingData = GetHalvingData m
      in rbind (ShouldHalve (i64 (epochNumber - 1)) (i64 (StartEpoch halvingData))
             (LastHalvingEpoch halvingData) (HalvingIntervalEpochs params)) (\<lambda>wasNaturalHalving.
         let halvingData1 = (if wasNaturalHalving
               then halvingData\<lparr>LastHalvingEpoch := u64 (epochNumber - 1)\<rparr> else halvingData);
             stateChanged = (wasNaturalHalving \<or> currentPeriod \<noteq> CurrentPeriod halvingData1)
         in Inr (if stateChanged
                 then SetHalvingData (halvingData1\<lparr>CurrentPeriod := currentPeriod\<rparr>) m
                 else m)))"

definition mint_events :: "('b, 'a) infl_env \<Rightarrow> int \<Rightarrow> int \<Rightarrow> int \<Rightarrow> 'b \<Rightarrow> infl_event list" where
  "mint_events E epochNumber amount currentPeriod b =
     EventMint epochNumber amount amount currentPeriod #
     (if evm_multi_sig E b = '''' then [] else [EventMultiSig (evm_multi_sig E b)])"

definition AfterEpochEnd ::
  "('b, 'a) infl_env \<Rightarrow> string \<Rightarrow> int \<Rightarrow> 'b infl_ctx \<Rightarrow> go_panic + 'b infl_ctx" where
  "AfterEpochEnd E epochIdentifier epochNumber s =
     (let params = GetParams (ic_store s);
          skippedEpochs = GetSkippedEpochs (ic_store s)
      in if \<not> EnableInflation params then
           (if epochIdentifier \<noteq> DayEpochID then Inr s
            else Inr (s\<lparr>ic_store := SetSkippedEpochs (u64 (skippedEpochs + 1)) (ic_store s)\<rparr>))
         else if \<not> IsValidEpochForHalving epochIdentifier then Inr s
         else let halvingData = GetHalvingData (ic_store s)
           in rbind (CalculateHalvingPeriod (i64 (epochNumber - 1)) (i64 (StartEpoch halvingData))
                 (HalvingIntervalEpochs params)) (\<lambda>currentPeriod.
              rbind (rbind (CalculateDailyEmission params currentPeriod) not_nil) (\<lambda>dailyEmission.
              if \<not> dailyEmission > 0 then Inr s
              else rbind (not_nil (MaxSupply params)) (\<lambda>maxSupply.
                case ValidateSupplyCap (bank_GetSupply E (ic_bank s) (MintDenom params))
                       dailyEmission maxSupply of
                  Inl _ \<Rightarrow> Inr s
                | Inr _ \<Rightarrow>
                    (case MintAndSendToMultiSig E (MintDenom params, dailyEmission)
                            (params\<lparr>MultiSigAddress := resolve_multi_sig E params (ic_bank s)\<rparr>)
                            (ic_bank s) of
                       Inl err \<Rightarrow> Inl (GoPanic (''failed to mint and send to multi-sig: '' @ err))
                     | Inr b \<Rightarrow>
                         rbind (reconcile_halving params epochNumber currentPeriod (ic_store s)) (\<lambda>m.
                         Inr (s\<lparr>ic_store := SetEpochMintProvision (dailyEmission * dec_one)
                                             (SetPeriod currentPeriod m),
                                ic_bank := b,
                                ic_events := ic_events s @
                                  mint_events E epochNumber dailyEmission currentPeriod b\<rparr>)))))))"

definition BeforeEpochStart :: "string \<Rightarrow> int \<Rightarrow> 's \<Rightarrow> 's" where
  "BeforeEpochStart epochIdentifier epochNumber s = s"

definition Hooks :: "('b, 'a) infl_env \<Rightarrow> 'b infl_ctx EpochHooks" where
  "Hooks E = \<lparr>AfterEpochEnd_hook = AfterEpochEnd E,
     BeforeEpochStart_hook = (\<lambda>i n s. Inr (BeforeEpochStart i n s))\<rparr>"

section \<open>The message server and genesis\<close>

definition UpdateParams ::
  "('b, 'a) infl_env \<Rightarrow> string \<Rightarrow> Params \<Rightarrow> infl_store \<Rightarrow> string + infl_store" where
  "UpdateParams E req_Authority req_Params m =
     (if env_authority E \<noteq> req_Authority then Inl ''invalid authority''
      else case SetParams (env_sdk E) req_Params m of
        Inl err \<Rightarrow> Inl (''error setting params: '' @ err)
      | Inr m' \<Rightarrow> Inr m')"

definition infl_InitGenesis ::
  "('b, 'a) infl_env \<Rightarrow> bool \<Rightarrow> GenesisState \<Rightarrow> infl_store \<Rightarrow> go_panic + infl_store" where
  "infl_InitGenesis E hasModuleAccount data m =
     (if \<not> hasModuleAccount
        then Inl (GoPanic ''the inflation module account has not been set'')
      else case SetParams (env_sdk E) (gs_Params data) m of
        Inl err \<Rightarrow> Inl (GoPanic (''error setting params: '' @ err))
      | Inr m1 \<Rightarrow> Inr (SetHalvingData (gs_HalvingData data)
          (SetSkippedEpochs (gs_SkippedEpochs data)
          (SetEpochsPerPeriod (gs_EpochsPerPeriod data)
          (SetEpochIdentifier (gs_EpochIdentifier data)
          (SetPeriod (gs_Period data) m1))))))"

definition infl_ExportGenesis :: "infl_store \<Rightarrow> GenesisState" where
  "infl_ExportGenesis m =
     \<lparr>gs_Params = GetParams m, gs_Period = GetPeriod m,
      gs_EpochIdentifier = GetEpochIdentifier m, gs_EpochsPerPeriod = GetEpochsPerPeriod m,
      gs_SkippedEpochs = GetSkippedEpochs m, gs_HalvingData = GetHalvingData m\<rparr>"

section \<open>What the properties assume of the bank\<close>

fun amount_of :: "coin list \<Rightarrow> string \<Rightarrow> int" where
  "amount_of [] d = 0"
| "amount_of ((c, x) # cs) d = (if c = d then x else 0) + amount_of cs d"

text \<open>
  Minting raises the supply of the minted denominations and touches no account but the module's.
  Sending from a module account moves the coins to the recipient and leaves the supply alone.
\<close>

definition bank_laws :: "('b, 'a) infl_env \<Rightarrow> bool" where
  "bank_laws E \<longleftrightarrow>
     (\<forall>b m cs b'. bank_MintCoins E b m cs = Inr b' \<longrightarrow>
        (\<forall>d. bank_GetSupply E b' d = bank_GetSupply E b d + amount_of cs d) \<and>
        (\<forall>a. a \<noteq> account_GetModuleAddress E m \<longrightarrow>
           bank_GetAllBalances E b' a = bank_GetAllBalances E b a)) \<and>
     (\<forall>b m r cs b'. bank_SendCoinsFromModuleToAccount E b m r cs = Inr b' \<longrightarrow>
        (\<forall>d. bank_GetSupply E b' d = bank_GetSupply E b d) \<and>
        (r \<noteq> account_GetModuleAddress E m \<longrightarrow>
           (\<forall>d. amount_of (bank_GetAllBalances E b' r) d
              = amount_of (bank_GetAllBalances E b r) d + amount_of cs d)))"

lemma bank_mint:
  "bank_laws E \<Longrightarrow> bank_MintCoins E b m cs = Inr b'
     \<Longrightarrow> bank_GetSupply E b' d = bank_GetSupply E b d + amount_of cs d"
  "bank_laws E \<Longrightarrow> bank_MintCoins E b m cs = Inr b' \<Longrightarrow> a \<noteq> account_GetModuleAddress E m
     \<Longrightarrow> bank_GetAllBalances E b' a = bank_GetAllBalances E b a"
  by (auto simp: bank_laws_def)

lemma bank_send:
  "bank_laws E \<Longrightarrow> bank_SendCoinsFromModuleToAccount E b m r cs = Inr b'
     \<Longrightarrow> bank_GetSupply E b' d = bank_GetSupply E b d"
  "bank_laws E \<Longrightarrow> bank_SendCoinsFromModuleToAccount E b m r cs = Inr b'
     \<Longrightarrow> r \<noteq> account_GetModuleAddress E m
     \<Longrightarrow> amount_of (bank_GetAllBalances E b' r) d
        = amount_of (bank_GetAllBalances E b r) d + amount_of cs d"
  by (auto simp: bank_laws_def)

lemma MintAndSend_laws:
  assumes "bank_laws E" and "MintAndSendToMultiSig E coin params b = Inr b'" and "0 < snd coin"
  shows "bank_GetSupply E b' d = bank_GetSupply E b d + amount_of [coin] d"
    and "\<exists>addr. AccAddressFromBech32 (env_sdk E) (MultiSigAddress params) = Inr addr \<and>
      (addr \<noteq> account_GetModuleAddress E ModuleName \<longrightarrow>
         amount_of (bank_GetAllBalances E b' addr) d
           = amount_of (bank_GetAllBalances E b addr) d + amount_of [coin] d)"
proof -
  from assms(2,3) obtain addr b1 where
    addr: "AccAddressFromBech32 (env_sdk E) (MultiSigAddress params) = Inr addr"
    and mint: "bank_MintCoins E b ModuleName [coin] = Inr b1"
    and send: "bank_SendCoinsFromModuleToAccount E b1 ModuleName addr [coin] = Inr b'"
    by (auto simp: MintAndSendToMultiSig_def MintCoins_def split: if_splits sum.splits)
  show "bank_GetSupply E b' d = bank_GetSupply E b d + amount_of [coin] d"
    using bank_mint(1) [OF assms(1) mint] bank_send(1) [OF assms(1) send] by simp
  show "\<exists>addr. AccAddressFromBech32 (env_sdk E) (MultiSigAddress params) = Inr addr \<and>
      (addr \<noteq> account_GetModuleAddress E ModuleName \<longrightarrow>
         amount_of (bank_GetAllBalances E b' addr) d
           = amount_of (bank_GetAllBalances E b addr) d + amount_of [coin] d)"
    using bank_mint(2) [OF assms(1) mint] bank_send(2) [OF assms(1) send] addr by auto
qed

section \<open>The hook, case by case\<close>

text \<open>The emission of the epoch that has just ended, and the mint that goes with it.\<close>

definition ended_emission :: "int \<Rightarrow> infl_store \<Rightarrow> go_panic + int" where
  "ended_emission epochNumber m =
     rbind (epoch_emission (GetParams m) (i64 (StartEpoch (GetHalvingData m))) (i64 (epochNumber - 1)))
       not_nil"

definition mints :: "('b, 'a) infl_env \<Rightarrow> string \<Rightarrow> int \<Rightarrow> 'b infl_ctx \<Rightarrow> int \<Rightarrow> bool" where
  "mints E epochIdentifier epochNumber s amount \<longleftrightarrow>
     EnableInflation (GetParams (ic_store s)) \<and> epochIdentifier = DayEpochID \<and>
     ended_emission epochNumber (ic_store s) = Inr amount \<and> 0 < amount \<and>
     (\<exists>maxSupply. MaxSupply (GetParams (ic_store s)) = Some maxSupply \<and>
        bank_GetSupply E (ic_bank s) (MintDenom (GetParams (ic_store s))) + amount \<le> maxSupply)"

lemma GetParams_setters [simp]:
  "GetParams (SetPeriod x m) = GetParams m"
  "GetParams (SetEpochIdentifier e m) = GetParams m"
  "GetParams (SetEpochsPerPeriod x m) = GetParams m"
  "GetParams (SetSkippedEpochs x m) = GetParams m"
  "GetParams (SetEpochMintProvision x m) = GetParams m"
  "GetParams (SetHalvingData h m) = GetParams m"
  by (simp_all add: GetParams_def SetPeriod_def SetEpochIdentifier_def SetEpochsPerPeriod_def
      SetSkippedEpochs_def SetEpochMintProvision_def SetHalvingData_def)

lemma GetHalvingData_setters [simp]:
  "GetHalvingData (SetPeriod x m) = GetHalvingData m"
  "GetHalvingData (SetEpochMintProvision x m) = GetHalvingData m"
  "GetHalvingData (SetSkippedEpochs x m) = GetHalvingData m"
  by (simp_all add: GetHalvingData_def SetPeriod_def SetEpochMintProvision_def SetSkippedEpochs_def)

lemma GetHalvingData_Set [simp]:
  "h \<noteq> zero_HalvingData \<Longrightarrow> GetHalvingData (SetHalvingData h m) = h"
  by (simp add: GetHalvingData_def SetHalvingData_def)

lemma reconcile_GetParams: "reconcile_halving params n p m = Inr m' \<Longrightarrow> GetParams m' = GetParams m"
  by (auto simp: reconcile_halving_def Let_def split: if_splits)

lemma AfterEpochEnd_cases:
  assumes "AfterEpochEnd E i n s = Inr s'"
  obtains (idle) "ic_bank s' = ic_bank s" "ic_events s' = ic_events s"
      "GetParams (ic_store s') = GetParams (ic_store s)"
      "GetHalvingData (ic_store s') = GetHalvingData (ic_store s)" "\<And>x. \<not> mints E i n s x"
  | (mint) x p m where "mints E i n s x"
      "CalculateHalvingPeriod (i64 (n - 1)) (i64 (StartEpoch (GetHalvingData (ic_store s))))
         (HalvingIntervalEpochs (GetParams (ic_store s))) = Inr p"
      "MintAndSendToMultiSig E (MintDenom (GetParams (ic_store s)), x)
         ((GetParams (ic_store s))\<lparr>MultiSigAddress
            := resolve_multi_sig E (GetParams (ic_store s)) (ic_bank s)\<rparr>)
         (ic_bank s) = Inr (ic_bank s')"
      "reconcile_halving (GetParams (ic_store s)) n p (ic_store s) = Inr m"
      "ic_store s' = SetEpochMintProvision (x * dec_one) (SetPeriod p m)"
      "ic_events s' = ic_events s @ mint_events E n x p (ic_bank s')"
proof -
  note defs = AfterEpochEnd_def Let_def mints_def ended_emission_def epoch_emission_def
    ValidateSupplyCap_def IsValidEpochForHalving_def not_nil_def
  show thesis
  proof (cases "EnableInflation (GetParams (ic_store s)) \<and> i = DayEpochID")
    case False
    with assms show thesis
      by (intro idle) (auto simp: defs split: if_splits)
  next
    case True
    with assms obtain p e where
      p: "CalculateHalvingPeriod (i64 (n - 1)) (i64 (StartEpoch (GetHalvingData (ic_store s))))
        (HalvingIntervalEpochs (GetParams (ic_store s))) = Inr p"
      and e: "rbind (CalculateDailyEmission (GetParams (ic_store s)) p) not_nil = Inr e"
      by (auto simp: AfterEpochEnd_def Let_def IsValidEpochForHalving_def)
    have ended: "ended_emission n (ic_store s) = Inr e"
      using p e by (simp add: ended_emission_def epoch_emission_def)
    show thesis
    proof (cases "mints E i n s e")
      case False
      with assms True p e ended show thesis
        by (intro idle) (auto simp: AfterEpochEnd_def Let_def mints_def ValidateSupplyCap_def
            IsValidEpochForHalving_def not_nil_def split: if_splits option.splits)
    next
      case mintsE: True
      with assms True p e obtain b m where
        b: "MintAndSendToMultiSig E (MintDenom (GetParams (ic_store s)), e)
         ((GetParams (ic_store s))\<lparr>MultiSigAddress
            := resolve_multi_sig E (GetParams (ic_store s)) (ic_bank s)\<rparr>)
         (ic_bank s) = Inr b"
        and m: "reconcile_halving (GetParams (ic_store s)) n p (ic_store s) = Inr m"
        and s': "s' = s\<lparr>ic_store := SetEpochMintProvision (e * dec_one) (SetPeriod p m),
          ic_bank := b, ic_events := ic_events s @ mint_events E n e p b\<rparr>"
        by (auto simp: AfterEpochEnd_def Let_def mints_def ValidateSupplyCap_def
            IsValidEpochForHalving_def not_nil_def split: if_splits sum.splits)
      show thesis
        by (rule mint [of e p m]) (simp_all add: mintsE p b m s')
    qed
  qed
qed

lemma not_nil_Some: "not_nil (Some x) = Inr x"
  by (simp add: not_nil_def)

lemma DefaultParams_interval: "HalvingIntervalEpochs DefaultParams \<noteq> 0"
  by (simp add: DefaultParams_def)

lemma ShouldHalve_runs:
  assumes "interval \<noteq> 0"
  shows "\<exists>b. ShouldHalve e a l interval = Inr b"
proof -
  obtain p q where "CalculateHalvingPeriod e a interval = Inr p"
    and "CalculateHalvingPeriod (i64 l) a interval = Inr q"
    using CalculateHalvingPeriod_total [OF assms] by meson
  then show ?thesis by (simp add: ShouldHalve_def)
qed

lemma reconcile_runs:
  assumes "HalvingIntervalEpochs params \<noteq> 0"
  shows "\<exists>m'. reconcile_halving params n p m = Inr m'"
proof -
  obtain b where "ShouldHalve (i64 (n - 1)) (i64 (StartEpoch (GetHalvingData m)))
      (LastHalvingEpoch (GetHalvingData m)) (HalvingIntervalEpochs params) = Inr b"
    using ShouldHalve_runs [OF assms] by meson
  then show ?thesis unfolding reconcile_halving_def Let_def by simp
qed

text \<open>What a mint leaves behind, when every step of it goes through.\<close>

lemma AfterEpochEnd_mint:
  assumes "mints E i n s x"
    and "CalculateHalvingPeriod (i64 (n - 1)) (i64 (StartEpoch (GetHalvingData (ic_store s))))
      (HalvingIntervalEpochs (GetParams (ic_store s))) = Inr p"
    and "MintAndSendToMultiSig E (MintDenom (GetParams (ic_store s)), x)
         ((GetParams (ic_store s))\<lparr>MultiSigAddress
            := resolve_multi_sig E (GetParams (ic_store s)) (ic_bank s)\<rparr>) (ic_bank s) = Inr b"
    and "reconcile_halving (GetParams (ic_store s)) n p (ic_store s) = Inr m"
  shows "AfterEpochEnd E i n s = Inr (s\<lparr>ic_store := SetEpochMintProvision (x * dec_one) (SetPeriod p m),
      ic_bank := b, ic_events := ic_events s @ mint_events E n x p b\<rparr>)"
proof -
  from assms(1,2) have "rbind (CalculateDailyEmission (GetParams (ic_store s)) p) not_nil = Inr x"
    by (simp add: mints_def ended_emission_def epoch_emission_def)
  with assms show ?thesis
    by (auto simp: AfterEpochEnd_def mints_def IsValidEpochForHalving_def ValidateSupplyCap_def
        not_nil_Some Let_def simp del: rbind_eq_Inr rbind_assoc)
qed

lemma AfterEpochEnd_GetParams:
  "AfterEpochEnd E i n s = Inr s' \<Longrightarrow> GetParams (ic_store s') = GetParams (ic_store s)"
  by (erule AfterEpochEnd_cases) (simp_all add: reconcile_GetParams)

section \<open>A ledger for the examples\<close>

record ledger =
  lg_supply :: "string \<Rightarrow> int"
  lg_coins :: "string \<Rightarrow> coin list"

definition ledger_mint :: "ledger \<Rightarrow> string \<Rightarrow> coin list \<Rightarrow> string + ledger" where
  "ledger_mint b m cs = Inr (b
     \<lparr>lg_supply := (\<lambda>d. lg_supply b d + amount_of cs d),
      lg_coins := (lg_coins b)(''module/'' @ m := lg_coins b (''module/'' @ m) @ cs)\<rparr>)"

definition ledger_send :: "ledger \<Rightarrow> string \<Rightarrow> string \<Rightarrow> coin list \<Rightarrow> string + ledger" where
  "ledger_send b m r cs = Inr (b\<lparr>lg_coins := (\<lambda>a.
     (lg_coins b a @ (if a = r then cs else []))
       @ (if a = ''module/'' @ m then map (\<lambda>(d, x). (d, - x)) cs else []))\<rparr>)"

definition ledger_env :: "(ledger, string) infl_env" where
  "ledger_env =
     \<lparr>env_sdk = \<lparr>AccAddressFromBech32 = (\<lambda>a. if a = '''' then Inl ''empty'' else Inr a),
        ValidateDenom = (\<lambda>d. Inr ())\<rparr>,
      env_dec = \<lparr>dec_Mul = (\<lambda>x y. x * y div dec_one), dec_Quo = (\<lambda>x y. Inr (x * dec_one div y)),
        dec_QuoInt = (\<lambda>x y. Inr (x div y)), dec_Power = (\<lambda>x n. x)\<rparr>,
      bank_GetSupply = lg_supply,
      bank_MintCoins = ledger_mint,
      bank_SendCoinsFromModuleToAccount = ledger_send,
      bank_SendCoinsFromModuleToModule = (\<lambda>b m r cs. ledger_send b m (''module/'' @ r) cs),
      bank_GetAllBalances = lg_coins,
      account_GetModuleAddress = (\<lambda>m. ''module/'' @ m),
      distr_FundCommunityPool = (\<lambda>b cs a. Inr b),
      staking_StakingTokenSupply = (\<lambda>b. 0), staking_TotalBondedTokens = (\<lambda>b. 0),
      evm_MultiSigAddress = None, env_ChainID = ''nxqd_90009-1'',
      env_feeCollectorName = ''fee_collector'', env_authority = ''gov''\<rparr>"

lemma amount_of_append [simp]: "amount_of (xs @ ys) d = amount_of xs d + amount_of ys d"
  by (induction xs d rule: amount_of.induct) auto

lemma ledger_laws: "bank_laws ledger_env"
  by (auto simp: bank_laws_def ledger_env_def ledger_mint_def ledger_send_def)

definition ledger_store :: infl_store where
  "ledger_store = \<lparr>st_Params = Some DefaultParams, st_Period = Some 0,
     st_EpochIdentifier = Some DayEpochID, st_EpochsPerPeriod = Some 365,
     st_SkippedEpochs = Some 0, st_EpochMintProvision = None,
     st_HalvingData = Some default_HalvingData\<rparr>"

definition ledger_ctx :: "int \<Rightarrow> ledger infl_ctx" where
  "ledger_ctx supply = \<lparr>ic_store = ledger_store,
     ic_bank = \<lparr>lg_supply = (\<lambda>d. if d = ''unxq'' then supply else 0), lg_coins = (\<lambda>a. [])\<rparr>,
     ic_events = []\<rparr>"

lemmas ledger_simps = ledger_ctx_def ledger_store_def ledger_env_def DefaultParams_def

lemma ledger_GetParams [simp]: "GetParams (ic_store (ledger_ctx supply)) = DefaultParams"
  by (simp add: ledger_ctx_def ledger_store_def GetParams_def)

lemma ledger_GetHalvingData [simp]:
  "GetHalvingData (ic_store (ledger_ctx supply)) = default_HalvingData"
  by (simp add: ledger_ctx_def ledger_store_def GetHalvingData_def default_HalvingData_def
      zero_HalvingData_def)

lemma ledger_ended: "ended_emission 2 (ic_store (ledger_ctx supply)) = Inr 7200000000000000000000"
  by (simp add: ended_emission_def epoch_emission_def default_HalvingData_def
      CalculateHalvingPeriod_eq DefaultParams_def CalculateDailyEmission_def MaxHalvingPeriod_def
      not_nil_def i64_id)

lemma ledger_mints: "mints ledger_env DayEpochID 2 (ledger_ctx 0) 7200000000000000000000"
  by (simp add: mints_def ledger_ended)
    (simp add: ledger_ctx_def ledger_env_def DefaultParams_def)

lemma ledger_sends:
  "MultiSigAddress params \<noteq> '''' \<Longrightarrow> \<exists>b. MintAndSendToMultiSig ledger_env c params l = Inr b"
  by (simp add: MintAndSendToMultiSig_def MintCoins_def ledger_env_def ledger_mint_def ledger_send_def)

lemma resolve_multi_sig_set: "resolve_multi_sig E params b \<noteq> ''''"
  by (simp add: resolve_multi_sig_def DefaultMultiSigAddress_def Let_def)

lemma ledger_runs: "\<exists>s'. AfterEpochEnd ledger_env DayEpochID 2 (ledger_ctx 0) = Inr s'"
proof -
  let ?s = "ledger_ctx 0"
  obtain b where "MintAndSendToMultiSig ledger_env
       (MintDenom (GetParams (ic_store ?s)), 7200000000000000000000)
       ((GetParams (ic_store ?s))\<lparr>MultiSigAddress
          := resolve_multi_sig ledger_env (GetParams (ic_store ?s)) (ic_bank ?s)\<rparr>)
       (ic_bank ?s) = Inr b"
    using ledger_sends by (fastforce simp: resolve_multi_sig_set simp del: ledger_GetParams)
  moreover obtain m where "reconcile_halving (GetParams (ic_store ?s)) 2 0 (ic_store ?s) = Inr m"
    using reconcile_runs [OF DefaultParams_interval] by fastforce
  moreover have "CalculateHalvingPeriod (i64 (2 - 1)) (i64 (StartEpoch (GetHalvingData (ic_store ?s))))
       (HalvingIntervalEpochs (GetParams (ic_store ?s))) = Inr 0"
    by (simp add: default_HalvingData_def DefaultParams_def i64_id CalculateHalvingPeriod_eq)
  ultimately show ?thesis
    using AfterEpochEnd_mint [OF ledger_mints] by blast
qed

lemma mint_supply:
  assumes "bank_laws E" and "AfterEpochEnd E i n s = Inr s'" and "mints E i n s x"
  shows "bank_GetSupply E (ic_bank s') (MintDenom (GetParams (ic_store s)))
    = bank_GetSupply E (ic_bank s) (MintDenom (GetParams (ic_store s))) + x"
  using assms(2)
proof (cases rule: AfterEpochEnd_cases)
  case (mint y p m)
  then have "y = x" and "0 < snd (MintDenom (GetParams (ic_store s)), y)"
    using assms(3) by (auto simp: mints_def)
  with MintAndSend_laws(1) [OF assms(1) mint(3)] show ?thesis by simp
next
  case idle
  with assms(3) show ?thesis by blast
qed

section \<open>Properties of the mint\<close>

text \<open>
  C22: The end of a day mints the emission of the epoch that ended and nothing else: the supply of
  the mint denomination grows by that amount, no other supply changes, and the resolved multi-sig
  address receives it. When the hook does not mint, the ledger is left as it was.
\<close>

theorem AfterEpochEnd_mint_effect:
  assumes "bank_laws E" and "AfterEpochEnd E i n s = Inr s'"
  shows "(\<forall>x. mints E i n s x \<longrightarrow>
      (\<forall>d. bank_GetSupply E (ic_bank s') d = bank_GetSupply E (ic_bank s) d
         + (if MintDenom (GetParams (ic_store s)) = d then x else 0)) \<and>
      (\<exists>addr. AccAddressFromBech32 (env_sdk E)
           (resolve_multi_sig E (GetParams (ic_store s)) (ic_bank s)) = Inr addr \<and>
         (addr \<noteq> account_GetModuleAddress E ModuleName \<longrightarrow>
            (\<forall>d. amount_of (bank_GetAllBalances E (ic_bank s') addr) d
               = amount_of (bank_GetAllBalances E (ic_bank s) addr) d
                 + (if MintDenom (GetParams (ic_store s)) = d then x else 0)))))
    \<and> ((\<nexists>x. mints E i n s x) \<longrightarrow> ic_bank s' = ic_bank s)"
  using assms(2)
proof (cases rule: AfterEpochEnd_cases)
  case idle
  then show ?thesis by simp
next
  case (mint x p m)
  then have "0 < snd (MintDenom (GetParams (ic_store s)), x)" by (simp add: mints_def)
  note laws = MintAndSend_laws [OF assms(1) mint(3) this]
  have amount: "mints E i n s y \<longleftrightarrow> y = x" for y
    using mint(1) by (auto simp: mints_def)
  obtain addr where addr: "AccAddressFromBech32 (env_sdk E)
      (resolve_multi_sig E (GetParams (ic_store s)) (ic_bank s)) = Inr addr"
    using laws(2) by auto
  have grown: "bank_GetSupply E (ic_bank s') d = bank_GetSupply E (ic_bank s) d
      + (if MintDenom (GetParams (ic_store s)) = d then x else 0)" for d
    using laws(1) [of d] by simp
  have balance: "addr \<noteq> account_GetModuleAddress E ModuleName \<Longrightarrow>
      amount_of (bank_GetAllBalances E (ic_bank s') addr) d
        = amount_of (bank_GetAllBalances E (ic_bank s) addr) d
          + (if MintDenom (GetParams (ic_store s)) = d then x else 0)" for d
    using laws(2) [of d] addr by simp
  show ?thesis
    unfolding amount using addr grown balance by simp
qed

theorem AfterEpochEnd_mint_effect_witness:
  "\<exists>s'. AfterEpochEnd ledger_env DayEpochID 2 (ledger_ctx 0) = Inr s' \<and>
     bank_GetSupply ledger_env (ic_bank s') ''unxq'' = 7200000000000000000000"
proof -
  obtain s' where run: "AfterEpochEnd ledger_env DayEpochID 2 (ledger_ctx 0) = Inr s'"
    using ledger_runs by blast
  have "bank_GetSupply ledger_env (ic_bank s') ''unxq''
      = bank_GetSupply ledger_env (ic_bank (ledger_ctx 0)) ''unxq'' + 7200000000000000000000"
    using AfterEpochEnd_mint_effect [OF ledger_laws run] ledger_mints
    by (auto simp: DefaultParams_def)
  with run show ?thesis by (simp add: ledger_ctx_def ledger_env_def)
qed

section \<open>The supply cap\<close>

definition capped :: "('b, 'a) infl_env \<Rightarrow> int \<Rightarrow> 'b infl_ctx \<Rightarrow> bool" where
  "capped E cap s \<longleftrightarrow> MaxSupply (GetParams (ic_store s)) = Some cap \<and>
     bank_GetSupply E (ic_bank s) (MintDenom (GetParams (ic_store s))) \<le> cap"

lemma AfterEpochEnd_capped:
  assumes "bank_laws E" and "capped E cap s" and "AfterEpochEnd E i n s = Inr s'"
  shows "capped E cap s'"
  using assms(3)
proof (cases rule: AfterEpochEnd_cases)
  case idle
  then show ?thesis using assms(2) by (simp add: capped_def)
next
  case (mint x p m)
  then have "0 < snd (MintDenom (GetParams (ic_store s)), x)" by (simp add: mints_def)
  note laws = MintAndSend_laws [OF assms(1) mint(3) this]
  have "GetParams (ic_store s') = GetParams (ic_store s)"
    using assms(3) by (rule AfterEpochEnd_GetParams)
  then show ?thesis
    using assms(2) mint(1) laws(1) by (auto simp: capped_def mints_def)
qed

interpretation infl: epoch_client "[Hooks E]" "\<lambda>s. bank_laws E \<longrightarrow> capped E cap s" for E cap
  by unfold_locales
    (auto simp: Hooks_def BeforeEpochStart_def intro: AfterEpochEnd_capped)

text \<open>
  C2: The supply never passes the cap: over any run of blocks of the epochs module with the
  inflation hooks, if the supply of the mint denomination starts at or below MaxSupply it stays
  there.
\<close>

theorem supply_never_exceeds_cap:
  assumes "bank_laws E" and "keyed (ec_store st)" and "capped E cap (ec_mods st)"
    and "run_blocks [Hooks E] blocks st = Inr st'"
  shows "MaxSupply (GetParams (ic_store (ec_mods st'))) = Some cap \<and>
    bank_GetSupply E (ic_bank (ec_mods st')) (MintDenom (GetParams (ic_store (ec_mods st')))) \<le> cap"
  using infl.run_inv [OF assms(2) _ assms(4)] assms(1,3) by (simp add: capped_def)

definition ledger_blocks :: "ledger infl_ctx epochs_ctx" where
  "ledger_blocks = \<lparr>ec_store = [(DayEpochID, sample_day\<lparr>CurrentEpoch := 1\<rparr>)], ec_events = [],
     ec_mods = ledger_ctx 0\<rparr>"

lemma ledger_blocks_run: "\<exists>st'. run_blocks [Hooks ledger_env] [(121, 7)] ledger_blocks = Inr st'"
proof -
  have keyed: "keyed (ec_store ledger_blocks)"
    by (simp add: keyed_def kv_ok_def ledger_blocks_def sample_day_def)
  obtain s' where "AfterEpochEnd ledger_env DayEpochID 2 (ledger_ctx 0) = Inr s'"
    using ledger_runs by blast
  then show ?thesis
    by (simp add: run_blocks_def BeginBlocker_eq [OF keyed])
      (simp add: ledger_blocks_def step_hooks_def sample_day_def shouldInitialEpochStart_def
        shouldEpochEnd_def advance_def EndEpoch_def i64_def MultiEpochHooks_AfterEpochEnd_def
        MultiEpochHooks_BeforeEpochStart_def Hooks_def)
qed

theorem supply_never_exceeds_cap_witness:
  "\<exists>st'. run_blocks [Hooks ledger_env] [(121, 7)] ledger_blocks = Inr st' \<and>
     lg_supply (ic_bank (ec_mods st')) (MintDenom (GetParams (ic_store (ec_mods st'))))
       \<le> 21000000000000000000000000"
proof -
  obtain st' where run: "run_blocks [Hooks ledger_env] [(121, 7)] ledger_blocks = Inr st'"
    using ledger_blocks_run by blast
  have keyed: "keyed (ec_store ledger_blocks)"
    by (simp add: keyed_def kv_ok_def ledger_blocks_def sample_day_def)
  have "capped ledger_env 21000000000000000000000000 (ec_mods ledger_blocks)"
    by (simp add: capped_def ledger_blocks_def)
      (simp add: DefaultParams_def ledger_ctx_def ledger_env_def)
  from supply_never_exceeds_cap [OF ledger_laws keyed this run] run show ?thesis
    by (auto simp: ledger_env_def)
qed

section \<open>When the hook stops the chain\<close>

lemma validated_amounts:
  assumes "ValidateHalvingParams sdk params = Inr ()"
    and "DailyEmission params = Some e" and "MaxSupply params = Some c"
  shows "HalvingIntervalEpochs params \<noteq> 0" and "0 < e" and "e \<le> c"
  using assms by (auto simp: ValidateHalvingParams_def split: if_splits sum.splits)

lemma CalculateDailyEmission_total:
  "DailyEmission params = Some e \<Longrightarrow> \<exists>x. CalculateDailyEmission params p = Inr (Some x)"
  by (simp add: CalculateDailyEmission_def not_nil_Some Let_def)

lemma AfterEpochEnd_runs:
  assumes params: "DailyEmission (GetParams (ic_store s)) = Some e"
      "MaxSupply (GetParams (ic_store s)) = Some c"
      "HalvingIntervalEpochs (GetParams (ic_store s)) \<noteq> 0"
    and send: "\<And>x. 0 < x \<Longrightarrow> \<exists>b. MintAndSendToMultiSig E (MintDenom (GetParams (ic_store s)), x)
         ((GetParams (ic_store s))\<lparr>MultiSigAddress
            := resolve_multi_sig E (GetParams (ic_store s)) (ic_bank s)\<rparr>) (ic_bank s) = Inr b"
  shows "\<exists>s'. AfterEpochEnd E i n s = Inr s'"
proof -
  obtain p where p: "CalculateHalvingPeriod (i64 (n - 1)) (i64 (StartEpoch (GetHalvingData (ic_store s))))
      (HalvingIntervalEpochs (GetParams (ic_store s))) = Inr p"
    using CalculateHalvingPeriod_total [OF params(3)] by blast
  obtain x where x: "CalculateDailyEmission (GetParams (ic_store s)) p = Inr (Some x)"
    using CalculateDailyEmission_total [OF params(1)] by blast
  obtain m where m: "reconcile_halving (GetParams (ic_store s)) n p (ic_store s) = Inr m"
    using reconcile_runs [OF params(3)] by blast
  show ?thesis
  proof (cases "mints E i n s x")
    case True
    then have "0 < x" by (simp add: mints_def)
    with send obtain b where "MintAndSendToMultiSig E (MintDenom (GetParams (ic_store s)), x)
         ((GetParams (ic_store s))\<lparr>MultiSigAddress
            := resolve_multi_sig E (GetParams (ic_store s)) (ic_bank s)\<rparr>) (ic_bank s) = Inr b"
      by blast
    from AfterEpochEnd_mint [OF True p this m] show ?thesis by blast
  next
    case False
    from x have "rbind (CalculateDailyEmission (GetParams (ic_store s)) p) not_nil = Inr x"
      by (simp add: not_nil_Some)
    with p False params(2) show ?thesis
      by (auto simp: AfterEpochEnd_def mints_def ended_emission_def epoch_emission_def Let_def
          IsValidEpochForHalving_def ValidateSupplyCap_def not_nil_Some
          simp del: rbind_eq_Inr rbind_assoc split: if_splits)
  qed
qed

text \<open>
  C35: With parameters that pass validation and have their amounts set, a resolvable multi-sig
  address and a bank that accepts the mint, the end of an epoch never stops the chain.
\<close>

theorem AfterEpochEnd_never_panics:
  assumes "Params_Validate (env_sdk E) (GetParams (ic_store s)) = Inr ()"
    and "DailyEmission (GetParams (ic_store s)) = Some e" and "MaxSupply (GetParams (ic_store s)) = Some c"
    and "AccAddressFromBech32 (env_sdk E) (resolve_multi_sig E (GetParams (ic_store s)) (ic_bank s)) = Inr addr"
    and "\<And>b m cs. \<exists>b'. bank_MintCoins E b m cs = Inr b'"
    and "\<And>b m r cs. \<exists>b'. bank_SendCoinsFromModuleToAccount E b m r cs = Inr b'"
  shows "\<exists>s'. AfterEpochEnd E i n s = Inr s'"
proof (rule AfterEpochEnd_runs [OF assms(2,3)])
  from assms(1) have "ValidateHalvingParams (env_sdk E) (GetParams (ic_store s)) = Inr ()"
    by (auto simp: Params_Validate_def)
  then show "HalvingIntervalEpochs (GetParams (ic_store s)) \<noteq> 0"
    using assms(2,3) by (rule validated_amounts)
  fix x
  obtain b1 where "bank_MintCoins E (ic_bank s) ModuleName [(MintDenom (GetParams (ic_store s)), x)] = Inr b1"
    using assms(5) by blast
  moreover obtain b2 where "bank_SendCoinsFromModuleToAccount E b1 ModuleName addr
      [(MintDenom (GetParams (ic_store s)), x)] = Inr b2"
    using assms(6) by blast
  ultimately show "\<exists>b. MintAndSendToMultiSig E (MintDenom (GetParams (ic_store s)), x)
      ((GetParams (ic_store s))\<lparr>MultiSigAddress
         := resolve_multi_sig E (GetParams (ic_store s)) (ic_bank s)\<rparr>) (ic_bank s) = Inr b"
    using assms(4) by (simp add: MintAndSendToMultiSig_def MintCoins_def resolve_multi_sig_set)
qed

lemma default_params_valid: "Params_Validate (env_sdk ledger_env) DefaultParams = Inr ()"
  by (simp add: Params_Validate_def validateMintDenom_def validateExponentialCalculation_def
      validateInflationDistribution_def validateMultiSigAddress_def ValidateHalvingParams_def
      DefaultParams_def ledger_env_def dec_one_def trim_space_def is_space_def
      DefaultMultiSigAddress_def)

theorem AfterEpochEnd_never_panics_witness:
  "\<exists>s'. AfterEpochEnd ledger_env DayEpochID 77 (ledger_ctx 5) = Inr s'"
proof (rule AfterEpochEnd_never_panics)
  show "Params_Validate (env_sdk ledger_env) (GetParams (ic_store (ledger_ctx 5))) = Inr ()"
    by (simp add: default_params_valid)
  show "DailyEmission (GetParams (ic_store (ledger_ctx 5))) = Some 7200000000000000000000"
    and "MaxSupply (GetParams (ic_store (ledger_ctx 5))) = Some 21000000000000000000000000"
    by (simp_all add: DefaultParams_def)
  show "AccAddressFromBech32 (env_sdk ledger_env)
      (resolve_multi_sig ledger_env (GetParams (ic_store (ledger_ctx 5))) (ic_bank (ledger_ctx 5)))
    = Inr (resolve_multi_sig ledger_env DefaultParams (ic_bank (ledger_ctx 5)))"
    using resolve_multi_sig_set [of ledger_env DefaultParams] by (simp add: ledger_env_def)
qed (simp_all add: ledger_env_def ledger_mint_def ledger_send_def)

text \<open>
  C36: Parameters with unset amounts, as NewParams builds them, pass validation with a halving
  interval of zero, and the message that stores them succeeds; the first day that ends after the
  start epoch then stops the chain with a division by zero.
\<close>

theorem legacy_params_halt_chain:
  assumes "validateMintDenom (env_sdk E) denom = Inr ()"
    and "validateExponentialCalculation exp = Inr ()"
    and "validateInflationDistribution distr = Inr ()"
    and "i64 (StartEpoch (GetHalvingData m)) \<le> i64 (n - 1)"
  shows "\<exists>m'. UpdateParams E (env_authority E) (NewParams denom exp distr True) m = Inr m' \<and>
    AfterEpochEnd E DayEpochID n \<lparr>ic_store = m', ic_bank = b, ic_events = evs\<rparr>
      = Inl (GoPanic ''integer divide by zero'')"
proof -
  let ?p = "NewParams denom exp distr True"
  let ?m = "m\<lparr>st_Params := Some (encoded_Params ?p)\<rparr>"
  have "ValidateHalvingParams (env_sdk E) ?p = Inr ()"
    by (simp add: ValidateHalvingParams_def NewParams_def)
  with assms(1-3) have "UpdateParams E (env_authority E) ?p m = Inr ?m"
    by (simp add: UpdateParams_def SetParams_def Params_Validate_def validateMultiSigAddress_def)
      (simp add: NewParams_def)
  moreover have "GetHalvingData ?m = GetHalvingData m" by (simp add: GetHalvingData_def)
  moreover have "GetParams ?m = encoded_Params ?p" by (simp add: GetParams_def)
  ultimately show ?thesis
    using CalculateHalvingPeriod_panics [OF assms(4)]
    by (simp add: AfterEpochEnd_def Let_def IsValidEpochForHalving_def encoded_Params_def)
      (simp add: NewParams_def)
qed

theorem legacy_params_halt_chain_witness:
  "\<exists>m'. UpdateParams ledger_env ''gov'' (NewParams ''unxq'' (Exponential DefaultParams)
       (Distribution DefaultParams) True) ledger_store = Inr m' \<and>
     AfterEpochEnd ledger_env DayEpochID 2
       \<lparr>ic_store = m', ic_bank = ic_bank (ledger_ctx 0), ic_events = []\<rparr>
       = Inl (GoPanic ''integer divide by zero'')"
proof -
  have "GetHalvingData ledger_store = default_HalvingData"
    using ledger_GetHalvingData [of 0] by (simp add: ledger_ctx_def)
  moreover have "validateMintDenom (env_sdk ledger_env) ''unxq'' = Inr ()"
    and "validateExponentialCalculation (Exponential DefaultParams) = Inr ()"
    and "validateInflationDistribution (Distribution DefaultParams) = Inr ()"
    using default_params_valid by (auto simp: Params_Validate_def) (simp add: DefaultParams_def)
  ultimately show ?thesis
    using legacy_params_halt_chain [of ledger_env "''unxq''" "Exponential DefaultParams"
        "Distribution DefaultParams" ledger_store 2 "ic_bank (ledger_ctx 0)" "[]"]
    by (simp add: default_HalvingData_def i64_id) (simp add: ledger_env_def)
qed

section \<open>Genesis of the module\<close>

lemma encoded_Params_set:
  "DailyEmission params = Some e \<Longrightarrow> MaxSupply params = Some c \<Longrightarrow> encoded_Params params = params"
  by (simp add: encoded_Params_def)

text \<open>
  A genesis state that validates is accepted, and the export right after it returns it
  unchanged; in particular the halving data is not taken for an unset key.
\<close>

theorem infl_genesis_roundtrip:
  assumes "infl_GenesisState_Validate (env_sdk E) data = Inr ()"
    and "DailyEmission (gs_Params data) = Some e" and "MaxSupply (gs_Params data) = Some c"
    and "in_i64 (gs_EpochsPerPeriod data)"
  shows "\<exists>m'. infl_InitGenesis E True data m = Inr m' \<and> infl_ExportGenesis m' = data"
proof -
  let ?m = "m\<lparr>st_Params := Some (gs_Params data)\<rparr>"
  from assms(1) have valid: "Params_Validate (env_sdk E) (gs_Params data) = Inr ()"
    and start: "StartEpoch (gs_HalvingData data) \<noteq> 0"
    by (auto simp: infl_GenesisState_Validate_def validateHalvingData_def split: if_splits)
  then have "SetParams (env_sdk E) (gs_Params data) m = Inr ?m"
    using encoded_Params_set [OF assms(2,3)] by (auto simp: SetParams_def Params_Validate_def)
  moreover from start have "gs_HalvingData data \<noteq> zero_HalvingData"
    by (auto simp: zero_HalvingData_def)
  moreover have "i64 (u64 (gs_EpochsPerPeriod data)) = gs_EpochsPerPeriod data"
    using assms(4) by (simp add: i64_fix)
  ultimately show ?thesis
    by (simp add: infl_InitGenesis_def infl_ExportGenesis_def GetPeriod_def GetEpochIdentifier_def
        GetEpochsPerPeriod_def GetSkippedEpochs_def GetHalvingData_def GetParams_def SetPeriod_def
        SetEpochIdentifier_def SetEpochsPerPeriod_def SetSkippedEpochs_def SetHalvingData_def)
qed

theorem infl_genesis_roundtrip_witness:
  "\<exists>m'. infl_InitGenesis ledger_env True infl_DefaultGenesisState ledger_store = Inr m'
     \<and> infl_ExportGenesis m' = infl_DefaultGenesisState"
proof (rule infl_genesis_roundtrip)
  show "infl_GenesisState_Validate (env_sdk ledger_env) infl_DefaultGenesisState = Inr ()"
    using default_params_valid
    by (simp add: infl_GenesisState_Validate_def infl_DefaultGenesisState_def
        ValidateEpochIdentifierString_def validateEpochsPerPeriod_def validateHalvingData_def
        DayEpochID_def trim_space_def is_space_def)
  show "DailyEmission (gs_Params infl_DefaultGenesisState) = Some 7200000000000000000000"
    and "MaxSupply (gs_Params infl_DefaultGenesisState) = Some 21000000000000000000000000"
    and "in_i64 (gs_EpochsPerPeriod infl_DefaultGenesisState)"
    by (simp_all add: infl_DefaultGenesisState_def DefaultParams_def in_i64_def)
qed

end
