(* ===== verification/AccessList.thy ===== *)
theory AccessList
  imports Prelude "HOL-Library.Word"
begin

text \<open>
  The access list of a transaction (x/evm/statedb/access_list.go): the addresses and the storage
  slots that were touched, in the representation of the code. An address maps to the index of its
  slot set, or to -1 when it has none; the slot sets are a slice.

  \<^item> An index out of range panics in Go; \<open>al_wf\<close> is the invariant that no index is.
  \<^item> Deletions cut the slice at the index. That is right only when additions are undone in reverse
    order; the \<open>Add_Delete\<close> lemmas say that it is right then.
\<close>

type_synonym address = "160 word"
type_synonym hash = "256 word"

record access_list =
  al_addresses :: "address \<rightharpoonup> int"
  al_slots :: "hash set list"

definition newAccessList :: access_list where
  "newAccessList = \<lparr>al_addresses = Map.empty, al_slots = []\<rparr>"

definition ContainsAddress :: "access_list \<Rightarrow> address \<Rightarrow> bool" where
  "ContainsAddress al a \<longleftrightarrow> al_addresses al a \<noteq> None"

definition slot_index :: "access_list \<Rightarrow> int \<Rightarrow> go_panic + hash set" where
  "slot_index al idx = (if 0 \<le> idx \<and> nat idx < length (al_slots al) then Inr (al_slots al ! nat idx)
     else Inl (GoPanic ''index out of range''))"

definition Contains :: "access_list \<Rightarrow> address \<Rightarrow> hash \<Rightarrow> go_panic + bool \<times> bool" where
  "Contains al a slot =
     (case al_addresses al a of
        None \<Rightarrow> Inr (False, False)
      | Some idx \<Rightarrow> if idx = - 1 then Inr (True, False)
          else rbind (slot_index al idx) (\<lambda>slots. Inr (True, slot \<in> slots)))"

definition AddAddress :: "access_list \<Rightarrow> address \<Rightarrow> access_list \<times> bool" where
  "AddAddress al a = (if al_addresses al a \<noteq> None then (al, False)
     else (al\<lparr>al_addresses := (al_addresses al)(a \<mapsto> - 1)\<rparr>, True))"

definition AddSlot :: "access_list \<Rightarrow> address \<Rightarrow> hash \<Rightarrow> go_panic + access_list \<times> bool \<times> bool" where
  "AddSlot al a slot =
     (case al_addresses al a of
        None \<Rightarrow> Inr (al\<lparr>al_addresses := (al_addresses al)(a \<mapsto> int (length (al_slots al))),
                   al_slots := al_slots al @ [{slot}]\<rparr>, True, True)
      | Some idx \<Rightarrow>
          if idx = - 1 then Inr (al\<lparr>al_addresses := (al_addresses al)(a \<mapsto> int (length (al_slots al))),
                   al_slots := al_slots al @ [{slot}]\<rparr>, False, True)
          else rbind (slot_index al idx) (\<lambda>slotmap.
            if slot \<notin> slotmap
            then Inr (al\<lparr>al_slots := (al_slots al)[nat idx := insert slot slotmap]\<rparr>, False, True)
            else Inr (al, False, False)))"

definition DeleteSlot :: "access_list \<Rightarrow> address \<Rightarrow> hash \<Rightarrow> go_panic + access_list" where
  "DeleteSlot al a slot =
     (case al_addresses al a of
        None \<Rightarrow> Inl (GoPanic ''reverting slot change, address not present in list'')
      | Some idx \<Rightarrow>
          rbind (slot_index al idx) (\<lambda>slotmap0.
            let slotmap = slotmap0 - {slot};
                al1 = al\<lparr>al_slots := (al_slots al)[nat idx := slotmap]\<rparr>
            in if slotmap = {}
               then Inr (al1\<lparr>al_slots := take (nat idx) (al_slots al1),
                      al_addresses := (al_addresses al1)(a \<mapsto> - 1)\<rparr>)
               else Inr al1))"

definition DeleteAddress :: "access_list \<Rightarrow> address \<Rightarrow> access_list" where
  "DeleteAddress al a = al\<lparr>al_addresses := (al_addresses al)(a := None)\<rparr>"

section \<open>The invariant\<close>

definition al_wf :: "access_list \<Rightarrow> bool" where
  "al_wf al \<longleftrightarrow> (\<forall>a idx. al_addresses al a = Some idx \<longrightarrow>
       idx = - 1 \<or> 0 \<le> idx \<and> nat idx < length (al_slots al)) \<and>
     (\<forall>a b idx. al_addresses al a = Some idx \<longrightarrow> al_addresses al b = Some idx \<longrightarrow> idx \<noteq> - 1 \<longrightarrow> a = b) \<and>
     (\<forall>s \<in> set (al_slots al). s \<noteq> {})"

lemma al_wf_new: "al_wf newAccessList"
  by (simp add: al_wf_def newAccessList_def)

lemma al_wf_index:
  "al_wf al \<Longrightarrow> al_addresses al a = Some idx \<Longrightarrow> idx \<noteq> - 1 \<Longrightarrow> 0 \<le> idx \<and> nat idx < length (al_slots al)"
  unfolding al_wf_def by blast

lemma al_wf_inj:
  "al_wf al \<Longrightarrow> al_addresses al a = Some idx \<Longrightarrow> al_addresses al b = Some idx \<Longrightarrow> idx \<noteq> - 1 \<Longrightarrow> a = b"
  unfolding al_wf_def by blast

lemma al_wf_nonempty: "al_wf al \<Longrightarrow> i < length (al_slots al) \<Longrightarrow> al_slots al ! i \<noteq> {}"
  unfolding al_wf_def using nth_mem by blast

lemma slot_index_wf:
  "al_wf al \<Longrightarrow> al_addresses al a = Some idx \<Longrightarrow> idx \<noteq> - 1 \<Longrightarrow> slot_index al idx = Inr (al_slots al ! nat idx)"
  using al_wf_index by (simp add: slot_index_def)

lemma AddAddress_wf: "al_wf al \<Longrightarrow> al_wf (fst (AddAddress al a))"
  by (auto simp: al_wf_def AddAddress_def split: if_splits)

text \<open>The two shapes of an addition: a new slot set at the end, or a larger one in its place.\<close>

definition new_group :: "access_list \<Rightarrow> address \<Rightarrow> hash \<Rightarrow> access_list" where
  "new_group al a slot = al\<lparr>al_addresses := (al_addresses al)(a \<mapsto> int (length (al_slots al))),
     al_slots := al_slots al @ [{slot}]\<rparr>"

definition grow_group :: "access_list \<Rightarrow> int \<Rightarrow> hash \<Rightarrow> access_list" where
  "grow_group al idx slot =
     al\<lparr>al_slots := (al_slots al)[nat idx := insert slot (al_slots al ! nat idx)]\<rparr>"

lemma AddSlot_cases:
  assumes "al_wf al"
  obtains (none) "al_addresses al a = None" "AddSlot al a slot = Inr (new_group al a slot, True, True)"
  | (first) "al_addresses al a = Some (- 1)" "AddSlot al a slot = Inr (new_group al a slot, False, True)"
  | (grow) idx where "al_addresses al a = Some idx" "idx \<noteq> - 1" "slot \<notin> al_slots al ! nat idx"
      "AddSlot al a slot = Inr (grow_group al idx slot, False, True)"
  | (same) idx where "al_addresses al a = Some idx" "idx \<noteq> - 1" "slot \<in> al_slots al ! nat idx"
      "AddSlot al a slot = Inr (al, False, False)"
proof (cases "al_addresses al a")
  case None
  then show thesis by (intro none) (simp_all add: AddSlot_def new_group_def)
next
  case (Some idx)
  show thesis
  proof (cases "idx = - 1")
    case True
    with Some show thesis by (intro first) (simp_all add: AddSlot_def new_group_def)
  next
    case False
    note index = slot_index_wf [OF assms Some False]
    show thesis
    proof (cases "slot \<in> al_slots al ! nat idx")
      case True
      with Some False index show thesis by (intro same) (simp_all add: AddSlot_def)
    next
      case slot: False
      with Some False index show thesis by (intro grow) (simp_all add: AddSlot_def grow_group_def)
    qed
  qed
qed

lemma new_group_wf:
  assumes "al_wf al"
  shows "al_wf (new_group al a slot)"
proof -
  have "b = a" if "al_addresses al b = Some (int (length (al_slots al)))" for b
    using al_wf_index [OF assms that] by simp
  with assms show ?thesis
    unfolding al_wf_def new_group_def by (fastforce split: if_splits)
qed

lemma grow_group_wf:
  assumes "al_wf al"
  shows "al_wf (grow_group al idx slot)"
  using assms set_update_subset_insert [of "al_slots al" "nat idx"]
  unfolding al_wf_def grow_group_def by fastforce

lemma AddSlot_total: "al_wf al \<Longrightarrow> \<exists>r. AddSlot al a slot = Inr r"
  by (erule AddSlot_cases [of al a slot]) auto

lemma AddSlot_wf:
  assumes "al_wf al" and "AddSlot al a slot = Inr (al', ac, sc)"
  shows "al_wf al'"
  using assms(1)
  by (rule AddSlot_cases [of al a slot])
    (use assms in \<open>auto simp: new_group_wf grow_group_wf\<close>)

section \<open>Undoing an addition\<close>

lemma Add_Delete_address:
  assumes "AddAddress al a = (al', True)"
  shows "DeleteAddress al' a = al"
  using assms by (auto simp: AddAddress_def DeleteAddress_def fun_upd_idem split: if_splits)

lemma Delete_new_group:
  "DeleteSlot (new_group al a slot) a slot = Inr (al\<lparr>al_addresses := (al_addresses al)(a \<mapsto> - 1)\<rparr>)"
  by (simp add: DeleteSlot_def new_group_def slot_index_def Let_def)

lemma Delete_grow_group:
  assumes "al_wf al" and "al_addresses al a = Some idx" and "idx \<noteq> - 1" and "slot \<notin> al_slots al ! nat idx"
  shows "DeleteSlot (grow_group al idx slot) a slot = Inr al"
  using assms al_wf_index [OF assms(1-3)] al_wf_nonempty [OF assms(1), of "nat idx"]
  by (auto simp: DeleteSlot_def grow_group_def slot_index_def Let_def)

lemma Add_Delete_slot:
  assumes "al_wf al" and "AddSlot al a slot = Inr (al', False, True)"
  shows "DeleteSlot al' a slot = Inr al"
  using assms(1)
proof (cases rule: AddSlot_cases [of al a slot])
  case first
  with assms(2) show ?thesis by (auto simp: Delete_new_group fun_upd_idem)
next
  case grow
  with assms show ?thesis by (auto simp: Delete_grow_group)
qed (use assms(2) in auto)

lemma Add_Delete_slot_address:
  assumes "al_wf al" and "AddSlot al a slot = Inr (al', True, sc)"
  shows "sc \<and> rbind (DeleteSlot al' a slot) (\<lambda>x. Inr (DeleteAddress x a)) = Inr al"
  using assms(1)
proof (cases rule: AddSlot_cases [of al a slot])
  case none
  with assms(2) show ?thesis by (auto simp: Delete_new_group DeleteAddress_def fun_upd_idem)
qed (use assms(2) in auto)

lemma AddSlot_no_change:
  assumes "al_wf al" and "AddSlot al a slot = Inr (al', ac, False)"
  shows "al' = al \<and> \<not> ac"
  using assms(1) by (rule AddSlot_cases [of al a slot]) (use assms(2) in auto)

section \<open>What the list contains\<close>

lemma Contains_AddAddress:
  "Contains (fst (AddAddress al a)) b slot
     = (if b = a \<and> al_addresses al a = None then Inr (True, False) else Contains al b slot)"
  by (auto simp: Contains_def AddAddress_def slot_index_def split: option.splits)

lemma Contains_AddSlot:
  assumes "al_wf al" and "AddSlot al a slot = Inr (al', ac, sc)"
  shows "Contains al' b k = (if b = a \<and> k = slot then Inr (True, True)
    else if b = a then rbind (Contains al a k) (\<lambda>(_, p). Inr (True, p)) else Contains al b k)"
proof -
  have old: "Contains (new_group al a slot) b k = Contains al b k" if "b \<noteq> a"
    using that al_wf_index [OF assms(1), of b]
    by (auto simp: Contains_def new_group_def slot_index_def nth_append split: option.splits)
  show ?thesis
    using assms(1)
  proof (cases rule: AddSlot_cases [of al a slot])
    case none
    with assms(2) have "al' = new_group al a slot" by simp
    with none old show ?thesis
      by (auto simp: Contains_def new_group_def slot_index_def)
  next
    case first
    with assms(2) have "al' = new_group al a slot" by simp
    with first old show ?thesis
      by (auto simp: Contains_def new_group_def slot_index_def)
  next
    case (grow idx)
    with assms(2) have al': "al' = grow_group al idx slot" by simp
    note range = al_wf_index [OF assms(1) grow(1,2)]
    have "Contains (grow_group al idx slot) b k = Contains al b k" if "b \<noteq> a"
    proof (cases "al_addresses al b")
      case (Some j)
      have "j \<noteq> idx" if "j \<noteq> - 1"
        using al_wf_inj [OF assms(1) grow(1) _ grow(2), of b] Some \<open>b \<noteq> a\<close> by auto
      then have "j \<noteq> - 1 \<Longrightarrow> nat j \<noteq> nat idx"
        using al_wf_index [OF assms(1) Some] range by (simp add: eq_nat_nat_iff)
      with Some show ?thesis by (auto simp: Contains_def grow_group_def slot_index_def)
    qed (simp add: Contains_def grow_group_def)
    with grow range al' show ?thesis
      by (auto simp: Contains_def grow_group_def slot_index_def)
  next
    case (same idx)
    with assms(2) slot_index_wf [OF assms(1) same(1,2)] show ?thesis
      by (auto simp: Contains_def split: option.splits)
  qed
qed

end
