(* ===== verification/StateDB.thy ===== *)
theory StateDB
  imports AccessList
begin

text \<open>
  The journaled state of a transaction (x/evm/statedb): accounts cached over a keeper, a journal of
  changes, snapshots, reverting to a snapshot, and the commit.

  \<^item> \<open>keeper\<close> is the interface \<open>Keeper\<close> of the package over a store of type \<open>'k\<close>; \<open>sd_ctx\<close> is the
    store of the transaction's context and \<open>sd_cacheCtx\<close> the one of the cache context, once there is
    one. \<open>keccak\<close> is the hash of go-ethereum. Events of the cache context are left out.
  \<^item> The refund counter is a \<open>nat\<close>, with the wrap of its \<open>uint64\<close> written out.
  \<^item> A pointer to a state object is the object in \<open>sd_objects\<close>; a method that changes it gets the
    object and writes it back. Getters load objects and storage into the caches, so they return the
    state as well. \<open>big.Int\<close> balances are integers and are never changed in place.
  \<^item> \<open>sview\<close> is what can be observed of a state, whatever is cached. \<open>undo\<close> is the effect of
    reverting a journal entry on it.
\<close>

section \<open>State\<close>

type_synonym bytes = "8 word list"

record Account =
  Nonce :: int
  Balance :: int
  CodeHash :: hash

record RawAccount =
  raw_Nonce :: int
  raw_Balance :: "int option"
  raw_CodeHash :: "hash option"

record stateObject =
  so_account :: Account
  so_code :: "bytes option"
  so_originStorage :: "hash \<rightharpoonup> hash"
  so_dirtyStorage :: "hash \<rightharpoonup> hash"
  so_address :: address
  so_dirtyCode :: bool
  so_suicided :: bool

record Log =
  log_Address :: address
  log_Topics :: "hash list"
  log_Data :: bytes
  log_TxHash :: hash
  log_BlockHash :: hash
  log_TxIndex :: int
  log_Index :: int

record TxConfig =
  tx_BlockHash :: hash
  tx_TxHash :: hash
  tx_TxIndex :: int
  tx_LogIndex :: int

datatype 'k journal_entry =
  createObjectChange address
| resetObjectChange stateObject
| suicideChange address bool int
| balanceChange address int
| nonceChange address int
| storageChange address hash hash
| codeChange address "bytes option" hash
| refundChange nat
| addLogChange
| accessListAddAccountChange address
| accessListAddSlotChange address hash
| precompileCallChange 'k

record 'k StateDB =
  sd_ctx :: 'k
  sd_cacheCtx :: "'k option"
  sd_entries :: "'k journal_entry list"
  sd_dirties :: "address \<rightharpoonup> int"
  sd_validRevisions :: "(int \<times> nat) list"
  sd_nextRevisionID :: int
  sd_objects :: "address \<rightharpoonup> stateObject"
  sd_txConfig :: TxConfig
  sd_refund :: nat
  sd_logs :: "Log list"
  sd_accessList :: access_list
  sd_precompileCalls :: int

record 'k keeper =
  k_GetAccount :: "'k \<Rightarrow> address \<Rightarrow> RawAccount option"
  k_GetState :: "'k \<Rightarrow> address \<Rightarrow> hash \<Rightarrow> hash"
  k_GetCode :: "'k \<Rightarrow> hash \<Rightarrow> bytes option"
  k_StorageList :: "'k \<Rightarrow> address \<Rightarrow> (hash \<times> hash) list"
  k_SetAccount :: "'k \<Rightarrow> address \<Rightarrow> Account \<Rightarrow> string + 'k"
  k_SetState :: "'k \<Rightarrow> address \<Rightarrow> hash \<Rightarrow> hash \<Rightarrow> 'k"
  k_SetCode :: "'k \<Rightarrow> hash \<Rightarrow> bytes \<Rightarrow> 'k"
  k_DeleteAccount :: "'k \<Rightarrow> address \<Rightarrow> string + 'k"
  keccak :: "bytes \<Rightarrow> hash"

definition emptyCodeHash :: "'k keeper \<Rightarrow> hash" where
  "emptyCodeHash K = keccak K []"

definition NewStateDB :: "'k \<Rightarrow> TxConfig \<Rightarrow> 'k StateDB" where
  "NewStateDB ctx txConfig = \<lparr>sd_ctx = ctx, sd_cacheCtx = None, sd_entries = [], sd_dirties = Map.empty,
     sd_validRevisions = [], sd_nextRevisionID = 0, sd_objects = Map.empty, sd_txConfig = txConfig,
     sd_refund = 0, sd_logs = [], sd_accessList = newAccessList, sd_precompileCalls = 0\<rparr>"

section \<open>The journal\<close>

fun Dirtied :: "'k journal_entry \<Rightarrow> address option" where
  "Dirtied (createObjectChange a) = Some a"
| "Dirtied (suicideChange a _ _) = Some a"
| "Dirtied (balanceChange a _) = Some a"
| "Dirtied (nonceChange a _) = Some a"
| "Dirtied (storageChange a _ _) = Some a"
| "Dirtied (codeChange a _ _) = Some a"
| "Dirtied _ = None"

definition journal_append :: "'k journal_entry \<Rightarrow> 'k StateDB \<Rightarrow> 'k StateDB" where
  "journal_append entry s = s
     \<lparr>sd_entries := sd_entries s @ [entry],
      sd_dirties := (case Dirtied entry of
          None \<Rightarrow> sd_dirties s
        | Some a \<Rightarrow> (sd_dirties s)(a \<mapsto> (case sd_dirties s a of None \<Rightarrow> 0 | Some n \<Rightarrow> n) + 1))\<rparr>"

definition sortedDirties :: "'k StateDB \<Rightarrow> address list" where
  "sortedDirties s = sorted_list_of_set (dom (sd_dirties s))"

section \<open>State objects\<close>

definition newObject :: "'k keeper \<Rightarrow> address \<Rightarrow> RawAccount \<Rightarrow> stateObject" where
  "newObject K addr account =
     \<lparr>so_account = \<lparr>Nonce = raw_Nonce account,
        Balance = (case raw_Balance account of None \<Rightarrow> 0 | Some b \<Rightarrow> b),
        CodeHash = (case raw_CodeHash account of None \<Rightarrow> emptyCodeHash K | Some h \<Rightarrow> h)\<rparr>,
      so_code = None, so_originStorage = Map.empty, so_dirtyStorage = Map.empty, so_address = addr,
      so_dirtyCode = False, so_suicided = False\<rparr>"

definition so_empty :: "'k keeper \<Rightarrow> stateObject \<Rightarrow> bool" where
  "so_empty K so \<longleftrightarrow> Nonce (so_account so) = 0 \<and> Balance (so_account so) = 0 \<and>
     CodeHash (so_account so) = emptyCodeHash K"

definition set_object :: "address \<Rightarrow> stateObject \<Rightarrow> 'k StateDB \<Rightarrow> 'k StateDB" where
  "set_object addr so s = s\<lparr>sd_objects := (sd_objects s)(addr \<mapsto> so)\<rparr>"

definition setStateObject :: "stateObject \<Rightarrow> 'k StateDB \<Rightarrow> 'k StateDB" where
  "setStateObject so s = set_object (so_address so) so s"

definition getStateObject :: "'k keeper \<Rightarrow> address \<Rightarrow> 'k StateDB \<Rightarrow> stateObject option \<times> 'k StateDB" where
  "getStateObject K addr s =
     (case sd_objects s addr of
        Some obj \<Rightarrow> (Some obj, s)
      | None \<Rightarrow>
          (case k_GetAccount K (sd_ctx s) addr of
             None \<Rightarrow> (None, s)
           | Some account \<Rightarrow> let obj = newObject K addr account
               in (Some obj, setStateObject obj s)))"

definition setBalance :: "int \<Rightarrow> stateObject \<Rightarrow> stateObject" where
  "setBalance amount so = so\<lparr>so_account := (so_account so)\<lparr>Balance := amount\<rparr>\<rparr>"

definition setNonce :: "int \<Rightarrow> stateObject \<Rightarrow> stateObject" where
  "setNonce nonce so = so\<lparr>so_account := (so_account so)\<lparr>Nonce := nonce\<rparr>\<rparr>"

definition setCode :: "hash \<Rightarrow> bytes option \<Rightarrow> stateObject \<Rightarrow> stateObject" where
  "setCode codeHash code so = so\<lparr>so_code := code,
     so_account := (so_account so)\<lparr>CodeHash := codeHash\<rparr>, so_dirtyCode := True\<rparr>"

definition setState :: "hash \<Rightarrow> hash \<Rightarrow> stateObject \<Rightarrow> stateObject" where
  "setState key v so = so\<lparr>so_dirtyStorage := (so_dirtyStorage so)(key \<mapsto> v)\<rparr>"

definition so_SetBalance :: "address \<Rightarrow> stateObject \<Rightarrow> int \<Rightarrow> 'k StateDB \<Rightarrow> 'k StateDB" where
  "so_SetBalance addr so amount s =
     set_object addr (setBalance amount so)
       (journal_append (balanceChange addr (Balance (so_account so))) s)"

definition so_AddBalance :: "address \<Rightarrow> stateObject \<Rightarrow> int \<Rightarrow> 'k StateDB \<Rightarrow> 'k StateDB" where
  "so_AddBalance addr so amount s =
     (if amount = 0 then s else so_SetBalance addr so (Balance (so_account so) + amount) s)"

definition so_SubBalance :: "address \<Rightarrow> stateObject \<Rightarrow> int \<Rightarrow> 'k StateDB \<Rightarrow> 'k StateDB" where
  "so_SubBalance addr so amount s =
     (if amount = 0 then s else so_SetBalance addr so (Balance (so_account so) - amount) s)"

definition so_Code :: "'k keeper \<Rightarrow> stateObject \<Rightarrow> 'k StateDB \<Rightarrow> bytes option \<times> stateObject" where
  "so_Code K so s =
     (if so_code so \<noteq> None then (so_code so, so)
      else if CodeHash (so_account so) = emptyCodeHash K then (None, so)
      else let code = k_GetCode K (sd_ctx s) (CodeHash (so_account so))
           in (code, so\<lparr>so_code := code\<rparr>))"

definition so_SetCode :: "'k keeper \<Rightarrow> address \<Rightarrow> stateObject \<Rightarrow> hash \<Rightarrow> bytes \<Rightarrow> 'k StateDB \<Rightarrow> 'k StateDB" where
  "so_SetCode K addr so codeHash code s =
     (let (prevcode, so1) = so_Code K so s
      in set_object addr (setCode codeHash (Some code) so1)
           (journal_append (codeChange addr prevcode (CodeHash (so_account so1))) s))"

definition so_SetNonce :: "address \<Rightarrow> stateObject \<Rightarrow> int \<Rightarrow> 'k StateDB \<Rightarrow> 'k StateDB" where
  "so_SetNonce addr so nonce s =
     set_object addr (setNonce nonce so) (journal_append (nonceChange addr (Nonce (so_account so))) s)"

definition so_GetCommittedState ::
  "'k keeper \<Rightarrow> address \<Rightarrow> stateObject \<Rightarrow> hash \<Rightarrow> 'k StateDB \<Rightarrow> hash \<times> stateObject" where
  "so_GetCommittedState K addr so key s =
     (case so_originStorage so key of
        Some v \<Rightarrow> (v, so)
      | None \<Rightarrow> let v = k_GetState K (sd_ctx s) addr key
          in (v, so\<lparr>so_originStorage := (so_originStorage so)(key \<mapsto> v)\<rparr>))"

definition so_GetState ::
  "'k keeper \<Rightarrow> address \<Rightarrow> stateObject \<Rightarrow> hash \<Rightarrow> 'k StateDB \<Rightarrow> hash \<times> stateObject" where
  "so_GetState K addr so key s =
     (case so_dirtyStorage so key of
        Some v \<Rightarrow> (v, so)
      | None \<Rightarrow> so_GetCommittedState K addr so key s)"

definition so_SetState ::
  "'k keeper \<Rightarrow> address \<Rightarrow> stateObject \<Rightarrow> hash \<Rightarrow> hash \<Rightarrow> 'k StateDB \<Rightarrow> 'k StateDB" where
  "so_SetState K addr so key v s =
     (let (prev, so1) = so_GetState K addr so key s
      in if prev = v then set_object addr so1 s
         else set_object addr (setState key v so1) (journal_append (storageChange addr key prev) s))"

section \<open>Reading\<close>

definition Exist :: "'k keeper \<Rightarrow> address \<Rightarrow> 'k StateDB \<Rightarrow> bool \<times> 'k StateDB" where
  "Exist K addr s = (let (so, s1) = getStateObject K addr s in (so \<noteq> None, s1))"

definition Empty :: "'k keeper \<Rightarrow> address \<Rightarrow> 'k StateDB \<Rightarrow> bool \<times> 'k StateDB" where
  "Empty K addr s = (let (so, s1) = getStateObject K addr s
     in (case so of None \<Rightarrow> True | Some so \<Rightarrow> so_empty K so, s1))"

definition GetBalance :: "'k keeper \<Rightarrow> address \<Rightarrow> 'k StateDB \<Rightarrow> int \<times> 'k StateDB" where
  "GetBalance K addr s = (let (so, s1) = getStateObject K addr s
     in (case so of None \<Rightarrow> 0 | Some so \<Rightarrow> Balance (so_account so), s1))"

definition GetNonce :: "'k keeper \<Rightarrow> address \<Rightarrow> 'k StateDB \<Rightarrow> int \<times> 'k StateDB" where
  "GetNonce K addr s = (let (so, s1) = getStateObject K addr s
     in (case so of None \<Rightarrow> 0 | Some so \<Rightarrow> Nonce (so_account so), s1))"

definition GetCode :: "'k keeper \<Rightarrow> address \<Rightarrow> 'k StateDB \<Rightarrow> bytes option \<times> 'k StateDB" where
  "GetCode K addr s = (let (so, s1) = getStateObject K addr s
     in case so of None \<Rightarrow> (None, s1)
        | Some so \<Rightarrow> let (code, so1) = so_Code K so s1 in (code, set_object addr so1 s1))"

definition GetCodeSize :: "'k keeper \<Rightarrow> address \<Rightarrow> 'k StateDB \<Rightarrow> int \<times> 'k StateDB" where
  "GetCodeSize K addr s = (let (code, s1) = GetCode K addr s
     in (case code of None \<Rightarrow> 0 | Some c \<Rightarrow> int (length c), s1))"

definition GetCodeHash :: "'k keeper \<Rightarrow> address \<Rightarrow> 'k StateDB \<Rightarrow> hash \<times> 'k StateDB" where
  "GetCodeHash K addr s = (let (so, s1) = getStateObject K addr s
     in (case so of None \<Rightarrow> 0 | Some so \<Rightarrow> CodeHash (so_account so), s1))"

definition GetState :: "'k keeper \<Rightarrow> address \<Rightarrow> hash \<Rightarrow> 'k StateDB \<Rightarrow> hash \<times> 'k StateDB" where
  "GetState K addr key s = (let (so, s1) = getStateObject K addr s
     in case so of None \<Rightarrow> (0, s1)
        | Some so \<Rightarrow> let (v, so1) = so_GetState K addr so key s1 in (v, set_object addr so1 s1))"

definition GetCommittedState :: "'k keeper \<Rightarrow> address \<Rightarrow> hash \<Rightarrow> 'k StateDB \<Rightarrow> hash \<times> 'k StateDB" where
  "GetCommittedState K addr key s = (let (so, s1) = getStateObject K addr s
     in case so of None \<Rightarrow> (0, s1)
        | Some so \<Rightarrow> let (v, so1) = so_GetCommittedState K addr so key s1 in (v, set_object addr so1 s1))"

definition HasSuicided :: "'k keeper \<Rightarrow> address \<Rightarrow> 'k StateDB \<Rightarrow> bool \<times> 'k StateDB" where
  "HasSuicided K addr s = (let (so, s1) = getStateObject K addr s
     in (case so of None \<Rightarrow> False | Some so \<Rightarrow> so_suicided so, s1))"

text \<open>The callback returns false to stop; it threads a state of its own.\<close>

fun foreach_storage :: "(hash \<rightharpoonup> hash) \<Rightarrow> (hash \<Rightarrow> hash \<Rightarrow> 's \<Rightarrow> bool \<times> 's) \<Rightarrow> (hash \<times> hash) list \<Rightarrow> 's \<Rightarrow> 's" where
  "foreach_storage dirty cb [] t = t"
| "foreach_storage dirty cb ((key, v) # kvs) t =
     (let (continue, t1) = cb key (case dirty key of Some w \<Rightarrow> w | None \<Rightarrow> v) t
      in if continue then foreach_storage dirty cb kvs t1 else t1)"

definition ForEachStorage ::
  "'k keeper \<Rightarrow> address \<Rightarrow> (hash \<Rightarrow> hash \<Rightarrow> 's \<Rightarrow> bool \<times> 's) \<Rightarrow> 's \<Rightarrow> 'k StateDB \<Rightarrow> 's \<times> 'k StateDB" where
  "ForEachStorage K addr cb t s = (let (so, s1) = getStateObject K addr s
     in (case so of None \<Rightarrow> t
         | Some so \<Rightarrow> foreach_storage (so_dirtyStorage so) cb (k_StorageList K (sd_ctx s) addr) t, s1))"

section \<open>Writing\<close>

definition createObject :: "'k keeper \<Rightarrow> address \<Rightarrow> 'k StateDB \<Rightarrow> (stateObject \<times> stateObject option) \<times> 'k StateDB" where
  "createObject K addr s =
     (let (prev, s1) = getStateObject K addr s;
          newobj = newObject K addr \<lparr>raw_Nonce = 0, raw_Balance = None, raw_CodeHash = None\<rparr>;
          s2 = journal_append (case prev of None \<Rightarrow> createObjectChange addr
                               | Some p \<Rightarrow> resetObjectChange p) s1
      in ((newobj, prev), setStateObject newobj s2))"

definition getOrNewStateObject :: "'k keeper \<Rightarrow> address \<Rightarrow> 'k StateDB \<Rightarrow> stateObject \<times> 'k StateDB" where
  "getOrNewStateObject K addr s =
     (let (so, s1) = getStateObject K addr s
      in case so of
           Some so \<Rightarrow> (so, s1)
         | None \<Rightarrow> let ((newobj, _), s2) = createObject K addr s1 in (newobj, s2))"

definition CreateAccount :: "'k keeper \<Rightarrow> address \<Rightarrow> 'k StateDB \<Rightarrow> 'k StateDB" where
  "CreateAccount K addr s =
     (let ((newobj, prev), s1) = createObject K addr s
      in case prev of
           None \<Rightarrow> s1
         | Some p \<Rightarrow> set_object addr (setBalance (Balance (so_account p)) newobj) s1)"

definition AddBalance :: "'k keeper \<Rightarrow> address \<Rightarrow> int \<Rightarrow> 'k StateDB \<Rightarrow> 'k StateDB" where
  "AddBalance K addr amount s =
     (let (so, s1) = getOrNewStateObject K addr s in so_AddBalance addr so amount s1)"

definition SubBalance :: "'k keeper \<Rightarrow> address \<Rightarrow> int \<Rightarrow> 'k StateDB \<Rightarrow> 'k StateDB" where
  "SubBalance K addr amount s =
     (let (so, s1) = getOrNewStateObject K addr s in so_SubBalance addr so amount s1)"

definition SetNonce :: "'k keeper \<Rightarrow> address \<Rightarrow> int \<Rightarrow> 'k StateDB \<Rightarrow> 'k StateDB" where
  "SetNonce K addr nonce s =
     (let (so, s1) = getOrNewStateObject K addr s in so_SetNonce addr so nonce s1)"

definition SetCode :: "'k keeper \<Rightarrow> address \<Rightarrow> bytes \<Rightarrow> 'k StateDB \<Rightarrow> 'k StateDB" where
  "SetCode K addr code s =
     (let (so, s1) = getOrNewStateObject K addr s in so_SetCode K addr so (keccak K code) code s1)"

definition SetState :: "'k keeper \<Rightarrow> address \<Rightarrow> hash \<Rightarrow> hash \<Rightarrow> 'k StateDB \<Rightarrow> 'k StateDB" where
  "SetState K addr key v s =
     (let (so, s1) = getOrNewStateObject K addr s in so_SetState K addr so key v s1)"

definition Suicide :: "'k keeper \<Rightarrow> address \<Rightarrow> 'k StateDB \<Rightarrow> bool \<times> 'k StateDB" where
  "Suicide K addr s =
     (let (so, s1) = getStateObject K addr s
      in case so of
           None \<Rightarrow> (False, s1)
         | Some so \<Rightarrow> (True, set_object addr (setBalance 0 (so\<lparr>so_suicided := True\<rparr>))
             (journal_append (suicideChange addr (so_suicided so) (Balance (so_account so))) s1)))"

definition AddLog :: "Log \<Rightarrow> 'k StateDB \<Rightarrow> 'k StateDB" where
  "AddLog log s =
     (let s1 = journal_append addLogChange s;
          log1 = log\<lparr>log_TxHash := tx_TxHash (sd_txConfig s1), log_BlockHash := tx_BlockHash (sd_txConfig s1),
                     log_TxIndex := tx_TxIndex (sd_txConfig s1),
                     log_Index := u64 (tx_LogIndex (sd_txConfig s1) + int (length (sd_logs s1)))\<rparr>
      in s1\<lparr>sd_logs := sd_logs s1 @ [log1]\<rparr>)"

definition AddRefund :: "int \<Rightarrow> 'k StateDB \<Rightarrow> 'k StateDB" where
  "AddRefund gas s = (journal_append (refundChange (sd_refund s)) s)\<lparr>sd_refund := nat (u64 (int (sd_refund s) + gas))\<rparr>"

definition SubRefund :: "int \<Rightarrow> 'k StateDB \<Rightarrow> go_panic + 'k StateDB" where
  "SubRefund gas s =
     (let s1 = journal_append (refundChange (sd_refund s)) s
      in if gas > int (sd_refund s1) then Inl (GoPanic ''Refund counter below zero'')
         else Inr (s1\<lparr>sd_refund := nat (u64 (int (sd_refund s1) - gas))\<rparr>))"

definition AddAddressToAccessList :: "address \<Rightarrow> 'k StateDB \<Rightarrow> 'k StateDB" where
  "AddAddressToAccessList addr s =
     (let (al, added) = AddAddress (sd_accessList s) addr;
          s1 = s\<lparr>sd_accessList := al\<rparr>
      in if added then journal_append (accessListAddAccountChange addr) s1 else s1)"

definition AddSlotToAccessList :: "address \<Rightarrow> hash \<Rightarrow> 'k StateDB \<Rightarrow> go_panic + 'k StateDB" where
  "AddSlotToAccessList addr slot s =
     rbind (AddSlot (sd_accessList s) addr slot) (\<lambda>(al, addrMod, slotMod).
       let s1 = s\<lparr>sd_accessList := al\<rparr>;
           s2 = (if addrMod then journal_append (accessListAddAccountChange addr) s1 else s1)
       in Inr (if slotMod then journal_append (accessListAddSlotChange addr slot) s2 else s2))"

definition PrepareAccessList ::
  "address \<Rightarrow> address option \<Rightarrow> address list \<Rightarrow> (address \<times> hash list) list \<Rightarrow> 'k StateDB
     \<Rightarrow> go_panic + 'k StateDB" where
  "PrepareAccessList sender dst precompiles accessList s =
     (let s1 = AddAddressToAccessList sender s;
          s2 = (case dst of None \<Rightarrow> s1 | Some d \<Rightarrow> AddAddressToAccessList d s1);
          s3 = fold AddAddressToAccessList precompiles s2
      in fold_res (\<lambda>(addr, storageKeys) s. fold_res (AddSlotToAccessList addr) storageKeys
           (AddAddressToAccessList addr s)) accessList s3)"

section \<open>Snapshots\<close>

definition Snapshot :: "'k StateDB \<Rightarrow> int \<times> 'k StateDB" where
  "Snapshot s = (sd_nextRevisionID s,
     s\<lparr>sd_nextRevisionID := sd_nextRevisionID s + 1,
       sd_validRevisions := sd_validRevisions s @ [(sd_nextRevisionID s, length (sd_entries s))]\<rparr>)"

definition modify_object :: "'k keeper \<Rightarrow> address \<Rightarrow> (stateObject \<Rightarrow> stateObject) \<Rightarrow> 'k StateDB
    \<Rightarrow> go_panic + 'k StateDB" where
  "modify_object K a f s =
     (let (so, s1) = getStateObject K a s
      in case so of None \<Rightarrow> Inl (GoPanic ''nil pointer dereference'')
         | Some so \<Rightarrow> Inr (set_object a (f so) s1))"

definition revert_entry :: "'k keeper \<Rightarrow> 'k journal_entry \<Rightarrow> 'k StateDB \<Rightarrow> go_panic + 'k StateDB" where
  "revert_entry K entry s =
     (case entry of
        createObjectChange a \<Rightarrow> Inr (s\<lparr>sd_objects := (sd_objects s)(a := None)\<rparr>)
      | resetObjectChange prev \<Rightarrow> Inr (setStateObject prev s)
      | suicideChange a prev prevbalance \<Rightarrow>
          (let (so, s1) = getStateObject K a s
           in case so of None \<Rightarrow> Inr s1
              | Some so \<Rightarrow> Inr (set_object a (setBalance prevbalance (so\<lparr>so_suicided := prev\<rparr>)) s1))
      | balanceChange a prev \<Rightarrow> modify_object K a (setBalance prev) s
      | nonceChange a prev \<Rightarrow> modify_object K a (setNonce prev) s
      | codeChange a prevcode prevhash \<Rightarrow> modify_object K a (setCode prevhash prevcode) s
      | storageChange a key prevalue \<Rightarrow> modify_object K a (setState key prevalue) s
      | refundChange prev \<Rightarrow> Inr (s\<lparr>sd_refund := prev\<rparr>)
      | addLogChange \<Rightarrow> if sd_logs s = [] then Inl (GoPanic ''slice bounds out of range'')
          else Inr (s\<lparr>sd_logs := butlast (sd_logs s)\<rparr>)
      | accessListAddAccountChange a \<Rightarrow> Inr (s\<lparr>sd_accessList := DeleteAddress (sd_accessList s) a\<rparr>)
      | accessListAddSlotChange a slot \<Rightarrow>
          rbind (DeleteSlot (sd_accessList s) a slot) (\<lambda>al. Inr (s\<lparr>sd_accessList := al\<rparr>))
      | precompileCallChange multiStore \<Rightarrow> Inr (s\<lparr>sd_cacheCtx := Some multiStore\<rparr>))"

definition drop_dirty :: "'k journal_entry \<Rightarrow> 'k StateDB \<Rightarrow> 'k StateDB" where
  "drop_dirty entry s =
     (case Dirtied entry of
        None \<Rightarrow> s
      | Some a \<Rightarrow>
          let n = (case sd_dirties s a of None \<Rightarrow> 0 | Some n \<Rightarrow> n) - 1
          in s\<lparr>sd_dirties := (sd_dirties s)(a := (if n = 0 then None else Some n))\<rparr>)"

definition journal_Revert :: "'k keeper \<Rightarrow> nat \<Rightarrow> 'k StateDB \<Rightarrow> go_panic + 'k StateDB" where
  "journal_Revert K snapshot s =
     rbind (fold_res (\<lambda>entry s. rbind (revert_entry K entry s) (\<lambda>s1. Inr (drop_dirty entry s1)))
        (rev (drop snapshot (sd_entries s))) s)
       (\<lambda>s1. Inr (s1\<lparr>sd_entries := take snapshot (sd_entries s1)\<rparr>))"

text \<open>Go's \<open>sort.Search\<close>: a binary search for the least index that satisfies a monotone predicate.\<close>

function sort_Search :: "(nat \<Rightarrow> bool) \<Rightarrow> nat \<Rightarrow> nat \<Rightarrow> nat" where
  "sort_Search f i j =
     (if i < j then (let h = (i + j) div 2 in if \<not> f h then sort_Search f (h + 1) j else sort_Search f i h)
      else i)"
  by auto
termination by (relation "measure (\<lambda>(f, i, j). j - i)") auto

declare sort_Search.simps [simp del]

definition RevertToSnapshot :: "'k keeper \<Rightarrow> int \<Rightarrow> 'k StateDB \<Rightarrow> go_panic + 'k StateDB" where
  "RevertToSnapshot K revid s =
     (let revs = sd_validRevisions s;
          idx = sort_Search (\<lambda>i. fst (revs ! i) \<ge> revid) 0 (length revs)
      in if idx = length revs \<or> fst (revs ! idx) \<noteq> revid
         then Inl (GoPanic ''revision id cannot be reverted'')
         else rbind (journal_Revert K (snd (revs ! idx)) s) (\<lambda>s1.
              Inr (s1\<lparr>sd_validRevisions := take idx (sd_validRevisions s1)\<rparr>)))"

section \<open>Commit\<close>

definition commit_object :: "'k keeper \<Rightarrow> 'k StateDB \<Rightarrow> address \<Rightarrow> 'k \<Rightarrow> go_err + 'k" where
  "commit_object K s addr ctx =
     (case sd_objects s addr of
        None \<Rightarrow> Inl (GoPanicked (GoPanic ''nil pointer dereference''))
      | Some obj \<Rightarrow>
          if so_suicided obj then lift_err (k_DeleteAccount K ctx (so_address obj))
          else let ctx1 = (case so_code obj of
                     Some code \<Rightarrow> if so_dirtyCode obj then k_SetCode K ctx (CodeHash (so_account obj)) code else ctx
                   | None \<Rightarrow> ctx)
               in rbind (lift_err (k_SetAccount K ctx1 (so_address obj) (so_account obj))) (\<lambda>ctx2.
                  Inr (fold (\<lambda>key c. case so_dirtyStorage obj key of
                           Some v \<Rightarrow> k_SetState K c (so_address obj) key v | None \<Rightarrow> c)
                         (sorted_list_of_set (dom (so_dirtyStorage obj))) ctx2)))"

definition commitWithCtx :: "'k keeper \<Rightarrow> 'k \<Rightarrow> 'k StateDB \<Rightarrow> go_err + 'k" where
  "commitWithCtx K ctx s = fold_res (commit_object K s) (sortedDirties s) ctx"

definition Commit :: "'k keeper \<Rightarrow> 'k StateDB \<Rightarrow> go_err + 'k" where
  "Commit K s = commitWithCtx K (case sd_cacheCtx s of None \<Rightarrow> sd_ctx s | Some m \<Rightarrow> m) s"

section \<open>Calls of stateful precompiles\<close>

definition MaxPrecompileCalls :: int where "MaxPrecompileCalls = 100"

definition GetCacheContext :: "'k StateDB \<Rightarrow> 'k \<times> 'k StateDB" where
  "GetCacheContext s = (case sd_cacheCtx s of
     Some m \<Rightarrow> (m, s)
   | None \<Rightarrow> (sd_ctx s, s\<lparr>sd_cacheCtx := Some (sd_ctx s)\<rparr>))"

definition MultiStoreSnapshot :: "'k StateDB \<Rightarrow> 'k \<times> 'k StateDB" where
  "MultiStoreSnapshot s = GetCacheContext s"

definition CommitWithCacheCtx :: "'k keeper \<Rightarrow> 'k StateDB \<Rightarrow> go_err + 'k StateDB" where
  "CommitWithCacheCtx K s =
     (case sd_cacheCtx s of
        None \<Rightarrow> Inl (GoPanicked (GoPanic ''nil pointer dereference''))
      | Some m \<Rightarrow> rbind (commitWithCtx K m s) (\<lambda>m'. Inr (s\<lparr>sd_cacheCtx := Some m'\<rparr>)))"

definition AddPrecompileFn :: "'k keeper \<Rightarrow> address \<Rightarrow> 'k \<Rightarrow> 'k StateDB \<Rightarrow> bool \<times> 'k StateDB" where
  "AddPrecompileFn K addr cms s =
     (let (so, s1) = getOrNewStateObject K addr s;
          s2 = journal_append (precompileCallChange cms) s1;
          s3 = s2\<lparr>sd_precompileCalls := (sd_precompileCalls s2 + 1) mod 2 ^ 8\<rparr>
      in (\<not> sd_precompileCalls s3 > MaxPrecompileCalls, s3))"

datatype balance_op = Sub | Add

fun AddJournalEntries ::
  "'k keeper \<Rightarrow> address \<Rightarrow> (address \<times> int \<times> balance_op) list \<Rightarrow> 'k \<Rightarrow> 'k StateDB \<Rightarrow> bool \<times> 'k StateDB" where
  "AddJournalEntries K addr [] cms s = AddPrecompileFn K addr cms s"
| "AddJournalEntries K addr ((acc, amount, Sub) # es) cms s =
     AddJournalEntries K addr es cms (SubBalance K acc amount s)"
| "AddJournalEntries K addr ((acc, amount, Add) # es) cms s =
     AddJournalEntries K addr es cms (AddBalance K acc amount s)"

text \<open>
  The part of \<open>RunSetup\<close> that touches the state, the run of the precompile on the cache context
  (\<open>run\<close>, outside the package: what it does to the store, and the balance changes it reports if it
  succeeds), and the journal entries, which are added only after a success.
\<close>

definition precompile_call ::
  "'k keeper \<Rightarrow> address \<Rightarrow> ('k \<Rightarrow> (address \<times> int \<times> balance_op) list option \<times> 'k) \<Rightarrow> 'k StateDB
     \<Rightarrow> go_err + bool \<times> 'k StateDB" where
  "precompile_call K addr run s =
     (let (_, s1) = GetCacheContext s;
          (multiStore, s2) = MultiStoreSnapshot s1
      in rbind (CommitWithCacheCtx K s2) (\<lambda>s3.
         let (changes, store) = run (fst (GetCacheContext s3));
             s4 = s3\<lparr>sd_cacheCtx := Some store\<rparr>
         in case changes of
              None \<Rightarrow> Inr (False, s4)
            | Some es \<Rightarrow> Inr (AddJournalEntries K addr es multiStore s4)))"

end
