(* ===== verification/Revert.thy ===== *)
theory Revert
  imports StateDB
begin

text \<open>
  Snapshots of the journaled state (x/evm/statedb): what a revert restores.

  \<^item> \<open>view\<close> is what can be observed of a state, whatever is cached: the accounts with their
    balance, nonce, code and storage, the refund, the logs, the access list and the store that
    precompiles see.
  \<^item> \<open>undo\<close> is the effect of reverting a journal entry, on views. The locale \<open>journaled\<close> is the
    contract between the two: reverting entries commutes with \<open>view\<close>.
  \<^item> \<open>jstep\<close> says that an operation appended to the journal exactly what undoes it. Every
    operation of the state satisfies it; \<open>reach\<close> lifts it to sequences of operations with nested
    snapshots and reverts.
\<close>

section \<open>What can be observed\<close>

record aview =
  av_nonce :: int
  av_balance :: int
  av_codeHash :: hash
  av_code :: bytes
  av_suicided :: bool
  av_storage :: "hash \<Rightarrow> hash"
  av_committed :: "hash \<Rightarrow> hash"

record 'k sview =
  v_ctx :: 'k
  v_accts :: "address \<Rightarrow> aview option"
  v_refund :: nat
  v_logs :: "Log list"
  v_al :: access_list
  v_store :: 'k

definition code_of :: "'k keeper \<Rightarrow> 'k \<Rightarrow> bytes option \<Rightarrow> hash \<Rightarrow> bytes" where
  "code_of K ctx code h = (case code of Some c \<Rightarrow> c
     | None \<Rightarrow> if h = emptyCodeHash K then [] else case k_GetCode K ctx h of None \<Rightarrow> [] | Some c \<Rightarrow> c)"

definition committed_of :: "'k keeper \<Rightarrow> 'k \<Rightarrow> address \<Rightarrow> (hash \<rightharpoonup> hash) \<Rightarrow> hash \<Rightarrow> hash" where
  "committed_of K ctx a origin key = (case origin key of Some v \<Rightarrow> v | None \<Rightarrow> k_GetState K ctx a key)"

definition obj_view :: "'k keeper \<Rightarrow> 'k \<Rightarrow> address \<Rightarrow> stateObject \<Rightarrow> aview" where
  "obj_view K ctx a so =
     \<lparr>av_nonce = Nonce (so_account so), av_balance = Balance (so_account so),
      av_codeHash = CodeHash (so_account so),
      av_code = code_of K ctx (so_code so) (CodeHash (so_account so)), av_suicided = so_suicided so,
      av_storage = (\<lambda>key. case so_dirtyStorage so key of Some v \<Rightarrow> v | None \<Rightarrow> committed_of K ctx a (so_originStorage so) key),
      av_committed = committed_of K ctx a (so_originStorage so)\<rparr>"

definition stored_view :: "'k keeper \<Rightarrow> 'k \<Rightarrow> address \<Rightarrow> aview option" where
  "stored_view K ctx a = map_option (\<lambda>raw. obj_view K ctx a (newObject K a raw)) (k_GetAccount K ctx a)"

definition view :: "'k keeper \<Rightarrow> 'k StateDB \<Rightarrow> 'k sview" where
  "view K s =
     \<lparr>v_ctx = sd_ctx s,
      v_accts = (\<lambda>a. case sd_objects s a of Some so \<Rightarrow> Some (obj_view K (sd_ctx s) a so)
                   | None \<Rightarrow> stored_view K (sd_ctx s) a),
      v_refund = sd_refund s, v_logs = sd_logs s, v_al = sd_accessList s,
      v_store = (case sd_cacheCtx s of Some m \<Rightarrow> m | None \<Rightarrow> sd_ctx s)\<rparr>"

definition set_acct :: "address \<Rightarrow> aview \<Rightarrow> 'k sview \<Rightarrow> 'k sview" where
  "set_acct a av v = v\<lparr>v_accts := (v_accts v)(a := Some av)\<rparr>"

definition on_acct :: "address \<Rightarrow> (aview \<Rightarrow> aview) \<Rightarrow> 'k sview \<Rightarrow> go_panic + 'k sview" where
  "on_acct a f v = (case v_accts v a of None \<Rightarrow> Inl (GoPanic ''nil pointer dereference'')
     | Some av \<Rightarrow> Inr (set_acct a (f av) v))"

definition undo :: "'k keeper \<Rightarrow> 'k journal_entry \<Rightarrow> 'k sview \<Rightarrow> go_panic + 'k sview" where
  "undo K entry v =
     (case entry of
        createObjectChange a \<Rightarrow> Inr (v\<lparr>v_accts := (v_accts v)(a := stored_view K (v_ctx v) a)\<rparr>)
      | resetObjectChange prev \<Rightarrow> Inr (set_acct (so_address prev) (obj_view K (v_ctx v) (so_address prev) prev) v)
      | suicideChange a prev prevbalance \<Rightarrow>
          (case v_accts v a of None \<Rightarrow> Inr v
           | Some av \<Rightarrow> Inr (set_acct a (av\<lparr>av_suicided := prev, av_balance := prevbalance\<rparr>) v))
      | balanceChange a prev \<Rightarrow> on_acct a (\<lambda>av. av\<lparr>av_balance := prev\<rparr>) v
      | nonceChange a prev \<Rightarrow> on_acct a (\<lambda>av. av\<lparr>av_nonce := prev\<rparr>) v
      | codeChange a prevcode prevhash \<Rightarrow>
          on_acct a (\<lambda>av. av\<lparr>av_codeHash := prevhash, av_code := code_of K (v_ctx v) prevcode prevhash\<rparr>) v
      | storageChange a key prevalue \<Rightarrow> on_acct a (\<lambda>av. av\<lparr>av_storage := (av_storage av)(key := prevalue)\<rparr>) v
      | refundChange prev \<Rightarrow> Inr (v\<lparr>v_refund := prev\<rparr>)
      | addLogChange \<Rightarrow> if v_logs v = [] then Inl (GoPanic ''slice bounds out of range'')
          else Inr (v\<lparr>v_logs := butlast (v_logs v)\<rparr>)
      | accessListAddAccountChange a \<Rightarrow> Inr (v\<lparr>v_al := DeleteAddress (v_al v) a\<rparr>)
      | accessListAddSlotChange a slot \<Rightarrow> rbind (DeleteSlot (v_al v) a slot) (\<lambda>al. Inr (v\<lparr>v_al := al\<rparr>))
      | precompileCallChange multiStore \<Rightarrow> Inr (v\<lparr>v_store := multiStore\<rparr>))"

section \<open>Reverting commutes with observing\<close>

text \<open>
  The contract of a journal: \<open>revert\<close> takes back an entry in a state, \<open>undo\<close> in what can be
  observed of it. Lists of entries are reverted from the last one to the first.
\<close>

locale journaled =
  fixes revert :: "'e \<Rightarrow> 's \<Rightarrow> 'p + 's"
    and observe :: "'s \<Rightarrow> 'v"
    and unstep :: "'e \<Rightarrow> 'v \<Rightarrow> 'p + 'v"
  assumes revert_observe: "rbind (revert e s) (\<lambda>t. Inr (observe t)) = unstep e (observe s)"
begin

lemma revert_ok: "unstep e (observe s) = Inr v \<Longrightarrow> \<exists>t. revert e s = Inr t \<and> observe t = v"
  using revert_observe [of e s] by auto

lemma fold_observe:
  "rbind (fold_res revert es s) (\<lambda>t. Inr (observe t)) = fold_res unstep es (observe s)"
proof (induction es arbitrary: s)
  case (Cons e es)
  then show ?case
    using revert_observe [of e s] by (cases "revert e s") (auto simp: rbind_def split: sum.splits)
qed simp

lemma fold_ok: "fold_res unstep es (observe s) = Inr v \<Longrightarrow> \<exists>t. fold_res revert es s = Inr t \<and> observe t = v"
  using fold_observe [of es s] by auto

end

lemma set_object_simps [simp]: "sd_ctx (set_object a so s) = sd_ctx s"
  "sd_cacheCtx (set_object a so s) = sd_cacheCtx s" "sd_entries (set_object a so s) = sd_entries s"
  "sd_dirties (set_object a so s) = sd_dirties s" "sd_validRevisions (set_object a so s) = sd_validRevisions s"
  "sd_nextRevisionID (set_object a so s) = sd_nextRevisionID s" "sd_txConfig (set_object a so s) = sd_txConfig s"
  "sd_refund (set_object a so s) = sd_refund s" "sd_logs (set_object a so s) = sd_logs s"
  "sd_accessList (set_object a so s) = sd_accessList s"
  "sd_precompileCalls (set_object a so s) = sd_precompileCalls s"
  "sd_objects (set_object a so s) = (sd_objects s)(a \<mapsto> so)"
  by (simp_all add: set_object_def)

lemma view_set_object: "view K (set_object a so s) = set_acct a (obj_view K (sd_ctx s) a so) (view K s)"
  by (auto simp: view_def set_acct_def fun_eq_iff cong: option.case_cong)

lemma newObject_address [simp]: "so_address (newObject K a raw) = a"
  by (simp add: newObject_def)

lemma view_simps [simp]: "v_ctx (view K s) = sd_ctx s" "v_refund (view K s) = sd_refund s"
  "v_logs (view K s) = sd_logs s" "v_al (view K s) = sd_accessList s"
  by (simp_all add: view_def)

lemma view_update [simp]:
  "view K (s\<lparr>sd_refund := r\<rparr>) = (view K s)\<lparr>v_refund := r\<rparr>"
  "view K (s\<lparr>sd_logs := l\<rparr>) = (view K s)\<lparr>v_logs := l\<rparr>"
  "view K (s\<lparr>sd_accessList := al\<rparr>) = (view K s)\<lparr>v_al := al\<rparr>"
  "view K (s\<lparr>sd_cacheCtx := Some m\<rparr>) = (view K s)\<lparr>v_store := m\<rparr>"
  "view K (s\<lparr>sd_objects := (sd_objects s)(a := None)\<rparr>)
     = (view K s)\<lparr>v_accts := (v_accts (view K s))(a := stored_view K (sd_ctx s) a)\<rparr>"
  "view K (s\<lparr>sd_entries := es\<rparr>) = view K s" "view K (s\<lparr>sd_dirties := d\<rparr>) = view K s"
  "view K (s\<lparr>sd_validRevisions := vr\<rparr>) = view K s" "view K (s\<lparr>sd_nextRevisionID := n\<rparr>) = view K s"
  "view K (s\<lparr>sd_precompileCalls := pc\<rparr>) = view K s"
  by (auto simp: view_def fun_eq_iff cong: option.case_cong)

lemma getStateObject_cases:
  obtains (found) so where "getStateObject K a s = (Some so, s)" "sd_objects s a = Some so"
      "v_accts (view K s) a = Some (obj_view K (sd_ctx s) a so)"
  | (loaded) so where "getStateObject K a s = (Some so, set_object a so s)" "so_address so = a"
      "sd_objects s a = None" "v_accts (view K s) a = Some (obj_view K (sd_ctx s) a so)"
      "so = newObject K a (the (k_GetAccount K (sd_ctx s) a))"
  | (absent) "getStateObject K a s = (None, s)" "sd_objects s a = None"
      "v_accts (view K s) a = None" "k_GetAccount K (sd_ctx s) a = None"
  by (cases "sd_objects s a"; cases "k_GetAccount K (sd_ctx s) a")
    (auto simp: getStateObject_def setStateObject_def view_def stored_view_def Let_def)

lemma set_acct_same: "v_accts v a = Some av \<Longrightarrow> set_acct a av v = v"
  by (simp add: set_acct_def fun_upd_idem)

lemma set_acct_twice [simp]: "set_acct a x (set_acct a y v) = set_acct a x v"
  by (simp add: set_acct_def)

lemma set_acct_sel [simp]: "v_ctx (set_acct a av v) = v_ctx v"
  "v_accts (set_acct a av v) = (v_accts v)(a \<mapsto> av)"
  by (simp_all add: set_acct_def)

lemma setter_address [simp]: "so_address (setBalance b so) = so_address so"
  "so_address (setNonce n so) = so_address so" "so_address (setCode h code so) = so_address so"
  "so_address (setState key v so) = so_address so"
  by (simp_all add: setBalance_def setNonce_def setCode_def setState_def)

lemma obj_view_idem [simp]:
  "(obj_view K ctx a so)\<lparr>av_balance := Balance (so_account so)\<rparr> = obj_view K ctx a so"
  "(obj_view K ctx a so)\<lparr>av_nonce := Nonce (so_account so)\<rparr> = obj_view K ctx a so"
  "(obj_view K ctx a so)\<lparr>av_codeHash := CodeHash (so_account so)\<rparr> = obj_view K ctx a so"
  "(obj_view K ctx a so)\<lparr>av_suicided := so_suicided so\<rparr> = obj_view K ctx a so"
  by (simp_all add: obj_view_def)

text \<open>Loading an object changes nothing that can be observed.\<close>

lemma getStateObject_view: "view K (snd (getStateObject K a s)) = view K s"
  by (rule getStateObject_cases [of K a s]) (auto simp: view_set_object set_acct_same)

lemma view_setBalance: "obj_view K ctx a (setBalance b so) = (obj_view K ctx a so)\<lparr>av_balance := b\<rparr>"
  and view_setNonce: "obj_view K ctx a (setNonce n so) = (obj_view K ctx a so)\<lparr>av_nonce := n\<rparr>"
  and view_setCode: "obj_view K ctx a (setCode h code so)
        = (obj_view K ctx a so)\<lparr>av_codeHash := h, av_code := code_of K ctx code h\<rparr>"
  and view_setState: "obj_view K ctx a (setState key v so)
        = (obj_view K ctx a so)\<lparr>av_storage := (av_storage (obj_view K ctx a so))(key := v)\<rparr>"
  and view_suicided: "obj_view K ctx a (so\<lparr>so_suicided := d\<rparr>) = (obj_view K ctx a so)\<lparr>av_suicided := d\<rparr>"
  by (auto simp: obj_view_def setBalance_def setNonce_def setCode_def setState_def fun_eq_iff
      cong: option.case_cong)

lemmas view_set = view_setBalance view_setNonce view_setCode view_setState view_suicided

lemma modify_object_view:
  assumes "\<And>so. obj_view K (sd_ctx s) a (f so) = g (obj_view K (sd_ctx s) a so)"
  shows "rbind (modify_object K a f s) (\<lambda>t. Inr (view K t)) = on_acct a g (view K s)"
  by (rule getStateObject_cases [of K a s])
    (auto simp: modify_object_def on_acct_def view_set_object assms)

lemma undo_hom: "rbind (revert_entry K e s) (\<lambda>t. Inr (view K t)) = undo K e (view K s)"
proof (cases e)
  case (suicideChange a prev bal)
  then show ?thesis
    by (cases rule: getStateObject_cases [of K a s])
      (auto simp: revert_entry_def undo_def view_set_object view_set)
next
  case (storageChange a key v)
  then show ?thesis
    by (simp add: revert_entry_def undo_def modify_object_view view_setState fun_upd_def)
qed (auto simp: revert_entry_def undo_def modify_object_view view_set setStateObject_def view_set_object)

interpretation sdb: journaled "revert_entry K" "view K" "undo K" for K
  by unfold_locales (rule undo_hom)

section \<open>Operations and the journal\<close>

text \<open>The entries \<open>es\<close> lead back from the last view to the first one, one entry at a time.\<close>

inductive traced :: "'k keeper \<Rightarrow> 'k sview \<Rightarrow> 'k journal_entry list \<Rightarrow> 'k sview \<Rightarrow> bool" for K v0 where
  traced_nil: "al_wf (v_al v0) \<Longrightarrow> traced K v0 [] v0"
| traced_snoc: "traced K v0 es v \<Longrightarrow> undo K e v' = Inr v \<Longrightarrow> al_wf (v_al v') \<Longrightarrow> traced K v0 (es @ [e]) v'"

inductive_simps traced_nil_iff: "traced K v0 [] v"
inductive_cases traced_snocE: "traced K v0 (es @ [e]) v"

lemma traced_wf: "traced K v0 es v \<Longrightarrow> al_wf (v_al v)"
  by (induction rule: traced.induct) auto

lemma traced_start_wf: "traced K v0 es v \<Longrightarrow> al_wf (v_al v0)"
  by (induction rule: traced.induct) auto

lemma traced_append: "traced K v1 es2 v2 \<Longrightarrow> traced K v0 es1 v1 \<Longrightarrow> traced K v0 (es1 @ es2) v2"
proof (induction rule: traced.induct)
  case (traced_snoc es v e v')
  then show ?case using traced.traced_snoc [of K v0 "es1 @ es" v e v'] by simp
qed simp

lemma traced_split: "traced K v0 (es1 @ es2) v2 \<Longrightarrow> \<exists>v1. traced K v0 es1 v1 \<and> traced K v1 es2 v2"
proof (induction es2 arbitrary: v2 rule: rev_induct)
  case Nil
  then show ?case using traced_wf [OF Nil] by (auto intro: traced_nil)
next
  case (snoc e es2)
  then have "traced K v0 ((es1 @ es2) @ [e]) v2" by simp
  then obtain v where "traced K v0 (es1 @ es2) v" "undo K e v2 = Inr v" "al_wf (v_al v2)"
    by (rule traced_snocE)
  with snoc.IH [of v] show ?case by (meson traced.traced_snoc)
qed

lemma traced_undo: "traced K v0 es v \<Longrightarrow> fold_res (undo K) (rev es) v = Inr v0"
  by (induction rule: traced.induct) auto

definition dirty_counts :: "'k journal_entry list \<Rightarrow> address \<rightharpoonup> int" where
  "dirty_counts es a = (let n = length (filter (\<lambda>e. Dirtied e = Some a) es)
     in if n = 0 then None else Some (int n))"

definition addressed :: "'k StateDB \<Rightarrow> bool" where
  "addressed s \<longleftrightarrow> (\<forall>a so. sd_objects s a = Some so \<longrightarrow> so_address so = a)"

definition sd_ok :: "'k StateDB \<Rightarrow> bool" where
  "sd_ok s \<longleftrightarrow> sd_dirties s = dirty_counts (sd_entries s) \<and> al_wf (sd_accessList s) \<and>
     (\<forall>a so. sd_objects s a = Some so \<longrightarrow> so_address so = a)"

definition jstep :: "'k keeper \<Rightarrow> 'k StateDB \<Rightarrow> 'k StateDB \<Rightarrow> bool" where
  "jstep K s s' \<longleftrightarrow> sd_ok s' \<and> sd_validRevisions s' = sd_validRevisions s \<and>
     sd_nextRevisionID s' = sd_nextRevisionID s \<and> sd_ctx s' = sd_ctx s \<and>
     (\<exists>es. sd_entries s' = sd_entries s @ es \<and> traced K (view K s) es (view K s'))"

lemma jstep_refl: "sd_ok s \<Longrightarrow> jstep K s s"
  by (auto simp: jstep_def sd_ok_def intro: traced_nil)

lemma jstep_trans: "jstep K s t \<Longrightarrow> jstep K t u \<Longrightarrow> jstep K s u"
  unfolding jstep_def by (fastforce dest: traced_append)

lemma jstep_ok: "jstep K s t \<Longrightarrow> sd_ok t"
  by (simp add: jstep_def)

lemma journal_append_simps [simp]: "sd_ctx (journal_append e s) = sd_ctx s"
  "sd_cacheCtx (journal_append e s) = sd_cacheCtx s" "sd_entries (journal_append e s) = sd_entries s @ [e]"
  "sd_validRevisions (journal_append e s) = sd_validRevisions s" "sd_objects (journal_append e s) = sd_objects s"
  "sd_nextRevisionID (journal_append e s) = sd_nextRevisionID s" "sd_txConfig (journal_append e s) = sd_txConfig s"
  "sd_refund (journal_append e s) = sd_refund s" "sd_logs (journal_append e s) = sd_logs s"
  "sd_accessList (journal_append e s) = sd_accessList s"
  "sd_precompileCalls (journal_append e s) = sd_precompileCalls s"
  "view K (journal_append e s) = view K s"
  by (simp_all add: journal_append_def)

lemma dirties_append:
  "sd_dirties s = dirty_counts (sd_entries s) \<Longrightarrow>
     sd_dirties (journal_append e s) = dirty_counts (sd_entries s @ [e])"
  by (auto simp: journal_append_def dirty_counts_def Let_def fun_eq_iff split: option.splits if_splits)

lemma sd_ok_append: "sd_ok s \<Longrightarrow> sd_ok (journal_append e s)"
  by (simp add: sd_ok_def dirties_append)

lemma sd_ok_set_object: "sd_ok s \<Longrightarrow> so_address so = a \<Longrightarrow> sd_ok (set_object a so s)"
  by (auto simp: sd_ok_def)

text \<open>One entry that undoes one change.\<close>

lemma jstep_entry:
  assumes "sd_ok s" and "sd_ok t" and "sd_entries t = sd_entries s @ [e]"
    and "sd_validRevisions t = sd_validRevisions s" "sd_nextRevisionID t = sd_nextRevisionID s"
    and "sd_ctx t = sd_ctx s" and "undo K e (view K t) = Inr (view K s)"
  shows "jstep K s t"
proof -
  have "traced K (view K s) ([] @ [e]) (view K t)"
    using assms by (intro traced_snoc [of K _ _ "view K s"] traced_nil) (auto simp: sd_ok_def traced_nil)
  with assms show ?thesis by (auto simp: jstep_def)
qed

lemma jstep_object:
  assumes "sd_ok s" and "so_address so = a"
    and "undo K e (set_acct a (obj_view K (sd_ctx s) a so) (view K s)) = Inr (view K s)"
  shows "jstep K s (set_object a so (journal_append e s))"
  using assms by (intro jstep_entry [where e = e]) (auto simp: sd_ok_append sd_ok_set_object view_set_object)

lemma view_found: "sd_objects s a = Some so \<Longrightarrow> v_accts (view K s) a = Some (obj_view K (sd_ctx s) a so)"
  by (simp add: view_def)

lemma on_acct_back:
  "v_accts v a = Some av \<Longrightarrow> f av' = av \<Longrightarrow> on_acct a f (set_acct a av' v) = Inr v"
  by (simp add: on_acct_def set_acct_def fun_upd_idem)

lemma jstep_cache:
  assumes "sd_ok s" and "so_address so = a" and "v_accts (view K s) a = Some (obj_view K (sd_ctx s) a so)"
  shows "jstep K s (set_object a so s)"
  using assms jstep_refl [of s K]
  by (auto simp: jstep_def sd_ok_set_object view_set_object set_acct_same)

lemma getStateObject_jstep:
  assumes "sd_ok s" and "getStateObject K a s = (r, t)"
  shows "jstep K s t"
    and "\<And>so. r = Some so \<Longrightarrow> sd_objects t a = Some so \<and> so_address so = a"
    and "r = None \<Longrightarrow> t = s \<and> v_accts (view K s) a = None \<and> k_GetAccount K (sd_ctx s) a = None"
  using assms
  by (cases rule: getStateObject_cases [of K a s]; auto simp: jstep_refl jstep_cache sd_ok_def)+

section \<open>Every operation is journaled\<close>

lemma newObject_view: "k_GetAccount K ctx a = None \<Longrightarrow> stored_view K ctx a = None"
  by (simp add: stored_view_def)

lemma createObject_jstep:
  assumes "sd_ok s" and "createObject K a s = ((so, prev), t)"
  shows "jstep K s t" and "sd_objects t a = Some so" and "so_address so = a"
proof -
  obtain r u where g: "getStateObject K a s = (r, u)" by fastforce
  note step = getStateObject_jstep [OF assms(1) g]
  define n where "n = newObject K a \<lparr>raw_Nonce = 0, raw_Balance = None, raw_CodeHash = None\<rparr>"
  have t: "so = n" "t = set_object a n (journal_append (case r of None \<Rightarrow> createObjectChange a
      | Some p \<Rightarrow> resetObjectChange p) u)"
    using assms(2) g by (auto simp: createObject_def n_def setStateObject_def Let_def)
  have "jstep K u t"
  proof (cases r)
    case None
    with step have "u = s" "v_accts (view K s) a = None" "k_GetAccount K (sd_ctx s) a = None" by auto
    with None t jstep_ok [OF step(1)] show ?thesis
      by (simp, intro jstep_object) (auto simp: n_def undo_def set_acct_def stored_view_def fun_upd_idem)
  next
    case (Some p)
    with step have "sd_objects u a = Some p" "so_address p = a" by auto
    with Some t jstep_ok [OF step(1)] show ?thesis
      by (simp, intro jstep_object) (auto simp: n_def undo_def view_found set_acct_same)
  qed
  with step(1) show "jstep K s t" by (rule jstep_trans)
  show "sd_objects t a = Some so" "so_address so = a" by (simp_all add: t n_def)
qed

lemma getOrNewStateObject_jstep:
  assumes "sd_ok s" and "getOrNewStateObject K a s = (so, t)"
  shows "jstep K s t" and "sd_objects t a = Some so" and "so_address so = a"
proof -
  obtain r u where g: "getStateObject K a s = (r, u)" by fastforce
  note step = getStateObject_jstep [OF assms(1) g]
  have "jstep K s t \<and> sd_objects t a = Some so \<and> so_address so = a"
  proof (cases r)
    case None
    then obtain prev where "createObject K a u = ((so, prev), t)"
      using assms(2) g by (auto simp: getOrNewStateObject_def split: prod.splits)
    with createObject_jstep [OF jstep_ok [OF step(1)] this] step(1) jstep_trans show ?thesis by blast
  next
    case (Some p)
    with assms(2) g have "so = p" "t = u" by (auto simp: getOrNewStateObject_def)
    with Some step show ?thesis by simp
  qed
  then show "jstep K s t" "sd_objects t a = Some so" "so_address so = a" by blast+
qed

text \<open>A setter of an object that is in the map, and what takes it back.\<close>

lemma jstep_setter:
  assumes "sd_ok s" and "sd_objects s a = Some so" and "so_address so' = a"
    and "\<And>v. undo K e v = on_acct a (f v) v"
    and "\<And>v. v_ctx v = sd_ctx s \<Longrightarrow> f v (obj_view K (sd_ctx s) a so') = obj_view K (sd_ctx s) a so"
  shows "jstep K s (set_object a so' (journal_append e s))"
  using assms by (intro jstep_object) (simp_all add: on_acct_def set_acct_def view_found fun_upd_idem)

lemma so_SetBalance_jstep:
  assumes "sd_ok s" and "sd_objects s a = Some so" and "so_address so = a"
  shows "jstep K s (so_SetBalance a so b s)"
  unfolding so_SetBalance_def using assms
  by (intro jstep_setter [where f = "\<lambda>_ av. av\<lparr>av_balance := Balance (so_account so)\<rparr>"])
    (auto simp: undo_def view_set)

lemma so_AddBalance_jstep:
  "sd_ok s \<Longrightarrow> sd_objects s a = Some so \<Longrightarrow> so_address so = a \<Longrightarrow> jstep K s (so_AddBalance a so b s)"
  and so_SubBalance_jstep:
  "sd_ok s \<Longrightarrow> sd_objects s a = Some so \<Longrightarrow> so_address so = a \<Longrightarrow> jstep K s (so_SubBalance a so b s)"
  by (simp_all add: so_AddBalance_def so_SubBalance_def jstep_refl so_SetBalance_jstep)

lemma so_SetNonce_jstep:
  assumes "sd_ok s" and "sd_objects s a = Some so" and "so_address so = a"
  shows "jstep K s (so_SetNonce a so n s)"
  unfolding so_SetNonce_def using assms
  by (intro jstep_setter [where f = "\<lambda>_ av. av\<lparr>av_nonce := Nonce (so_account so)\<rparr>"])
    (auto simp: undo_def view_set)

lemma so_Code_view:
  assumes "so_Code K so s = (code, so1)"
  shows "obj_view K (sd_ctx s) a so1 = obj_view K (sd_ctx s) a so"
    and "code_of K (sd_ctx s) code (CodeHash (so_account so1)) = av_code (obj_view K (sd_ctx s) a so)"
    and "so_address so1 = so_address so" and "so_account so1 = so_account so"
  using assms
  by (auto simp: so_Code_def obj_view_def code_of_def Let_def split: if_splits option.splits)

lemma so_SetCode_jstep:
  assumes "sd_ok s" and "sd_objects s a = Some so" and "so_address so = a"
  shows "jstep K s (so_SetCode K a so h code s)"
proof -
  obtain c so1 where c: "so_Code K so s = (c, so1)" by fastforce
  note so1 = so_Code_view(1,2) [OF c, of a] so_Code_view(3,4) [OF c]
  have "jstep K s (set_object a (setCode h (Some code) so1)
      (journal_append (codeChange a c (CodeHash (so_account so1))) s))"
    using assms so1
    by (intro jstep_setter [where f = "\<lambda>v av. av\<lparr>av_codeHash := CodeHash (so_account so),
          av_code := code_of K (v_ctx v) c (CodeHash (so_account so))\<rparr>"])
      (auto simp: undo_def view_set)
  then show ?thesis by (simp add: so_SetCode_def c)
qed

lemma so_GetCommittedState_view:
  assumes "so_GetCommittedState K a so key s = (v, so1)"
  shows "obj_view K (sd_ctx s) a so1 = obj_view K (sd_ctx s) a so" and "so_address so1 = so_address so"
  using assms
  by (auto simp: so_GetCommittedState_def obj_view_def committed_of_def Let_def fun_eq_iff
      split: option.splits if_splits)

lemma so_GetState_view:
  assumes "so_GetState K a so key s = (v, so1)"
  shows "obj_view K (sd_ctx s) a so1 = obj_view K (sd_ctx s) a so"
    and "av_storage (obj_view K (sd_ctx s) a so) key = v" and "so_address so1 = so_address so"
  using assms
  by (auto simp: so_GetState_def so_GetCommittedState_def obj_view_def committed_of_def Let_def fun_eq_iff
      split: if_splits option.splits)

lemma so_SetState_jstep:
  assumes "sd_ok s" and "sd_objects s a = Some so" and "so_address so = a"
  shows "jstep K s (so_SetState K a so key v s)"
proof -
  obtain prev so1 where g: "so_GetState K a so key s = (prev, so1)" by fastforce
  note so1 = so_GetState_view(1,2) [OF g] so_GetState_view(3) [OF g]
  have "jstep K s (set_object a (setState key v so1) (journal_append (storageChange a key prev) s))"
    using assms so1
    by (intro jstep_setter [where f = "\<lambda>_ av. av\<lparr>av_storage := (av_storage av)(key := prev)\<rparr>"])
      (auto simp: undo_def view_set fun_upd_idem)
  moreover have "jstep K s (set_object a so1 s)"
    using assms so1 by (intro jstep_cache) (auto simp: view_found)
  ultimately show ?thesis by (simp add: so_SetState_def g)
qed

text \<open>The operations of the state.\<close>

lemma on_new_object_jstep:
  assumes "sd_ok s"
    and "\<And>so u. sd_ok u \<Longrightarrow> sd_objects u a = Some so \<Longrightarrow> so_address so = a \<Longrightarrow> jstep K u (f so u)"
  shows "jstep K s (case getOrNewStateObject K a s of (so, u) \<Rightarrow> f so u)"
proof -
  obtain so u where g: "getOrNewStateObject K a s = (so, u)" by fastforce
  note step = getOrNewStateObject_jstep [OF assms(1) g]
  with assms(2) [OF jstep_ok [OF step(1)]] jstep_trans g show ?thesis by fastforce
qed

lemma AddBalance_jstep: "sd_ok s \<Longrightarrow> jstep K s (AddBalance K a b s)"
  and SubBalance_jstep: "sd_ok s \<Longrightarrow> jstep K s (SubBalance K a b s)"
  and SetNonce_jstep: "sd_ok s \<Longrightarrow> jstep K s (SetNonce K a n s)"
  and SetCode_jstep: "sd_ok s \<Longrightarrow> jstep K s (SetCode K a code s)"
  and SetState_jstep: "sd_ok s \<Longrightarrow> jstep K s (SetState K a key v s)"
  unfolding AddBalance_def SubBalance_def SetNonce_def SetCode_def SetState_def Let_def
  by (blast intro: on_new_object_jstep so_AddBalance_jstep so_SubBalance_jstep so_SetNonce_jstep
      so_SetCode_jstep so_SetState_jstep)+

text \<open>\<open>CreateAccount\<close> keeps the balance of the account it replaces without an entry of its own: the
  entry that puts the old object back undoes that too.\<close>

lemma CreateAccount_jstep:
  assumes "sd_ok s"
  shows "jstep K s (CreateAccount K a s)"
proof -
  obtain r u where g: "getStateObject K a s = (r, u)" by fastforce
  note step = getStateObject_jstep [OF assms g]
  define n where "n = newObject K a \<lparr>raw_Nonce = 0, raw_Balance = None, raw_CodeHash = None\<rparr>"
  show ?thesis
  proof (cases r)
    case None
    with g have "CreateAccount K a s = snd (createObject K a s)"
      by (simp add: CreateAccount_def createObject_def Let_def)
    with createObject_jstep(1) [OF assms] show ?thesis by (metis prod.collapse)
  next
    case (Some p)
    define m where "m = setBalance (Balance (so_account p)) n"
    have "CreateAccount K a s = set_object a m (journal_append (resetObjectChange p) u)"
      using g Some by (simp add: CreateAccount_def createObject_def setStateObject_def set_object_def
          m_def n_def Let_def)
    moreover have "jstep K u (set_object a m (journal_append (resetObjectChange p) u))"
      using Some step jstep_ok [OF step(1)]
      by (intro jstep_object) (auto simp: m_def n_def undo_def view_found set_acct_same)
    ultimately show ?thesis using step(1) jstep_trans by metis
  qed
qed

lemma Suicide_jstep:
  assumes "sd_ok s"
  shows "jstep K s (snd (Suicide K a s))"
proof -
  obtain r u where g: "getStateObject K a s = (r, u)" by fastforce
  note step = getStateObject_jstep [OF assms g]
  show ?thesis
  proof (cases r)
    case None
    with g step show ?thesis by (simp add: Suicide_def)
  next
    case (Some p)
    have "jstep K u (set_object a (setBalance 0 (p\<lparr>so_suicided := True\<rparr>))
        (journal_append (suicideChange a (so_suicided p) (Balance (so_account p))) u))"
      using Some step jstep_ok [OF step(1)]
      by (intro jstep_object) (auto simp: undo_def view_found set_acct_same view_set)
    with Some g step(1) jstep_trans show ?thesis by (fastforce simp: Suicide_def)
  qed
qed

lemma AddLog_jstep: "sd_ok s \<Longrightarrow> jstep K s (AddLog log s)"
  unfolding AddLog_def Let_def
  by (rule jstep_entry [where e = addLogChange])
    (auto simp: undo_def sd_ok_def dirties_append)

lemma AddRefund_jstep: "sd_ok s \<Longrightarrow> jstep K s (AddRefund gas s)"
  unfolding AddRefund_def Let_def
  by (rule jstep_entry [where e = "refundChange (sd_refund s)"])
    (auto simp: undo_def sd_ok_def dirties_append)

lemma SubRefund_jstep: "sd_ok s \<Longrightarrow> SubRefund gas s = Inr t \<Longrightarrow> jstep K s t"
  by (rule jstep_entry [where e = "refundChange (sd_refund s)"])
    (auto simp: SubRefund_def Let_def undo_def sd_ok_def dirties_append split: if_splits)

lemma AddAddressToAccessList_jstep: "sd_ok s \<Longrightarrow> jstep K s (AddAddressToAccessList a s)"
proof (cases "AddAddress (sd_accessList s) a")
  case (Pair al added)
  assume ok: "sd_ok s"
  with AddAddress_wf [of "sd_accessList s" a] Pair have al: "al_wf al" by (simp add: sd_ok_def)
  show ?thesis
  proof (cases added)
    case True
    with Pair have "DeleteAddress al a = sd_accessList s" by (simp add: Add_Delete_address)
    with Pair True ok al show ?thesis
      by (intro jstep_entry [where e = "accessListAddAccountChange a"])
        (auto simp: AddAddressToAccessList_def undo_def sd_ok_def dirties_append [of "s\<lparr>sd_accessList := al\<rparr>"])
  next
    case False
    with Pair have "al = sd_accessList s" by (auto simp: AddAddress_def split: if_splits)
    with Pair False ok show ?thesis by (simp add: AddAddressToAccessList_def jstep_refl)
  qed
qed

text \<open>Adding a slot may take two entries; the one for the slot is undone first.\<close>

lemma jstep_al:
  assumes "sd_ok s" and "al_wf al" and "undo K e ((view K s)\<lparr>v_al := al\<rparr>) = Inr (view K s)"
  shows "jstep K s (journal_append e (s\<lparr>sd_accessList := al\<rparr>))"
  using assms by (intro jstep_entry [where e = e])
    (auto simp: sd_ok_def dirties_append [of "s\<lparr>sd_accessList := al\<rparr>"])

lemma AddSlotToAccessList_jstep:
  assumes "sd_ok s"
  shows "\<exists>t. AddSlotToAccessList a slot s = Inr t \<and> jstep K s t"
proof -
  have wf: "al_wf (sd_accessList s)" using assms by (simp add: sd_ok_def)
  then obtain al ac sc where add: "AddSlot (sd_accessList s) a slot = Inr (al, ac, sc)"
    using AddSlot_total [of "sd_accessList s" a slot] by auto
  note al = AddSlot_wf [OF wf add]
  let ?t = "s\<lparr>sd_accessList := al\<rparr>"
  consider (both) "ac" "sc" | (slot) "\<not> ac" "sc" | (none) "\<not> ac" "\<not> sc"
    using Add_Delete_slot_address [OF wf, of a slot al sc] add by (cases ac; cases sc) auto
  then show ?thesis
  proof cases
    case both
    then have del: "rbind (DeleteSlot al a slot) (\<lambda>x. Inr (DeleteAddress x a)) = Inr (sd_accessList s)"
      using Add_Delete_slot_address [OF wf, of a slot al sc] add by simp
    then obtain x where x: "DeleteSlot al a slot = Inr x" "DeleteAddress x a = sd_accessList s" by auto
    have new: "al_addresses (sd_accessList s) a = None" "al = new_group (sd_accessList s) a slot"
      by (rule AddSlot_cases [OF wf, of a slot]; use add both in auto)+
    then have xa: "(x, True) = AddAddress (sd_accessList s) a"
      using x(1) by (auto simp: Delete_new_group AddAddress_def)
    then have wfx: "al_wf x" using AddAddress_wf [OF wf, of a] by (metis fst_conv)
    let ?u = "journal_append (accessListAddAccountChange a) (s\<lparr>sd_accessList := x\<rparr>)"
    have u: "jstep K s ?u"
      using assms wfx x(2) by (intro jstep_al) (simp_all add: undo_def)
    have "jstep K ?u (journal_append (accessListAddSlotChange a slot) (?u\<lparr>sd_accessList := al\<rparr>))"
      using jstep_ok [OF u] al x(1) by (intro jstep_al) (simp_all add: undo_def)
    with u have "jstep K s (journal_append (accessListAddSlotChange a slot) (?u\<lparr>sd_accessList := al\<rparr>))"
      by (rule jstep_trans)
    moreover have "?u\<lparr>sd_accessList := al\<rparr> = journal_append (accessListAddAccountChange a) ?t"
      by (simp add: journal_append_def)
    ultimately show ?thesis using both add by (simp add: AddSlotToAccessList_def)
  next
    case slot
    have "jstep K s (journal_append (accessListAddSlotChange a slot) ?t)"
      using assms al Add_Delete_slot [OF wf, of a slot al] add slot
      by (intro jstep_al) (simp_all add: undo_def)
    with slot add show ?thesis by (simp add: AddSlotToAccessList_def)
  next
    case none
    with AddSlot_no_change [OF wf, of a slot al ac] add have "al = sd_accessList s" by simp
    with none add assms show ?thesis by (simp add: AddSlotToAccessList_def jstep_refl)
  qed
qed

lemma fold_jstep:
  assumes "sd_ok s" and "\<And>x s. sd_ok s \<Longrightarrow> jstep K s (f x s)"
  shows "jstep K s (fold f xs s)"
  using assms(1)
proof (induction xs arbitrary: s)
  case (Cons x xs)
  then show ?case using assms(2) jstep_ok jstep_trans by (metis fold_simps(2))
qed (simp add: jstep_refl)

lemma fold_res_jstep:
  assumes "sd_ok s" and "\<And>x s. sd_ok s \<Longrightarrow> \<exists>t. f x s = Inr t \<and> jstep K s t"
  shows "\<exists>t. fold_res f xs s = Inr t \<and> jstep K s t"
  using assms(1)
proof (induction xs arbitrary: s)
  case (Cons x xs)
  then obtain t where "f x s = Inr t" "jstep K s t" using assms(2) by blast
  with Cons.IH [of t] show ?case using jstep_ok jstep_trans by fastforce
qed (simp add: jstep_refl)

lemma PrepareAccessList_jstep:
  assumes "sd_ok s"
  shows "\<exists>t. PrepareAccessList sender dst precompiles al s = Inr t \<and> jstep K s t"
proof -
  define s2 where "s2 = (case dst of None \<Rightarrow> AddAddressToAccessList sender s
      | Some d \<Rightarrow> AddAddressToAccessList d (AddAddressToAccessList sender s))"
  have 2: "jstep K s s2"
    unfolding s2_def using AddAddressToAccessList_jstep jstep_ok jstep_trans assms
    by (metis option.case_eq_if)
  have 3: "jstep K s2 (fold AddAddressToAccessList precompiles s2)" (is "jstep _ _ ?s3")
    by (rule fold_jstep) (auto intro: jstep_ok [OF 2] AddAddressToAccessList_jstep)
  define f where "f = (\<lambda>(addr, storageKeys) s :: 'a StateDB.
    fold_res (AddSlotToAccessList addr) storageKeys (AddAddressToAccessList addr s))"
  have step: "\<exists>t. f x u = Inr t \<and> jstep K u t" if "sd_ok u" for x u
  proof -
    obtain a keys where x: "x = (a, keys)" by fastforce
    note u = AddAddressToAccessList_jstep [OF that, of K a]
    from fold_res_jstep [where f = "AddSlotToAccessList a" and xs = keys, OF jstep_ok [OF u]
        AddSlotToAccessList_jstep] u jstep_trans
    show ?thesis by (fastforce simp: x f_def)
  qed
  obtain t where "fold_res f al ?s3 = Inr t" "jstep K ?s3 t"
    using fold_res_jstep [where f = f and xs = al, OF jstep_ok [OF 3] step] by blast
  moreover have "PrepareAccessList sender dst precompiles al s = fold_res f al ?s3"
    by (cases dst) (simp_all add: PrepareAccessList_def Let_def s2_def f_def)
  ultimately show ?thesis using 2 3 jstep_trans by metis
qed

section \<open>A precompile call that succeeds\<close>

lemma append_cache: "journal_append e (s\<lparr>sd_cacheCtx := c\<rparr>) = (journal_append e s)\<lparr>sd_cacheCtx := c\<rparr>"
  and set_object_cache: "set_object a so (s\<lparr>sd_cacheCtx := c\<rparr>) = (set_object a so s)\<lparr>sd_cacheCtx := c\<rparr>"
  by (auto simp: journal_append_def set_object_def cong: option.case_cong)

lemma getStateObject_cache:
  "getStateObject K a (s\<lparr>sd_cacheCtx := c\<rparr>) = map_prod id (\<lambda>t. t\<lparr>sd_cacheCtx := c\<rparr>) (getStateObject K a s)"
  by (auto simp: getStateObject_def setStateObject_def set_object_def Let_def split: option.splits)

lemma createObject_cache:
  "createObject K a (s\<lparr>sd_cacheCtx := c\<rparr>) = map_prod id (\<lambda>t. t\<lparr>sd_cacheCtx := c\<rparr>) (createObject K a s)"
  by (auto simp: createObject_def getStateObject_cache append_cache setStateObject_def set_object_cache
      Let_def split: prod.splits)

lemma getOrNewStateObject_cache:
  "getOrNewStateObject K a (s\<lparr>sd_cacheCtx := c\<rparr>) =
     map_prod id (\<lambda>t. t\<lparr>sd_cacheCtx := c\<rparr>) (getOrNewStateObject K a s)"
  by (auto simp: getOrNewStateObject_def getStateObject_cache createObject_cache Let_def
      split: prod.splits option.splits)

lemma AddBalance_cache: "AddBalance K a b (s\<lparr>sd_cacheCtx := c\<rparr>) = (AddBalance K a b s)\<lparr>sd_cacheCtx := c\<rparr>"
  and SubBalance_cache: "SubBalance K a b (s\<lparr>sd_cacheCtx := c\<rparr>) = (SubBalance K a b s)\<lparr>sd_cacheCtx := c\<rparr>"
  by (auto simp: AddBalance_def SubBalance_def getOrNewStateObject_cache so_AddBalance_def so_SubBalance_def
      so_SetBalance_def set_object_cache append_cache Let_def split: prod.splits)


text \<open>The journaled part of a precompile call: its balance changes and the object of its address.\<close>

fun change_balance :: "'k keeper \<Rightarrow> address \<times> int \<times> balance_op \<Rightarrow> 'k StateDB \<Rightarrow> 'k StateDB" where
  "change_balance K (acc, amount, Sub) s = SubBalance K acc amount s"
| "change_balance K (acc, amount, Add) s = AddBalance K acc amount s"

lemma AddJournalEntries_eq:
  "AddJournalEntries K a es cms s = AddPrecompileFn K a cms (fold (change_balance K) es s)"
  by (induction K a es cms s rule: AddJournalEntries.induct) simp_all

lemma change_balance_jstep: "sd_ok s \<Longrightarrow> jstep K s (change_balance K e s)"
  by (induction K e s rule: change_balance.induct) (auto simp: AddBalance_jstep SubBalance_jstep)

lemma change_balance_cache:
  "change_balance K e (s\<lparr>sd_cacheCtx := c\<rparr>) = (change_balance K e s)\<lparr>sd_cacheCtx := c\<rparr>"
  by (induction K e s rule: change_balance.induct) (auto simp: AddBalance_cache SubBalance_cache)

lemma fold_change_cache:
  "fold (change_balance K) es (s\<lparr>sd_cacheCtx := c\<rparr>) = (fold (change_balance K) es s)\<lparr>sd_cacheCtx := c\<rparr>"
  by (induction es arbitrary: s) (auto simp: change_balance_cache)

definition after_changes :: "'k keeper \<Rightarrow> address \<Rightarrow> (address \<times> int \<times> balance_op) list \<Rightarrow> 'k StateDB \<Rightarrow> 'k StateDB" where
  "after_changes K a es s = snd (getOrNewStateObject K a (fold (change_balance K) es s))"

lemma after_changes_cache:
  "after_changes K a es (s\<lparr>sd_cacheCtx := c\<rparr>) = (after_changes K a es s)\<lparr>sd_cacheCtx := c\<rparr>"
  by (simp add: after_changes_def fold_change_cache getOrNewStateObject_cache)

lemma after_changes_cacheCtx: "sd_cacheCtx (after_changes K a es s) = sd_cacheCtx s"
proof -
  have "after_changes K a es s = (after_changes K a es s)\<lparr>sd_cacheCtx := sd_cacheCtx s\<rparr>"
    using after_changes_cache [where s = s and c = "sd_cacheCtx s"] by simp
  then have "sd_cacheCtx (after_changes K a es s) = sd_cacheCtx ((after_changes K a es s)\<lparr>sd_cacheCtx := sd_cacheCtx s\<rparr>)"
    by (rule arg_cong)
  then show ?thesis by simp
qed

lemma after_changes_jstep:
  assumes "sd_ok s"
  shows "jstep K s (after_changes K a es s)"
proof -
  from assms have fold: "jstep K s (fold (change_balance K) es s)" (is "jstep K s ?u")
    by (intro fold_jstep change_balance_jstep)
  obtain so t where "getOrNewStateObject K a ?u = (so, t)" by fastforce
  with getOrNewStateObject_jstep(1) [OF jstep_ok [OF fold] this] fold jstep_trans show ?thesis
    by (simp add: after_changes_def) blast
qed

lemma precompile_entry_jstep:
  assumes "sd_ok t" and "sd_cacheCtx t = Some m"
  shows "jstep K t ((journal_append (precompileCallChange m) (t\<lparr>sd_cacheCtx := Some store\<rparr>))
    \<lparr>sd_precompileCalls := n\<rparr>)"
proof (rule jstep_entry [where e = "precompileCallChange m"])
  show "sd_ok ((journal_append (precompileCallChange m) (t\<lparr>sd_cacheCtx := Some store\<rparr>))
      \<lparr>sd_precompileCalls := n\<rparr>)"
    using sd_ok_append [of "t\<lparr>sd_cacheCtx := Some store\<rparr>"] assms(1) by (simp add: sd_ok_def)
  have "(view K t)\<lparr>v_store := m\<rparr> = view K t" using assms(2) by (simp add: view_def)
  then show "undo K (precompileCallChange m) (view K ((journal_append (precompileCallChange m)
      (t\<lparr>sd_cacheCtx := Some store\<rparr>))\<lparr>sd_precompileCalls := n\<rparr>)) = Inr (view K t)"
    by (simp add: undo_def)
qed (use assms in auto)

lemma AddJournalEntries_jstep:
  assumes "sd_ok s" and "sd_cacheCtx s = Some m"
  shows "jstep K s (snd (AddJournalEntries K a es m (s\<lparr>sd_cacheCtx := Some store\<rparr>)))"
proof -
  let ?t = "after_changes K a es s"
  have t: "jstep K s ?t" "sd_cacheCtx ?t = Some m"
    using assms by (simp_all add: after_changes_jstep after_changes_cacheCtx)
  obtain so u where g: "getOrNewStateObject K a (fold (change_balance K) es (s\<lparr>sd_cacheCtx := Some store\<rparr>)) = (so, u)"
    by fastforce
  then have "u = ?t\<lparr>sd_cacheCtx := Some store\<rparr>"
    using after_changes_cache [where K = K and a = a and es = es and s = s and c = "Some store"] by (simp add: after_changes_def)
  then have "snd (AddJournalEntries K a es m (s\<lparr>sd_cacheCtx := Some store\<rparr>)) =
      (journal_append (precompileCallChange m) (?t\<lparr>sd_cacheCtx := Some store\<rparr>))
        \<lparr>sd_precompileCalls := (sd_precompileCalls ?t + 1) mod 2 ^ 8\<rparr>"
    by (simp add: AddJournalEntries_eq AddPrecompileFn_def g Let_def)
  with precompile_entry_jstep [OF jstep_ok [OF t(1)] t(2)] t(1) jstep_trans show ?thesis by metis
qed

section \<open>Reverting to a snapshot\<close>

lemma sort_Search_spec:
  assumes "i \<le> j" and "\<And>k l. i \<le> k \<Longrightarrow> k \<le> l \<Longrightarrow> l < j \<Longrightarrow> f k \<Longrightarrow> f l"
  shows "i \<le> sort_Search f i j \<and> sort_Search f i j \<le> j \<and> (\<forall>k. i \<le> k \<and> k < sort_Search f i j \<longrightarrow> \<not> f k) \<and>
    (\<forall>k. sort_Search f i j \<le> k \<and> k < j \<longrightarrow> f k)"
  using assms
proof (induction f i j rule: sort_Search.induct)
  case (1 f i j)
  define h where "h = (i + j) div 2"
  show ?case
  proof (cases "i < j")
    case True
    then have h: "i \<le> h" "h < j" by (auto simp: h_def)
    show ?thesis
    proof (cases "f h")
      case fh: True
      have ij: "sort_Search f i j = sort_Search f i h"
        using True fh by (simp add: sort_Search.simps [of f i j] h_def Let_def)
      have "f l" if "i \<le> k" "k \<le> l" "l < h" "f k" for k l using 1(4) [of k l] that h by simp
      with 1(2) [OF True h_def] fh h(1) have IH: "i \<le> sort_Search f i h" "sort_Search f i h \<le> h"
        "\<forall>k. i \<le> k \<and> k < sort_Search f i h \<longrightarrow> \<not> f k" "\<forall>k. sort_Search f i h \<le> k \<and> k < h \<longrightarrow> f k"
        by blast+
      have "f k" if "sort_Search f i h \<le> k" "k < j" for k
        using IH(4) 1(4) [of h k] fh h that by (cases "k < h") auto
      with IH h ij show ?thesis by auto
    next
      case fh: False
      have ij: "sort_Search f i j = sort_Search f (h + 1) j"
        using True fh by (simp add: sort_Search.simps [of f i j] h_def Let_def)
      have "f l" if "h + 1 \<le> k" "k \<le> l" "l < j" "f k" for k l using 1(4) [of k l] that h by simp
      with 1(1) [OF True h_def] fh h(2) have IH: "h + 1 \<le> sort_Search f (h + 1) j" "sort_Search f (h + 1) j \<le> j"
        "\<forall>k. h + 1 \<le> k \<and> k < sort_Search f (h + 1) j \<longrightarrow> \<not> f k"
        "\<forall>k. sort_Search f (h + 1) j \<le> k \<and> k < j \<longrightarrow> f k"
        by (metis (no_types, lifting) Suc_eq_plus1 Suc_leI)+
      have "\<not> f k" if "i \<le> k" "k < sort_Search f (h + 1) j" for k
        using IH(3) 1(4) [of k h] fh h that by (cases "k \<le> h") auto
      with IH h ij show ?thesis by auto
    qed
  next
    case False
    then have "sort_Search f i j = i" by (simp add: sort_Search.simps [of f i j])
    with 1(3) False show ?thesis by auto
  qed
qed

lemma sort_Search_le: "i \<le> j \<Longrightarrow> sort_Search f i j \<le> j"
proof (induction f i j rule: sort_Search.induct)
  case (1 f i j)
  show ?case
  proof (cases "i < j")
    case True
    then have h: "i \<le> (i + j) div 2" "(i + j) div 2 < j" by auto
    then have "f ((i + j) div 2) \<Longrightarrow> sort_Search f i ((i + j) div 2) \<le> j"
      using 1(2) [OF True refl] by linarith
    with h True 1(1) [OF True refl] show ?thesis
      by (subst sort_Search.simps) (auto simp: Let_def)
  next
    case False
    with 1(3) show ?thesis by (subst sort_Search.simps) simp
  qed
qed

lemma addressed_set_object: "addressed s \<Longrightarrow> so_address so = a \<Longrightarrow> addressed (set_object a so s)"
  by (simp add: addressed_def)

definition same_journal :: "'k StateDB \<Rightarrow> 'k StateDB \<Rightarrow> bool" where
  "same_journal s t \<longleftrightarrow> sd_entries t = sd_entries s \<and> sd_validRevisions t = sd_validRevisions s \<and>
     sd_nextRevisionID t = sd_nextRevisionID s \<and> sd_ctx t = sd_ctx s \<and>
     (addressed s \<longrightarrow> addressed t)"

lemma same_journal_trans: "same_journal s t \<Longrightarrow> same_journal t u \<Longrightarrow> same_journal s u"
  by (simp add: same_journal_def)

lemma modify_object_frame:
  assumes "modify_object K a f s = Inr t" and "\<And>so. so_address (f so) = so_address so"
  shows "same_journal s t \<and> sd_dirties t = sd_dirties s"
  using assms
  by (cases rule: getStateObject_cases [of K a s])
    (auto simp: modify_object_def same_journal_def addressed_def split: if_splits)

lemma revert_entry_frame:
  "revert_entry K e s = Inr t \<Longrightarrow> same_journal s t \<and> sd_dirties t = sd_dirties s"
proof (cases e)
  case (suicideChange a prev bal)
  assume "revert_entry K e s = Inr t"
  with suicideChange show ?thesis
    by (cases rule: getStateObject_cases [of K a s]) (auto simp: revert_entry_def same_journal_def addressed_def split: if_splits)
qed (auto simp: revert_entry_def setStateObject_def same_journal_def addressed_def
    dest!: modify_object_frame split: if_splits)

definition drop_count :: "'k journal_entry \<Rightarrow> (address \<rightharpoonup> int) \<Rightarrow> address \<rightharpoonup> int" where
  "drop_count e d = (case Dirtied e of None \<Rightarrow> d
     | Some a \<Rightarrow> d(a := (let n = (case d a of None \<Rightarrow> 0 | Some n \<Rightarrow> n) - 1 in if n = 0 then None else Some n)))"

lemma drop_dirty_eq: "drop_dirty e s = s\<lparr>sd_dirties := drop_count e (sd_dirties s)\<rparr>"
  by (auto simp: drop_dirty_def drop_count_def Let_def split: option.splits)

lemma drop_count_snoc: "drop_count e (dirty_counts (es @ [e])) = dirty_counts es"
  by (auto simp: drop_count_def dirty_counts_def Let_def fun_eq_iff split: option.splits)

lemma drop_counts: "fold drop_count (rev es) (dirty_counts (es0 @ es)) = dirty_counts es0"
proof (induction es rule: rev_induct)
  case (snoc e es)
  then show ?case using drop_count_snoc [of e "es0 @ es"] by simp
qed simp

lemma fold_revert:
  assumes "fold_res (undo K) es (view K s) = Inr v"
  shows "\<exists>t. fold_res (\<lambda>e s. rbind (revert_entry K e s) (\<lambda>s1. Inr (drop_dirty e s1))) es s = Inr t \<and>
    view K t = v \<and> same_journal s t \<and> sd_dirties t = fold drop_count es (sd_dirties s)"
  using assms
proof (induction es arbitrary: s)
  case (Cons e es)
  then obtain w where "undo K e (view K s) = Inr w" and rest: "fold_res (undo K) es w = Inr v" by auto
  then obtain t where t: "revert_entry K e s = Inr t" "view K t = w" using sdb.revert_ok by blast
  note frame = revert_entry_frame [OF t(1)]
  let ?t = "drop_dirty e t"
  have "view K ?t = w" "same_journal t ?t" by (simp_all add: drop_dirty_eq t same_journal_def addressed_def)
  with Cons.IH [of ?t] rest obtain u where u: "fold_res (\<lambda>e s. rbind (revert_entry K e s)
      (\<lambda>s1. Inr (drop_dirty e s1))) es ?t = Inr u" "view K u = v" "same_journal ?t u"
      "sd_dirties u = fold drop_count es (sd_dirties ?t)" by auto
  moreover have "same_journal s u" using frame \<open>same_journal t ?t\<close> u(3) same_journal_trans by blast
  ultimately show ?case using t frame by (simp add: drop_dirty_eq)
qed (simp add: same_journal_def)

definition revs_ok :: "'k StateDB \<Rightarrow> bool" where
  "revs_ok s \<longleftrightarrow> sorted_wrt (<) (map fst (sd_validRevisions s)) \<and> sorted (map snd (sd_validRevisions s)) \<and>
     (\<forall>(i, n) \<in> set (sd_validRevisions s). i < sd_nextRevisionID s \<and> n \<le> length (sd_entries s))"

text \<open>The binary search finds a valid revision, and nothing else.\<close>

lemma revs_ok_nth:
  assumes "revs_ok s" and "i < l" and "l < length (sd_validRevisions s)"
  shows "fst (sd_validRevisions s ! i) < fst (sd_validRevisions s ! l)"
    and "snd (sd_validRevisions s ! i) \<le> snd (sd_validRevisions s ! l)"
  using assms sorted_wrt_nth_less [of "(<)" "map fst (sd_validRevisions s)" i l]
    sorted_nth_mono [of "map snd (sd_validRevisions s)" i l]
  by (simp_all add: revs_ok_def)

lemma search_revision:
  fixes revs :: "(int \<times> nat) list"
  assumes "sorted_wrt (<) (map fst revs)" and "idx < length revs" and "fst (revs ! idx) = j"
  shows "sort_Search (\<lambda>i. j \<le> fst (revs ! i)) 0 (length revs) = idx"
proof -
  have mono: "fst (revs ! k) < fst (revs ! l)" if "k < l" "l < length revs" for k l
    using assms(1) that by (auto simp: sorted_wrt_iff_nth_less)
  have up: "j \<le> fst (revs ! l)" if "k \<le> l" "l < length revs" "j \<le> fst (revs ! k)" for k l
    using mono [of k l] that by (cases "k = l") (auto intro: order_trans less_imp_le)
  let ?r = "sort_Search (\<lambda>i. j \<le> fst (revs ! i)) 0 (length revs)"
  have "0 \<le> ?r \<and> ?r \<le> length revs \<and> (\<forall>k. 0 \<le> k \<and> k < ?r \<longrightarrow> \<not> j \<le> fst (revs ! k)) \<and>
      (\<forall>k. ?r \<le> k \<and> k < length revs \<longrightarrow> j \<le> fst (revs ! k))"
    by (rule sort_Search_spec) (use up in \<open>blast+\<close>)
  then have spec: "\<And>k. k < ?r \<Longrightarrow> \<not> j \<le> fst (revs ! k)" "\<And>k. ?r \<le> k \<Longrightarrow> k < length revs \<Longrightarrow> j \<le> fst (revs ! k)"
    by blast+
  have "\<not> idx < ?r" using spec(1) [of idx] assms(3) by auto
  moreover have "\<not> ?r < idx" using spec(2) [of ?r] mono [of ?r idx] assms(2,3) by auto
  ultimately show ?thesis by simp
qed

lemma RevertToSnapshot_unknown:
  assumes "\<forall>n. (j, n) \<notin> set (sd_validRevisions s)"
  shows "RevertToSnapshot K j s = Inl (GoPanic ''revision id cannot be reverted'')"
proof -
  let ?r = "sort_Search (\<lambda>i. j \<le> fst (sd_validRevisions s ! i)) 0 (length (sd_validRevisions s))"
  have "?r \<noteq> length (sd_validRevisions s) \<Longrightarrow> ?r < length (sd_validRevisions s)"
    using sort_Search_le [of 0] by (metis le_neq_implies_less le0)
  then have "?r = length (sd_validRevisions s) \<or> fst (sd_validRevisions s ! ?r) \<noteq> j"
    using assms nth_mem [of ?r "sd_validRevisions s"] by (metis prod.collapse)
  then show ?thesis by (simp add: RevertToSnapshot_def Let_def)
qed

lemma RevertToSnapshot_ok:
  assumes "sd_ok s" and "revs_ok s" and "idx < length (sd_validRevisions s)"
    and "sd_validRevisions s ! idx = (j, n)" and "traced K v (drop n (sd_entries s)) (view K s)"
  shows "\<exists>t. RevertToSnapshot K j s = Inr t \<and> view K t = v \<and> sd_entries t = take n (sd_entries s) \<and>
    sd_validRevisions t = take idx (sd_validRevisions s) \<and> sd_nextRevisionID t = sd_nextRevisionID s \<and>
    sd_ctx t = sd_ctx s \<and> sd_ok t"
proof -
  obtain t where t: "fold_res (\<lambda>e s. rbind (revert_entry K e s) (\<lambda>s1. Inr (drop_dirty e s1)))
      (rev (drop n (sd_entries s))) s = Inr t" "view K t = v" "same_journal s t"
      "sd_dirties t = fold drop_count (rev (drop n (sd_entries s))) (sd_dirties s)"
    using fold_revert [OF traced_undo [OF assms(5)]] by blast
  let ?t = "t\<lparr>sd_entries := take n (sd_entries s), sd_validRevisions := take idx (sd_validRevisions s)\<rparr>"
  have "sd_entries t = sd_entries s" "sd_validRevisions t = sd_validRevisions s"
    using t(3) by (simp_all add: same_journal_def)
  then have rev: "journal_Revert K n s = Inr (t\<lparr>sd_entries := take n (sd_entries s)\<rparr>)"
    unfolding journal_Revert_def t(1) by simp
  have "sort_Search (\<lambda>i. j \<le> fst (sd_validRevisions s ! i)) 0 (length (sd_validRevisions s)) = idx"
    using assms(2-4) by (intro search_revision) (simp_all add: revs_ok_def)
  then have "RevertToSnapshot K j s = Inr ?t"
    using assms(3,4) \<open>sd_validRevisions t = sd_validRevisions s\<close> by (simp add: RevertToSnapshot_def rev)
  moreover have "sd_dirties t = dirty_counts (take n (sd_entries s))"
    using t(4) assms(1) drop_counts [of "drop n (sd_entries s)" "take n (sd_entries s)"]
    by (simp add: sd_ok_def)
  moreover have "al_wf (sd_accessList t)" using traced_start_wf [OF assms(5)] t(2) by auto
  moreover have "addressed t" "sd_nextRevisionID t = sd_nextRevisionID s" "sd_ctx t = sd_ctx s"
    using t(3) assms(1) by (simp_all add: same_journal_def sd_ok_def addressed_def [symmetric])
  moreover have "addressed ?t = addressed t" by (simp add: addressed_def)
  ultimately show ?thesis using t(2) by (simp add: sd_ok_def addressed_def [symmetric])
qed

lemma jstep_revs_ok: "jstep K s t \<Longrightarrow> revs_ok s \<Longrightarrow> revs_ok t"
  by (fastforce simp: jstep_def revs_ok_def)

lemma revs_ok_take:
  assumes "revs_ok s" and "idx < length (sd_validRevisions s)" and "sd_validRevisions s ! idx = (j, n)"
    and "sd_validRevisions t = take idx (sd_validRevisions s)" and "sd_entries t = take n (sd_entries s)"
    and "sd_nextRevisionID t = sd_nextRevisionID s"
  shows "revs_ok t"
proof -
  have "k \<le> n" if "(i, k) \<in> set (take idx (sd_validRevisions s))" for i k
  proof -
    from that obtain l where "l < idx" "sd_validRevisions s ! l = (i, k)"
      by (auto simp: in_set_conv_nth)
    with revs_ok_nth(2) [OF assms(1), of l idx] assms(2,3) show ?thesis by simp
  qed
  moreover have "(i, k) \<in> set (take idx (sd_validRevisions s)) \<Longrightarrow>
      i < sd_nextRevisionID s \<and> k \<le> length (sd_entries s)" for i k
    using assms(1) unfolding revs_ok_def by (fastforce dest: in_set_takeD)
  ultimately show ?thesis
    using assms(1,4-6) unfolding revs_ok_def
    by (auto simp: take_map [symmetric] sorted_wrt_take)
qed

lemma Snapshot_revs_ok: "revs_ok s \<Longrightarrow> revs_ok (snd (Snapshot s))"
  by (fastforce simp: revs_ok_def Snapshot_def sorted_wrt_append)

section \<open>Sequences of operations\<close>

text \<open>
  Everything that can be done to a state between a snapshot and its revert. A precompile call is
  given by what it does to the store of its cache context and the balance changes it reports.
\<close>

datatype 'k sd_op =
  CreateAccountOp address | AddBalanceOp address int | SubBalanceOp address int | SetNonceOp address int
| SetCodeOp address bytes | SetStateOp address hash hash | SuicideOp address | AddLogOp Log
| AddRefundOp int | SubRefundOp int | AddAddressOp address | AddSlotOp address hash
| PrepareOp address "address option" "address list" "(address \<times> hash list) list"
| ReadOp address | GetCodeOp address | GetStateOp address hash | GetCommittedStateOp address hash
| SnapshotOp | RevertOp int
| PrecompileOp address "'k \<Rightarrow> (address \<times> int \<times> balance_op) list option \<times> 'k"

fun run_op :: "'k keeper \<Rightarrow> 'k sd_op \<Rightarrow> 'k StateDB \<Rightarrow> go_err + 'k StateDB" where
  "run_op K (CreateAccountOp a) s = Inr (CreateAccount K a s)"
| "run_op K (AddBalanceOp a b) s = Inr (AddBalance K a b s)"
| "run_op K (SubBalanceOp a b) s = Inr (SubBalance K a b s)"
| "run_op K (SetNonceOp a n) s = Inr (SetNonce K a n s)"
| "run_op K (SetCodeOp a code) s = Inr (SetCode K a code s)"
| "run_op K (SetStateOp a key v) s = Inr (SetState K a key v s)"
| "run_op K (SuicideOp a) s = Inr (snd (Suicide K a s))"
| "run_op K (AddLogOp log) s = Inr (AddLog log s)"
| "run_op K (AddRefundOp gas) s = Inr (AddRefund gas s)"
| "run_op K (SubRefundOp gas) s = lift_panic (SubRefund gas s)"
| "run_op K (AddAddressOp a) s = Inr (AddAddressToAccessList a s)"
| "run_op K (AddSlotOp a slot) s = lift_panic (AddSlotToAccessList a slot s)"
| "run_op K (PrepareOp sender dst pre al) s = lift_panic (PrepareAccessList sender dst pre al s)"
| "run_op K (ReadOp a) s = Inr (snd (GetBalance K a s))"
| "run_op K (GetCodeOp a) s = Inr (snd (GetCode K a s))"
| "run_op K (GetStateOp a key) s = Inr (snd (GetState K a key s))"
| "run_op K (GetCommittedStateOp a key) s = Inr (snd (GetCommittedState K a key s))"
| "run_op K SnapshotOp s = Inr (snd (Snapshot s))"
| "run_op K (RevertOp j) s = lift_panic (RevertToSnapshot K j s)"
| "run_op K (PrecompileOp a run) s = rbind (precompile_call K a run s) (\<lambda>(_, t). Inr t)"

definition run_ops :: "'k keeper \<Rightarrow> 'k sd_op list \<Rightarrow> 'k StateDB \<Rightarrow> go_err + 'k StateDB" where
  "run_ops K ops s = fold_res (run_op K) ops s"

text \<open>A precompile that never fails, and no revert to the snapshot \<open>revid\<close> or an earlier one.\<close>

fun op_fits :: "int \<Rightarrow> 'k sd_op \<Rightarrow> bool" where
  "op_fits revid (RevertOp j) \<longleftrightarrow> revid < j"
| "op_fits revid (PrecompileOp a run) \<longleftrightarrow> (\<forall>m. fst (run m) \<noteq> None)"
| "op_fits revid _ \<longleftrightarrow> True"

text \<open>Reading is journaled too: it only fills caches.\<close>

lemma Read_jstep:
  assumes "sd_ok s"
  shows "jstep K s (snd (GetBalance K a s))" and "jstep K s (snd (GetCode K a s))"
    and "jstep K s (snd (GetState K a key s))" and "jstep K s (snd (GetCommittedState K a key s))"
proof -
  obtain r t where g: "getStateObject K a s = (r, t)" by fastforce
  note step = getStateObject_jstep [OF assms g]
  have cached: "jstep K s (set_object a so1 t)"
    if "r = Some so" "obj_view K (sd_ctx t) a so1 = obj_view K (sd_ctx t) a so" "so_address so1 = so_address so" for so so1
  proof -
    have "jstep K t (set_object a so1 t)"
      using step(2) [OF that(1)] that(2,3) jstep_ok [OF step(1)] by (intro jstep_cache) (auto simp: view_found)
    with step(1) show ?thesis by (rule jstep_trans)
  qed
  show "jstep K s (snd (GetBalance K a s))" using step(1) by (simp add: GetBalance_def g)
  show "jstep K s (snd (GetCode K a s))"
  proof (cases r)
    case (Some so)
    obtain code so1 where c: "so_Code K so t = (code, so1)" by fastforce
    with Some cached [OF Some] so_Code_view(1,3) [OF c] show ?thesis by (simp add: GetCode_def g)
  qed (use step(1) in \<open>simp add: GetCode_def g\<close>)
  show "jstep K s (snd (GetState K a key s))"
  proof (cases r)
    case (Some so)
    obtain v so1 where c: "so_GetState K a so key t = (v, so1)" by fastforce
    with Some cached [OF Some] so_GetState_view(1,3) [OF c] show ?thesis by (simp add: GetState_def g)
  qed (use step(1) in \<open>simp add: GetState_def g\<close>)
  show "jstep K s (snd (GetCommittedState K a key s))"
  proof (cases r)
    case (Some so)
    obtain v so1 where c: "so_GetCommittedState K a so key t = (v, so1)" by fastforce
    with Some cached [OF Some] so_GetCommittedState_view [OF c] show ?thesis by (simp add: GetCommittedState_def g)
  qed (use step(1) in \<open>simp add: GetCommittedState_def g\<close>)
qed

lemma precompile_call_eq:
  fixes s :: "'k StateDB"
  defines "m \<equiv> (case sd_cacheCtx s of Some m \<Rightarrow> m | None \<Rightarrow> sd_ctx s)"
  shows "precompile_call K a run s = rbind (commitWithCtx K m (s\<lparr>sd_cacheCtx := Some m\<rparr>)) (\<lambda>m'.
    case run m' of (None, store) \<Rightarrow> Inr (False, s\<lparr>sd_cacheCtx := Some store\<rparr>)
      | (Some es, store) \<Rightarrow> Inr (AddJournalEntries K a es m (s\<lparr>sd_cacheCtx := Some store\<rparr>)))"
proof -
  have "GetCacheContext s = (m, s\<lparr>sd_cacheCtx := Some m\<rparr>)"
    by (auto simp: GetCacheContext_def m_def split: option.splits)
  moreover have "GetCacheContext (t\<lparr>sd_cacheCtx := Some n\<rparr>) = (n, t\<lparr>sd_cacheCtx := Some n\<rparr>)" for t :: "'k StateDB" and n
    by (simp add: GetCacheContext_def)
  ultimately show ?thesis
    by (cases "commitWithCtx K m (s\<lparr>sd_cacheCtx := Some m\<rparr>)")
      (simp_all add: precompile_call_def MultiStoreSnapshot_def CommitWithCacheCtx_def Let_def
        split: prod.split option.split)
qed

lemma precompile_call_jstep:
  assumes "sd_ok s" and "\<forall>m. fst (run m) \<noteq> None" and "precompile_call K a run s = Inr (r, t)"
  shows "jstep K s t"
proof -
  define m where "m = (case sd_cacheCtx s of Some m \<Rightarrow> m | None \<Rightarrow> sd_ctx s)"
  let ?s1 = "s\<lparr>sd_cacheCtx := Some m\<rparr>"
  have "(view K s)\<lparr>v_store := m\<rparr> = view K s" by (simp add: view_def m_def)
  with assms(1) jstep_refl [of s K] have step: "jstep K s ?s1" by (auto simp: jstep_def sd_ok_def)
  obtain m' where m': "commitWithCtx K m ?s1 = Inr m'"
    using assms(3) unfolding precompile_call_eq m_def [symmetric] by auto
  obtain es store where run: "run m' = (Some es, store)"
    using assms(2) by (metis option.exhaust prod.collapse)
  have "t = snd (AddJournalEntries K a es m (?s1\<lparr>sd_cacheCtx := Some store\<rparr>))"
    using assms(3) unfolding precompile_call_eq m_def [symmetric] by (simp add: m' run)
  then have "jstep K ?s1 t"
    using AddJournalEntries_jstep [OF jstep_ok [OF step], of m K a es store] by simp
  with step show ?thesis by (rule jstep_trans)
qed

lemma run_op_jstep:
  assumes "sd_ok s" and "op_fits revid op" and "run_op K op s = Inr t"
    and "op \<noteq> SnapshotOp" and "\<And>j. op \<noteq> RevertOp j"
  shows "jstep K s t"
  using assms
proof (cases op)
  case (PrecompileOp a run)
  with assms precompile_call_jstep show ?thesis by fastforce
next
  case (AddSlotOp a slot)
  with assms AddSlotToAccessList_jstep [OF assms(1), of a slot K] show ?thesis by auto
next
  case (PrepareOp sender dst pre al)
  with assms PrepareAccessList_jstep [OF assms(1), of sender dst pre al K] show ?thesis by auto
qed (auto simp: CreateAccount_jstep AddBalance_jstep SubBalance_jstep SetNonce_jstep SetCode_jstep
    SetState_jstep Suicide_jstep AddLog_jstep AddRefund_jstep SubRefund_jstep AddAddressToAccessList_jstep
    Read_jstep)

text \<open>\<open>s0\<close> had its snapshot taken, and \<open>s\<close> was reached from there.\<close>

definition reach :: "'k keeper \<Rightarrow> 'k StateDB \<Rightarrow> 'k StateDB \<Rightarrow> bool" where
  "reach K s0 s \<longleftrightarrow> sd_ok s \<and> revs_ok s \<and> sd_ctx s = sd_ctx s0 \<and>
     (\<exists>es. sd_entries s = sd_entries s0 @ es \<and> traced K (view K s0) es (view K s)) \<and>
     (\<exists>rs. sd_validRevisions s =
        sd_validRevisions s0 @ (sd_nextRevisionID s0, length (sd_entries s0)) # rs)"

lemma reach_start:
  assumes "sd_ok s" and "revs_ok s"
  shows "reach K s (snd (Snapshot s))"
  using assms Snapshot_revs_ok [OF assms(2)] by (simp add: reach_def Snapshot_def sd_ok_def traced_nil)

lemma reach_jstep: "reach K s0 s \<Longrightarrow> jstep K s t \<Longrightarrow> reach K s0 t"
  unfolding reach_def using jstep_revs_ok [of K s t] traced_append by (fastforce simp: jstep_def)

lemma reach_Snapshot: "reach K s0 s \<Longrightarrow> reach K s0 (snd (Snapshot s))"
  using Snapshot_revs_ok [of s] by (auto simp: reach_def) (auto simp: Snapshot_def sd_ok_def)

lemma reach_Revert:
  assumes "reach K s0 s" and "sd_nextRevisionID s0 < j" and "RevertToSnapshot K j s = Inr t"
  shows "reach K s0 t"
proof -
  obtain es rs where ok: "sd_ok s" "revs_ok s" "sd_ctx s = sd_ctx s0"
    and es: "sd_entries s = sd_entries s0 @ es" "traced K (view K s0) es (view K s)"
    and rs: "sd_validRevisions s = sd_validRevisions s0 @ (sd_nextRevisionID s0, length (sd_entries s0)) # rs"
    using assms(1) unfolding reach_def by blast
  obtain n where "(j, n) \<in> set (sd_validRevisions s)" using RevertToSnapshot_unknown assms(3) by fastforce
  then obtain idx where idx: "idx < length (sd_validRevisions s)" "sd_validRevisions s ! idx = (j, n)"
    by (metis in_set_conv_nth)
  let ?k = "length (sd_validRevisions s0)"
  have at_k: "sd_validRevisions s ! ?k = (sd_nextRevisionID s0, length (sd_entries s0))" "?k < length (sd_validRevisions s)"
    by (simp_all add: rs nth_append)
  have "?k < idx"
  proof (rule ccontr)
    assume "\<not> ?k < idx"
    then have "idx = ?k \<or> fst (sd_validRevisions s ! idx) < fst (sd_validRevisions s ! ?k)"
      using revs_ok_nth(1) [OF ok(2) _ at_k(2), of idx] by force
    with idx(2) at_k(1) assms(2) show False by auto
  qed
  then have "length (sd_entries s0) \<le> n"
    using revs_ok_nth(2) [OF ok(2) _ idx(1), of ?k] idx(2) at_k(1) by simp
  then have "drop n (sd_entries s) = drop (n - length (sd_entries s0)) es"
    and tk: "take n (sd_entries s) = sd_entries s0 @ take (n - length (sd_entries s0)) es"
    by (simp_all add: es(1))
  with es(2) obtain v where v: "traced K (view K s0) (take (n - length (sd_entries s0)) es) v"
    "traced K v (drop n (sd_entries s)) (view K s)"
    using traced_split [of K "view K s0" "take (n - length (sd_entries s0)) es"] by (metis append_take_drop_id)
  from RevertToSnapshot_ok [OF ok(1,2) idx v(2)] assms(3)
  have t: "view K t = v" "sd_entries t = take n (sd_entries s)" "sd_ctx t = sd_ctx s" "sd_ok t"
    "sd_validRevisions t = take idx (sd_validRevisions s)" "sd_nextRevisionID t = sd_nextRevisionID s" by auto
  moreover have "revs_ok t" using revs_ok_take [OF ok(2) idx] t by blast
  moreover have "take idx (sd_validRevisions s) = sd_validRevisions s0 @ (sd_nextRevisionID s0, length (sd_entries s0)) #
      take (idx - Suc ?k) rs"
    using \<open>?k < idx\<close> by (simp add: rs take_Cons' )
  ultimately show ?thesis using ok(3) tk v(1) unfolding reach_def by auto
qed

lemma reach_run_op:
  assumes "reach K s0 s" and "op_fits (sd_nextRevisionID s0) op" and "run_op K op s = Inr t"
  shows "reach K s0 t"
proof (cases op)
  case SnapshotOp
  with assms reach_Snapshot show ?thesis by fastforce
next
  case (RevertOp j)
  with assms reach_Revert show ?thesis by fastforce
qed (use assms reach_jstep [OF assms(1) run_op_jstep [OF _ assms(2,3)]] in \<open>simp_all add: reach_def\<close>)

lemma reach_run_ops:
  assumes "reach K s0 s" and "\<forall>op \<in> set ops. op_fits (sd_nextRevisionID s0) op" and "run_ops K ops s = Inr t"
  shows "reach K s0 t"
  using assms(3,1) unfolding run_ops_def
  by (rule fold_res_inv) (use assms(2) reach_run_op in blast)

lemma reach_revert:
  assumes "sd_ok s0" and "reach K s0 s"
  shows "\<exists>t. RevertToSnapshot K (sd_nextRevisionID s0) s = Inr t \<and> view K t = view K s0 \<and>
    sd_entries t = sd_entries s0 \<and> sd_dirties t = sd_dirties s0 \<and> sd_validRevisions t = sd_validRevisions s0"
proof -
  obtain es rs where ok: "sd_ok s" "revs_ok s"
    and es: "sd_entries s = sd_entries s0 @ es" "traced K (view K s0) es (view K s)"
    and rs: "sd_validRevisions s = sd_validRevisions s0 @ (sd_nextRevisionID s0, length (sd_entries s0)) # rs"
    using assms(2) unfolding reach_def by blast
  let ?k = "length (sd_validRevisions s0)"
  have idx: "?k < length (sd_validRevisions s)"
    "sd_validRevisions s ! ?k = (sd_nextRevisionID s0, length (sd_entries s0))" by (simp_all add: rs)
  have "traced K (view K s0) (drop (length (sd_entries s0)) (sd_entries s)) (view K s)"
    using es by simp
  from RevertToSnapshot_ok [OF ok idx this] obtain t where
    "RevertToSnapshot K (sd_nextRevisionID s0) s = Inr t" "view K t = view K s0"
    "sd_entries t = take (length (sd_entries s0)) (sd_entries s)"
    "sd_validRevisions t = take ?k (sd_validRevisions s)" "sd_ok t" by blast
  with es(1) rs assms(1) show ?thesis by (simp add: sd_ok_def)
qed

section \<open>Properties\<close>

lemma NewStateDB_ok: "sd_ok (NewStateDB ctx cfg)" and NewStateDB_revs_ok: "revs_ok (NewStateDB ctx cfg)"
  by (simp_all add: NewStateDB_def sd_ok_def revs_ok_def al_wf_new dirty_counts_def fun_eq_iff)

text \<open>
  C1: Take a snapshot of a state, run any operations whatsoever on it (writes, creations and
  self-destructs of accounts, logs, refunds, access-list changes, further snapshots and reverts to
  them, precompile calls that succeed) and revert to the snapshot: the revert does not panic, and
  everything that can be observed of the state is as it was, together with the journal, the dirty
  counters and the list of valid snapshots.
\<close>

theorem RevertToSnapshot_restores:
  assumes "sd_ok s" and "revs_ok s" and "Snapshot s = (revid, s1)"
    and "\<forall>op \<in> set ops. op_fits revid op" and "run_ops K ops s1 = Inr s2"
  shows "\<exists>s3. RevertToSnapshot K revid s2 = Inr s3 \<and> view K s3 = view K s \<and> sd_entries s3 = sd_entries s \<and>
    sd_dirties s3 = sd_dirties s \<and> sd_validRevisions s3 = sd_validRevisions s"
proof -
  have "revid = sd_nextRevisionID s" "s1 = snd (Snapshot s)" using assms(3) by (auto simp: Snapshot_def)
  with reach_run_ops [OF reach_start [OF assms(1,2)]] assms(4,5) reach_revert [OF assms(1)]
  show ?thesis by blast
qed

text \<open>A keeper whose store is a counter and which knows one account.\<close>

definition example_keeper :: "nat keeper" where
  "example_keeper = \<lparr>k_GetAccount = (\<lambda>_ a. if a = 1 then Some \<lparr>raw_Nonce = 3, raw_Balance = Some 50,
       raw_CodeHash = None\<rparr> else None),
     k_GetState = (\<lambda>_ _ _. 0), k_GetCode = (\<lambda>_ _. None), k_StorageList = (\<lambda>_ _. []),
     k_SetAccount = (\<lambda>m _ _. Inr (m + 1)), k_SetState = (\<lambda>m _ _ _. m + 1), k_SetCode = (\<lambda>m _ _. m + 1),
     k_DeleteAccount = (\<lambda>m _. Inr (m + 1)), keccak = (\<lambda>bs. of_nat (length bs))\<rparr>"

definition example_config :: TxConfig where
  "example_config = \<lparr>tx_BlockHash = 0, tx_TxHash = 0, tx_TxIndex = 0, tx_LogIndex = 0\<rparr>"

theorem RevertToSnapshot_restores_witness:
  "\<exists>s2 s3. run_ops example_keeper [SetStateOp 1 5 9, CreateAccountOp 1, AddBalanceOp 2 10, SnapshotOp,
      SuicideOp 1, AddRefundOp 7] (snd (Snapshot (NewStateDB 0 example_config))) = Inr s2 \<and>
    RevertToSnapshot example_keeper 0 s2 = Inr s3 \<and>
    view example_keeper s3 = view example_keeper (NewStateDB 0 example_config)"
  using RevertToSnapshot_restores [OF NewStateDB_ok NewStateDB_revs_ok,
      of 0 example_config 0 "snd (Snapshot (NewStateDB 0 example_config))"
        "[SetStateOp 1 5 9, CreateAccountOp 1, AddBalanceOp 2 10, SnapshotOp, SuicideOp 1, AddRefundOp 7]" example_keeper]
  by (auto simp: Snapshot_def NewStateDB_def run_ops_def)

text \<open>The store that a commit writes depends on the objects and the dirty counters only.\<close>

lemma commitWithCtx_cong:
  assumes "sd_objects t = sd_objects s" and "sd_dirties t = sd_dirties s"
  shows "commitWithCtx K m t = commitWithCtx K m s"
proof -
  have "commit_object K t = commit_object K s" by (simp add: commit_object_def fun_eq_iff assms(1))
  then show ?thesis by (simp add: commitWithCtx_def sortedDirties_def assms(2))
qed

text \<open>
  C39: A stateful precompile that fails leaves its writes behind. The dirty accounts were committed to
  the cache context before it ran, it wrote what it liked before it failed, and no journal entry
  records the store from before. So reverting to the snapshot taken before the call restores all of
  the state except that store: it stays what the failed call made of it.
\<close>

theorem failed_precompile_not_reverted:
  assumes "sd_ok s" and "revs_ok s" and "Snapshot s = (revid, s1)" and "\<forall>m. fst (run m) = None"
    and "precompile_call K a run s1 = Inr (ok, s2)"
  shows "\<not> ok \<and> (\<exists>m s3. commitWithCtx K (v_store (view K s)) s = Inr m \<and> RevertToSnapshot K revid s2 = Inr s3 \<and>
    view K s3 = (view K s)\<lparr>v_store := snd (run m)\<rparr>)"
proof -
  have s1: "revid = sd_nextRevisionID s" "s1 = snd (Snapshot s)" using assms(3) by (auto simp: Snapshot_def)
  then have same: "sd_objects s1 = sd_objects s" "sd_dirties s1 = sd_dirties s" "sd_cacheCtx s1 = sd_cacheCtx s"
    "sd_ctx s1 = sd_ctx s" by (simp_all add: Snapshot_def)
  define m0 where "m0 = v_store (view K s)"
  have m0: "(case sd_cacheCtx s1 of None \<Rightarrow> sd_ctx s1 | Some m \<Rightarrow> m) = m0"
    by (simp add: m0_def view_def same cong: option.case_cong)
  have commit: "commitWithCtx K m0 (s1\<lparr>sd_cacheCtx := Some m0\<rparr>) = commitWithCtx K m0 s"
    by (rule commitWithCtx_cong) (simp_all add: same)
  obtain m where m: "commitWithCtx K m0 s = Inr m"
    using assms(5) unfolding precompile_call_eq m0 commit by auto
  obtain store where run: "run m = (None, store)" using assms(4) by (metis prod.collapse)
  have s2: "\<not> ok" "s2 = s1\<lparr>sd_cacheCtx := Some store\<rparr>"
    using assms(5) unfolding precompile_call_eq m0 commit by (simp_all add: m run)
  let ?s' = "s\<lparr>sd_cacheCtx := Some store\<rparr>"
  have "sd_ok ?s'" "revs_ok ?s'" using assms(1,2) by (simp_all add: sd_ok_def revs_ok_def)
  moreover have "snd (Snapshot ?s') = s2" by (simp add: Snapshot_def s1 s2)
  ultimately obtain s3 where "RevertToSnapshot K revid s2 = Inr s3" "view K s3 = view K ?s'"
    using reach_revert [of ?s' K s2] reach_start [of ?s' K] s1 by auto
  with m s2(1) run show ?thesis by (auto simp: m0_def)
qed

theorem failed_precompile_not_reverted_witness:
  "\<exists>ok s2 s3. precompile_call example_keeper 9 (\<lambda>m. (None, m + 41))
      (snd (Snapshot (NewStateDB 0 example_config))) = Inr (ok, s2) \<and>
    RevertToSnapshot example_keeper 0 s2 = Inr s3 \<and>
    v_store (view example_keeper s3) = 41 \<and> v_store (view example_keeper (NewStateDB 0 example_config)) = 0"
proof -
  let ?s = "NewStateDB (0 :: nat) example_config"
  have "precompile_call example_keeper 9 (\<lambda>m. (None, m + 41)) (snd (Snapshot ?s)) =
      Inr (False, (snd (Snapshot ?s))\<lparr>sd_cacheCtx := Some 41\<rparr>)"
    by (simp add: precompile_call_eq commitWithCtx_def sortedDirties_def Snapshot_def NewStateDB_def)
  moreover have "Snapshot ?s = (0, snd (Snapshot ?s))" by (simp add: Snapshot_def NewStateDB_def)
  ultimately show ?thesis
    using failed_precompile_not_reverted [OF NewStateDB_ok NewStateDB_revs_ok, of 0 example_config 0 _
        "\<lambda>m. (None, m + 41)" example_keeper 9]
    by (fastforce simp: commitWithCtx_def sortedDirties_def NewStateDB_def view_def)
qed

text \<open>
  The calls of precompiles in a transaction, one after the other. The counter is a byte.
\<close>

fun precompile_calls :: "'k keeper \<Rightarrow> address \<Rightarrow> 'k list \<Rightarrow> 'k StateDB \<Rightarrow> bool list \<times> 'k StateDB" where
  "precompile_calls K a [] s = ([], s)"
| "precompile_calls K a (m # ms) s =
     (let (ok, s1) = AddPrecompileFn K a m s; (oks, s2) = precompile_calls K a ms s1 in (ok # oks, s2))"

lemma getOrNew_calls: "getOrNewStateObject K a s = (so, t) \<Longrightarrow> sd_precompileCalls t = sd_precompileCalls s"
  by (auto simp: getOrNewStateObject_def getStateObject_def createObject_def setStateObject_def Let_def
      split: option.splits prod.splits)

lemma AddPrecompileFn_counter:
  "fst (AddPrecompileFn K a m s) \<longleftrightarrow> (sd_precompileCalls s + 1) mod 256 \<le> 100"
  "sd_precompileCalls (snd (AddPrecompileFn K a m s)) = (sd_precompileCalls s + 1) mod 256"
proof -
  obtain so t where g: "getOrNewStateObject K a s = (so, t)" by fastforce
  note getOrNew_calls [OF g]
  then show "fst (AddPrecompileFn K a m s) \<longleftrightarrow> (sd_precompileCalls s + 1) mod 256 \<le> 100"
    and "sd_precompileCalls (snd (AddPrecompileFn K a m s)) = (sd_precompileCalls s + 1) mod 256"
    by (simp_all add: AddPrecompileFn_def g Let_def MaxPrecompileCalls_def not_less)
qed

lemma precompile_calls_counter:
  "i < length ms \<Longrightarrow> fst (precompile_calls K a ms s) ! i \<longleftrightarrow> (sd_precompileCalls s + 1 + int i) mod 256 \<le> 100"
proof (induction ms arbitrary: s i)
  case (Cons m ms)
  show ?case
  proof (cases i)
    case 0
    then show ?thesis by (simp add: AddPrecompileFn_counter case_prod_beta Let_def)
  next
    case (Suc j)
    have "((sd_precompileCalls s + 1) mod 256 + 1 + int j) mod 256 = (sd_precompileCalls s + 1 + int i) mod 256"
      using Suc mod_add_left_eq [of "sd_precompileCalls s + 1" 256 "1 + int j"] by (simp add: ac_simps)
    with Suc Cons.prems Cons.IH [of j "snd (AddPrecompileFn K a m s)"] show ?thesis
      by (simp add: AddPrecompileFn_counter case_prod_beta Let_def)
  qed
qed simp

text \<open>
  C40: The limit of 100 precompile calls per transaction. Call number \<open>i + 1\<close> is accepted exactly when
  its number modulo 256 is at most 100: calls 101 to 255 are refused, and from call 256 on the
  counter has wrapped around and calls are accepted again.
\<close>

theorem precompile_limit_wraps:
  assumes "i < length ms"
  shows "fst (precompile_calls K a ms (NewStateDB ctx cfg)) ! i \<longleftrightarrow> (i + 1) mod 256 \<le> 100"
proof -
  have "(1 + int i) mod 256 = int ((i + 1) mod 256)" by (simp add: zmod_int)
  with precompile_calls_counter [OF assms, of K a "NewStateDB ctx cfg"] show ?thesis
    by (simp add: NewStateDB_def)
qed

theorem precompile_limit_wraps_witness:
  "\<exists>ms. \<not> fst (precompile_calls example_keeper 9 ms (NewStateDB 0 example_config)) ! 254 \<and>
    fst (precompile_calls example_keeper 9 ms (NewStateDB 0 example_config)) ! 255"
proof -
  obtain ms :: "nat list" where "length ms = 300" using Ex_list_of_length by blast
  with precompile_limit_wraps [of 254 ms example_keeper 9 0 example_config]
    precompile_limit_wraps [of 255 ms example_keeper 9 0 example_config] show ?thesis by auto
qed

end
