(* ===== verification/JumpDest.thy ===== *)
theory JumpDest
  imports AccessList
begin

text \<open>
  Which positions of a contract may be jumped to (x/evm/core/vm: analysis.go and the jump
  destinations of contract.go).

  \<^item> \<open>bitvec\<close> is the packed bit vector of the code; an index out of range is a panic.
  \<^item> \<open>data_flags\<close> is the plain reading of a program, byte by byte: a byte is data when it belongs to
    the argument of a PUSH. The lemmas lead to the equivalence of both.
  \<^item> The program counter is a natural number: a code is shorter than \<open>2 ^ 63\<close> bytes, so it never wraps.
\<close>

unbundle bit_operations_syntax

type_synonym byte = "8 word"
type_synonym bitvec = "byte list"

section \<open>The bit vector\<close>

definition bv_get :: "nat \<Rightarrow> bitvec \<Rightarrow> go_panic + byte" where
  "bv_get i bits = (if i < length bits then Inr (bits ! i) else Inl (GoPanic ''index out of range''))"

definition bv_put :: "nat \<Rightarrow> byte \<Rightarrow> bitvec \<Rightarrow> go_panic + bitvec" where
  "bv_put i b bits = (if i < length bits then Inr (bits[i := b]) else Inl (GoPanic ''index out of range''))"

definition bv_or :: "nat \<Rightarrow> byte \<Rightarrow> bitvec \<Rightarrow> go_panic + bitvec" where
  "bv_or i b bits = rbind (bv_get i bits) (\<lambda>old. bv_put i (old OR b) bits)"

definition set1 :: "nat \<Rightarrow> bitvec \<Rightarrow> go_panic + bitvec" where
  "set1 pos bits = bv_or (pos div 8) (push_bit (pos mod 8) 1) bits"

definition setN :: "16 word \<Rightarrow> nat \<Rightarrow> bitvec \<Rightarrow> go_panic + bitvec" where
  "setN flag pos bits =
     (let a = push_bit (pos mod 8) flag
      in rbind (bv_or (pos div 8) (ucast a) bits) (\<lambda>bits1.
         let b = ucast (drop_bit 8 a) :: byte
         in if b \<noteq> 0 then bv_put (pos div 8 + 1) b bits1 else Inr bits1))"

definition set8 :: "nat \<Rightarrow> bitvec \<Rightarrow> go_panic + bitvec" where
  "set8 pos bits =
     (let a = push_bit (pos mod 8) 0xFF
      in rbind (bv_or (pos div 8) a bits) (bv_put (pos div 8 + 1) (NOT a)))"

definition set16 :: "nat \<Rightarrow> bitvec \<Rightarrow> go_panic + bitvec" where
  "set16 pos bits =
     (let a = push_bit (pos mod 8) 0xFF
      in rbind (bv_or (pos div 8) a bits) (\<lambda>bits1.
         rbind (bv_put (pos div 8 + 1) 0xFF bits1) (bv_put (pos div 8 + 2) (NOT a))))"

definition codeSegment :: "bitvec \<Rightarrow> nat \<Rightarrow> go_panic + bool" where
  "codeSegment bits pos = rbind (bv_get (pos div 8) bits) (\<lambda>b. Inr (drop_bit (pos mod 8) b AND 1 = 0))"

definition PUSH1 :: byte where "PUSH1 = 0x60"

definition JUMPDEST :: byte where "JUMPDEST = 0x5b"

fun set16s :: "nat \<Rightarrow> bitvec \<Rightarrow> nat \<Rightarrow> go_panic + nat \<times> bitvec \<times> nat" where
  "set16s numbits bits pc =
     (if numbits \<ge> 16 then rbind (set16 pc bits) (\<lambda>bits1. set16s (numbits - 16) bits1 (pc + 16))
      else Inr (numbits, bits, pc))"

fun set8s :: "nat \<Rightarrow> bitvec \<Rightarrow> nat \<Rightarrow> go_panic + nat \<times> bitvec \<times> nat" where
  "set8s numbits bits pc =
     (if numbits \<ge> 8 then rbind (set8 pc bits) (\<lambda>bits1. set8s (numbits - 8) bits1 (pc + 8))
      else Inr (numbits, bits, pc))"

declare set16s.simps [simp del] set8s.simps [simp del]

definition set_rest :: "nat \<Rightarrow> bitvec \<Rightarrow> nat \<Rightarrow> go_panic + bitvec \<times> nat" where
  "set_rest numbits bits pc =
     (if numbits = 1 then rbind (set1 pc bits) (\<lambda>bits1. Inr (bits1, pc + 1))
      else if numbits = 2 then rbind (setN 0b11 pc bits) (\<lambda>bits1. Inr (bits1, pc + 2))
      else if numbits = 3 then rbind (setN 0b111 pc bits) (\<lambda>bits1. Inr (bits1, pc + 3))
      else if numbits = 4 then rbind (setN 0b1111 pc bits) (\<lambda>bits1. Inr (bits1, pc + 4))
      else if numbits = 5 then rbind (setN 0b11111 pc bits) (\<lambda>bits1. Inr (bits1, pc + 5))
      else if numbits = 6 then rbind (setN 0b111111 pc bits) (\<lambda>bits1. Inr (bits1, pc + 6))
      else if numbits = 7 then rbind (setN 0b1111111 pc bits) (\<lambda>bits1. Inr (bits1, pc + 7))
      else Inr (bits, pc))"

definition set_push :: "nat \<Rightarrow> bitvec \<Rightarrow> nat \<Rightarrow> go_panic + bitvec \<times> nat" where
  "set_push numbits bits pc =
     rbind (if numbits \<ge> 8 then
              rbind (set16s numbits bits pc) (\<lambda>(numbits, bits, pc). set8s numbits bits pc)
            else Inr (numbits, bits, pc))
       (\<lambda>(numbits, bits, pc). set_rest numbits bits pc)"

lemma set16s_pc: "set16s n bits pc = Inr (m, bits', pc') \<Longrightarrow> pc' + m = pc + n \<and> m \<le> n \<and> m < 16"
proof (induction n bits pc arbitrary: m bits' pc' rule: set16s.induct)
  case (1 n bits pc)
  show ?case
  proof (cases "n \<ge> 16")
    case True
    with 1 show ?thesis by (subst (asm) set16s.simps) fastforce
  qed (use 1(2) in \<open>simp add: set16s.simps [of n]\<close>)
qed

lemma set8s_pc: "set8s n bits pc = Inr (m, bits', pc') \<Longrightarrow> pc' + m = pc + n \<and> m \<le> n \<and> m < 8"
proof (induction n bits pc arbitrary: m bits' pc' rule: set8s.induct)
  case (1 n bits pc)
  show ?case
  proof (cases "n \<ge> 8")
    case True
    with 1 show ?thesis by (subst (asm) set8s.simps) fastforce
  qed (use 1(2) in \<open>simp add: set8s.simps [of n]\<close>)
qed

lemma set_rest_pc: "m < 8 \<Longrightarrow> set_rest m bits pc = Inr (bits', pc') \<Longrightarrow> pc' = pc + m"
  by (auto simp: set_rest_def split: if_splits)

lemma set_push_pc:
  assumes "set_push n bits pc = Inr (bits', pc')"
  shows "pc' = pc + n"
proof -
  obtain m bits1 pc1 where r: "set_rest m bits1 pc1 = Inr (bits', pc')"
    and m: "(if n \<ge> 8 then rbind (set16s n bits pc) (\<lambda>(numbits, bits, pc). set8s numbits bits pc)
      else Inr (n, bits, pc)) = Inr (m, bits1, pc1)"
    using assms by (auto simp: set_push_def)
  have "pc1 + m = pc + n \<and> m < 8"
  proof (cases "n \<ge> 8")
    case True
    with m obtain k bits0 pc0 where "set16s n bits pc = Inr (k, bits0, pc0)" "set8s k bits0 pc0 = Inr (m, bits1, pc1)"
      by auto
    with set16s_pc [of n bits pc k bits0 pc0] set8s_pc [of k bits0 pc0 m bits1 pc1] show ?thesis by auto
  qed (use m in auto)
  with set_rest_pc [of m, OF _ r] show ?thesis by simp
qed

text \<open>\<open>int8(op) < int8(PUSH1)\<close>: opcodes from 0x80 on are negative.\<close>

definition is_push :: "byte \<Rightarrow> bool" where
  "is_push op \<longleftrightarrow> \<not> sint op < sint PUSH1"

definition numbits :: "byte \<Rightarrow> nat" where
  "numbits op = unat (op - PUSH1 + 1)"

function codeBitmapInternal :: "byte list \<Rightarrow> bitvec \<Rightarrow> nat \<Rightarrow> go_panic + bitvec" where
  "codeBitmapInternal code bits pc =
     (if pc < length code then
        if \<not> is_push (code ! pc) then codeBitmapInternal code bits (pc + 1)
        else rbind (set_push (numbits (code ! pc)) bits (pc + 1))
               (\<lambda>(bits1, pc1). codeBitmapInternal code bits1 pc1)
      else Inr bits)"
  by pat_completeness auto
termination
  by (relation "measure (\<lambda>(code, bits, pc). length code - pc)") (auto dest!: set_push_pc)

declare codeBitmapInternal.simps [simp del]

definition codeBitmap :: "byte list \<Rightarrow> go_panic + bitvec" where
  "codeBitmap code = codeBitmapInternal code (replicate (length code div 8 + 1 + 4) 0) 0"

section \<open>The plain reading\<close>

definition push_len :: "byte \<Rightarrow> nat" where
  "push_len op = (if 0x60 \<le> op \<and> op \<le> 0x7f then unat (op - 0x5f) else 0)"

fun data_flags :: "nat \<Rightarrow> byte list \<Rightarrow> bool list" where
  "data_flags n [] = []"
| "data_flags (Suc n) (b # bs) = True # data_flags n bs"
| "data_flags 0 (b # bs) = False # data_flags (push_len b) bs"

lemma data_flags_length [simp]: "length (data_flags n bs) = length bs"
  by (induction n bs rule: data_flags.induct) auto

lemma data_flags_nth:
  "i < length bs \<Longrightarrow> data_flags n bs ! i = (i < n \<or> data_flags 0 (drop n bs) ! (i - n))"
proof (induction n bs arbitrary: i rule: data_flags.induct)
  case (2 n b bs)
  then show ?case by (cases i) auto
qed auto

lemma is_push_iff: "is_push op \<longleftrightarrow> 0x60 \<le> uint op \<and> uint op \<le> 0x7f"
proof -
  have m: "uint op mod 256 = uint op"
    using uint_bounded [of op] by (intro mod_pos_pos_trivial) auto
  have s: "sint op = uint op - 256 * of_bool (bit (uint op) 7)"
    by (simp add: sint_uint signed_take_bit_eq_take_bit_minus take_bit_eq_mod m)
  have b: "bit (uint op) 7 \<longleftrightarrow> sint op < 0"
    using s uint_bounded [of op] sint_ge [of op] sint_lt [of op] uint_nonnegative [of op] by auto
  show ?thesis
    using s b uint_bounded [of op] sint_ge [of op] sint_lt [of op] uint_nonnegative [of op]
    by (auto simp: is_push_def PUSH1_def split: if_splits)
qed

lemma push_len_numbits: "is_push op \<Longrightarrow> numbits op = push_len op"
  and not_push_len: "\<not> is_push op \<Longrightarrow> push_len op = 0"
  and push_len_le: "push_len op \<le> 32"
proof -
  have iff: "is_push op \<longleftrightarrow> 0x60 \<le> op \<and> op \<le> 0x7f"
    by (simp add: is_push_iff word_le_def)
  show "is_push op \<Longrightarrow> numbits op = push_len op"
    by (simp add: iff push_len_def numbits_def PUSH1_def)
  show "\<not> is_push op \<Longrightarrow> push_len op = 0" by (auto simp: iff push_len_def)
  show "push_len op \<le> 32"
  proof (cases "0x60 \<le> op \<and> op \<le> 0x7f")
    case True
    then have "unat (op - 0x5f) = unat op - 0x5f" "unat op \<le> 0x7f"
      by (auto simp: unat_sub word_le_nat_alt)
    with True show ?thesis by (simp add: push_len_def)
  next
    case False
    then show ?thesis by (auto simp: push_len_def)
  qed
qed

section \<open>Setting bits\<close>

definition bv_bit :: "bitvec \<Rightarrow> nat \<Rightarrow> bool" where
  "bv_bit bits q \<longleftrightarrow> q div 8 < length bits \<and> bit (bits ! (q div 8)) (q mod 8)"

definition fresh :: "bitvec \<Rightarrow> nat \<Rightarrow> bool" where
  "fresh bits pos \<longleftrightarrow> (\<forall>q \<ge> pos. \<not> bv_bit bits q)"

text \<open>\<open>bits'\<close> has the bits of \<open>bits\<close> and those of \<open>n\<close> positions from \<open>pos\<close> on.\<close>

definition marks :: "bitvec \<Rightarrow> nat \<Rightarrow> nat \<Rightarrow> bitvec \<Rightarrow> bool" where
  "marks bits pos n bits' \<longleftrightarrow> length bits' = length bits \<and>
     (\<forall>q. bv_bit bits' q \<longleftrightarrow> bv_bit bits q \<or> pos \<le> q \<and> q < pos + n)"

lemma marks_refl: "marks bits pos 0 bits"
  by (auto simp: marks_def)

lemma marks_trans: "marks a pos m b \<Longrightarrow> marks b (pos + m) n c \<Longrightarrow> marks a pos (m + n) c"
  by (auto simp: marks_def)

lemma marks_fresh: "fresh bits pos \<Longrightarrow> marks bits pos n bits' \<Longrightarrow> fresh bits' (pos + n)"
  by (auto simp: marks_def fresh_def)

lemma in_range_byte:
  fixes q pos n :: nat
  assumes "q div 8 = pos div 8 + k"
  shows "pos \<le> q \<and> q < pos + n \<longleftrightarrow> pos mod 8 \<le> q mod 8 + 8 * k \<and> q mod 8 + 8 * k < pos mod 8 + n"
proof -
  have q: "q = 8 * (pos div 8) + 8 * k + q mod 8"
    using mult_div_mod_eq [of 8 q, symmetric] assms by (simp add: distrib_left)
  have p: "pos = 8 * (pos div 8) + pos mod 8" by simp
  have 2: "q < pos + n \<longleftrightarrow> q mod 8 + 8 * k < pos mod 8 + n"
  proof
    assume "q < pos + n" with q p show "q mod 8 + 8 * k < pos mod 8 + n" by linarith
  next
    assume "q mod 8 + 8 * k < pos mod 8 + n" with q p show "q < pos + n" by linarith
  qed
  have 1: "pos \<le> q \<longleftrightarrow> pos mod 8 \<le> q mod 8 + 8 * k"
  proof
    assume "pos \<le> q" with q p show "pos mod 8 \<le> q mod 8 + 8 * k" by linarith
  next
    assume "pos mod 8 \<le> q mod 8 + 8 * k" with q p show "pos \<le> q" by linarith
  qed
  from 1 2 show ?thesis by simp
qed

text \<open>It is enough to look at the bytes.\<close>

lemma marksI:
  assumes "length bits' = length bits" and "pos div 8 + (pos mod 8 + n - 1) div 8 < length bits" and "0 < n"
    and "\<And>j i. j < length bits \<Longrightarrow> i < 8 \<Longrightarrow> bit (bits' ! j) i \<longleftrightarrow> bit (bits ! j) i \<or>
      pos div 8 \<le> j \<and> pos mod 8 \<le> i + 8 * (j - pos div 8) \<and> i + 8 * (j - pos div 8) < pos mod 8 + n"
  shows "marks bits pos n bits'"
proof -
  have "bv_bit bits' q \<longleftrightarrow> bv_bit bits q \<or> pos \<le> q \<and> q < pos + n" for q
  proof (cases "pos div 8 \<le> q div 8")
    case True
    then obtain k where k: "q div 8 = pos div 8 + k" using le_Suc_ex by blast
    show ?thesis
    proof (cases "q div 8 < length bits")
      case True
      with assms(1,4) k in_range_byte [OF k] show ?thesis by (simp add: bv_bit_def)
    next
      case False
      have "\<not> q < pos + n"
      proof
        assume "q < pos + n"
        then have "q \<le> 8 * (pos div 8) + (pos mod 8 + n - 1)" using assms(3) by simp
        then have "q div 8 \<le> (8 * (pos div 8) + (pos mod 8 + n - 1)) div 8" by (rule div_le_mono)
        then show False using False assms(2) by simp
      qed
      with False assms(1) show ?thesis by (simp add: bv_bit_def)
    qed
  next
    case False
    then have "\<not> pos \<le> q" using div_le_mono by blast
    moreover have "bit (bits' ! (q div 8)) (q mod 8) = bit (bits ! (q div 8)) (q mod 8)" if "q div 8 < length bits"
      using assms(4) [OF that, of "q mod 8"] False by simp
    ultimately show ?thesis using assms(1) by (auto simp: bv_bit_def)
  qed
  with assms(1) show ?thesis by (simp add: marks_def)
qed

lemma fresh_byte:
  assumes "fresh bits pos" and "pos div 8 < j" and "j < length bits"
  shows "\<not> bit (bits ! j) i"
proof (cases "i < 8")
  case True
  have "pos \<le> 8 * j + i"
  proof -
    have "pos = 8 * (pos div 8) + pos mod 8" by simp
    moreover have "8 * (pos div 8) + 8 \<le> 8 * j" using assms(2) by simp
    moreover have "pos mod 8 < 8" by simp
    ultimately show ?thesis by linarith
  qed
  then have "\<not> bv_bit bits (8 * j + i)" using assms(1) by (simp add: fresh_def)
  with assms(3) True show ?thesis by (simp add: bv_bit_def)
next
  case False
  then show ?thesis using bit_imp_le_length [of "bits ! j" i] by auto
qed

lemma bit_byte_ones: "i < 8 \<Longrightarrow> bit (0xFF :: byte) i"
proof -
  have "(0xFF :: byte) = mask 8" by (simp add: mask_eq_exp_minus_1)
  then show "i < 8 \<Longrightarrow> bit (0xFF :: byte) i" by (simp only: bit_mask_iff) simp
qed

lemma set1_marks:
  assumes "pos div 8 < length bits"
  shows "\<exists>bits'. set1 pos bits = Inr bits' \<and> marks bits pos 1 bits'"
proof -
  let ?bits' = "bits[pos div 8 := (bits ! (pos div 8)) OR push_bit (pos mod 8) 1]"
  have "marks bits pos 1 ?bits'"
    using assms by (intro marksI) (auto simp: nth_list_update bit_or_iff bit_push_bit_iff bit_1_iff bit_exp_iff)
  with assms show ?thesis by (simp add: set1_def bv_or_def bv_get_def bv_put_def)
qed

lemma setN_marks:
  assumes "fresh bits pos" and "pos div 8 + 1 < length bits" and "0 < n" and "n < 8"
  shows "\<exists>bits'. setN (mask n) pos bits = Inr bits' \<and> marks bits pos n bits'"
proof -
  define r where "r = pos mod 8"
  define d where "d = pos div 8"
  define a :: "16 word" where "a = push_bit r (mask n)"
  define b :: byte where "b = ucast (drop_bit 8 a)"
  have r: "r < 8" by (simp add: r_def)
  have bit_a: "bit (ucast a :: byte) i \<longleftrightarrow> r \<le> i \<and> i < r + n" if "i < 8" for i
    using that by (auto simp: a_def bit_ucast_iff bit_push_bit_iff bit_mask_iff)
  have bit_b: "bit b i \<longleftrightarrow> r \<le> i + 8 \<and> i + 8 < r + n" if "i < 8" for i
    using that by (auto simp: b_def a_def bit_ucast_iff bit_drop_bit_eq bit_push_bit_iff bit_mask_iff add.commute)
  let ?bits1 = "bits[d := (bits ! d) OR ucast a]"
  let ?bits' = "if b \<noteq> 0 then ?bits1[d + 1 := b] else ?bits1"
  have "setN (mask n) pos bits = Inr ?bits'"
    using assms(2) by (simp add: setN_def bv_or_def bv_get_def bv_put_def Let_def a_def b_def r_def d_def)
  moreover have "marks bits pos n ?bits'"
  proof (rule marksI)
    have "(r + n - 1) div 8 \<le> 1" using r assms(4) by simp
    then show "pos div 8 + (pos mod 8 + n - 1) div 8 < length bits" using assms(2) by (simp add: r_def)
  next
    fix j i :: nat assume j: "j < length bits" and i: "i < 8"
    consider "j = d" | "j = d + 1" | "j < d" | "d + 1 < j" by linarith
    then show "bit (?bits' ! j) i \<longleftrightarrow> bit (bits ! j) i \<or>
      pos div 8 \<le> j \<and> pos mod 8 \<le> i + 8 * (j - pos div 8) \<and> i + 8 * (j - pos div 8) < pos mod 8 + n"
    proof cases
      case 1
      with j bit_a [OF i] show ?thesis by (auto simp: bit_or_iff r_def d_def)
    next
      case 2
      have "\<not> bit (bits ! j) i" using fresh_byte [OF assms(1) _ j] 2 by (simp add: d_def)
      with 2 j bit_b [OF i] show ?thesis by (auto simp: r_def [symmetric] d_def [symmetric])
    next
      case 3
      then show ?thesis by (auto simp: d_def [symmetric])
    next
      case 4
      then have "16 \<le> i + 8 * (j - d)" by simp
      with 4 r assms(4) show ?thesis by (auto simp: r_def [symmetric] d_def [symmetric])
    qed
  qed (use assms in auto)
  ultimately show ?thesis by blast
qed

lemma set8_marks:
  assumes "fresh bits pos" and "pos div 8 + 1 < length bits"
  shows "\<exists>bits'. set8 pos bits = Inr bits' \<and> marks bits pos 8 bits'"
proof -
  define r where "r = pos mod 8"
  define d where "d = pos div 8"
  define a :: byte where "a = push_bit r 0xFF"
  have r: "r < 8" by (simp add: r_def)
  have bit_a: "bit a i \<longleftrightarrow> r \<le> i" if "i < 8" for i
    using that bit_byte_ones [of "i - r"] by (auto simp: a_def bit_push_bit_iff)
  have bit_b: "bit (NOT a) i \<longleftrightarrow> i < r" if "i < 8" for i
    using that bit_a [OF that] by (simp add: bit_not_iff not_le)
  let ?bits' = "bits[d := (bits ! d) OR a, d + 1 := NOT a]"
  have "set8 pos bits = Inr ?bits'"
    using assms(2) by (simp add: set8_def bv_or_def bv_get_def bv_put_def Let_def a_def r_def d_def)
  moreover have "marks bits pos 8 ?bits'"
  proof (rule marksI)
    have "(r + 8 - 1) div 8 \<le> 1" using r by simp
    then show "pos div 8 + (pos mod 8 + 8 - 1) div 8 < length bits" using assms(2) by (simp add: r_def)
  next
    fix j i :: nat assume j: "j < length bits" and i: "i < 8"
    consider "j = d" | "j = d + 1" | "j < d" | "d + 1 < j" by linarith
    then show "bit (?bits' ! j) i \<longleftrightarrow> bit (bits ! j) i \<or>
      pos div 8 \<le> j \<and> pos mod 8 \<le> i + 8 * (j - pos div 8) \<and> i + 8 * (j - pos div 8) < pos mod 8 + 8"
    proof cases
      case 1
      with j i bit_a [OF i] show ?thesis by (auto simp: bit_or_iff r_def d_def)
    next
      case 2
      have "\<not> bit (bits ! j) i" using fresh_byte [OF assms(1) _ j] 2 by (simp add: d_def)
      with 2 j i r bit_b [OF i] show ?thesis by (auto simp: r_def [symmetric] d_def [symmetric])
    next
      case 3
      then show ?thesis by (auto simp: d_def [symmetric])
    next
      case 4
      then have "16 \<le> i + 8 * (j - d)" by simp
      with 4 r show ?thesis by (auto simp: r_def [symmetric] d_def [symmetric])
    qed
  qed (use assms in auto)
  ultimately show ?thesis by blast
qed

lemma set16_marks:
  assumes "fresh bits pos" and "pos div 8 + 2 < length bits"
  shows "\<exists>bits'. set16 pos bits = Inr bits' \<and> marks bits pos 16 bits'"
proof -
  define r where "r = pos mod 8"
  define d where "d = pos div 8"
  define a :: byte where "a = push_bit r 0xFF"
  have r: "r < 8" by (simp add: r_def)
  have bit_a: "bit a i \<longleftrightarrow> r \<le> i" if "i < 8" for i
    using that bit_byte_ones [of "i - r"] by (auto simp: a_def bit_push_bit_iff)
  have bit_b: "bit (NOT a) i \<longleftrightarrow> i < r" if "i < 8" for i
    using that bit_a [OF that] by (simp add: bit_not_iff not_le)
  let ?bits' = "bits[d := (bits ! d) OR a, d + 1 := 0xFF, d + 2 := NOT a]"
  have "set16 pos bits = Inr ?bits'"
    using assms(2) by (simp add: set16_def bv_or_def bv_get_def bv_put_def Let_def a_def r_def d_def)
  moreover have "marks bits pos 16 ?bits'"
  proof (rule marksI)
    have "(r + 16 - 1) div 8 \<le> 2" using r by simp
    then show "pos div 8 + (pos mod 8 + 16 - 1) div 8 < length bits" using assms(2) by (simp add: r_def)
  next
    fix j i :: nat assume j: "j < length bits" and i: "i < 8"
    consider "j = d" | "j = d + 1" | "j = d + 2" | "j < d" | "d + 2 < j" by linarith
    then show "bit (?bits' ! j) i \<longleftrightarrow> bit (bits ! j) i \<or>
      pos div 8 \<le> j \<and> pos mod 8 \<le> i + 8 * (j - pos div 8) \<and> i + 8 * (j - pos div 8) < pos mod 8 + 16"
    proof cases
      case 1
      with j i bit_a [OF i] show ?thesis by (auto simp: bit_or_iff r_def d_def)
    next
      case 2
      with j i r bit_byte_ones [OF i] show ?thesis by (auto simp: r_def [symmetric] d_def [symmetric])
    next
      case 3
      have "\<not> bit (bits ! j) i" using fresh_byte [OF assms(1) _ j] 3 by (simp add: d_def)
      with 3 j i r bit_b [OF i] show ?thesis by (auto simp: r_def [symmetric] d_def [symmetric])
    next
      case 4
      then show ?thesis by (auto simp: d_def [symmetric])
    next
      case 5
      then have "24 \<le> i + 8 * (j - d)" by simp
      with 5 r show ?thesis by (auto simp: r_def [symmetric] d_def [symmetric])
    qed
  qed (use assms in auto)
  ultimately show ?thesis by blast
qed



section \<open>A PUSH marks its argument\<close>

definition room :: "bitvec \<Rightarrow> nat \<Rightarrow> nat \<Rightarrow> bool" where
  "room bits pc n \<longleftrightarrow> pc div 8 + (n + 7) div 8 < length bits"

lemma room_step:
  assumes "room bits pc n" and "8 * k \<le> n"
  shows "room bits (pc + 8 * k) (n - 8 * k)"
proof -
  have "(n - 8 * k + 7) div 8 + k = (n - 8 * k + 7 + 8 * k) div 8" by (subst div_mult_self2) simp_all
  also have "n - 8 * k + 7 + 8 * k = n + 7" using assms(2) by simp
  finally show ?thesis using assms(1) by (simp add: room_def)
qed

lemma set16s_marks:
  "fresh bits pc \<Longrightarrow> room bits pc n \<Longrightarrow>
    \<exists>bits'. set16s n bits pc = Inr (n mod 16, bits', pc + (n - n mod 16)) \<and> marks bits pc (n - n mod 16) bits'"
proof (induction n bits pc rule: set16s.induct)
  case (1 n bits pc)
  show ?case
  proof (cases "n \<ge> 16")
    case True
    then have "pc div 8 + 2 < length bits" using 1(3) by (simp add: room_def)
    from set16_marks [OF 1(2) this] obtain bits1
      where s: "set16 pc bits = Inr bits1" and m: "marks bits pc 16 bits1" by blast
    have len: "length bits1 = length bits" using m by (simp add: marks_def)
    have "room bits1 (pc + 16) (n - 16)"
      using room_step [of bits pc n 2] 1(3) True len by (simp add: room_def)
    from 1(1) [OF True s marks_fresh [OF 1(2) m] this]
    obtain bits2 where t: "set16s (n - 16) bits1 (pc + 16) =
        Inr ((n - 16) mod 16, bits2, pc + 16 + (n - 16 - (n - 16) mod 16))"
      and m2: "marks bits1 (pc + 16) (n - 16 - (n - 16) mod 16) bits2" by blast
    have e: "(n - 16) mod 16 = n mod 16" using True by (simp add: le_mod_geq)
    have "n - 16 - n mod 16 + 16 = n - n mod 16"
      using True mod_less_divisor [of 16 n] mod_less_eq_dividend [of "n - 16" 16] e by simp
    with marks_trans [OF m m2] s t e True show ?thesis
      by (subst set16s.simps) (simp add: add.commute add.left_commute)
  qed (use 1 in \<open>simp add: set16s.simps [of n] marks_refl\<close>)
qed

lemma set8s_marks:
  "fresh bits pc \<Longrightarrow> room bits pc n \<Longrightarrow>
    \<exists>bits'. set8s n bits pc = Inr (n mod 8, bits', pc + (n - n mod 8)) \<and> marks bits pc (n - n mod 8) bits'"
proof (induction n bits pc rule: set8s.induct)
  case (1 n bits pc)
  show ?case
  proof (cases "n \<ge> 8")
    case True
    then have "pc div 8 + 1 < length bits" using 1(3) by (simp add: room_def)
    from set8_marks [OF 1(2) this] obtain bits1
      where s: "set8 pc bits = Inr bits1" and m: "marks bits pc 8 bits1" by blast
    have len: "length bits1 = length bits" using m by (simp add: marks_def)
    have "room bits1 (pc + 8) (n - 8)"
      using room_step [of bits pc n 1] 1(3) True len by (simp add: room_def)
    from 1(1) [OF True s marks_fresh [OF 1(2) m] this]
    obtain bits2 where t: "set8s (n - 8) bits1 (pc + 8) =
        Inr ((n - 8) mod 8, bits2, pc + 8 + (n - 8 - (n - 8) mod 8))"
      and m2: "marks bits1 (pc + 8) (n - 8 - (n - 8) mod 8) bits2" by blast
    have e: "(n - 8) mod 8 = n mod 8" using True by (simp add: le_mod_geq)
    have "n - 8 - n mod 8 + 8 = n - n mod 8"
      using True mod_less_divisor [of 8 n] mod_less_eq_dividend [of "n - 8" 8] e by simp
    with marks_trans [OF m m2] s t e True show ?thesis
      by (subst set8s.simps) (simp add: add.commute add.left_commute)
  qed (use 1 in \<open>simp add: set8s.simps [of n] marks_refl\<close>)
qed

lemma set_rest_marks:
  assumes "fresh bits pc" and "room bits pc n" and "n < 8"
  shows "\<exists>bits'. set_rest n bits pc = Inr (bits', pc + n) \<and> marks bits pc n bits'"
proof -
  consider "n = 0" | "n = 1" | "2 \<le> n" by linarith
  then show ?thesis
  proof cases
    case 1
    then show ?thesis by (simp add: set_rest_def marks_refl)
  next
    case 2
    with assms(2) have "pc div 8 < length bits" by (simp add: room_def)
    from set1_marks [OF this] 2 show ?thesis by (auto simp: set_rest_def)
  next
    case 3
    then have "pc div 8 + 1 < length bits" using assms(2) by (simp add: room_def)
    from setN_marks [OF assms(1) this _ assms(3)] 3 obtain bits'
      where s: "setN (mask n) pc bits = Inr bits'" and m: "marks bits pc n bits'" by auto
    have "n \<in> {2, 3, 4, 5, 6, 7}" using 3 assms(3) by auto
    then have "set_rest n bits pc = rbind (setN (mask n) pc bits) (\<lambda>bits1. Inr (bits1, pc + n))"
      by (auto simp: set_rest_def mask_eq_exp_minus_1)
    with s m show ?thesis by simp
  qed
qed

lemma set_push_marks:
  assumes "fresh bits pc" and "room bits pc n"
  shows "\<exists>bits'. set_push n bits pc = Inr (bits', pc + n) \<and> marks bits pc n bits'"
proof -
  have less: "n mod 16 mod 8 = n mod 8" "n mod 8 \<le> n mod 16" "n mod 16 \<le> n"
    using mod_less_eq_dividend [of "n mod 16" 8] by (simp_all add: mod_mod_cancel)
  obtain bits1 where m1: "marks bits pc (n - n mod 8) bits1"
    and s1: "(if n \<ge> 8 then rbind (set16s n bits pc) (\<lambda>(numbits, bits, pc). set8s numbits bits pc)
      else Inr (n, bits, pc)) = Inr (n mod 8, bits1, pc + (n - n mod 8))"
  proof (cases "n \<ge> 8")
    case True
    let ?k = "n - n mod 16"
    from set16s_marks [OF assms] obtain bits0 where s0: "set16s n bits pc = Inr (n mod 16, bits0, pc + ?k)"
      and m0: "marks bits pc ?k bits0" by blast
    have k: "?k = 8 * (2 * (n div 16))" by (simp add: minus_mod_eq_mult_div)
    have "room bits0 (pc + ?k) (n mod 16)"
    proof -
      have "n - ?k = n mod 16" using less by simp
      then show ?thesis using room_step [of bits pc n "2 * (n div 16)"] assms(2) m0 less k
        by (simp add: room_def marks_def)
    qed
    from set8s_marks [OF marks_fresh [OF assms(1) m0] this] less obtain bits1
      where s8: "set8s (n mod 16) bits0 (pc + ?k) = Inr (n mod 8, bits1, pc + ?k + (n mod 16 - n mod 8))"
      and m8: "marks bits0 (pc + ?k) (n mod 16 - n mod 8) bits1" by auto
    have "?k + (n mod 16 - n mod 8) = n - n mod 8" using less by linarith
    with marks_trans [OF m0 m8] s0 s8 True that show ?thesis by (simp add: add.assoc)
  next
    case False
    with that [of bits] show ?thesis by (simp add: marks_refl)
  qed
  have "room bits1 (pc + (n - n mod 8)) (n mod 8)"
    using room_step [of bits pc n "n div 8"] assms(2) m1
    by (simp add: room_def marks_def minus_mult_div_eq_mod minus_mod_eq_mult_div)
  from set_rest_marks [OF marks_fresh [OF assms(1) m1] this] obtain bits'
    where s2: "set_rest (n mod 8) bits1 (pc + (n - n mod 8)) = Inr (bits', pc + n)"
    and m2: "marks bits1 (pc + (n - n mod 8)) (n mod 8) bits'" by auto
  from marks_trans [OF m1 m2] have "marks bits pc n bits'" by simp
  with s1 s2 show ?thesis by (simp add: set_push_def)
qed


section \<open>The bit vector is the plain reading\<close>

lemma numbits_le: "is_push op \<Longrightarrow> numbits op \<le> 32"
  by (simp add: push_len_numbits push_len_le)

lemma room_code: "pc \<le> len \<Longrightarrow> n \<le> 32 \<Longrightarrow> length bits = len div 8 + 5 \<Longrightarrow> room bits pc n"
  using div_le_mono [of pc len 8] div_le_mono [of "n + 7" 39 8] by (simp add: room_def)

lemma range_split:
  "(p :: nat) \<le> d \<Longrightarrow> ((b \<or> p \<le> q \<and> q < d) \<or> d \<le> q \<and> f) \<longleftrightarrow> (b \<or> p \<le> q \<and> (q < d \<or> f))"
  by auto

lemma codeBitmapInternal_bits:
  "fresh bits pc \<Longrightarrow> length bits = length code div 8 + 5 \<Longrightarrow>
    \<exists>bits'. codeBitmapInternal code bits pc = Inr bits' \<and> length bits' = length bits \<and>
      (\<forall>q < length code. bv_bit bits' q \<longleftrightarrow> bv_bit bits q \<or> pc \<le> q \<and> data_flags 0 (drop pc code) ! (q - pc))"
proof (induction code bits pc rule: codeBitmapInternal.induct)
  case (1 code bits pc)
  show ?case
  proof (cases "pc < length code")
    case False
    then show ?thesis by (subst codeBitmapInternal.simps) simp
  next
    case True
    let ?op = "code ! pc"
    have drop: "drop pc code = ?op # drop (pc + 1) code" using True by (simp add: Cons_nth_drop_Suc)
    have flags: "pc \<le> q \<and> data_flags 0 (drop pc code) ! (q - pc) \<longleftrightarrow>
        pc + 1 \<le> q \<and> (q < pc + 1 + push_len ?op \<or>
          data_flags 0 (drop (pc + 1 + push_len ?op) code) ! (q - (pc + 1 + push_len ?op)))"
      if "q < length code" for q
    proof (cases "q \<le> pc")
      case True
      then show ?thesis by (auto simp: drop)
    next
      case False
      then obtain k where q: "q = pc + 1 + k" by (metis add.commute add_Suc_right less_imp_Suc_add not_le plus_1_eq_Suc)
      have "data_flags (push_len ?op) (drop (pc + 1) code) ! k =
        (k < push_len ?op \<or> data_flags 0 (drop (push_len ?op) (drop (pc + 1) code)) ! (k - push_len ?op))"
        using that q by (intro data_flags_nth) simp
      then show ?thesis by (simp add: drop q add.commute)
    qed
    show ?thesis
    proof (cases "is_push ?op")
      case False
      have "fresh bits (pc + 1)" using 1(3) by (simp add: fresh_def)
      from 1(1) [OF True False this 1(4)] obtain bits' where
        s: "codeBitmapInternal code bits (pc + 1) = Inr bits'" and l: "length bits' = length bits" and
        b: "\<And>q. q < length code \<Longrightarrow> bv_bit bits' q \<longleftrightarrow> bv_bit bits q \<or>
          pc + 1 \<le> q \<and> data_flags 0 (drop (pc + 1) code) ! (q - (pc + 1))" by blast
      have "codeBitmapInternal code bits pc = Inr bits'"
        using s True False by (subst codeBitmapInternal.simps) simp
      with l b flags not_push_len [OF False] show ?thesis by auto
    next
      case push: True
      let ?n = "numbits ?op"
      have n: "?n = push_len ?op" using push by (rule push_len_numbits)
      have fr: "fresh bits (pc + 1)" using 1(3) by (simp add: fresh_def)
      have "room bits (pc + 1) ?n"
        using True 1(4) numbits_le [OF push] by (intro room_code [where len = "length code"]) simp_all
      from set_push_marks [OF fr this] obtain bits1 where
        p: "set_push ?n bits (pc + 1) = Inr (bits1, pc + 1 + ?n)" and m: "marks bits (pc + 1) ?n bits1" by blast
      have l1: "length bits1 = length bits" using m by (simp add: marks_def)
      have "fresh bits1 (pc + 1 + ?n)" using fr m by (rule marks_fresh)
      from 1(2) [OF True _ p refl this] push l1 1(4) obtain bits' where
        s: "codeBitmapInternal code bits1 (pc + 1 + ?n) = Inr bits'" and l: "length bits' = length bits1" and
        b: "\<And>q. q < length code \<Longrightarrow> bv_bit bits' q \<longleftrightarrow> bv_bit bits1 q \<or>
          pc + 1 + ?n \<le> q \<and> data_flags 0 (drop (pc + 1 + ?n) code) ! (q - (pc + 1 + ?n))" by auto
      have "codeBitmapInternal code bits pc = Inr bits'"
        using s p True push by (subst codeBitmapInternal.simps) simp
      moreover have "bv_bit bits' q \<longleftrightarrow> bv_bit bits q \<or> pc \<le> q \<and> data_flags 0 (drop pc code) ! (q - pc)"
        if "q < length code" for q
      proof -
        have m': "bv_bit bits1 q \<longleftrightarrow> bv_bit bits q \<or> pc + 1 \<le> q \<and> q < pc + 1 + ?n"
          using m unfolding marks_def by blast
        show ?thesis
          unfolding b [OF that] flags [OF that] m' n [symmetric] by (rule range_split) simp
      qed
      ultimately show ?thesis using l l1 by auto
    qed
  qed
qed

lemma codeSegment_bit:
  "pos div 8 < length bits \<Longrightarrow> codeSegment bits pos = Inr (\<not> bv_bit bits pos)"
  by (simp add: codeSegment_def bv_get_def bv_bit_def and_one_eq mod_2_eq_odd bit_iff_odd_drop_bit)

lemma codeBitmap_codeSegment:
  "\<exists>bits. codeBitmap code = Inr bits \<and>
     (\<forall>q < length code. codeSegment bits q = Inr (\<not> data_flags 0 code ! q))"
proof -
  let ?bits0 = "replicate (length code div 8 + 1 + 4) 0 :: bitvec"
  have clear: "\<not> bv_bit ?bits0 q" for q by (simp add: bv_bit_def)
  then have "fresh ?bits0 0" by (simp add: fresh_def)
  from codeBitmapInternal_bits [OF this, of code] obtain bits where
    s: "codeBitmapInternal code ?bits0 0 = Inr bits" and l: "length bits = length code div 8 + 5"
    and b: "\<And>q. q < length code \<Longrightarrow> bv_bit bits q \<longleftrightarrow> data_flags 0 code ! q"
    using clear by auto
  have "codeSegment bits q = Inr (\<not> data_flags 0 code ! q)" if "q < length code" for q
  proof -
    have "q div 8 < length bits" using that l div_le_mono [of q "length code" 8] by simp
    with b [OF that] show ?thesis by (simp add: codeSegment_bit)
  qed
  with s show ?thesis by (auto simp: codeBitmap_def)
qed


end
