(* ===== verification/EvmBase.thy ===== *)
theory EvmBase
  imports StateDB JumpDest
begin

text \<open>
  The state the virtual machine works on (x/evm/core/vm: errors.go, stack.go, memory.go, common.go,
  gas.go, contract.go, and the types of evm.go, interpreter.go and jump_table.go).

  \<^item> A \<open>uint256.Int\<close> is a word of 256 bits, as is a \<open>common.Hash\<close>, and an address is one of 160 bits,
    so that \<open>Bytes32\<close>, \<open>Bytes20\<close> and \<open>SetBytes\<close> are conversions between words. Its arithmetic is that
    of the library holiman/uint256 and is part of the parameter \<open>glib\<close>, beside the helpers of
    go-ethereum; the gas constants of go-ethereum are the parameter \<open>'k evm_env\<close> calls \<open>e_params\<close>.
  \<^item> A \<open>uint64\<close> is an integer, and every operation that may leave the range is wrapped in \<open>u64\<close>.
  \<^item> The top of the stack is the head of the list. An access out of its range is \<open>StackPanic\<close>, an
    access outside the memory \<open>MemoryPanic\<close>, any other Go panic \<open>Panicked\<close>. \<open>NoFuel\<close> is the value of a
    run that was given too little fuel.
  \<^item> The map of jump analyses is shared by the contracts of a call tree: \<open>ct_jumpdests\<close> is a reference
    into \<open>ev_jumpdests\<close>.
\<close>

section \<open>Errors\<close>

datatype evm_error =
  ErrOutOfGas
| ErrCodeStoreOutOfGas
| ErrDepth
| ErrInsufficientBalance
| ErrContractAddressCollision
| ErrExecutionReverted
| ErrMaxCodeSizeExceeded
| ErrInvalidJump
| ErrWriteProtection
| ErrReturnDataOutOfBounds
| ErrGasUintOverflow
| ErrInvalidCode
| ErrNonceUintOverflow
| errStopToken
| ErrStackUnderflow nat int
| ErrStackOverflow nat int
| ErrInvalidOpCode byte
| OtherError string

datatype evm_stop = StackPanic | MemoryPanic | Panicked go_panic | NoFuel

definition lift_go :: "go_panic + 'x \<Rightarrow> evm_stop + 'x" where
  "lift_go r = (case r of Inl p \<Rightarrow> Inl (Panicked p) | Inr x \<Rightarrow> Inr x)"

lemma lift_go_simps [simp]:
  "lift_go (Inr x) = Inr x" "lift_go (Inl p) = Inl (Panicked p)" "lift_go r = Inr y \<longleftrightarrow> r = Inr y"
  by (auto simp: lift_go_def split: sum.splits)

section \<open>The parameters: constants and helpers of go-ethereum, and uint256\<close>

datatype param =
  MemoryGas | QuadCoeffDiv | CopyGas
| SstoreSetGas | SstoreRefundGas | SstoreClearGas | SstoreResetGas
| NetSstoreNoopGas | NetSstoreInitGas | NetSstoreClearRefund | NetSstoreCleanGas
| NetSstoreResetClearRefund | NetSstoreResetRefund | NetSstoreDirtyGas
| SstoreSentryGasEIP2200 | SloadGasEIP2200 | SstoreSetGasEIP2200
| SstoreClearsScheduleRefundEIP2200 | SstoreResetGasEIP2200
| LogGas | LogTopicGas | LogDataGas | Keccak256Gas | Keccak256WordGas
| ExpByteFrontier | ExpGas | ExpByteEIP158
| CallNewAccountGas | CallValueTransferGas | CallStipend
| SelfdestructGasEIP150 | CreateBySelfdestructGas | SelfdestructRefundGas
| ColdSloadCostEIP2929 | WarmStorageReadCostEIP2929 | ColdAccountAccessCostEIP2929
| SstoreClearsScheduleRefundEIP3529
| CreateDataGas | MaxCodeSize | CallCreateDepth | StackLimit
| BalanceGasFrontier | ExtcodeSizeGasFrontier | ExtcodeCopyBaseFrontier | SloadGasFrontier
| JumpdestGas | CreateGas | Create2Gas | CallGasFrontier | CallGasEIP150
| BalanceGasEIP150 | ExtcodeSizeGasEIP150 | SloadGasEIP150 | ExtcodeCopyBaseEIP150
| ExtcodeHashGasConstantinople | SloadGasEIP1884 | BalanceGasEIP1884 | ExtcodeHashGasEIP1884

type_synonym uint256 = "256 word"

datatype u256_binop =
  uAdd | uSub | uMul | uDiv | uSDiv | uMod | uSMod | uExp | uExtendSign | uAnd | uOr | uXor | uByte

datatype u256_relop = uLt | uGt | uSlt | uSgt | uEq

record glib =
  u256_bin :: "u256_binop \<Rightarrow> uint256 \<Rightarrow> uint256 \<Rightarrow> uint256"
  u256_rel :: "u256_relop \<Rightarrow> uint256 \<Rightarrow> uint256 \<Rightarrow> bool"
  u256_Not :: "uint256 \<Rightarrow> uint256"
  u256_AddMod :: "uint256 \<Rightarrow> uint256 \<Rightarrow> uint256 \<Rightarrow> uint256"
  u256_MulMod :: "uint256 \<Rightarrow> uint256 \<Rightarrow> uint256 \<Rightarrow> uint256"
  u256_Lsh :: "uint256 \<Rightarrow> int \<Rightarrow> uint256"
  u256_Rsh :: "uint256 \<Rightarrow> int \<Rightarrow> uint256"
  u256_SRsh :: "uint256 \<Rightarrow> int \<Rightarrow> uint256"
  u256_BitLen :: "uint256 \<Rightarrow> int"
  SafeAdd :: "int \<Rightarrow> int \<Rightarrow> int \<times> bool"
  SafeMul :: "int \<Rightarrow> int \<Rightarrow> int \<times> bool"
  RightPadBytes :: "bytes \<Rightarrow> int \<Rightarrow> bytes"
  CreateAddress :: "address \<Rightarrow> int \<Rightarrow> address"
  CreateAddress2 :: "address \<Rightarrow> uint256 \<Rightarrow> hash \<Rightarrow> address"

text \<open>
  What the machine relies on: the documentation of \<open>math.SafeAdd\<close> and \<open>math.SafeMul\<close> (the result
  and whether it overflowed), of \<open>BitLen\<close> (the number of bits to represent the value), and the
  order of magnitude of the constants.
\<close>

definition lib_ok :: "glib \<Rightarrow> bool" where
  "lib_ok L \<longleftrightarrow>
     (\<forall>x y. SafeAdd L x y = (u64 (x + y), \<not> in_u64 (x + y))) \<and>
     (\<forall>x y. SafeMul L x y = (u64 (x * y), \<not> in_u64 (x * y))) \<and>
     (\<forall>x. 0 \<le> u256_BitLen L x \<and> u256_BitLen L x \<le> 256)"

text \<open>Conversions of \<open>uint256.Int\<close>.\<close>

definition uint64_of :: "uint256 \<Rightarrow> int" where
  "uint64_of x = u64 (uint x)"

definition Uint64WithOverflow :: "uint256 \<Rightarrow> int \<times> bool" where
  "Uint64WithOverflow x = (uint64_of x, \<not> in_u64 (uint x))"

definition IsUint64 :: "uint256 \<Rightarrow> bool" where
  "IsUint64 x \<longleftrightarrow> in_u64 (uint x)"

definition Bytes20 :: "uint256 \<Rightarrow> address" where
  "Bytes20 x = ucast x"

definition SetBytes :: "bytes \<Rightarrow> uint256" where
  "SetBytes bs = foldl (\<lambda>a b. a * 256 + ucast b) 0 bs"

definition Bytes32 :: "uint256 \<Rightarrow> bytes" where
  "Bytes32 x = map (\<lambda>i. ucast (drop_bit (8 * (31 - i)) x)) [0..<32]"

lemma Uint64WithOverflow_fits: "Uint64WithOverflow x = (n, False) \<Longrightarrow> n = uint x \<and> 0 \<le> n \<and> n < 2 ^ 64"
  by (auto simp: Uint64WithOverflow_def uint64_of_def in_u64_def u64_id)

lemma uint64_of_range [simp]: "0 \<le> uint64_of x" "uint64_of x < 2 ^ 64"
  by (simp_all add: uint64_of_def u64_def)

lemma uint64_of_u64: "IsUint64 x \<Longrightarrow> uint64_of x = uint x"
  by (simp add: IsUint64_def uint64_of_def u64_fix)

lemma Bytes32_length [simp]: "length (Bytes32 x) = 32"
  by (simp add: Bytes32_def)

section \<open>Stack\<close>

type_synonym stack = "uint256 list"

definition Push :: "uint256 \<Rightarrow> stack \<Rightarrow> stack" where
  "Push d st = d # st"

fun Pop :: "stack \<Rightarrow> evm_stop + uint256 \<times> stack" where
  "Pop [] = Inl StackPanic"
| "Pop (x # st) = Inr (x, st)"

definition Back :: "nat \<Rightarrow> stack \<Rightarrow> evm_stop + uint256" where
  "Back n st = (if n < length st then Inr (st ! n) else Inl StackPanic)"

definition Peek :: "stack \<Rightarrow> evm_stop + uint256" where
  "Peek st = Back 0 st"

definition SetTop :: "uint256 \<Rightarrow> stack \<Rightarrow> evm_stop + stack" where
  "SetTop v st = (case st of [] \<Rightarrow> Inl StackPanic | _ # rest \<Rightarrow> Inr (v # rest))"

definition Dup :: "nat \<Rightarrow> stack \<Rightarrow> evm_stop + stack" where
  "Dup n st = (if 0 < n \<and> n \<le> length st then Inr (Push (st ! (n - 1)) st) else Inl StackPanic)"

definition Swap :: "nat \<Rightarrow> stack \<Rightarrow> evm_stop + stack" where
  "Swap n st = (if 0 < n \<and> n \<le> length st then Inr (st[n - 1 := st ! 0, 0 := st ! (n - 1)]) else Inl StackPanic)"

section \<open>Memory\<close>

record Memory =
  mem_store :: bytes
  mem_lastGasCost :: int

definition NewMemory :: Memory where
  "NewMemory = \<lparr>mem_store = [], mem_lastGasCost = 0\<rparr>"

text \<open>Go's \<open>copy\<close> into a slice of the memory.\<close>

definition copy_into :: "nat \<Rightarrow> nat \<Rightarrow> bytes \<Rightarrow> bytes \<Rightarrow> bytes" where
  "copy_into offset sz value store =
     (let v = take sz value in take offset store @ v @ drop (offset + length v) store)"

definition mem_Set :: "int \<Rightarrow> int \<Rightarrow> bytes \<Rightarrow> Memory \<Rightarrow> evm_stop + Memory" where
  "mem_Set offset sz value m =
     (if sz > 0 then
        if u64 (offset + sz) > int (length (mem_store m)) \<or> u64 (offset + sz) < offset then Inl MemoryPanic
        else Inr (m\<lparr>mem_store := copy_into (nat offset) (nat sz) value (mem_store m)\<rparr>)
      else Inr m)"

definition mem_Set32 :: "int \<Rightarrow> uint256 \<Rightarrow> Memory \<Rightarrow> evm_stop + Memory" where
  "mem_Set32 offset val m =
     (if u64 (offset + 32) > int (length (mem_store m)) \<or> offset > int (length (mem_store m)) then Inl MemoryPanic
      else Inr (m\<lparr>mem_store := copy_into (nat offset) (length (mem_store m) - nat offset) (Bytes32 val) (mem_store m)\<rparr>))"

definition mem_Resize :: "int \<Rightarrow> Memory \<Rightarrow> Memory" where
  "mem_Resize sz m =
     (if int (length (mem_store m)) < sz
      then m\<lparr>mem_store := mem_store m @ replicate (nat (sz - int (length (mem_store m)))) 0\<rparr> else m)"

text \<open>
  \<open>m.store[offset:offset+size]\<close>. Go allows a slice to reach beyond the length up to the capacity; the
  model stops there, and the interpreter never gets there.
\<close>

definition mem_GetPtr :: "int \<Rightarrow> int \<Rightarrow> Memory \<Rightarrow> evm_stop + bytes" where
  "mem_GetPtr offset sz m =
     (if sz = 0 then Inr []
      else if int (length (mem_store m)) > offset then
        if 0 \<le> offset \<and> 0 \<le> sz \<and> offset + sz \<le> int (length (mem_store m))
        then Inr (take (nat sz) (drop (nat offset) (mem_store m))) else Inl MemoryPanic
      else Inr [])"

definition mem_GetCopy :: "int \<Rightarrow> int \<Rightarrow> Memory \<Rightarrow> evm_stop + bytes" where
  "mem_GetCopy offset sz m =
     (if sz = 0 then Inr []
      else if int (length (mem_store m)) > offset then
        if 0 \<le> offset \<and> 0 \<le> sz \<and> offset + sz \<le> int (length (mem_store m))
        then Inr (take (nat sz) (drop (nat offset) (mem_store m))) else Inl MemoryPanic
      else Inr [])"

lemma copy_into_length:
  assumes "offset + min sz (length value) \<le> length store"
  shows "length (copy_into offset sz value store) = length store"
proof -
  have "length (copy_into offset sz value store) = min (length store) offset + (min (length value) sz +
      (length store - (offset + min (length value) sz)))"
    by (simp add: copy_into_def Let_def)
  with assms show ?thesis by linarith
qed

section \<open>Sizes\<close>

definition calcMemSize64WithUint :: "uint256 \<Rightarrow> int \<Rightarrow> int \<times> bool" where
  "calcMemSize64WithUint off length64 =
     (if length64 = 0 then (0, False)
      else let (offset64, overflow) = Uint64WithOverflow off
        in if overflow then (0, True)
           else let val = u64 (offset64 + length64) in (val, val < offset64))"

definition calcMemSize64 :: "uint256 \<Rightarrow> uint256 \<Rightarrow> int \<times> bool" where
  "calcMemSize64 off l =
     (if \<not> IsUint64 l then (0, True) else calcMemSize64WithUint off (uint64_of l))"

definition getData :: "glib \<Rightarrow> bytes \<Rightarrow> int \<Rightarrow> int \<Rightarrow> evm_stop + bytes" where
  "getData L data start0 sz =
     (let len = int (length data);
          start = (if start0 > len then len else start0);
          end0 = u64 (start + sz);
          end1 = (if end0 > len then len else end0)
      in if start \<le> end1
         then Inr (RightPadBytes L (take (nat (end1 - start)) (drop (nat start) data)) (i64 sz))
         else Inl (Panicked (GoPanic ''slice bounds out of range'')))"

definition toWordSize :: "int \<Rightarrow> int" where
  "toWordSize sz =
     (if sz > 2 ^ 64 - 1 - 31 then (2 ^ 64 - 1) div 32 + 1 else u64 (sz + 31) div 32)"

fun allZero :: "bytes \<Rightarrow> bool" where
  "allZero [] = True"
| "allZero (b # bs) = (if b \<noteq> 0 then False else allZero bs)"


section \<open>Gas\<close>

definition GasQuickStep :: int where "GasQuickStep = 2"
definition GasFastestStep :: int where "GasFastestStep = 3"
definition GasFastStep :: int where "GasFastStep = 5"
definition GasMidStep :: int where "GasMidStep = 8"
definition GasSlowStep :: int where "GasSlowStep = 10"
definition GasExtStep :: int where "GasExtStep = 20"

lemmas gas_steps = GasQuickStep_def GasFastestStep_def GasFastStep_def GasMidStep_def GasSlowStep_def GasExtStep_def

definition callGas :: "bool \<Rightarrow> int \<Rightarrow> int \<Rightarrow> uint256 \<Rightarrow> evm_error + int" where
  "callGas isEip150 availableGas base callCost =
     (let available = u64 (availableGas - base);
          gas = u64 (available - available div 64)
      in if isEip150 \<and> (\<not> IsUint64 callCost \<or> gas < uint64_of callCost) then Inr gas
         else if \<not> IsUint64 callCost then Inl ErrGasUintOverflow
         else Inr (uint64_of callCost))"

section \<open>Contracts\<close>

text \<open>
  Who calls: an account, or a contract. Of the calling contract a new one takes over the map of
  analyses, and a delegate call the caller and the value as well.
\<close>

datatype ContractRef =
  AccountRef address
| ContractPtr (ref_Address: address) (ref_CallerAddress: address) (ref_value: "int option")
    (ref_jumpdests: "nat option")

fun Address :: "ContractRef \<Rightarrow> address" where
  "Address (AccountRef a) = a"
| "Address (ContractPtr a _ _ _) = a"

record Contract =
  ct_CallerAddress :: address
  ct_caller :: ContractRef
  ct_self :: address
  ct_jumpdests :: "nat option"
  ct_analysis :: "bitvec option"
  ct_Code :: bytes
  ct_CodeHash :: hash
  ct_CodeAddr :: "address option"
  ct_Input :: bytes
  ct_Gas :: int
  ct_value :: "int option"
  ct_isPrecompile :: bool

type_synonym jumpdest_maps = "(hash \<rightharpoonup> bitvec) list"

definition contract_ref :: "Contract \<Rightarrow> ContractRef" where
  "contract_ref c = ContractPtr (ct_self c) (ct_CallerAddress c) (ct_value c) (ct_jumpdests c)"

definition NewContract ::
  "ContractRef \<Rightarrow> address \<Rightarrow> int option \<Rightarrow> int \<Rightarrow> jumpdest_maps \<Rightarrow> Contract \<times> jumpdest_maps" where
  "NewContract caller object val gas maps =
     (let c = \<lparr>ct_CallerAddress = Address caller, ct_caller = caller, ct_self = object, ct_jumpdests = None,
                ct_analysis = None, ct_Code = [], ct_CodeHash = 0, ct_CodeAddr = None, ct_Input = [],
                ct_Gas = gas, ct_value = val, ct_isPrecompile = False\<rparr>
      in case caller of
           ContractPtr _ _ _ parent_jumpdests \<Rightarrow> (c\<lparr>ct_jumpdests := parent_jumpdests\<rparr>, maps)
         | AccountRef _ \<Rightarrow> (c\<lparr>ct_jumpdests := Some (length maps)\<rparr>, maps @ [Map.empty]))"

definition NewPrecompile :: "ContractRef \<Rightarrow> address \<Rightarrow> int option \<Rightarrow> int \<Rightarrow> Contract" where
  "NewPrecompile caller object val gas =
     \<lparr>ct_CallerAddress = Address caller, ct_caller = caller, ct_self = object, ct_jumpdests = None,
      ct_analysis = None, ct_Code = [], ct_CodeHash = 0, ct_CodeAddr = None, ct_Input = [],
      ct_Gas = gas, ct_value = val, ct_isPrecompile = True\<rparr>"

definition IsPrecompile :: "Contract \<Rightarrow> bool" where
  "IsPrecompile c = ct_isPrecompile c"

text \<open>A write to a nil map panics, and so does a read or a write through a reference that is not there.\<close>

definition jumpdests_get :: "jumpdest_maps \<Rightarrow> nat option \<Rightarrow> hash \<Rightarrow> bitvec option" where
  "jumpdests_get maps ref h =
     (case ref of None \<Rightarrow> None | Some r \<Rightarrow> if r < length maps then (maps ! r) h else None)"

definition jumpdests_put :: "nat option \<Rightarrow> hash \<Rightarrow> bitvec \<Rightarrow> jumpdest_maps \<Rightarrow> go_panic + jumpdest_maps" where
  "jumpdests_put ref h bits maps =
     (case ref of
        Some r \<Rightarrow> if r < length maps then Inr (maps[r := (maps ! r)(h \<mapsto> bits)])
          else Inl (GoPanic ''assignment to entry in nil map'')
      | None \<Rightarrow> Inl (GoPanic ''assignment to entry in nil map''))"

definition isCode :: "Contract \<Rightarrow> int \<Rightarrow> jumpdest_maps \<Rightarrow> go_panic + bool \<times> Contract \<times> jumpdest_maps" where
  "isCode c udest maps =
     (if ct_isPrecompile c then Inr (False, c, maps)
      else case ct_analysis c of
        Some bits \<Rightarrow> rbind (codeSegment bits (nat udest)) (\<lambda>b. Inr (b, c, maps))
      | None \<Rightarrow>
          if ct_CodeHash c \<noteq> 0 then
            rbind (case jumpdests_get maps (ct_jumpdests c) (ct_CodeHash c) of
                Some bits \<Rightarrow> Inr (bits, maps)
              | None \<Rightarrow> rbind (codeBitmap (ct_Code c)) (\<lambda>bits.
                  rbind (jumpdests_put (ct_jumpdests c) (ct_CodeHash c) bits maps) (\<lambda>maps1. Inr (bits, maps1))))
              (\<lambda>(bits, maps1). rbind (codeSegment bits (nat udest))
                (\<lambda>b. Inr (b, c\<lparr>ct_analysis := Some bits\<rparr>, maps1)))
          else
            rbind (codeBitmap (ct_Code c)) (\<lambda>bits. rbind (codeSegment bits (nat udest))
              (\<lambda>b. Inr (b, c\<lparr>ct_analysis := Some bits\<rparr>, maps))))"

definition validJumpdest :: "Contract \<Rightarrow> uint256 \<Rightarrow> jumpdest_maps \<Rightarrow> go_panic + bool \<times> Contract \<times> jumpdest_maps" where
  "validJumpdest c dest maps =
     (if ct_isPrecompile c then Inr (False, c, maps)
      else let (udest, overflow) = Uint64WithOverflow dest
        in if overflow \<or> udest \<ge> int (length (ct_Code c)) then Inr (False, c, maps)
           else if ct_Code c ! nat udest \<noteq> JUMPDEST then Inr (False, c, maps)
           else isCode c udest maps)"

text \<open>The parent of a delegate call is a contract; a type assertion that fails panics.\<close>

definition AsDelegate :: "Contract \<Rightarrow> go_panic + Contract" where
  "AsDelegate c =
     (if ct_isPrecompile c then Inr c
      else case ct_caller c of
        ContractPtr _ parent_CallerAddress parent_value _ \<Rightarrow>
          Inr (c\<lparr>ct_CallerAddress := parent_CallerAddress, ct_value := parent_value\<rparr>)
      | AccountRef _ \<Rightarrow> Inl (GoPanic ''interface conversion''))"

definition STOP :: byte where "STOP = 0x0"

definition GetOp :: "Contract \<Rightarrow> int \<Rightarrow> byte" where
  "GetOp c n = (if n < int (length (ct_Code c)) then ct_Code c ! nat n else STOP)"

definition Caller :: "Contract \<Rightarrow> address" where
  "Caller c = ct_CallerAddress c"

definition UseGas :: "Contract \<Rightarrow> int \<Rightarrow> bool \<times> Contract" where
  "UseGas c gas = (if ct_Gas c < gas then (False, c) else (True, c\<lparr>ct_Gas := ct_Gas c - gas\<rparr>))"

definition ct_Address :: "Contract \<Rightarrow> address" where
  "ct_Address c = ct_self c"

definition SetCallCode :: "address option \<Rightarrow> hash \<Rightarrow> bytes \<Rightarrow> Contract \<Rightarrow> Contract" where
  "SetCallCode addr h code c =
     (if ct_isPrecompile c then c else c\<lparr>ct_Code := code, ct_CodeHash := h, ct_CodeAddr := addr\<rparr>)"

record codeAndHash =
  cah_code :: bytes
  cah_hash :: hash

definition SetCodeOptionalHash :: "address option \<Rightarrow> codeAndHash \<Rightarrow> Contract \<Rightarrow> Contract" where
  "SetCodeOptionalHash addr ch c =
     (if ct_isPrecompile c then c
      else c\<lparr>ct_Code := cah_code ch, ct_CodeHash := cah_hash ch, ct_CodeAddr := addr\<rparr>)"

end
