(* ===== verification/JumpTargets.thy ===== *)
theory JumpTargets
  imports EvmBase
begin

text \<open>
  What a contract may jump to, whoever computed the analysis of its code: \<open>codeBitmap\<close> agrees with
  the plain reading of the program, and the caches of contract.go (the local one and the map shared by
  a call tree) never change the answer of \<open>validJumpdest\<close>, as long as a code hash stands for one code.
\<close>

lemma push_len_examples: "push_len 0x60 = Suc 0" "push_len 0x61 = Suc (Suc 0)" "push_len 0x5b = 0"
  by (simp_all add: push_len_def)

text \<open>
  C26: The packed bit vector of codeBitmap is the plain reading of the program: for every code,
  codeBitmap returns without an index out of range, and codeSegment tells for each position whether
  the byte there is an instruction, that is, not part of the argument of a PUSH.
\<close>

theorem codeBitmap_is_plain_reading:
  "\<exists>bits. codeBitmap code = Inr bits \<and>
     (\<forall>q. q < length code \<longrightarrow> codeSegment bits q = Inr (\<not> data_flags 0 code ! q))"
  using codeBitmap_codeSegment by blast

theorem codeBitmap_is_plain_reading_witness:
  "\<exists>bits. codeBitmap [0x61, 0x5b, 0x5b, 0x5b] = Inr bits \<and> codeSegment bits 3 = Inr True \<and>
     codeSegment bits 2 = Inr False"
proof -
  obtain bits where b: "codeBitmap [0x61, 0x5b, 0x5b, 0x5b] = Inr bits"
    and s: "\<And>q. q < length [0x61, 0x5b, 0x5b, 0x5b :: byte] \<Longrightarrow>
      codeSegment bits q = Inr (\<not> data_flags 0 [0x61, 0x5b, 0x5b, 0x5b] ! q)"
    using codeBitmap_is_plain_reading [of "[0x61, 0x5b, 0x5b, 0x5b]"] by blast
  from s [of 3] s [of 2] have "codeSegment bits 3 = Inr True" "codeSegment bits 2 = Inr False"
    by (simp_all add: push_len_examples)
  with b show ?thesis by blast
qed

section \<open>The caches\<close>

definition analyses_ok :: "(hash \<Rightarrow> bytes) \<Rightarrow> jumpdest_maps \<Rightarrow> bool" where
  "analyses_ok codeOf maps \<longleftrightarrow>
     (\<forall>m \<in> set maps. \<forall>h bits. m h = Some bits \<longrightarrow> codeBitmap (codeOf h) = Inr bits)"

definition contract_ok :: "(hash \<Rightarrow> bytes) \<Rightarrow> jumpdest_maps \<Rightarrow> Contract \<Rightarrow> bool" where
  "contract_ok codeOf maps c \<longleftrightarrow> ct_isPrecompile c \<or>
     (\<exists>r. ct_jumpdests c = Some r \<and> r < length maps) \<and>
     (ct_CodeHash c \<noteq> 0 \<longrightarrow> ct_Code c = codeOf (ct_CodeHash c)) \<and>
     (\<forall>bits. ct_analysis c = Some bits \<longrightarrow> codeBitmap (ct_Code c) = Inr bits)"

definition jump_target :: "bytes \<Rightarrow> uint256 \<Rightarrow> bool" where
  "jump_target code dest \<longleftrightarrow> uint dest < int (length code) \<and> code ! unat dest = JUMPDEST \<and>
     \<not> data_flags 0 code ! unat dest"

lemma codeSegment_code:
  "codeBitmap code = Inr bits \<Longrightarrow> q < length code \<Longrightarrow> codeSegment bits q = Inr (\<not> data_flags 0 code ! q)"
  using codeBitmap_codeSegment [of code] by auto

lemma isCode_correct:
  assumes "analyses_ok codeOf maps" and "contract_ok codeOf maps c" and "\<not> ct_isPrecompile c"
    and "q < length (ct_Code c)"
  shows "\<exists>c' maps'. isCode c (int q) maps = Inr (\<not> data_flags 0 (ct_Code c) ! q, c', maps') \<and>
    analyses_ok codeOf maps' \<and> contract_ok codeOf maps' c' \<and> length maps' = length maps \<and>
    c'\<lparr>ct_analysis := ct_analysis c\<rparr> = c"
proof -
  obtain bits0 where b0: "codeBitmap (ct_Code c) = Inr bits0" using codeBitmap_codeSegment by blast
  note seg = codeSegment_code [OF b0 assms(4)]
  obtain r where r: "ct_jumpdests c = Some r" "r < length maps" using assms(2,3) by (auto simp: contract_ok_def)
  show ?thesis
  proof (cases "ct_analysis c")
    case (Some bits)
    with assms(2,3) b0 have "bits = bits0" by (auto simp: contract_ok_def)
    with Some assms seg show ?thesis by (simp add: isCode_def)
  next
    case None
    let ?c = "c\<lparr>ct_analysis := Some bits0\<rparr>"
    have c': "contract_ok codeOf maps' ?c" if "length maps' = length maps" for maps'
      using assms(2,3) b0 that by (auto simp: contract_ok_def)
    have upd: "?c\<lparr>ct_analysis := ct_analysis c\<rparr> = c" using None by simp
    show ?thesis
    proof (cases "ct_CodeHash c = 0")
      case True
      with None assms(1,3) b0 seg c' upd show ?thesis by (simp add: isCode_def)
    next
      case False
      then have code: "codeOf (ct_CodeHash c) = ct_Code c" using assms(2,3) by (simp add: contract_ok_def)
      show ?thesis
      proof (cases "(maps ! r) (ct_CodeHash c)")
        case None': None
        let ?maps = "maps[r := (maps ! r)(ct_CodeHash c \<mapsto> bits0)]"
        have "analyses_ok codeOf ?maps"
          using assms(1) r(2) code b0 by (auto simp: analyses_ok_def set_conv_nth nth_list_update split: if_splits)
        with None None' False r assms(3) b0 seg c' upd show ?thesis
          by (simp add: isCode_def jumpdests_get_def jumpdests_put_def)
      next
        case (Some bits)
        then have "codeBitmap (codeOf (ct_CodeHash c)) = Inr bits"
          using assms(1) r(2) unfolding analyses_ok_def by (meson nth_mem)
        then have "bits = bits0" using code b0 by simp
        with None Some False r assms(1,3) b0 seg c' upd show ?thesis
          by (simp add: isCode_def jumpdests_get_def)
      qed
    qed
  qed
qed

lemma validJumpdest_correct:
  assumes "analyses_ok codeOf maps" and "contract_ok codeOf maps c" and "int (length (ct_Code c)) < 2 ^ 63"
  shows "\<exists>c' maps'. validJumpdest c dest maps = Inr (\<not> ct_isPrecompile c \<and> jump_target (ct_Code c) dest, c', maps') \<and>
    analyses_ok codeOf maps' \<and> contract_ok codeOf maps' c' \<and> length maps' = length maps \<and>
    c'\<lparr>ct_analysis := ct_analysis c\<rparr> = c"
proof (cases "\<not> ct_isPrecompile c \<and> uint dest < int (length (ct_Code c)) \<and> ct_Code c ! unat dest = JUMPDEST")
  case True
  then have lt: "uint dest < int (length (ct_Code c))" by blast
  then have q: "unat dest < length (ct_Code c)" unfolding uint_nat by linarith
  have "in_u64 (uint dest)" using lt assms(3) uint_ge_0 [of dest] in_u64_def by auto
  then have "Uint64WithOverflow dest = (int (unat dest), False)"
    by (simp add: Uint64WithOverflow_def uint64_of_def u64_fix)
  with True isCode_correct [OF assms(1,2) _ q] show ?thesis
    by (simp add: validJumpdest_def jump_target_def)
next
  case False
  have "validJumpdest c dest maps = Inr (False, c, maps)"
  proof (cases "in_u64 (uint dest)")
    case True
    then have "Uint64WithOverflow dest = (uint dest, False)"
      by (simp add: Uint64WithOverflow_def uint64_of_def u64_fix)
    with False show ?thesis by (auto simp: validJumpdest_def)
  qed (simp add: validJumpdest_def Uint64WithOverflow_def)
  with False assms(1,2) show ?thesis by (auto simp: jump_target_def)
qed

text \<open>
  C25: A contract jumps only to a JUMPDEST instruction that is no argument of a PUSH, whatever was
  cached before: validJumpdest answers exactly that, does not panic, leaves the contract as it was but
  for the cached analysis, and keeps the caches right for every other contract of the call tree.
\<close>

theorem jumps_only_to_instructions:
  assumes "analyses_ok codeOf maps" and "contract_ok codeOf maps c" and "int (length (ct_Code c)) < 2 ^ 63"
  shows "\<exists>c' maps'. validJumpdest c dest maps = Inr (\<not> ct_isPrecompile c \<and> jump_target (ct_Code c) dest, c', maps') \<and>
    analyses_ok codeOf maps' \<and> contract_ok codeOf maps' c' \<and> c'\<lparr>ct_analysis := ct_analysis c\<rparr> = c"
  using validJumpdest_correct [OF assms] by blast

text \<open>A contract whose code pushes a JUMPDEST byte, with an analysis in the shared map.\<close>

definition example_contract :: Contract where
  "example_contract = fst (NewContract (AccountRef 1) 2 (Some 0) 1000 [])
     \<lparr>ct_Code := [0x60, 0x5b, 0x5b], ct_CodeHash := 7\<rparr>"

theorem jumps_only_to_instructions_witness:
  "(\<exists>c' maps'. validJumpdest example_contract 2 [Map.empty] = Inr (True, c', maps')) \<and>
   (\<exists>c' maps'. validJumpdest example_contract 1 [Map.empty] = Inr (False, c', maps'))"
proof -
  have maps: "analyses_ok (\<lambda>_. [0x60, 0x5b, 0x5b]) [Map.empty]" by (simp add: analyses_ok_def)
  have c: "contract_ok (\<lambda>_. [0x60, 0x5b, 0x5b]) [Map.empty] example_contract"
    by (simp add: contract_ok_def example_contract_def NewContract_def)
  have len: "int (length (ct_Code example_contract)) < 2 ^ 63" by (simp add: example_contract_def NewContract_def)
  have "\<not> ct_isPrecompile example_contract" "jump_target (ct_Code example_contract) 2"
    "\<not> jump_target (ct_Code example_contract) 1"
    by (simp_all add: example_contract_def NewContract_def jump_target_def JUMPDEST_def push_len_examples)
  with jumps_only_to_instructions [OF maps c len, of 2] jumps_only_to_instructions [OF maps c len, of 1]
  show ?thesis by auto
qed

end
