(* ===== verification/EvmState.thy ===== *)
theory EvmState
  imports JumpTargets
begin

text \<open>
  The machine a step works on, and the little language its operations are written in.

  \<^item> \<open>'k evm\<close> is what changes of the objects EVM and EVMInterpreter, \<open>'k evm_env\<close> what does not: the
    block and transaction context, the rules, the hooks and the precompiles. \<open>'k frame\<close> is the state
    of one run of the interpreter: the program counter, the machine, and the scope context.
  \<^item> An operation is a function from a state to a result and a state. It either gives a value, or an
    error (\<open>failM\<close>, Go's early return; the changes made so far stay), or it stops with a panic and
    leaves no state.
\<close>

section \<open>State\<close>

record 'k evm =
  ev_StateDB :: "'k StateDB"
  ev_depth :: int
  ev_callGasTemp :: int
  ev_abort :: bool
  ev_readOnly :: bool
  ev_returnData :: bytes
  ev_jumpdests :: jumpdest_maps

record rules =
  IsHomestead :: bool
  IsEIP150 :: bool
  IsEIP158 :: bool
  IsByzantium :: bool
  IsConstantinople :: bool
  IsPetersburg :: bool
  IsIstanbul :: bool
  IsBerlin :: bool
  IsLondon :: bool
  IsMerge :: bool

record 'k precompile =
  pc_Address :: address
  pc_RequiredGas :: "bytes \<Rightarrow> int"
  pc_Run :: "Contract \<Rightarrow> bool \<Rightarrow> 'k evm \<Rightarrow> go_panic + (bytes \<times> evm_error option) \<times> Contract \<times> 'k evm"

record 'k evm_env =
  e_keeper :: "'k keeper"
  e_params :: "param \<Rightarrow> int"
  e_lib :: glib
  e_rules :: rules
  e_ChainID :: "int option"
  e_CanTransfer :: "address \<Rightarrow> int \<Rightarrow> 'k StateDB \<Rightarrow> bool \<times> 'k StateDB"
  e_Transfer :: "address \<Rightarrow> address \<Rightarrow> int \<Rightarrow> 'k StateDB \<Rightarrow> go_panic + 'k StateDB"
  e_GetHash :: "int \<Rightarrow> hash"
  e_Coinbase :: address
  e_GasLimit :: int
  e_BlockNumber :: int
  e_Time :: int
  e_Difficulty :: int
  e_BaseFee :: "int option"
  e_Random :: "hash option"
  e_Origin :: address
  e_GasPrice :: int
  e_CallHook :: "address \<Rightarrow> address \<Rightarrow> 'k evm \<Rightarrow> go_panic + string option \<times> 'k evm"
  e_CreateHook :: "address \<Rightarrow> 'k evm \<Rightarrow> string option \<times> 'k evm"
  e_precompiles :: "address \<Rightarrow> 'k precompile option"

record 'k frame =
  fr_pc :: int
  fr_evm :: "'k evm"
  fr_Memory :: Memory
  fr_Stack :: stack
  fr_Contract :: Contract

section \<open>Operations\<close>

type_synonym ('s, 'e, 'a) oper = "'s \<Rightarrow> evm_stop + ('e + 'a) \<times> 's"

definition retM :: "'a \<Rightarrow> ('s, 'e, 'a) oper" where
  "retM x = (\<lambda>s. Inr (Inr x, s))"

definition failM :: "'e \<Rightarrow> ('s, 'e, 'a) oper" where
  "failM e = (\<lambda>s. Inr (Inl e, s))"

definition liftM :: "evm_stop + 'a \<Rightarrow> ('s, 'e, 'a) oper" where
  "liftM r = (\<lambda>s. case r of Inl p \<Rightarrow> Inl p | Inr x \<Rightarrow> Inr (Inr x, s))"

definition bindM :: "('s, 'e, 'a) oper \<Rightarrow> ('a \<Rightarrow> ('s, 'e, 'b) oper) \<Rightarrow> ('s, 'e, 'b) oper" where
  "bindM m f = (\<lambda>s. case m s of
      Inl p \<Rightarrow> Inl p
    | Inr (Inl e, s1) \<Rightarrow> Inr (Inl e, s1)
    | Inr (Inr x, s1) \<Rightarrow> f x s1)"

definition getM :: "('s \<Rightarrow> 'a) \<Rightarrow> ('s, 'e, 'a) oper" where
  "getM f = (\<lambda>s. Inr (Inr (f s), s))"

definition modM :: "('s \<Rightarrow> 's) \<Rightarrow> ('s, 'e, unit) oper" where
  "modM f = (\<lambda>s. Inr (Inr (), f s))"

text \<open>Parts of the state: the state database, the stack, the memory, the contract.\<close>

definition on_db :: "('k StateDB \<Rightarrow> 'a \<times> 'k StateDB) \<Rightarrow> ('k frame, 'e, 'a) oper" where
  "on_db f = (\<lambda>s. let (x, db) = f (ev_StateDB (fr_evm s))
     in Inr (Inr x, s\<lparr>fr_evm := (fr_evm s)\<lparr>ev_StateDB := db\<rparr>\<rparr>))"

definition on_db_go :: "('k StateDB \<Rightarrow> go_panic + 'k StateDB) \<Rightarrow> ('k frame, 'e, unit) oper" where
  "on_db_go f = (\<lambda>s. case f (ev_StateDB (fr_evm s)) of
      Inl p \<Rightarrow> Inl (Panicked p)
    | Inr db \<Rightarrow> Inr (Inr (), s\<lparr>fr_evm := (fr_evm s)\<lparr>ev_StateDB := db\<rparr>\<rparr>))"

definition on_stack :: "(stack \<Rightarrow> evm_stop + 'a \<times> stack) \<Rightarrow> ('k frame, 'e, 'a) oper" where
  "on_stack f = (\<lambda>s. case f (fr_Stack s) of
      Inl p \<Rightarrow> Inl p
    | Inr (x, st) \<Rightarrow> Inr (Inr x, s\<lparr>fr_Stack := st\<rparr>))"

definition on_memory :: "(Memory \<Rightarrow> evm_stop + Memory) \<Rightarrow> ('k frame, 'e, unit) oper" where
  "on_memory f = (\<lambda>s. case f (fr_Memory s) of
      Inl p \<Rightarrow> Inl p
    | Inr m \<Rightarrow> Inr (Inr (), s\<lparr>fr_Memory := m\<rparr>))"

definition on_contract :: "(Contract \<Rightarrow> 'a \<times> Contract) \<Rightarrow> ('k frame, 'e, 'a) oper" where
  "on_contract f = (\<lambda>s. let (x, c) = f (fr_Contract s) in Inr (Inr x, s\<lparr>fr_Contract := c\<rparr>))"

definition popM :: "('k frame, 'e, uint256) oper" where
  "popM = on_stack Pop"

definition peekM :: "('k frame, 'e, uint256) oper" where
  "peekM = on_stack (\<lambda>st. rbind (Peek st) (\<lambda>x. Inr (x, st)))"

definition backM :: "nat \<Rightarrow> ('k frame, 'e, uint256) oper" where
  "backM n = on_stack (\<lambda>st. rbind (Back n st) (\<lambda>x. Inr (x, st)))"

definition pushM :: "uint256 \<Rightarrow> ('k frame, 'e, unit) oper" where
  "pushM v = on_stack (\<lambda>st. Inr ((), Push v st))"

text \<open>What is written through the pointer that \<open>Peek\<close> returned.\<close>

definition set_topM :: "uint256 \<Rightarrow> ('k frame, 'e, unit) oper" where
  "set_topM v = on_stack (\<lambda>st. rbind (SetTop v st) (\<lambda>st1. Inr ((), st1)))"

definition selfM :: "('k frame, 'e, address) oper" where
  "selfM = getM (\<lambda>s. ct_Address (fr_Contract s))"

end
