(* ===== verification/EvmGas.thy ===== *)
theory EvmGas
  imports EvmState
begin

text \<open>
  What an instruction costs beyond its constant (x/evm/core/vm: memory_table.go, gas_table.go,
  operations_acl.go). A \<open>memorySizeFunc\<close> reads the stack; a \<open>gasFunc\<close> may also change the refund
  counter and the access list, the gas that is held ready for a call, and the fee that was paid for
  the memory. Of these changes those of the state database are reverted with the call when the gas is
  not enough.
\<close>

section \<open>The size of the memory an instruction needs\<close>

type_synonym memorySizeFunc = "stack \<Rightarrow> evm_stop + int \<times> bool"

definition mem_size_at :: "nat \<Rightarrow> nat \<Rightarrow> memorySizeFunc" where
  "mem_size_at i j st = rbind (Back i st) (\<lambda>off. rbind (Back j st) (\<lambda>l. Inr (calcMemSize64 off l)))"

definition memoryKeccak256 :: memorySizeFunc where "memoryKeccak256 st = mem_size_at 0 1 st"
definition memoryCallDataCopy :: memorySizeFunc where "memoryCallDataCopy st = mem_size_at 0 2 st"
definition memoryReturnDataCopy :: memorySizeFunc where "memoryReturnDataCopy st = mem_size_at 0 2 st"
definition memoryCodeCopy :: memorySizeFunc where "memoryCodeCopy st = mem_size_at 0 2 st"
definition memoryExtCodeCopy :: memorySizeFunc where "memoryExtCodeCopy st = mem_size_at 1 3 st"

definition memoryMLoad :: memorySizeFunc where
  "memoryMLoad st = rbind (Back 0 st) (\<lambda>off. Inr (calcMemSize64WithUint off 32))"

definition memoryMStore8 :: memorySizeFunc where
  "memoryMStore8 st = rbind (Back 0 st) (\<lambda>off. Inr (calcMemSize64WithUint off 1))"

definition memoryMStore :: memorySizeFunc where
  "memoryMStore st = rbind (Back 0 st) (\<lambda>off. Inr (calcMemSize64WithUint off 32))"

definition memoryCreate :: memorySizeFunc where "memoryCreate st = mem_size_at 1 2 st"
definition memoryCreate2 :: memorySizeFunc where "memoryCreate2 st = mem_size_at 1 2 st"

definition larger_of :: "evm_stop + int \<times> bool \<Rightarrow> evm_stop + int \<times> bool \<Rightarrow> evm_stop + int \<times> bool" where
  "larger_of first second =
     rbind first (\<lambda>(x, overflow). if overflow then Inr (0, True)
       else rbind second (\<lambda>(y, overflow). if overflow then Inr (0, True)
         else if x > y then Inr (x, False) else Inr (y, False)))"

definition memoryCall :: memorySizeFunc where
  "memoryCall st = larger_of (mem_size_at 5 6 st) (mem_size_at 3 4 st)"

definition memoryDelegateCall :: memorySizeFunc where
  "memoryDelegateCall st = larger_of (mem_size_at 4 5 st) (mem_size_at 2 3 st)"

definition memoryStaticCall :: memorySizeFunc where
  "memoryStaticCall st = larger_of (mem_size_at 4 5 st) (mem_size_at 2 3 st)"

definition memoryReturn :: memorySizeFunc where "memoryReturn st = mem_size_at 0 1 st"
definition memoryRevert :: memorySizeFunc where "memoryRevert st = mem_size_at 0 1 st"
definition memoryLog :: memorySizeFunc where "memoryLog st = mem_size_at 0 1 st"

section \<open>Memory\<close>

type_synonym 'k gasFunc = "'k evm_env \<Rightarrow> int \<Rightarrow> ('k frame, evm_error, int) oper"

definition memoryGasCost :: "(param \<Rightarrow> int) \<Rightarrow> int \<Rightarrow> Memory \<Rightarrow> (evm_error + int) \<times> Memory" where
  "memoryGasCost G newMemSize0 m =
     (if newMemSize0 = 0 then (Inr 0, m)
      else if newMemSize0 > 0x1FFFFFFFE0 then (Inl ErrGasUintOverflow, m)
      else let newMemSizeWords = toWordSize newMemSize0;
               newMemSize = u64 (newMemSizeWords * 32)
        in if newMemSize > int (length (mem_store m)) then
             let square = u64 (newMemSizeWords * newMemSizeWords);
                 linCoef = u64 (newMemSizeWords * G MemoryGas);
                 quadCoef = square div G QuadCoeffDiv;
                 newTotalFee = u64 (linCoef + quadCoef);
                 fee = u64 (newTotalFee - mem_lastGasCost m)
             in (Inr fee, m\<lparr>mem_lastGasCost := newTotalFee\<rparr>)
           else (Inr 0, m))"

definition memoryGas :: "'k gasFunc" where
  "memoryGas E memorySize = (\<lambda>s. let (r, m) = memoryGasCost (e_params E) memorySize (fr_Memory s)
     in Inr (r, s\<lparr>fr_Memory := m\<rparr>))"

text \<open>\<open>math.SafeAdd\<close> and \<open>math.SafeMul\<close> with the overflow as an error.\<close>

definition safe_add :: "'k evm_env \<Rightarrow> int \<Rightarrow> int \<Rightarrow> ('s, evm_error, int) oper" where
  "safe_add E x y = (case SafeAdd (e_lib E) x y of (r, overflow) \<Rightarrow>
     if overflow then failM ErrGasUintOverflow else retM r)"

definition safe_mul :: "'k evm_env \<Rightarrow> int \<Rightarrow> int \<Rightarrow> ('s, evm_error, int) oper" where
  "safe_mul E x y = (case SafeMul (e_lib E) x y of (r, overflow) \<Rightarrow>
     if overflow then failM ErrGasUintOverflow else retM r)"

definition uint64_at :: "nat \<Rightarrow> ('k frame, evm_error, int) oper" where
  "uint64_at n = bindM (backM n) (\<lambda>x. case Uint64WithOverflow x of (v, overflow) \<Rightarrow>
     if overflow then failM ErrGasUintOverflow else retM v)"

definition memoryCopierGas :: "nat \<Rightarrow> 'k gasFunc" where
  "memoryCopierGas stackpos E memorySize =
     bindM (memoryGas E memorySize) (\<lambda>gas.
     bindM (uint64_at stackpos) (\<lambda>words.
     bindM (safe_mul E (toWordSize words) (e_params E CopyGas)) (\<lambda>words.
     safe_add E gas words)))"

definition gasCallDataCopy :: "'k gasFunc" where "gasCallDataCopy = memoryCopierGas 2"
definition gasCodeCopy :: "'k gasFunc" where "gasCodeCopy = memoryCopierGas 2"
definition gasExtCodeCopy :: "'k gasFunc" where "gasExtCodeCopy = memoryCopierGas 3"
definition gasReturnDataCopy :: "'k gasFunc" where "gasReturnDataCopy = memoryCopierGas 2"

section \<open>Storage\<close>

definition gasSStore :: "'k gasFunc" where
  "gasSStore E memorySize = (let G = e_params E; K = e_keeper E in
     bindM (backM 1) (\<lambda>y. bindM (backM 0) (\<lambda>x. bindM selfM (\<lambda>addr.
     bindM (on_db (GetState K addr x)) (\<lambda>current.
     if IsPetersburg (e_rules E) \<or> \<not> IsConstantinople (e_rules E) then
       if current = 0 \<and> y \<noteq> 0 then retM (G SstoreSetGas)
       else if current \<noteq> 0 \<and> y = 0 then
         bindM (on_db (\<lambda>s. ((), AddRefund (G SstoreRefundGas) s))) (\<lambda>_. retM (G SstoreClearGas))
       else retM (G SstoreResetGas)
     else let val = y in
       if current = val then retM (G NetSstoreNoopGas)
       else bindM (on_db (GetCommittedState K addr x)) (\<lambda>original.
         if original = current then
           if original = 0 then retM (G NetSstoreInitGas)
           else bindM (if val = 0 then on_db (\<lambda>s. ((), AddRefund (G NetSstoreClearRefund) s)) else retM ())
             (\<lambda>_. retM (G NetSstoreCleanGas))
         else
           bindM (if original \<noteq> 0 then
               if current = 0 then on_db_go (SubRefund (G NetSstoreClearRefund))
               else if val = 0 then on_db (\<lambda>s. ((), AddRefund (G NetSstoreClearRefund) s)) else retM ()
             else retM ()) (\<lambda>_.
           bindM (if original = val then
               if original = 0 then on_db (\<lambda>s. ((), AddRefund (G NetSstoreResetClearRefund) s))
               else on_db (\<lambda>s. ((), AddRefund (G NetSstoreResetRefund) s))
             else retM ()) (\<lambda>_.
           retM (G NetSstoreDirtyGas)))))))))"

definition gasSStoreEIP2200 :: "'k gasFunc" where
  "gasSStoreEIP2200 E memorySize = (let G = e_params E; K = e_keeper E in
     bindM (getM (\<lambda>s. ct_Gas (fr_Contract s))) (\<lambda>gas.
     if gas \<le> G SstoreSentryGasEIP2200 then failM (OtherError ''not enough gas for reentrancy sentry'')
     else
     bindM (backM 1) (\<lambda>y. bindM (backM 0) (\<lambda>x. bindM selfM (\<lambda>addr.
     bindM (on_db (GetState K addr x)) (\<lambda>current. let val = y in
     if current = val then retM (G SloadGasEIP2200)
     else bindM (on_db (GetCommittedState K addr x)) (\<lambda>original.
       if original = current then
         if original = 0 then retM (G SstoreSetGasEIP2200)
         else bindM (if val = 0 then on_db (\<lambda>s. ((), AddRefund (G SstoreClearsScheduleRefundEIP2200) s)) else retM ())
           (\<lambda>_. retM (G SstoreResetGasEIP2200))
       else
         bindM (if original \<noteq> 0 then
             if current = 0 then on_db_go (SubRefund (G SstoreClearsScheduleRefundEIP2200))
             else if val = 0 then on_db (\<lambda>s. ((), AddRefund (G SstoreClearsScheduleRefundEIP2200) s)) else retM ()
           else retM ()) (\<lambda>_.
         bindM (if original = val then
             if original = 0 then on_db (\<lambda>s. ((), AddRefund (G SstoreSetGasEIP2200 - G SloadGasEIP2200) s))
             else on_db (\<lambda>s. ((), AddRefund (G SstoreResetGasEIP2200 - G SloadGasEIP2200) s))
           else retM ()) (\<lambda>_.
         retM (G SloadGasEIP2200))))))))))"

section \<open>Logs, hashes, exponentiation\<close>

definition makeGasLog :: "int \<Rightarrow> 'k gasFunc" where
  "makeGasLog n E memorySize =
     bindM (uint64_at 1) (\<lambda>requestedSize.
     bindM (memoryGas E memorySize) (\<lambda>gas.
     bindM (safe_add E gas (e_params E LogGas)) (\<lambda>gas.
     bindM (safe_add E gas (u64 (n * e_params E LogTopicGas))) (\<lambda>gas.
     bindM (safe_mul E requestedSize (e_params E LogDataGas)) (\<lambda>memorySizeGas.
     safe_add E gas memorySizeGas)))))"

definition gasKeccak256 :: "'k gasFunc" where
  "gasKeccak256 E memorySize =
     bindM (memoryGas E memorySize) (\<lambda>gas.
     bindM (uint64_at 1) (\<lambda>wordGas.
     bindM (safe_mul E (toWordSize wordGas) (e_params E Keccak256WordGas)) (\<lambda>wordGas.
     safe_add E gas wordGas)))"

definition pureMemoryGascost :: "'k gasFunc" where
  "pureMemoryGascost E memorySize = memoryGas E memorySize"

definition gasReturn :: "'k gasFunc" where "gasReturn = pureMemoryGascost"
definition gasRevert :: "'k gasFunc" where "gasRevert = pureMemoryGascost"
definition gasMLoad :: "'k gasFunc" where "gasMLoad = pureMemoryGascost"
definition gasMStore8 :: "'k gasFunc" where "gasMStore8 = pureMemoryGascost"
definition gasMStore :: "'k gasFunc" where "gasMStore = pureMemoryGascost"
definition gasCreate :: "'k gasFunc" where "gasCreate = pureMemoryGascost"

definition gasCreate2 :: "'k gasFunc" where
  "gasCreate2 E memorySize =
     bindM (memoryGas E memorySize) (\<lambda>gas.
     bindM (uint64_at 2) (\<lambda>wordGas.
     bindM (safe_mul E (toWordSize wordGas) (e_params E Keccak256WordGas)) (\<lambda>wordGas.
     safe_add E gas wordGas)))"

definition gasExpFrontier :: "'k gasFunc" where
  "gasExpFrontier E memorySize =
     bindM (backM 1) (\<lambda>x. let expByteLen = u64 ((u256_BitLen (e_lib E) x + 7) div 8);
         gas = u64 (expByteLen * e_params E ExpByteFrontier)
       in safe_add E gas (e_params E ExpGas))"

definition gasExpEIP158 :: "'k gasFunc" where
  "gasExpEIP158 E memorySize =
     bindM (backM 1) (\<lambda>x. let expByteLen = u64 ((u256_BitLen (e_lib E) x + 7) div 8);
         gas = u64 (expByteLen * e_params E ExpByteEIP158)
       in safe_add E gas (e_params E ExpGas))"

section \<open>Calls\<close>

text \<open>\<open>evm.callGasTemp, err = callGas(...)\<close>, and the gas with it.\<close>

definition call_gas :: "'k evm_env \<Rightarrow> int \<Rightarrow> ('k frame, evm_error, int) oper" where
  "call_gas E gas =
     bindM (backM 0) (\<lambda>callCost.
     bindM (getM (\<lambda>s. callGas (IsEIP150 (e_rules E)) (ct_Gas (fr_Contract s)) gas callCost)) (\<lambda>r.
     bindM (modM (\<lambda>s. s\<lparr>fr_evm := (fr_evm s)\<lparr>ev_callGasTemp := (case r of Inl _ \<Rightarrow> 0 | Inr g \<Rightarrow> g)\<rparr>\<rparr>)) (\<lambda>_.
     case r of Inl e \<Rightarrow> failM e | Inr g \<Rightarrow> safe_add E gas g)))"

definition gasCall :: "'k gasFunc" where
  "gasCall E memorySize = (let G = e_params E; K = e_keeper E in
     bindM (backM 2) (\<lambda>val. let transfersValue = val \<noteq> 0 in
     bindM (backM 1) (\<lambda>x. let address = Bytes20 x in
     bindM (if IsEIP158 (e_rules E) then
         if transfersValue then bindM (on_db (Empty K address)) (\<lambda>empty.
           retM (if empty then G CallNewAccountGas else 0))
         else retM 0
       else bindM (on_db (Exist K address)) (\<lambda>exist. retM (if \<not> exist then G CallNewAccountGas else 0))) (\<lambda>gas.
     let gas = (if transfersValue then u64 (gas + G CallValueTransferGas) else gas) in
     bindM (memoryGas E memorySize) (\<lambda>memGas.
     bindM (safe_add E gas memGas) (\<lambda>gas.
     call_gas E gas))))))"

definition gasCallCode :: "'k gasFunc" where
  "gasCallCode E memorySize =
     bindM (memoryGas E memorySize) (\<lambda>memGas.
     bindM (backM 2) (\<lambda>val.
     let gas = (if val \<noteq> 0 then e_params E CallValueTransferGas else 0) in
     bindM (safe_add E gas memGas) (\<lambda>gas.
     call_gas E gas)))"

definition gasDelegateCall :: "'k gasFunc" where
  "gasDelegateCall E memorySize = bindM (memoryGas E memorySize) (call_gas E)"

definition gasStaticCall :: "'k gasFunc" where
  "gasStaticCall E memorySize = bindM (memoryGas E memorySize) (call_gas E)"

definition gasSelfdestruct :: "'k gasFunc" where
  "gasSelfdestruct E memorySize = (let G = e_params E; K = e_keeper E in
     bindM selfM (\<lambda>addr.
     bindM (if IsEIP150 (e_rules E) then
         bindM (backM 0) (\<lambda>x. let address = Bytes20 x; gas = G SelfdestructGasEIP150 in
         if IsEIP158 (e_rules E) then
           bindM (on_db (Empty K address)) (\<lambda>empty.
             if empty then bindM (on_db (GetBalance K addr)) (\<lambda>balance.
               retM (if balance \<noteq> 0 then u64 (gas + G CreateBySelfdestructGas) else gas))
             else retM gas)
         else bindM (on_db (Exist K address)) (\<lambda>exist.
           retM (if \<not> exist then u64 (gas + G CreateBySelfdestructGas) else gas)))
       else retM 0) (\<lambda>gas.
     bindM (on_db (HasSuicided K addr)) (\<lambda>suicided.
     bindM (if \<not> suicided then on_db (\<lambda>s. ((), AddRefund (G SelfdestructRefundGas) s)) else retM ()) (\<lambda>_.
     retM gas)))))"

section \<open>Access lists\<close>

definition AddressInAccessList :: "address \<Rightarrow> 'k StateDB \<Rightarrow> bool" where
  "AddressInAccessList addr s = ContainsAddress (sd_accessList s) addr"

definition SlotInAccessList :: "address \<Rightarrow> hash \<Rightarrow> 'k StateDB \<Rightarrow> go_panic + bool \<times> bool" where
  "SlotInAccessList addr slot s = Contains (sd_accessList s) addr slot"

definition in_access_list :: "address \<Rightarrow> ('k frame, 'e, bool) oper" where
  "in_access_list addr = on_db (\<lambda>s. (AddressInAccessList addr s, s))"

definition slot_in_access_list :: "address \<Rightarrow> hash \<Rightarrow> ('k frame, 'e, bool \<times> bool) oper" where
  "slot_in_access_list addr slot = bindM (getM (\<lambda>s. lift_go (SlotInAccessList addr slot (ev_StateDB (fr_evm s))))) liftM"

definition makeGasSStoreFunc :: "int \<Rightarrow> 'k gasFunc" where
  "makeGasSStoreFunc clearingRefund E memorySize = (let G = e_params E; K = e_keeper E in
     bindM (getM (\<lambda>s. ct_Gas (fr_Contract s))) (\<lambda>gas.
     if gas \<le> G SstoreSentryGasEIP2200 then failM (OtherError ''not enough gas for reentrancy sentry'')
     else
     bindM (backM 1) (\<lambda>y. bindM peekM (\<lambda>slot. bindM selfM (\<lambda>addr.
     bindM (on_db (GetState K addr slot)) (\<lambda>current.
     bindM (slot_in_access_list addr slot) (\<lambda>(addrPresent, slotPresent).
     bindM (if \<not> slotPresent then
         bindM (on_db_go (AddSlotToAccessList addr slot)) (\<lambda>_.
           if \<not> addrPresent
           then liftM (Inl (Panicked (GoPanic ''impossible case: address was not present in access list during sstore op'')))
           else retM (G ColdSloadCostEIP2929))
       else retM 0) (\<lambda>cost. let val = y in
     if current = val then retM (u64 (cost + G WarmStorageReadCostEIP2929))
     else bindM (on_db (GetCommittedState K addr slot)) (\<lambda>original.
       if original = current then
         if original = 0 then retM (u64 (cost + G SstoreSetGasEIP2200))
         else bindM (if val = 0 then on_db (\<lambda>s. ((), AddRefund clearingRefund s)) else retM ())
           (\<lambda>_. retM (u64 (cost + (G SstoreResetGasEIP2200 - G ColdSloadCostEIP2929))))
       else
         bindM (if original \<noteq> 0 then
             if current = 0 then on_db_go (SubRefund clearingRefund)
             else if val = 0 then on_db (\<lambda>s. ((), AddRefund clearingRefund s)) else retM ()
           else retM ()) (\<lambda>_.
         bindM (if original = val then
             if original = 0 then on_db (\<lambda>s. ((), AddRefund (G SstoreSetGasEIP2200 - G WarmStorageReadCostEIP2929) s))
             else on_db (\<lambda>s. ((), AddRefund ((G SstoreResetGasEIP2200 - G ColdSloadCostEIP2929) - G WarmStorageReadCostEIP2929) s))
           else retM ()) (\<lambda>_.
         retM (u64 (cost + G WarmStorageReadCostEIP2929)))))))))))))"

definition gasSLoadEIP2929 :: "'k gasFunc" where
  "gasSLoadEIP2929 E memorySize =
     bindM peekM (\<lambda>slot. bindM selfM (\<lambda>addr.
     bindM (slot_in_access_list addr slot) (\<lambda>(_, slotPresent).
     if \<not> slotPresent
     then bindM (on_db_go (AddSlotToAccessList addr slot)) (\<lambda>_. retM (e_params E ColdSloadCostEIP2929))
     else retM (e_params E WarmStorageReadCostEIP2929))))"

definition add_address :: "address \<Rightarrow> ('k frame, 'e, unit) oper" where
  "add_address addr = on_db (\<lambda>s. ((), AddAddressToAccessList addr s))"

definition gasExtCodeCopyEIP2929 :: "'k gasFunc" where
  "gasExtCodeCopyEIP2929 E memorySize =
     bindM (gasExtCodeCopy E memorySize) (\<lambda>gas.
     bindM peekM (\<lambda>x. let addr = Bytes20 x in
     bindM (in_access_list addr) (\<lambda>present.
     if \<not> present then
       bindM (add_address addr) (\<lambda>_.
         safe_add E gas (e_params E ColdAccountAccessCostEIP2929 - e_params E WarmStorageReadCostEIP2929))
     else retM gas)))"

definition gasEip2929AccountCheck :: "'k gasFunc" where
  "gasEip2929AccountCheck E memorySize =
     bindM peekM (\<lambda>x. let addr = Bytes20 x in
     bindM (in_access_list addr) (\<lambda>present.
     if \<not> present then
       bindM (add_address addr) (\<lambda>_.
         retM (e_params E ColdAccountAccessCostEIP2929 - e_params E WarmStorageReadCostEIP2929))
     else retM 0))"

definition makeCallVariantGasCallEIP2929 :: "'k gasFunc \<Rightarrow> 'k gasFunc" where
  "makeCallVariantGasCallEIP2929 oldCalculator E memorySize =
     bindM (backM 1) (\<lambda>x. let addr = Bytes20 x in
     bindM (in_access_list addr) (\<lambda>warmAccess.
     let coldCost = e_params E ColdAccountAccessCostEIP2929 - e_params E WarmStorageReadCostEIP2929 in
     bindM (if \<not> warmAccess then
         bindM (add_address addr) (\<lambda>_.
         bindM (on_contract (\<lambda>c. UseGas c coldCost)) (\<lambda>ok. if \<not> ok then failM ErrOutOfGas else retM ()))
       else retM ()) (\<lambda>_.
     bindM (oldCalculator E memorySize) (\<lambda>gas.
     if warmAccess then retM gas
     else bindM (on_contract (\<lambda>c. ((), c\<lparr>ct_Gas := u64 (ct_Gas c + coldCost)\<rparr>)))
       (\<lambda>_. retM (u64 (gas + coldCost)))))))"

definition gasCallEIP2929 :: "'k gasFunc" where "gasCallEIP2929 = makeCallVariantGasCallEIP2929 gasCall"
definition gasDelegateCallEIP2929 :: "'k gasFunc" where
  "gasDelegateCallEIP2929 = makeCallVariantGasCallEIP2929 gasDelegateCall"
definition gasStaticCallEIP2929 :: "'k gasFunc" where
  "gasStaticCallEIP2929 = makeCallVariantGasCallEIP2929 gasStaticCall"
definition gasCallCodeEIP2929 :: "'k gasFunc" where
  "gasCallCodeEIP2929 = makeCallVariantGasCallEIP2929 gasCallCode"

definition makeSelfdestructGasFn :: "bool \<Rightarrow> 'k gasFunc" where
  "makeSelfdestructGasFn refundsEnabled E memorySize = (let G = e_params E; K = e_keeper E in
     bindM peekM (\<lambda>x. let address = Bytes20 x in
     bindM selfM (\<lambda>addr.
     bindM (in_access_list address) (\<lambda>present.
     bindM (if \<not> present then bindM (add_address address) (\<lambda>_. retM (G ColdAccountAccessCostEIP2929)) else retM 0) (\<lambda>gas.
     bindM (on_db (Empty K address)) (\<lambda>empty.
     bindM (if empty then bindM (on_db (GetBalance K addr)) (\<lambda>balance.
         retM (if balance \<noteq> 0 then u64 (gas + G CreateBySelfdestructGas) else gas)) else retM gas) (\<lambda>gas.
     bindM (if refundsEnabled then bindM (on_db (HasSuicided K addr)) (\<lambda>suicided.
         if \<not> suicided then on_db (\<lambda>s. ((), AddRefund (G SelfdestructRefundGas) s)) else retM ()) else retM ()) (\<lambda>_.
     retM gas))))))))"

definition gasSelfdestructEIP2929 :: "'k gasFunc" where "gasSelfdestructEIP2929 = makeSelfdestructGasFn True"
definition gasSelfdestructEIP3529 :: "'k gasFunc" where "gasSelfdestructEIP3529 = makeSelfdestructGasFn False"

definition gasSStoreEIP2929 :: "'k gasFunc" where
  "gasSStoreEIP2929 E = makeGasSStoreFunc (e_params E SstoreClearsScheduleRefundEIP2200) E"
definition gasSStoreEIP3529 :: "'k gasFunc" where
  "gasSStoreEIP3529 E = makeGasSStoreFunc (e_params E SstoreClearsScheduleRefundEIP3529) E"

end
