(* ===== verification/EvmInstr.thy ===== *)
theory EvmInstr
  imports EvmGas
begin

text \<open>
  The instructions (x/evm/core/vm: instructions.go, and those of eips.go). An \<open>executionFunc\<close> changes
  the frame it runs in; an error comes with the bytes returned beside it, so that RETURN and REVERT are
  errors that carry data. The six calls of EVM an instruction may make are the argument \<open>'k callee\<close>.
  A memory offset goes through \<open>int64\<close> where the code has it so.
\<close>

record 'k callee =
  c_Call :: "ContractRef \<Rightarrow> address \<Rightarrow> bytes \<Rightarrow> int \<Rightarrow> int \<Rightarrow> 'k evm
    \<Rightarrow> evm_stop + (bytes \<times> int \<times> evm_error option) \<times> 'k evm"
  c_CallCode :: "ContractRef \<Rightarrow> address \<Rightarrow> bytes \<Rightarrow> int \<Rightarrow> int \<Rightarrow> 'k evm
    \<Rightarrow> evm_stop + (bytes \<times> int \<times> evm_error option) \<times> 'k evm"
  c_DelegateCall :: "ContractRef \<Rightarrow> address \<Rightarrow> bytes \<Rightarrow> int \<Rightarrow> 'k evm
    \<Rightarrow> evm_stop + (bytes \<times> int \<times> evm_error option) \<times> 'k evm"
  c_StaticCall :: "ContractRef \<Rightarrow> address \<Rightarrow> bytes \<Rightarrow> int \<Rightarrow> 'k evm
    \<Rightarrow> evm_stop + (bytes \<times> int \<times> evm_error option) \<times> 'k evm"
  c_Create :: "ContractRef \<Rightarrow> bytes \<Rightarrow> int \<Rightarrow> int \<Rightarrow> 'k evm
    \<Rightarrow> evm_stop + (bytes \<times> address \<times> int \<times> evm_error option) \<times> 'k evm"
  c_Create2 :: "ContractRef \<Rightarrow> bytes \<Rightarrow> int \<Rightarrow> int \<Rightarrow> uint256 \<Rightarrow> 'k evm
    \<Rightarrow> evm_stop + (bytes \<times> address \<times> int \<times> evm_error option) \<times> 'k evm"

type_synonym 'k executionFunc = "'k callee \<Rightarrow> 'k evm_env \<Rightarrow> ('k frame, bytes \<times> evm_error, bytes) oper"

definition nil_deref :: go_panic where
  "nil_deref = GoPanic ''invalid memory address or nil pointer dereference''"

text \<open>\<open>return nil, nil\<close> and \<open>return nil, err\<close>.\<close>

definition doneM :: "('s, 'e, bytes) oper" where
  "doneM = retM []"

definition errM :: "evm_error \<Rightarrow> ('s, bytes \<times> evm_error, 'a) oper" where
  "errM e = failM ([], e)"

section \<open>Arithmetic, comparison, bits\<close>

definition binary :: "(uint256 \<Rightarrow> uint256 \<Rightarrow> uint256) \<Rightarrow> ('k frame, 'e, bytes) oper" where
  "binary f = bindM popM (\<lambda>x. bindM peekM (\<lambda>y. bindM (set_topM (f x y)) (\<lambda>_. doneM)))"

definition compare :: "(uint256 \<Rightarrow> uint256 \<Rightarrow> bool) \<Rightarrow> ('k frame, 'e, bytes) oper" where
  "compare f = bindM popM (\<lambda>x. bindM peekM (\<lambda>y. bindM (if f x y then set_topM 1 else set_topM 0) (\<lambda>_. doneM)))"

definition opAdd :: "'k executionFunc" where "opAdd C E = binary (u256_bin (e_lib E) uAdd)"
definition opSub :: "'k executionFunc" where "opSub C E = binary (u256_bin (e_lib E) uSub)"
definition opMul :: "'k executionFunc" where "opMul C E = binary (u256_bin (e_lib E) uMul)"
definition opDiv :: "'k executionFunc" where "opDiv C E = binary (u256_bin (e_lib E) uDiv)"
definition opSdiv :: "'k executionFunc" where "opSdiv C E = binary (u256_bin (e_lib E) uSDiv)"
definition opMod :: "'k executionFunc" where "opMod C E = binary (u256_bin (e_lib E) uMod)"
definition opSmod :: "'k executionFunc" where "opSmod C E = binary (u256_bin (e_lib E) uSMod)"
definition opExp :: "'k executionFunc" where "opExp C E = binary (u256_bin (e_lib E) uExp)"

definition opSignExtend :: "'k executionFunc" where
  "opSignExtend C E = binary (\<lambda>bk num. u256_bin (e_lib E) uExtendSign num bk)"

definition opNot :: "'k executionFunc" where
  "opNot C E = bindM peekM (\<lambda>x. bindM (set_topM (u256_Not (e_lib E) x)) (\<lambda>_. doneM))"

definition opLt :: "'k executionFunc" where "opLt C E = compare (u256_rel (e_lib E) uLt)"
definition opGt :: "'k executionFunc" where "opGt C E = compare (u256_rel (e_lib E) uGt)"
definition opSlt :: "'k executionFunc" where "opSlt C E = compare (u256_rel (e_lib E) uSlt)"
definition opSgt :: "'k executionFunc" where "opSgt C E = compare (u256_rel (e_lib E) uSgt)"
definition opEq :: "'k executionFunc" where "opEq C E = compare (u256_rel (e_lib E) uEq)"

definition opIszero :: "'k executionFunc" where
  "opIszero C E = bindM peekM (\<lambda>x. bindM (if x = 0 then set_topM 1 else set_topM 0) (\<lambda>_. doneM))"

definition opAnd :: "'k executionFunc" where "opAnd C E = binary (u256_bin (e_lib E) uAnd)"
definition opOr :: "'k executionFunc" where "opOr C E = binary (u256_bin (e_lib E) uOr)"
definition opXor :: "'k executionFunc" where "opXor C E = binary (u256_bin (e_lib E) uXor)"

definition opByte :: "'k executionFunc" where
  "opByte C E = binary (\<lambda>th val. u256_bin (e_lib E) uByte val th)"

definition opAddmod :: "'k executionFunc" where
  "opAddmod C E = bindM popM (\<lambda>x. bindM popM (\<lambda>y. bindM peekM (\<lambda>z.
     bindM (if z = 0 then set_topM 0 else set_topM (u256_AddMod (e_lib E) x y z)) (\<lambda>_. doneM))))"

definition opMulmod :: "'k executionFunc" where
  "opMulmod C E = bindM popM (\<lambda>x. bindM popM (\<lambda>y. bindM peekM (\<lambda>z.
     bindM (set_topM (u256_MulMod (e_lib E) x y z)) (\<lambda>_. doneM))))"

definition opSHL :: "'k executionFunc" where
  "opSHL C E = binary (\<lambda>shift val. if uint shift < 256 then u256_Lsh (e_lib E) val (uint64_of shift) else 0)"

definition opSHR :: "'k executionFunc" where
  "opSHR C E = binary (\<lambda>shift val. if uint shift < 256 then u256_Rsh (e_lib E) val (uint64_of shift) else 0)"

definition opSAR :: "'k executionFunc" where
  "opSAR C E = binary (\<lambda>shift val.
     if uint shift > 256 then if sint val \<ge> 0 then 0 else - 1
     else u256_SRsh (e_lib E) val (uint64_of shift))"

section \<open>Context\<close>

definition m_GetPtr :: "uint256 \<Rightarrow> uint256 \<Rightarrow> ('k frame, 'e, bytes) oper" where
  "m_GetPtr offset sz = bindM (getM (\<lambda>s. mem_GetPtr (i64 (uint64_of offset)) (i64 (uint64_of sz)) (fr_Memory s))) liftM"

definition m_GetCopy :: "uint256 \<Rightarrow> uint256 \<Rightarrow> ('k frame, 'e, bytes) oper" where
  "m_GetCopy offset sz = bindM (getM (\<lambda>s. mem_GetCopy (i64 (uint64_of offset)) (i64 (uint64_of sz)) (fr_Memory s))) liftM"

definition m_Set :: "int \<Rightarrow> int \<Rightarrow> bytes \<Rightarrow> ('k frame, 'e, unit) oper" where
  "m_Set offset sz val = on_memory (mem_Set offset sz val)"

definition opKeccak256 :: "'k executionFunc" where
  "opKeccak256 C E = bindM popM (\<lambda>offset. bindM peekM (\<lambda>sz. bindM (m_GetPtr offset sz) (\<lambda>data.
     bindM (set_topM (keccak (e_keeper E) data)) (\<lambda>_. doneM))))"

definition push_value :: "uint256 \<Rightarrow> ('k frame, 'e, bytes) oper" where
  "push_value v = bindM (pushM v) (\<lambda>_. doneM)"

text \<open>\<open>v, _ := uint256.FromBig(x); stack.Push(v)\<close>: a nil pointer is dereferenced.\<close>

definition push_big :: "int option \<Rightarrow> ('k frame, 'e, bytes) oper" where
  "push_big x = (case x of None \<Rightarrow> liftM (Inl (Panicked nil_deref)) | Some n \<Rightarrow> push_value (word_of_int n))"

definition opAddress :: "'k executionFunc" where
  "opAddress C E = bindM selfM (\<lambda>a. push_value (ucast a))"

definition opBalance :: "'k executionFunc" where
  "opBalance C E = bindM peekM (\<lambda>slot. bindM (on_db (GetBalance (e_keeper E) (Bytes20 slot))) (\<lambda>balance.
     bindM (set_topM (word_of_int balance)) (\<lambda>_. doneM)))"

definition opOrigin :: "'k executionFunc" where
  "opOrigin C E = push_value (ucast (e_Origin E))"

definition opCaller :: "'k executionFunc" where
  "opCaller C E = bindM (getM (\<lambda>s. Caller (fr_Contract s))) (\<lambda>a. push_value (ucast a))"

definition opCallValue :: "'k executionFunc" where
  "opCallValue C E = bindM (getM (\<lambda>s. ct_value (fr_Contract s))) push_big"

definition opCallDataLoad :: "'k executionFunc" where
  "opCallDataLoad C E = bindM peekM (\<lambda>x. case Uint64WithOverflow x of (offset, overflow) \<Rightarrow>
     if \<not> overflow then
       bindM (getM (\<lambda>s. getData (e_lib E) (ct_Input (fr_Contract s)) offset 32)) (\<lambda>r. bindM (liftM r) (\<lambda>data.
         bindM (set_topM (SetBytes data)) (\<lambda>_. doneM)))
     else bindM (set_topM 0) (\<lambda>_. doneM))"

definition opCallDataSize :: "'k executionFunc" where
  "opCallDataSize C E = bindM (getM (\<lambda>s. length (ct_Input (fr_Contract s)))) (\<lambda>n. push_value (word_of_nat n))"

text \<open>An offset that does not fit is taken as the largest one.\<close>

definition offset_of :: "uint256 \<Rightarrow> int" where
  "offset_of x = (case Uint64WithOverflow x of (v, overflow) \<Rightarrow> if overflow then 0xffffffffffffffff else v)"

definition opCallDataCopy :: "'k executionFunc" where
  "opCallDataCopy C E = bindM popM (\<lambda>memOffset. bindM popM (\<lambda>dataOffset. bindM popM (\<lambda>len.
     bindM (getM (\<lambda>s. getData (e_lib E) (ct_Input (fr_Contract s)) (offset_of dataOffset) (uint64_of len))) (\<lambda>r.
     bindM (liftM r) (\<lambda>data.
     bindM (m_Set (uint64_of memOffset) (uint64_of len) data) (\<lambda>_. doneM))))))"

definition opReturnDataSize :: "'k executionFunc" where
  "opReturnDataSize C E = bindM (getM (\<lambda>s. length (ev_returnData (fr_evm s)))) (\<lambda>n. push_value (word_of_nat n))"

definition opReturnDataCopy :: "'k executionFunc" where
  "opReturnDataCopy C E = bindM popM (\<lambda>memOffset. bindM popM (\<lambda>dataOffset. bindM popM (\<lambda>len.
     bindM (getM (\<lambda>s. ev_returnData (fr_evm s))) (\<lambda>rd.
     case Uint64WithOverflow dataOffset of (offset64, overflow) \<Rightarrow>
     if overflow then errM ErrReturnDataOutOfBounds
     else case Uint64WithOverflow (u256_bin (e_lib E) uAdd dataOffset len) of (end64, overflow) \<Rightarrow>
       if overflow \<or> int (length rd) < end64 then errM ErrReturnDataOutOfBounds
       else if end64 < offset64 then liftM (Inl (Panicked (GoPanic ''slice bounds out of range'')))
       else bindM (m_Set (uint64_of memOffset) (uint64_of len)
              (take (nat (end64 - offset64)) (drop (nat offset64) rd))) (\<lambda>_. doneM)))))"

definition opExtCodeSize :: "'k executionFunc" where
  "opExtCodeSize C E = bindM peekM (\<lambda>slot. bindM (on_db (GetCodeSize (e_keeper E) (Bytes20 slot))) (\<lambda>n.
     bindM (set_topM (word_of_int n)) (\<lambda>_. doneM)))"

definition opCodeSize :: "'k executionFunc" where
  "opCodeSize C E = bindM (getM (\<lambda>s. length (ct_Code (fr_Contract s)))) (\<lambda>n. push_value (word_of_nat n))"

definition opCodeCopy :: "'k executionFunc" where
  "opCodeCopy C E = bindM popM (\<lambda>memOffset. bindM popM (\<lambda>codeOffset. bindM popM (\<lambda>len.
     bindM (getM (\<lambda>s. getData (e_lib E) (ct_Code (fr_Contract s)) (offset_of codeOffset) (uint64_of len))) (\<lambda>r.
     bindM (liftM r) (\<lambda>codeCopy.
     bindM (m_Set (uint64_of memOffset) (uint64_of len) codeCopy) (\<lambda>_. doneM))))))"

definition opExtCodeCopy :: "'k executionFunc" where
  "opExtCodeCopy C E = bindM popM (\<lambda>a. bindM popM (\<lambda>memOffset. bindM popM (\<lambda>codeOffset. bindM popM (\<lambda>len.
     bindM (on_db (GetCode (e_keeper E) (Bytes20 a))) (\<lambda>code.
     bindM (liftM (getData (e_lib E) (case code of None \<Rightarrow> [] | Some c \<Rightarrow> c) (offset_of codeOffset) (uint64_of len))) (\<lambda>codeCopy.
     bindM (m_Set (uint64_of memOffset) (uint64_of len) codeCopy) (\<lambda>_. doneM)))))))"

definition opExtCodeHash :: "'k executionFunc" where
  "opExtCodeHash C E = bindM peekM (\<lambda>slot. bindM (on_db (Empty (e_keeper E) (Bytes20 slot))) (\<lambda>empty.
     if empty then bindM (set_topM 0) (\<lambda>_. doneM)
     else bindM (on_db (GetCodeHash (e_keeper E) (Bytes20 slot))) (\<lambda>h. bindM (set_topM h) (\<lambda>_. doneM))))"

definition opGasprice :: "'k executionFunc" where
  "opGasprice C E = push_big (Some (e_GasPrice E))"

definition opBlockhash :: "'k executionFunc" where
  "opBlockhash C E = bindM peekM (\<lambda>num. case Uint64WithOverflow num of (num64, overflow) \<Rightarrow>
     if overflow then bindM (set_topM 0) (\<lambda>_. doneM)
     else let upper = u64 (e_BlockNumber E);
              lower = (if upper < 257 then 0 else upper - 256)
       in if num64 \<ge> lower \<and> num64 < upper
          then bindM (set_topM (e_GetHash E num64)) (\<lambda>_. doneM)
          else bindM (set_topM 0) (\<lambda>_. doneM))"

definition opCoinbase :: "'k executionFunc" where "opCoinbase C E = push_value (ucast (e_Coinbase E))"
definition opTimestamp :: "'k executionFunc" where "opTimestamp C E = push_big (Some (e_Time E))"
definition opNumber :: "'k executionFunc" where "opNumber C E = push_big (Some (e_BlockNumber E))"
definition opDifficulty :: "'k executionFunc" where "opDifficulty C E = push_big (Some (e_Difficulty E))"

definition opRandom :: "'k executionFunc" where
  "opRandom C E = (case e_Random E of
      None \<Rightarrow> liftM (Inl (Panicked nil_deref)) | Some h \<Rightarrow> push_value h)"

definition opGasLimit :: "'k executionFunc" where "opGasLimit C E = push_value (word_of_int (e_GasLimit E))"


section \<open>Stack, memory, storage, control flow\<close>

definition opPop :: "'k executionFunc" where
  "opPop C E = bindM popM (\<lambda>_. doneM)"

definition opMload :: "'k executionFunc" where
  "opMload C E = bindM peekM (\<lambda>v.
     bindM (getM (\<lambda>s. mem_GetPtr (i64 (uint64_of v)) 32 (fr_Memory s))) (\<lambda>r. bindM (liftM r) (\<lambda>data.
     bindM (set_topM (SetBytes data)) (\<lambda>_. doneM))))"

definition opMstore :: "'k executionFunc" where
  "opMstore C E = bindM popM (\<lambda>mStart. bindM popM (\<lambda>val.
     bindM (on_memory (mem_Set32 (uint64_of mStart) val)) (\<lambda>_. doneM)))"

definition mem_Set_byte :: "int \<Rightarrow> byte \<Rightarrow> Memory \<Rightarrow> evm_stop + Memory" where
  "mem_Set_byte off b m =
     (if off < int (length (mem_store m)) then Inr (m\<lparr>mem_store := (mem_store m)[nat off := b]\<rparr>)
      else Inl MemoryPanic)"

definition opMstore8 :: "'k executionFunc" where
  "opMstore8 C E = bindM popM (\<lambda>off. bindM popM (\<lambda>val.
     bindM (on_memory (mem_Set_byte (uint64_of off) (word_of_int (uint64_of val)))) (\<lambda>_. doneM)))"

definition opSload :: "'k executionFunc" where
  "opSload C E = bindM peekM (\<lambda>loc. bindM selfM (\<lambda>addr.
     bindM (on_db (GetState (e_keeper E) addr loc)) (\<lambda>val. bindM (set_topM val) (\<lambda>_. doneM))))"

definition write_protected :: "('k frame, bytes \<times> evm_error, unit) oper" where
  "write_protected = bindM (getM (\<lambda>s. ev_readOnly (fr_evm s))) (\<lambda>ro. if ro then errM ErrWriteProtection else retM ())"

definition opSstore :: "'k executionFunc" where
  "opSstore C E = bindM write_protected (\<lambda>_. bindM popM (\<lambda>loc. bindM popM (\<lambda>val. bindM selfM (\<lambda>addr.
     bindM (on_db (\<lambda>s. ((), SetState (e_keeper E) addr loc val s))) (\<lambda>_. doneM)))))"

text \<open>\<open>scope.Contract.validJumpdest\<close>, with the caches it may fill.\<close>

definition valid_dest :: "uint256 \<Rightarrow> ('k frame, 'e, bool) oper" where
  "valid_dest pos = (\<lambda>s. case validJumpdest (fr_Contract s) pos (ev_jumpdests (fr_evm s)) of
      Inl p \<Rightarrow> Inl (Panicked p)
    | Inr (b, c, maps) \<Rightarrow> Inr (Inr b, s\<lparr>fr_Contract := c, fr_evm := (fr_evm s)\<lparr>ev_jumpdests := maps\<rparr>\<rparr>))"

definition set_pc :: "int \<Rightarrow> ('k frame, 'e, unit) oper" where
  "set_pc n = modM (\<lambda>s. s\<lparr>fr_pc := n\<rparr>)"

definition aborted :: "('k frame, bytes \<times> evm_error, unit) oper" where
  "aborted = bindM (getM (\<lambda>s. ev_abort (fr_evm s))) (\<lambda>b. if b then errM errStopToken else retM ())"

definition jump_to :: "uint256 \<Rightarrow> ('k frame, bytes \<times> evm_error, bytes) oper" where
  "jump_to pos = bindM (valid_dest pos) (\<lambda>valid.
     if \<not> valid then errM ErrInvalidJump
     else bindM (set_pc (u64 (uint64_of pos - 1))) (\<lambda>_. doneM))"

definition opJump :: "'k executionFunc" where
  "opJump C E = bindM aborted (\<lambda>_. bindM popM (\<lambda>pos. jump_to pos))"

definition opJumpi :: "'k executionFunc" where
  "opJumpi C E = bindM aborted (\<lambda>_. bindM popM (\<lambda>pos. bindM popM (\<lambda>cond.
     if cond \<noteq> 0 then jump_to pos else doneM)))"

definition opJumpdest :: "'k executionFunc" where "opJumpdest C E = doneM"

definition opPc :: "'k executionFunc" where
  "opPc C E = bindM (getM fr_pc) (\<lambda>pc. push_value (word_of_int pc))"

definition opMsize :: "'k executionFunc" where
  "opMsize C E = bindM (getM (\<lambda>s. length (mem_store (fr_Memory s)))) (\<lambda>n. push_value (word_of_nat n))"

definition opGas :: "'k executionFunc" where
  "opGas C E = bindM (getM (\<lambda>s. ct_Gas (fr_Contract s))) (\<lambda>gas. push_value (word_of_int gas))"

section \<open>Calls\<close>

definition gas_left :: "('k frame, 'e, int) oper" where
  "gas_left = getM (\<lambda>s. ct_Gas (fr_Contract s))"

definition use_gas :: "int \<Rightarrow> ('k frame, 'e, bool) oper" where
  "use_gas gas = on_contract (\<lambda>c. UseGas c gas)"

definition return_gas :: "int \<Rightarrow> ('k frame, 'e, unit) oper" where
  "return_gas gas = on_contract (\<lambda>c. ((), c\<lparr>ct_Gas := u64 (ct_Gas c + gas)\<rparr>))"

definition set_returnData :: "bytes \<Rightarrow> ('k frame, 'e, unit) oper" where
  "set_returnData ret = modM (\<lambda>s. s\<lparr>fr_evm := (fr_evm s)\<lparr>ev_returnData := ret\<rparr>\<rparr>)"

text \<open>A call of EVM from an instruction: the contract is the caller.\<close>

definition sub_call :: "(ContractRef \<Rightarrow> 'k evm \<Rightarrow> evm_stop + 'a \<times> 'k evm) \<Rightarrow> ('k frame, 'e, 'a) oper" where
  "sub_call f = (\<lambda>s. case f (contract_ref (fr_Contract s)) (fr_evm s) of
      Inl p \<Rightarrow> Inl p
    | Inr (x, evm) \<Rightarrow> Inr (Inr x, s\<lparr>fr_evm := evm\<rparr>))"

definition created :: "bytes \<Rightarrow> int \<Rightarrow> evm_error option \<Rightarrow> uint256 \<Rightarrow> ('k frame, 'e, bytes) oper" where
  "created res returnGas suberr stackvalue =
     bindM (pushM stackvalue) (\<lambda>_. bindM (return_gas returnGas) (\<lambda>_.
     if suberr = Some ErrExecutionReverted then bindM (set_returnData res) (\<lambda>_. retM res)
     else bindM (set_returnData []) (\<lambda>_. doneM)))"

definition opCreate :: "'k executionFunc" where
  "opCreate C E = bindM write_protected (\<lambda>_.
     bindM popM (\<lambda>val. bindM popM (\<lambda>offset. bindM popM (\<lambda>sz.
     bindM (m_GetCopy offset sz) (\<lambda>input.
     bindM gas_left (\<lambda>gas0. let gas = (if IsEIP150 (e_rules E) then u64 (gas0 - gas0 div 64) else gas0) in
     bindM (use_gas gas) (\<lambda>_.
     bindM (sub_call (\<lambda>me. c_Create C me input gas (uint val))) (\<lambda>(res, addr, returnGas, suberr).
     created res returnGas suberr
       (if IsHomestead (e_rules E) \<and> suberr = Some ErrCodeStoreOutOfGas then 0
        else if suberr \<noteq> None \<and> suberr \<noteq> Some ErrCodeStoreOutOfGas then 0
        else ucast addr)))))))))"

definition opCreate2 :: "'k executionFunc" where
  "opCreate2 C E = bindM write_protected (\<lambda>_.
     bindM popM (\<lambda>endowment. bindM popM (\<lambda>offset. bindM popM (\<lambda>sz. bindM popM (\<lambda>salt.
     bindM (m_GetCopy offset sz) (\<lambda>input.
     bindM gas_left (\<lambda>gas0. let gas = u64 (gas0 - gas0 div 64) in
     bindM (use_gas gas) (\<lambda>_.
     bindM (sub_call (\<lambda>me. c_Create2 C me input gas (uint endowment) salt)) (\<lambda>(res, addr, returnGas, suberr).
     created res returnGas suberr (if suberr \<noteq> None then 0 else ucast addr))))))))))"

text \<open>What the four calls have in common after they returned.\<close>

definition called :: "uint256 \<Rightarrow> uint256 \<Rightarrow> bytes \<Rightarrow> int \<Rightarrow> evm_error option \<Rightarrow> ('k frame, 'e, bytes) oper" where
  "called retOffset retSize ret returnGas err =
     bindM (pushM (if err \<noteq> None then 0 else 1)) (\<lambda>_.
     bindM (if err = None \<or> err = Some ErrExecutionReverted
            then m_Set (uint64_of retOffset) (uint64_of retSize) ret else retM ()) (\<lambda>_.
     bindM (return_gas returnGas) (\<lambda>_. bindM (set_returnData ret) (\<lambda>_. retM ret))))"

definition call_gas_temp :: "('k frame, 'e, int) oper" where
  "call_gas_temp = getM (\<lambda>s. ev_callGasTemp (fr_evm s))"

definition opCall :: "'k executionFunc" where
  "opCall C E = bindM popM (\<lambda>_. bindM call_gas_temp (\<lambda>gas0.
     bindM popM (\<lambda>addr. bindM popM (\<lambda>val. bindM popM (\<lambda>inOffset. bindM popM (\<lambda>inSize.
     bindM popM (\<lambda>retOffset. bindM popM (\<lambda>retSize.
     bindM (m_GetPtr inOffset inSize) (\<lambda>args.
     bindM (getM (\<lambda>s. ev_readOnly (fr_evm s))) (\<lambda>ro.
     if ro \<and> val \<noteq> 0 then errM ErrWriteProtection
     else let gas = (if val \<noteq> 0 then u64 (gas0 + e_params E CallStipend) else gas0) in
     bindM (sub_call (\<lambda>me. c_Call C me (Bytes20 addr) args gas (uint val))) (\<lambda>(ret, returnGas, err).
     called retOffset retSize ret returnGas err)))))))))))"

definition opCallCode :: "'k executionFunc" where
  "opCallCode C E = bindM popM (\<lambda>_. bindM call_gas_temp (\<lambda>gas0.
     bindM popM (\<lambda>addr. bindM popM (\<lambda>val. bindM popM (\<lambda>inOffset. bindM popM (\<lambda>inSize.
     bindM popM (\<lambda>retOffset. bindM popM (\<lambda>retSize.
     bindM (m_GetPtr inOffset inSize) (\<lambda>args.
     let gas = (if val \<noteq> 0 then u64 (gas0 + e_params E CallStipend) else gas0) in
     bindM (sub_call (\<lambda>me. c_CallCode C me (Bytes20 addr) args gas (uint val))) (\<lambda>(ret, returnGas, err).
     called retOffset retSize ret returnGas err))))))))))"

definition opDelegateCall :: "'k executionFunc" where
  "opDelegateCall C E = bindM popM (\<lambda>_. bindM call_gas_temp (\<lambda>gas.
     bindM popM (\<lambda>addr. bindM popM (\<lambda>inOffset. bindM popM (\<lambda>inSize.
     bindM popM (\<lambda>retOffset. bindM popM (\<lambda>retSize.
     bindM (m_GetPtr inOffset inSize) (\<lambda>args.
     bindM (sub_call (\<lambda>me. c_DelegateCall C me (Bytes20 addr) args gas)) (\<lambda>(ret, returnGas, err).
     called retOffset retSize ret returnGas err)))))))))"

definition opStaticCall :: "'k executionFunc" where
  "opStaticCall C E = bindM popM (\<lambda>_. bindM call_gas_temp (\<lambda>gas.
     bindM popM (\<lambda>addr. bindM popM (\<lambda>inOffset. bindM popM (\<lambda>inSize.
     bindM popM (\<lambda>retOffset. bindM popM (\<lambda>retSize.
     bindM (m_GetPtr inOffset inSize) (\<lambda>args.
     bindM (sub_call (\<lambda>me. c_StaticCall C me (Bytes20 addr) args gas)) (\<lambda>(ret, returnGas, err).
     called retOffset retSize ret returnGas err)))))))))"

section \<open>The end of a run\<close>

definition opReturn :: "'k executionFunc" where
  "opReturn C E = bindM popM (\<lambda>offset. bindM popM (\<lambda>sz. bindM (m_GetPtr offset sz) (\<lambda>ret.
     failM (ret, errStopToken))))"

definition opRevert :: "'k executionFunc" where
  "opRevert C E = bindM popM (\<lambda>offset. bindM popM (\<lambda>sz. bindM (m_GetPtr offset sz) (\<lambda>ret.
     bindM (set_returnData ret) (\<lambda>_. failM (ret, ErrExecutionReverted)))))"

definition opUndefined :: "'k executionFunc" where
  "opUndefined C E = bindM (getM (\<lambda>s. (fr_pc s, ct_Code (fr_Contract s)))) (\<lambda>(pc, code).
     if pc < int (length code) then errM (ErrInvalidOpCode (code ! nat pc))
     else liftM (Inl (Panicked (GoPanic ''index out of range''))))"

definition opStop :: "'k executionFunc" where "opStop C E = errM errStopToken"

definition opSelfdestruct :: "'k executionFunc" where
  "opSelfdestruct C E = bindM write_protected (\<lambda>_. bindM popM (\<lambda>beneficiary. bindM selfM (\<lambda>addr.
     bindM (on_db (GetBalance (e_keeper E) addr)) (\<lambda>balance.
     bindM (on_db (\<lambda>s. ((), AddBalance (e_keeper E) (Bytes20 beneficiary) balance s))) (\<lambda>_.
     bindM (on_db (Suicide (e_keeper E) addr)) (\<lambda>_. errM errStopToken))))))"

section \<open>Families of instructions\<close>

fun pop_topics :: "nat \<Rightarrow> ('k frame, 'e, hash list) oper" where
  "pop_topics 0 = retM []"
| "pop_topics (Suc n) = bindM popM (\<lambda>topic. bindM (pop_topics n) (\<lambda>topics. retM (topic # topics)))"

definition makeLog :: "nat \<Rightarrow> 'k executionFunc" where
  "makeLog n C E = bindM write_protected (\<lambda>_.
     bindM popM (\<lambda>mStart. bindM popM (\<lambda>mSize. bindM (pop_topics n) (\<lambda>topics.
     bindM (m_GetCopy mStart mSize) (\<lambda>d. bindM selfM (\<lambda>addr.
     bindM (on_db (\<lambda>s. ((), AddLog \<lparr>log_Address = addr, log_Topics = topics, log_Data = d, log_TxHash = 0,
         log_BlockHash = 0, log_TxIndex = 0, log_Index = 0\<rparr> s))) (\<lambda>_. doneM)))))))"

definition opPush1 :: "'k executionFunc" where
  "opPush1 C E = bindM (modM (\<lambda>s. s\<lparr>fr_pc := u64 (fr_pc s + 1)\<rparr>)) (\<lambda>_.
     bindM (getM (\<lambda>s. (fr_pc s, ct_Code (fr_Contract s)))) (\<lambda>(pc, code).
     push_value (if pc < int (length code) then ucast (code ! nat pc) else 0)))"

definition makePush :: "int \<Rightarrow> int \<Rightarrow> 'k executionFunc" where
  "makePush n pushByteSize C E = bindM (getM (\<lambda>s. (fr_pc s, ct_Code (fr_Contract s)))) (\<lambda>(pc, code).
     let codeLen = int (length code);
         next_pc = i64 (u64 (pc + 1));
         startMin = (if next_pc < codeLen then next_pc else codeLen);
         endMin = (if i64 (startMin + pushByteSize) < codeLen then i64 (startMin + pushByteSize) else codeLen)
     in if startMin < 0 \<or> endMin < startMin then liftM (Inl (Panicked (GoPanic ''slice bounds out of range'')))
        else bindM (pushM (SetBytes (RightPadBytes (e_lib E)
               (take (nat (endMin - startMin)) (drop (nat startMin) code)) pushByteSize))) (\<lambda>_.
             bindM (modM (\<lambda>s. s\<lparr>fr_pc := u64 (fr_pc s + n)\<rparr>)) (\<lambda>_. doneM)))"

definition makeDup :: "nat \<Rightarrow> 'k executionFunc" where
  "makeDup n C E = bindM (on_stack (\<lambda>st. rbind (Dup n st) (\<lambda>st1. Inr ((), st1)))) (\<lambda>_. doneM)"

definition makeSwap :: "nat \<Rightarrow> 'k executionFunc" where
  "makeSwap n C E = bindM (on_stack (\<lambda>st. rbind (Swap (n + 1) st) (\<lambda>st1. Inr ((), st1)))) (\<lambda>_. doneM)"

section \<open>Instructions of later EIPs\<close>

definition opSelfBalance :: "'k executionFunc" where
  "opSelfBalance C E = bindM selfM (\<lambda>addr. bindM (on_db (GetBalance (e_keeper E) addr)) (\<lambda>balance.
     push_big (Some balance)))"

definition opChainID :: "'k executionFunc" where "opChainID C E = push_big (e_ChainID E)"
definition opBaseFee :: "'k executionFunc" where "opBaseFee C E = push_big (e_BaseFee E)"
definition opPush0 :: "'k executionFunc" where "opPush0 C E = push_value 0"

end
