(* ===== verification/EvmTable.thy ===== *)
theory EvmTable
  imports EvmInstr
begin

text \<open>
  The instruction tables (x/evm/core/vm: opcodes.go, stack_table.go, jump_table.go, eips.go,
  custom_eip.go): what each byte executes, what it costs, and what it asks of the stack, for each
  fork, built the way the code builds them, each from the one before.

  \<^item> The table is a map; an entry that is not set is Go's nil pointer. The constants of go-ethereum that
    the tables mention are the argument \<open>G\<close>.
  \<^item> \<open>PUSH n\<close>, \<open>DUP n\<close>, \<open>SWAP n\<close> and \<open>LOG n\<close> are the numbered constants of opcodes.go.
\<close>

section \<open>Opcodes\<close>

definition ADD :: byte where "ADD = 0x1"
definition MUL :: byte where "MUL = 0x2"
definition SUB :: byte where "SUB = 0x3"
definition DIV :: byte where "DIV = 0x4"
definition SDIV :: byte where "SDIV = 0x5"
definition MOD :: byte where "MOD = 0x6"
definition SMOD :: byte where "SMOD = 0x7"
definition ADDMOD :: byte where "ADDMOD = 0x8"
definition MULMOD :: byte where "MULMOD = 0x9"
definition EXP :: byte where "EXP = 0xa"
definition SIGNEXTEND :: byte where "SIGNEXTEND = 0xb"
definition LT :: byte where "LT = 0x10"
definition GT :: byte where "GT = 0x11"
definition SLT :: byte where "SLT = 0x12"
definition SGT :: byte where "SGT = 0x13"
definition EQ :: byte where "EQ = 0x14"
definition ISZERO :: byte where "ISZERO = 0x15"
definition AND_op :: byte where "AND_op = 0x16"
definition OR_op :: byte where "OR_op = 0x17"
definition XOR_op :: byte where "XOR_op = 0x18"
definition NOT_op :: byte where "NOT_op = 0x19"
definition BYTE :: byte where "BYTE = 0x1a"
definition SHL :: byte where "SHL = 0x1b"
definition SHR :: byte where "SHR = 0x1c"
definition SAR :: byte where "SAR = 0x1d"
definition KECCAK256 :: byte where "KECCAK256 = 0x20"
definition ADDRESS :: byte where "ADDRESS = 0x30"
definition BALANCE :: byte where "BALANCE = 0x31"
definition ORIGIN :: byte where "ORIGIN = 0x32"
definition CALLER :: byte where "CALLER = 0x33"
definition CALLVALUE :: byte where "CALLVALUE = 0x34"
definition CALLDATALOAD :: byte where "CALLDATALOAD = 0x35"
definition CALLDATASIZE :: byte where "CALLDATASIZE = 0x36"
definition CALLDATACOPY :: byte where "CALLDATACOPY = 0x37"
definition CODESIZE :: byte where "CODESIZE = 0x38"
definition CODECOPY :: byte where "CODECOPY = 0x39"
definition GASPRICE :: byte where "GASPRICE = 0x3a"
definition EXTCODESIZE :: byte where "EXTCODESIZE = 0x3b"
definition EXTCODECOPY :: byte where "EXTCODECOPY = 0x3c"
definition RETURNDATASIZE :: byte where "RETURNDATASIZE = 0x3d"
definition RETURNDATACOPY :: byte where "RETURNDATACOPY = 0x3e"
definition EXTCODEHASH :: byte where "EXTCODEHASH = 0x3f"
definition BLOCKHASH :: byte where "BLOCKHASH = 0x40"
definition COINBASE :: byte where "COINBASE = 0x41"
definition TIMESTAMP :: byte where "TIMESTAMP = 0x42"
definition NUMBER :: byte where "NUMBER = 0x43"
definition DIFFICULTY :: byte where "DIFFICULTY = 0x44"
definition RANDOM :: byte where "RANDOM = 0x44"
definition GASLIMIT :: byte where "GASLIMIT = 0x45"
definition CHAINID :: byte where "CHAINID = 0x46"
definition SELFBALANCE :: byte where "SELFBALANCE = 0x47"
definition BASEFEE :: byte where "BASEFEE = 0x48"
definition POP :: byte where "POP = 0x50"
definition MLOAD :: byte where "MLOAD = 0x51"
definition MSTORE :: byte where "MSTORE = 0x52"
definition MSTORE8 :: byte where "MSTORE8 = 0x53"
definition SLOAD :: byte where "SLOAD = 0x54"
definition SSTORE :: byte where "SSTORE = 0x55"
definition JUMP :: byte where "JUMP = 0x56"
definition JUMPI :: byte where "JUMPI = 0x57"
definition PC :: byte where "PC = 0x58"
definition MSIZE :: byte where "MSIZE = 0x59"
definition GAS :: byte where "GAS = 0x5a"
definition PUSH0 :: byte where "PUSH0 = 0x5f"
definition CREATE :: byte where "CREATE = 0xf0"
definition CALL :: byte where "CALL = 0xf1"
definition CALLCODE :: byte where "CALLCODE = 0xf2"
definition RETURN :: byte where "RETURN = 0xf3"
definition DELEGATECALL :: byte where "DELEGATECALL = 0xf4"
definition CREATE2 :: byte where "CREATE2 = 0xf5"
definition STATICCALL :: byte where "STATICCALL = 0xfa"
definition REVERT :: byte where "REVERT = 0xfd"
definition INVALID :: byte where "INVALID = 0xfe"
definition SELFDESTRUCT :: byte where "SELFDESTRUCT = 0xff"

definition PUSH :: "nat \<Rightarrow> byte" where "PUSH n = 0x60 + of_nat (n - 1)"
definition DUP :: "nat \<Rightarrow> byte" where "DUP n = 0x80 + of_nat (n - 1)"
definition SWAP :: "nat \<Rightarrow> byte" where "SWAP n = 0x90 + of_nat (n - 1)"
definition LOG :: "nat \<Rightarrow> byte" where "LOG n = 0xa0 + of_nat n"

lemmas opcode_defs = STOP_def JUMPDEST_def PUSH1_def
  ADD_def MUL_def SUB_def DIV_def SDIV_def MOD_def SMOD_def ADDMOD_def
  MULMOD_def EXP_def SIGNEXTEND_def LT_def GT_def SLT_def SGT_def EQ_def
  ISZERO_def AND_op_def OR_op_def XOR_op_def NOT_op_def BYTE_def SHL_def SHR_def
  SAR_def KECCAK256_def ADDRESS_def BALANCE_def ORIGIN_def CALLER_def CALLVALUE_def CALLDATALOAD_def
  CALLDATASIZE_def CALLDATACOPY_def CODESIZE_def CODECOPY_def GASPRICE_def EXTCODESIZE_def EXTCODECOPY_def RETURNDATASIZE_def
  RETURNDATACOPY_def EXTCODEHASH_def BLOCKHASH_def COINBASE_def TIMESTAMP_def NUMBER_def DIFFICULTY_def RANDOM_def
  GASLIMIT_def CHAINID_def SELFBALANCE_def BASEFEE_def POP_def MLOAD_def MSTORE_def MSTORE8_def
  SLOAD_def SSTORE_def JUMP_def JUMPI_def PC_def MSIZE_def GAS_def PUSH0_def
  CREATE_def CALL_def CALLCODE_def RETURN_def DELEGATECALL_def CREATE2_def STATICCALL_def REVERT_def
  INVALID_def SELFDESTRUCT_def

text \<open>\<open>OpCode.IsPush\<close>\<close>

definition IsPush :: "byte \<Rightarrow> bool" where
  "IsPush op \<longleftrightarrow> op \<in> set (map PUSH [1..<33])"

section \<open>What an instruction asks of the stack\<close>

definition maxStack :: "(param \<Rightarrow> int) \<Rightarrow> int \<Rightarrow> int \<Rightarrow> int" where
  "maxStack G pops pushes = G StackLimit + pops - pushes"

definition minStack :: "int \<Rightarrow> int \<Rightarrow> int" where
  "minStack pops pushes = pops"

definition minSwapStack :: "int \<Rightarrow> int" where "minSwapStack n = minStack n n"
definition maxSwapStack :: "(param \<Rightarrow> int) \<Rightarrow> int \<Rightarrow> int" where "maxSwapStack G n = maxStack G n n"
definition minDupStack :: "int \<Rightarrow> int" where "minDupStack n = minStack n (n + 1)"
definition maxDupStack :: "(param \<Rightarrow> int) \<Rightarrow> int \<Rightarrow> int" where "maxDupStack G n = maxStack G n (n + 1)"

section \<open>Tables\<close>

record 'k operation =
  execute :: "'k executionFunc"
  constantGas :: int
  dynamicGas :: "'k gasFunc option"
  op_minStack :: int
  op_maxStack :: int
  memorySize :: "memorySizeFunc option"

type_synonym 'k JumpTable = "byte \<Rightarrow> 'k operation option"

definition newOperation ::
  "'k executionFunc \<Rightarrow> int \<Rightarrow> 'k gasFunc option \<Rightarrow> int \<Rightarrow> int \<Rightarrow> memorySizeFunc option \<Rightarrow> 'k operation" where
  "newOperation ex cg dg mins maxs ms = \<lparr>execute = ex, constantGas = cg, dynamicGas = dg,
     op_minStack = mins, op_maxStack = maxs, memorySize = ms\<rparr>"

datatype table_error = OpNotSet nat | NoDynamicGas nat

definition Validate :: "'k JumpTable \<Rightarrow> table_error option" where
  "Validate jt =
     (case filter (\<lambda>i. case jt (of_nat i) of None \<Rightarrow> True
          | Some op \<Rightarrow> memorySize op \<noteq> None \<and> dynamicGas op = None) [0..<256] of
        [] \<Rightarrow> None
      | i # _ \<Rightarrow> Some (if jt (of_nat i) = None then OpNotSet i else NoDynamicGas i))"

definition MustValidate :: "'k JumpTable \<Rightarrow> go_panic + 'k JumpTable" where
  "MustValidate jt = (case Validate jt of
      None \<Rightarrow> Inr jt
    | Some (OpNotSet i) \<Rightarrow> Inl (GoPanic ''op is not set'')
    | Some (NoDynamicGas i) \<Rightarrow> Inl (GoPanic ''op has dynamic memory but not dynamic gas''))"

text \<open>\<open>jt[op] = &operation{...}\<close>, and an assignment to a field of \<open>jt[op]\<close>.\<close>

definition set_op :: "byte \<Rightarrow> 'k operation \<Rightarrow> 'k JumpTable \<Rightarrow> 'k JumpTable" where
  "set_op b op jt = jt(b \<mapsto> op)"

definition change_op :: "byte \<Rightarrow> ('k operation \<Rightarrow> 'k operation) \<Rightarrow> 'k JumpTable \<Rightarrow> go_panic + 'k JumpTable" where
  "change_op b f jt = (case jt b of None \<Rightarrow> Inl nil_deref | Some op \<Rightarrow> Inr (jt(b \<mapsto> f op)))"

definition set_constantGas :: "byte \<Rightarrow> int \<Rightarrow> 'k JumpTable \<Rightarrow> go_panic + 'k JumpTable" where
  "set_constantGas b gas = change_op b (\<lambda>op. op\<lparr>constantGas := gas\<rparr>)"

definition set_dynamicGas :: "byte \<Rightarrow> 'k gasFunc \<Rightarrow> 'k JumpTable \<Rightarrow> go_panic + 'k JumpTable" where
  "set_dynamicGas b gf = change_op b (\<lambda>op. op\<lparr>dynamicGas := Some gf\<rparr>)"


definition frontier_arith :: "(param \<Rightarrow> int) \<Rightarrow> (byte \<times> 'k operation) list" where
  "frontier_arith G =
    [(STOP, newOperation opStop 0 None (minStack 0 0) (maxStack G 0 0) None),
     (ADD, newOperation opAdd GasFastestStep None (minStack 2 1) (maxStack G 2 1) None),
     (MUL, newOperation opMul GasFastStep None (minStack 2 1) (maxStack G 2 1) None),
     (SUB, newOperation opSub GasFastestStep None (minStack 2 1) (maxStack G 2 1) None),
     (DIV, newOperation opDiv GasFastStep None (minStack 2 1) (maxStack G 2 1) None),
     (SDIV, newOperation opSdiv GasFastStep None (minStack 2 1) (maxStack G 2 1) None),
     (MOD, newOperation opMod GasFastStep None (minStack 2 1) (maxStack G 2 1) None),
     (SMOD, newOperation opSmod GasFastStep None (minStack 2 1) (maxStack G 2 1) None),
     (ADDMOD, newOperation opAddmod GasMidStep None (minStack 3 1) (maxStack G 3 1) None),
     (MULMOD, newOperation opMulmod GasMidStep None (minStack 3 1) (maxStack G 3 1) None),
     (EXP, newOperation opExp 0 (Some gasExpFrontier) (minStack 2 1) (maxStack G 2 1) None),
     (SIGNEXTEND, newOperation opSignExtend GasFastStep None (minStack 2 1) (maxStack G 2 1) None),
     (LT, newOperation opLt GasFastestStep None (minStack 2 1) (maxStack G 2 1) None),
     (GT, newOperation opGt GasFastestStep None (minStack 2 1) (maxStack G 2 1) None),
     (SLT, newOperation opSlt GasFastestStep None (minStack 2 1) (maxStack G 2 1) None),
     (SGT, newOperation opSgt GasFastestStep None (minStack 2 1) (maxStack G 2 1) None),
     (EQ, newOperation opEq GasFastestStep None (minStack 2 1) (maxStack G 2 1) None),
     (ISZERO, newOperation opIszero GasFastestStep None (minStack 1 1) (maxStack G 1 1) None),
     (AND_op, newOperation opAnd GasFastestStep None (minStack 2 1) (maxStack G 2 1) None),
     (XOR_op, newOperation opXor GasFastestStep None (minStack 2 1) (maxStack G 2 1) None),
     (OR_op, newOperation opOr GasFastestStep None (minStack 2 1) (maxStack G 2 1) None),
     (NOT_op, newOperation opNot GasFastestStep None (minStack 1 1) (maxStack G 1 1) None),
     (BYTE, newOperation opByte GasFastestStep None (minStack 2 1) (maxStack G 2 1) None),
     (KECCAK256, newOperation opKeccak256 (G Keccak256Gas) (Some gasKeccak256) (minStack 2 1) (maxStack G 2 1) (Some memoryKeccak256))]"

definition frontier_context :: "(param \<Rightarrow> int) \<Rightarrow> (byte \<times> 'k operation) list" where
  "frontier_context G =
    [(ADDRESS, newOperation opAddress GasQuickStep None (minStack 0 1) (maxStack G 0 1) None),
     (BALANCE, newOperation opBalance (G BalanceGasFrontier) None (minStack 1 1) (maxStack G 1 1) None),
     (ORIGIN, newOperation opOrigin GasQuickStep None (minStack 0 1) (maxStack G 0 1) None),
     (CALLER, newOperation opCaller GasQuickStep None (minStack 0 1) (maxStack G 0 1) None),
     (CALLVALUE, newOperation opCallValue GasQuickStep None (minStack 0 1) (maxStack G 0 1) None),
     (CALLDATALOAD, newOperation opCallDataLoad GasFastestStep None (minStack 1 1) (maxStack G 1 1) None),
     (CALLDATASIZE, newOperation opCallDataSize GasQuickStep None (minStack 0 1) (maxStack G 0 1) None),
     (CALLDATACOPY, newOperation opCallDataCopy GasFastestStep (Some gasCallDataCopy) (minStack 3 0) (maxStack G 3 0) (Some memoryCallDataCopy)),
     (CODESIZE, newOperation opCodeSize GasQuickStep None (minStack 0 1) (maxStack G 0 1) None),
     (CODECOPY, newOperation opCodeCopy GasFastestStep (Some gasCodeCopy) (minStack 3 0) (maxStack G 3 0) (Some memoryCodeCopy)),
     (GASPRICE, newOperation opGasprice GasQuickStep None (minStack 0 1) (maxStack G 0 1) None),
     (EXTCODESIZE, newOperation opExtCodeSize (G ExtcodeSizeGasFrontier) None (minStack 1 1) (maxStack G 1 1) None),
     (EXTCODECOPY, newOperation opExtCodeCopy (G ExtcodeCopyBaseFrontier) (Some gasExtCodeCopy) (minStack 4 0) (maxStack G 4 0) (Some memoryExtCodeCopy)),
     (BLOCKHASH, newOperation opBlockhash GasExtStep None (minStack 1 1) (maxStack G 1 1) None),
     (COINBASE, newOperation opCoinbase GasQuickStep None (minStack 0 1) (maxStack G 0 1) None),
     (TIMESTAMP, newOperation opTimestamp GasQuickStep None (minStack 0 1) (maxStack G 0 1) None),
     (NUMBER, newOperation opNumber GasQuickStep None (minStack 0 1) (maxStack G 0 1) None),
     (DIFFICULTY, newOperation opDifficulty GasQuickStep None (minStack 0 1) (maxStack G 0 1) None),
     (GASLIMIT, newOperation opGasLimit GasQuickStep None (minStack 0 1) (maxStack G 0 1) None)]"

definition frontier_memory :: "(param \<Rightarrow> int) \<Rightarrow> (byte \<times> 'k operation) list" where
  "frontier_memory G =
    [(POP, newOperation opPop GasQuickStep None (minStack 1 0) (maxStack G 1 0) None),
     (MLOAD, newOperation opMload GasFastestStep (Some gasMLoad) (minStack 1 1) (maxStack G 1 1) (Some memoryMLoad)),
     (MSTORE, newOperation opMstore GasFastestStep (Some gasMStore) (minStack 2 0) (maxStack G 2 0) (Some memoryMStore)),
     (MSTORE8, newOperation opMstore8 GasFastestStep (Some gasMStore8) (minStack 2 0) (maxStack G 2 0) (Some memoryMStore8)),
     (SLOAD, newOperation opSload (G SloadGasFrontier) None (minStack 1 1) (maxStack G 1 1) None),
     (SSTORE, newOperation opSstore 0 (Some gasSStore) (minStack 2 0) (maxStack G 2 0) None),
     (JUMP, newOperation opJump GasMidStep None (minStack 1 0) (maxStack G 1 0) None),
     (JUMPI, newOperation opJumpi GasSlowStep None (minStack 2 0) (maxStack G 2 0) None),
     (PC, newOperation opPc GasQuickStep None (minStack 0 1) (maxStack G 0 1) None),
     (MSIZE, newOperation opMsize GasQuickStep None (minStack 0 1) (maxStack G 0 1) None),
     (GAS, newOperation opGas GasQuickStep None (minStack 0 1) (maxStack G 0 1) None),
     (JUMPDEST, newOperation opJumpdest (G JumpdestGas) None (minStack 0 0) (maxStack G 0 0) None)]"

definition frontier_push_low :: "(param \<Rightarrow> int) \<Rightarrow> (byte \<times> 'k operation) list" where
  "frontier_push_low G =
     (PUSH1, newOperation opPush1 GasFastestStep None (minStack 0 1) (maxStack G 0 1) None) #
     map (\<lambda>n. (PUSH n, newOperation (makePush (int n) (int n)) GasFastestStep None (minStack 0 1) (maxStack G 0 1) None))
       [2..<17]"

definition frontier_push_high :: "(param \<Rightarrow> int) \<Rightarrow> (byte \<times> 'k operation) list" where
  "frontier_push_high G =
     map (\<lambda>n. (PUSH n, newOperation (makePush (int n) (int n)) GasFastestStep None (minStack 0 1) (maxStack G 0 1) None))
       [17..<33]"

definition frontier_dup :: "(param \<Rightarrow> int) \<Rightarrow> (byte \<times> 'k operation) list" where
  "frontier_dup G =
     map (\<lambda>n. (DUP n, newOperation (makeDup n) GasFastestStep None (minDupStack (int n)) (maxDupStack G (int n)) None))
       [1..<17]"

definition frontier_swap :: "(param \<Rightarrow> int) \<Rightarrow> (byte \<times> 'k operation) list" where
  "frontier_swap G =
     map (\<lambda>n. (SWAP n, newOperation (makeSwap n) GasFastestStep None (minSwapStack (int n + 1)) (maxSwapStack G (int n + 1)) None))
       [1..<17]"

definition frontier_system :: "(param \<Rightarrow> int) \<Rightarrow> (byte \<times> 'k operation) list" where
  "frontier_system G =
    [((LOG 0), newOperation (makeLog 0) 0 (Some (makeGasLog 0)) (minStack 2 0) (maxStack G 2 0) (Some memoryLog)),
     ((LOG 1), newOperation (makeLog 1) 0 (Some (makeGasLog 1)) (minStack 3 0) (maxStack G 3 0) (Some memoryLog)),
     ((LOG 2), newOperation (makeLog 2) 0 (Some (makeGasLog 2)) (minStack 4 0) (maxStack G 4 0) (Some memoryLog)),
     ((LOG 3), newOperation (makeLog 3) 0 (Some (makeGasLog 3)) (minStack 5 0) (maxStack G 5 0) (Some memoryLog)),
     ((LOG 4), newOperation (makeLog 4) 0 (Some (makeGasLog 4)) (minStack 6 0) (maxStack G 6 0) (Some memoryLog)),
     (CREATE, newOperation opCreate (G CreateGas) (Some gasCreate) (minStack 3 1) (maxStack G 3 1) (Some memoryCreate)),
     (CALL, newOperation opCall (G CallGasFrontier) (Some gasCall) (minStack 7 1) (maxStack G 7 1) (Some memoryCall)),
     (CALLCODE, newOperation opCallCode (G CallGasFrontier) (Some gasCallCode) (minStack 7 1) (maxStack G 7 1) (Some memoryCall)),
     (RETURN, newOperation opReturn 0 (Some gasReturn) (minStack 2 0) (maxStack G 2 0) (Some memoryReturn)),
     (SELFDESTRUCT, newOperation opSelfdestruct 0 (Some gasSelfdestruct) (minStack 1 0) (maxStack G 1 0) None)]"

text \<open>The array literal, and the loop that fills the unassigned slots.\<close>

definition undefined_op :: "(param \<Rightarrow> int) \<Rightarrow> 'k operation" where
  "undefined_op G = newOperation opUndefined 0 None 0 (maxStack G 0 0) None"

definition newFrontierInstructionSet :: "(param \<Rightarrow> int) \<Rightarrow> go_panic + 'k JumpTable" where
  "newFrontierInstructionSet G =
     (let tbl = map_of (frontier_arith G @ frontier_context G @ frontier_memory G @ frontier_push_low G @
            frontier_push_high G @ frontier_dup G @ frontier_swap G @ frontier_system G)
      in MustValidate (\<lambda>b. case tbl b of None \<Rightarrow> Some (undefined_op G) | Some op \<Rightarrow> Some op))"

definition newHomesteadInstructionSet :: "(param \<Rightarrow> int) \<Rightarrow> go_panic + 'k JumpTable" where
  "newHomesteadInstructionSet G = rbind (newFrontierInstructionSet G) (\<lambda>jt.
     MustValidate (set_op DELEGATECALL (newOperation opDelegateCall (G CallGasFrontier) (Some gasDelegateCall)
       (minStack 6 1) (maxStack G 6 1) (Some memoryDelegateCall)) jt))"

definition newTangerineWhistleInstructionSet :: "(param \<Rightarrow> int) \<Rightarrow> go_panic + 'k JumpTable" where
  "newTangerineWhistleInstructionSet G = rbind (newHomesteadInstructionSet G) (\<lambda>jt.
     rbind (set_constantGas BALANCE (G BalanceGasEIP150) jt) (\<lambda>jt.
     rbind (set_constantGas EXTCODESIZE (G ExtcodeSizeGasEIP150) jt) (\<lambda>jt.
     rbind (set_constantGas SLOAD (G SloadGasEIP150) jt) (\<lambda>jt.
     rbind (set_constantGas EXTCODECOPY (G ExtcodeCopyBaseEIP150) jt) (\<lambda>jt.
     rbind (set_constantGas CALL (G CallGasEIP150) jt) (\<lambda>jt.
     rbind (set_constantGas CALLCODE (G CallGasEIP150) jt) (\<lambda>jt.
     rbind (set_constantGas DELEGATECALL (G CallGasEIP150) jt) MustValidate)))))))"

definition newSpuriousDragonInstructionSet :: "(param \<Rightarrow> int) \<Rightarrow> go_panic + 'k JumpTable" where
  "newSpuriousDragonInstructionSet G = rbind (newTangerineWhistleInstructionSet G) (\<lambda>jt.
     rbind (set_dynamicGas EXP gasExpEIP158 jt) MustValidate)"

definition newByzantiumInstructionSet :: "(param \<Rightarrow> int) \<Rightarrow> go_panic + 'k JumpTable" where
  "newByzantiumInstructionSet G = rbind (newSpuriousDragonInstructionSet G) (\<lambda>jt.
     let jt = set_op STATICCALL (newOperation opStaticCall (G CallGasEIP150) (Some gasStaticCall)
           (minStack 6 1) (maxStack G 6 1) (Some memoryStaticCall)) jt;
         jt = set_op RETURNDATASIZE (newOperation opReturnDataSize GasQuickStep None
           (minStack 0 1) (maxStack G 0 1) None) jt;
         jt = set_op RETURNDATACOPY (newOperation opReturnDataCopy GasFastestStep (Some gasReturnDataCopy)
           (minStack 3 0) (maxStack G 3 0) (Some memoryReturnDataCopy)) jt;
         jt = set_op REVERT (newOperation opRevert 0 (Some gasRevert)
           (minStack 2 0) (maxStack G 2 0) (Some memoryRevert)) jt
     in MustValidate jt)"

definition newConstantinopleInstructionSet :: "(param \<Rightarrow> int) \<Rightarrow> go_panic + 'k JumpTable" where
  "newConstantinopleInstructionSet G = rbind (newByzantiumInstructionSet G) (\<lambda>jt.
     let jt = set_op SHL (newOperation opSHL GasFastestStep None (minStack 2 1) (maxStack G 2 1) None) jt;
         jt = set_op SHR (newOperation opSHR GasFastestStep None (minStack 2 1) (maxStack G 2 1) None) jt;
         jt = set_op SAR (newOperation opSAR GasFastestStep None (minStack 2 1) (maxStack G 2 1) None) jt;
         jt = set_op EXTCODEHASH (newOperation opExtCodeHash (G ExtcodeHashGasConstantinople) None
           (minStack 1 1) (maxStack G 1 1) None) jt;
         jt = set_op CREATE2 (newOperation opCreate2 (G Create2Gas) (Some gasCreate2)
           (minStack 4 1) (maxStack G 4 1) (Some memoryCreate2)) jt
     in MustValidate jt)"

section \<open>EIPs\<close>

definition enable1884 :: "(param \<Rightarrow> int) \<Rightarrow> 'k JumpTable \<Rightarrow> go_panic + 'k JumpTable" where
  "enable1884 G jt =
     rbind (set_constantGas SLOAD (G SloadGasEIP1884) jt) (\<lambda>jt.
     rbind (set_constantGas BALANCE (G BalanceGasEIP1884) jt) (\<lambda>jt.
     rbind (set_constantGas EXTCODEHASH (G ExtcodeHashGasEIP1884) jt) (\<lambda>jt.
     Inr (set_op SELFBALANCE (newOperation opSelfBalance GasFastStep None (minStack 0 1) (maxStack G 0 1) None) jt))))"

definition enable1344 :: "(param \<Rightarrow> int) \<Rightarrow> 'k JumpTable \<Rightarrow> go_panic + 'k JumpTable" where
  "enable1344 G jt =
     Inr (set_op CHAINID (newOperation opChainID GasQuickStep None (minStack 0 1) (maxStack G 0 1) None) jt)"

definition enable2200 :: "(param \<Rightarrow> int) \<Rightarrow> 'k JumpTable \<Rightarrow> go_panic + 'k JumpTable" where
  "enable2200 G jt =
     rbind (set_constantGas SLOAD (G SloadGasEIP2200) jt) (set_dynamicGas SSTORE gasSStoreEIP2200)"

definition enable2929 :: "(param \<Rightarrow> int) \<Rightarrow> 'k JumpTable \<Rightarrow> go_panic + 'k JumpTable" where
  "enable2929 G jt =
     rbind (set_dynamicGas SSTORE gasSStoreEIP2929 jt) (\<lambda>jt.
     rbind (set_constantGas SLOAD 0 jt) (\<lambda>jt.
     rbind (set_dynamicGas SLOAD gasSLoadEIP2929 jt) (\<lambda>jt.
     rbind (set_constantGas EXTCODECOPY (G WarmStorageReadCostEIP2929) jt) (\<lambda>jt.
     rbind (set_dynamicGas EXTCODECOPY gasExtCodeCopyEIP2929 jt) (\<lambda>jt.
     rbind (set_constantGas EXTCODESIZE (G WarmStorageReadCostEIP2929) jt) (\<lambda>jt.
     rbind (set_dynamicGas EXTCODESIZE gasEip2929AccountCheck jt) (\<lambda>jt.
     rbind (set_constantGas EXTCODEHASH (G WarmStorageReadCostEIP2929) jt) (\<lambda>jt.
     rbind (set_dynamicGas EXTCODEHASH gasEip2929AccountCheck jt) (\<lambda>jt.
     rbind (set_constantGas BALANCE (G WarmStorageReadCostEIP2929) jt) (\<lambda>jt.
     rbind (set_dynamicGas BALANCE gasEip2929AccountCheck jt) (\<lambda>jt.
     rbind (set_constantGas CALL (G WarmStorageReadCostEIP2929) jt) (\<lambda>jt.
     rbind (set_dynamicGas CALL gasCallEIP2929 jt) (\<lambda>jt.
     rbind (set_constantGas CALLCODE (G WarmStorageReadCostEIP2929) jt) (\<lambda>jt.
     rbind (set_dynamicGas CALLCODE gasCallCodeEIP2929 jt) (\<lambda>jt.
     rbind (set_constantGas STATICCALL (G WarmStorageReadCostEIP2929) jt) (\<lambda>jt.
     rbind (set_dynamicGas STATICCALL gasStaticCallEIP2929 jt) (\<lambda>jt.
     rbind (set_constantGas DELEGATECALL (G WarmStorageReadCostEIP2929) jt) (\<lambda>jt.
     rbind (set_dynamicGas DELEGATECALL gasDelegateCallEIP2929 jt) (\<lambda>jt.
     rbind (set_constantGas SELFDESTRUCT (G SelfdestructGasEIP150) jt) (\<lambda>jt.
     set_dynamicGas SELFDESTRUCT gasSelfdestructEIP2929 jt))))))))))))))))))))"

definition enable3529 :: "(param \<Rightarrow> int) \<Rightarrow> 'k JumpTable \<Rightarrow> go_panic + 'k JumpTable" where
  "enable3529 G jt =
     rbind (set_dynamicGas SSTORE gasSStoreEIP3529 jt) (set_dynamicGas SELFDESTRUCT gasSelfdestructEIP3529)"

definition enable3198 :: "(param \<Rightarrow> int) \<Rightarrow> 'k JumpTable \<Rightarrow> go_panic + 'k JumpTable" where
  "enable3198 G jt =
     Inr (set_op BASEFEE (newOperation opBaseFee GasQuickStep None (minStack 0 1) (maxStack G 0 1) None) jt)"

definition enable3855 :: "(param \<Rightarrow> int) \<Rightarrow> 'k JumpTable \<Rightarrow> go_panic + 'k JumpTable" where
  "enable3855 G jt =
     Inr (set_op PUSH0 (newOperation opPush0 GasQuickStep None (minStack 0 1) (maxStack G 0 1) None) jt)"

section \<open>Forks\<close>

definition newIstanbulInstructionSet :: "(param \<Rightarrow> int) \<Rightarrow> go_panic + 'k JumpTable" where
  "newIstanbulInstructionSet G = rbind (newConstantinopleInstructionSet G) (\<lambda>jt.
     rbind (enable1344 G jt) (\<lambda>jt. rbind (enable1884 G jt) (\<lambda>jt. rbind (enable2200 G jt) MustValidate)))"

definition newBerlinInstructionSet :: "(param \<Rightarrow> int) \<Rightarrow> go_panic + 'k JumpTable" where
  "newBerlinInstructionSet G = rbind (newIstanbulInstructionSet G) (\<lambda>jt. rbind (enable2929 G jt) MustValidate)"

definition newLondonInstructionSet :: "(param \<Rightarrow> int) \<Rightarrow> go_panic + 'k JumpTable" where
  "newLondonInstructionSet G = rbind (newBerlinInstructionSet G) (\<lambda>jt.
     rbind (enable3529 G jt) (\<lambda>jt. rbind (enable3198 G jt) MustValidate))"

definition newMergeInstructionSet :: "(param \<Rightarrow> int) \<Rightarrow> go_panic + 'k JumpTable" where
  "newMergeInstructionSet G = rbind (newLondonInstructionSet G) (\<lambda>jt.
     MustValidate (set_op RANDOM (newOperation opRandom GasQuickStep None (minStack 0 1) (maxStack G 0 1) None) jt))"

definition DefaultJumpTable :: "(param \<Rightarrow> int) \<Rightarrow> rules \<Rightarrow> go_panic + 'k JumpTable" where
  "DefaultJumpTable G rules =
     (if IsMerge rules then newMergeInstructionSet G
      else if IsLondon rules then newLondonInstructionSet G
      else if IsBerlin rules then newBerlinInstructionSet G
      else if IsIstanbul rules then newIstanbulInstructionSet G
      else if IsConstantinople rules then newConstantinopleInstructionSet G
      else if IsByzantium rules then newByzantiumInstructionSet G
      else if IsEIP158 rules then newSpuriousDragonInstructionSet G
      else if IsEIP150 rules then newTangerineWhistleInstructionSet G
      else if IsHomestead rules then newHomesteadInstructionSet G
      else newFrontierInstructionSet G)"

section \<open>Extra EIPs\<close>

text \<open>The activators of eips.go; \<open>ExtendActivators\<close> adds to them, and refuses a name that is taken.\<close>

type_synonym 'k activator_map = "(string \<times> ('k JumpTable \<Rightarrow> go_panic + 'k JumpTable)) list"

definition activators :: "(param \<Rightarrow> int) \<Rightarrow> 'k activator_map" where
  "activators G =
     [(''ethereum_3855'', enable3855 G), (''ethereum_3529'', enable3529 G), (''ethereum_3198'', enable3198 G),
      (''ethereum_2929'', enable2929 G), (''ethereum_2200'', enable2200 G), (''ethereum_1884'', enable1884 G),
      (''ethereum_1344'', enable1344 G)]"

definition ExistsEipActivator :: "'k activator_map \<Rightarrow> string \<Rightarrow> bool" where
  "ExistsEipActivator acts eipName \<longleftrightarrow> map_of acts eipName \<noteq> None"

definition EnableEIP :: "'k activator_map \<Rightarrow> string \<Rightarrow> 'k JumpTable \<Rightarrow> go_panic + string option \<times> 'k JumpTable" where
  "EnableEIP acts eipName jt = (case map_of acts eipName of
      None \<Rightarrow> Inr (Some (''undefined eip '' @ eipName), jt)
    | Some enablerFn \<Rightarrow> rbind (enablerFn jt) (\<lambda>jt. Inr (None, jt)))"

definition ActivateableEips :: "'k activator_map \<Rightarrow> string list" where
  "ActivateableEips acts = sort (map fst acts)"

definition ExtendActivators :: "'k activator_map \<Rightarrow> 'k activator_map \<Rightarrow> string + 'k activator_map" where
  "ExtendActivators eips acts =
     (if \<exists>k \<in> set (map fst eips). ExistsEipActivator acts k then Inl ''duplicate activation''
      else Inr (sort_key fst eips @ acts))"


section \<open>The table of an interpreter\<close>

text \<open>
  The loop of \<open>NewEVMInterpreter\<close> over the extra EIPs. \<open>range\<close> walks the array with the length it had
  at the start, while \<open>append(eips[:i], eips[i+1:]...)\<close> moves the rest of the slice one place down in
  that same array: \<open>eips\<close> is the array, \<open>m\<close> the length of the slice \<open>cfg.ExtraEips\<close>.
\<close>

definition archive_eip :: string where
  "archive_eip = [CHR 0x8F, CHR 0x1E]"

function enable_eips :: "'k activator_map \<Rightarrow> nat \<Rightarrow> string list \<Rightarrow> nat \<Rightarrow> 'k JumpTable
    \<Rightarrow> go_panic + string list \<times> 'k JumpTable" where
  "enable_eips acts i eips m jt =
     (if i \<ge> length eips then Inr (take m eips, jt)
      else let eip = (if m = 1 \<and> eips ! i = archive_eip then ''ethereum_3855'' else eips ! i)
        in rbind (EnableEIP acts eip jt) (\<lambda>(err, jt1).
           if err = None then enable_eips acts (i + 1) eips m jt1
           else if i + 1 \<le> m then
             enable_eips acts (i + 1)
               (take i eips @ take (m - (i + 1)) (drop (i + 1) eips) @ drop (m - 1) eips) (m - 1) jt1
           else Inl (GoPanic ''slice bounds out of range'')))"
  by pat_completeness auto
termination
  by (relation "measure (\<lambda>(acts, i, eips, m, jt). length eips - i)") (auto simp: min_def)

declare enable_eips.simps [simp del]

definition NewEVMInterpreter_table :: "(param \<Rightarrow> int) \<Rightarrow> 'k activator_map \<Rightarrow> rules \<Rightarrow> 'k JumpTable option \<Rightarrow> string list
    \<Rightarrow> go_panic + string list \<times> 'k JumpTable" where
  "NewEVMInterpreter_table G acts rules jt eips = (case jt of
      Some jt \<Rightarrow> Inr (eips, jt)
    | None \<Rightarrow> rbind (DefaultJumpTable G rules) (\<lambda>jt. enable_eips acts 0 eips (length eips) jt))"

text \<open>
  An unknown EIP that is followed by others hides the next one, and a second one at the end is a panic.
\<close>

definition enable_all :: "'k activator_map \<Rightarrow> string list \<Rightarrow> 'k JumpTable \<Rightarrow> go_panic + 'k JumpTable" where
  "enable_all acts = fold_res (\<lambda>eip jt. rbind (EnableEIP acts eip jt) (\<lambda>(_, jt1). Inr jt1))"

lemma EnableEIP_known: "ExistsEipActivator acts eip \<Longrightarrow> EnableEIP acts eip jt = Inr (err, jt1) \<Longrightarrow> err = None"
  by (auto simp: ExistsEipActivator_def EnableEIP_def)

lemma enable_eips_known:
  assumes "\<forall>eip \<in> set eips. ExistsEipActivator acts eip" and "archive_eip \<notin> set eips"
  shows "enable_eips acts i eips (length eips) jt =
    rbind (enable_all acts (drop i eips) jt) (\<lambda>jt1. Inr (eips, jt1))"
proof (induction "length eips - i" arbitrary: i jt)
  case 0
  then show ?case by (subst enable_eips.simps) (simp add: enable_all_def)
next
  case (Suc n)
  then have i: "i < length eips" by simp
  then have mem: "eips ! i \<in> set eips" by simp
  then have arch: "eips ! i \<noteq> archive_eip" using assms(2) by metis
  have drop: "drop i eips = eips ! i # drop (i + 1) eips" using i by (simp add: Cons_nth_drop_Suc)
  show ?case
  proof (cases "EnableEIP acts (eips ! i) jt")
    case (Inl p)
    with i arch show ?thesis by (subst enable_eips.simps) (simp add: drop enable_all_def Let_def)
  next
    case (Inr r)
    obtain err jt1 where r: "r = (err, jt1)" by (cases r)
    have "err = None" using EnableEIP_known assms(1) mem Inr r by blast
    moreover have "enable_eips acts (i + 1) eips (length eips) jt1 =
        rbind (enable_all acts (drop (i + 1) eips) jt1) (\<lambda>jt1. Inr (eips, jt1))"
      by (rule Suc(1)) (use Suc(2) in simp)
    ultimately show ?thesis using i arch Inr r
      by (subst enable_eips.simps) (simp add: drop enable_all_def Let_def)
  qed
qed

end
