(* ===== verification/EvmRun.thy ===== *)
theory EvmRun
  imports EvmTable
begin

text \<open>
  The interpreter and the machine around it (x/evm/core/vm: interpreter.go, evm.go, opcode_hooks.go,
  and RunPrecompiledContract of contracts.go).

  \<^item> \<open>run_step\<close> is one turn of the loop, \<open>run_loop\<close> the loop with a bound on its turns, and \<open>Run\<close> sets
    the bound to one more than the gas of the contract: every turn that goes on has used some.
  \<^item> The interpreter and the calls of EVM are mutually recursive. A call is defined over the function
    that runs a contract, and \<open>evm_run\<close> closes the knot with a bound on the depth.
  \<^item> Tracing (Config.Debug) is left out: it reads the state and changes nothing.
\<close>

section \<open>The interpreter\<close>

definition errs_to :: "'e2 \<Rightarrow> ('s, 'e1, 'a) oper \<Rightarrow> ('s, 'e2, 'a) oper" where
  "errs_to e m = (\<lambda>s. case m s of
      Inl p \<Rightarrow> Inl p
    | Inr (Inl _, s1) \<Rightarrow> Inr (Inl e, s1)
    | Inr (Inr x, s1) \<Rightarrow> Inr (Inr x, s1))"

definition required_memory :: "'k evm_env \<Rightarrow> memorySizeFunc option \<Rightarrow> ('k frame, bytes \<times> evm_error, int) oper" where
  "required_memory E ms = (case ms of
      None \<Rightarrow> retM 0
    | Some f \<Rightarrow> bindM (getM (\<lambda>s. f (fr_Stack s))) (\<lambda>r. bindM (liftM r) (\<lambda>(memSize, overflow).
        if overflow then errM ErrGasUintOverflow
        else case SafeMul (e_lib E) (toWordSize memSize) 32 of (sz, overflow) \<Rightarrow>
          if overflow then errM ErrGasUintOverflow else retM sz)))"

definition charge_dynamic :: "'k evm_env \<Rightarrow> 'k operation \<Rightarrow> ('k frame, bytes \<times> evm_error, unit) oper" where
  "charge_dynamic E op = (case dynamicGas op of
      None \<Rightarrow> retM ()
    | Some dg \<Rightarrow>
        bindM (required_memory E (memorySize op)) (\<lambda>sz.
        bindM (errs_to ([], ErrOutOfGas) (dg E sz)) (\<lambda>dynamicCost.
        bindM (use_gas dynamicCost) (\<lambda>ok. if \<not> ok then errM ErrOutOfGas
        else if sz > 0 then modM (\<lambda>s. s\<lparr>fr_Memory := mem_Resize sz (fr_Memory s)\<rparr>)
        else retM ()))))"

definition run_operation :: "'k callee \<Rightarrow> 'k evm_env \<Rightarrow> 'k operation \<Rightarrow> ('k frame, bytes \<times> evm_error, bytes) oper" where
  "run_operation C E operation =
     bindM (getM (\<lambda>s. length (fr_Stack s))) (\<lambda>sLen.
     if int sLen < op_minStack operation then errM (ErrStackUnderflow sLen (op_minStack operation))
     else if int sLen > op_maxStack operation then errM (ErrStackOverflow sLen (op_maxStack operation))
     else bindM (use_gas (constantGas operation)) (\<lambda>ok. if \<not> ok then errM ErrOutOfGas
     else bindM (charge_dynamic E operation) (\<lambda>_.
       bindM (execute operation C E) (\<lambda>res.
       bindM (modM (\<lambda>s. s\<lparr>fr_pc := u64 (fr_pc s + 1)\<rparr>)) (\<lambda>_. retM res)))))"

definition run_step :: "'k callee \<Rightarrow> 'k evm_env \<Rightarrow> 'k JumpTable \<Rightarrow> ('k frame, bytes \<times> evm_error, bytes) oper" where
  "run_step C E jt =
     bindM (getM (\<lambda>s. GetOp (fr_Contract s) (fr_pc s))) (\<lambda>op.
     case jt op of None \<Rightarrow> liftM (Inl (Panicked nil_deref)) | Some operation \<Rightarrow> run_operation C E operation)"

fun run_loop :: "'k callee \<Rightarrow> 'k evm_env \<Rightarrow> 'k JumpTable \<Rightarrow> nat \<Rightarrow> 'k frame
    \<Rightarrow> evm_stop + (bytes \<times> evm_error) \<times> 'k frame" where
  "run_loop C E jt 0 s = Inl NoFuel"
| "run_loop C E jt (Suc n) s = (case run_step C E jt s of
      Inl p \<Rightarrow> Inl p
    | Inr (Inl (res, err), s1) \<Rightarrow> Inr ((res, err), s1)
    | Inr (Inr _, s1) \<Rightarrow> run_loop C E jt n s1)"

type_synonym 'k runner = "Contract \<Rightarrow> bytes \<Rightarrow> bool \<Rightarrow> 'k evm
    \<Rightarrow> evm_stop + (bytes \<times> evm_error option) \<times> Contract \<times> 'k evm"

definition Run :: "'k callee \<Rightarrow> 'k evm_env \<Rightarrow> 'k JumpTable \<Rightarrow> 'k runner" where
  "Run C E jt contract input readOnly evm0 =
     (let entered = readOnly \<and> \<not> ev_readOnly evm0;
          evm1 = evm0\<lparr>ev_depth := ev_depth evm0 + 1, ev_readOnly := ev_readOnly evm0 \<or> readOnly, ev_returnData := []\<rparr>;
          leave = (\<lambda>evm. evm\<lparr>ev_depth := ev_depth evm - 1, ev_readOnly := (if entered then False else ev_readOnly evm)\<rparr>)
      in if ct_Code contract = [] then Inr (([], None), contract, leave evm1)
         else case run_loop C E jt (Suc (nat (ct_Gas contract)))
               \<lparr>fr_pc = 0, fr_evm = evm1, fr_Memory = NewMemory, fr_Stack = [],
                fr_Contract = contract\<lparr>ct_Input := input\<rparr>\<rparr> of
             Inl p \<Rightarrow> Inl p
           | Inr ((res, err), s) \<Rightarrow>
               Inr ((res, if err = errStopToken then None else Some err), fr_Contract s, leave (fr_evm s)))"

section \<open>Precompiled contracts\<close>

definition RunPrecompiledContract ::
  "'k precompile \<Rightarrow> ContractRef \<Rightarrow> bytes \<Rightarrow> int \<Rightarrow> int option \<Rightarrow> bool \<Rightarrow> 'k evm
     \<Rightarrow> evm_stop + (bytes \<times> int \<times> evm_error option) \<times> 'k evm" where
  "RunPrecompiledContract p caller input suppliedGas val readOnly evm =
     (let contract = (NewPrecompile caller (pc_Address p) val suppliedGas)\<lparr>ct_Input := input\<rparr>;
          (ok, contract) = UseGas contract (pc_RequiredGas p input)
      in if \<not> ok then Inr (([], ct_Gas contract, Some ErrOutOfGas), evm)
         else rbind (lift_go (pc_Run p contract readOnly evm)) (\<lambda>((output, err), contract, evm1).
           Inr ((output, ct_Gas contract, err), evm1)))"

section \<open>Calls\<close>

definition set_db :: "'k StateDB \<Rightarrow> 'k evm \<Rightarrow> 'k evm" where
  "set_db db evm = evm\<lparr>ev_StateDB := db\<rparr>"

definition with_db :: "('k StateDB \<Rightarrow> 'a \<times> 'k StateDB) \<Rightarrow> 'k evm \<Rightarrow> 'a \<times> 'k evm" where
  "with_db f evm = (let (x, db) = f (ev_StateDB evm) in (x, set_db db evm))"

text \<open>A run on a new contract, and what is left of its gas.\<close>

definition run_contract ::
  "'k runner \<Rightarrow> (Contract \<Rightarrow> go_panic + Contract) \<Rightarrow> ContractRef \<Rightarrow> address \<Rightarrow> int option \<Rightarrow> int \<Rightarrow> bytes \<Rightarrow> bool \<Rightarrow> 'k evm
     \<Rightarrow> evm_stop + (bytes \<times> int \<times> evm_error option) \<times> 'k evm" where
  "run_contract run prepare caller object val gas input readOnly evm =
     (let (contract, maps) = NewContract caller object val gas (ev_jumpdests evm)
      in rbind (lift_go (prepare contract)) (\<lambda>contract.
         rbind (run contract input readOnly (evm\<lparr>ev_jumpdests := maps\<rparr>)) (\<lambda>((ret, err), contract, evm1).
         Inr ((ret, ct_Gas contract, err), evm1))))"

text \<open>
  \<open>if err != nil { RevertToSnapshot(snapshot); if err != ErrExecutionReverted { gas = 0 } }\<close>.
\<close>

definition settle :: "'k evm_env \<Rightarrow> int \<Rightarrow> (bytes \<times> int \<times> evm_error option) \<times> 'k evm
    \<Rightarrow> evm_stop + (bytes \<times> int \<times> evm_error option) \<times> 'k evm" where
  "settle E snapshot r = (case r of ((ret, gas, err), evm) \<Rightarrow>
     if err = None then Inr r
     else rbind (lift_go (RevertToSnapshot (e_keeper E) snapshot (ev_StateDB evm))) (\<lambda>db.
       Inr ((ret, if err = Some ErrExecutionReverted then gas else 0, err), set_db db evm)))"

text \<open>The hook, and the depth: what every call checks first.\<close>

definition guarded :: "'k evm_env \<Rightarrow> address \<Rightarrow> address \<Rightarrow> int \<Rightarrow> 'k evm
    \<Rightarrow> ('k evm \<Rightarrow> evm_stop + (bytes \<times> int \<times> evm_error option) \<times> 'k evm)
    \<Rightarrow> evm_stop + (bytes \<times> int \<times> evm_error option) \<times> 'k evm" where
  "guarded E me addr gas evm body =
     rbind (lift_go (e_CallHook E me addr evm)) (\<lambda>(err, evm1).
       case err of
         Some e \<Rightarrow> Inr (([], gas, Some (OtherError e)), evm1)
       | None \<Rightarrow>
           if ev_depth evm1 > e_params E CallCreateDepth then Inr (([], gas, Some ErrDepth), evm1)
           else body evm1)"

definition code_bytes :: "bytes option \<Rightarrow> bytes" where
  "code_bytes c = (case c of None \<Rightarrow> [] | Some b \<Rightarrow> b)"

definition evm_Call :: "'k runner \<Rightarrow> 'k evm_env \<Rightarrow> ContractRef \<Rightarrow> address \<Rightarrow> bytes \<Rightarrow> int \<Rightarrow> int \<Rightarrow> 'k evm
    \<Rightarrow> evm_stop + (bytes \<times> int \<times> evm_error option) \<times> 'k evm" where
  "evm_Call run E caller addr input gas val evm0 = (let K = e_keeper E in
     guarded E (Address caller) addr gas evm0 (\<lambda>evm.
     let (can, evm) = (if val \<noteq> 0 then with_db (e_CanTransfer E (Address caller) val) evm else (True, evm)) in
     if \<not> can then Inr (([], gas, Some ErrInsufficientBalance), evm)
     else
       let (snapshot, evm) = with_db Snapshot evm;
           p = e_precompiles E addr;
           (exist, evm) = with_db (Exist K addr) evm
       in if \<not> exist \<and> p = None \<and> IsEIP158 (e_rules E) \<and> val = 0 then Inr (([], gas, None), evm)
          else
            let evm = (if \<not> exist then set_db (CreateAccount K addr (ev_StateDB evm)) evm else evm)
            in rbind (lift_go (e_Transfer E (Address caller) addr val (ev_StateDB evm))) (\<lambda>db.
               let evm = set_db db evm in
               rbind (case p of
                   Some pc \<Rightarrow> RunPrecompiledContract pc caller input gas (Some val) False evm
                 | None \<Rightarrow>
                     let (code, evm) = with_db (GetCode K addr) evm in
                     if code_bytes code = [] then Inr (([], gas, None), evm)
                     else let (h, evm) = with_db (GetCodeHash K addr) evm in
                       run_contract run (\<lambda>c. Inr (SetCallCode (Some addr) h (code_bytes code) c))
                         caller addr (Some val) gas input False evm)
                 (settle E snapshot))))"

definition evm_CallCode :: "'k runner \<Rightarrow> 'k evm_env \<Rightarrow> ContractRef \<Rightarrow> address \<Rightarrow> bytes \<Rightarrow> int \<Rightarrow> int \<Rightarrow> 'k evm
    \<Rightarrow> evm_stop + (bytes \<times> int \<times> evm_error option) \<times> 'k evm" where
  "evm_CallCode run E caller addr input gas val evm0 = (let K = e_keeper E in
     guarded E (Address caller) addr gas evm0 (\<lambda>evm.
     let (can, evm) = with_db (e_CanTransfer E (Address caller) val) evm in
     if \<not> can then Inr (([], gas, Some ErrInsufficientBalance), evm)
     else
       let (snapshot, evm) = with_db Snapshot evm
       in rbind (case e_precompiles E addr of
              Some pc \<Rightarrow> RunPrecompiledContract pc caller input gas (Some val) True evm
            | None \<Rightarrow>
                let (h, evm) = with_db (GetCodeHash K addr) evm;
                    (code, evm) = with_db (GetCode K addr) evm
                in run_contract run (\<lambda>c. Inr (SetCallCode (Some addr) h (code_bytes code) c))
                     caller (Address caller) (Some val) gas input False evm)
            (settle E snapshot)))"

definition evm_DelegateCall :: "'k runner \<Rightarrow> 'k evm_env \<Rightarrow> ContractRef \<Rightarrow> address \<Rightarrow> bytes \<Rightarrow> int \<Rightarrow> 'k evm
    \<Rightarrow> evm_stop + (bytes \<times> int \<times> evm_error option) \<times> 'k evm" where
  "evm_DelegateCall run E caller addr input gas evm0 = (let K = e_keeper E in
     guarded E (Address caller) addr gas evm0 (\<lambda>evm.
       let (snapshot, evm) = with_db Snapshot evm
       in rbind (case e_precompiles E addr of
              Some pc \<Rightarrow> RunPrecompiledContract pc caller input gas None True evm
            | None \<Rightarrow>
                let (h, evm) = with_db (GetCodeHash K addr) evm;
                    (code, evm) = with_db (GetCode K addr) evm
                in run_contract run (\<lambda>c. rbind (AsDelegate c) (\<lambda>c. Inr (SetCallCode (Some addr) h (code_bytes code) c)))
                     caller (Address caller) None gas input False evm)
            (settle E snapshot)))"

definition evm_StaticCall :: "'k runner \<Rightarrow> 'k evm_env \<Rightarrow> ContractRef \<Rightarrow> address \<Rightarrow> bytes \<Rightarrow> int \<Rightarrow> 'k evm
    \<Rightarrow> evm_stop + (bytes \<times> int \<times> evm_error option) \<times> 'k evm" where
  "evm_StaticCall run E caller addr input gas evm0 = (let K = e_keeper E in
     guarded E (Address caller) addr gas evm0 (\<lambda>evm.
       let (snapshot, evm) = with_db Snapshot evm;
           evm = set_db (AddBalance K addr 0 (ev_StateDB evm)) evm
       in rbind (case e_precompiles E addr of
              Some pc \<Rightarrow> RunPrecompiledContract pc caller input gas (Some 0) True evm
            | None \<Rightarrow>
                let (h, evm) = with_db (GetCodeHash K addr) evm;
                    (code, evm) = with_db (GetCode K addr) evm
                in run_contract run (\<lambda>c. Inr (SetCallCode (Some addr) h (code_bytes code) c))
                     caller addr (Some 0) gas input True evm)
            (settle E snapshot)))"

section \<open>Creation\<close>

definition codeAndHash_Hash :: "'k keeper \<Rightarrow> codeAndHash \<Rightarrow> codeAndHash" where
  "codeAndHash_Hash K c = (if cah_hash c = 0 then c\<lparr>cah_hash := keccak K (cah_code c)\<rparr> else c)"

text \<open>The checks on the code that the constructor returned, and the gas to store it.\<close>

definition deploy :: "'k evm_env \<Rightarrow> address \<Rightarrow> bytes \<Rightarrow> evm_error option \<Rightarrow> Contract \<Rightarrow> 'k evm
    \<Rightarrow> evm_error option \<times> Contract \<times> 'k evm" where
  "deploy E addr ret err0 contract evm =
     (let err1 = (if err0 = None \<and> IsEIP158 (e_rules E) \<and> int (length ret) > e_params E MaxCodeSize
                  then Some ErrMaxCodeSizeExceeded else err0);
          err2 = (if err1 = None \<and> length ret \<ge> 1 \<and> ret ! 0 = 0xEF \<and> IsLondon (e_rules E)
                  then Some ErrInvalidCode else err1)
      in if err2 = None then
           let createDataGas = u64 (int (length ret) * e_params E CreateDataGas);
               (ok, contract) = UseGas contract createDataGas
           in if ok then (None, contract, set_db (SetCode (e_keeper E) addr ret (ev_StateDB evm)) evm)
              else (Some ErrCodeStoreOutOfGas, contract, evm)
         else (err2, contract, evm))"

definition evm_create :: "'k runner \<Rightarrow> 'k evm_env \<Rightarrow> ContractRef \<Rightarrow> codeAndHash \<Rightarrow> int \<Rightarrow> int \<Rightarrow> address \<Rightarrow> 'k evm
    \<Rightarrow> evm_stop + (bytes \<times> address \<times> int \<times> evm_error option) \<times> 'k evm" where
  "evm_create run E caller ch gas val address evm = (let K = e_keeper E; me = Address caller in
     if ev_depth evm > e_params E CallCreateDepth then Inr (([], 0, gas, Some ErrDepth), evm)
     else let (can, evm) = with_db (e_CanTransfer E me val) evm in
     if \<not> can then Inr (([], 0, gas, Some ErrInsufficientBalance), evm)
     else let (nonce, evm) = with_db (GetNonce K me) evm in
     if u64 (nonce + 1) < nonce then Inr (([], 0, gas, Some ErrNonceUintOverflow), evm)
     else
       let evm = set_db (SetNonce K me (u64 (nonce + 1)) (ev_StateDB evm)) evm;
           evm = (if IsBerlin (e_rules E) then set_db (AddAddressToAccessList address (ev_StateDB evm)) evm else evm);
           (contractHash, evm) = with_db (GetCodeHash K address) evm;
           (nonce', evm) = with_db (GetNonce K address) evm
       in if nonce' \<noteq> 0 \<or> contractHash \<noteq> 0 \<and> contractHash \<noteq> emptyCodeHash K
          then Inr (([], 0, 0, Some ErrContractAddressCollision), evm)
          else
            let (snapshot, evm) = with_db Snapshot evm;
                evm = set_db (CreateAccount K address (ev_StateDB evm)) evm;
                evm = (if IsEIP158 (e_rules E) then set_db (SetNonce K address 1 (ev_StateDB evm)) evm else evm)
            in rbind (lift_go (e_Transfer E me address val (ev_StateDB evm))) (\<lambda>db.
               let evm = set_db db evm;
                   (contract, maps) = NewContract caller address (Some val) gas (ev_jumpdests evm);
                   contract = SetCodeOptionalHash (Some address) ch contract
               in rbind (run contract [] False (evm\<lparr>ev_jumpdests := maps\<rparr>)) (\<lambda>((ret, err), contract, evm).
                  let (err, contract, evm) = deploy E address ret err contract evm
                  in if err \<noteq> None \<and> (IsHomestead (e_rules E) \<or> err \<noteq> Some ErrCodeStoreOutOfGas) then
                       rbind (lift_go (RevertToSnapshot K snapshot (ev_StateDB evm))) (\<lambda>db.
                         let contract = (if err \<noteq> Some ErrExecutionReverted
                               then snd (UseGas contract (ct_Gas contract)) else contract)
                         in Inr ((ret, address, ct_Gas contract, err), set_db db evm))
                     else Inr ((ret, address, ct_Gas contract, err), evm))))"

definition evm_Create :: "'k runner \<Rightarrow> 'k evm_env \<Rightarrow> ContractRef \<Rightarrow> bytes \<Rightarrow> int \<Rightarrow> int \<Rightarrow> 'k evm
    \<Rightarrow> evm_stop + (bytes \<times> address \<times> int \<times> evm_error option) \<times> 'k evm" where
  "evm_Create run E caller code gas val evm =
     (case e_CreateHook E (Address caller) evm of
        (Some e, evm1) \<Rightarrow> Inr (([], 0, gas, Some (OtherError e)), evm1)
      | (None, evm1) \<Rightarrow>
          let (nonce, evm2) = with_db (GetNonce (e_keeper E) (Address caller)) evm1;
              addr = CreateAddress (e_lib E) (Address caller) nonce
          in evm_create run E caller \<lparr>cah_code = code, cah_hash = 0\<rparr> gas val addr evm2)"

definition evm_Create2 :: "'k runner \<Rightarrow> 'k evm_env \<Rightarrow> ContractRef \<Rightarrow> bytes \<Rightarrow> int \<Rightarrow> int \<Rightarrow> uint256 \<Rightarrow> 'k evm
    \<Rightarrow> evm_stop + (bytes \<times> address \<times> int \<times> evm_error option) \<times> 'k evm" where
  "evm_Create2 run E caller code gas endowment salt evm =
     (case e_CreateHook E (Address caller) evm of
        (Some e, evm1) \<Rightarrow> Inr (([], 0, gas, Some (OtherError e)), evm1)
      | (None, evm1) \<Rightarrow>
          let ch = codeAndHash_Hash (e_keeper E) \<lparr>cah_code = code, cah_hash = 0\<rparr>;
              addr = CreateAddress2 (e_lib E) (Address caller) salt (cah_hash ch)
          in evm_create run E caller ch gas endowment addr evm1)"

section \<open>The machine\<close>

definition callee_of :: "'k evm_env \<Rightarrow> 'k runner \<Rightarrow> 'k callee" where
  "callee_of E run = \<lparr>c_Call = evm_Call run E, c_CallCode = evm_CallCode run E,
     c_DelegateCall = evm_DelegateCall run E, c_StaticCall = evm_StaticCall run E,
     c_Create = evm_Create run E, c_Create2 = evm_Create2 run E\<rparr>"

primrec evm_run :: "'k evm_env \<Rightarrow> 'k JumpTable \<Rightarrow> nat \<Rightarrow> 'k runner" where
  "evm_run E jt 0 = (\<lambda>contract input readOnly evm. Inl NoFuel)"
| "evm_run E jt (Suc n) = Run (callee_of E (evm_run E jt n)) E jt"

text \<open>Deep enough for a call at depth 0: a call deeper than \<open>CallCreateDepth\<close> does not run.\<close>

definition evm_interpreter :: "'k evm_env \<Rightarrow> 'k JumpTable \<Rightarrow> 'k runner" where
  "evm_interpreter E jt = evm_run E jt (nat (e_params E CallCreateDepth) + 2)"

text \<open>What the state transition of x/evm calls.\<close>

definition NewEVM_calls :: "'k evm_env \<Rightarrow> 'k JumpTable \<Rightarrow> 'k callee" where
  "NewEVM_calls E jt = callee_of E (evm_interpreter E jt)"

end
