(* ===== verification/EvmSafety.thy ===== *)
theory EvmSafety
  imports EvmRun
begin

text \<open>
  What an instruction may do, as a judgement on its table entry: it never runs out of the stack or of
  the memory when the checks of the interpreter have passed, and the gas it hands back never exceeds
  what was charged for it. The judgement \<open>op_ok\<close> is proved for every entry of every table, and lifted
  to the loop, to a run, and to the calls between contracts.

  \<^item> \<open>wp m Q F s\<close>: started in \<open>s\<close>, the operation \<open>m\<close> has no panic of the stack or the memory and needs no
    more fuel; it ends with \<open>Q\<close>, or with an error in a state of \<open>F\<close>. The collection \<open>wp\<close> computes it.
\<close>

section \<open>Weakest preconditions\<close>

named_theorems wp "weakest preconditions of operations"

definition benign :: "evm_stop \<Rightarrow> bool" where
  "benign p \<longleftrightarrow> (case p of Panicked _ \<Rightarrow> True | _ \<Rightarrow> False)"

lemma benign_simps [simp]: "benign (Panicked g)" "\<not> benign StackPanic" "\<not> benign MemoryPanic" "\<not> benign NoFuel"
  by (simp_all add: benign_def)

definition wp :: "('s, 'e, 'a) oper \<Rightarrow> ('a \<Rightarrow> 's \<Rightarrow> bool) \<Rightarrow> ('s \<Rightarrow> bool) \<Rightarrow> 's \<Rightarrow> bool" where
  "wp m Q F s = (case m s of
      Inl p \<Rightarrow> benign p
    | Inr (Inl e, s1) \<Rightarrow> F s1
    | Inr (Inr x, s1) \<Rightarrow> Q x s1)"

lemma wp_retM [wp]: "wp (retM x) Q F s \<longleftrightarrow> Q x s"
  by (simp add: wp_def retM_def)

lemma wp_failM [wp]: "wp (failM e) Q F s \<longleftrightarrow> F s"
  by (simp add: wp_def failM_def)

lemma wp_liftM [wp]: "wp (liftM r) Q F s \<longleftrightarrow> (case r of Inl p \<Rightarrow> benign p | Inr x \<Rightarrow> Q x s)"
  by (simp add: wp_def liftM_def split: sum.splits)

lemma wp_getM [wp]: "wp (getM f) Q F s \<longleftrightarrow> Q (f s) s"
  by (simp add: wp_def getM_def)

lemma wp_modM [wp]: "wp (modM f) Q F s \<longleftrightarrow> Q () (f s)"
  by (simp add: wp_def modM_def)

lemma wp_bindM [wp]: "wp (bindM m f) Q F s \<longleftrightarrow> wp m (\<lambda>x. wp (f x) Q F) F s"
  by (simp add: wp_def bindM_def split: sum.splits prod.splits)

lemma wp_mono: "wp m Q F s \<Longrightarrow> (\<And>x s1. Q x s1 \<Longrightarrow> Q' x s1) \<Longrightarrow> (\<And>s1. F s1 \<Longrightarrow> F' s1) \<Longrightarrow> wp m Q' F' s"
  by (auto simp: wp_def split: sum.splits)

lemma wp_errs_to [wp]: "wp (errs_to e m) Q F s \<longleftrightarrow> wp m Q F s"
  by (simp add: wp_def errs_to_def split: sum.splits prod.splits)

lemma wp_on_db [wp]:
  "wp (on_db f) Q F s \<longleftrightarrow> Q (fst (f (ev_StateDB (fr_evm s))))
     (s\<lparr>fr_evm := (fr_evm s)\<lparr>ev_StateDB := snd (f (ev_StateDB (fr_evm s)))\<rparr>\<rparr>)"
  by (simp add: wp_def on_db_def Let_def split: prod.splits)

lemma wp_on_db_go [wp]:
  "wp (on_db_go f) Q F s \<longleftrightarrow> (\<forall>db. f (ev_StateDB (fr_evm s)) = Inr db \<longrightarrow>
     Q () (s\<lparr>fr_evm := (fr_evm s)\<lparr>ev_StateDB := db\<rparr>\<rparr>))"
  by (simp add: wp_def on_db_go_def split: sum.splits)

lemma wp_on_contract [wp]:
  "wp (on_contract f) Q F s \<longleftrightarrow> Q (fst (f (fr_Contract s))) (s\<lparr>fr_Contract := snd (f (fr_Contract s))\<rparr>)"
  by (simp add: wp_def on_contract_def Let_def split: prod.splits)

lemma wp_on_memory [wp]:
  "wp (on_memory f) Q F s \<longleftrightarrow> (case f (fr_Memory s) of Inl p \<Rightarrow> benign p | Inr m \<Rightarrow> Q () (s\<lparr>fr_Memory := m\<rparr>))"
  by (simp add: wp_def on_memory_def split: sum.splits)

lemma wp_popM [wp]:
  "wp popM Q F s \<longleftrightarrow> 0 < length (fr_Stack s) \<and> Q (hd (fr_Stack s)) (s\<lparr>fr_Stack := tl (fr_Stack s)\<rparr>)"
  by (cases "fr_Stack s") (simp_all add: wp_def popM_def on_stack_def)

lemma frame_stack_id: "fr_Stack s = st \<Longrightarrow> s\<lparr>fr_Stack := st\<rparr> = s"
  by (cases s) simp

lemma wp_peekM [wp]: "wp peekM Q F s \<longleftrightarrow> 0 < length (fr_Stack s) \<and> Q (hd (fr_Stack s)) s"
  by (cases "fr_Stack s") (simp_all add: wp_def peekM_def on_stack_def Peek_def Back_def frame_stack_id)

lemma wp_backM [wp]: "wp (backM n) Q F s \<longleftrightarrow> n < length (fr_Stack s) \<and> Q (fr_Stack s ! n) s"
  by (simp add: wp_def backM_def on_stack_def Back_def)

lemma wp_pushM [wp]: "wp (pushM v) Q F s \<longleftrightarrow> Q () (s\<lparr>fr_Stack := v # fr_Stack s\<rparr>)"
  by (simp add: wp_def pushM_def on_stack_def Push_def)

lemma wp_set_topM [wp]:
  "wp (set_topM v) Q F s \<longleftrightarrow> 0 < length (fr_Stack s) \<and> Q () (s\<lparr>fr_Stack := v # tl (fr_Stack s)\<rparr>)"
  by (cases "fr_Stack s") (simp_all add: wp_def set_topM_def on_stack_def SetTop_def)

lemma wp_selfM [wp]: "wp selfM Q F s \<longleftrightarrow> Q (ct_Address (fr_Contract s)) s"
  by (simp add: selfM_def wp)

lemma wp_doneM [wp]: "wp doneM Q F s \<longleftrightarrow> Q [] s"
  by (simp add: doneM_def wp)

lemma wp_errM [wp]: "wp (errM e) Q F s \<longleftrightarrow> F s"
  by (simp add: errM_def wp)

lemma wp_if [wp]: "wp (if b then m else m') Q F s \<longleftrightarrow> (b \<longrightarrow> wp m Q F s) \<and> (\<not> b \<longrightarrow> wp m' Q F s)"
  by simp

lemma wp_prod [wp]: "wp (case p of (x, y) \<Rightarrow> m x y) Q F s \<longleftrightarrow> wp (m (fst p) (snd p)) Q F s"
  by (cases p) simp

lemma wp_Let [wp]: "wp (Let x m) Q F s \<longleftrightarrow> wp (m x) Q F s"
  by simp

section \<open>The judgement\<close>

text \<open>
  \<open>credit\<close> is the gas an instruction may hand back: what a call holds ready for the callee, and the
  stipend. It depends on the stack and on \<open>callGasTemp\<close>.
\<close>

type_synonym credit = "stack \<Rightarrow> int \<Rightarrow> int"

definition gas_of :: "'k frame \<Rightarrow> int" where
  "gas_of s = ct_Gas (fr_Contract s)"

definition mem_len :: "'k frame \<Rightarrow> nat" where
  "mem_len s = length (mem_store (fr_Memory s))"

definition mem_last :: "'k frame \<Rightarrow> int" where
  "mem_last s = mem_lastGasCost (fr_Memory s)"

definition max_mem :: int where
  "max_mem = 0x1FFFFFFFE0"

definition evm_inv :: "int \<Rightarrow> 'k evm \<Rightarrow> bool" where
  "evm_inv D evm \<longleftrightarrow> ev_depth evm = D \<and> in_u64 (ev_callGasTemp evm)"

text \<open>
  The fee for a memory of so many words, and a memory that is paid for: a whole number of words, with
  the fee recorded. \<open>charged\<close> is the memory after a gas function that charges for it.
\<close>

definition mem_fee :: "(param \<Rightarrow> int) \<Rightarrow> int \<Rightarrow> int" where
  "mem_fee G words = words * G MemoryGas + words * words div G QuadCoeffDiv"

definition mem_paid :: "(param \<Rightarrow> int) \<Rightarrow> nat \<Rightarrow> int \<Rightarrow> bool" where
  "mem_paid G len fee \<longleftrightarrow> len mod 32 = 0 \<and> fee = mem_fee G (int (len div 32))"

definition charged :: "(param \<Rightarrow> int) \<Rightarrow> bool \<Rightarrow> int \<Rightarrow> Memory \<Rightarrow> Memory" where
  "charged G has_mem sz m = (if has_mem then snd (memoryGasCost G sz m) else m)"

text \<open>
  A dynamic gas function: \<open>lo\<close> is the least it charges beside the credit, \<open>slack\<close> what may still be
  added to it without an overflow.
\<close>

definition gas_post :: "'k evm_env \<Rightarrow> int \<Rightarrow> bool \<Rightarrow> credit \<Rightarrow> int \<Rightarrow> int \<Rightarrow> int \<Rightarrow> 'k frame \<Rightarrow> int \<Rightarrow> 'k frame \<Rightarrow> bool" where
  "gas_post E D has_mem credit lo slack sz s cost s1 \<longleftrightarrow> fr_Stack s1 = fr_Stack s \<and> fr_pc s1 = fr_pc s \<and>
     fr_Memory s1 = charged (e_params E) has_mem sz (fr_Memory s) \<and> ct_Code (fr_Contract s1) = ct_Code (fr_Contract s) \<and>
     gas_of s1 = gas_of s \<and> evm_inv D (fr_evm s1) \<and> in_u64 cost \<and> in_u64 (cost + slack) \<and>
     (has_mem \<longrightarrow> sz \<le> max_mem) \<and> lo + credit (fr_Stack s) (ev_callGasTemp (fr_evm s1)) \<le> cost"

definition gas_fail :: "int \<Rightarrow> 'k frame \<Rightarrow> 'k frame \<Rightarrow> bool" where
  "gas_fail D s s1 \<longleftrightarrow> 0 \<le> gas_of s1 \<and> gas_of s1 \<le> gas_of s \<and> evm_inv D (fr_evm s1)"

definition gas_room ::
  "'k evm_env \<Rightarrow> int \<Rightarrow> nat \<Rightarrow> bool \<Rightarrow> credit \<Rightarrow> int \<Rightarrow> int \<Rightarrow> 'k gasFunc \<Rightarrow> bool" where
  "gas_room E D n has_mem credit lo slack dg \<longleftrightarrow> (\<forall>s sz. n \<le> length (fr_Stack s) \<longrightarrow> in_u64 (gas_of s) \<longrightarrow>
     evm_inv D (fr_evm s) \<longrightarrow> in_u64 sz \<longrightarrow> mem_paid (e_params E) (mem_len s) (mem_last s) \<longrightarrow>
     wp (dg E sz) (gas_post E D has_mem credit lo slack sz s) (gas_fail D s) s)"

abbreviation gas_ok :: "'k evm_env \<Rightarrow> int \<Rightarrow> nat \<Rightarrow> bool \<Rightarrow> credit \<Rightarrow> int \<Rightarrow> 'k gasFunc \<Rightarrow> bool" where
  "gas_ok E D n has_mem credit lo dg \<equiv> gas_room E D n has_mem credit lo 0 dg"

definition size_ok :: "nat \<Rightarrow> memorySizeFunc \<Rightarrow> bool" where
  "size_ok n f \<longleftrightarrow> (\<forall>st. n \<le> length st \<longrightarrow> (\<exists>sz overflow. f st = Inr (sz, overflow) \<and> in_u64 sz))"

text \<open>The memory is as large as the instruction asked for.\<close>

definition covered :: "memorySizeFunc option \<Rightarrow> 'k frame \<Rightarrow> bool" where
  "covered ms s \<longleftrightarrow> (case ms of None \<Rightarrow> True
     | Some f \<Rightarrow> \<exists>sz. f (fr_Stack s) = Inr (sz, False) \<and> sz \<le> int (mem_len s))"

definition exec_ok :: "'k callee \<Rightarrow> 'k evm_env \<Rightarrow> int \<Rightarrow> nat \<Rightarrow> int \<Rightarrow> memorySizeFunc option \<Rightarrow> credit \<Rightarrow> bool
    \<Rightarrow> 'k executionFunc \<Rightarrow> bool" where
  "exec_ok C E D n mx ms credit halts ex \<longleftrightarrow> (\<forall>s. n \<le> length (fr_Stack s) \<longrightarrow> int (length (fr_Stack s)) \<le> mx \<longrightarrow>
     evm_inv D (fr_evm s) \<longrightarrow> in_u64 (gas_of s) \<longrightarrow> covered ms s \<longrightarrow> int (mem_len s) \<le> max_mem \<longrightarrow>
     wp (ex C E)
       (\<lambda>_ s1. \<not> halts \<and> int (length (fr_Stack s1)) \<le> e_params E StackLimit \<and> mem_len s1 = mem_len s \<and> mem_last s1 = mem_last s \<and>
          evm_inv D (fr_evm s1) \<and> 0 \<le> gas_of s1 \<and> gas_of s1 < 2 ^ 64 \<and>
          gas_of s1 \<le> gas_of s + credit (fr_Stack s) (ev_callGasTemp (fr_evm s)))
       (\<lambda>s1. evm_inv D (fr_evm s1) \<and> 0 \<le> gas_of s1 \<and> gas_of s1 < 2 ^ 64 \<and>
          gas_of s1 \<le> gas_of s + credit (fr_Stack s) (ev_callGasTemp (fr_evm s))) s)"

definition op_ok :: "'k callee \<Rightarrow> 'k evm_env \<Rightarrow> int \<Rightarrow> 'k operation \<Rightarrow> bool" where
  "op_ok C E D op \<longleftrightarrow> (\<exists>n credit lo. op_minStack op = int n \<and> in_u64 (constantGas op) \<and> 0 \<le> lo \<and>
     (case dynamicGas op of
        None \<Rightarrow> lo = 0 \<and> credit = (\<lambda>_ _. 0) \<and> memorySize op = None
      | Some dg \<Rightarrow> gas_ok E D n (memorySize op \<noteq> None) credit lo dg) \<and>
     (case memorySize op of None \<Rightarrow> True | Some f \<Rightarrow> size_ok n f) \<and>
     exec_ok C E D n (op_maxStack op) (memorySize op) credit (constantGas op + lo = 0) (execute op))"


section \<open>Instructions that only use the stack\<close>

definition no_credit :: credit where
  "no_credit = (\<lambda>_ _. 0)"

lemmas exec_simps = exec_ok_def maxStack_def gas_of_def mem_len_def mem_last_def in_u64_def no_credit_def evm_inv_def

lemma binary_ok:
  "exec_ok C E D 2 (maxStack (e_params E) 2 1) ms no_credit False (\<lambda>C E. binary (f E))"
  by (auto simp: exec_simps wp binary_def)

lemma compare_ok:
  "exec_ok C E D 2 (maxStack (e_params E) 2 1) ms no_credit False (\<lambda>C E. compare (f E))"
  by (auto simp: exec_simps wp compare_def)

lemma unary_ok:
  "exec_ok C E D 1 (maxStack (e_params E) 1 1) ms no_credit False opNot"
  "exec_ok C E D 1 (maxStack (e_params E) 1 1) ms no_credit False opIszero"
  by (auto simp: exec_simps wp opNot_def opIszero_def)

lemma ternary_ok:
  "exec_ok C E D 3 (maxStack (e_params E) 3 1) ms no_credit False opAddmod"
  "exec_ok C E D 3 (maxStack (e_params E) 3 1) ms no_credit False opMulmod"
  by (auto simp: exec_simps wp opAddmod_def opMulmod_def)

lemma arith_ok:
  "exec_ok C E D 2 (maxStack (e_params E) 2 1) ms no_credit False opAdd"
  "exec_ok C E D 2 (maxStack (e_params E) 2 1) ms no_credit False opSub"
  "exec_ok C E D 2 (maxStack (e_params E) 2 1) ms no_credit False opMul"
  "exec_ok C E D 2 (maxStack (e_params E) 2 1) ms no_credit False opDiv"
  "exec_ok C E D 2 (maxStack (e_params E) 2 1) ms no_credit False opSdiv"
  "exec_ok C E D 2 (maxStack (e_params E) 2 1) ms no_credit False opMod"
  "exec_ok C E D 2 (maxStack (e_params E) 2 1) ms no_credit False opSmod"
  "exec_ok C E D 2 (maxStack (e_params E) 2 1) ms no_credit False opExp"
  "exec_ok C E D 2 (maxStack (e_params E) 2 1) ms no_credit False opSignExtend"
  "exec_ok C E D 2 (maxStack (e_params E) 2 1) ms no_credit False opAnd"
  "exec_ok C E D 2 (maxStack (e_params E) 2 1) ms no_credit False opOr"
  "exec_ok C E D 2 (maxStack (e_params E) 2 1) ms no_credit False opXor"
  "exec_ok C E D 2 (maxStack (e_params E) 2 1) ms no_credit False opByte"
  "exec_ok C E D 2 (maxStack (e_params E) 2 1) ms no_credit False opSHL"
  "exec_ok C E D 2 (maxStack (e_params E) 2 1) ms no_credit False opSHR"
  "exec_ok C E D 2 (maxStack (e_params E) 2 1) ms no_credit False opSAR"
  "exec_ok C E D 2 (maxStack (e_params E) 2 1) ms no_credit False opLt"
  "exec_ok C E D 2 (maxStack (e_params E) 2 1) ms no_credit False opGt"
  "exec_ok C E D 2 (maxStack (e_params E) 2 1) ms no_credit False opSlt"
  "exec_ok C E D 2 (maxStack (e_params E) 2 1) ms no_credit False opSgt"
  "exec_ok C E D 2 (maxStack (e_params E) 2 1) ms no_credit False opEq"
  by (auto simp: exec_simps wp binary_def compare_def opAdd_def opSub_def opMul_def opDiv_def opSdiv_def opMod_def opSmod_def
    opExp_def opSignExtend_def opAnd_def opOr_def opXor_def opByte_def opSHL_def opSHR_def opSAR_def opLt_def opGt_def
    opSlt_def opSgt_def opEq_def)

lemma push_ok:
  "exec_ok C E D 0 (maxStack (e_params E) 0 1) ms no_credit False opAddress"
  "exec_ok C E D 0 (maxStack (e_params E) 0 1) ms no_credit False opOrigin"
  "exec_ok C E D 0 (maxStack (e_params E) 0 1) ms no_credit False opCaller"
  "exec_ok C E D 0 (maxStack (e_params E) 0 1) ms no_credit False opCallValue"
  "exec_ok C E D 0 (maxStack (e_params E) 0 1) ms no_credit False opCallDataSize"
  "exec_ok C E D 0 (maxStack (e_params E) 0 1) ms no_credit False opReturnDataSize"
  "exec_ok C E D 0 (maxStack (e_params E) 0 1) ms no_credit False opCodeSize"
  "exec_ok C E D 0 (maxStack (e_params E) 0 1) ms no_credit False opGasprice"
  "exec_ok C E D 0 (maxStack (e_params E) 0 1) ms no_credit False opCoinbase"
  "exec_ok C E D 0 (maxStack (e_params E) 0 1) ms no_credit False opTimestamp"
  "exec_ok C E D 0 (maxStack (e_params E) 0 1) ms no_credit False opNumber"
  "exec_ok C E D 0 (maxStack (e_params E) 0 1) ms no_credit False opDifficulty"
  "exec_ok C E D 0 (maxStack (e_params E) 0 1) ms no_credit False opRandom"
  "exec_ok C E D 0 (maxStack (e_params E) 0 1) ms no_credit False opGasLimit"
  "exec_ok C E D 0 (maxStack (e_params E) 0 1) ms no_credit False opPc"
  "exec_ok C E D 0 (maxStack (e_params E) 0 1) ms no_credit False opMsize"
  "exec_ok C E D 0 (maxStack (e_params E) 0 1) ms no_credit False opGas"
  "exec_ok C E D 0 (maxStack (e_params E) 0 1) ms no_credit False opSelfBalance"
  "exec_ok C E D 0 (maxStack (e_params E) 0 1) ms no_credit False opChainID"
  "exec_ok C E D 0 (maxStack (e_params E) 0 1) ms no_credit False opBaseFee"
  "exec_ok C E D 0 (maxStack (e_params E) 0 1) ms no_credit False opPush0"
  "exec_ok C E D 0 (maxStack (e_params E) 0 1) ms no_credit False opPush1"
  "exec_ok C E D 0 (maxStack (e_params E) 0 1) ms no_credit False (makePush k l)"
  by (auto simp: exec_simps wp push_value_def push_big_def opAddress_def opOrigin_def opCaller_def opCallValue_def
    opCallDataSize_def opReturnDataSize_def opCodeSize_def opGasprice_def opCoinbase_def opTimestamp_def opNumber_def
    opDifficulty_def opRandom_def opGasLimit_def opPc_def opMsize_def opGas_def opSelfBalance_def opChainID_def
    opBaseFee_def opPush0_def opPush1_def makePush_def split: option.splits)


section \<open>Instructions that read the state, and jumps\<close>

lemma validJumpdest_gas: "validJumpdest c dest maps = Inr (b, c1, maps1) \<Longrightarrow> ct_Gas c1 = ct_Gas c \<and> ct_Code c1 = ct_Code c"
  by (auto simp: validJumpdest_def isCode_def Let_def split: if_splits prod.splits option.splits)

lemma wp_valid_dest [wp]:
  "wp (valid_dest pos) Q F s \<longleftrightarrow> (\<forall>b c maps. validJumpdest (fr_Contract s) pos (ev_jumpdests (fr_evm s)) = Inr (b, c, maps) \<longrightarrow>
     Q b (s\<lparr>fr_Contract := c, fr_evm := (fr_evm s)\<lparr>ev_jumpdests := maps\<rparr>\<rparr>))"
  by (auto simp: wp_def valid_dest_def split: sum.splits)

lemma wp_write_protected [wp]:
  "wp write_protected Q F s \<longleftrightarrow> (if ev_readOnly (fr_evm s) then F s else Q () s)"
  by (simp add: write_protected_def wp)

lemma wp_aborted [wp]: "wp aborted Q F s \<longleftrightarrow> (if ev_abort (fr_evm s) then F s else Q () s)"
  by (simp add: aborted_def wp)

lemma getData_benign: "getData L data off sz = Inl p \<Longrightarrow> benign p"
  by (auto simp: getData_def Let_def split: if_splits)

lemma state_reads_ok:
  "exec_ok C E D 1 (maxStack (e_params E) 1 1) ms no_credit False opBalance"
  "exec_ok C E D 1 (maxStack (e_params E) 1 1) ms no_credit False opCallDataLoad"
  "exec_ok C E D 1 (maxStack (e_params E) 1 1) ms no_credit False opExtCodeSize"
  "exec_ok C E D 1 (maxStack (e_params E) 1 1) ms no_credit False opExtCodeHash"
  "exec_ok C E D 1 (maxStack (e_params E) 1 1) ms no_credit False opBlockhash"
  "exec_ok C E D 1 (maxStack (e_params E) 1 1) ms no_credit False opSload"
  by (auto simp: exec_simps wp opBalance_def opCallDataLoad_def opExtCodeSize_def opExtCodeHash_def opBlockhash_def
    opSload_def Let_def split: sum.splits dest: getData_benign)

lemma control_ok:
  "exec_ok C E D 1 (maxStack (e_params E) 1 0) ms no_credit False opPop"
  "exec_ok C E D 1 (maxStack (e_params E) 1 0) ms no_credit False opJump"
  "exec_ok C E D 2 (maxStack (e_params E) 2 0) ms no_credit False opJumpi"
  "exec_ok C E D 0 (maxStack (e_params E) 0 0) ms no_credit False opJumpdest"
  "exec_ok C E D 2 (maxStack (e_params E) 2 0) ms no_credit False opSstore"
  by (auto simp: exec_simps wp opPop_def opJump_def opJumpi_def opJumpdest_def opSstore_def jump_to_def set_pc_def
    dest!: validJumpdest_gas)

lemma halting_ok:
  "exec_ok C E D 0 mx ms no_credit halts opStop"
  "exec_ok C E D 0 mx ms no_credit halts opUndefined"
  "exec_ok C E D 1 mx ms no_credit halts opSelfdestruct"
  by (auto simp: exec_simps wp opStop_def opUndefined_def opSelfdestruct_def)

lemma wp_Dup [wp]:
  "wp (on_stack (\<lambda>st. rbind (Dup n st) (\<lambda>st1. Inr ((), st1)))) Q F s \<longleftrightarrow>
     0 < n \<and> n \<le> length (fr_Stack s) \<and> Q () (s\<lparr>fr_Stack := fr_Stack s ! (n - 1) # fr_Stack s\<rparr>)"
  by (simp add: wp_def on_stack_def Dup_def Push_def)

lemma wp_Swap [wp]:
  "wp (on_stack (\<lambda>st. rbind (Swap n st) (\<lambda>st1. Inr ((), st1)))) Q F s \<longleftrightarrow>
     0 < n \<and> n \<le> length (fr_Stack s) \<and>
     Q () (s\<lparr>fr_Stack := (fr_Stack s)[n - 1 := fr_Stack s ! 0, 0 := fr_Stack s ! (n - 1)]\<rparr>)"
  by (simp add: wp_def on_stack_def Swap_def)

lemma dup_swap_ok:
  "0 < n \<Longrightarrow> exec_ok C E D n (maxDupStack (e_params E) (int n)) ms no_credit False (makeDup n)"
  "exec_ok C E D (n + 1) (maxSwapStack (e_params E) (int n + 1)) ms no_credit False (makeSwap n)"
  by (auto simp: exec_simps wp makeDup_def makeSwap_def maxDupStack_def maxSwapStack_def)

section \<open>Memory\<close>

definition region :: "int \<Rightarrow> int \<Rightarrow> nat \<Rightarrow> bool" where
  "region off sz len \<longleftrightarrow> 0 \<le> off \<and> 0 \<le> sz \<and> (sz = 0 \<or> off + sz \<le> int len)"

lemma uint64_of_lt [simp]: "uint64_of x < 18446744073709551616"
  using uint64_of_range [of x] by simp

lemma u64_add:
  assumes "0 \<le> x" and "x < 2 ^ 64" and "0 \<le> y" and "y < 2 ^ 64"
  shows "u64 (x + y) = (if x + y < 2 ^ 64 then x + y else x + y - 2 ^ 64)"
proof (cases "x + y < 2 ^ 64")
  case False
  have "u64 (x + y) = u64 (x + y - 2 ^ 64)" by (simp add: u64_def)
  also have "\<dots> = x + y - 2 ^ 64" using assms False by (intro u64_id) auto
  finally show ?thesis using False by simp
qed (use assms in \<open>simp add: u64_id\<close>)

lemma u64_add_no_wrap:
  "0 \<le> x \<Longrightarrow> x < 2 ^ 64 \<Longrightarrow> 0 \<le> y \<Longrightarrow> y < 2 ^ 64 \<Longrightarrow> \<not> u64 (x + y) < x \<Longrightarrow> u64 (x + y) = x + y"
  using u64_add [of x y] by (auto split: if_splits)

lemma calcMemSize64WithUint_region:
  assumes "calcMemSize64WithUint off n = (sz, False)" and "sz \<le> int len" and "0 \<le> n" and "n < 2 ^ 64"
  shows "region (uint64_of off) n len"
proof (cases "n = 0")
  case False
  with assms(1) have "\<not> u64 (uint64_of off + n) < uint64_of off" and "sz = u64 (uint64_of off + n)"
    by (auto simp: calcMemSize64WithUint_def Uint64WithOverflow_def Let_def split: if_splits)
  with u64_add_no_wrap [of "uint64_of off" n] assms(2-4) show ?thesis by (simp add: region_def)
qed (simp add: region_def)

lemma calcMemSize64_region:
  assumes "calcMemSize64 off l = (sz, False)" and "sz \<le> int len"
  shows "region (uint64_of off) (uint64_of l) len"
  using assms calcMemSize64WithUint_region [of off "uint64_of l" sz len]
  by (auto simp: calcMemSize64_def split: if_splits)

text \<open>What is read and written, where it is in the memory.\<close>

definition mem_slice :: "int \<Rightarrow> int \<Rightarrow> Memory \<Rightarrow> bytes" where
  "mem_slice off sz m = (if sz = 0 then [] else take (nat sz) (drop (nat off) (mem_store m)))"

lemma region_i64:
  assumes "region off sz (length (mem_store m))" and "int (length (mem_store m)) \<le> max_mem" and "sz \<noteq> 0"
  shows "i64 off = off" and "i64 sz = sz" and "off + sz \<le> int (length (mem_store m))" and "0 \<le> off" and "0 < sz"
  using assms by (auto simp: region_def max_mem_def intro!: i64_id)

lemma GetPtr_region:
  assumes "region off sz (length (mem_store m))" and "int (length (mem_store m)) \<le> max_mem"
  shows "mem_GetPtr (i64 off) (i64 sz) m = Inr (mem_slice off sz m)"
    and "mem_GetCopy (i64 off) (i64 sz) m = Inr (mem_slice off sz m)"
proof -
  have "mem_GetPtr (i64 off) (i64 sz) m = Inr (mem_slice off sz m) \<and>
    mem_GetCopy (i64 off) (i64 sz) m = Inr (mem_slice off sz m)"
  proof (cases "sz = 0")
    case True
    then show ?thesis by (simp add: mem_GetPtr_def mem_GetCopy_def mem_slice_def i64_def)
  next
    case False
    from region_i64 [OF assms False] show ?thesis by (simp add: mem_GetPtr_def mem_GetCopy_def mem_slice_def)
  qed
  then show "mem_GetPtr (i64 off) (i64 sz) m = Inr (mem_slice off sz m)"
    "mem_GetCopy (i64 off) (i64 sz) m = Inr (mem_slice off sz m)" by blast+
qed

lemma Set_region:
  assumes "region off sz (length (mem_store m))" and "int (length (mem_store m)) \<le> max_mem"
  shows "\<exists>m1. mem_Set off sz v m = Inr m1 \<and> length (mem_store m1) = length (mem_store m) \<and>
    mem_lastGasCost m1 = mem_lastGasCost m"
proof (cases "sz = 0")
  case True
  then show ?thesis by (simp add: mem_Set_def)
next
  case False
  note r = region_i64 [OF assms False]
  have "u64 (off + sz) = off + sz" using r assms(2) by (intro u64_id) (auto simp: max_mem_def)
  moreover have "length (copy_into (nat off) (nat sz) v (mem_store m)) = length (mem_store m)"
    by (rule copy_into_length) (use r in \<open>auto simp: min_def\<close>)
  ultimately show ?thesis using r by (simp add: mem_Set_def)
qed

lemma Set32_region:
  assumes "region off 32 (length (mem_store m))" and "int (length (mem_store m)) \<le> max_mem"
  shows "\<exists>m1. mem_Set32 off v m = Inr m1 \<and> length (mem_store m1) = length (mem_store m) \<and>
    mem_lastGasCost m1 = mem_lastGasCost m"
proof -
  from region_i64 [OF assms] have r: "off + 32 \<le> int (length (mem_store m))" "0 \<le> off" by auto
  have "u64 (off + 32) = off + 32" using r assms(2) by (intro u64_id) (auto simp: max_mem_def)
  moreover have "length (copy_into (nat off) (length (mem_store m) - nat off) (Bytes32 v) (mem_store m)) = length (mem_store m)"
    by (rule copy_into_length) (use r in \<open>auto simp: min_def\<close>)
  ultimately show ?thesis using r by (simp add: mem_Set32_def)
qed

lemma wp_GetPtr:
  assumes "region (uint64_of off) (uint64_of sz) (mem_len s)" and "int (mem_len s) \<le> max_mem"
  shows "wp (m_GetPtr off sz) Q F s \<longleftrightarrow> Q (mem_slice (uint64_of off) (uint64_of sz) (fr_Memory s)) s"
    and "wp (m_GetCopy off sz) Q F s \<longleftrightarrow> Q (mem_slice (uint64_of off) (uint64_of sz) (fr_Memory s)) s"
  using GetPtr_region assms by (simp_all add: m_GetPtr_def m_GetCopy_def wp mem_len_def)

lemma wp_Set:
  assumes "region (uint64_of off) (uint64_of sz) (mem_len s)" and "int (mem_len s) \<le> max_mem"
    and "\<And>m. length (mem_store m) = mem_len s \<Longrightarrow> mem_lastGasCost m = mem_last s \<Longrightarrow> Q () (s\<lparr>fr_Memory := m\<rparr>)"
  shows "wp (m_Set (uint64_of off) (uint64_of sz) v) Q F s"
  using Set_region [of "uint64_of off" "uint64_of sz" "fr_Memory s" v] assms by (auto simp: m_Set_def wp mem_len_def mem_last_def)


lemma mem_len_simps [simp]:
  "mem_len (s\<lparr>fr_Stack := st\<rparr>) = mem_len s" "mem_len (s\<lparr>fr_evm := ev\<rparr>) = mem_len s"
  "mem_len (s\<lparr>fr_pc := pc\<rparr>) = mem_len s" "mem_len (s\<lparr>fr_Contract := c\<rparr>) = mem_len s"
  "mem_len (s\<lparr>fr_Memory := m\<rparr>) = length (mem_store m)"
  "mem_last (s\<lparr>fr_Stack := st\<rparr>) = mem_last s" "mem_last (s\<lparr>fr_evm := ev\<rparr>) = mem_last s"
  "mem_last (s\<lparr>fr_pc := pc\<rparr>) = mem_last s" "mem_last (s\<lparr>fr_Contract := c\<rparr>) = mem_last s"
  "mem_last (s\<lparr>fr_Memory := m\<rparr>) = mem_lastGasCost m"
  by (simp_all add: mem_len_def mem_last_def)

lemma length_ge:
  "Suc 0 \<le> length xs \<longleftrightarrow> (\<exists>a ys. xs = a # ys)"
  "2 \<le> length xs \<longleftrightarrow> (\<exists>a b ys. xs = a # b # ys)"
  "3 \<le> length xs \<longleftrightarrow> (\<exists>a b c ys. xs = a # b # c # ys)"
  "4 \<le> length xs \<longleftrightarrow> (\<exists>a b c d ys. xs = a # b # c # d # ys)"
  "6 \<le> length xs \<longleftrightarrow> (\<exists>a b c d e f ys. xs = a # b # c # d # e # f # ys)"
  "7 \<le> length xs \<longleftrightarrow> (\<exists>a b c d e f g ys. xs = a # b # c # d # e # f # g # ys)"
  by (auto simp: eval_nat_numeral Suc_le_length_iff)

lemmas size_defs = memoryKeccak256_def memoryCallDataCopy_def memoryReturnDataCopy_def memoryCodeCopy_def
  memoryExtCodeCopy_def memoryMLoad_def memoryMStore8_def memoryMStore_def memoryCreate_def memoryCreate2_def
  memoryReturn_def memoryRevert_def memoryLog_def mem_size_at_def Back_def

lemmas exec_mem = exec_ok_def covered_def length_ge maxStack_def gas_of_def in_u64_def no_credit_def evm_inv_def size_defs wp wp_GetPtr

lemma opKeccak256_ok:
  "exec_ok C E D 2 (maxStack (e_params E) 2 1) (Some memoryKeccak256) no_credit False opKeccak256"
  by (auto simp: exec_mem opKeccak256_def dest!: calcMemSize64_region)

lemma data_copy_ok:
  "exec_ok C E D 3 (maxStack (e_params E) 3 0) (Some memoryCallDataCopy) no_credit False opCallDataCopy"
  "exec_ok C E D 3 (maxStack (e_params E) 3 0) (Some memoryCodeCopy) no_credit False opCodeCopy"
  "exec_ok C E D 3 (maxStack (e_params E) 3 0) (Some memoryReturnDataCopy) no_credit False opReturnDataCopy"
  "exec_ok C E D 4 (maxStack (e_params E) 4 0) (Some memoryExtCodeCopy) no_credit False opExtCodeCopy"
  by (auto simp: exec_mem opCallDataCopy_def opCodeCopy_def opReturnDataCopy_def opExtCodeCopy_def
    dest!: calcMemSize64_region intro!: wp_Set split: sum.splits dest: getData_benign)


lemma opMload_ok: "exec_ok C E D 1 (maxStack (e_params E) 1 1) (Some memoryMLoad) no_credit False opMload"
proof -
  have "wp (opMload C E) Q F s" if "fr_Stack s = v # st" and "calcMemSize64WithUint v 32 = (sz, False)"
    and "sz \<le> int (mem_len s)" and "int (mem_len s) \<le> max_mem" and "\<And>x. Q [] (s\<lparr>fr_Stack := x # st\<rparr>)" for Q F s v st sz
  proof -
    have "region (uint64_of v) 32 (length (mem_store (fr_Memory s)))"
      using calcMemSize64WithUint_region [OF that(2,3)] by (simp add: mem_len_def)
    from GetPtr_region(1) [OF this] that(1,4,5) show ?thesis
      by (simp add: opMload_def wp mem_len_def i64_id)
  qed
  then show ?thesis by (auto simp: exec_mem)
qed

lemma opMstore_ok: "exec_ok C E D 2 (maxStack (e_params E) 2 0) (Some memoryMStore) no_credit False opMstore"
proof -
  have "wp (opMstore C E) Q F s" if "fr_Stack s = v # val # st" and "calcMemSize64WithUint v 32 = (sz, False)"
    and "sz \<le> int (mem_len s)" and "int (mem_len s) \<le> max_mem"
    and "\<And>m. length (mem_store m) = mem_len s \<Longrightarrow> mem_lastGasCost m = mem_last s \<Longrightarrow> Q [] (s\<lparr>fr_Stack := st, fr_Memory := m\<rparr>)" for Q F s v val st sz
  proof -
    have "region (uint64_of v) 32 (length (mem_store (fr_Memory s)))"
      using calcMemSize64WithUint_region [OF that(2,3)] by (simp add: mem_len_def)
    from Set32_region [OF this, of val] that(1,4,5) show ?thesis by (auto simp: opMstore_def wp mem_len_def mem_last_def)
  qed
  then show ?thesis by (auto simp: exec_mem)
qed

lemma opMstore8_ok: "exec_ok C E D 2 (maxStack (e_params E) 2 0) (Some memoryMStore8) no_credit False opMstore8"
proof -
  have "wp (opMstore8 C E) Q F s" if "fr_Stack s = v # val # st" and "calcMemSize64WithUint v 1 = (sz, False)"
    and "sz \<le> int (mem_len s)" and "int (mem_len s) \<le> max_mem"
    and "\<And>m. length (mem_store m) = mem_len s \<Longrightarrow> mem_lastGasCost m = mem_last s \<Longrightarrow> Q [] (s\<lparr>fr_Stack := st, fr_Memory := m\<rparr>)" for Q F s v val st sz
  proof -
    have "region (uint64_of v) 1 (mem_len s)" using calcMemSize64WithUint_region [OF that(2,3)] by simp
    with that(1,4,5) show ?thesis by (simp add: opMstore8_def wp mem_Set_byte_def mem_len_def mem_last_def region_def)
  qed
  then show ?thesis by (auto simp: exec_mem)
qed

lemma return_ok:
  "exec_ok C E D 2 mx (Some memoryReturn) no_credit halts opReturn"
  "exec_ok C E D 2 mx (Some memoryRevert) no_credit halts opRevert"
  by (auto simp: exec_mem opReturn_def opRevert_def set_returnData_def dest!: calcMemSize64_region)

lemma wp_pop_topics [wp]:
  "wp (pop_topics n) Q F s \<longleftrightarrow> n \<le> length (fr_Stack s) \<and>
     Q (take n (fr_Stack s)) (s\<lparr>fr_Stack := drop n (fr_Stack s)\<rparr>)"
proof (induction n arbitrary: Q s)
  case 0
  then show ?case by (simp add: wp frame_stack_id)
next
  case (Suc n)
  then show ?case by (cases "fr_Stack s") (auto simp: wp)
qed

lemma makeLog_ok:
  "exec_ok C E D (n + 2) (maxStack (e_params E) (int n + 2) 0) (Some memoryLog) no_credit False (makeLog n)"
proof -
  have "\<exists>a b st. fr_Stack s = a # b # st \<and> n \<le> length st" if "n + 2 \<le> length (fr_Stack s)" for s :: "'a frame"
    using that by (auto simp: Suc_le_length_iff)
  then show ?thesis
    by (fastforce simp: exec_ok_def covered_def maxStack_def gas_of_def in_u64_def no_credit_def evm_inv_def size_defs wp wp_GetPtr
        makeLog_def dest!: calcMemSize64_region)
qed


section \<open>Calls\<close>

text \<open>What is relied on of the constants: they are positive, small, and ordered as on the main network.\<close>

definition params_ok :: "(param \<Rightarrow> int) \<Rightarrow> bool" where
  "params_ok G \<longleftrightarrow> (\<forall>p. 0 < G p \<and> G p < 2 ^ 32) \<and> G CallStipend < G CallValueTransferGas \<and>
     G MemoryGas < 2 ^ 16 \<and> 2 ^ 8 \<le> G QuadCoeffDiv \<and>
     G WarmStorageReadCostEIP2929 \<le> G ColdAccountAccessCostEIP2929 \<and>
     G ColdSloadCostEIP2929 < G SstoreResetGasEIP2200"

lemma params_range:
  "params_ok G \<Longrightarrow> 0 < G p" "params_ok G \<Longrightarrow> G p < 4294967296" "params_ok G \<Longrightarrow> 0 \<le> G p"
  by (simp_all add: params_ok_def less_imp_le)

definition result_ok :: "int \<Rightarrow> int \<Rightarrow> evm_stop + (bytes \<times> int \<times> evm_error option) \<times> 'k evm \<Rightarrow> bool" where
  "result_ok D gas r \<longleftrightarrow> (case r of
      Inl p \<Rightarrow> benign p
    | Inr ((ret, left, err), evm) \<Rightarrow> 0 \<le> left \<and> left \<le> gas \<and> evm_inv D evm)"

definition create_ok :: "int \<Rightarrow> int \<Rightarrow> evm_stop + (bytes \<times> address \<times> int \<times> evm_error option) \<times> 'k evm \<Rightarrow> bool" where
  "create_ok D gas r \<longleftrightarrow> (case r of
      Inl p \<Rightarrow> benign p
    | Inr ((ret, addr, left, err), evm) \<Rightarrow> 0 \<le> left \<and> left \<le> gas \<and> evm_inv D evm)"

definition callee_ok :: "int \<Rightarrow> 'k callee \<Rightarrow> bool" where
  "callee_ok D C \<longleftrightarrow> (\<forall>me addr input gas val salt evm. evm_inv D evm \<longrightarrow> in_u64 gas \<longrightarrow>
     result_ok D gas (c_Call C me addr input gas val evm) \<and>
     result_ok D gas (c_CallCode C me addr input gas val evm) \<and>
     result_ok D gas (c_DelegateCall C me addr input gas evm) \<and>
     result_ok D gas (c_StaticCall C me addr input gas evm) \<and>
     create_ok D gas (c_Create C me input gas val evm) \<and>
     create_ok D gas (c_Create2 C me input gas val salt evm))"

lemma wp_sub_call_result:
  assumes "result_ok D gas (f (contract_ref (fr_Contract s)) (fr_evm s))"
    and "\<And>ret left err evm. 0 \<le> left \<Longrightarrow> left \<le> gas \<Longrightarrow> evm_inv D evm \<Longrightarrow> Q (ret, left, err) (s\<lparr>fr_evm := evm\<rparr>)"
  shows "wp (sub_call f) Q F s"
  using assms by (auto simp: wp_def sub_call_def result_ok_def split: sum.splits)

lemma wp_sub_call_create:
  assumes "create_ok D gas (f (contract_ref (fr_Contract s)) (fr_evm s))"
    and "\<And>ret addr left err evm. 0 \<le> left \<Longrightarrow> left \<le> gas \<Longrightarrow> evm_inv D evm \<Longrightarrow> Q (ret, addr, left, err) (s\<lparr>fr_evm := evm\<rparr>)"
  shows "wp (sub_call f) Q F s"
  using assms by (auto simp: wp_def sub_call_def create_ok_def split: sum.splits)

lemma wp_gas [wp]:
  "wp gas_left Q F s \<longleftrightarrow> Q (ct_Gas (fr_Contract s)) s"
  "wp (return_gas gas) Q' F s \<longleftrightarrow>
     Q' () (s\<lparr>fr_Contract := (fr_Contract s)\<lparr>ct_Gas := u64 (ct_Gas (fr_Contract s) + gas)\<rparr>\<rparr>)"
  "wp (set_returnData ret) Q' F s \<longleftrightarrow> Q' () (s\<lparr>fr_evm := (fr_evm s)\<lparr>ev_returnData := ret\<rparr>\<rparr>)"
  "wp call_gas_temp Q F s \<longleftrightarrow> Q (ev_callGasTemp (fr_evm s)) s"
  by (simp_all add: gas_left_def return_gas_def set_returnData_def call_gas_temp_def wp)

lemma wp_use_gas [wp]:
  "wp (use_gas gas) Q F s \<longleftrightarrow>
     (if ct_Gas (fr_Contract s) < gas then Q False s
      else Q True (s\<lparr>fr_Contract := (fr_Contract s)\<lparr>ct_Gas := ct_Gas (fr_Contract s) - gas\<rparr>\<rparr>))"
  by (simp add: use_gas_def wp UseGas_def)

lemma u64_le: "0 \<le> x \<Longrightarrow> u64 x \<le> x" "0 \<le> u64 x" "u64 x < 18446744073709551616"
  by (auto simp: u64_def zmod_le_nonneg_dividend)

text \<open>The end of a call: the stack grows by one, the gas by what came back.\<close>

lemma wp_called:
  assumes "region (uint64_of retOffset) (uint64_of retSize) (mem_len s)" and "int (mem_len s) \<le> max_mem"
    and "\<And>v m. length (mem_store m) = mem_len s \<Longrightarrow> mem_lastGasCost m = mem_last s \<Longrightarrow>
      Q ret (s\<lparr>fr_Stack := v # fr_Stack s, fr_Memory := m,
        fr_Contract := (fr_Contract s)\<lparr>ct_Gas := u64 (ct_Gas (fr_Contract s) + left)\<rparr>,
        fr_evm := (fr_evm s)\<lparr>ev_returnData := ret\<rparr>\<rparr>)"
  shows "wp (called retOffset retSize ret left err) Q F s"
proof -
  have id: "s\<lparr>fr_Memory := fr_Memory s\<rparr> = s" for s :: "'a frame" by (cases s) simp
  have "Q ret (s\<lparr>fr_Stack := v # fr_Stack s,
        fr_Contract := (fr_Contract s)\<lparr>ct_Gas := u64 (ct_Gas (fr_Contract s) + left)\<rparr>,
        fr_evm := (fr_evm s)\<lparr>ev_returnData := ret\<rparr>\<rparr>)" for v
    using assms(3) [of "fr_Memory s" v] by (cases s) (simp add: mem_len_def mem_last_def)
  with assms show ?thesis
    by (auto simp: called_def wp intro!: wp_Set)
qed

lemma wp_created:
  assumes "\<And>r. Q r (s\<lparr>fr_Stack := v # fr_Stack s,
      fr_Contract := (fr_Contract s)\<lparr>ct_Gas := u64 (ct_Gas (fr_Contract s) + left)\<rparr>,
      fr_evm := (fr_evm s)\<lparr>ev_returnData := r\<rparr>\<rparr>)"
  shows "wp (created res left err v) Q F s"
  using assms by (auto simp: created_def wp)


lemma larger_of_regions:
  assumes "larger_of (Inr (calcMemSize64 a b)) (Inr (calcMemSize64 c d)) = Inr (sz, False)" and "sz \<le> int len"
  shows "region (uint64_of a) (uint64_of b) len \<and> region (uint64_of c) (uint64_of d) len"
proof -
  obtain x y where "calcMemSize64 a b = (x, False)" and "calcMemSize64 c d = (y, False)" and "x \<le> sz" and "y \<le> sz"
    using assms(1) by (cases "calcMemSize64 a b"; cases "calcMemSize64 c d") (auto simp: larger_of_def split: if_splits)
  with calcMemSize64_region [of a b x len] calcMemSize64_region [of c d y len] assms(2) show ?thesis by simp
qed

lemma div64_bounds: "0 \<le> x \<Longrightarrow> 0 \<le> x div 64 \<and> x div 64 \<le> (x :: int)"
  by auto

lemma callee_create:
  assumes "callee_ok D C" and "evm_inv D evm" and "in_u64 gas"
  shows "create_ok D gas (c_Create C me input gas val evm)" and "create_ok D gas (c_Create2 C me input gas val salt evm)"
  using assms by (simp_all add: callee_ok_def)

lemma callee_calls:
  assumes "callee_ok D C" and "evm_inv D evm" and "in_u64 gas"
  shows "result_ok D gas (c_Call C me addr input gas val evm)" and "result_ok D gas (c_CallCode C me addr input gas val evm)"
    and "result_ok D gas (c_DelegateCall C me addr input gas evm)" and "result_ok D gas (c_StaticCall C me addr input gas evm)"
  using assms by (simp_all add: callee_ok_def)

lemma sub_gas:
  assumes "0 \<le> (g :: int)" and "g < 2 ^ 64"
  shows "u64 (g - g div 64) = g - g div 64" and "0 \<le> g - g div 64" and "g - g div 64 \<le> g"
  using div64_bounds [OF assms(1)] assms by (auto intro: u64_id)

text \<open>What comes after the call of EVM: what is left is given back, and is at most what was taken.\<close>

lemma wp_create_tail:
  assumes "create_ok D gas (f (contract_ref (fr_Contract s)) (fr_evm s))" and "gas_of s = tot - gas"
    and "0 \<le> gas" and "gas \<le> tot" and "tot < 2 ^ 64"
    and "\<And>r s1. length (fr_Stack s1) = Suc (length (fr_Stack s)) \<Longrightarrow> mem_len s1 = mem_len s \<Longrightarrow> mem_last s1 = mem_last s \<Longrightarrow> evm_inv D (fr_evm s1)
      \<Longrightarrow> 0 \<le> gas_of s1 \<Longrightarrow> gas_of s1 < 2 ^ 64 \<Longrightarrow> gas_of s1 \<le> tot \<Longrightarrow> Q r s1"
  shows "wp (sub_call f) (\<lambda>x. wp (case x of (res, addr, left, err) \<Rightarrow> created res left err (v addr err)) Q F) F s"
proof (rule wp_sub_call_create [where f = f and s = s, OF assms(1)])
  fix ret addr left err and evm :: "'a evm"
  assume left: "0 \<le> left" "left \<le> gas" and inv: "evm_inv D evm"
  have "u64 (tot - gas + left) = tot - gas + left" using left assms(3-5) by (intro u64_id) auto
  moreover have "evm_inv D (evm\<lparr>ev_returnData := r\<rparr>)" for r using inv by (simp add: evm_inv_def)
  ultimately have "Q r (s\<lparr>fr_evm := evm, fr_Stack := v addr err # fr_Stack s,
      fr_Contract := (fr_Contract s)\<lparr>ct_Gas := u64 (ct_Gas (fr_Contract s) + left)\<rparr>,
      fr_evm := evm\<lparr>ev_returnData := r\<rparr>\<rparr>)" for r
    using left assms(2-5) by (intro assms(6)) (auto simp: gas_of_def)
  then show "wp (case (ret, addr, left, err) of (res, addr, left, err) \<Rightarrow> created res left err (v addr err)) Q F (s\<lparr>fr_evm := evm\<rparr>)"
    by (auto intro!: wp_created)
qed

lemma opCreate_ok:
  assumes "callee_ok D C"
  shows "exec_ok C E D 3 (maxStack (e_params E) 3 1) (Some memoryCreate) no_credit False opCreate"
  unfolding exec_ok_def
proof (intro allI impI)
  fix s :: "'a frame"
  assume a: "3 \<le> length (fr_Stack s)" "int (length (fr_Stack s)) \<le> maxStack (e_params E) 3 1"
    "evm_inv D (fr_evm s)" "in_u64 (gas_of s)" "covered (Some memoryCreate) s" "int (mem_len s) \<le> max_mem"
  then obtain v off sz st where st: "fr_Stack s = v # off # sz # st" by (auto simp: length_ge)
  with a(5) have r: "region (uint64_of off) (uint64_of sz) (mem_len s)"
    by (auto simp: covered_def size_defs dest: calcMemSize64_region)
  have g: "0 \<le> ct_Gas (fr_Contract s)" "ct_Gas (fr_Contract s) < 2 ^ 64"
    using a(4) by (simp_all add: in_u64_def gas_of_def)
  note sub = sub_gas [OF g]
  have d: "0 \<le> ct_Gas (fr_Contract s) div 64" using g(1) by simp
  show "wp (opCreate C E) (\<lambda>_ s1. \<not> False \<and> int (length (fr_Stack s1)) \<le> e_params E StackLimit \<and> mem_len s1 = mem_len s \<and> mem_last s1 = mem_last s \<and>
          evm_inv D (fr_evm s1) \<and> 0 \<le> gas_of s1 \<and> gas_of s1 < 2 ^ 64 \<and>
          gas_of s1 \<le> gas_of s + no_credit (fr_Stack s) (ev_callGasTemp (fr_evm s)))
       (\<lambda>s1. evm_inv D (fr_evm s1) \<and> 0 \<le> gas_of s1 \<and> gas_of s1 < 2 ^ 64 \<and>
          gas_of s1 \<le> gas_of s + no_credit (fr_Stack s) (ev_callGasTemp (fr_evm s))) s"
    using st r a(2,3,6) g d
    apply (simp add: opCreate_def wp wp_GetPtr gas_of_def u64_le sub no_credit_def)
    apply (intro conjI impI)
     apply (rule wp_create_tail [where gas = "ct_Gas (fr_Contract s) - ct_Gas (fr_Contract s) div 64" and tot = "ct_Gas (fr_Contract s)"])
    apply (auto intro!: callee_create [OF assms] simp: in_u64_def maxStack_def gas_of_def)
    apply (rule wp_create_tail [where gas = "ct_Gas (fr_Contract s)" and tot = "ct_Gas (fr_Contract s)"])
    apply (auto intro!: callee_create [OF assms] simp: in_u64_def maxStack_def gas_of_def)
    done
qed


lemma opCreate2_ok:
  assumes "callee_ok D C"
  shows "exec_ok C E D 4 (maxStack (e_params E) 4 1) (Some memoryCreate2) no_credit False opCreate2"
  unfolding exec_ok_def
proof (intro allI impI)
  fix s :: "'a frame"
  assume a: "4 \<le> length (fr_Stack s)" "int (length (fr_Stack s)) \<le> maxStack (e_params E) 4 1"
    "evm_inv D (fr_evm s)" "in_u64 (gas_of s)" "covered (Some memoryCreate2) s" "int (mem_len s) \<le> max_mem"
  then obtain v off sz salt st where st: "fr_Stack s = v # off # sz # salt # st" by (auto simp: length_ge)
  with a(5) have r: "region (uint64_of off) (uint64_of sz) (mem_len s)"
    by (auto simp: covered_def size_defs dest: calcMemSize64_region)
  have g: "0 \<le> ct_Gas (fr_Contract s)" "ct_Gas (fr_Contract s) < 2 ^ 64"
    using a(4) by (simp_all add: in_u64_def gas_of_def)
  note sub = sub_gas [OF g]
  have d: "0 \<le> ct_Gas (fr_Contract s) div 64" using g(1) by simp
  show "wp (opCreate2 C E) (\<lambda>_ s1. \<not> False \<and> int (length (fr_Stack s1)) \<le> e_params E StackLimit \<and> mem_len s1 = mem_len s \<and> mem_last s1 = mem_last s \<and>
          evm_inv D (fr_evm s1) \<and> 0 \<le> gas_of s1 \<and> gas_of s1 < 2 ^ 64 \<and>
          gas_of s1 \<le> gas_of s + no_credit (fr_Stack s) (ev_callGasTemp (fr_evm s)))
       (\<lambda>s1. evm_inv D (fr_evm s1) \<and> 0 \<le> gas_of s1 \<and> gas_of s1 < 2 ^ 64 \<and>
          gas_of s1 \<le> gas_of s + no_credit (fr_Stack s) (ev_callGasTemp (fr_evm s))) s"
    using st r a(2,3,6) g d
    apply (simp add: opCreate2_def wp wp_GetPtr gas_of_def u64_le sub no_credit_def)
    apply (intro impI)
    apply (rule wp_create_tail [where gas = "ct_Gas (fr_Contract s) - ct_Gas (fr_Contract s) div 64" and tot = "ct_Gas (fr_Contract s)"])
         apply (auto intro!: callee_create [OF assms] simp: in_u64_def maxStack_def gas_of_def)
    done
qed

lemma wp_call_tail:
  assumes "result_ok D gas (f (contract_ref (fr_Contract s)) (fr_evm s))"
    and "region (uint64_of retOffset) (uint64_of retSize) (mem_len s)" and "int (mem_len s) \<le> max_mem"
    and "0 \<le> gas_of s"
    and "\<And>r s1. length (fr_Stack s1) = Suc (length (fr_Stack s)) \<Longrightarrow> mem_len s1 = mem_len s \<Longrightarrow> mem_last s1 = mem_last s \<Longrightarrow> evm_inv D (fr_evm s1)
      \<Longrightarrow> 0 \<le> gas_of s1 \<Longrightarrow> gas_of s1 < 2 ^ 64 \<Longrightarrow> gas_of s1 \<le> gas_of s + gas \<Longrightarrow> Q r s1"
  shows "wp (sub_call f) (\<lambda>x. wp (case x of (ret, left, err) \<Rightarrow> called retOffset retSize ret left err) Q F) F s"
proof (rule wp_sub_call_result [where f = f and s = s, OF assms(1)])
  fix ret left err and evm :: "'a evm"
  assume left: "0 \<le> left" "left \<le> gas" and inv: "evm_inv D evm"
  have "u64 (gas_of s + left) \<le> gas_of s + left" "0 \<le> u64 (gas_of s + left)" "u64 (gas_of s + left) < 18446744073709551616"
    using assms(4) left by (auto intro: u64_le)
  moreover have "evm_inv D (evm\<lparr>ev_returnData := r\<rparr>)" for r using inv by (simp add: evm_inv_def)
  ultimately have "Q ret (s\<lparr>fr_Stack := v # fr_Stack s, fr_Memory := m,
      fr_Contract := (fr_Contract s)\<lparr>ct_Gas := u64 (ct_Gas (fr_Contract s) + left)\<rparr>,
      fr_evm := evm\<lparr>ev_returnData := ret\<rparr>\<rparr>)" if "length (mem_store m) = mem_len s" "mem_lastGasCost m = mem_last s" for v m
    using left that by (intro assms(5)) (auto simp: gas_of_def mem_len_def mem_last_def)
  then show "wp (case (ret, left, err) of (ret, left, err) \<Rightarrow> called retOffset retSize ret left err) Q F (s\<lparr>fr_evm := evm\<rparr>)"
    using assms(2,3) by (auto intro!: wp_called)
qed

definition call_credit :: "(param \<Rightarrow> int) \<Rightarrow> credit" where
  "call_credit G st gas = gas + (if st ! 2 \<noteq> 0 then G CallStipend else 0)"

definition plain_credit :: credit where
  "plain_credit st gas = gas"

text \<open>The four calls, from the state in which their arguments are off the stack.\<close>

lemma call_frame:
  assumes "evm_inv D (fr_evm s)" and "in_u64 (gas_of s)" and "int (mem_len s) \<le> max_mem"
    and "region (uint64_of ro) (uint64_of rsz) (mem_len s)" and "int (length st) < lim"
    and "result_ok D gas (f (contract_ref (fr_Contract s)) (fr_evm s))" and "gas \<le> c"
  shows "wp (sub_call f) (\<lambda>x. wp (case x of (ret, left, err) \<Rightarrow> called ro rsz ret left err)
       (\<lambda>_ s1. int (length (fr_Stack s1)) \<le> lim \<and> mem_len s1 = mem_len s \<and> mem_last s1 = mem_last s \<and> evm_inv D (fr_evm s1) \<and>
          0 \<le> gas_of s1 \<and> gas_of s1 < 18446744073709551616 \<and> gas_of s1 \<le> gas_of s + c) F) F (s\<lparr>fr_Stack := st\<rparr>)"
  by (rule wp_call_tail [where gas = gas]) (use assms in \<open>auto simp: gas_of_def in_u64_def\<close>)

lemma call_args:
  assumes "7 \<le> length (fr_Stack s)" and "covered (Some memoryCall) s"
  obtains t addr v io isz ro rsz st where "fr_Stack s = t # addr # v # io # isz # ro # rsz # st"
    and "region (uint64_of io) (uint64_of isz) (mem_len s)" and "region (uint64_of ro) (uint64_of rsz) (mem_len s)"
proof -
  obtain t addr v io isz ro rsz st where st: "fr_Stack s = t # addr # v # io # isz # ro # rsz # st"
    using assms(1) by (auto simp: length_ge)
  with assms(2) that show ?thesis
    by (auto simp: covered_def memoryCall_def mem_size_at_def Back_def dest!: larger_of_regions)
qed

lemma call_args6:
  assumes "6 \<le> length (fr_Stack s)" and "covered (Some memoryDelegateCall) s \<or> covered (Some memoryStaticCall) s"
  obtains t addr io isz ro rsz st where "fr_Stack s = t # addr # io # isz # ro # rsz # st"
    and "region (uint64_of io) (uint64_of isz) (mem_len s)" and "region (uint64_of ro) (uint64_of rsz) (mem_len s)"
proof -
  obtain t addr io isz ro rsz st where st: "fr_Stack s = t # addr # io # isz # ro # rsz # st"
    using assms(1) by (auto simp: length_ge)
  with assms(2) that show ?thesis
    by (auto simp: covered_def memoryDelegateCall_def memoryStaticCall_def mem_size_at_def Back_def dest!: larger_of_regions)
qed

lemma call_temp: "evm_inv D evm \<Longrightarrow> in_u64 (ev_callGasTemp evm) \<and> 0 \<le> ev_callGasTemp evm"
  by (simp add: evm_inv_def in_u64_def)

lemma gas_range: "in_u64 (gas_of s) \<Longrightarrow> 0 \<le> gas_of s \<and> gas_of s < 18446744073709551616"
  by (simp add: in_u64_def)

lemma gas_of_stack: "gas_of (s\<lparr>fr_Stack := st\<rparr>) = gas_of s"
  by (simp add: gas_of_def)

lemma opCall_ok:
  assumes "callee_ok D C" and "params_ok (e_params E)"
  shows "exec_ok C E D 7 (maxStack (e_params E) 7 1) (Some memoryCall) (call_credit (e_params E)) False opCall"
  unfolding exec_ok_def
proof (intro allI impI, goal_cases)
  case (1 s)
  from 1(1,5) obtain t addr v io isz ro rsz st where st: "fr_Stack s = t # addr # v # io # isz # ro # rsz # st"
    and r: "region (uint64_of io) (uint64_of isz) (mem_len s)" "region (uint64_of ro) (uint64_of rsz) (mem_len s)"
    by (rule call_args)
  have "0 < e_params E CallStipend" using params_range [OF assms(2)] by simp
  moreover have "int (length st) < e_params E StackLimit" using 1(2) by (simp add: st maxStack_def)
  note fr = call_frame [OF 1(3,4,6) r(2) this]
  ultimately show ?case using st r(1) 1(3,6) call_temp [OF 1(3)] gas_range [OF 1(4)]
    by (auto simp: opCall_def wp wp_GetPtr call_credit_def gas_of_stack u64_in_u64 u64_le
        intro!: fr callee_calls(1) [OF assms(1)])
qed

lemma opCallCode_ok:
  assumes "callee_ok D C" and "params_ok (e_params E)"
  shows "exec_ok C E D 7 (maxStack (e_params E) 7 1) (Some memoryCall) (call_credit (e_params E)) False opCallCode"
  unfolding exec_ok_def
proof (intro allI impI, goal_cases)
  case (1 s)
  from 1(1,5) obtain t addr v io isz ro rsz st where st: "fr_Stack s = t # addr # v # io # isz # ro # rsz # st"
    and r: "region (uint64_of io) (uint64_of isz) (mem_len s)" "region (uint64_of ro) (uint64_of rsz) (mem_len s)"
    by (rule call_args)
  have "0 < e_params E CallStipend" using params_range [OF assms(2)] by simp
  moreover have "int (length st) < e_params E StackLimit" using 1(2) by (simp add: st maxStack_def)
  note fr = call_frame [OF 1(3,4,6) r(2) this]
  ultimately show ?case using st r(1) 1(3,6) call_temp [OF 1(3)] gas_range [OF 1(4)]
    by (auto simp: opCallCode_def wp wp_GetPtr call_credit_def gas_of_stack u64_in_u64 u64_le
        intro!: fr callee_calls(2) [OF assms(1)])
qed

lemma opDelegateCall_ok:
  assumes "callee_ok D C"
  shows "exec_ok C E D 6 (maxStack (e_params E) 6 1) (Some memoryDelegateCall) plain_credit False opDelegateCall"
  unfolding exec_ok_def
proof (intro allI impI, goal_cases)
  case (1 s)
  then obtain t addr io isz ro rsz st where st: "fr_Stack s = t # addr # io # isz # ro # rsz # st"
    and r: "region (uint64_of io) (uint64_of isz) (mem_len s)" "region (uint64_of ro) (uint64_of rsz) (mem_len s)"
    using call_args6 by blast
  have "int (length st) < e_params E StackLimit" using 1(2) by (simp add: st maxStack_def)
  note fr = call_frame [OF 1(3,4,6) r(2) this]
  show ?case using st r(1) 1(3,6) call_temp [OF 1(3)] gas_range [OF 1(4)]
    by (auto simp: opDelegateCall_def wp wp_GetPtr plain_credit_def gas_of_stack intro!: fr callee_calls(3) [OF assms(1)])
qed

lemma opStaticCall_ok:
  assumes "callee_ok D C"
  shows "exec_ok C E D 6 (maxStack (e_params E) 6 1) (Some memoryStaticCall) plain_credit False opStaticCall"
  unfolding exec_ok_def
proof (intro allI impI, goal_cases)
  case (1 s)
  then obtain t addr io isz ro rsz st where st: "fr_Stack s = t # addr # io # isz # ro # rsz # st"
    and r: "region (uint64_of io) (uint64_of isz) (mem_len s)" "region (uint64_of ro) (uint64_of rsz) (mem_len s)"
    using call_args6 by blast
  have "int (length st) < e_params E StackLimit" using 1(2) by (simp add: st maxStack_def)
  note fr = call_frame [OF 1(3,4,6) r(2) this]
  show ?case using st r(1) 1(3,6) call_temp [OF 1(3)] gas_range [OF 1(4)]
    by (auto simp: opStaticCall_def wp wp_GetPtr plain_credit_def gas_of_stack intro!: fr callee_calls(4) [OF assms(1)])
qed

end
