(* ===== verification/EvmGasSafety.thy ===== *)
theory EvmGasSafety
  imports EvmSafety
begin

text \<open>
  The sizes and the gas of the instructions (memory_table.go, gas_table.go, operations_acl.go): every
  memory size function fits a uint64, and every gas function charges at least what the instruction may
  hand back, whatever the order in which its additions overflow (\<open>size_ok\<close>, \<open>gas_ok\<close>).
\<close>

section \<open>The size of the memory\<close>

lemma calcMemSize64WithUint_range: "calcMemSize64WithUint off n = (sz, overflow) \<Longrightarrow> in_u64 sz"
  by (auto simp: calcMemSize64WithUint_def Let_def u64_in_u64 in_u64_def split: if_splits prod.splits)
    (auto simp: u64_def)

lemma calcMemSize64_range: "calcMemSize64 off l = (sz, overflow) \<Longrightarrow> in_u64 sz"
  by (auto simp: calcMemSize64_def in_u64_def split: if_splits dest: calcMemSize64WithUint_range)

lemma mem_size_at_ok: "i < n \<Longrightarrow> j < n \<Longrightarrow> size_ok n (mem_size_at i j)"
  by (auto simp: size_ok_def mem_size_at_def Back_def) (metis calcMemSize64_range surj_pair)

lemma larger_of_ok:
  assumes "size_ok n f" and "size_ok n g"
  shows "size_ok n (\<lambda>st. larger_of (f st) (g st))"
  unfolding size_ok_def
proof (intro allI impI)
  fix st :: stack
  assume "n \<le> length st"
  with assms obtain x o1 y o2 where "f st = Inr (x, o1)" "in_u64 x" "g st = Inr (y, o2)" "in_u64 y"
    unfolding size_ok_def by blast
  then show "\<exists>sz overflow. larger_of (f st) (g st) = Inr (sz, overflow) \<and> in_u64 sz"
    by (auto simp: larger_of_def in_u64_def)
qed

lemma word_size_ok:
  "size_ok 1 memoryMLoad" "size_ok 2 memoryMStore8" "size_ok 2 memoryMStore"
  by (auto simp: size_ok_def memoryMLoad_def memoryMStore8_def memoryMStore_def Back_def)
    (metis calcMemSize64WithUint_range surj_pair)+

lemma size_functions:
  "memoryKeccak256 = mem_size_at 0 1" "memoryCallDataCopy = mem_size_at 0 2" "memoryReturnDataCopy = mem_size_at 0 2"
  "memoryCodeCopy = mem_size_at 0 2" "memoryExtCodeCopy = mem_size_at 1 3" "memoryCreate = mem_size_at 1 2"
  "memoryCreate2 = mem_size_at 1 2" "memoryReturn = mem_size_at 0 1" "memoryRevert = mem_size_at 0 1"
  "memoryLog = mem_size_at 0 1" "memoryCall = (\<lambda>st. larger_of (mem_size_at 5 6 st) (mem_size_at 3 4 st))"
  "memoryDelegateCall = (\<lambda>st. larger_of (mem_size_at 4 5 st) (mem_size_at 2 3 st))"
  "memoryStaticCall = (\<lambda>st. larger_of (mem_size_at 4 5 st) (mem_size_at 2 3 st))"
  by (simp_all add: fun_eq_iff memoryKeccak256_def memoryCallDataCopy_def memoryReturnDataCopy_def
      memoryCodeCopy_def memoryExtCodeCopy_def memoryCreate_def memoryCreate2_def memoryReturn_def memoryRevert_def
      memoryLog_def memoryCall_def memoryDelegateCall_def memoryStaticCall_def)

lemma sizes_ok:
  "size_ok 2 memoryKeccak256" "size_ok 3 memoryCallDataCopy" "size_ok 3 memoryReturnDataCopy" "size_ok 3 memoryCodeCopy"
  "size_ok 4 memoryExtCodeCopy" "size_ok 3 memoryCreate" "size_ok 4 memoryCreate2" "size_ok 2 memoryReturn"
  "size_ok 2 memoryRevert" "2 \<le> n \<Longrightarrow> size_ok n memoryLog" "size_ok 7 memoryCall" "size_ok 6 memoryDelegateCall"
  "size_ok 6 memoryStaticCall"
  by (simp_all add: size_functions mem_size_at_ok larger_of_ok)

section \<open>Dynamic gas\<close>

text \<open>The fee of a memory that is paid for: exactly the difference to the larger one.\<close>

lemma mem_fee_mono:
  assumes "0 \<le> w" and "w \<le> v" and "params_ok G"
  shows "mem_fee G w \<le> mem_fee G v"
proof -
  have "w * w div G QuadCoeffDiv \<le> v * v div G QuadCoeffDiv"
    using assms params_range(1) [OF assms(3), of QuadCoeffDiv] by (intro zdiv_mono1 mult_mono) auto
  moreover have "w * G MemoryGas \<le> v * G MemoryGas"
    using assms params_range(3) [OF assms(3)] by (intro mult_right_mono) auto
  ultimately show ?thesis by (simp add: mem_fee_def)
qed

lemma mem_fee_bound:
  assumes "0 \<le> w" and "w < 2 ^ 32" and "params_ok G"
  shows "0 \<le> w * G MemoryGas" and "w * G MemoryGas < 2 ^ 48" and "0 \<le> w * w" and "w * w < 2 ^ 64"
    and "0 \<le> w * w div G QuadCoeffDiv" and "w * w div G QuadCoeffDiv \<le> 2 ^ 56" and "mem_fee G w < 2 ^ 57"
    and "0 \<le> mem_fee G w"
proof -
  have G: "0 \<le> G MemoryGas" "G MemoryGas < 2 ^ 16" "2 ^ 8 \<le> G QuadCoeffDiv"
    using assms(3) by (auto simp: params_ok_def less_imp_le)
  show w: "0 \<le> w * G MemoryGas" "0 \<le> w * w" using assms(1) G by auto
  show lin: "w * G MemoryGas < 2 ^ 48"
    using mult_strict_mono [of w "2 ^ 32" "G MemoryGas" "2 ^ 16"] assms(1,2) G by simp
  show sq: "w * w < 2 ^ 64" using mult_strict_mono [of w "2 ^ 32" w "2 ^ 32"] assms(1,2) by simp
  show d: "0 \<le> w * w div G QuadCoeffDiv" using w G by (simp add: pos_imp_zdiv_nonneg_iff)
  have "w * w div G QuadCoeffDiv \<le> w * w div 2 ^ 8" using w G by (intro zdiv_mono2) auto
  also have "\<dots> \<le> 2 ^ 64 div 2 ^ 8" using sq by (intro zdiv_mono1) auto
  finally show q: "w * w div G QuadCoeffDiv \<le> 2 ^ 56" by simp
  show "mem_fee G w < 2 ^ 57" "0 \<le> mem_fee G w" using lin q w d by (simp_all add: mem_fee_def)
qed

lemma toWordSize_small:
  assumes "0 \<le> sz" and "sz \<le> max_mem"
  shows "toWordSize sz = (sz + 31) div 32" and "toWordSize sz < 2 ^ 32" and "sz \<le> toWordSize sz * 32" and "0 \<le> toWordSize sz"
proof -
  have "u64 (sz + 31) = sz + 31" using assms by (intro u64_id) (auto simp: max_mem_def)
  then show t: "toWordSize sz = (sz + 31) div 32" using assms by (simp add: toWordSize_def max_mem_def)
  show "toWordSize sz < 2 ^ 32" "sz \<le> toWordSize sz * 32" "0 \<le> toWordSize sz"
    unfolding t using assms by (auto simp: max_mem_def)
qed

lemma memoryGasCost_paid:
  assumes "params_ok G" and "mem_paid G (length (mem_store m)) (mem_lastGasCost m)" and "0 \<le> sz" and "sz \<le> max_mem"
  shows "memoryGasCost G sz m =
    (let words = int (length (mem_store m) div 32); grown = max words (toWordSize sz)
     in (Inr (mem_fee G grown - mem_fee G words), m\<lparr>mem_lastGasCost := mem_fee G grown\<rparr>))"
proof -
  let ?w = "toWordSize sz" and ?len = "length (mem_store m)"
  note t = toWordSize_small [OF assms(3,4)]
  note b = mem_fee_bound [OF t(4) t(2) assms(1)]
  have len: "int ?len = int (?len div 32) * 32" using assms(2) by (auto simp: mem_paid_def)
  have last: "mem_lastGasCost m = mem_fee G (int (?len div 32))" using assms(2) by (simp add: mem_paid_def)
  have id: "m\<lparr>mem_lastGasCost := mem_lastGasCost m\<rparr> = m" by (cases m) simp
  have mx: "\<not> sz > 0x1FFFFFFFE0" using assms(4) by (simp add: max_mem_def)
  consider (zero) "sz = 0" | (small) "0 < sz" "?w \<le> int (?len div 32)" | (large) "0 < sz" "int (?len div 32) < ?w"
    using assms(3) by linarith
  then show ?thesis
  proof cases
    case zero
    then show ?thesis by (simp add: memoryGasCost_def toWordSize_def Let_def u64_id last [symmetric] id)
  next
    case small
    then have "\<not> int ?len < u64 (?w * 32)" using len u64_le(1) [of "?w * 32"] t(4) by auto
    then show ?thesis using small mx
      by (simp add: memoryGasCost_def Let_def max_absorb1 last [symmetric] id)
  next
    case large
    have u: "u64 (?w * 32) = ?w * 32" by (rule u64_id) (use t(2,4) in auto)
    have sq: "u64 (?w * ?w) = ?w * ?w" by (rule u64_id [OF b(3,4)])
    have lin: "u64 (?w * G MemoryGas) = ?w * G MemoryGas" by (rule u64_id) (use b(1,2) in auto)
    have tot: "u64 (?w * G MemoryGas + ?w * ?w div G QuadCoeffDiv) = mem_fee G ?w"
      unfolding mem_fee_def by (rule u64_id) (use b(1,2,5,6) in auto)
    have mono: "mem_fee G (int (?len div 32)) \<le> mem_fee G ?w"
      using large assms(1) by (intro mem_fee_mono) auto
    have "0 \<le> mem_fee G (int (?len div 32))" using large t(2) by (intro mem_fee_bound(8) assms(1)) auto
    then have fee: "u64 (mem_fee G ?w - mem_fee G (int (?len div 32))) = mem_fee G ?w - mem_fee G (int (?len div 32))"
      by (intro u64_id) (use mono b(7) in auto)
    have "int ?len < ?w * 32" using large len by linarith
    then show ?thesis using large mx by (simp add: memoryGasCost_def Let_def max_absorb2 u sq lin tot last fee)
  qed
qed

lemma wp_memoryGas:
  assumes "params_ok (e_params E)" and "mem_paid (e_params E) (mem_len s) (mem_last s)" and "0 \<le> sz"
    and "\<And>fee. 0 \<le> fee \<Longrightarrow> fee < 2 ^ 57 \<Longrightarrow> sz \<le> max_mem
      \<Longrightarrow> Q fee (s\<lparr>fr_Memory := charged (e_params E) True sz (fr_Memory s)\<rparr>)"
    and "F s"
  shows "wp (memoryGas E sz) Q F s"
proof (cases "sz \<le> max_mem")
  case True
  let ?G = "e_params E"
  let ?words = "int (mem_len s div 32)"
  let ?fee = "mem_fee ?G (max ?words (toWordSize sz)) - mem_fee ?G ?words"
  note t = toWordSize_small [OF assms(3) True]
  have cost: "memoryGasCost ?G sz (fr_Memory s) = (Inr ?fee, charged ?G True sz (fr_Memory s))"
    using memoryGasCost_paid [OF assms(1) _ assms(3) True, of "fr_Memory s"] assms(2)
    by (simp add: charged_def mem_len_def mem_last_def Let_def)
  have "0 \<le> ?fee" using mem_fee_mono [OF _ _ assms(1)] by simp
  moreover have "?fee < 2 ^ 57"
  proof (cases "?words \<le> toWordSize sz")
    case True
    with mem_fee_bound(7) [OF t(4) t(2) assms(1)] mem_fee_bound(8) [OF _ _ assms(1), of ?words] t(2)
    show ?thesis by (simp add: max_def)
  qed (simp add: max_def)
  ultimately show ?thesis using assms(4) [OF _ _ True] cost by (simp add: wp_def memoryGas_def)
next
  case False
  then have "memoryGasCost (e_params E) sz (fr_Memory s) = (Inl ErrGasUintOverflow, fr_Memory s)"
    by (simp add: memoryGasCost_def max_mem_def)
  moreover have "s\<lparr>fr_Memory := fr_Memory s\<rparr> = s" by (cases s) simp
  ultimately show ?thesis using assms(5) by (simp add: wp_def memoryGas_def)
qed

lemma wp_safe_add [wp]:
  "lib_ok (e_lib E) \<Longrightarrow> wp (safe_add E x y) Q F s \<longleftrightarrow> (if in_u64 (x + y) then Q (x + y) s else F s)"
  by (auto simp: safe_add_def lib_ok_def wp u64_fix)

lemma wp_safe_mul [wp]:
  "lib_ok (e_lib E) \<Longrightarrow> wp (safe_mul E x y) Q F s \<longleftrightarrow> (if in_u64 (x * y) then Q (x * y) s else F s)"
  by (auto simp: safe_mul_def lib_ok_def wp u64_fix)

lemma wp_uint64_at [wp]:
  "wp (uint64_at n) Q F s \<longleftrightarrow> n < length (fr_Stack s) \<and>
     (if IsUint64 (fr_Stack s ! n) then Q (uint (fr_Stack s ! n)) s else F s)"
  by (auto simp: uint64_at_def wp Uint64WithOverflow_def IsUint64_def uint64_of_def u64_fix)

lemma charged_no [simp]: "charged G False sz m = m"
  by (simp add: charged_def)

lemmas gas_simps = gas_room_def gas_post_def gas_fail_def gas_of_def no_credit_def

lemma copier_gas_ok:
  assumes "params_ok (e_params E)" and "lib_ok (e_lib E)"
  shows "n < k \<Longrightarrow> gas_ok E D k True no_credit 0 (memoryCopierGas n)"
    and "gas_ok E D 3 True no_credit 0 gasCallDataCopy" and "gas_ok E D 3 True no_credit 0 gasCodeCopy"
    and "gas_ok E D 4 True no_credit 0 gasExtCodeCopy" and "gas_ok E D 3 True no_credit 0 gasReturnDataCopy"
  using assms by (auto simp: gas_simps wp memoryCopierGas_def gasCallDataCopy_def gasCodeCopy_def gasExtCodeCopy_def
    gasReturnDataCopy_def in_u64_def intro!: wp_memoryGas)

lemma pure_memory_gas_ok:
  assumes "params_ok (e_params E)"
  shows "gas_ok E D n True no_credit 0 gasReturn" and "gas_ok E D n True no_credit 0 gasRevert"
    and "gas_ok E D n True no_credit 0 gasMLoad" and "gas_ok E D n True no_credit 0 gasMStore8"
    and "gas_ok E D n True no_credit 0 gasMStore" and "gas_ok E D n True no_credit 0 gasCreate"
  using assms by (auto simp: gas_simps wp gasReturn_def gasRevert_def gasMLoad_def gasMStore8_def gasMStore_def
    gasCreate_def pureMemoryGascost_def in_u64_def intro!: wp_memoryGas)

lemma hash_gas_ok:
  assumes "params_ok (e_params E)" and "lib_ok (e_lib E)"
  shows "gas_ok E D 2 True no_credit 0 gasKeccak256" and "gas_ok E D 4 True no_credit 0 gasCreate2"
  using assms by (auto simp: gas_simps wp gasKeccak256_def gasCreate2_def in_u64_def intro!: wp_memoryGas)

lemma log_gas_ok:
  assumes "params_ok (e_params E)" and "lib_ok (e_lib E)"
  shows "2 \<le> n \<Longrightarrow> gas_ok E D n True no_credit (e_params E LogGas) (makeGasLog k)"
  using assms by (auto simp: gas_simps wp makeGasLog_def in_u64_def u64_le intro!: wp_memoryGas)

lemma exp_gas_ok:
  assumes "params_ok (e_params E)" and "lib_ok (e_lib E)"
  shows "gas_ok E D 2 False no_credit (e_params E ExpGas) gasExpFrontier"
    and "gas_ok E D 2 False no_credit (e_params E ExpGas) gasExpEIP158"
  using assms by (auto simp: gas_simps wp gasExpFrontier_def gasExpEIP158_def in_u64_def u64_le)


text \<open>Sums of constants do not wrap.\<close>

lemma u64_params:
  assumes "params_ok G"
  shows "u64 (G p + G q) = G p + G q" and "u64 (0 + G p) = G p" and "u64 (G p) = G p" and "in_u64 (G p)"
    and "in_u64 (G p + G q)"
    and "u64 (G p + (G SstoreResetGasEIP2200 - G ColdSloadCostEIP2929)) = G p + (G SstoreResetGasEIP2200 - G ColdSloadCostEIP2929)"
    and "u64 (G SstoreResetGasEIP2200 - G ColdSloadCostEIP2929) = G SstoreResetGasEIP2200 - G ColdSloadCostEIP2929"
    and "in_u64 (G ColdAccountAccessCostEIP2929 - G WarmStorageReadCostEIP2929)"
    and "in_u64 (G SstoreResetGasEIP2200 - G ColdSloadCostEIP2929)"
    and "in_u64 (G p + (G SstoreResetGasEIP2200 - G ColdSloadCostEIP2929))"
proof -
  have r: "0 < G x" "G x < 4294967296" for x using params_range [OF assms] by auto
  have o: "G WarmStorageReadCostEIP2929 \<le> G ColdAccountAccessCostEIP2929" "G ColdSloadCostEIP2929 < G SstoreResetGasEIP2200"
    using assms by (simp_all add: params_ok_def)
  show "u64 (G p + G q) = G p + G q" "u64 (0 + G p) = G p" "u64 (G p) = G p" "in_u64 (G p)" "in_u64 (G p + G q)"
    "u64 (G p + (G SstoreResetGasEIP2200 - G ColdSloadCostEIP2929)) = G p + (G SstoreResetGasEIP2200 - G ColdSloadCostEIP2929)"
    "u64 (G SstoreResetGasEIP2200 - G ColdSloadCostEIP2929) = G SstoreResetGasEIP2200 - G ColdSloadCostEIP2929"
    "in_u64 (G ColdAccountAccessCostEIP2929 - G WarmStorageReadCostEIP2929)"
    "in_u64 (G SstoreResetGasEIP2200 - G ColdSloadCostEIP2929)"
    "in_u64 (G p + (G SstoreResetGasEIP2200 - G ColdSloadCostEIP2929))"
    using r [of p] r [of q] r [of SstoreResetGasEIP2200] r [of ColdSloadCostEIP2929] r [of ColdAccountAccessCostEIP2929]
      r [of WarmStorageReadCostEIP2929] o
    by (auto simp: in_u64_def intro!: u64_id)
qed

lemma wp_slot_in_access_list [wp]:
  "wp (slot_in_access_list a k) Q F s \<longleftrightarrow>
     (\<forall>r. SlotInAccessList a k (ev_StateDB (fr_evm s)) = Inr r \<longrightarrow> Q r s)"
  by (auto simp: slot_in_access_list_def wp lift_go_def split: sum.splits)

lemma wp_in_access_list [wp]:
  "wp (in_access_list a) Q F s \<longleftrightarrow> Q (AddressInAccessList a (ev_StateDB (fr_evm s))) s"
proof -
  have "s\<lparr>fr_evm := (fr_evm s)\<lparr>ev_StateDB := ev_StateDB (fr_evm s)\<rparr>\<rparr> = s" by (cases s, cases "fr_evm s") simp
  then show ?thesis by (simp add: in_access_list_def wp)
qed

lemma wp_add_address [wp]:
  "wp (add_address a) Q F s \<longleftrightarrow>
     Q () (s\<lparr>fr_evm := (fr_evm s)\<lparr>ev_StateDB := AddAddressToAccessList a (ev_StateDB (fr_evm s))\<rparr>\<rparr>)"
  by (simp add: add_address_def wp)

lemma sstore_gas_ok:
  assumes "params_ok (e_params E)"
  shows "gas_ok E D 2 False no_credit 1 gasSStore" and "gas_ok E D 2 False no_credit 1 gasSStoreEIP2200"
    and "gas_ok E D 2 False no_credit 1 gasSStoreEIP2929" and "gas_ok E D 2 False no_credit 1 gasSStoreEIP3529"
proof -
  note pr = u64_params [OF assms] params_range [OF assms]
  have pos: "1 \<le> e_params E p" "0 \<le> e_params E p + e_params E q" "1 \<le> e_params E p + e_params E q" for p q
    using params_range(1) [OF assms, of p] params_range(1) [OF assms, of q] by auto
  have diff: "1 \<le> e_params E SstoreResetGasEIP2200 - e_params E ColdSloadCostEIP2929"
    using assms by (simp add: params_ok_def)
  show "gas_ok E D 2 False no_credit 1 gasSStore"
    by (auto simp: gas_simps wp gasSStore_def Let_def evm_inv_def pr pos in_u64_def [of "ct_Gas c" for c])
  show "gas_ok E D 2 False no_credit 1 gasSStoreEIP2200"
    by (auto simp: gas_simps wp gasSStoreEIP2200_def Let_def evm_inv_def pr pos in_u64_def [of "ct_Gas c" for c])
  have "gas_ok E D 2 False no_credit 1 (makeGasSStoreFunc r)" for r
    by (auto simp: gas_simps wp makeGasSStoreFunc_def Let_def evm_inv_def pr pos diff in_u64_def [of "ct_Gas c" for c])
  then show "gas_ok E D 2 False no_credit 1 gasSStoreEIP2929" "gas_ok E D 2 False no_credit 1 gasSStoreEIP3529"
    by (simp_all add: gas_room_def gasSStoreEIP2929_def gasSStoreEIP3529_def)
qed


lemma access_gas_ok:
  assumes "params_ok (e_params E)" and "lib_ok (e_lib E)"
  shows "gas_ok E D 1 False no_credit 1 gasSLoadEIP2929"
    and "gas_ok E D 1 False no_credit 0 gasEip2929AccountCheck"
    and "gas_ok E D 4 True no_credit 0 gasExtCodeCopyEIP2929"
proof -
  note pr = u64_params [OF assms(1)] params_range [OF assms(1)]
  have pos: "1 \<le> e_params E p" for p using params_range(1) [OF assms(1), of p] by simp
  have diff: "0 \<le> e_params E ColdAccountAccessCostEIP2929 - e_params E WarmStorageReadCostEIP2929"
    using assms(1) by (simp add: params_ok_def)
  show "gas_ok E D 1 False no_credit 1 gasSLoadEIP2929"
    by (auto simp: gas_simps wp gasSLoadEIP2929_def Let_def evm_inv_def pr pos)
  show "gas_ok E D 1 False no_credit 0 gasEip2929AccountCheck"
    using diff by (auto simp: gas_simps wp gasEip2929AccountCheck_def Let_def evm_inv_def pr pos in_u64_def [of 0])
  show "gas_ok E D 4 True no_credit 0 gasExtCodeCopyEIP2929"
    using diff assms(2) by (auto simp: gas_simps wp gasExtCodeCopyEIP2929_def gasExtCodeCopy_def memoryCopierGas_def Let_def
        evm_inv_def in_u64_def intro!: wp_memoryGas [OF assms(1)])
qed

text \<open>
  The gas held ready for a callee. From EIP-150 on it is at most 63/64 of what is there, so that the
  access cost still fits on top of it.
\<close>

lemma callGas_range:
  assumes "callGas b avail gas w = Inr g"
  shows "in_u64 g" and "b \<Longrightarrow> g \<le> 2 ^ 64 - 2 ^ 58"
proof -
  have u: "0 \<le> u64 (avail - gas)" "u64 (avail - gas) < 2 ^ 64" by (auto intro: u64_le)
  let ?a = "u64 (avail - gas)"
  have "u64 (?a - ?a div 64) = ?a - ?a div 64" by (rule sub_gas) (use u in auto)
  moreover have "?a - ?a div 64 \<le> 2 ^ 64 - 2 ^ 58" using u by auto
  ultimately show "in_u64 g" "b \<Longrightarrow> g \<le> 2 ^ 64 - 2 ^ 58"
    using assms u by (auto simp: callGas_def Let_def in_u64_def split: if_splits)
qed

lemma wp_call_gas:
  assumes "lib_ok (e_lib E)" and "0 < length (fr_Stack s)" and "0 \<le> gas" and "gas < 2 ^ 58 - 2 ^ 33"
    and "\<And>g. in_u64 g \<Longrightarrow> in_u64 (gas + g) \<Longrightarrow> (IsEIP150 (e_rules E) \<Longrightarrow> in_u64 (gas + g + 2 ^ 32))
      \<Longrightarrow> Q (gas + g) (s\<lparr>fr_evm := (fr_evm s)\<lparr>ev_callGasTemp := g\<rparr>\<rparr>)"
    and "\<And>g. in_u64 g \<Longrightarrow> F (s\<lparr>fr_evm := (fr_evm s)\<lparr>ev_callGasTemp := g\<rparr>\<rparr>)"
  shows "wp (call_gas E gas) Q F s"
proof -
  let ?r = "callGas (IsEIP150 (e_rules E)) (ct_Gas (fr_Contract s)) gas (hd (fr_Stack s))"
  have hd: "fr_Stack s ! 0 = hd (fr_Stack s)" using assms(2) by (simp add: hd_conv_nth)
  show ?thesis
  proof (cases ?r)
    case (Inl e)
    with assms show ?thesis by (simp add: call_gas_def wp hd in_u64_def)
  next
    case (Inr g)
    note r = callGas_range [OF Inr]
    have "in_u64 (gas + g + 2 ^ 32)" if "IsEIP150 (e_rules E)"
      using r(1) r(2) [OF that] assms(3,4) by (auto simp: in_u64_def)
    with Inr r(1) assms(1,2,5,6) show ?thesis by (simp add: call_gas_def wp hd)
  qed
qed

text \<open>What the four calls have in common: the memory, and the gas held ready for the callee.\<close>

definition call_priced :: "'k evm_env \<Rightarrow> int \<Rightarrow> int \<Rightarrow> int \<Rightarrow> 'k frame \<Rightarrow> int \<Rightarrow> 'k frame \<Rightarrow> bool" where
  "call_priced E D b sz s cost s1 \<longleftrightarrow> fr_Stack s1 = fr_Stack s \<and> fr_pc s1 = fr_pc s \<and>
     fr_Memory s1 = charged (e_params E) True sz (fr_Memory s) \<and> fr_Contract s1 = fr_Contract s \<and>
     evm_inv D (fr_evm s1) \<and> in_u64 cost \<and> (IsEIP150 (e_rules E) \<longrightarrow> in_u64 (cost + 2 ^ 32)) \<and> sz \<le> max_mem \<and>
     b + ev_callGasTemp (fr_evm s1) \<le> cost"

definition call_failed :: "int \<Rightarrow> 'k frame \<Rightarrow> 'k frame \<Rightarrow> bool" where
  "call_failed D s s1 \<longleftrightarrow> fr_Contract s1 = fr_Contract s \<and> evm_inv D (fr_evm s1)"

lemma wp_call_charge:
  assumes "params_ok (e_params E)" and "lib_ok (e_lib E)" and "0 < length (fr_Stack s)" and "evm_inv D (fr_evm s)"
    and "mem_paid (e_params E) (mem_len s) (mem_last s)" and "0 \<le> sz" and "0 \<le> b" and "b < 2 ^ 34"
  shows "wp (bindM (memoryGas E sz) (\<lambda>x. bindM (safe_add E b x) (call_gas E)))
    (call_priced E D b sz s) (call_failed D s) s"
  unfolding wp_bindM wp_safe_add [OF assms(2)]
proof (rule wp_memoryGas [OF assms(1,5,6)])
  fix fee :: int
  assume fee: "0 \<le> fee" "fee < 2 ^ 57" "sz \<le> max_mem"
  then have "in_u64 (b + fee)" using assms(7,8) by (simp add: in_u64_def)
  moreover have "wp (call_gas E (b + fee)) (call_priced E D b sz s) (call_failed D s)
      (s\<lparr>fr_Memory := charged (e_params E) True sz (fr_Memory s)\<rparr>)"
    by (rule wp_call_gas) (use assms fee in \<open>auto simp: call_priced_def call_failed_def evm_inv_def\<close>)
  ultimately show "if in_u64 (b + fee) then wp (call_gas E (b + fee)) (call_priced E D b sz s) (call_failed D s)
      (s\<lparr>fr_Memory := charged (e_params E) True sz (fr_Memory s)\<rparr>) else call_failed D s
      (s\<lparr>fr_Memory := charged (e_params E) True sz (fr_Memory s)\<rparr>)" by simp
qed (use assms(4) in \<open>simp add: call_failed_def\<close>)

text \<open>The gas functions of the calls before EIP-2929 leave room for the cost of a cold access.\<close>

lemma evm_inv_db [simp]: "evm_inv D (evm\<lparr>ev_StateDB := db\<rparr>) = evm_inv D evm"
  by (simp add: evm_inv_def)

definition call_room :: "'k evm_env \<Rightarrow> int" where
  "call_room E = (if IsEIP150 (e_rules E) then 2 ^ 32 else 0)"

lemma gas_room_call:
  assumes "\<And>s sz. n \<le> length (fr_Stack s) \<Longrightarrow> in_u64 (gas_of s) \<Longrightarrow> evm_inv D (fr_evm s) \<Longrightarrow> in_u64 sz
      \<Longrightarrow> mem_paid (e_params E) (mem_len s) (mem_last s) \<Longrightarrow>
      wp (dg E sz) (\<lambda>cost s1. \<exists>b. call_priced E D b sz s cost s1 \<and>
        (\<forall>g. credit (fr_Stack s) g \<le> b + g)) (call_failed D s) s"
  shows "gas_room E D n True credit 0 (call_room E) dg"
  unfolding gas_room_def
proof (intro allI impI, goal_cases)
  case (1 s sz)
  have tr: "credit (fr_Stack s) g \<le> c" if "b + g \<le> c" and "\<forall>g. credit (fr_Stack s) g \<le> b + g" for b c g
    using that order_trans by blast
  show ?case
    by (rule wp_mono [OF assms [OF 1]])
      (use 1(2) in \<open>auto simp: gas_post_def gas_fail_def call_priced_def call_failed_def call_room_def gas_of_def in_u64_def intro: tr\<close>)
qed

lemma bind_retM [simp]: "bindM (retM x) f = f x"
  by (simp add: bindM_def retM_def)

lemma plain_call_gas_ok:
  assumes "params_ok (e_params E)" and "lib_ok (e_lib E)"
  shows "gas_room E D 6 True plain_credit 0 (call_room E) gasDelegateCall"
    and "gas_room E D 6 True plain_credit 0 (call_room E) gasStaticCall"
proof -
  have "wp (gasDelegateCall E sz) (\<lambda>cost s1. \<exists>b. call_priced E D b sz s cost s1 \<and>
      (\<forall>g. plain_credit (fr_Stack s) g \<le> b + g)) (call_failed D s) s"
    if "6 \<le> length (fr_Stack s)" "evm_inv D (fr_evm s)" "in_u64 sz" "mem_paid (e_params E) (mem_len s) (mem_last s)"
    for s :: "'a frame" and sz
    unfolding gasDelegateCall_def wp_bindM
  proof (rule wp_memoryGas [OF assms(1) that(4)])
    show "0 \<le> sz" using that(3) by (simp add: in_u64_def)
    show "call_failed D s s" using that(2) by (simp add: call_failed_def)
    fix fee :: int
    assume "0 \<le> fee" "fee < 2 ^ 57" "sz \<le> max_mem"
    with that show "wp (call_gas E fee) (\<lambda>cost s1. \<exists>b. call_priced E D b sz s cost s1 \<and>
        (\<forall>g. plain_credit (fr_Stack s) g \<le> b + g)) (call_failed D s)
        (s\<lparr>fr_Memory := charged (e_params E) True sz (fr_Memory s)\<rparr>)"
      by (intro wp_call_gas [OF assms(2)])
        (auto simp: call_priced_def call_failed_def plain_credit_def evm_inv_def intro!: exI [where x = 0])
  qed
  then show "gas_room E D 6 True plain_credit 0 (call_room E) gasDelegateCall"
    by (intro gas_room_call)
  then show "gas_room E D 6 True plain_credit 0 (call_room E) gasStaticCall"
    by (simp add: gas_room_def gasDelegateCall_def gasStaticCall_def)
qed

lemma wp_gasCallCode:
  assumes "7 \<le> length (fr_Stack s)"
  shows "wp (gasCallCode E sz) Q F s \<longleftrightarrow> wp (memoryGas E sz) (\<lambda>x. wp (bindM
    (safe_add E (if fr_Stack s ! 2 \<noteq> 0 then e_params E CallValueTransferGas else 0) x) (call_gas E)) Q F) F s"
  using assms by (simp add: wp_def gasCallCode_def bindM_def memoryGas_def backM_def on_stack_def Back_def Let_def frame_stack_id
      split: prod.splits sum.splits)

lemma value_call_gas_ok:
  assumes "params_ok (e_params E)" and "lib_ok (e_lib E)"
  shows "gas_room E D 7 True (call_credit (e_params E)) 0 (call_room E) gasCall"
    and "gas_room E D 7 True (call_credit (e_params E)) 0 (call_room E) gasCallCode"
proof -
  let ?G = "e_params E"
  have stipend: "?G CallStipend < ?G CallValueTransferGas" using assms(1) by (simp add: params_ok_def)
  note range = params_range(1,2) [OF assms(1), of CallNewAccountGas] params_range(1,2) [OF assms(1), of CallValueTransferGas]
  have charge: "wp (memoryGas E sz) (\<lambda>x. wp (bindM (safe_add E b x) (call_gas E)) (\<lambda>cost s1. \<exists>b.
      call_priced E D b sz s cost s1 \<and> (\<forall>g. call_credit ?G (fr_Stack s) g \<le> b + g)) (call_failed D s)) (call_failed D s) s0"
    if "7 \<le> length (fr_Stack s)" "in_u64 sz" "mem_paid ?G (mem_len s) (mem_last s)" "0 \<le> b" "b < 2 ^ 34"
      "fr_Stack s ! 2 \<noteq> 0 \<longrightarrow> ?G CallValueTransferGas \<le> b"
      "evm_inv D (fr_evm s0)" "s0\<lparr>fr_evm := fr_evm s\<rparr> = s"
    for s s0 :: "'a frame" and b sz
    unfolding wp_bindM [symmetric]
  proof (rule wp_mono [OF wp_call_charge [OF assms, of s0 D sz b]])
    have s0: "fr_Stack s0 = fr_Stack s" "fr_Memory s0 = fr_Memory s" "fr_pc s0 = fr_pc s" "fr_Contract s0 = fr_Contract s"
      using that(8) by (metis frame.select_convs frame.surjective frame.update_convs(2))+
    show "0 < length (fr_Stack s0)" "evm_inv D (fr_evm s0)" "mem_paid ?G (mem_len s0) (mem_last s0)" "0 \<le> sz" "0 \<le> b"
      "b < 2 ^ 34" using that s0 by (auto simp: mem_len_def mem_last_def in_u64_def)
    show "\<exists>b. call_priced E D b sz s x s1 \<and> (\<forall>g. call_credit ?G (fr_Stack s) g \<le> b + g)"
      if "call_priced E D b sz s0 x s1" for x s1
      using that \<open>fr_Stack s ! 2 \<noteq> 0 \<longrightarrow> ?G CallValueTransferGas \<le> b\<close> \<open>0 \<le> b\<close> stipend
      by (intro exI [where x = b]) (auto simp: call_priced_def call_credit_def s0)
    show "call_failed D s s1" if "call_failed D s0 s1" for s1 using that by (simp add: call_failed_def s0)
  qed
  have new: "u64 (?G p + ?G q) = ?G p + ?G q" "u64 (0 + ?G q) = ?G q" "u64 (?G q) = ?G q" for p q
    using u64_params [OF assms(1)] by simp_all
  have self: "s\<lparr>fr_evm := fr_evm s\<rparr> = s" for s :: "'a frame" by (cases s) simp
  show "gas_room E D 7 True (call_credit ?G) 0 (call_room E) gasCall"
    using range by (intro gas_room_call) (auto simp: gasCall_def Let_def wp new self intro!: charge)
  show "gas_room E D 7 True (call_credit ?G) 0 (call_room E) gasCallCode"
    using range by (intro gas_room_call) (auto simp: wp_gasCallCode self intro!: charge)
qed

section \<open>Access lists\<close>

text \<open>
  The old calculator runs on the contract less the cost of the cold access, which is put back and added
  to the result: it fits, because the calculator left room for it.
\<close>

lemma access_call_gas_ok:
  assumes "params_ok (e_params E)" and "IsEIP150 (e_rules E)" and "2 \<le> n"
    and "gas_room E D n True credit 0 (call_room E) old"
  shows "gas_ok E D n True credit 0 (makeCallVariantGasCallEIP2929 old)"
  unfolding gas_room_def
proof (intro allI impI, goal_cases)
  case (1 s sz)
  let ?G = "e_params E"
  let ?cold = "?G ColdAccountAccessCostEIP2929 - ?G WarmStorageReadCostEIP2929"
  have "?G ColdAccountAccessCostEIP2929 < 2 ^ 32" "0 < ?G WarmStorageReadCostEIP2929"
    using params_range(1,2) [OF assms(1)] by simp_all
  moreover have "?G WarmStorageReadCostEIP2929 \<le> ?G ColdAccountAccessCostEIP2929"
    using assms(1) by (simp add: params_ok_def)
  ultimately have cold: "0 \<le> ?cold" "?cold < 2 ^ 32" by linarith+
  let ?evm = "\<lambda>a. (fr_evm s)\<lparr>ev_StateDB := AddAddressToAccessList a (ev_StateDB (fr_evm s))\<rparr>"
  let ?s0 = "\<lambda>a. s\<lparr>fr_evm := ?evm a, fr_Contract := (fr_Contract s)\<lparr>ct_Gas := ct_Gas (fr_Contract s) - ?cold\<rparr>\<rparr>"
  let ?backs = "\<lambda>s1. s1\<lparr>fr_Contract := (fr_Contract s1)\<lparr>ct_Gas := u64 (ct_Gas (fr_Contract s1) + ?cold)\<rparr>\<rparr>"
  have old: "wp (old E sz) (gas_post E D True credit 0 (2 ^ 32) sz s0) (gas_fail D s0) s0"
    if "fr_Stack s0 = fr_Stack s" "fr_Memory s0 = fr_Memory s" "evm_inv D (fr_evm s0)" "in_u64 (gas_of s0)" for s0
    using assms(4) 1 that assms(2) unfolding gas_room_def by (simp add: call_room_def mem_len_def mem_last_def)
  have warm: "wp (old E sz) (gas_post E D True credit 0 0 sz s) (gas_fail D s) s"
    by (rule wp_mono [OF old]) (use 1 in \<open>auto simp: gas_post_def\<close>)
  have cold_call: "wp (old E sz) (\<lambda>cost s1. gas_post E D True credit 0 0 sz s (u64 (cost + ?cold)) (?backs s1))
      (gas_fail D s) (?s0 a)" if "\<not> ct_Gas (fr_Contract s) < ?cold" for a
  proof (rule wp_mono [OF old])
    show "fr_Stack (?s0 a) = fr_Stack s" "fr_Memory (?s0 a) = fr_Memory s" "evm_inv D (fr_evm (?s0 a))" "in_u64 (gas_of (?s0 a))"
      using 1 that cold by (auto simp: gas_of_def in_u64_def)
  next
    fix cost s1
    assume *: "gas_post E D True credit 0 (2 ^ 32) sz (?s0 a) cost s1"
    then have "u64 (cost + ?cold) = cost + ?cold" using cold by (intro u64_id) (auto simp: gas_post_def in_u64_def)
    moreover have "u64 (ct_Gas (fr_Contract s1) + ?cold) = gas_of s"
      using * 1(2) by (simp add: gas_post_def gas_of_def u64_fix)
    ultimately show "gas_post E D True credit 0 0 sz s (u64 (cost + ?cold)) (?backs s1)"
      using * cold by (auto simp: gas_post_def gas_of_def in_u64_def)
  qed (use cold in \<open>auto simp: gas_fail_def gas_of_def\<close>)
  show ?case
    using 1 assms(3) cold
    by (auto simp: makeCallVariantGasCallEIP2929_def Let_def wp UseGas_def gas_fail_def [of D s s0 for s0] gas_of_def
        in_u64_def intro!: wp_mono [OF warm] wp_mono [OF cold_call])
qed

lemma access_calls_gas_ok:
  assumes "params_ok (e_params E)" and "lib_ok (e_lib E)" and "IsEIP150 (e_rules E)"
  shows "gas_ok E D 7 True (call_credit (e_params E)) 0 gasCallEIP2929"
    and "gas_ok E D 7 True (call_credit (e_params E)) 0 gasCallCodeEIP2929"
    and "gas_ok E D 6 True plain_credit 0 gasDelegateCallEIP2929" and "gas_ok E D 6 True plain_credit 0 gasStaticCallEIP2929"
  unfolding gasCallEIP2929_def gasCallCodeEIP2929_def gasDelegateCallEIP2929_def gasStaticCallEIP2929_def
  by (simp_all add: access_call_gas_ok assms value_call_gas_ok plain_call_gas_ok)

lemma gas_room_less:
  assumes "gas_room E D n hm credit lo (call_room E) dg"
  shows "gas_ok E D n hm credit lo dg"
proof -
  have "gas_post E D hm credit lo 0 sz s cost s1" if "gas_post E D hm credit lo slack sz s cost s1" for sz s cost s1 slack
    using that by (simp add: gas_post_def)
  with assms show ?thesis unfolding gas_room_def by (blast intro: wp_mono)
qed

lemma selfdestruct_gas_ok:
  assumes "params_ok (e_params E)"
  shows "gas_ok E D 1 False no_credit 0 gasSelfdestruct"
    and "gas_ok E D 1 False no_credit 0 gasSelfdestructEIP2929" and "gas_ok E D 1 False no_credit 0 gasSelfdestructEIP3529"
proof -
  note pr = u64_params [OF assms] params_range [OF assms]
  have pos: "0 \<le> e_params E p + e_params E q" "in_u64 (0 :: int)" for p q
    using params_range(1) [OF assms, of p] params_range(1) [OF assms, of q] by (auto simp: in_u64_def)
  show "gas_ok E D 1 False no_credit 0 gasSelfdestruct"
    by (auto simp: gas_simps wp gasSelfdestruct_def Let_def evm_inv_def pr pos in_u64_def [of "ct_Gas c" for c])
  have "gas_ok E D 1 False no_credit 0 (makeSelfdestructGasFn b)" for b
    by (auto simp: gas_simps wp makeSelfdestructGasFn_def Let_def evm_inv_def pr pos in_u64_def [of "ct_Gas c" for c])
  then show "gas_ok E D 1 False no_credit 0 gasSelfdestructEIP2929" "gas_ok E D 1 False no_credit 0 gasSelfdestructEIP3529"
    by (simp_all add: gasSelfdestructEIP2929_def gasSelfdestructEIP3529_def)
qed

end
