(* ===== verification/EvmTableSafety.thy ===== *)
theory EvmTableSafety
  imports EvmGasSafety
begin

text \<open>
  The instruction tables (jump_table.go, eips.go): building them never panics, and every entry of
  every table obeys the judgement \<open>op_ok\<close>. The proofs follow the code, fork by fork: a table that is
  built from another keeps its entries (\<open>keeps\<close>), and only the changed ones are looked at.
\<close>

section \<open>Results that are tables\<close>

definition yields :: "('k JumpTable \<Rightarrow> bool) \<Rightarrow> go_panic + 'k JumpTable \<Rightarrow> bool" where
  "yields P r \<longleftrightarrow> (\<exists>jt. r = Inr jt \<and> P jt)"

lemma yields_Inr [simp]: "yields P (Inr jt) \<longleftrightarrow> P jt"
  by (simp add: yields_def)

lemma yields_rbind: "yields P r \<Longrightarrow> (\<And>jt. P jt \<Longrightarrow> yields Q (f jt)) \<Longrightarrow> yields Q (rbind r f)"
  by (auto simp: yields_def)

lemma yields_mono: "yields P r \<Longrightarrow> (\<And>jt. P jt \<Longrightarrow> Q jt) \<Longrightarrow> yields Q r"
  by (auto simp: yields_def)

text \<open>A table that is complete: every slot is set, and sizes come with a gas function.\<close>

definition complete_op :: "'k operation \<Rightarrow> bool" where
  "complete_op op \<longleftrightarrow> (memorySize op \<noteq> None \<longrightarrow> dynamicGas op \<noteq> None)"

definition complete :: "'k JumpTable \<Rightarrow> bool" where
  "complete jt \<longleftrightarrow> (\<forall>b. \<exists>op. jt b = Some op \<and> complete_op op)"

lemma Validate_complete: "complete jt \<Longrightarrow> Validate jt = None"
proof -
  assume c: "complete jt"
  have "\<not> (case jt (of_nat i) of None \<Rightarrow> True | Some op \<Rightarrow> memorySize op \<noteq> None \<and> dynamicGas op = None)" for i
  proof -
    obtain op where "jt (of_nat i) = Some op" "complete_op op" using c by (auto simp: complete_def)
    then show ?thesis by (auto simp: complete_op_def)
  qed
  then have "filter (\<lambda>i. case jt (of_nat i) of None \<Rightarrow> True
      | Some op \<Rightarrow> memorySize op \<noteq> None \<and> dynamicGas op = None) [0..<256] = []"
    unfolding filter_empty_conv by blast
  then show ?thesis by (simp only: Validate_def list.case)
qed

lemma MustValidate_complete: "complete jt \<Longrightarrow> MustValidate jt = Inr jt"
  by (simp add: MustValidate_def Validate_complete)

lemma complete_upd: "complete jt \<Longrightarrow> complete_op op \<Longrightarrow> complete (jt(b \<mapsto> op))"
  by (simp add: complete_def)

lemma complete_steps:
  assumes "complete jt"
  shows "complete_op op \<Longrightarrow> complete (set_op b op jt)" and "yields complete (set_constantGas b c jt)"
    and "yields complete (set_dynamicGas b dg jt)" and "yields complete (MustValidate jt)"
proof -
  obtain op where "jt b = Some op" "complete_op op" using assms by (auto simp: complete_def)
  then show "yields complete (set_constantGas b c jt)" "yields complete (set_dynamicGas b dg jt)"
    using assms by (simp_all add: set_constantGas_def set_dynamicGas_def change_op_def complete_def complete_op_def)
  show "complete_op op \<Longrightarrow> complete (set_op b op jt)" for op
    using assms by (simp add: set_op_def complete_upd)
  show "yields complete (MustValidate jt)" using assms by (simp add: MustValidate_complete)
qed

lemma complete_newOperation [simp]:
  "complete_op (newOperation ex c dg m mx ms) \<longleftrightarrow> (ms \<noteq> None \<longrightarrow> dg \<noteq> None)"
  by (simp add: complete_op_def newOperation_def)

definition frontier_entries :: "(param \<Rightarrow> int) \<Rightarrow> (byte \<times> 'k operation) list" where
  "frontier_entries G = frontier_arith G @ frontier_context G @ frontier_memory G @ frontier_push_low G @
     frontier_push_high G @ frontier_dup G @ frontier_swap G @ frontier_system G"

definition frontier_table :: "(param \<Rightarrow> int) \<Rightarrow> 'k JumpTable" where
  "frontier_table G = (\<lambda>b. case map_of (frontier_entries G) b of None \<Rightarrow> Some (undefined_op G) | Some op \<Rightarrow> Some op)"

lemma frontier_cases:
  assumes "\<And>b op. (b, op) \<in> set (frontier_entries G) \<Longrightarrow> P op" and "P (undefined_op G)"
  shows "\<exists>op. frontier_table G b = Some op \<and> P op"
  using assms by (auto simp: frontier_table_def split: option.splits dest: map_of_SomeD)

lemma frontier_complete: "complete (frontier_table G)"
proof -
  have "complete_op op" if "(b, op) \<in> set (frontier_entries G)" for b op
    using that unfolding frontier_entries_def frontier_arith_def frontier_context_def frontier_memory_def
      frontier_push_low_def frontier_push_high_def frontier_dup_def frontier_swap_def frontier_system_def
    by auto
  moreover have "complete_op (undefined_op G)" by (simp add: undefined_op_def)
  ultimately show ?thesis unfolding complete_def by (intro allI frontier_cases) auto
qed

lemma newFrontier_eq: "newFrontierInstructionSet G = Inr (frontier_table G)"
  using MustValidate_complete [OF frontier_complete [of G]]
  unfolding newFrontierInstructionSet_def frontier_table_def frontier_entries_def Let_def .

section \<open>The package initialises\<close>

lemmas complete_intros = complete_steps yields_rbind

lemma complete_eips:
  assumes "complete jt"
  shows "yields complete (enable1884 G jt)" and "yields complete (enable1344 G jt)" and "yields complete (enable2200 G jt)"
    and "yields complete (enable2929 G jt)" and "yields complete (enable3529 G jt)" and "yields complete (enable3198 G jt)"
    and "yields complete (enable3855 G jt)"
  using assms unfolding enable1884_def enable1344_def enable2200_def enable2929_def enable3529_def enable3198_def
    enable3855_def yields_Inr
  by - (assumption | rule complete_intros yields_Inr [THEN iffD2] | simp)+

lemma complete_forks:
  shows "yields complete (newFrontierInstructionSet G)" and "yields complete (newHomesteadInstructionSet G)"
    and "yields complete (newTangerineWhistleInstructionSet G)" and "yields complete (newSpuriousDragonInstructionSet G)"
    and "yields complete (newByzantiumInstructionSet G)" and "yields complete (newConstantinopleInstructionSet G)"
    and "yields complete (newIstanbulInstructionSet G)" and "yields complete (newBerlinInstructionSet G)"
    and "yields complete (newLondonInstructionSet G)" and "yields complete (newMergeInstructionSet G)"
proof -
  show 1: "yields complete (newFrontierInstructionSet G)" by (simp add: newFrontier_eq frontier_complete)
  show 2: "yields complete (newHomesteadInstructionSet G)"
    unfolding newHomesteadInstructionSet_def by (rule yields_rbind [OF 1]) (assumption | rule complete_intros | simp)+
  show 3: "yields complete (newTangerineWhistleInstructionSet G)"
    unfolding newTangerineWhistleInstructionSet_def by (rule yields_rbind [OF 2]) (assumption | rule complete_intros | simp)+
  show 4: "yields complete (newSpuriousDragonInstructionSet G)"
    unfolding newSpuriousDragonInstructionSet_def by (rule yields_rbind [OF 3]) (assumption | rule complete_intros | simp)+
  show 5: "yields complete (newByzantiumInstructionSet G)"
    unfolding newByzantiumInstructionSet_def Let_def by (rule yields_rbind [OF 4]) (assumption | rule complete_intros | simp)+
  show 6: "yields complete (newConstantinopleInstructionSet G)"
    unfolding newConstantinopleInstructionSet_def Let_def by (rule yields_rbind [OF 5]) (assumption | rule complete_intros | simp)+
  show 7: "yields complete (newIstanbulInstructionSet G)"
    unfolding newIstanbulInstructionSet_def by (rule yields_rbind [OF 6]) (assumption | rule complete_eips complete_intros)+
  show 8: "yields complete (newBerlinInstructionSet G)"
    unfolding newBerlinInstructionSet_def by (rule yields_rbind [OF 7]) (assumption | rule complete_eips complete_intros)+
  show 9: "yields complete (newLondonInstructionSet G)"
    unfolding newLondonInstructionSet_def by (rule yields_rbind [OF 8]) (assumption | rule complete_eips complete_intros)+
  show "yields complete (newMergeInstructionSet G)"
    unfolding newMergeInstructionSet_def by (rule yields_rbind [OF 9]) (assumption | rule complete_intros | simp)+
qed

text \<open>
  C7: Building the instruction tables never panics: whatever the gas constants and the rules, the table of
  each fork passes its validation, DefaultJumpTable returns it, and each of its 256 slots is set.
\<close>

theorem tables_are_valid:
  "\<exists>jt :: 'k JumpTable. DefaultJumpTable G rules = Inr jt \<and> Validate jt = None \<and> (\<forall>b. jt b \<noteq> None)"
proof -
  have "yields complete (DefaultJumpTable G rules :: go_panic + 'k JumpTable)"
    by (simp only: DefaultJumpTable_def complete_forks split: if_split) simp
  then obtain jt :: "'k JumpTable" where "DefaultJumpTable G rules = Inr jt" "complete jt" by (auto simp: yields_def)
  moreover have "\<forall>b. jt b \<noteq> None" using \<open>complete jt\<close> by (metis complete_def option.distinct(1))
  ultimately show ?thesis using Validate_complete by blast
qed

section \<open>Entries\<close>

definition entry_ok :: "'k evm_env \<Rightarrow> 'k operation \<Rightarrow> bool" where
  "entry_ok E op \<longleftrightarrow> (\<forall>C D. callee_ok D C \<longrightarrow> op_ok C E D op)"

lemma newOperation_sel [simp]:
  "execute (newOperation ex c dg m mx ms) = ex" "constantGas (newOperation ex c dg m mx ms) = c"
  "dynamicGas (newOperation ex c dg m mx ms) = dg" "op_minStack (newOperation ex c dg m mx ms) = m"
  "op_maxStack (newOperation ex c dg m mx ms) = mx" "memorySize (newOperation ex c dg m mx ms) = ms"
  by (simp_all add: newOperation_def)

lemma entry_const:
  assumes "\<And>C D. exec_ok C E D n mx None no_credit (c = 0) ex" and "0 \<le> c" and "c < 2 ^ 64" and "m = int n"
  shows "entry_ok E (newOperation ex c None m mx None)"
  using assms by (auto simp: entry_ok_def op_ok_def in_u64_def no_credit_def)

lemma entry_run:
  assumes "\<And>C D. exec_ok C E D n mx None no_credit False ex" and "0 < c" and "c < 2 ^ 64" and "m = int n"
  shows "entry_ok E (newOperation ex c None m mx None)"
proof -
  have "(c = 0) = False" using assms(2) by simp
  with assms show ?thesis by (intro entry_const) simp_all
qed

lemma entry_dyn:
  assumes "\<And>C D. callee_ok D C \<Longrightarrow> exec_ok C E D n mx ms credit False ex" and "\<And>D. gas_ok E D n hm credit lo dg" and "hm = (ms \<noteq> None)"
    and "0 \<le> lo" and "0 \<le> c" and "c < 2 ^ 64" and "0 < c + lo" and "m = int n"
    and "\<And>f. ms = Some f \<Longrightarrow> size_ok n f"
  shows "entry_ok E (newOperation ex c (Some dg) m mx ms)"
  unfolding entry_ok_def op_ok_def newOperation_sel option.case
proof (intro allI impI exI conjI)
  fix C :: "'a callee" and D
  assume C: "callee_ok D C"
  have "(c + lo = 0) = False" using assms(7) by simp
  then show "exec_ok C E D n mx ms credit (c + lo = 0) ex" using assms(1) [OF C] by (simp only:)
  show "gas_ok E D n (ms \<noteq> None) credit lo dg" using assms(2) unfolding assms(3) .
qed (use assms in \<open>auto simp: in_u64_def split: option.splits\<close>)

lemma entry_halt:
  assumes "\<And>C D h. exec_ok C E D n mx ms no_credit h ex" and "\<And>D. gas_ok E D n hm no_credit 0 dg" and "hm = (ms \<noteq> None)"
    and "0 \<le> c" and "c < 2 ^ 64" and "m = int n" and "\<And>f. ms = Some f \<Longrightarrow> size_ok n f"
  shows "entry_ok E (newOperation ex c (Some dg) m mx ms)"
  unfolding entry_ok_def op_ok_def newOperation_sel option.case
proof (intro allI impI exI conjI)
  show "gas_ok E D n (ms \<noteq> None) no_credit 0 dg" for D using assms(2) unfolding assms(3) .
  show "exec_ok C E D n mx ms no_credit (c + 0 = 0) ex" for C D by (rule assms(1))
qed (use assms in \<open>auto simp: in_u64_def split: option.splits\<close>)

lemma exec_ok_halts: "exec_ok C E D n mx ms credit True ex \<Longrightarrow> exec_ok C E D n mx ms credit h ex"
  unfolding exec_ok_def by (blast intro: wp_mono)

text \<open>A new constant leaves an entry as it is, as long as it is not zero.\<close>

lemma entry_constantGas:
  assumes "entry_ok E op" and "0 < c" and "c < 2 ^ 64"
  shows "entry_ok E (op\<lparr>constantGas := c\<rparr>)"
  unfolding entry_ok_def
proof (intro allI impI)
  fix C :: "'a callee" and D
  assume "callee_ok D C"
  with assms(1) obtain n credit lo where op: "op_minStack op = int n" "in_u64 (constantGas op)" "0 \<le> lo"
    "case dynamicGas op of None \<Rightarrow> lo = 0 \<and> credit = (\<lambda>_ _. 0) \<and> memorySize op = None
      | Some dg \<Rightarrow> gas_ok E D n (memorySize op \<noteq> None) credit lo dg"
    "case memorySize op of None \<Rightarrow> True | Some f \<Rightarrow> size_ok n f"
    "exec_ok C E D n (op_maxStack op) (memorySize op) credit (constantGas op + lo = 0) (execute op)"
    unfolding entry_ok_def op_ok_def by blast
  have z: "(c + lo = 0) = False" using op(3) assms(2) by simp
  have "exec_ok C E D n (op_maxStack op) (memorySize op) credit (c + lo = 0) (execute op)"
    using op(6) exec_ok_halts [of C E D n "op_maxStack op" "memorySize op" credit "execute op" False] unfolding z
    by (cases "constantGas op + lo = 0") simp_all
  then show "op_ok C E D (op\<lparr>constantGas := c\<rparr>)"
    unfolding op_ok_def using op(1,3-5) assms(2,3) by (intro exI [where x = n] exI [where x = credit] exI [where x = lo])
      (auto simp: in_u64_def split: option.splits)
qed

section \<open>The frontier\<close>

text \<open>The constants that the tables and the gas functions mention.\<close>

definition env_ok :: "'k evm_env \<Rightarrow> bool" where
  "env_ok E \<longleftrightarrow> params_ok (e_params E) \<and> lib_ok (e_lib E)"

lemma env_okD: "env_ok E \<Longrightarrow> params_ok (e_params E)" "env_ok E \<Longrightarrow> lib_ok (e_lib E)"
  by (simp_all add: env_ok_def)

lemma const_range:
  assumes "env_ok E"
  shows "0 < e_params E p" and "0 \<le> e_params E p" and "e_params E p < 2 ^ 64" and "e_params E p \<noteq> 0"
    and "(e_params E p = 0) = False" and "e_params E p < 18446744073709551616"
  using params_range [OF env_okD(1) [OF assms], of p] by auto

lemma step_range:
  "(GasQuickStep = 0) = False" "(GasFastestStep = 0) = False" "(GasFastStep = 0) = False" "(GasMidStep = 0) = False"
  "(GasSlowStep = 0) = False" "(GasExtStep = 0) = False"
  by (simp_all add: gas_steps)

lemmas stack_execs = arith_ok unary_ok ternary_ok push_ok state_reads_ok control_ok opMload_ok

lemmas dyn_gas = copier_gas_ok(2-) pure_memory_gas_ok hash_gas_ok log_gas_ok exp_gas_ok sstore_gas_ok access_gas_ok
  selfdestruct_gas_ok gas_room_less [OF value_call_gas_ok(1)] gas_room_less [OF value_call_gas_ok(2)]
  gas_room_less [OF plain_call_gas_ok(1)] gas_room_less [OF plain_call_gas_ok(2)]

lemmas memory_execs = opKeccak256_ok data_copy_ok opMload_ok opMstore_ok opMstore8_ok opCreate_ok opCreate2_ok opCall_ok
  opCallCode_ok opDelegateCall_ok opStaticCall_ok

lemma frontier_arith_ok:
  assumes "env_ok E"
  shows "\<forall>e \<in> set (frontier_arith (e_params E)). entry_ok E (snd e)"
  unfolding frontier_arith_def list.set ball_simps snd_conv
  by (intro conjI TrueI;
      ((rule entry_run, rule stack_execs) | (rule entry_const, rule halting_ok) |
        (rule entry_dyn, rule stack_execs memory_execs, assumption?, rule dyn_gas, (rule env_okD [OF assms])+))?;
      (simp add: minStack_def gas_steps const_range [OF assms] sizes_ok word_size_ok word_size_ok(1) [unfolded One_nat_def])?)

lemma frontier_context_ok:
  assumes "env_ok E"
  shows "\<forall>e \<in> set (frontier_context (e_params E)). entry_ok E (snd e)"
  unfolding frontier_context_def list.set ball_simps snd_conv
  by (intro conjI TrueI;
      ((rule entry_run, rule stack_execs) | (rule entry_const, rule halting_ok) |
        (rule entry_dyn, rule stack_execs memory_execs, assumption?, rule dyn_gas, (rule env_okD [OF assms])+))?;
      (simp add: minStack_def gas_steps const_range [OF assms] sizes_ok word_size_ok word_size_ok(1) [unfolded One_nat_def])?)

lemma frontier_memory_ok:
  assumes "env_ok E"
  shows "\<forall>e \<in> set (frontier_memory (e_params E)). entry_ok E (snd e)"
  unfolding frontier_memory_def list.set ball_simps snd_conv
  by (intro conjI TrueI;
      ((rule entry_run, rule stack_execs) | (rule entry_const, rule halting_ok) |
        (rule entry_dyn, rule stack_execs memory_execs, assumption?, rule dyn_gas, (rule env_okD [OF assms])+))?;
      (simp add: minStack_def gas_steps const_range [OF assms] sizes_ok word_size_ok word_size_ok(1) [unfolded One_nat_def])?)

lemma frontier_families_ok:
  assumes "env_ok E"
  shows "\<forall>e \<in> set (frontier_push_low (e_params E)). entry_ok E (snd e)"
    and "\<forall>e \<in> set (frontier_push_high (e_params E)). entry_ok E (snd e)"
    and "\<forall>e \<in> set (frontier_dup (e_params E)). entry_ok E (snd e)"
    and "\<forall>e \<in> set (frontier_swap (e_params E)). entry_ok E (snd e)"
proof -
  have push: "entry_ok E (newOperation (makePush k l) GasFastestStep None (minStack 0 1) (maxStack (e_params E) 0 1) None)" for k l
    by (rule entry_run, rule push_ok) (simp_all add: gas_steps minStack_def)
  have one: "entry_ok E (newOperation opPush1 GasFastestStep None (minStack 0 1) (maxStack (e_params E) 0 1) None)"
    by (rule entry_run, rule push_ok) (simp_all add: gas_steps minStack_def)
  have dup: "entry_ok E (newOperation (makeDup n) GasFastestStep None (minDupStack (int n)) (maxDupStack (e_params E) (int n)) None)"
    if "0 < n" for n
    by (rule entry_run, rule dup_swap_ok(1) [OF that]) (simp_all add: gas_steps minDupStack_def minStack_def)
  have swap: "entry_ok E (newOperation (makeSwap n) GasFastestStep None (minSwapStack (int n + 1)) (maxSwapStack (e_params E) (int n + 1)) None)"
    for n by (rule entry_run, rule dup_swap_ok(2)) (simp_all add: gas_steps minSwapStack_def minStack_def)
  show "\<forall>e \<in> set (frontier_push_low (e_params E)). entry_ok E (snd e)"
    "\<forall>e \<in> set (frontier_push_high (e_params E)). entry_ok E (snd e)"
    "\<forall>e \<in> set (frontier_dup (e_params E)). entry_ok E (snd e)"
    "\<forall>e \<in> set (frontier_swap (e_params E)). entry_ok E (snd e)"
    unfolding frontier_push_low_def frontier_push_high_def frontier_dup_def frontier_swap_def
    using push one dup swap by auto
qed

lemma log_entry_ok:
  assumes "env_ok E" and "m = int (n + 2)" and "mx = maxStack (e_params E) m 0"
  shows "entry_ok E (newOperation (makeLog n) 0 (Some (makeGasLog k)) m mx (Some memoryLog))"
proof (rule entry_dyn)
  show "exec_ok C E D (n + 2) mx (Some memoryLog) no_credit False (makeLog n)" for C D
    using makeLog_ok [of C E D n] assms(2,3) by (simp add: add.commute)
  show "gas_ok E D (n + 2) True no_credit (e_params E LogGas) (makeGasLog k)" for D
    by (rule log_gas_ok [OF env_okD [OF assms(1)]]) simp
qed (use assms const_range [OF assms(1), of LogGas] in \<open>auto intro: sizes_ok\<close>)

lemma frontier_system_ok:
  assumes "env_ok E"
  shows "\<forall>e \<in> set (frontier_system (e_params E)). entry_ok E (snd e)"
  unfolding frontier_system_def list.set ball_simps snd_conv
  by (intro conjI TrueI;
      ((rule log_entry_ok [OF assms]) |
        (rule entry_halt, rule return_ok halting_ok, rule dyn_gas, (rule env_okD [OF assms])+) |
        (rule entry_dyn, rule memory_execs, assumption, (rule env_okD [OF assms])?, rule dyn_gas, (rule env_okD [OF assms])+))?;
      (simp add: minStack_def gas_steps const_range [OF assms] sizes_ok word_size_ok call_credit_def)?)

section \<open>From fork to fork\<close>

text \<open>
  What the entry of an opcode has beside its gas: this is all that the changes of the gas keep, and all
  that has to be known of the entries they change.
\<close>

type_synonym 'k shape = "'k executionFunc \<times> int \<times> int \<times> memorySizeFunc option"

definition shape_of :: "'k operation \<Rightarrow> 'k shape" where
  "shape_of op = (execute op, op_minStack op, op_maxStack op, memorySize op)"

definition shapes :: "'k JumpTable \<Rightarrow> byte \<Rightarrow> 'k shape option" where
  "shapes jt b = map_option shape_of (jt b)"

definition table_ok :: "'k evm_env \<Rightarrow> 'k JumpTable \<Rightarrow> bool" where
  "table_ok E jt \<longleftrightarrow> (\<forall>b. \<exists>op. jt b = Some op \<and> entry_ok E op \<and> complete_op op)"

definition keeps :: "'k evm_env \<Rightarrow> (byte \<Rightarrow> 'k shape option) \<Rightarrow> 'k JumpTable \<Rightarrow> bool" where
  "keeps E S jt \<longleftrightarrow> table_ok E jt \<and> shapes jt = S"

lemma table_ok_complete: "table_ok E jt \<Longrightarrow> complete jt"
  by (auto simp: table_ok_def complete_def)

lemma table_ok_upd: "table_ok E jt \<Longrightarrow> entry_ok E op \<Longrightarrow> complete_op op \<Longrightarrow> table_ok E (jt(b \<mapsto> op))"
  by (simp add: table_ok_def)

lemma shapes_upd: "shapes (jt(b \<mapsto> op)) = (shapes jt)(b \<mapsto> shape_of op)"
  by (simp add: shapes_def fun_eq_iff)

lemma shape_upd_same: "S b = Some x \<Longrightarrow> S(b \<mapsto> x) = S"
  by (simp add: fun_eq_iff)

lemma keeps_MustValidate: "keeps E S jt \<Longrightarrow> yields (keeps E S) (MustValidate jt)"
  using MustValidate_complete [OF table_ok_complete [of E jt]] by (simp add: keeps_def)

lemma keeps_set_op:
  "keeps E S jt \<Longrightarrow> entry_ok E op \<Longrightarrow> complete_op op \<Longrightarrow> keeps E (S(b \<mapsto> shape_of op)) (set_op b op jt)"
  by (simp add: keeps_def set_op_def table_ok_upd shapes_upd)

lemma keeps_constantGas:
  assumes "keeps E S jt" and "0 < c" and "c < 2 ^ 64"
  shows "yields (keeps E S) (set_constantGas b c jt)"
proof -
  obtain op where op: "jt b = Some op" "entry_ok E op" "complete_op op"
    using assms(1) unfolding keeps_def table_ok_def by blast
  have "S b = Some (shape_of op)" using assms(1) op(1) by (auto simp: keeps_def shapes_def)
  then have "keeps E S (jt(b \<mapsto> op\<lparr>constantGas := c\<rparr>))"
    using assms op entry_constantGas [OF op(2) assms(2,3)]
    by (auto simp: keeps_def shapes_upd shape_of_def complete_op_def shape_upd_same intro: table_ok_upd)
  with op(1) show ?thesis by (simp add: set_constantGas_def change_op_def)
qed

lemma operation_shape:
  "shape_of op = (ex, m, mx, ms) \<Longrightarrow> op\<lparr>dynamicGas := Some dg\<rparr> = newOperation ex (constantGas op) (Some dg) m mx ms"
  by (cases op) (simp add: shape_of_def newOperation_def)

lemma op_const_range: "entry_ok E op \<Longrightarrow> in_u64 (constantGas op)"
proof -
  have "callee_ok D \<lparr>c_Call = \<lambda>_ _ _ _ _ _. Inl (Panicked nil_deref), c_CallCode = \<lambda>_ _ _ _ _ _. Inl (Panicked nil_deref),
      c_DelegateCall = \<lambda>_ _ _ _ _. Inl (Panicked nil_deref), c_StaticCall = \<lambda>_ _ _ _ _. Inl (Panicked nil_deref),
      c_Create = \<lambda>_ _ _ _ _. Inl (Panicked nil_deref), c_Create2 = \<lambda>_ _ _ _ _ _. Inl (Panicked nil_deref)\<rparr>" for D
    by (simp add: callee_ok_def result_ok_def create_ok_def)
  then show "entry_ok E op \<Longrightarrow> in_u64 (constantGas op)" unfolding entry_ok_def op_ok_def by blast
qed

lemma keeps_dynamicGas:
  assumes "keeps E S jt" and "S b = Some (ex, m, mx, ms)"
    and "\<And>c. 0 \<le> c \<Longrightarrow> c < 2 ^ 64 \<Longrightarrow> entry_ok E (newOperation ex c (Some dg) m mx ms)"
  shows "yields (keeps E S) (set_dynamicGas b dg jt)"
proof -
  obtain op where op: "jt b = Some op" "entry_ok E op"
    using assms(1) unfolding keeps_def table_ok_def by blast
  have sh: "shape_of op = (ex, m, mx, ms)" using assms(1,2) op(1) by (auto simp: keeps_def shapes_def)
  have "entry_ok E (op\<lparr>dynamicGas := Some dg\<rparr>)"
    unfolding operation_shape [OF sh] using op_const_range [OF op(2)] by (intro assms(3)) (simp_all add: in_u64_def)
  then have "keeps E S (jt(b \<mapsto> op\<lparr>dynamicGas := Some dg\<rparr>))"
    using assms sh by (auto simp: keeps_def shapes_upd shape_of_def complete_op_def shape_upd_same intro: table_ok_upd)
  with op(1) show ?thesis by (simp add: set_dynamicGas_def change_op_def)
qed

text \<open>The constant and the function changed together: the entry between the two changes is never used.\<close>

lemma yields_pair:
  assumes "keeps E S jt" and "S b = Some (ex, m, mx, ms)" and "entry_ok E (newOperation ex c (Some dg) m mx ms)"
    and "\<And>jt. keeps E S jt \<Longrightarrow> yields P (k jt)"
  shows "yields P (rbind (set_constantGas b c jt) (\<lambda>jt. rbind (set_dynamicGas b dg jt) k))"
proof -
  obtain op where op: "jt b = Some op"
    using assms(1) unfolding keeps_def table_ok_def by blast
  have sh: "shape_of op = (ex, m, mx, ms)" using assms(1,2) op by (auto simp: keeps_def shapes_def)
  let ?op = "newOperation ex c (Some dg) m mx ms"
  have eq: "op\<lparr>constantGas := c, dynamicGas := Some dg\<rparr> = ?op" using sh by (cases op) (simp add: shape_of_def newOperation_def)
  have "keeps E S (jt(b \<mapsto> ?op))"
    using assms(1-3) by (auto simp: keeps_def shapes_upd shape_of_def complete_op_def shape_upd_same intro: table_ok_upd)
  then show ?thesis using op assms(4) eq by (simp add: set_constantGas_def set_dynamicGas_def change_op_def)
qed

lemma yields_last_pair:
  assumes "keeps E S jt" and "S b = Some (ex, m, mx, ms)" and "entry_ok E (newOperation ex c (Some dg) m mx ms)"
  shows "yields (keeps E S) (rbind (set_constantGas b c jt) (set_dynamicGas b dg))"
proof -
  have "set_dynamicGas b dg = (\<lambda>jt. rbind (set_dynamicGas b dg jt) Inr)"
    by (simp add: fun_eq_iff rbind_def split: sum.splits)
  then show ?thesis using yields_pair [OF assms, of "keeps E S" Inr] by simp
qed

section \<open>The tables of the forks\<close>

definition base_shape :: "'k evm_env \<Rightarrow> byte \<Rightarrow> 'k shape option" where
  "base_shape E = shapes (frontier_table (e_params E))"

lemma frontier_keeps:
  fixes E :: "'k evm_env"
  assumes "env_ok E"
  shows "yields (keeps E (base_shape E)) (newFrontierInstructionSet (e_params E))"
proof -
  note parts = frontier_arith_ok [OF assms] frontier_context_ok [OF assms] frontier_memory_ok [OF assms]
    frontier_families_ok [OF assms] frontier_system_ok [OF assms]
  have "entry_ok E op" if "(b, op) \<in> set (frontier_entries (e_params E))" for b op
  proof -
    have "\<forall>e \<in> set (frontier_entries (e_params E)). entry_ok E (snd e)"
      unfolding frontier_entries_def set_append ball_Un using parts by blast
    with that show ?thesis by fastforce
  qed
  moreover have "entry_ok E (undefined_op (e_params E))"
    unfolding undefined_op_def by (rule entry_const, rule halting_ok) simp_all
  ultimately have "\<exists>op. frontier_table (e_params E) b = Some op \<and> entry_ok E op" for b
    by (intro frontier_cases) auto
  moreover have "complete (frontier_table (e_params E) :: 'k JumpTable)" by (rule frontier_complete)
  ultimately have "table_ok E (frontier_table (e_params E))"
    unfolding table_ok_def complete_def by (metis option.inject)
  then show ?thesis by (simp add: newFrontier_eq keeps_def base_shape_def)
qed

lemma upt_families:
  "[2..<17] = [2,3,4,5,6,7,8,9,10,11,12,13,14,15,16 :: nat]" "[1..<17] = [1,2,3,4,5,6,7,8,9,10,11,12,13,14,15,16 :: nat]"
  "[17..<33] = [17,18,19,20,21,22,23,24,25,26,27,28,29,30,31,32 :: nat]"
  by (simp_all add: upt_rec)

lemma families_else:
  assumes "b \<in> {EXP, SLOAD, SSTORE, BALANCE, EXTCODESIZE, EXTCODECOPY, CALL, CALLCODE, SELFDESTRUCT}"
  shows "map_of (frontier_push_low G :: (byte \<times> 'k operation) list) b = None"
    and "map_of (frontier_push_high G :: (byte \<times> 'k operation) list) b = None"
    and "map_of (frontier_dup G :: (byte \<times> 'k operation) list) b = None"
    and "map_of (frontier_swap G :: (byte \<times> 'k operation) list) b = None"
  using assms unfolding frontier_push_low_def frontier_push_high_def frontier_dup_def frontier_swap_def upt_families
  by (auto simp: PUSH_def DUP_def SWAP_def opcode_defs)

lemma base_shapes:
  fixes E :: "'k evm_env"
  defines "M \<equiv> maxStack (e_params E)"
  shows "base_shape E EXP = Some (opExp, 2, M 2 1, None)" and "base_shape E SLOAD = Some (opSload, 1, M 1 1, None)"
    and "base_shape E SSTORE = Some (opSstore, 2, M 2 0, None)" and "base_shape E BALANCE = Some (opBalance, 1, M 1 1, None)"
    and "base_shape E EXTCODESIZE = Some (opExtCodeSize, 1, M 1 1, None)"
    and "base_shape E EXTCODECOPY = Some (opExtCodeCopy, 4, M 4 0, Some memoryExtCodeCopy)"
    and "base_shape E CALL = Some (opCall, 7, M 7 1, Some memoryCall)"
    and "base_shape E CALLCODE = Some (opCallCode, 7, M 7 1, Some memoryCall)"
    and "base_shape E SELFDESTRUCT = Some (opSelfdestruct, 1, M 1 0, None)"
proof -
  have at: "base_shape E b = map_option shape_of (map_of (frontier_arith (e_params E) @ frontier_context (e_params E) @
      frontier_memory (e_params E) @ frontier_system (e_params E)) b)"
    if "b \<in> {EXP, SLOAD, SSTORE, BALANCE, EXTCODESIZE, EXTCODECOPY, CALL, CALLCODE, SELFDESTRUCT}"
      and "map_of (frontier_arith (e_params E) @ frontier_context (e_params E) @
        frontier_memory (e_params E) @ frontier_system (e_params E)) b \<noteq> (None :: 'k operation option)" for b
    using families_else [OF that(1), where 'k = 'k and G = "e_params E"] that(2)
    by (auto simp: base_shape_def shapes_def frontier_table_def frontier_entries_def map_of_append map_add_def split: option.splits)
  note unf = frontier_arith_def frontier_context_def frontier_memory_def frontier_system_def opcode_defs LOG_def
    shape_of_def minStack_def M_def
  show "base_shape E EXP = Some (opExp, 2, M 2 1, None)" by (subst at) (simp_all add: unf)
  show "base_shape E SLOAD = Some (opSload, 1, M 1 1, None)" by (subst at) (simp_all add: unf)
  show "base_shape E SSTORE = Some (opSstore, 2, M 2 0, None)" by (subst at) (simp_all add: unf)
  show "base_shape E BALANCE = Some (opBalance, 1, M 1 1, None)" by (subst at) (simp_all add: unf)
  show "base_shape E EXTCODESIZE = Some (opExtCodeSize, 1, M 1 1, None)" by (subst at) (simp_all add: unf)
  show "base_shape E EXTCODECOPY = Some (opExtCodeCopy, 4, M 4 0, Some memoryExtCodeCopy)" by (subst at) (simp_all add: unf)
  show "base_shape E CALL = Some (opCall, 7, M 7 1, Some memoryCall)" by (subst at) (simp_all add: unf)
  show "base_shape E CALLCODE = Some (opCallCode, 7, M 7 1, Some memoryCall)" by (subst at) (simp_all add: unf)
  show "base_shape E SELFDESTRUCT = Some (opSelfdestruct, 1, M 1 0, None)" by (subst at) (simp_all add: unf)
qed

end
