(* ===== verification/EvmForks.thy ===== *)
theory EvmForks
  imports EvmTableSafety
begin

text \<open>
  The tables of the forks and the extra EIPs: from one fork to the next the entries that are not changed
  keep the judgement, and the changed ones are shown to obey it from the shape of the entry they change.
\<close>

section \<open>Up to Constantinople\<close>

abbreviation max_of :: "'k evm_env \<Rightarrow> int \<Rightarrow> int \<Rightarrow> int" where
  "max_of E \<equiv> maxStack (e_params E)"

definition homestead_shape :: "'k evm_env \<Rightarrow> byte \<Rightarrow> 'k shape option" where
  "homestead_shape E = (base_shape E)(DELEGATECALL \<mapsto> (opDelegateCall, 6, max_of E 6 1, Some memoryDelegateCall))"

definition byzantium_shape :: "'k evm_env \<Rightarrow> byte \<Rightarrow> 'k shape option" where
  "byzantium_shape E = (homestead_shape E)(STATICCALL \<mapsto> (opStaticCall, 6, max_of E 6 1, Some memoryStaticCall),
     RETURNDATASIZE \<mapsto> (opReturnDataSize, 0, max_of E 0 1, None),
     RETURNDATACOPY \<mapsto> (opReturnDataCopy, 3, max_of E 3 0, Some memoryReturnDataCopy),
     REVERT \<mapsto> (opRevert, 2, max_of E 2 0, Some memoryRevert))"

definition constantinople_shape :: "'k evm_env \<Rightarrow> byte \<Rightarrow> 'k shape option" where
  "constantinople_shape E = (byzantium_shape E)(SHL \<mapsto> (opSHL, 2, max_of E 2 1, None),
     SHR \<mapsto> (opSHR, 2, max_of E 2 1, None), SAR \<mapsto> (opSAR, 2, max_of E 2 1, None),
     EXTCODEHASH \<mapsto> (opExtCodeHash, 1, max_of E 1 1, None),
     CREATE2 \<mapsto> (opCreate2, 4, max_of E 4 1, Some memoryCreate2))"

lemma shape_of_newOperation [simp]: "shape_of (newOperation ex c dg m mx ms) = (ex, m, mx, ms)"
  by (simp add: shape_of_def newOperation_def)

text \<open>The new instructions.\<close>

lemma new_entry_ok:
  assumes "env_ok E"
  shows "0 < c \<Longrightarrow> c < 2 ^ 64 \<Longrightarrow> entry_ok E (newOperation opDelegateCall c (Some gasDelegateCall)
      (minStack 6 1) (max_of E 6 1) (Some memoryDelegateCall))"
    and "0 < c \<Longrightarrow> c < 2 ^ 64 \<Longrightarrow> entry_ok E (newOperation opStaticCall c (Some gasStaticCall)
      (minStack 6 1) (max_of E 6 1) (Some memoryStaticCall))"
    and "entry_ok E (newOperation opReturnDataSize GasQuickStep None (minStack 0 1) (max_of E 0 1) None)"
    and "entry_ok E (newOperation opReturnDataCopy GasFastestStep (Some gasReturnDataCopy) (minStack 3 0)
      (max_of E 3 0) (Some memoryReturnDataCopy))"
    and "entry_ok E (newOperation opRevert 0 (Some gasRevert) (minStack 2 0) (max_of E 2 0) (Some memoryRevert))"
    and "entry_ok E (newOperation opSHL GasFastestStep None (minStack 2 1) (max_of E 2 1) None)"
    and "entry_ok E (newOperation opSHR GasFastestStep None (minStack 2 1) (max_of E 2 1) None)"
    and "entry_ok E (newOperation opSAR GasFastestStep None (minStack 2 1) (max_of E 2 1) None)"
    and "entry_ok E (newOperation opExtCodeHash (e_params E ExtcodeHashGasConstantinople) None (minStack 1 1) (max_of E 1 1) None)"
    and "entry_ok E (newOperation opCreate2 (e_params E Create2Gas) (Some gasCreate2) (minStack 4 1) (max_of E 4 1) (Some memoryCreate2))"
    and "entry_ok E (newOperation opSelfBalance GasFastStep None (minStack 0 1) (max_of E 0 1) None)"
    and "entry_ok E (newOperation opChainID GasQuickStep None (minStack 0 1) (max_of E 0 1) None)"
    and "entry_ok E (newOperation opBaseFee GasQuickStep None (minStack 0 1) (max_of E 0 1) None)"
    and "entry_ok E (newOperation opPush0 GasQuickStep None (minStack 0 1) (max_of E 0 1) None)"
    and "entry_ok E (newOperation opRandom GasQuickStep None (minStack 0 1) (max_of E 0 1) None)"
  by (((rule entry_run, rule stack_execs) | (rule entry_halt, rule return_ok, rule dyn_gas, (rule env_okD [OF assms])+) |
        (rule entry_dyn, rule memory_execs, assumption?, (rule env_okD [OF assms])?, rule dyn_gas, (rule env_okD [OF assms])+)),
      (simp_all add: minStack_def gas_steps const_range [OF assms] sizes_ok plain_credit_def)?)+

lemma homestead_keeps:
  assumes "env_ok E"
  shows "yields (keeps E (homestead_shape E)) (newHomesteadInstructionSet (e_params E))"
proof -
  have "keeps E (homestead_shape E) (set_op DELEGATECALL (newOperation opDelegateCall (e_params E CallGasFrontier)
      (Some gasDelegateCall) (minStack 6 1) (max_of E 6 1) (Some memoryDelegateCall)) jt)"
    if "keeps E (base_shape E) jt" for jt
    using keeps_set_op [OF that new_entry_ok(1) [OF assms const_range(1,3) [OF assms]], of CallGasFrontier DELEGATECALL]
    by (simp add: homestead_shape_def minStack_def)
  then show ?thesis unfolding newHomesteadInstructionSet_def
    by (intro yields_rbind [OF frontier_keeps [OF assms]] keeps_MustValidate)
qed

lemma tangerine_keeps:
  assumes "env_ok E"
  shows "yields (keeps E (homestead_shape E)) (newTangerineWhistleInstructionSet (e_params E))"
  unfolding newTangerineWhistleInstructionSet_def
  by (intro yields_rbind [OF homestead_keeps [OF assms]])
    ((rule yields_rbind, rule keeps_constantGas, assumption, rule const_range [OF assms], rule const_range [OF assms]) |
      (rule keeps_MustValidate, assumption))+

lemma homestead_shapes:
  "homestead_shape E EXP = Some (opExp, 2, max_of E 2 1, None)"
  by (simp add: homestead_shape_def base_shapes [unfolded opcode_defs] opcode_defs)

lemma spurious_keeps:
  assumes "env_ok E"
  shows "yields (keeps E (homestead_shape E)) (newSpuriousDragonInstructionSet (e_params E))"
proof -
  have "yields (keeps E (homestead_shape E)) (set_dynamicGas EXP gasExpEIP158 jt)" if "keeps E (homestead_shape E) jt" for jt
  proof (rule keeps_dynamicGas [OF that homestead_shapes])
    fix c :: int
    assume c: "0 \<le> c" "c < 2 ^ 64"
    show "entry_ok E (newOperation opExp c (Some gasExpEIP158) 2 (max_of E 2 1) None)"
      by (rule entry_dyn, rule arith_ok, rule exp_gas_ok, (rule env_okD [OF assms])+)
        (use c in \<open>simp_all add: const_range [OF assms] add_nonneg_pos\<close>)
  qed
  then show ?thesis unfolding newSpuriousDragonInstructionSet_def
    by (intro yields_rbind [OF tangerine_keeps [OF assms]]) (rule yields_rbind, assumption, rule keeps_MustValidate)
qed

lemma byzantium_keeps:
  assumes "env_ok E"
  shows "yields (keeps E (byzantium_shape E)) (newByzantiumInstructionSet (e_params E))"
  unfolding newByzantiumInstructionSet_def Let_def byzantium_shape_def
  by (intro yields_rbind [OF spurious_keeps [OF assms]] keeps_MustValidate)
    (drule keeps_set_op [OF _ new_entry_ok(2) [OF assms const_range(1,3) [OF assms]], of _ _ CallGasEIP150 STATICCALL],
     simp, drule keeps_set_op [OF _ new_entry_ok(3) [OF assms], of _ _ RETURNDATASIZE],
     simp, drule keeps_set_op [OF _ new_entry_ok(4) [OF assms], of _ _ RETURNDATACOPY],
     simp, drule keeps_set_op [OF _ new_entry_ok(5) [OF assms], of _ _ REVERT], simp, simp add: minStack_def)

lemma constantinople_keeps:
  assumes "env_ok E"
  shows "yields (keeps E (constantinople_shape E)) (newConstantinopleInstructionSet (e_params E))"
  unfolding newConstantinopleInstructionSet_def Let_def constantinople_shape_def
  by (intro yields_rbind [OF byzantium_keeps [OF assms]] keeps_MustValidate)
    (drule keeps_set_op [OF _ new_entry_ok(6) [OF assms], of _ _ SHL],
     simp, drule keeps_set_op [OF _ new_entry_ok(7) [OF assms], of _ _ SHR],
     simp, drule keeps_set_op [OF _ new_entry_ok(8) [OF assms], of _ _ SAR],
     simp, drule keeps_set_op [OF _ new_entry_ok(9) [OF assms], of _ _ EXTCODEHASH],
     simp, drule keeps_set_op [OF _ new_entry_ok(10) [OF assms], of _ _ CREATE2], simp, simp add: minStack_def)

section \<open>EIPs\<close>

text \<open>
  The entries that the EIPs change. A table that is \<open>good\<close> has them in their final shape: this is so from
  Constantinople on, and every EIP keeps it, in whatever order they are enabled.
\<close>

definition known_shapes :: "'k evm_env \<Rightarrow> (byte \<times> 'k shape) list" where
  "known_shapes E =
    [(SLOAD, (opSload, 1, max_of E 1 1, None)), (SSTORE, (opSstore, 2, max_of E 2 0, None)),
     (BALANCE, (opBalance, 1, max_of E 1 1, None)), (EXTCODESIZE, (opExtCodeSize, 1, max_of E 1 1, None)),
     (EXTCODECOPY, (opExtCodeCopy, 4, max_of E 4 0, Some memoryExtCodeCopy)),
     (EXTCODEHASH, (opExtCodeHash, 1, max_of E 1 1, None)),
     (CALL, (opCall, 7, max_of E 7 1, Some memoryCall)), (CALLCODE, (opCallCode, 7, max_of E 7 1, Some memoryCall)),
     (DELEGATECALL, (opDelegateCall, 6, max_of E 6 1, Some memoryDelegateCall)),
     (STATICCALL, (opStaticCall, 6, max_of E 6 1, Some memoryStaticCall)),
     (SELFDESTRUCT, (opSelfdestruct, 1, max_of E 1 0, None))]"

definition has_shapes :: "'k evm_env \<Rightarrow> (byte \<Rightarrow> 'k shape option) \<Rightarrow> bool" where
  "has_shapes E S \<longleftrightarrow> (\<forall>(b, sh) \<in> set (known_shapes E). S b = Some sh)"

definition good :: "'k evm_env \<Rightarrow> 'k JumpTable \<Rightarrow> bool" where
  "good E jt \<longleftrightarrow> (\<exists>S. keeps E S jt \<and> has_shapes E S)"

lemma good_table_ok: "good E jt \<Longrightarrow> table_ok E jt"
  by (auto simp: good_def keeps_def)

lemma has_shapesD:
  assumes "has_shapes E S"
  shows "S SLOAD = Some (opSload, 1, max_of E 1 1, None)" and "S SSTORE = Some (opSstore, 2, max_of E 2 0, None)"
    and "S BALANCE = Some (opBalance, 1, max_of E 1 1, None)" and "S EXTCODESIZE = Some (opExtCodeSize, 1, max_of E 1 1, None)"
    and "S EXTCODECOPY = Some (opExtCodeCopy, 4, max_of E 4 0, Some memoryExtCodeCopy)"
    and "S EXTCODEHASH = Some (opExtCodeHash, 1, max_of E 1 1, None)"
    and "S CALL = Some (opCall, 7, max_of E 7 1, Some memoryCall)"
    and "S CALLCODE = Some (opCallCode, 7, max_of E 7 1, Some memoryCall)"
    and "S DELEGATECALL = Some (opDelegateCall, 6, max_of E 6 1, Some memoryDelegateCall)"
    and "S STATICCALL = Some (opStaticCall, 6, max_of E 6 1, Some memoryStaticCall)"
    and "S SELFDESTRUCT = Some (opSelfdestruct, 1, max_of E 1 0, None)"
  using assms by (simp_all add: has_shapes_def known_shapes_def)

lemma has_shapes_upd: "has_shapes E S \<Longrightarrow> b \<notin> fst ` set (known_shapes E) \<Longrightarrow> has_shapes E (S(b \<mapsto> sh))"
  unfolding has_shapes_def by force

lemma good_set_op:
  assumes "good E jt" and "entry_ok E op" and "complete_op op" and "b \<notin> fst ` set (known_shapes E)"
  shows "good E (set_op b op jt)"
  using assms keeps_set_op [OF _ assms(2,3)] has_shapes_upd unfolding good_def by blast

lemma good_constantGas: "good E jt \<Longrightarrow> 0 < c \<Longrightarrow> c < 2 ^ 64 \<Longrightarrow> yields (good E) (set_constantGas b c jt)"
  unfolding good_def by (blast intro: yields_mono [OF keeps_constantGas])

lemma good_MustValidate: "good E jt \<Longrightarrow> yields (good E) (MustValidate jt)"
  unfolding good_def by (blast intro: yields_mono [OF keeps_MustValidate])

lemma good_dynamicGas:
  assumes "good E jt" and "\<And>S. has_shapes E S \<Longrightarrow> S b = Some (ex, m, mx, ms)"
    and "\<And>c. 0 \<le> c \<Longrightarrow> c < 2 ^ 64 \<Longrightarrow> entry_ok E (newOperation ex c (Some dg) m mx ms)"
  shows "yields (good E) (set_dynamicGas b dg jt)"
  using assms unfolding good_def by (blast intro: yields_mono [OF keeps_dynamicGas])

lemma good_pair:
  assumes "good E jt" and "\<And>S. has_shapes E S \<Longrightarrow> S b = Some (ex, m, mx, ms)"
    and "entry_ok E (newOperation ex c (Some dg) m mx ms)" and "\<And>jt. good E jt \<Longrightarrow> yields P (k jt)"
  shows "yields P (rbind (set_constantGas b c jt) (\<lambda>jt. rbind (set_dynamicGas b dg jt) k))"
  using assms(1,4) unfolding good_def by (blast intro: yields_pair [OF _ assms(2,3)])

lemma good_last_pair:
  assumes "good E jt" and "\<And>S. has_shapes E S \<Longrightarrow> S b = Some (ex, m, mx, ms)"
    and "entry_ok E (newOperation ex c (Some dg) m mx ms)"
  shows "yields (good E) (rbind (set_constantGas b c jt) (set_dynamicGas b dg))"
  using assms(1) unfolding good_def by (blast intro: yields_mono [OF yields_last_pair [OF _ assms(2,3)]])

text \<open>The entries after the change.\<close>

lemma sstore_entry_ok:
  assumes "env_ok E" and "0 \<le> c" and "c < 2 ^ 64" and "dg \<in> {gasSStoreEIP2200, gasSStoreEIP2929, gasSStoreEIP3529}"
  shows "entry_ok E (newOperation opSstore c (Some dg) 2 (max_of E 2 0) None)"
proof (rule entry_dyn)
  show "gas_ok E D 2 False no_credit 1 dg" for D
    using sstore_gas_ok [OF env_okD(1) [OF assms(1)]] assms(4) by auto
  show "exec_ok C E D 2 (max_of E 2 0) None no_credit False opSstore" for C D by (rule control_ok)
qed (use assms(2,3) in auto)

lemma selfdestruct_entry_ok:
  assumes "env_ok E" and "0 \<le> c" and "c < 2 ^ 64" and "dg \<in> {gasSelfdestructEIP2929, gasSelfdestructEIP3529}"
  shows "entry_ok E (newOperation opSelfdestruct c (Some dg) 1 (max_of E 1 0) None)"
proof (rule entry_halt)
  show "gas_ok E D 1 False no_credit 0 dg" for D
    using selfdestruct_gas_ok [OF env_okD(1) [OF assms(1)]] assms(4) by auto
qed (use assms(2,3) halting_ok(3) in auto)

lemma access_entry_ok:
  fixes E :: "'k evm_env"
  assumes "env_ok E" and "IsEIP150 (e_rules E)"
  defines "W \<equiv> e_params E WarmStorageReadCostEIP2929"
  shows "entry_ok E (newOperation opSload 0 (Some gasSLoadEIP2929) 1 (max_of E 1 1) None)"
    and "entry_ok E (newOperation opExtCodeCopy W (Some gasExtCodeCopyEIP2929) 4 (max_of E 4 0) (Some memoryExtCodeCopy))"
    and "entry_ok E (newOperation opExtCodeSize W (Some gasEip2929AccountCheck) 1 (max_of E 1 1) None)"
    and "entry_ok E (newOperation opExtCodeHash W (Some gasEip2929AccountCheck) 1 (max_of E 1 1) None)"
    and "entry_ok E (newOperation opBalance W (Some gasEip2929AccountCheck) 1 (max_of E 1 1) None)"
    and "entry_ok E (newOperation opCall W (Some gasCallEIP2929) 7 (max_of E 7 1) (Some memoryCall))"
    and "entry_ok E (newOperation opCallCode W (Some gasCallCodeEIP2929) 7 (max_of E 7 1) (Some memoryCall))"
    and "entry_ok E (newOperation opStaticCall W (Some gasStaticCallEIP2929) 6 (max_of E 6 1) (Some memoryStaticCall))"
    and "entry_ok E (newOperation opDelegateCall W (Some gasDelegateCallEIP2929) 6 (max_of E 6 1) (Some memoryDelegateCall))"
  unfolding W_def
  by (((rule entry_dyn, rule stack_execs memory_execs, assumption?, (rule env_okD [OF assms(1)])?,
        rule access_gas_ok access_calls_gas_ok, (rule env_okD [OF assms(1)] assms(2))+)),
      (simp_all add: const_range [OF assms(1)] sizes_ok plain_credit_def call_credit_def)?)+

lemma eips_good:
  fixes E :: "'k evm_env"
  assumes "env_ok E" and "good E jt"
  defines "G \<equiv> e_params E"
  shows "yields (good E) (enable1884 G jt)" and "yields (good E) (enable1344 G jt)" and "yields (good E) (enable2200 G jt)"
    and "yields (good E) (enable3529 G jt)" and "yields (good E) (enable3198 G jt)" and "yields (good E) (enable3855 G jt)"
proof -
  note set_ops = good_set_op [OF assms(2)] known_shapes_def opcode_defs
  show "yields (good E) (enable1344 G jt)" "yields (good E) (enable3198 G jt)" "yields (good E) (enable3855 G jt)"
    unfolding enable1344_def enable3198_def enable3855_def yields_Inr G_def
    by (rule good_set_op [OF assms(2)]; simp add: new_entry_ok [OF assms(1)] known_shapes_def opcode_defs)+
  show "yields (good E) (enable1884 G jt)"
    unfolding enable1884_def G_def
    by (rule yields_rbind, rule good_constantGas [OF assms(2)], (rule const_range [OF assms(1)])+)
      ((rule yields_rbind, rule good_constantGas, assumption, (rule const_range [OF assms(1)])+)+,
       unfold yields_Inr, rule good_set_op, assumption, simp_all add: new_entry_ok [OF assms(1)] known_shapes_def opcode_defs)
  show "yields (good E) (enable2200 G jt)"
    unfolding enable2200_def G_def
    by (rule yields_rbind, rule good_constantGas [OF assms(2)], (rule const_range [OF assms(1)])+,
      rule good_dynamicGas, assumption, rule has_shapesD, assumption, rule sstore_entry_ok [OF assms(1)]) simp_all
  show "yields (good E) (enable3529 G jt)"
    unfolding enable3529_def
    by (rule yields_rbind, rule good_dynamicGas [OF assms(2) has_shapesD(2)], assumption, rule sstore_entry_ok [OF assms(1)])
      (simp | (rule good_dynamicGas, assumption, rule has_shapesD(11), assumption, rule selfdestruct_entry_ok [OF assms(1)]))+
qed

lemma enable2929_good:
  assumes "env_ok E" and "IsEIP150 (e_rules E)" and "good E jt"
  shows "yields (good E) (enable2929 (e_params E) jt)"
  unfolding enable2929_def
  apply (rule yields_rbind [OF good_dynamicGas [OF assms(3) has_shapesD(2)]], assumption, rule sstore_entry_ok [OF assms(1)], assumption, assumption, simp)
  apply (rule good_pair, assumption, rule has_shapesD, assumption, rule access_entry_ok [OF assms(1,2)])+
  apply (rule good_last_pair, assumption, rule has_shapesD, assumption)
  apply (rule selfdestruct_entry_ok [OF assms(1)])
  apply (simp_all add: const_range [OF assms(1)])
  done

section \<open>From Istanbul on\<close>

lemma constantinople_good:
  assumes "env_ok E"
  shows "yields (good E) (newConstantinopleInstructionSet (e_params E))"
proof -
  have "has_shapes E (constantinople_shape E)"
    by (simp add: has_shapes_def known_shapes_def constantinople_shape_def byzantium_shape_def homestead_shape_def
      base_shapes [unfolded opcode_defs] opcode_defs)
  then show ?thesis unfolding good_def by (blast intro: yields_mono [OF constantinople_keeps [OF assms]])
qed

lemma late_forks_good:
  fixes E :: "'k evm_env"
  assumes "env_ok E"
  defines "G \<equiv> e_params E"
  shows "yields (good E) (newIstanbulInstructionSet G)"
    and "IsEIP150 (e_rules E) \<Longrightarrow> yields (good E) (newBerlinInstructionSet G)"
    and "IsEIP150 (e_rules E) \<Longrightarrow> yields (good E) (newLondonInstructionSet G)"
    and "IsEIP150 (e_rules E) \<Longrightarrow> yields (good E) (newMergeInstructionSet G)"
proof -
  show istanbul: "yields (good E) (newIstanbulInstructionSet G)"
    unfolding newIstanbulInstructionSet_def G_def
    by (intro yields_rbind [OF constantinople_good [OF assms(1)]])
      (rule yields_rbind [OF eips_good(2) [OF assms(1)]], assumption, rule yields_rbind [OF eips_good(1) [OF assms(1)]], assumption,
       rule yields_rbind [OF eips_good(3) [OF assms(1)]], assumption, rule good_MustValidate)
  assume ext: "IsEIP150 (e_rules E)"
  show berlin: "yields (good E) (newBerlinInstructionSet G)"
    unfolding newBerlinInstructionSet_def G_def
    by (rule yields_rbind [OF istanbul [unfolded G_def]])
      (rule yields_rbind [OF enable2929_good [OF assms(1) ext]], assumption, rule good_MustValidate)
  show london: "yields (good E) (newLondonInstructionSet G)"
    unfolding newLondonInstructionSet_def G_def
    by (rule yields_rbind [OF berlin [unfolded G_def]])
      (rule yields_rbind [OF eips_good(4) [OF assms(1)]], assumption, rule yields_rbind [OF eips_good(5) [OF assms(1)]], assumption,
       rule good_MustValidate)
  show "yields (good E) (newMergeInstructionSet G)"
    unfolding newMergeInstructionSet_def G_def
    by (rule yields_rbind [OF london [unfolded G_def]], rule good_MustValidate, rule good_set_op, assumption)
      (simp_all add: new_entry_ok [OF assms(1)] known_shapes_def opcode_defs)
qed

text \<open>The rules of a chain come in the order of the forks: those that price warm accesses know EIP-150.\<close>

definition rules_ordered :: "rules \<Rightarrow> bool" where
  "rules_ordered r \<longleftrightarrow> (IsMerge r \<or> IsLondon r \<or> IsBerlin r \<longrightarrow> IsEIP150 r)"

definition after_constantinople :: "rules \<Rightarrow> bool" where
  "after_constantinople r \<longleftrightarrow> IsMerge r \<or> IsLondon r \<or> IsBerlin r \<or> IsIstanbul r \<or> IsConstantinople r"

lemma DefaultJumpTable_good:
  assumes "env_ok E" and "rules_ordered (e_rules E)" and "after_constantinople (e_rules E)"
  shows "yields (good E) (DefaultJumpTable (e_params E) (e_rules E))"
  using assms late_forks_good [OF assms(1)] constantinople_good [OF assms(1)]
  by (auto simp: DefaultJumpTable_def rules_ordered_def after_constantinople_def)

lemma DefaultJumpTable_ok:
  assumes "env_ok E" and "rules_ordered (e_rules E)"
  shows "yields (table_ok E) (DefaultJumpTable (e_params E) (e_rules E))"
proof (cases "after_constantinople (e_rules E)")
  case True
  then show ?thesis using yields_mono [OF DefaultJumpTable_good [OF assms]] good_table_ok by blast
next
  case False
  note keeps = byzantium_keeps spurious_keeps tangerine_keeps homestead_keeps frontier_keeps
  have "yields (table_ok E) r" if "yields (keeps E S) r" for S r
    using yields_mono [OF that] unfolding keeps_def by blast
  with False keeps [OF assms(1)] show ?thesis
    by (simp add: DefaultJumpTable_def after_constantinople_def)
qed

section \<open>Extra EIPs\<close>

lemma activator_good:
  assumes "env_ok E" and "IsEIP150 (e_rules E)" and "map_of (activators (e_params E)) eip = Some f" and "good E jt"
  shows "yields (good E) (f jt)"
proof -
  have "(eip, f) \<in> set (activators (e_params E))" using assms(3) by (rule map_of_SomeD)
  then show ?thesis unfolding activators_def
    using eips_good [OF assms(1,4)] enable2929_good [OF assms(1,2,4)] by auto
qed

lemma enable_all_good:
  fixes E :: "'k evm_env"
  assumes "env_ok E" and "IsEIP150 (e_rules E)" and "\<forall>eip \<in> set eips. ExistsEipActivator (activators (e_params E) :: 'k activator_map) eip"
    and "good E jt"
  shows "yields (good E) (enable_all (activators (e_params E)) eips jt)"
  using assms(3,4)
proof (induction eips arbitrary: jt)
  case Nil
  then show ?case by (simp add: enable_all_def)
next
  case (Cons eip eips)
  then obtain f where f: "map_of (activators (e_params E) :: 'k activator_map) eip = Some f" by (auto simp: ExistsEipActivator_def)
  from activator_good [OF assms(1,2) f Cons(3)] obtain jt1 where "f jt = Inr jt1" "good E jt1" by (auto simp: yields_def)
  then show ?case using Cons f by (simp add: enable_all_def EnableEIP_def)
qed

lemma interpreter_table_ok:
  fixes E :: "'k evm_env"
  assumes "env_ok E" and "rules_ordered (e_rules E)" and "after_constantinople (e_rules E)" and "IsEIP150 (e_rules E)"
    and "\<forall>eip \<in> set eips. ExistsEipActivator (activators (e_params E) :: 'k activator_map) eip" and "archive_eip \<notin> set eips"
  shows "\<exists>jt. NewEVMInterpreter_table (e_params E) (activators (e_params E)) (e_rules E) None eips = Inr (eips, jt) \<and>
    table_ok E jt"
proof -
  obtain jt0 :: "'k JumpTable" where jt0: "DefaultJumpTable (e_params E) (e_rules E) = Inr jt0" "good E jt0"
    using DefaultJumpTable_good [OF assms(1-3)] by (auto simp: yields_def)
  obtain jt where "enable_all (activators (e_params E)) eips jt0 = Inr jt" "good E jt"
    using enable_all_good [OF assms(1,4,5) jt0(2)] by (auto simp: yields_def)
  then show ?thesis using jt0 enable_eips_known [OF assms(5,6), of 0 jt0] good_table_ok
    by (simp add: NewEVMInterpreter_table_def)
qed

end
