(* ===== verification/EvmRunSafety.thy ===== *)
theory EvmRunSafety
  imports EvmForks
begin

text \<open>
  From one instruction to the whole machine: a step keeps the frame in order and uses gas, so the loop
  ends before its fuel; a run, and then the calls between contracts, by induction on the depth.
\<close>

section \<open>One step\<close>

definition frame_ok :: "'k evm_env \<Rightarrow> int \<Rightarrow> 'k frame \<Rightarrow> bool" where
  "frame_ok E D s \<longleftrightarrow> evm_inv D (fr_evm s) \<and> in_u64 (gas_of s) \<and> mem_paid (e_params E) (mem_len s) (mem_last s) \<and>
     int (mem_len s) \<le> max_mem \<and> int (length (fr_Stack s)) \<le> e_params E StackLimit"

lemma wp_required_memory:
  assumes "case ms of None \<Rightarrow> True | Some f \<Rightarrow> size_ok n f" and "n \<le> length (fr_Stack s)" and "lib_ok (e_lib E)"
    and "\<And>sz. in_u64 sz \<Longrightarrow> sz mod 32 = 0 \<Longrightarrow> (ms = None \<Longrightarrow> sz = 0)
      \<Longrightarrow> (\<And>f. ms = Some f \<Longrightarrow> \<exists>m. f (fr_Stack s) = Inr (m, False) \<and> m \<le> sz) \<Longrightarrow> Q sz s"
    and "F s"
  shows "wp (required_memory E ms) Q F s"
proof (cases ms)
  case None
  then show ?thesis using assms(4) [of 0] by (simp add: required_memory_def wp in_u64_def)
next
  case (Some f)
  with assms(1,2) obtain m ovf where f: "f (fr_Stack s) = Inr (m, ovf)" "in_u64 m" by (auto simp: size_ok_def)
  show ?thesis
  proof (cases "ovf \<or> \<not> in_u64 (toWordSize m * 32)")
    case True
    then show ?thesis using Some f assms(3,5) by (auto simp: required_memory_def wp lib_ok_def)
  next
    case False
    then have u: "u64 (toWordSize m * 32) = toWordSize m * 32" by (simp add: u64_fix)
    have "u64 (m + 31) = m + 31" if "m \<le> 2 ^ 64 - 1 - 31" using that f(2) by (intro u64_id) (auto simp: in_u64_def)
    then have "m \<le> toWordSize m * 32" using f(2) by (auto simp: toWordSize_def in_u64_def)
    then have "Q (toWordSize m * 32) s" using Some f False by (intro assms(4)) auto
    then show ?thesis using Some f False assms(3) u by (simp add: required_memory_def wp lib_ok_def)
  qed
qed

lemma resized_paid:
  assumes "params_ok G" and "mem_paid G (length (mem_store m)) (mem_lastGasCost m)" and "0 \<le> sz" and "sz \<le> max_mem"
    and "sz mod 32 = 0"
  defines "m1 \<equiv> mem_Resize sz (charged G True sz m)"
  shows "mem_paid G (length (mem_store m1)) (mem_lastGasCost m1)" and "int (length (mem_store m1)) = max (int (length (mem_store m))) sz"
proof -
  let ?words = "int (length (mem_store m) div 32)"
  have w: "toWordSize sz = sz div 32"
  proof -
    obtain k where "sz = 32 * k" using assms(5) by auto
    then show ?thesis using toWordSize_small(1) [OF assms(3,4)] by simp
  qed
  have ch: "charged G True sz m = m\<lparr>mem_lastGasCost := mem_fee G (max ?words (sz div 32))\<rparr>"
    using memoryGasCost_paid [OF assms(1-4)] by (simp add: charged_def Let_def w)
  have len: "int (length (mem_store m)) = ?words * 32" using assms(2) by (auto simp: mem_paid_def)
  have sz: "sz = sz div 32 * 32" using assms(5) by auto
  show l: "int (length (mem_store m1)) = max (int (length (mem_store m))) sz"
    by (simp add: m1_def ch mem_Resize_def)
  have "int (length (mem_store m1)) = max ?words (sz div 32) * 32"
    unfolding l using len sz by linarith
  then have "int (length (mem_store m1)) mod 32 = 0" "int (length (mem_store m1)) div 32 = max ?words (sz div 32)"
    by simp_all
  then have "length (mem_store m1) mod 32 = 0" "int (length (mem_store m1) div 32) = max ?words (sz div 32)"
    by (presburger, simp add: zdiv_int)
  moreover have "mem_lastGasCost m1 = mem_fee G (max ?words (sz div 32))"
    by (simp add: m1_def ch mem_Resize_def)
  ultimately show "mem_paid G (length (mem_store m1)) (mem_lastGasCost m1)" by (simp add: mem_paid_def)
qed

text \<open>The gas is charged and the memory grown, so that the instruction may run.\<close>

definition charged_state :: "'k evm_env \<Rightarrow> int \<Rightarrow> 'k frame \<Rightarrow> int \<Rightarrow> credit \<Rightarrow> memorySizeFunc option \<Rightarrow> 'k frame \<Rightarrow> bool" where
  "charged_state E D s lo credit ms s1 \<longleftrightarrow> fr_Stack s1 = fr_Stack s \<and> evm_inv D (fr_evm s1) \<and> in_u64 (gas_of s1) \<and>
     gas_of s1 + lo + credit (fr_Stack s) (ev_callGasTemp (fr_evm s1)) \<le> gas_of s \<and>
     mem_paid (e_params E) (mem_len s1) (mem_last s1) \<and> int (mem_len s1) \<le> max_mem \<and> covered ms s1"

lemma charged_resized:
  assumes "params_ok (e_params E)" and "mem_paid (e_params E) (mem_len s) (mem_last s)" and "int (mem_len s) \<le> max_mem"
    and "0 \<le> sz" and "sz mod 32 = 0" and "has_mem \<Longrightarrow> sz \<le> max_mem" and "\<not> has_mem \<Longrightarrow> sz = 0"
    and "fr_Memory s1 = charged (e_params E) has_mem sz (fr_Memory s)"
  defines "s2 \<equiv> (if 0 < sz then s1\<lparr>fr_Memory := mem_Resize sz (fr_Memory s1)\<rparr> else s1)"
  shows "mem_paid (e_params E) (mem_len s2) (mem_last s2)" and "int (mem_len s2) \<le> max_mem" and "sz \<le> int (mem_len s2)"
proof -
  have "mem_paid (e_params E) (mem_len s2) (mem_last s2) \<and> int (mem_len s2) = max (int (mem_len s)) sz"
  proof (cases has_mem)
    case True
    have res: "fr_Memory s2 = mem_Resize sz (charged (e_params E) True sz (fr_Memory s))"
      using True assms(4,8) by (auto simp: s2_def mem_Resize_def)
    show ?thesis using resized_paid [OF assms(1) _ assms(4) assms(6) [OF True] assms(5), of "fr_Memory s"] assms(2)
      by (simp add: mem_len_def mem_last_def res)
  next
    case False
    then have "s2 = s1" "fr_Memory s1 = fr_Memory s" using assms(7,8) by (simp_all add: s2_def)
    then show ?thesis using assms(2,7) False by (simp add: mem_len_def mem_last_def)
  qed
  then show "mem_paid (e_params E) (mem_len s2) (mem_last s2)" "int (mem_len s2) \<le> max_mem" "sz \<le> int (mem_len s2)"
    using assms(3,6,7) by (cases has_mem; simp add: max_mem_def)+
qed

lemma charge_dynamic_ok:
  assumes "params_ok (e_params E)" and "lib_ok (e_lib E)" and "frame_ok E D s" and "n \<le> length (fr_Stack s)"
    and "case dynamicGas op of None \<Rightarrow> lo = 0 \<and> credit = (\<lambda>_ _. 0) \<and> memorySize op = None
      | Some dg \<Rightarrow> gas_ok E D n (memorySize op \<noteq> None) credit lo dg"
    and "case memorySize op of None \<Rightarrow> True | Some f \<Rightarrow> size_ok n f"
  shows "wp (charge_dynamic E op) (\<lambda>_. charged_state E D s lo credit (memorySize op)) (gas_fail D s) s"
proof (cases "dynamicGas op")
  case None
  then show ?thesis using assms(3,5) by (simp add: charge_dynamic_def wp charged_state_def frame_ok_def covered_def)
next
  case (Some dg)
  note fr = assms(3) [unfolded frame_ok_def]
  have fail: "gas_fail D s s" using fr by (simp add: gas_fail_def in_u64_def)
  show ?thesis unfolding charge_dynamic_def Some option.case
  proof (subst wp_bindM, rule wp_required_memory [OF assms(6,4,2)])
    fix sz :: int
    assume sz: "in_u64 sz" "sz mod 32 = 0" "memorySize op = None \<Longrightarrow> sz = 0"
      "\<And>f. memorySize op = Some f \<Longrightarrow> \<exists>m. f (fr_Stack s) = Inr (m, False) \<and> m \<le> sz"
    have "wp (dg E sz) (gas_post E D (memorySize op \<noteq> None) credit lo 0 sz s) (gas_fail D s) s"
      using assms(4,5) fr sz(1) by (simp add: Some gas_room_def)
    then show "wp (bindM (errs_to ([], ErrOutOfGas) (dg E sz)) (\<lambda>x. bindM (use_gas x) (\<lambda>ok. if \<not> ok then errM ErrOutOfGas
          else if 0 < sz then modM (\<lambda>s. s\<lparr>fr_Memory := mem_Resize sz (fr_Memory s)\<rparr>) else retM ())))
        (\<lambda>_. charged_state E D s lo credit (memorySize op)) (gas_fail D s) s"
      unfolding wp_bindM [where m = "errs_to e m" for e m] wp_errs_to
    proof (rule wp_mono)
      fix cost s1
      assume p: "gas_post E D (memorySize op \<noteq> None) credit lo 0 sz s cost s1"
      have sz0: "0 \<le> sz" using sz(1) by (simp add: in_u64_def)
      define s2 where "s2 = (if 0 < sz then s1\<lparr>fr_Memory := mem_Resize sz (fr_Memory s1)\<rparr> else s1)"
      have mem: "mem_paid (e_params E) (mem_len s2) (mem_last s2)" "int (mem_len s2) \<le> max_mem" "sz \<le> int (mem_len s2)"
        unfolding s2_def
        using charged_resized [OF assms(1) _ _ sz0 sz(2), of s "memorySize op \<noteq> None" s1] fr p sz(3)
        by (auto simp: gas_post_def)
      have cov: "covered (memorySize op) s3" if "fr_Stack s3 = fr_Stack s" and "fr_Memory s3 = fr_Memory s2" for s3
        using sz(4) mem(3) that by (fastforce simp: covered_def mem_len_def split: option.splits)
      show "wp (bindM (use_gas cost) (\<lambda>ok. if \<not> ok then errM ErrOutOfGas
          else if 0 < sz then modM (\<lambda>s. s\<lparr>fr_Memory := mem_Resize sz (fr_Memory s)\<rparr>) else retM ()))
        (\<lambda>_. charged_state E D s lo credit (memorySize op)) (gas_fail D s) s1"
        using p mem fr by (auto simp: wp gas_post_def gas_fail_def charged_state_def gas_of_def in_u64_def mem_len_def mem_last_def s2_def intro!: cov)
    qed
  qed (rule fail)
qed

lemma run_operation_ok:
  assumes "params_ok (e_params E)" and "lib_ok (e_lib E)" and "frame_ok E D s" and "op_ok C E D op"
  shows "wp (run_operation C E op) (\<lambda>_ s1. frame_ok E D s1 \<and> gas_of s1 < gas_of s) (gas_fail D s) s"
proof -
  obtain n credit lo where op: "op_minStack op = int n" "in_u64 (constantGas op)" "0 \<le> lo"
    "case dynamicGas op of None \<Rightarrow> lo = 0 \<and> credit = (\<lambda>_ _. 0) \<and> memorySize op = None
      | Some dg \<Rightarrow> gas_ok E D n (memorySize op \<noteq> None) credit lo dg"
    "case memorySize op of None \<Rightarrow> True | Some f \<Rightarrow> size_ok n f"
    "exec_ok C E D n (op_maxStack op) (memorySize op) credit (constantGas op + lo = 0) (execute op)"
    using assms(4) unfolding op_ok_def by blast
  note fr = assms(3) [unfolded frame_ok_def]
  have fail: "gas_fail D s s" using fr by (simp add: gas_fail_def in_u64_def)
  define s0 where "s0 = s\<lparr>fr_Contract := (fr_Contract s)\<lparr>ct_Gas := ct_Gas (fr_Contract s) - constantGas op\<rparr>\<rparr>"
  have main: "wp (bindM (charge_dynamic E op) (\<lambda>_. bindM (execute op C E) (\<lambda>res.
        bindM (modM (\<lambda>s. s\<lparr>fr_pc := u64 (fr_pc s + 1)\<rparr>)) (\<lambda>_. retM res))))
      (\<lambda>_ s1. frame_ok E D s1 \<and> gas_of s1 < gas_of s) (gas_fail D s) s0"
    if len: "n \<le> length (fr_Stack s)" "int (length (fr_Stack s)) \<le> op_maxStack op" and gas: "constantGas op \<le> gas_of s"
  proof -
    have s0: "frame_ok E D s0" "gas_of s0 = gas_of s - constantGas op" "fr_Stack s0 = fr_Stack s"
      using fr gas op(2) by (auto simp: s0_def frame_ok_def gas_of_def in_u64_def mem_len_def mem_last_def)
    show ?thesis unfolding wp_bindM
    proof (rule wp_mono [OF charge_dynamic_ok [OF assms(1,2) s0(1) _ op(4,5)]])
      fix u s1
      assume ch: "charged_state E D s0 lo credit (memorySize op) s1"
      have "wp (execute op C E)
         (\<lambda>_ s2. \<not> (constantGas op + lo = 0) \<and> int (length (fr_Stack s2)) \<le> e_params E StackLimit \<and> mem_len s2 = mem_len s1 \<and>
            mem_last s2 = mem_last s1 \<and> evm_inv D (fr_evm s2) \<and> 0 \<le> gas_of s2 \<and> gas_of s2 < 2 ^ 64 \<and>
            gas_of s2 \<le> gas_of s1 + credit (fr_Stack s1) (ev_callGasTemp (fr_evm s1)))
         (\<lambda>s2. evm_inv D (fr_evm s2) \<and> 0 \<le> gas_of s2 \<and> gas_of s2 < 2 ^ 64 \<and>
            gas_of s2 \<le> gas_of s1 + credit (fr_Stack s1) (ev_callGasTemp (fr_evm s1))) s1"
        by (rule op(6) [unfolded exec_ok_def, rule_format]) (use ch len s0(3) in \<open>auto simp: charged_state_def\<close>)
      then show "wp (execute op C E) (\<lambda>x. wp (modM (\<lambda>s. s\<lparr>fr_pc := u64 (fr_pc s + 1)\<rparr>)) (\<lambda>u. wp (retM x)
          (\<lambda>_ s1. frame_ok E D s1 \<and> gas_of s1 < gas_of s) (gas_fail D s)) (gas_fail D s)) (gas_fail D s) s1"
      proof (rule wp_mono, goal_cases)
        case (1 x s2)
        have "0 < constantGas op + lo" using 1 op(2,3) by (auto simp: in_u64_def)
        then show ?case using 1 ch s0(2,3)
          by (auto simp: wp frame_ok_def charged_state_def gas_of_def mem_len_def mem_last_def in_u64_def)
      next
        case (2 s2)
        then show ?case using ch s0(2,3) op(2,3) by (auto simp: gas_fail_def charged_state_def in_u64_def)
      qed
    next
      fix s1
      assume "gas_fail D s0 s1"
      then show "gas_fail D s s1" using s0(2) op(2) by (auto simp: gas_fail_def in_u64_def)
    qed (use len s0(3) in simp)
  qed
  show ?thesis
    unfolding run_operation_def using fail main op(1) unfolding s0_def gas_of_def
    by (auto simp: wp_getM wp_bindM [where m = "getM f" for f] wp_bindM [where m = "use_gas g" for g] wp_use_gas wp_errM)
qed

section \<open>The loop, and a run\<close>

lemma run_step_ok:
  assumes "env_ok E" and "table_ok E jt" and "callee_ok D C" and "frame_ok E D s"
  shows "wp (run_step C E jt) (\<lambda>_ s1. frame_ok E D s1 \<and> gas_of s1 < gas_of s) (gas_fail D s) s"
proof -
  obtain op where op: "jt (GetOp (fr_Contract s) (fr_pc s)) = Some op" "entry_ok E op"
    using assms(2) unfolding table_ok_def by blast
  have "op_ok C E D op" using op(2) assms(3) by (simp add: entry_ok_def)
  from run_operation_ok [OF env_okD [OF assms(1)] assms(4) this] op(1) show ?thesis
    by (simp add: run_step_def wp_bindM [where m = "getM f" for f] wp_getM)
qed

lemma run_loop_ok:
  assumes "env_ok E" and "table_ok E jt" and "callee_ok D C" and "frame_ok E D s" and "nat (gas_of s) < n"
  shows "case run_loop C E jt n s of Inl p \<Rightarrow> benign p | Inr (r, s1) \<Rightarrow> gas_fail D s s1"
  using assms(4,5)
proof (induction n arbitrary: s)
  case 0
  then show ?case by simp
next
  case (Suc n)
  note step = run_step_ok [OF assms(1-3) Suc(2), unfolded wp_def]
  show ?case
  proof (cases "run_step C E jt s")
    case (Inl p)
    with step show ?thesis by simp
  next
    case (Inr r)
    obtain x s1 where r: "r = (x, s1)" by (cases r)
    show ?thesis
    proof (cases x)
      case (Inl e)
      with step Inr r show ?thesis by (cases e) simp
    next
      case v: (Inr v)
      with step Inr r have s1: "frame_ok E D s1" "gas_of s1 < gas_of s" by simp_all
      then have "0 \<le> gas_of s1" by (simp add: frame_ok_def in_u64_def)
      with s1(2) Suc(3) have "nat (gas_of s1) < n" by linarith
      from Suc(1) [OF s1(1) this] have "case run_loop C E jt n s1 of Inl p \<Rightarrow> benign p | Inr (r, s2) \<Rightarrow> gas_fail D s s2"
        using s1(2) by (auto simp: gas_fail_def split: sum.splits)
      with Inr r v show ?thesis by simp
    qed
  qed
qed

definition run_ok :: "int \<Rightarrow> int \<Rightarrow> evm_stop + (bytes \<times> evm_error option) \<times> Contract \<times> 'k evm \<Rightarrow> bool" where
  "run_ok D gas r \<longleftrightarrow> (case r of
      Inl p \<Rightarrow> benign p
    | Inr (res, contract, evm) \<Rightarrow> 0 \<le> ct_Gas contract \<and> ct_Gas contract \<le> gas \<and> evm_inv D evm)"

definition runner_ok :: "int \<Rightarrow> 'k runner \<Rightarrow> bool" where
  "runner_ok D run \<longleftrightarrow> (\<forall>contract input readOnly evm. evm_inv D evm \<longrightarrow> in_u64 (ct_Gas contract) \<longrightarrow>
     run_ok D (ct_Gas contract) (run contract input readOnly evm))"

lemma evm_inv_upd [simp]:
  "evm_inv D (evm\<lparr>ev_readOnly := b\<rparr>) = evm_inv D evm" "evm_inv D (evm\<lparr>ev_returnData := r\<rparr>) = evm_inv D evm"
  "evm_inv D (evm\<lparr>ev_jumpdests := maps\<rparr>) = evm_inv D evm" "evm_inv D (set_db db evm) = evm_inv D evm"
  "evm_inv D (evm\<lparr>ev_depth := d\<rparr>) \<longleftrightarrow> d = D \<and> in_u64 (ev_callGasTemp evm)"
  by (simp_all add: evm_inv_def set_db_def)

lemma Run_ok:
  assumes "env_ok E" and "table_ok E jt" and "callee_ok (D + 1) C"
  shows "runner_ok D (Run C E jt)"
  unfolding runner_ok_def
proof (intro allI impI)
  fix contract :: Contract and input readOnly and evm :: "'a evm"
  assume evm: "evm_inv D evm" and gas: "in_u64 (ct_Gas contract)"
  let ?s = "\<lparr>fr_pc = 0, fr_evm = evm\<lparr>ev_depth := ev_depth evm + 1, ev_readOnly := ev_readOnly evm \<or> readOnly, ev_returnData := []\<rparr>,
    fr_Memory = NewMemory, fr_Stack = [], fr_Contract = contract\<lparr>ct_Input := input\<rparr>\<rparr>"
  have lim: "0 < e_params E StackLimit" using const_range [OF assms(1)] by simp
  have "frame_ok E (D + 1) ?s"
    using evm gas lim by (simp add: frame_ok_def gas_of_def mem_len_def mem_last_def NewMemory_def mem_paid_def mem_fee_def
      max_mem_def evm_inv_def)
  from run_loop_ok [OF assms this, of "Suc (nat (ct_Gas contract))"]
  have "case run_loop C E jt (Suc (nat (ct_Gas contract))) ?s of Inl p \<Rightarrow> benign p | Inr (r, s1) \<Rightarrow> gas_fail (D + 1) ?s s1"
    by (simp add: gas_of_def)
  moreover have "ct_Code contract = [] \<Longrightarrow> run_ok D (ct_Gas contract) (Run C E jt contract input readOnly evm)"
    using evm gas by (simp add: Run_def run_ok_def Let_def evm_inv_def in_u64_def)
  ultimately show "run_ok D (ct_Gas contract) (Run C E jt contract input readOnly evm)"
    using evm gas unfolding Run_def Let_def run_ok_def gas_fail_def gas_of_def
    by (auto simp: evm_inv_def in_u64_def split: sum.splits prod.splits)
qed

section \<open>Calls between contracts\<close>

text \<open>
  What is relied on of the code behind the machine: the hooks keep the depth and the gas held for a call,
  and a precompile asks for a price, leaves no more gas than it was given, and keeps the depth.
\<close>

definition precompile_ok :: "'k precompile \<Rightarrow> bool" where
  "precompile_ok p \<longleftrightarrow> (\<forall>input. 0 \<le> pc_RequiredGas p input) \<and>
     (\<forall>contract readOnly evm D out contract1 evm1. evm_inv D evm \<longrightarrow> 0 \<le> ct_Gas contract \<longrightarrow>
        pc_Run p contract readOnly evm = Inr (out, contract1, evm1) \<longrightarrow>
        0 \<le> ct_Gas contract1 \<and> ct_Gas contract1 \<le> ct_Gas contract \<and> evm_inv D evm1)"

definition host_ok :: "'k evm_env \<Rightarrow> bool" where
  "host_ok E \<longleftrightarrow> (\<forall>D me addr evm err evm1. evm_inv D evm \<longrightarrow> e_CallHook E me addr evm = Inr (err, evm1) \<longrightarrow> evm_inv D evm1) \<and>
     (\<forall>D me evm. evm_inv D evm \<longrightarrow> evm_inv D (snd (e_CreateHook E me evm))) \<and>
     (\<forall>addr p. e_precompiles E addr = Some p \<longrightarrow> precompile_ok p)"

lemma with_db_inv: "with_db f evm = (x, evm1) \<Longrightarrow> evm_inv D evm1 \<longleftrightarrow> evm_inv D evm"
  by (auto simp: with_db_def split: prod.splits)

lemma result_ok_simps [simp]:
  "result_ok D gas (Inl p) = benign p"
  "result_ok D gas (Inr ((ret, left, err), evm)) \<longleftrightarrow> 0 \<le> left \<and> left \<le> gas \<and> evm_inv D evm"
  "create_ok D gas (Inl p) = benign p"
  "create_ok D gas (Inr ((ret, addr, left, err), evm)) \<longleftrightarrow> 0 \<le> left \<and> left \<le> gas \<and> evm_inv D evm"
  by (simp_all add: result_ok_def create_ok_def)

lemma result_ok_lift:
  "(\<And>x. m = Inr x \<Longrightarrow> result_ok D gas (f x)) \<Longrightarrow> result_ok D gas (rbind (lift_go m) f)"
  "(\<And>x. m = Inr x \<Longrightarrow> create_ok D gas (g x)) \<Longrightarrow> create_ok D gas (rbind (lift_go m) g)"
  by (cases m; simp)+

lemma guarded_ok:
  assumes "host_ok E" and "evm_inv D evm" and "0 \<le> gas"
    and "\<And>evm1. evm_inv D evm1 \<Longrightarrow> D \<le> e_params E CallCreateDepth \<Longrightarrow> result_ok D gas (body evm1)"
  shows "result_ok D gas (guarded E me addr gas evm body)"
proof -
  have "evm_inv D evm1 \<and> ev_depth evm1 = D" if "e_CallHook E me addr evm = Inr (h, evm1)" for h evm1
    using assms(1,2) that unfolding host_ok_def by (metis evm_inv_def)
  then show ?thesis unfolding guarded_def using assms(3,4)
    by (intro result_ok_lift) (auto split: option.splits)
qed

lemma settle_ok: "result_ok D gas r \<Longrightarrow> 0 \<le> gas \<Longrightarrow> result_ok D gas (rbind r (settle E snapshot))"
  by (cases r) (auto simp: settle_def intro!: result_ok_lift split: prod.splits)

lemma run_contract_ok:
  assumes "runner_ok D run" and "evm_inv D evm" and "in_u64 gas" and "\<And>c c1. prepare c = Inr c1 \<Longrightarrow> ct_Gas c1 = ct_Gas c"
  shows "result_ok D gas (run_contract run prepare caller object val gas input readOnly evm)"
proof -
  obtain c maps where c: "NewContract caller object val gas (ev_jumpdests evm) = (c, maps)"
    by (cases "NewContract caller object val gas (ev_jumpdests evm)")
  then have gas: "ct_Gas c = gas" by (auto simp: NewContract_def Let_def split: ContractRef.splits)
  have "result_ok D gas (rbind (run c1 input readOnly (evm\<lparr>ev_jumpdests := maps\<rparr>)) (\<lambda>((ret, err), contract, evm1).
      Inr ((ret, ct_Gas contract, err), evm1)))" if "prepare c = Inr c1" for c1
  proof -
    have "run_ok D (ct_Gas c1) (run c1 input readOnly (evm\<lparr>ev_jumpdests := maps\<rparr>))"
      by (rule assms(1) [unfolded runner_ok_def, rule_format]) (use assms(2,3) assms(4) [OF that] gas in simp_all)
    then show ?thesis using assms(4) [OF that] gas by (auto simp: run_ok_def split: sum.splits prod.splits)
  qed
  then show ?thesis unfolding run_contract_def Let_def c by (auto intro: result_ok_lift)
qed

lemma RunPrecompiledContract_ok:
  assumes "precompile_ok p" and "evm_inv D evm" and "0 \<le> gas"
  shows "result_ok D gas (RunPrecompiledContract p caller input gas val readOnly evm)"
proof (cases "gas < pc_RequiredGas p input")
  case True
  then show ?thesis using assms by (simp add: RunPrecompiledContract_def UseGas_def NewPrecompile_def)
next
  case False
  have "0 \<le> pc_RequiredGas p input" using assms(1) by (simp add: precompile_ok_def)
  moreover have run: "0 \<le> ct_Gas c1 \<and> ct_Gas c1 \<le> ct_Gas c \<and> evm_inv D evm1"
    if "pc_Run p c readOnly evm = Inr (out, c1, evm1)" and "0 \<le> ct_Gas c" for c out c1 evm1
    using assms(1,2) that unfolding precompile_ok_def by blast
  ultimately show ?thesis using False
    by (fastforce simp: RunPrecompiledContract_def UseGas_def NewPrecompile_def intro!: result_ok_lift split: prod.splits
      dest!: run)
qed

lemma SetCallCode_gas [simp]: "ct_Gas (SetCallCode addr h code c) = ct_Gas c"
  by (simp add: SetCallCode_def)

lemma AsDelegate_gas: "AsDelegate c = Inr c1 \<Longrightarrow> ct_Gas c1 = ct_Gas c"
  by (auto simp: AsDelegate_def split: if_splits ContractRef.splits)

definition call_env :: "'k evm_env \<Rightarrow> int \<Rightarrow> 'k runner \<Rightarrow> 'k evm \<Rightarrow> int \<Rightarrow> bool" where
  "call_env E D run evm gas \<longleftrightarrow> host_ok E \<and> (D \<le> e_params E CallCreateDepth \<longrightarrow> runner_ok D run) \<and> evm_inv D evm \<and> in_u64 gas"

lemma call_envD:
  assumes "call_env E D run evm gas"
  shows "host_ok E" and "D \<le> e_params E CallCreateDepth \<Longrightarrow> runner_ok D run" and "evm_inv D evm" and "in_u64 gas" and "0 \<le> gas"
    and "e_precompiles E addr = Some p \<Longrightarrow> precompile_ok p"
  using assms by (auto simp: call_env_def in_u64_def host_ok_def)

text \<open>One rule for each construct of the bodies.\<close>

lemma with_db_snd [simp]: "evm_inv D (snd (with_db f evm)) = evm_inv D evm"
  by (simp add: with_db_def split: prod.splits)

lemma pair_ok:
  "evm_inv D (snd r) \<Longrightarrow> (\<And>x evm. evm_inv D evm \<Longrightarrow> result_ok D gas (f x evm)) \<Longrightarrow> result_ok D gas (case r of (x, evm) \<Rightarrow> f x evm)"
  "evm_inv D (snd r) \<Longrightarrow> (\<And>x evm. evm_inv D evm \<Longrightarrow> create_ok D gas (g x evm)) \<Longrightarrow> create_ok D gas (case r of (x, evm) \<Rightarrow> g x evm)"
  by (cases r; simp)+

lemma if_ok:
  "(b \<Longrightarrow> result_ok D gas x) \<Longrightarrow> (\<not> b \<Longrightarrow> result_ok D gas y) \<Longrightarrow> result_ok D gas (if b then x else y)"
  "(b \<Longrightarrow> create_ok D gas x') \<Longrightarrow> (\<not> b \<Longrightarrow> create_ok D gas y') \<Longrightarrow> create_ok D gas (if b then x' else y')"
  by simp_all

lemma option_ok:
  "(\<And>p. v = Some p \<Longrightarrow> result_ok D gas (f p)) \<Longrightarrow> (v = None \<Longrightarrow> result_ok D gas y)
    \<Longrightarrow> result_ok D gas (case v of None \<Rightarrow> y | Some p \<Rightarrow> f p)"
  by (cases v) simp_all

lemmas body_ok = guarded_ok settle_ok result_ok_lift if_ok option_ok pair_ok RunPrecompiledContract_ok run_contract_ok

lemma calls_ok:
  assumes "call_env E D run evm gas"
  shows "result_ok D gas (evm_Call run E caller addr input gas val evm)"
    and "result_ok D gas (evm_CallCode run E caller addr input gas val evm)"
    and "result_ok D gas (evm_DelegateCall run E caller addr input gas evm)"
    and "result_ok D gas (evm_StaticCall run E caller addr input gas evm)"
  unfolding evm_Call_def evm_CallCode_def evm_DelegateCall_def evm_StaticCall_def Let_def
  using assms
  by - (intro body_ok; auto dest: call_envD AsDelegate_gas)+

lemma deploy_ok:
  assumes "deploy E addr ret err c evm = (err1, c1, evm1)"
  shows "ct_Gas c1 \<le> ct_Gas c" and "0 \<le> ct_Gas c \<Longrightarrow> 0 \<le> ct_Gas c1" and "evm_inv D evm1 = evm_inv D evm"
  using assms by (auto simp: deploy_def UseGas_def Let_def u64_def split: if_splits)

lemma NewContract_gas: "NewContract caller object val gas maps = (c, maps1) \<Longrightarrow> ct_Gas c = gas"
  by (auto simp: NewContract_def Let_def split: ContractRef.splits)

lemma SetCodeOptionalHash_gas [simp]: "ct_Gas (SetCodeOptionalHash addr ch c) = ct_Gas c"
  by (simp add: SetCodeOptionalHash_def)

lemma new_contract_ok:
  "(\<And>c maps1. NewContract caller object val g maps = (c, maps1) \<Longrightarrow> create_ok D gas (f c maps1))
    \<Longrightarrow> create_ok D gas (case NewContract caller object val g maps of (c, maps1) \<Rightarrow> f c maps1)"
  by (cases "NewContract caller object val g maps") simp

text \<open>What follows the run of the constructor.\<close>

lemma created_ok:
  assumes "run_ok D gas r" and "0 \<le> gas"
  shows "create_ok D gas (rbind r (\<lambda>((ret, err), contract, evm).
    let (err, contract, evm) = deploy E address ret err contract evm
    in if err \<noteq> None \<and> (IsHomestead (e_rules E) \<or> err \<noteq> Some ErrCodeStoreOutOfGas) then
         rbind (lift_go (RevertToSnapshot K snapshot (ev_StateDB evm))) (\<lambda>db.
           let contract = (if err \<noteq> Some ErrExecutionReverted then snd (UseGas contract (ct_Gas contract)) else contract)
           in Inr ((ret, address, ct_Gas contract, err), set_db db evm))
       else Inr ((ret, address, ct_Gas contract, err), evm)))"
proof (cases r)
  case (Inl p)
  then show ?thesis using assms(1) by (simp add: run_ok_def)
next
  case (Inr v)
  obtain ret err c evm where v: "v = ((ret, err), c, evm)" by (metis prod.exhaust)
  obtain err1 c1 evm1 where d: "deploy E address ret err c evm = (err1, c1, evm1)" by (metis prod.exhaust)
  from assms(1) Inr v have "0 \<le> ct_Gas c" "ct_Gas c \<le> gas" "evm_inv D evm" by (simp_all add: run_ok_def)
  with deploy_ok [OF d] show ?thesis using Inr v d assms(2)
    by (auto simp: UseGas_def intro!: if_ok result_ok_lift)
qed

lemma evm_create_ok:
  assumes "call_env E D run evm gas"
  shows "create_ok D gas (evm_create run E caller ch gas val address evm)"
proof -
  have run: "run_ok D gas (run (SetCodeOptionalHash a ch c) input ro (evm1\<lparr>ev_jumpdests := maps\<rparr>))"
    if "evm_inv D evm1" and "D \<le> e_params E CallCreateDepth" and "NewContract caller obj val gas m = (c, maps)"
    for a c input ro evm1 maps obj val m
  proof -
    have g: "ct_Gas (SetCodeOptionalHash a ch c) = gas" using NewContract_gas [OF that(3)] by simp
    show ?thesis
      using call_envD(2) [OF assms that(2), unfolded runner_ok_def, rule_format, of "evm1\<lparr>ev_jumpdests := maps\<rparr>" "SetCodeOptionalHash a ch c"]
        that(1) call_envD(4) [OF assms] g by simp
  qed
  have "D \<le> e_params E CallCreateDepth" if "\<not> ev_depth evm > e_params E CallCreateDepth"
    using that call_envD(3) [OF assms] by (simp add: evm_inv_def)
  then show ?thesis
    unfolding evm_create_def Let_def
    using call_envD(3-5) [OF assms]
    by (intro if_ok pair_ok new_contract_ok result_ok_lift created_ok [unfolded Let_def] run) (auto split: if_splits)
qed

lemma creations_ok:
  assumes "call_env E D run evm gas"
  shows "create_ok D gas (evm_Create run E caller code gas val evm)"
    and "create_ok D gas (evm_Create2 run E caller code gas val salt evm)"
proof -
  obtain h evm1 where h: "e_CreateHook E (Address caller) evm = (h, evm1)" by (cases "e_CreateHook E (Address caller) evm")
  have inv: "evm_inv D evm1"
    using call_envD(1,3) [OF assms] h unfolding host_ok_def by (metis snd_conv)
  have env: "call_env E D run evm2 gas" if "evm_inv D evm2" for evm2
    using assms that by (simp add: call_env_def)
  have gas: "0 \<le> gas" by (rule call_envD(5) [OF assms])
  show "create_ok D gas (evm_Create run E caller code gas val evm)"
    unfolding evm_Create_def h using inv gas
    by (auto split: option.splits prod.splits dest!: with_db_inv intro!: evm_create_ok env)
  show "create_ok D gas (evm_Create2 run E caller code gas val salt evm)"
    unfolding evm_Create2_def h using inv gas
    by (auto simp: Let_def split: option.splits intro!: evm_create_ok env)
qed

section \<open>The machine\<close>

lemma callee_of_ok:
  assumes "host_ok E" and "D \<le> e_params E CallCreateDepth \<Longrightarrow> runner_ok D run"
  shows "callee_ok D (callee_of E run)"
proof -
  have "call_env E D run evm gas" if "evm_inv D evm" and "in_u64 gas" for evm gas
    using assms that by (simp add: call_env_def)
  from calls_ok [OF this] creations_ok [OF this] show ?thesis
    by (simp add: callee_ok_def callee_of_def)
qed

lemma evm_run_ok:
  assumes "env_ok E" and "host_ok E" and "table_ok E jt" and "e_params E CallCreateDepth \<le> D + int n"
  shows "runner_ok D (evm_run E jt (Suc n))"
  using assms(4)
proof (induction n arbitrary: D)
  case 0
  then have "callee_ok (D + 1) (callee_of E (evm_run E jt 0))" by (intro callee_of_ok assms(2)) simp
  then show ?case using Run_ok [OF assms(1,3)] by simp
next
  case (Suc n)
  have "runner_ok (D + 1) (evm_run E jt (Suc n))" by (rule Suc(1)) (use Suc(2) in simp)
  then have "callee_ok (D + 1) (callee_of E (evm_run E jt (Suc n)))" by (intro callee_of_ok assms(2))
  then show ?case using Run_ok [OF assms(1,3)] by (simp only: evm_run.simps)
qed

lemma machine_ok:
  assumes "env_ok E" and "host_ok E" and "table_ok E jt" and "0 \<le> D"
  shows "runner_ok D (evm_interpreter E jt)" and "callee_ok D (NewEVM_calls E jt)"
proof -
  have n: "nat (e_params E CallCreateDepth) + 2 = Suc (nat (e_params E CallCreateDepth) + 1)" by simp
  show run: "runner_ok D (evm_interpreter E jt)"
    unfolding evm_interpreter_def n by (rule evm_run_ok [OF assms(1-3)]) (use assms(4) in simp)
  show "callee_ok D (NewEVM_calls E jt)"
    unfolding NewEVM_calls_def by (intro callee_of_ok [OF assms(2)] run)
qed

end
