(* ===== verification/EvmTheorems.thy ===== *)
theory EvmTheorems
  imports EvmRunSafety
begin

text \<open>
  What the machine promises, for the tables that \<open>NewEVMInterpreter\<close> builds, and an instance of what it
  relies on: the constants of go-ethereum v1.10.26, the arithmetic of words, no hooks, no precompiles.
\<close>

section \<open>An instance of the parameters\<close>

primrec mainnet_params :: "param \<Rightarrow> int" where
    "mainnet_params MemoryGas = 3"
  | "mainnet_params QuadCoeffDiv = 512"
  | "mainnet_params CopyGas = 3"
  | "mainnet_params SstoreSetGas = 20000"
  | "mainnet_params SstoreRefundGas = 15000"
  | "mainnet_params SstoreClearGas = 5000"
  | "mainnet_params SstoreResetGas = 5000"
  | "mainnet_params NetSstoreNoopGas = 200"
  | "mainnet_params NetSstoreInitGas = 20000"
  | "mainnet_params NetSstoreClearRefund = 15000"
  | "mainnet_params NetSstoreCleanGas = 5000"
  | "mainnet_params NetSstoreResetClearRefund = 19800"
  | "mainnet_params NetSstoreResetRefund = 4800"
  | "mainnet_params NetSstoreDirtyGas = 200"
  | "mainnet_params SstoreSentryGasEIP2200 = 2300"
  | "mainnet_params SloadGasEIP2200 = 800"
  | "mainnet_params SstoreSetGasEIP2200 = 20000"
  | "mainnet_params SstoreClearsScheduleRefundEIP2200 = 15000"
  | "mainnet_params SstoreResetGasEIP2200 = 5000"
  | "mainnet_params LogGas = 375"
  | "mainnet_params LogTopicGas = 375"
  | "mainnet_params LogDataGas = 8"
  | "mainnet_params Keccak256Gas = 30"
  | "mainnet_params Keccak256WordGas = 6"
  | "mainnet_params ExpByteFrontier = 10"
  | "mainnet_params ExpGas = 10"
  | "mainnet_params ExpByteEIP158 = 50"
  | "mainnet_params CallNewAccountGas = 25000"
  | "mainnet_params CallValueTransferGas = 9000"
  | "mainnet_params CallStipend = 2300"
  | "mainnet_params SelfdestructGasEIP150 = 5000"
  | "mainnet_params CreateBySelfdestructGas = 25000"
  | "mainnet_params SelfdestructRefundGas = 24000"
  | "mainnet_params ColdSloadCostEIP2929 = 2100"
  | "mainnet_params WarmStorageReadCostEIP2929 = 100"
  | "mainnet_params ColdAccountAccessCostEIP2929 = 2600"
  | "mainnet_params SstoreClearsScheduleRefundEIP3529 = 4800"
  | "mainnet_params CreateDataGas = 200"
  | "mainnet_params MaxCodeSize = 24576"
  | "mainnet_params CallCreateDepth = 1024"
  | "mainnet_params StackLimit = 1024"
  | "mainnet_params BalanceGasFrontier = 20"
  | "mainnet_params ExtcodeSizeGasFrontier = 20"
  | "mainnet_params ExtcodeCopyBaseFrontier = 20"
  | "mainnet_params SloadGasFrontier = 50"
  | "mainnet_params JumpdestGas = 1"
  | "mainnet_params CreateGas = 32000"
  | "mainnet_params Create2Gas = 32000"
  | "mainnet_params CallGasFrontier = 40"
  | "mainnet_params CallGasEIP150 = 700"
  | "mainnet_params BalanceGasEIP150 = 400"
  | "mainnet_params ExtcodeSizeGasEIP150 = 700"
  | "mainnet_params SloadGasEIP150 = 200"
  | "mainnet_params ExtcodeCopyBaseEIP150 = 700"
  | "mainnet_params ExtcodeHashGasConstantinople = 400"
  | "mainnet_params SloadGasEIP1884 = 800"
  | "mainnet_params BalanceGasEIP1884 = 700"
  | "mainnet_params ExtcodeHashGasEIP1884 = 700"

definition word_bin :: "u256_binop \<Rightarrow> uint256 \<Rightarrow> uint256 \<Rightarrow> uint256" where
  "word_bin bop x y = (case bop of
      uAdd \<Rightarrow> x + y | uSub \<Rightarrow> x - y | uMul \<Rightarrow> x * y
    | uDiv \<Rightarrow> (if y = 0 then 0 else x div y) | uMod \<Rightarrow> (if y = 0 then 0 else x mod y)
    | uSDiv \<Rightarrow> word_of_int (sgn (sint x) * sgn (sint y) * (\<bar>sint x\<bar> div \<bar>sint y\<bar>))
    | uSMod \<Rightarrow> (if y = 0 then 0 else word_of_int (sgn (sint x) * (\<bar>sint x\<bar> mod \<bar>sint y\<bar>)))
    | uExp \<Rightarrow> x ^ unat y
    | uExtendSign \<Rightarrow> (if uint y < 31 then
          (let n = nat (8 * uint y + 7)
           in if bit x n then or x (not (mask (n + 1))) else and x (mask (n + 1))) else x)
    | uAnd \<Rightarrow> and x y | uOr \<Rightarrow> or x y | uXor \<Rightarrow> xor x y
    | uByte \<Rightarrow> (if uint y < 32 then and (drop_bit (8 * (31 - unat y)) x) 255 else 0))"

definition word_rel :: "u256_relop \<Rightarrow> uint256 \<Rightarrow> uint256 \<Rightarrow> bool" where
  "word_rel rop x y = (case rop of
      uLt \<Rightarrow> x < y | uGt \<Rightarrow> y < x | uSlt \<Rightarrow> sint x < sint y | uSgt \<Rightarrow> sint y < sint x | uEq \<Rightarrow> x = y)"

definition word_lib :: glib where
  "word_lib = \<lparr>u256_bin = word_bin, u256_rel = word_rel, u256_Not = not,
     u256_AddMod = (\<lambda>x y m. if m = 0 then 0 else word_of_int ((uint x + uint y) mod uint m)),
     u256_MulMod = (\<lambda>x y m. if m = 0 then 0 else word_of_int ((uint x * uint y) mod uint m)),
     u256_Lsh = (\<lambda>x n. push_bit (nat n) x), u256_Rsh = (\<lambda>x n. drop_bit (nat n) x),
     u256_SRsh = (\<lambda>x n. word_of_int (sint x div 2 ^ nat n)),
     u256_BitLen = (\<lambda>x. int (length (takeWhile id (map (\<lambda>n. drop_bit n x \<noteq> 0) [0..<256])))),
     SafeAdd = (\<lambda>x y. (u64 (x + y), \<not> in_u64 (x + y))), SafeMul = (\<lambda>x y. (u64 (x * y), \<not> in_u64 (x * y))),
     RightPadBytes = (\<lambda>bs n. bs @ replicate (nat n - length bs) 0),
     CreateAddress = (\<lambda>a n. a + word_of_int n + 1), CreateAddress2 = (\<lambda>a salt h. ucast (salt + h))\<rparr>"

definition london_rules :: rules where
  "london_rules = \<lparr>IsHomestead = True, IsEIP150 = True, IsEIP158 = True, IsByzantium = True, IsConstantinople = True,
     IsPetersburg = True, IsIstanbul = True, IsBerlin = True, IsLondon = True, IsMerge = False\<rparr>"

definition empty_keeper :: "unit keeper" where
  "empty_keeper = \<lparr>k_GetAccount = (\<lambda>_ _. None), k_GetState = (\<lambda>_ _ _. 0), k_GetCode = (\<lambda>_ _. None),
     k_StorageList = (\<lambda>_ _. []), k_SetAccount = (\<lambda>s _ _. Inr s), k_SetState = (\<lambda>s _ _ _. s), k_SetCode = (\<lambda>s _ _. s),
     k_DeleteAccount = (\<lambda>s _. Inr s), keccak = (\<lambda>bs. word_of_int (int (length bs)) + 1)\<rparr>"

definition london_env :: "unit evm_env" where
  "london_env = \<lparr>e_keeper = empty_keeper, e_params = mainnet_params, e_lib = word_lib, e_rules = london_rules,
     e_ChainID = Some 9000, e_CanTransfer = (\<lambda>_ _ db. (True, db)), e_Transfer = (\<lambda>_ _ _ db. Inr db), e_GetHash = (\<lambda>_. 0),
     e_Coinbase = 0, e_GasLimit = 30000000, e_BlockNumber = 1, e_Time = 1, e_Difficulty = 0, e_BaseFee = Some 1,
     e_Random = None, e_Origin = 1, e_GasPrice = 1, e_CallHook = (\<lambda>_ _ evm. Inr (None, evm)),
     e_CreateHook = (\<lambda>_ evm. (None, evm)), e_precompiles = (\<lambda>_. None)\<rparr>"

lemma mainnet_params_ok: "params_ok mainnet_params"
proof -
  have "0 < mainnet_params p \<and> mainnet_params p < 2 ^ 32" for p by (cases p) simp_all
  then show ?thesis by (simp add: params_ok_def)
qed

lemma word_lib_ok: "lib_ok word_lib"
proof -
  have "length (takeWhile id (map (\<lambda>n. drop_bit n x \<noteq> 0) [0..<256])) \<le> 256" for x :: uint256
    by (rule order_trans [OF length_takeWhile_le]) simp
  then show ?thesis by (simp add: lib_ok_def word_lib_def)
qed

lemma london_env_ok:
  "env_ok london_env" "host_ok london_env" "rules_ordered (e_rules london_env)"
  "after_constantinople (e_rules london_env)" "IsEIP150 (e_rules london_env)"
  using mainnet_params_ok word_lib_ok
  by (simp_all add: env_ok_def host_ok_def london_env_def rules_ordered_def after_constantinople_def london_rules_def)

definition london_evm :: "unit evm" where
  "london_evm = \<lparr>ev_StateDB = NewStateDB () \<lparr>tx_BlockHash = 0, tx_TxHash = 0, tx_TxIndex = 0, tx_LogIndex = 0\<rparr>,
     ev_depth = 0, ev_callGasTemp = 0, ev_abort = False, ev_readOnly = False, ev_returnData = [], ev_jumpdests = []\<rparr>"

lemma london_evm_inv: "evm_inv 0 london_evm"
  by (simp add: london_evm_def evm_inv_def in_u64_def)

section \<open>The table of the interpreter\<close>

text \<open>
  The tables that \<open>NewEVMInterpreter\<close> builds under rules in the order of the forks: without extra EIPs the
  table of any fork; with extra EIPs, all of them known, the table of a fork from Constantinople on.
\<close>

definition interpreter_table :: "'k evm_env \<Rightarrow> string list \<Rightarrow> 'k JumpTable \<Rightarrow> bool" where
  "interpreter_table E eips jt \<longleftrightarrow> rules_ordered (e_rules E) \<and>
     (\<exists>rest. NewEVMInterpreter_table (e_params E) (activators (e_params E)) (e_rules E) None eips = Inr (rest, jt)) \<and>
     (eips = [] \<or> after_constantinople (e_rules E) \<and> IsEIP150 (e_rules E) \<and> archive_eip \<notin> set eips \<and>
        (\<forall>eip \<in> set eips. ExistsEipActivator (activators (e_params E) :: 'k activator_map) eip))"

lemma interpreter_table_is_ok:
  assumes "env_ok E" and "interpreter_table E eips jt"
  shows "table_ok E jt"
proof (cases "eips = []")
  case True
  from DefaultJumpTable_ok [OF assms(1)] assms(2) obtain jt0 :: "'a JumpTable"
    where "DefaultJumpTable (e_params E) (e_rules E) = Inr jt0" "table_ok E jt0"
    by (auto simp: interpreter_table_def yields_def)
  then show ?thesis using assms(2) True
    by (auto simp: interpreter_table_def NewEVMInterpreter_table_def enable_eips.simps)
next
  case False
  then show ?thesis using interpreter_table_ok [OF assms(1), of eips] assms(2) by (auto simp: interpreter_table_def)
qed

lemma interpreter_table_exists:
  fixes E :: "'k evm_env"
  assumes "env_ok E" and "rules_ordered (e_rules E)" and "after_constantinople (e_rules E)" and "IsEIP150 (e_rules E)"
    and "\<forall>eip \<in> set eips. ExistsEipActivator (activators (e_params E) :: 'k activator_map) eip" and "archive_eip \<notin> set eips"
  shows "\<exists>jt. interpreter_table E eips jt"
  using interpreter_table_ok [OF assms] assms unfolding interpreter_table_def by blast

lemma london_table: "\<exists>jt. interpreter_table london_env [''ethereum_3855''] jt"
  by (rule interpreter_table_exists [OF london_env_ok(1,3-5)])
    (simp_all add: ExistsEipActivator_def activators_def archive_eip_def)

lemma calls_of_machine:
  assumes "env_ok E" and "host_ok E" and "interpreter_table E eips jt" and "0 \<le> ev_depth evm"
    and "in_u64 (ev_callGasTemp evm)" and "in_u64 gas"
  shows "result_ok (ev_depth evm) gas (c_Call (NewEVM_calls E jt) me addr input gas val evm)"
    and "result_ok (ev_depth evm) gas (c_CallCode (NewEVM_calls E jt) me addr input gas val evm)"
    and "result_ok (ev_depth evm) gas (c_DelegateCall (NewEVM_calls E jt) me addr input gas evm)"
    and "result_ok (ev_depth evm) gas (c_StaticCall (NewEVM_calls E jt) me addr input gas evm)"
    and "create_ok (ev_depth evm) gas (c_Create (NewEVM_calls E jt) me input gas val evm)"
    and "create_ok (ev_depth evm) gas (c_Create2 (NewEVM_calls E jt) me input gas val salt evm)"
proof -
  have inv: "evm_inv (ev_depth evm) evm" using assms(5) by (simp add: evm_inv_def)
  note ok = machine_ok(2) [OF assms(1,2) interpreter_table_is_ok [OF assms(1,3)] assms(4)]
  show "result_ok (ev_depth evm) gas (c_Call (NewEVM_calls E jt) me addr input gas val evm)"
    "result_ok (ev_depth evm) gas (c_CallCode (NewEVM_calls E jt) me addr input gas val evm)"
    "result_ok (ev_depth evm) gas (c_DelegateCall (NewEVM_calls E jt) me addr input gas evm)"
    "result_ok (ev_depth evm) gas (c_StaticCall (NewEVM_calls E jt) me addr input gas evm)"
    "create_ok (ev_depth evm) gas (c_Create (NewEVM_calls E jt) me input gas val evm)"
    "create_ok (ev_depth evm) gas (c_Create2 (NewEVM_calls E jt) me input gas val salt evm)"
    by (rule callee_calls [OF ok inv assms(6)] callee_create [OF ok inv assms(6)])+
qed

section \<open>Properties\<close>

definition fuelled :: "evm_stop + 'a \<Rightarrow> bool" where
  "fuelled r \<longleftrightarrow> r \<noteq> Inl NoFuel"

definition in_bounds :: "evm_stop + 'a \<Rightarrow> bool" where
  "in_bounds r \<longleftrightarrow> r \<noteq> Inl StackPanic \<and> r \<noteq> Inl MemoryPanic"

lemma result_ok_fuelled: "result_ok D gas r \<Longrightarrow> fuelled r \<and> in_bounds r" "create_ok D gas r' \<Longrightarrow> fuelled r' \<and> in_bounds r'"
  by (auto simp: result_ok_def create_ok_def fuelled_def in_bounds_def)

text \<open>What a call that returns says about the gas and the depth.\<close>

definition call_keeps :: "int \<Rightarrow> 'k evm \<Rightarrow> evm_stop + (bytes \<times> int \<times> evm_error option) \<times> 'k evm \<Rightarrow> bool" where
  "call_keeps gas evm r \<longleftrightarrow> (case r of
      Inl _ \<Rightarrow> True | Inr ((ret, left, err), evm1) \<Rightarrow> 0 \<le> left \<and> left \<le> gas \<and> ev_depth evm1 = ev_depth evm)"

definition create_keeps :: "int \<Rightarrow> 'k evm \<Rightarrow> evm_stop + (bytes \<times> address \<times> int \<times> evm_error option) \<times> 'k evm \<Rightarrow> bool" where
  "create_keeps gas evm r \<longleftrightarrow> (case r of
      Inl _ \<Rightarrow> True | Inr ((ret, addr, left, err), evm1) \<Rightarrow> 0 \<le> left \<and> left \<le> gas \<and> ev_depth evm1 = ev_depth evm)"

lemma result_ok_keeps:
  "result_ok (ev_depth evm) gas r \<Longrightarrow> call_keeps gas evm r" "create_ok (ev_depth evm) gas r' \<Longrightarrow> create_keeps gas evm r'"
  by (auto simp: result_ok_def create_ok_def call_keeps_def create_keeps_def evm_inv_def split: sum.splits)

text \<open>
  C3: Every call and every creation ends, whatever code is run: the loop that turns at most once more than it
  has gas, and calls nested to the depth limit, never use up that bound. So EVM.Call, CallCode,
  DelegateCall, StaticCall, Create and Create2 return (or panic in the code behind the machine).
\<close>

theorem machine_terminates:
  assumes "env_ok E" and "host_ok E" and "interpreter_table E eips jt" and "0 \<le> ev_depth evm"
    and "in_u64 (ev_callGasTemp evm)" and "in_u64 gas"
  shows "fuelled (c_Call (NewEVM_calls E jt) me addr input gas val evm) \<and>
    fuelled (c_CallCode (NewEVM_calls E jt) me addr input gas val evm) \<and>
    fuelled (c_DelegateCall (NewEVM_calls E jt) me addr input gas evm) \<and>
    fuelled (c_StaticCall (NewEVM_calls E jt) me addr input gas evm) \<and>
    fuelled (c_Create (NewEVM_calls E jt) me input gas val evm) \<and>
    fuelled (c_Create2 (NewEVM_calls E jt) me input gas val salt evm)"
  by (intro conjI) (rule result_ok_fuelled [THEN conjunct1], rule calls_of_machine [OF assms])+

theorem machine_terminates_witness:
  "\<exists>jt. interpreter_table london_env [''ethereum_3855''] jt \<and>
    fuelled (c_Call (NewEVM_calls london_env jt) (AccountRef 1) 2 [] 100000 0 london_evm)"
proof -
  obtain jt where jt: "interpreter_table london_env [''ethereum_3855''] jt" using london_table by blast
  from machine_terminates [OF london_env_ok(1,2) jt, of london_evm 100000] jt show ?thesis
    by (auto simp: london_evm_def in_u64_def)
qed

text \<open>
  C4: No instruction ever runs out of the stack or of the memory: whatever code is run with whatever input,
  the checks of the interpreter (minStack, maxStack, the memory size and its price) come before every
  access, so that neither a stack access out of range nor a slice of the memory out of range panics.
\<close>

theorem no_stack_or_memory_panic:
  assumes "env_ok E" and "host_ok E" and "interpreter_table E eips jt" and "0 \<le> ev_depth evm"
    and "in_u64 (ev_callGasTemp evm)" and "in_u64 gas"
  shows "in_bounds (c_Call (NewEVM_calls E jt) me addr input gas val evm) \<and>
    in_bounds (c_CallCode (NewEVM_calls E jt) me addr input gas val evm) \<and>
    in_bounds (c_DelegateCall (NewEVM_calls E jt) me addr input gas evm) \<and>
    in_bounds (c_StaticCall (NewEVM_calls E jt) me addr input gas evm) \<and>
    in_bounds (c_Create (NewEVM_calls E jt) me input gas val evm) \<and>
    in_bounds (c_Create2 (NewEVM_calls E jt) me input gas val salt evm)"
  by (intro conjI) (rule result_ok_fuelled [THEN conjunct2], rule calls_of_machine [OF assms])+

theorem no_stack_or_memory_panic_witness:
  "\<exists>jt. interpreter_table london_env [''ethereum_3855''] jt \<and>
    in_bounds (c_Create (NewEVM_calls london_env jt) (AccountRef 1) [0x60, 0x00, 0x51] 100000 0 london_evm)"
proof -
  obtain jt where jt: "interpreter_table london_env [''ethereum_3855''] jt" using london_table by blast
  from no_stack_or_memory_panic [OF london_env_ok(1,2) jt, of london_evm 100000] jt show ?thesis
    by (auto simp: london_evm_def in_u64_def)
qed

text \<open>
  C5: No call makes gas: what is left after a call or a creation, successful or not, is never negative and
  never more than what was supplied, the stipend and the gas refunded by the calls it made included; and
  the depth is what it was.
\<close>

theorem gas_left_at_most_supplied:
  assumes "env_ok E" and "host_ok E" and "interpreter_table E eips jt" and "0 \<le> ev_depth evm"
    and "in_u64 (ev_callGasTemp evm)" and "in_u64 gas"
  shows "call_keeps gas evm (c_Call (NewEVM_calls E jt) me addr input gas val evm) \<and>
    call_keeps gas evm (c_CallCode (NewEVM_calls E jt) me addr input gas val evm) \<and>
    call_keeps gas evm (c_DelegateCall (NewEVM_calls E jt) me addr input gas evm) \<and>
    call_keeps gas evm (c_StaticCall (NewEVM_calls E jt) me addr input gas evm) \<and>
    create_keeps gas evm (c_Create (NewEVM_calls E jt) me input gas val evm) \<and>
    create_keeps gas evm (c_Create2 (NewEVM_calls E jt) me input gas val salt evm)"
  by (intro conjI) (rule result_ok_keeps, rule calls_of_machine [OF assms])+

theorem gas_left_at_most_supplied_witness:
  "\<exists>jt. interpreter_table london_env [''ethereum_3855''] jt \<and>
    call_keeps 100000 london_evm (c_StaticCall (NewEVM_calls london_env jt) (AccountRef 1) 2 [] 100000 london_evm)"
proof -
  obtain jt where jt: "interpreter_table london_env [''ethereum_3855''] jt" using london_table by blast
  from gas_left_at_most_supplied [OF london_env_ok(1,2) jt, of london_evm 100000] jt show ?thesis
    by (auto simp: london_evm_def in_u64_def)
qed

text \<open>
  C6: One turn of the interpreter loop that goes on keeps the frame in order (a stack within the limit, a
  memory that is a whole number of words, within the largest size and with its fee recorded, gas within
  its range, the depth of the run) and uses some gas: the variant for which the loop ends.
\<close>

theorem step_keeps_frame:
  assumes "env_ok E" and "interpreter_table E eips jt" and "callee_ok D C" and "frame_ok E D s"
    and "run_step C E jt s = Inr (Inr res, s1)"
  shows "frame_ok E D s1 \<and> ct_Gas (fr_Contract s1) < ct_Gas (fr_Contract s)"
  using run_step_ok [OF assms(1) interpreter_table_is_ok [OF assms(1,2)] assms(3,4)] assms(5)
  by (simp add: wp_def gas_of_def)

definition jumpdest_frame :: "unit frame" where
  "jumpdest_frame = \<lparr>fr_pc = 0, fr_evm = london_evm, fr_Memory = NewMemory, fr_Stack = [],
     fr_Contract = \<lparr>ct_CallerAddress = 1, ct_caller = AccountRef 1, ct_self = 2, ct_jumpdests = None, ct_analysis = None,
       ct_Code = [0x5b], ct_CodeHash = 0, ct_CodeAddr = None, ct_Input = [], ct_Gas = 10, ct_value = None,
       ct_isPrecompile = False\<rparr>\<rparr>"

definition frontier_env :: "unit evm_env" where
  "frontier_env = london_env\<lparr>e_rules := \<lparr>IsHomestead = False, IsEIP150 = False, IsEIP158 = False, IsByzantium = False,
     IsConstantinople = False, IsPetersburg = False, IsIstanbul = False, IsBerlin = False, IsLondon = False, IsMerge = False\<rparr>\<rparr>"

lemma frontier_env_ok: "env_ok frontier_env" "host_ok frontier_env"
  using london_env_ok(1,2) by (simp_all add: frontier_env_def env_ok_def host_ok_def)

lemma frontier_interpreter: "interpreter_table frontier_env [] (frontier_table mainnet_params)"
  by (simp add: interpreter_table_def rules_ordered_def NewEVMInterpreter_table_def DefaultJumpTable_def frontier_env_def
    newFrontier_eq enable_eips.simps london_env_def)

lemma frontier_jumpdest:
  "frontier_table mainnet_params 0x5b = Some (newOperation opJumpdest 1 None 0 1024 None)"
  by (simp add: frontier_table_def frontier_entries_def map_of_append map_add_def frontier_arith_def frontier_context_def
    frontier_memory_def opcode_defs minStack_def maxStack_def)

theorem step_keeps_frame_witness:
  "\<exists>C s1. run_step C frontier_env (frontier_table mainnet_params) jumpdest_frame = Inr (Inr [], s1) \<and>
    frame_ok frontier_env 0 s1 \<and> ct_Gas (fr_Contract s1) < 10"
proof -
  let ?jt = "frontier_table mainnet_params" and ?C = "NewEVM_calls frontier_env (frontier_table mainnet_params)"
  have C: "callee_ok 0 ?C"
    by (rule machine_ok(2) [OF frontier_env_ok interpreter_table_is_ok [OF frontier_env_ok(1) frontier_interpreter]]) simp
  have fr: "frame_ok frontier_env 0 jumpdest_frame"
    using london_evm_inv by (simp add: frame_ok_def jumpdest_frame_def NewMemory_def gas_of_def mem_len_def mem_last_def in_u64_def
        mem_paid_def mem_fee_def max_mem_def frontier_env_def london_env_def)
  have step: "run_step ?C frontier_env ?jt jumpdest_frame = Inr (Inr [], jumpdest_frame
      \<lparr>fr_pc := 1, fr_Contract := (fr_Contract jumpdest_frame)\<lparr>ct_Gas := 9\<rparr>\<rparr>)"
    by (simp add: run_step_def run_operation_def bindM_def getM_def jumpdest_frame_def GetOp_def use_gas_def frontier_jumpdest
      newOperation_def on_contract_def UseGas_def charge_dynamic_def opJumpdest_def doneM_def modM_def retM_def u64_def)
  from step_keeps_frame [OF frontier_env_ok(1) frontier_interpreter C fr step] step show ?thesis
    by (fastforce simp: jumpdest_frame_def)
qed

text \<open>
  C8: The gas a contract may hand to a call under EIP-150: what it asks for, but never more than all but
  one 64th of the gas that is left after the base cost; an amount that does not fit 64 bits asks for
  everything.
\<close>

theorem call_gas_all_but_one_64th:
  assumes "0 \<le> base" and "base \<le> available" and "available < 2 ^ 64"
  shows "callGas True available base cost = Inr (min (uint cost) (available - base - (available - base) div 64))"
proof -
  let ?a = "available - base"
  have a: "u64 ?a = ?a" by (rule u64_id) (use assms in auto)
  have "0 \<le> ?a - ?a div 64" "?a - ?a div 64 < 2 ^ 64"
    using div64_bounds [of ?a] assms by auto
  then have g: "u64 (?a - ?a div 64) = ?a - ?a div 64" and less: "?a - ?a div 64 < 2 ^ 64" by (simp_all add: u64_id)
  show ?thesis
  proof (cases "IsUint64 cost")
    case True
    then show ?thesis by (simp add: callGas_def Let_def a g uint64_of_u64 min_def)
  next
    case False
    then have "2 ^ 64 \<le> uint cost" by (simp add: IsUint64_def in_u64_def not_less)
    with less show ?thesis using False by (simp add: callGas_def Let_def a g min_def)
  qed
qed

theorem call_gas_all_but_one_64th_witness:
  "callGas True 6500 100 5000 = Inr 5000 \<and> callGas True 6500 100 (2 ^ 255) = Inr 6300"
  using call_gas_all_but_one_64th [of 100 6500 5000] call_gas_all_but_one_64th [of 100 6500 "2 ^ 255"] by simp

text \<open>
  The price of memory: growing a memory that is paid for to a new size costs exactly the fee for the new
  number of words less the fee for the old one, where w words cost w times MemoryGas plus the square of w
  divided by QuadCoeffDiv; no product or sum on the way wraps, a memory that need not grow costs nothing,
  and the fee is recorded. A size above 0x1FFFFFFFE0 is refused with nothing changed.
\<close>

theorem memory_cost_is_fee_difference:
  assumes "params_ok G" and "mem_paid G (length (mem_store m)) (mem_lastGasCost m)" and "0 \<le> sz"
  shows "memoryGasCost G sz m =
    (if sz > 0x1FFFFFFFE0 then (Inl ErrGasUintOverflow, m)
     else let words = int (length (mem_store m) div 32); grown = max words ((sz + 31) div 32)
       in (Inr (mem_fee G grown - mem_fee G words), m\<lparr>mem_lastGasCost := mem_fee G grown\<rparr>))"
proof (cases "sz \<le> max_mem")
  case True
  then show ?thesis using memoryGasCost_paid [OF assms True] toWordSize_small(1) [OF assms(3) True] by (simp add: max_mem_def)
next
  case False
  then show ?thesis by (simp add: memoryGasCost_def max_mem_def)
qed

theorem memory_cost_is_fee_difference_witness:
  "memoryGasCost mainnet_params 1024 \<lparr>mem_store = replicate 64 0, mem_lastGasCost = 6\<rparr> =
    (Inr 92, \<lparr>mem_store = replicate 64 0, mem_lastGasCost = 98\<rparr>)"
  using memory_cost_is_fee_difference [OF mainnet_params_ok, of "\<lparr>mem_store = replicate 64 0, mem_lastGasCost = 6\<rparr>" 1024]
  by (simp add: mem_paid_def mem_fee_def)

end
