(* ===== verification/EvmParams.thy ===== *)
theory EvmParams
  imports EvmTable
begin

text \<open>
  The parameters of x/evm (x/evm/types: params.go, chain_config.go, permissions.go, opcodes_hooks.go;
  types/validation.go and types/int.go) and the access policy made of them.

  \<^item> A pointer to a \<open>math.Int\<close> is an optional integer. The functions of go-ethereum and of the SDK that the
    code calls on addresses, denominations, channels and configurations are the record \<open>eth_fns\<close>.
  \<^item> The \<open>interface{}\<close> arguments of the validators always hold the type that is tested for, so the
    failing branch of these type tests is left out.
\<close>

section \<open>Chain configuration\<close>

record ChainConfig =
  cc_HomesteadBlock :: "int option"
  cc_DAOForkBlock :: "int option"
  cc_DAOForkSupport :: bool
  cc_EIP150Block :: "int option"
  cc_EIP150Hash :: string
  cc_EIP155Block :: "int option"
  cc_EIP158Block :: "int option"
  cc_ByzantiumBlock :: "int option"
  cc_ConstantinopleBlock :: "int option"
  cc_PetersburgBlock :: "int option"
  cc_IstanbulBlock :: "int option"
  cc_MuirGlacierBlock :: "int option"
  cc_BerlinBlock :: "int option"
  cc_LondonBlock :: "int option"
  cc_ArrowGlacierBlock :: "int option"
  cc_GrayGlacierBlock :: "int option"
  cc_MergeNetsplitBlock :: "int option"
  cc_ShanghaiBlock :: "int option"
  cc_CancunBlock :: "int option"

text \<open>What the code fills in of go-ethereum's \<open>params.ChainConfig\<close>.\<close>

record eth_ChainConfig =
  eth_ChainID :: "int option"
  eth_HomesteadBlock :: "int option"
  eth_DAOForkBlock :: "int option"
  eth_DAOForkSupport :: bool
  eth_EIP150Block :: "int option"
  eth_EIP150Hash :: hash
  eth_EIP155Block :: "int option"
  eth_EIP158Block :: "int option"
  eth_ByzantiumBlock :: "int option"
  eth_ConstantinopleBlock :: "int option"
  eth_PetersburgBlock :: "int option"
  eth_IstanbulBlock :: "int option"
  eth_MuirGlacierBlock :: "int option"
  eth_BerlinBlock :: "int option"
  eth_LondonBlock :: "int option"
  eth_ArrowGlacierBlock :: "int option"
  eth_GrayGlacierBlock :: "int option"
  eth_MergeNetsplitBlock :: "int option"
  eth_ShanghaiBlock :: "int option"
  eth_CancunBlock :: "int option"

record eth_fns =
  Hex :: "address \<Rightarrow> string"
  HexToAddress :: "string \<Rightarrow> address"
  IsHexAddress :: "string \<Rightarrow> bool"
  HexToHash :: "string \<Rightarrow> hash"
  AccAddressFromBech32 :: "string \<Rightarrow> bool"
  ValidateDenom :: "string \<Rightarrow> bool"
  ChannelIdentifierValidator :: "string \<Rightarrow> bool"
  CheckConfigForkOrder :: "eth_ChainConfig \<Rightarrow> string option"
  ConfigRules :: "eth_ChainConfig \<Rightarrow> int \<Rightarrow> bool \<Rightarrow> rules"

definition getBlockValue :: "int option \<Rightarrow> int option" where
  "getBlockValue block = (case block of None \<Rightarrow> None | Some b \<Rightarrow> if b < 0 then None else Some b)"

definition EthereumConfig :: "eth_fns \<Rightarrow> ChainConfig \<Rightarrow> int option \<Rightarrow> eth_ChainConfig" where
  "EthereumConfig F cc chainID = \<lparr>eth_ChainID = chainID,
     eth_HomesteadBlock = getBlockValue (cc_HomesteadBlock cc),
     eth_DAOForkBlock = getBlockValue (cc_DAOForkBlock cc),
     eth_DAOForkSupport = cc_DAOForkSupport cc,
     eth_EIP150Block = getBlockValue (cc_EIP150Block cc),
     eth_EIP150Hash = HexToHash F (cc_EIP150Hash cc),
     eth_EIP155Block = getBlockValue (cc_EIP155Block cc),
     eth_EIP158Block = getBlockValue (cc_EIP158Block cc),
     eth_ByzantiumBlock = getBlockValue (cc_ByzantiumBlock cc),
     eth_ConstantinopleBlock = getBlockValue (cc_ConstantinopleBlock cc),
     eth_PetersburgBlock = getBlockValue (cc_PetersburgBlock cc),
     eth_IstanbulBlock = getBlockValue (cc_IstanbulBlock cc),
     eth_MuirGlacierBlock = getBlockValue (cc_MuirGlacierBlock cc),
     eth_BerlinBlock = getBlockValue (cc_BerlinBlock cc),
     eth_LondonBlock = getBlockValue (cc_LondonBlock cc),
     eth_ArrowGlacierBlock = getBlockValue (cc_ArrowGlacierBlock cc),
     eth_GrayGlacierBlock = getBlockValue (cc_GrayGlacierBlock cc),
     eth_MergeNetsplitBlock = getBlockValue (cc_MergeNetsplitBlock cc),
     eth_ShanghaiBlock = getBlockValue (cc_ShanghaiBlock cc),
     eth_CancunBlock = getBlockValue (cc_CancunBlock cc)\<rparr>"

definition DefaultChainConfig :: "ChainConfig" where
  "DefaultChainConfig = \<lparr>cc_HomesteadBlock = Some 0, cc_DAOForkBlock = Some 0, cc_DAOForkSupport = True,
     cc_EIP150Block = Some 0, cc_EIP150Hash = ''0x0000000000000000000000000000000000000000000000000000000000000000'',
     cc_EIP155Block = Some 0, cc_EIP158Block = Some 0, cc_ByzantiumBlock = Some 0, cc_ConstantinopleBlock = Some 0,
     cc_PetersburgBlock = Some 0, cc_IstanbulBlock = Some 0, cc_MuirGlacierBlock = Some 0, cc_BerlinBlock = Some 0,
     cc_LondonBlock = Some 0, cc_ArrowGlacierBlock = Some 0, cc_GrayGlacierBlock = Some 0,
     cc_MergeNetsplitBlock = Some 0, cc_ShanghaiBlock = Some 0, cc_CancunBlock = Some 0\<rparr>"

definition validateBlock :: "int option \<Rightarrow> string + unit" where
  "validateBlock block = (case block of
      None \<Rightarrow> Inr ()
    | Some b \<Rightarrow> if b < 0 then Inl ''block value cannot be negative'' else Inr ())"

definition validateHash :: "string \<Rightarrow> string + unit" where
  "validateHash hex = (if hex \<noteq> [] \<and> trim_space hex = [] then Inl ''hash cannot be blank'' else Inr ())"

definition ChainConfig_Validate :: "eth_fns \<Rightarrow> ChainConfig \<Rightarrow> string + unit" where
  "ChainConfig_Validate F cc =
     rbind (validateBlock (cc_HomesteadBlock cc)) (\<lambda>_.
     rbind (validateBlock (cc_DAOForkBlock cc)) (\<lambda>_.
     rbind (validateBlock (cc_EIP150Block cc)) (\<lambda>_.
     rbind (validateHash (cc_EIP150Hash cc)) (\<lambda>_.
     rbind (validateBlock (cc_EIP155Block cc)) (\<lambda>_.
     rbind (validateBlock (cc_EIP158Block cc)) (\<lambda>_.
     rbind (validateBlock (cc_ByzantiumBlock cc)) (\<lambda>_.
     rbind (validateBlock (cc_ConstantinopleBlock cc)) (\<lambda>_.
     rbind (validateBlock (cc_PetersburgBlock cc)) (\<lambda>_.
     rbind (validateBlock (cc_IstanbulBlock cc)) (\<lambda>_.
     rbind (validateBlock (cc_MuirGlacierBlock cc)) (\<lambda>_.
     rbind (validateBlock (cc_BerlinBlock cc)) (\<lambda>_.
     rbind (validateBlock (cc_LondonBlock cc)) (\<lambda>_.
     rbind (validateBlock (cc_ArrowGlacierBlock cc)) (\<lambda>_.
     rbind (validateBlock (cc_GrayGlacierBlock cc)) (\<lambda>_.
     rbind (validateBlock (cc_MergeNetsplitBlock cc)) (\<lambda>_.
     rbind (validateBlock (cc_ShanghaiBlock cc)) (\<lambda>_.
     rbind (validateBlock (cc_CancunBlock cc)) (\<lambda>_.
     case CheckConfigForkOrder F (EthereumConfig F cc None) of
        Some e \<Rightarrow> Inl ''invalid config fork order''
      | None \<Rightarrow> Inr ()))))))))))))))))))"

section \<open>Addresses and names\<close>

definition ValidateAddress :: "eth_fns \<Rightarrow> string \<Rightarrow> string + unit" where
  "ValidateAddress F address =
     (if \<not> IsHexAddress F address then Inl ''not a valid ethereum hex address'' else Inr ())"

definition SafeInt64 :: "int \<Rightarrow> string + int" where
  "SafeInt64 val = (if val > 2 ^ 63 - 1 then Inl ''uint64 value cannot exceed max int64'' else Inr val)"

text \<open>\<open>strings.Split\<close> and the strings that \<open>strconv.Atoi\<close> accepts.\<close>

fun split_at :: "char \<Rightarrow> string \<Rightarrow> string list" where
  "split_at c [] = [[]]"
| "split_at c (x # xs) = (if x = c then [] # split_at c xs
     else case split_at c xs of [] \<Rightarrow> [[x]] | w # ws \<Rightarrow> (x # w) # ws)"

definition is_digit :: "char \<Rightarrow> bool" where
  "is_digit c \<longleftrightarrow> (of_char c :: nat) \<in> {48..57}"

definition digits_value :: "string \<Rightarrow> int" where
  "digits_value = foldl (\<lambda>n c. 10 * n + (of_char c - 48)) 0"

definition Atoi_ok :: "string \<Rightarrow> bool" where
  "Atoi_ok s = (let neg = (s \<noteq> [] \<and> hd s = CHR ''-'');
                    ds = (if s \<noteq> [] \<and> (hd s = CHR ''-'' \<or> hd s = CHR ''+'') then tl s else s)
     in ds \<noteq> [] \<and> list_all is_digit ds \<and> digits_value ds < 2 ^ 63 + (if neg then 1 else 0))"

definition ValidateEIPName :: "string \<Rightarrow> string + unit" where
  "ValidateEIPName eipName = (let eipSplit = split_at (CHR ''_'') eipName in
     if length eipSplit \<noteq> 2 then Inl ''eip name does not conform to structure chainName_Number''
     else if \<not> Atoi_ok (eipSplit ! 1) then Inl ''eip number should be convertible to int''
     else Inr ())"

section \<open>Access control\<close>

datatype AccessType = AccessTypePermissionless | AccessTypeRestricted | AccessTypePermissioned | AccessTypeOther int

record AccessControlType =
  AccessType_of :: AccessType
  AccessControlList :: "string list"

record AccessControl =
  ac_Create :: AccessControlType
  ac_Call :: AccessControlType

definition validateAccessType :: "AccessType \<Rightarrow> string + unit" where
  "validateAccessType t = (case t of AccessTypeOther _ \<Rightarrow> Inl ''invalid access type'' | _ \<Rightarrow> Inr ())"

definition validateAllowlistAddresses :: "eth_fns \<Rightarrow> string list \<Rightarrow> string + unit" where
  "validateAllowlistAddresses F addresses =
     fold_res (\<lambda>address _. case ValidateAddress F address of
         Inl _ \<Rightarrow> Inl ''invalid whitelist address'' | Inr _ \<Rightarrow> Inr ()) addresses ()"

definition AccessControlType_Validate :: "eth_fns \<Rightarrow> AccessControlType \<Rightarrow> string + unit" where
  "AccessControlType_Validate F act =
     rbind (validateAccessType (AccessType_of act)) (\<lambda>_. validateAllowlistAddresses F (AccessControlList act))"

definition AccessControl_Validate :: "eth_fns \<Rightarrow> AccessControl \<Rightarrow> string + unit" where
  "AccessControl_Validate F ac =
     rbind (AccessControlType_Validate F (ac_Create ac)) (\<lambda>_. AccessControlType_Validate F (ac_Call ac))"

definition permissionlessCheckFn :: "eth_fns \<Rightarrow> string list \<Rightarrow> address \<Rightarrow> address \<Rightarrow> bool" where
  "permissionlessCheckFn F addresses signer =
     (let isSignerBlocked = Hex F signer \<notin> set addresses
      in (\<lambda>caller. isSignerBlocked \<and> Hex F caller \<notin> set addresses))"

definition permissionedCheckFn :: "eth_fns \<Rightarrow> string list \<Rightarrow> address \<Rightarrow> address \<Rightarrow> bool" where
  "permissionedCheckFn F addresses signer =
     (let isSignerAllowed = Hex F signer \<in> set addresses
      in (\<lambda>caller. isSignerAllowed \<or> Hex F caller \<in> set addresses))"

definition getCanCreateFn :: "eth_fns \<Rightarrow> AccessControl \<Rightarrow> address \<Rightarrow> address \<Rightarrow> bool" where
  "getCanCreateFn F ac signer =
     (let addresses = AccessControlList (ac_Create ac) in
      case AccessType_of (ac_Create ac) of
        AccessTypePermissionless \<Rightarrow> permissionlessCheckFn F addresses signer
      | AccessTypeRestricted \<Rightarrow> (\<lambda>_. False)
      | AccessTypePermissioned \<Rightarrow> permissionedCheckFn F addresses signer
      | AccessTypeOther _ \<Rightarrow> (\<lambda>_. False))"

definition getCanCallFn :: "eth_fns \<Rightarrow> AccessControl \<Rightarrow> address \<Rightarrow> address \<Rightarrow> bool" where
  "getCanCallFn F ac signer =
     (let addresses = AccessControlList (ac_Call ac) in
      case AccessType_of (ac_Call ac) of
        AccessTypePermissionless \<Rightarrow> permissionlessCheckFn F addresses signer
      | AccessTypeRestricted \<Rightarrow> (\<lambda>_. False)
      | AccessTypePermissioned \<Rightarrow> permissionedCheckFn F addresses signer
      | AccessTypeOther _ \<Rightarrow> (\<lambda>_. False))"

record RestrictedPermissionPolicy =
  canCreate :: "address \<Rightarrow> bool"
  canCall :: "address \<Rightarrow> bool"

definition NewRestrictedPermissionPolicy :: "eth_fns \<Rightarrow> AccessControl \<Rightarrow> address \<Rightarrow> RestrictedPermissionPolicy" where
  "NewRestrictedPermissionPolicy F ac signer =
     \<lparr>canCreate = getCanCreateFn F ac signer, canCall = getCanCallFn F ac signer\<rparr>"

text \<open>A hook looks at the machine, may change it, and returns an error or nil.\<close>

type_synonym 'k CallHook = "'k evm \<Rightarrow> address \<Rightarrow> address \<Rightarrow> string option \<times> 'k evm"
type_synonym 'k CreateHook = "'k evm \<Rightarrow> address \<Rightarrow> string option \<times> 'k evm"

definition GetCallHook :: "RestrictedPermissionPolicy \<Rightarrow> 'k CallHook" where
  "GetCallHook p evm caller recipient =
     (if canCall p caller then (None, evm)
      else (Some ''caller address does not have permission to perform a call'', evm))"

definition GetCreateHook :: "RestrictedPermissionPolicy \<Rightarrow> 'k CreateHook" where
  "GetCreateHook p evm caller =
     (if canCreate p caller then (None, evm)
      else (Some ''caller address does not have permission to deploy contracts'', evm))"

record 'k DefaultOpCodesHooks =
  callHooks :: "'k CallHook list"
  createHooks :: "'k CreateHook list"

definition NewDefaultOpCodesHooks :: "'k DefaultOpCodesHooks" where
  "NewDefaultOpCodesHooks = \<lparr>callHooks = [], createHooks = []\<rparr>"

definition AddCallHooks :: "'k CallHook list \<Rightarrow> 'k DefaultOpCodesHooks \<Rightarrow> 'k DefaultOpCodesHooks" where
  "AddCallHooks hooks h = h\<lparr>callHooks := callHooks h @ hooks\<rparr>"

definition AddCreateHooks :: "'k CreateHook list \<Rightarrow> 'k DefaultOpCodesHooks \<Rightarrow> 'k DefaultOpCodesHooks" where
  "AddCreateHooks hooks h = h\<lparr>createHooks := createHooks h @ hooks\<rparr>"

fun run_hooks :: "('k evm \<Rightarrow> string option \<times> 'k evm) list \<Rightarrow> 'k evm \<Rightarrow> string option \<times> 'k evm" where
  "run_hooks [] evm = (None, evm)"
| "run_hooks (hook # hooks) evm = (case hook evm of
      (Some err, evm1) \<Rightarrow> (Some err, evm1)
    | (None, evm1) \<Rightarrow> run_hooks hooks evm1)"

definition hooks_CreateHook :: "'k DefaultOpCodesHooks \<Rightarrow> 'k CreateHook" where
  "hooks_CreateHook h evm caller = run_hooks (map (\<lambda>hook evm. hook evm caller) (createHooks h)) evm"

definition hooks_CallHook :: "'k DefaultOpCodesHooks \<Rightarrow> 'k CallHook" where
  "hooks_CallHook h evm caller recipient = run_hooks (map (\<lambda>hook evm. hook evm caller recipient) (callHooks h)) evm"

section \<open>Parameters\<close>

definition ZeroAddress :: string where
  "ZeroAddress = ''0x0000000000000000000000000000000000000000''"

record evm_Params =
  EvmDenom :: string
  ExtraEIPs :: "string list"
  cfg_ChainConfig :: ChainConfig
  AllowUnprotectedTxs :: bool
  ActiveStaticPrecompiles :: "string list"
  EVMChannels :: "string list"
  cfg_AccessControl :: AccessControl
  OnlineServerCountContract :: string
  NFTContractAddress :: string
  WalletStateContractAddress :: string
  ValidatorApprovalContractAddress :: string
  WhitelistedAddresses :: "string list"
  EnableChainStatusCheck :: bool
  EnableWalletLockCheck :: bool
  MultiSigAddress :: string

definition IsBootstrapMode :: "evm_Params \<Rightarrow> bool" where
  "IsBootstrapMode p \<longleftrightarrow> \<not> EnableChainStatusCheck p \<and> \<not> EnableWalletLockCheck p"

definition IsContractSet :: "string \<Rightarrow> bool" where
  "IsContractSet addr \<longleftrightarrow> addr \<noteq> [] \<and> addr \<noteq> ZeroAddress"

definition validateContractAddress :: "eth_fns \<Rightarrow> string \<Rightarrow> string + unit" where
  "validateContractAddress F addr =
     (if addr = [] \<or> addr = ZeroAddress then Inr ()
      else if \<not> IsHexAddress F addr then Inl ''invalid ethereum address'' else Inr ())"

definition validateWhitelistedAddresses :: "eth_fns \<Rightarrow> string list \<Rightarrow> string + unit" where
  "validateWhitelistedAddresses F addresses =
     fold_res (\<lambda>addr _. if \<not> IsHexAddress F addr then Inl ''invalid whitelisted address'' else Inr ()) addresses ()"

definition validateMultiSigAddress :: "eth_fns \<Rightarrow> string \<Rightarrow> string + unit" where
  "validateMultiSigAddress F addr =
     (if addr = [] then Inr ()
      else if \<not> AccAddressFromBech32 F addr then Inl ''invalid bech32 address'' else Inr ())"

definition validateEVMDenom :: "eth_fns \<Rightarrow> string \<Rightarrow> string + unit" where
  "validateEVMDenom F denom = (if ValidateDenom F denom then Inr () else Inl ''invalid denom'')"

definition validateChannels :: "eth_fns \<Rightarrow> string list \<Rightarrow> string + unit" where
  "validateChannels F channels =
     fold_res (\<lambda>channel _. if ChannelIdentifierValidator F channel then Inr ()
        else Inl ''invalid channel identifier'') channels ()"

definition validateEIPs :: "string list \<Rightarrow> string list \<Rightarrow> string + string set" where
  "validateEIPs activateable eips = fold_res (\<lambda>eip uniqueEIPs.
     if eip \<notin> set activateable then Inl ''EIP is not activateable''
     else case ValidateEIPName eip of
       Inl _ \<Rightarrow> Inl ''EIP name is not valid''
     | Inr _ \<Rightarrow> if eip \<in> uniqueEIPs then Inl ''found duplicate EIP''
         else Inr (insert eip uniqueEIPs)) eips {}"

definition ValidatePrecompiles :: "eth_fns \<Rightarrow> string list \<Rightarrow> string + unit" where
  "ValidatePrecompiles F precompiles =
     rbind (fold_res (\<lambda>precompile seen.
       if precompile \<in> seen then Inl ''duplicate precompile''
       else case ValidateAddress F precompile of
         Inl _ \<Rightarrow> Inl ''invalid precompile''
       | Inr _ \<Rightarrow> Inr (insert precompile seen)) precompiles {}) (\<lambda>_.
     if \<not> sorted precompiles then Inl ''precompiles need to be sorted'' else Inr ())"

text \<open>\<open>activateable\<close> are the keys of the map of activators.\<close>

definition evm_Params_Validate :: "eth_fns \<Rightarrow> string list \<Rightarrow> evm_Params \<Rightarrow> string + unit" where
  "evm_Params_Validate F activateable p =
     rbind (validateEVMDenom F (EvmDenom p)) (\<lambda>_.
     rbind (validateEIPs activateable (ExtraEIPs p)) (\<lambda>_.
     rbind (ChainConfig_Validate F (cfg_ChainConfig p)) (\<lambda>_.
     rbind (ValidatePrecompiles F (ActiveStaticPrecompiles p)) (\<lambda>_.
     rbind (AccessControl_Validate F (cfg_AccessControl p)) (\<lambda>_.
     rbind (validateChannels F (EVMChannels p)) (\<lambda>_.
     rbind (validateContractAddress F (OnlineServerCountContract p)) (\<lambda>_.
     rbind (validateContractAddress F (NFTContractAddress p)) (\<lambda>_.
     rbind (validateContractAddress F (WalletStateContractAddress p)) (\<lambda>_.
     rbind (validateContractAddress F (ValidatorApprovalContractAddress p)) (\<lambda>_.
     rbind (validateWhitelistedAddresses F (WhitelistedAddresses p)) (\<lambda>_.
     rbind (validateMultiSigAddress F (MultiSigAddress p)) (\<lambda>_.
     if EnableChainStatusCheck p \<and> \<not> IsContractSet (OnlineServerCountContract p)
     then Inl ''chain status check enabled but contract address not set''
     else if EnableWalletLockCheck p \<and> \<not> IsContractSet (WalletStateContractAddress p)
     then Inl ''wallet lock check enabled but contract address not set''
     else Inr ()))))))))))))"

definition EIPs :: "evm_Params \<Rightarrow> string list" where
  "EIPs p = ExtraEIPs p"

definition GetActiveStaticPrecompilesAddrs :: "eth_fns \<Rightarrow> evm_Params \<Rightarrow> address list" where
  "GetActiveStaticPrecompilesAddrs F p = map (HexToAddress F) (ActiveStaticPrecompiles p)"

definition IsEVMChannel :: "evm_Params \<Rightarrow> string \<Rightarrow> bool" where
  "IsEVMChannel p channel \<longleftrightarrow> channel \<in> set (EVMChannels p)"

definition evm_DefaultParams :: evm_Params where
  "evm_DefaultParams = \<lparr>EvmDenom = ''unxq'', ExtraEIPs = [''ethereum_3855''], cfg_ChainConfig = DefaultChainConfig,
     AllowUnprotectedTxs = False,
     ActiveStaticPrecompiles = [''0x0000000000000000000000000000000000000100'',
       ''0x0000000000000000000000000000000000000400'', ''0x0000000000000000000000000000000000000800'',
       ''0x0000000000000000000000000000000000000801'', ''0x0000000000000000000000000000000000000802'',
       ''0x0000000000000000000000000000000000000803'', ''0x0000000000000000000000000000000000000804''],
     EVMChannels = [''channel-10'', ''channel-31'', ''channel-83''],
     cfg_AccessControl = \<lparr>ac_Create = \<lparr>AccessType_of = AccessTypePermissionless, AccessControlList = []\<rparr>,
       ac_Call = \<lparr>AccessType_of = AccessTypePermissionless, AccessControlList = []\<rparr>\<rparr>,
     OnlineServerCountContract = ZeroAddress, NFTContractAddress = ZeroAddress, WalletStateContractAddress = ZeroAddress,
     ValidatorApprovalContractAddress = ZeroAddress, WhitelistedAddresses = [], EnableChainStatusCheck = False,
     EnableWalletLockCheck = False, MultiSigAddress = []\<rparr>"

lemma DefaultParams_bootstrap: "IsBootstrapMode evm_DefaultParams"
  by (simp add: IsBootstrapMode_def evm_DefaultParams_def)

end
