(* ===== verification/FeeMarket.thy ===== *)
theory FeeMarket
  imports Halving
begin

text \<open>
  The fee market (x/feemarket): the base fee of EIP-1559, computed from the gas that the previous
  block wanted, and the block gas itself.

  \<^item> \<open>fm_ctx\<close> holds what the keeper sees of a context: its store (one field per key), the transient
    store, the block height, the consensus parameter \<open>MaxGas\<close>, the block gas meter and the events.
  \<^item> \<open>big.Int\<close> is \<open>int\<close>; its division by zero panics, and \<open>math.NewIntFromBigInt\<close> panics beyond 256
    bits. A \<open>LegacyDec\<close> is its integer scaled by \<open>10 ^ 18\<close>, its \<open>Mul\<close> is the argument \<open>D\<close>, and the
    constants of go-ethereum are the argument \<open>G\<close>.
  \<^item> Logging and telemetry are left out.
\<close>

section \<open>Parameters\<close>

record fm_Params =
  NoBaseFee :: bool
  BaseFeeChangeDenominator :: int
  ElasticityMultiplier :: int
  EnableHeight :: int
  BaseFee :: "int option"
  MinGasPrice :: "int option"
  MinGasMultiplier :: "int option"

record geth_fee_params =
  geth_BaseFeeChangeDenominator :: int
  geth_ElasticityMultiplier :: int
  geth_InitialBaseFee :: int

definition fm_NewParams :: "bool \<Rightarrow> int \<Rightarrow> int \<Rightarrow> int \<Rightarrow> int \<Rightarrow> int \<Rightarrow> int \<Rightarrow> fm_Params" where
  "fm_NewParams noBaseFee baseFeeChangeDenom elasticityMultiplier baseFee enableHeight minGasPrice
     minGasPriceMultiplier = \<lparr>NoBaseFee = noBaseFee, BaseFeeChangeDenominator = baseFeeChangeDenom,
       ElasticityMultiplier = elasticityMultiplier, EnableHeight = enableHeight, BaseFee = Some baseFee,
       MinGasPrice = Some minGasPrice, MinGasMultiplier = Some minGasPriceMultiplier\<rparr>"

definition fm_DefaultParams :: "geth_fee_params \<Rightarrow> fm_Params" where
  "fm_DefaultParams G = \<lparr>NoBaseFee = False, BaseFeeChangeDenominator = geth_BaseFeeChangeDenominator G,
     ElasticityMultiplier = geth_ElasticityMultiplier G, EnableHeight = 0,
     BaseFee = Some (geth_InitialBaseFee G), MinGasPrice = Some 0, MinGasMultiplier = Some (50 * 10 ^ 16)\<rparr>"

definition validateMinGasPrice :: "int option \<Rightarrow> string + unit" where
  "validateMinGasPrice v =
     (case v of
        None \<Rightarrow> Inl ''invalid parameter: nil''
      | Some d \<Rightarrow> if d < 0 then Inl ''value cannot be negative'' else Inr ())"

definition validateMinGasMultiplier :: "int option \<Rightarrow> string + unit" where
  "validateMinGasMultiplier v =
     (case v of
        None \<Rightarrow> Inl ''invalid parameter: nil''
      | Some d \<Rightarrow> if d < 0 then Inl ''value cannot be negative''
          else if d > dec_one then Inl ''value cannot be greater than 1'' else Inr ())"

text \<open>\<open>IsNegative\<close> of a nil \<open>math.Int\<close> is a nil pointer dereference.\<close>

definition fm_Params_Validate :: "fm_Params \<Rightarrow> go_err + unit" where
  "fm_Params_Validate p =
     (if BaseFeeChangeDenominator p = 0 then Inl (GoErr ''base fee change denominator cannot be 0'')
      else case BaseFee p of
        None \<Rightarrow> Inl (GoPanicked (GoPanic ''nil pointer dereference''))
      | Some baseFee \<Rightarrow>
          if baseFee < 0 then Inl (GoErr ''initial base fee cannot be negative'')
          else if EnableHeight p < 0 then Inl (GoErr ''enable height cannot be negative'')
          else lift_err (rbind (validateMinGasMultiplier (MinGasMultiplier p)) (\<lambda>_.
            validateMinGasPrice (MinGasPrice p))))"

definition IsBaseFeeEnabled :: "fm_Params \<Rightarrow> int \<Rightarrow> bool" where
  "IsBaseFeeEnabled p height \<longleftrightarrow> \<not> NoBaseFee p \<and> height \<ge> EnableHeight p"

record fm_GenesisState =
  gs_Params :: fm_Params
  gs_BlockGas :: int

definition fm_DefaultGenesisState :: "geth_fee_params \<Rightarrow> fm_GenesisState" where
  "fm_DefaultGenesisState G = \<lparr>gs_Params = fm_DefaultParams G, gs_BlockGas = 0\<rparr>"

definition fm_GenesisState_Validate :: "fm_GenesisState \<Rightarrow> go_err + unit" where
  "fm_GenesisState_Validate gs = fm_Params_Validate (gs_Params gs)"

section \<open>The store\<close>

record fm_ctx =
  fm_params :: "fm_Params option"
  fm_legacyParams :: "fm_Params option"
  fm_blockGasWanted :: "int option"
  fm_baseFeeV1 :: "int option"
  fm_transientGasWanted :: "int option"
  fm_BlockHeight :: int
  fm_MaxGas :: "int option"
  fm_gasMeter :: "int option"
  fm_events :: "(string \<times> int list) list"

definition zero_fm_Params :: fm_Params where
  "zero_fm_Params = \<lparr>NoBaseFee = False, BaseFeeChangeDenominator = 0, ElasticityMultiplier = 0,
     EnableHeight = 0, BaseFee = None, MinGasPrice = None, MinGasMultiplier = None\<rparr>"

definition or_zero :: "int option \<Rightarrow> int option" where
  "or_zero v = Some (case v of None \<Rightarrow> 0 | Some d \<Rightarrow> d)"

definition fm_GetParams :: "fm_ctx \<Rightarrow> fm_Params" where
  "fm_GetParams c =
     (let p = (case fm_params c of Some p \<Rightarrow> p
               | None \<Rightarrow> (case fm_legacyParams c of Some p \<Rightarrow> p | None \<Rightarrow> zero_fm_Params))
      in p\<lparr>MinGasPrice := or_zero (MinGasPrice p), MinGasMultiplier := or_zero (MinGasMultiplier p)\<rparr>)"

text \<open>The protobuf encoding writes a nil \<open>Int\<close> or \<open>LegacyDec\<close> as zero.\<close>

definition fm_SetParams :: "fm_Params \<Rightarrow> fm_ctx \<Rightarrow> fm_ctx" where
  "fm_SetParams p c = c\<lparr>fm_params := Some (p\<lparr>BaseFee := or_zero (BaseFee p),
     MinGasPrice := or_zero (MinGasPrice p), MinGasMultiplier := or_zero (MinGasMultiplier p)\<rparr>)\<rparr>"

definition GetBaseFeeEnabled :: "fm_ctx \<Rightarrow> bool" where
  "GetBaseFeeEnabled c = (let params = fm_GetParams c
     in \<not> NoBaseFee params \<and> fm_BlockHeight c \<ge> EnableHeight params)"

definition GetBaseFeeV1 :: "fm_ctx \<Rightarrow> int option" where
  "GetBaseFeeV1 c = fm_baseFeeV1 c"

definition GetBaseFee :: "fm_ctx \<Rightarrow> int option" where
  "GetBaseFee c =
     (let params = fm_GetParams c
      in if NoBaseFee params then None
         else if BaseFee params = None \<or> BaseFee params = Some 0 then GetBaseFeeV1 c
         else BaseFee params)"

definition SetBaseFee :: "int \<Rightarrow> fm_ctx \<Rightarrow> go_panic + fm_ctx" where
  "SetBaseFee baseFee c =
     (if \<bar>baseFee\<bar> \<ge> 2 ^ 256 then Inl (GoPanic ''NewIntFromBigInt() out of bound'')
      else Inr (fm_SetParams ((fm_GetParams c)\<lparr>BaseFee := Some baseFee\<rparr>) c))"

definition GetBlockGasWanted :: "fm_ctx \<Rightarrow> int" where
  "GetBlockGasWanted c = (case fm_blockGasWanted c of None \<Rightarrow> 0 | Some g \<Rightarrow> g)"

definition SetBlockGasWanted :: "int \<Rightarrow> fm_ctx \<Rightarrow> fm_ctx" where
  "SetBlockGasWanted gas c = c\<lparr>fm_blockGasWanted := Some gas\<rparr>"

definition GetTransientGasWanted :: "fm_ctx \<Rightarrow> int" where
  "GetTransientGasWanted c = (case fm_transientGasWanted c of None \<Rightarrow> 0 | Some g \<Rightarrow> g)"

definition SetTransientBlockGasWanted :: "int \<Rightarrow> fm_ctx \<Rightarrow> fm_ctx" where
  "SetTransientBlockGasWanted gas c = c\<lparr>fm_transientGasWanted := Some gas\<rparr>"

definition AddTransientGasWanted :: "int \<Rightarrow> fm_ctx \<Rightarrow> int \<times> fm_ctx" where
  "AddTransientGasWanted gasWanted c =
     (let result = u64 (GetTransientGasWanted c + gasWanted)
      in (result, SetTransientBlockGasWanted result c))"

section \<open>The base fee\<close>

definition big_Div :: "int \<Rightarrow> int \<Rightarrow> go_panic + int" where
  "big_Div x y = (if y = 0 then Inl (GoPanic ''division by zero'')
     else Inr (if y < 0 then - (x div - y) else x div y))"

definition CalculateBaseFee :: "fm_ctx \<Rightarrow> go_panic + int option" where
  "CalculateBaseFee c =
     (let params = fm_GetParams c
      in if \<not> IsBaseFeeEnabled params (fm_BlockHeight c) then Inr None
         else if fm_BlockHeight c = EnableHeight params then Inr (BaseFee params)
         else case BaseFee params of
           None \<Rightarrow> Inr None
         | Some parentBaseFee \<Rightarrow>
             let parentGasUsed = GetBlockGasWanted c;
                 gasLimit = (case fm_MaxGas c of
                     Some maxGas \<Rightarrow> if maxGas > - 1 then maxGas else 2 ^ 64 - 1
                   | None \<Rightarrow> 2 ^ 64 - 1)
             in rbind (big_Div gasLimit (ElasticityMultiplier params)) (\<lambda>parentGasTarget.
                if \<not> in_u64 parentGasTarget then Inr None
                else if parentGasUsed = parentGasTarget then Inr (Some parentBaseFee)
                else if parentGasUsed > parentGasTarget then
                  let gasUsedDelta = u64 (parentGasUsed - parentGasTarget);
                      x = parentBaseFee * gasUsedDelta
                  in rbind (big_Div x parentGasTarget) (\<lambda>y.
                     rbind (big_Div y (BaseFeeChangeDenominator params)) (\<lambda>d.
                     Inr (Some (parentBaseFee + max d 1))))
                else
                  let gasUsedDelta = u64 (parentGasTarget - parentGasUsed);
                      x = parentBaseFee * gasUsedDelta
                  in rbind (big_Div x parentGasTarget) (\<lambda>y.
                     rbind (big_Div y (BaseFeeChangeDenominator params)) (\<lambda>baseFeeDelta.
                     let minGasPrice = TruncateInt (case MinGasPrice params of None \<Rightarrow> 0 | Some d \<Rightarrow> d)
                     in Inr (Some (max (parentBaseFee - baseFeeDelta) minGasPrice))))))"

definition fm_BeginBlock :: "fm_ctx \<Rightarrow> go_panic + fm_ctx" where
  "fm_BeginBlock c =
     rbind (CalculateBaseFee c) (\<lambda>fee.
       case fee of
         None \<Rightarrow> Inr c
       | Some baseFee \<Rightarrow> rbind (SetBaseFee baseFee c) (\<lambda>c1.
           Inr (c1\<lparr>fm_events := fm_events c1 @ [(''fee_market'', [baseFee])]\<rparr>)))"

definition fm_EndBlock :: "dec_ops \<Rightarrow> fm_ctx \<Rightarrow> go_panic + fm_ctx" where
  "fm_EndBlock D c =
     (case fm_gasMeter c of
        None \<Rightarrow> Inr c
      | Some gasUsed \<Rightarrow>
          let gasWanted = GetTransientGasWanted c
          in if \<not> in_i64 gasWanted then Inr c
             else if \<not> in_i64 gasUsed then Inr c
             else let minGasMultiplier = (case MinGasMultiplier (fm_GetParams c) of None \<Rightarrow> 0 | Some d \<Rightarrow> d);
                      limitedGasWanted = dec_Mul D (gasWanted * dec_one) minGasMultiplier;
                      updatedGasWanted = TruncateInt (max limitedGasWanted (gasUsed * dec_one))
                  in if \<not> in_u64 updatedGasWanted then Inl (GoPanic ''Uint64() out of bounds'')
                     else let c1 = SetBlockGasWanted updatedGasWanted c
                       in Inr (c1\<lparr>fm_events := fm_events c1 @
                            [(''block_gas'', [fm_BlockHeight c, updatedGasWanted])]\<rparr>))"

section \<open>Messages and genesis\<close>

definition fm_MsgUpdateParams_ValidateBasic :: "'a sdk_fns \<Rightarrow> string \<Rightarrow> fm_Params \<Rightarrow> go_err + unit" where
  "fm_MsgUpdateParams_ValidateBasic sdk authority params =
     (case AccAddressFromBech32 sdk authority of
        Inl err \<Rightarrow> Inl (GoErr (''invalid authority address: '' @ err))
      | Inr _ \<Rightarrow> fm_Params_Validate params)"

definition fm_UpdateParams :: "string \<Rightarrow> string \<Rightarrow> fm_Params \<Rightarrow> fm_ctx \<Rightarrow> go_err + fm_ctx" where
  "fm_UpdateParams keeper_authority authority params c =
     (if keeper_authority \<noteq> authority then Inl (GoErr ''invalid authority'')
      else Inr (fm_SetParams params c))"

definition fm_InitGenesis :: "fm_GenesisState \<Rightarrow> fm_ctx \<Rightarrow> fm_ctx" where
  "fm_InitGenesis data c = SetBlockGasWanted (gs_BlockGas data) (fm_SetParams (gs_Params data) c)"

definition fm_ExportGenesis :: "fm_ctx \<Rightarrow> fm_GenesisState" where
  "fm_ExportGenesis c = \<lparr>gs_Params = fm_GetParams c, gs_BlockGas = GetBlockGasWanted c\<rparr>"

text \<open>The migration from the legacy parameter space.\<close>

definition fm_MigrateStore :: "fm_ctx \<Rightarrow> go_err + fm_ctx" where
  "fm_MigrateStore c =
     (let params = (case fm_legacyParams c of Some p \<Rightarrow> p | None \<Rightarrow> zero_fm_Params)
      in rbind (fm_Params_Validate params) (\<lambda>_. Inr (fm_SetParams params c)))"

section \<open>Queries\<close>

definition query_BaseFee :: "fm_ctx \<Rightarrow> int option" where
  "query_BaseFee c = GetBaseFee c"

definition query_BlockGas :: "fm_ctx \<Rightarrow> string + int" where
  "query_BlockGas c = (let gas = GetBlockGasWanted c
     in if \<not> in_i64 gas then Inl ''block gas is higher than MaxInt64'' else Inr gas)"

section \<open>Properties\<close>

definition gas_limit :: "fm_ctx \<Rightarrow> int" where
  "gas_limit c = (case fm_MaxGas c of Some maxGas \<Rightarrow> if maxGas > - 1 then maxGas else 2 ^ 64 - 1
     | None \<Rightarrow> 2 ^ 64 - 1)"

definition gas_target :: "fm_ctx \<Rightarrow> int" where
  "gas_target c = gas_limit c div ElasticityMultiplier (fm_GetParams c)"

definition min_gas_price :: "fm_ctx \<Rightarrow> int" where
  "min_gas_price c = TruncateInt (case MinGasPrice (fm_GetParams c) of None \<Rightarrow> 0 | Some d \<Rightarrow> d)"

text \<open>The base fee is adjusted in this block.\<close>

definition adjusts :: "fm_ctx \<Rightarrow> bool" where
  "adjusts c \<longleftrightarrow> IsBaseFeeEnabled (fm_GetParams c) (fm_BlockHeight c) \<and>
     fm_BlockHeight c \<noteq> EnableHeight (fm_GetParams c)"

lemma big_Div_pos: "0 < y \<Longrightarrow> big_Div x y = Inr (x div y)"
  by (simp add: big_Div_def)

lemma big_Div_zero: "big_Div x 0 = Inl (GoPanic ''division by zero'')"
  by (simp add: big_Div_def)

lemma gas_limit_bounds: "fm_MaxGas c = Some m \<Longrightarrow> in_i64 m \<Longrightarrow> 0 \<le> gas_limit c \<and> gas_limit c < 2 ^ 64"
  "fm_MaxGas c = None \<Longrightarrow> 0 \<le> gas_limit c \<and> gas_limit c < 2 ^ 64"
  by (auto simp: gas_limit_def in_i64_def)

lemma div_le_self: "0 \<le> x \<Longrightarrow> 0 < e \<Longrightarrow> x div e \<le> (x :: int)"
  using pos_imp_zdiv_nonneg_iff [of e x] div_by_1 zdiv_mono2 [of x 1 e] by simp

text \<open>The three branches of the formula, once the divisions are known to succeed.\<close>

lemma CalculateBaseFee_eq:
  assumes "adjusts c" and "BaseFee (fm_GetParams c) = Some b"
    and "0 < ElasticityMultiplier (fm_GetParams c)" and "0 < BaseFeeChangeDenominator (fm_GetParams c)"
    and "0 \<le> gas_limit c" and "gas_limit c < 2 ^ 64" and "0 < gas_target c"
    and "in_u64 (GetBlockGasWanted c)"
  shows "CalculateBaseFee c = Inr (Some
    (let used = GetBlockGasWanted c; t = gas_target c; den = BaseFeeChangeDenominator (fm_GetParams c)
     in if used = t then b
        else if used > t then b + max (b * (used - t) div t div den) 1
        else max (b - b * (t - used) div t div den) (min_gas_price c)))"
proof -
  have t: "big_Div (gas_limit c) (ElasticityMultiplier (fm_GetParams c)) = Inr (gas_target c)"
    using assms(3) by (simp add: big_Div_pos gas_target_def)
  have fits: "in_u64 (gas_target c)"
    using div_le_self [OF assms(5,3)] assms(6,7) by (simp add: in_u64_def gas_target_def)
  have diff: "in_u64 (GetBlockGasWanted c - gas_target c)" if "gas_target c < GetBlockGasWanted c"
    using that assms(7,8) by (simp add: in_u64_def)
  have diff': "in_u64 (gas_target c - GetBlockGasWanted c)" if "GetBlockGasWanted c < gas_target c"
    using that fits assms(8) by (simp add: in_u64_def)
  show ?thesis
    unfolding CalculateBaseFee_def Let_def gas_limit_def [symmetric] min_gas_price_def [symmetric] t
    using assms(1,2) fits diff diff' assms(4,7)
    by (auto simp: adjusts_def t big_Div_pos u64_fix)
qed

lemma delta_bound:
  fixes b :: int
  assumes "0 \<le> b" and "0 < t" and "0 < den" and "0 \<le> k" and "k \<le> t"
  shows "0 \<le> b * k div t div den \<and> b * k div t div den \<le> b div den"
proof -
  have "b * k div t \<le> b * t div t" using assms by (intro zdiv_mono1 mult_left_mono) auto
  then have "b * k div t \<le> b" using assms(2) by simp
  then have "b * k div t div den \<le> b div den" using assms(3) by (intro zdiv_mono1) auto
  moreover have "0 \<le> b * k div t" using assms by (simp add: pos_imp_zdiv_nonneg_iff)
  ultimately show ?thesis using assms(3) by (simp add: pos_imp_zdiv_nonneg_iff)
qed

text \<open>
  C28: The base fee follows demand. When the last block wanted exactly the target the fee stays. When it wanted more
  the fee rises, by exactly the excess over the target, relative to the target, of one part in
  \<open>BaseFeeChangeDenominator\<close>, and at least by one; so up to twice the target it rises by at most that part or one, and
  beyond that by more. When the block wanted less the fee falls by at most one part, not below the minimum gas price, and
  it does not rise unless the minimum gas price is higher.
\<close>

theorem base_fee_follows_demand:
  assumes "adjusts c" and "BaseFee (fm_GetParams c) = Some b" and "0 \<le> b"
    and "0 < ElasticityMultiplier (fm_GetParams c)" and "0 < BaseFeeChangeDenominator (fm_GetParams c)"
    and "0 \<le> gas_limit c" and "gas_limit c < 2 ^ 64" and "0 < gas_target c"
    and "in_u64 (GetBlockGasWanted c)"
  shows "\<exists>fee. CalculateBaseFee c = Inr (Some fee) \<and>
    (GetBlockGasWanted c = gas_target c \<longrightarrow> fee = b) \<and>
    (GetBlockGasWanted c > gas_target c \<longrightarrow> fee > b \<and>
       fee = b + max 1 (b * (GetBlockGasWanted c - gas_target c) div gas_target c div BaseFeeChangeDenominator (fm_GetParams c)) \<and>
       (GetBlockGasWanted c \<le> 2 * gas_target c \<longrightarrow> fee \<le> b + max 1 (b div BaseFeeChangeDenominator (fm_GetParams c)))) \<and>
    (GetBlockGasWanted c < gas_target c \<longrightarrow> fee \<ge> min_gas_price c \<and> fee \<le> max b (min_gas_price c) \<and>
       fee \<ge> b - b div BaseFeeChangeDenominator (fm_GetParams c))"
proof -
  let ?used = "GetBlockGasWanted c" and ?t = "gas_target c" and ?den = "BaseFeeChangeDenominator (fm_GetParams c)"
  have up: "b * (?used - ?t) div ?t div ?den \<le> b div ?den" if "?used > ?t" "?used \<le> 2 * ?t"
    using delta_bound [OF assms(3,8,5), of "?used - ?t"] that by auto
  have down: "0 \<le> b * (?t - ?used) div ?t div ?den \<and> b * (?t - ?used) div ?t div ?den \<le> b div ?den" if "?used < ?t"
    using delta_bound [OF assms(3,8,5), of "?t - ?used"] that assms(9) by (auto simp: in_u64_def)
  show ?thesis
    using CalculateBaseFee_eq [OF assms(1,2,4-9)] up down by (auto simp: Let_def max.commute)
qed

definition sample_fm :: "int \<Rightarrow> int \<Rightarrow> fm_ctx" where
  "sample_fm elasticity used = \<lparr>fm_params = Some \<lparr>NoBaseFee = False, BaseFeeChangeDenominator = 8,
       ElasticityMultiplier = elasticity, EnableHeight = 0, BaseFee = Some 1000000000,
       MinGasPrice = Some 0, MinGasMultiplier = Some (50 * 10 ^ 16)\<rparr>,
     fm_legacyParams = None, fm_blockGasWanted = Some used, fm_baseFeeV1 = None,
     fm_transientGasWanted = Some 30000000, fm_BlockHeight = 7, fm_MaxGas = Some 40000000,
     fm_gasMeter = Some 21000, fm_events = []\<rparr>"

lemmas sample_fm_simps = sample_fm_def adjusts_def fm_GetParams_def or_zero_def IsBaseFeeEnabled_def
  gas_limit_def gas_target_def min_gas_price_def GetBlockGasWanted_def in_u64_def TruncateInt_def

theorem base_fee_follows_demand_witness:
  "\<exists>fee. CalculateBaseFee (sample_fm 2 30000000) = Inr (Some fee) \<and> 1000000000 < fee \<and> fee \<le> 1125000000"
  using base_fee_follows_demand [of "sample_fm 2 30000000" 1000000000]
  by (auto simp: sample_fm_simps)

text \<open>
  C31: Parameters that pass every check can halt the chain: an update whose \<open>ElasticityMultiplier\<close> is
  zero is accepted whenever the same update with another multiplier is, and after it the first block
  above the enable height divides by zero and panics.
\<close>

theorem zero_elasticity_halts_chain:
  assumes "fm_MsgUpdateParams_ValidateBasic sdk authority params = Inr ()"
    and "\<not> NoBaseFee params" and "fm_BlockHeight c > EnableHeight params"
  defines "bad \<equiv> params\<lparr>ElasticityMultiplier := 0\<rparr>"
  shows "fm_MsgUpdateParams_ValidateBasic sdk authority bad = Inr () \<and>
    (\<exists>c1. fm_UpdateParams authority authority bad c = Inr c1 \<and>
      fm_BeginBlock c1 = Inl (GoPanic ''division by zero''))"
proof -
  obtain baseFee where fee: "BaseFee params = Some baseFee"
    using assms(1) by (auto simp: fm_MsgUpdateParams_ValidateBasic_def fm_Params_Validate_def
        split: sum.splits if_splits option.splits)
  have "fm_Params_Validate bad = fm_Params_Validate params"
    by (simp add: bad_def fm_Params_Validate_def split: option.split)
  then have "fm_MsgUpdateParams_ValidateBasic sdk authority bad = Inr ()"
    using assms(1) by (simp add: fm_MsgUpdateParams_ValidateBasic_def split: sum.splits)
  moreover have "CalculateBaseFee (fm_SetParams bad c) = Inl (GoPanic ''division by zero'')"
    using assms(2,3) fee
    by (simp add: CalculateBaseFee_def fm_SetParams_def fm_GetParams_def or_zero_def bad_def
        IsBaseFeeEnabled_def big_Div_zero Let_def)
  ultimately show ?thesis by (simp add: fm_UpdateParams_def fm_BeginBlock_def)
qed

theorem zero_elasticity_halts_chain_witness:
  "\<exists>c1. fm_UpdateParams ''gov'' ''gov'' (fm_DefaultParams \<lparr>geth_BaseFeeChangeDenominator = 8,
      geth_ElasticityMultiplier = 2, geth_InitialBaseFee = 1000000000\<rparr> \<lparr>ElasticityMultiplier := 0\<rparr>)
      (sample_fm 2 0) = Inr c1 \<and> fm_BeginBlock c1 = Inl (GoPanic ''division by zero'')"
  using zero_elasticity_halts_chain [of "\<lparr>AccAddressFromBech32 = (\<lambda>a. Inr a), ValidateDenom = (\<lambda>_. Inr ())\<rparr>"
      "''gov''" "fm_DefaultParams \<lparr>geth_BaseFeeChangeDenominator = 8, geth_ElasticityMultiplier = 2,
      geth_InitialBaseFee = 1000000000\<rparr>" "sample_fm 2 0"]
  by (auto simp: fm_DefaultParams_def fm_MsgUpdateParams_ValidateBasic_def fm_Params_Validate_def
      validateMinGasMultiplier_def validateMinGasPrice_def dec_one_def sample_fm_def)

text \<open>The larger of a share of some gas and the gas used, as an integer.\<close>

lemma truncated_share:
  assumes "0 \<le> w" and "0 \<le> d" and "d \<le> dec_one" and "0 \<le> used"
  shows "TruncateInt (max (w * d) (used * dec_one)) = max (w * d div dec_one) used"
    and "0 \<le> w * d div dec_one" and "w * d div dec_one \<le> w"
proof -
  have one: "0 < dec_one" by (simp add: dec_one_def)
  have "0 \<le> max (w * d) (used * dec_one)" using assms by (simp add: le_max_iff_disj)
  then have "max (w * d) (used * dec_one) sdiv dec_one = max (w * d) (used * dec_one) div dec_one"
    using one by (simp add: signed_divide_int_def sgn_if)
  also have "\<dots> = max (w * d div dec_one) used"
    using one zdiv_mono1 [of "w * d" "used * dec_one" dec_one] zdiv_mono1 [of "used * dec_one" "w * d" dec_one]
    by (auto simp: max_def)
  finally show "TruncateInt (max (w * d) (used * dec_one)) = max (w * d div dec_one) used"
    by (simp add: TruncateInt_def)
  show "w * d div dec_one \<le> w"
    using mult_left_mono [OF assms(3,1)] zdiv_mono1 [of "w * d" "w * dec_one" dec_one] one by simp
  show "0 \<le> w * d div dec_one" using assms one by (simp add: pos_imp_zdiv_nonneg_iff)
qed

text \<open>
  The gas that a block wants cannot be inflated for free: at the end of a block the stored block
  gas is the wanted gas times the minimum gas multiplier, rounded down, but at least the gas that was
  used; with a multiplier of at most one it lies between the gas used and the larger of both.
\<close>

theorem EndBlock_limits_gas_wanted:
  assumes "\<And>n d. dec_Mul D (n * dec_one) d = n * d"
    and "MinGasMultiplier (fm_GetParams c) = Some d" and "0 \<le> d" and "d \<le> dec_one"
    and "fm_gasMeter c = Some used" and "0 \<le> used" and "in_i64 used"
    and "0 \<le> GetTransientGasWanted c" and "in_i64 (GetTransientGasWanted c)"
  shows "\<exists>c1. fm_EndBlock D c = Inr c1 \<and>
    GetBlockGasWanted c1 = max (GetTransientGasWanted c * d div dec_one) used \<and>
    used \<le> GetBlockGasWanted c1 \<and> GetBlockGasWanted c1 \<le> max (GetTransientGasWanted c) used"
  using assms truncated_share [OF assms(8,3,4,6)]
  by (auto simp: fm_EndBlock_def in_u64_def in_i64_def SetBlockGasWanted_def GetBlockGasWanted_def Let_def max_def)

definition sample_dec :: dec_ops where
  "sample_dec = \<lparr>dec_Mul = (\<lambda>x y. x * y div dec_one), dec_Quo = (\<lambda>x y. Inr (x * dec_one div y)),
     dec_QuoInt = (\<lambda>x y. Inr (x div y)), dec_Power = (\<lambda>x n. x ^ nat n)\<rparr>"

lemma sample_dec_exact: "dec_Mul sample_dec (n * dec_one) d = n * d"
proof -
  have "n * dec_one * d = n * d * dec_one" by simp
  then show ?thesis by (simp add: sample_dec_def dec_one_def)
qed

theorem EndBlock_limits_gas_wanted_witness:
  "\<exists>c1. fm_EndBlock sample_dec (sample_fm 2 0) = Inr c1 \<and> GetBlockGasWanted c1 = 15000000"
  using EndBlock_limits_gas_wanted [OF sample_dec_exact, of "sample_fm 2 0" "50 * 10 ^ 16" 21000]
  by (auto simp: sample_fm_simps GetTransientGasWanted_def in_i64_def dec_one_def)

end
