(* ===== verification/StateTransition.thy ===== *)
theory StateTransition
  imports EvmTheorems EvmParams FeeMarket
begin

text \<open>
  From a message to a state transition (x/evm/keeper: state_transition.go, gas.go, fees.go, config.go,
  keeper.go, params.go, precompiles.go, static_precompiles.go, block_proposer.go, EthCall of grpc_query.go;
  x/evm/core/core/utils.go; x/evm/types/tx_args.go; types/gasmeter.go).

  \<^item> \<open>'k chain_ctx\<close> is the \<open>sdk.Context\<close>: the store \<open>'k\<close> the keepers of all modules read and write, the parameters
    of this module, the transient store (a key that is not there reads as zero), the gas meter and
    the block header. A cache context is a copy of it; committing it takes over its store.
  \<^item> \<open>('k, 't) evm_host\<close> is what the keeper is built with: the functions of the SDK and of go-ethereum, the other
    keepers, and the precompiles. A transaction is of go-ethereum's type \<open>'t\<close>, read by \<open>ho_AsMessage\<close>.
  \<^item> A result is \<open>evm_stop + (string + 'a) \<times> 'b\<close>: a panic, or an error or a value with what is left behind.
  \<^item> Tracers, telemetry, logging and events are left out, and with them the fields Debug, Tracer and
    NoBaseFee of the configuration, which only they read.
\<close>

section \<open>Messages, contexts and what the keeper is built with\<close>

record Message =
  m_From :: address
  m_To :: "address option"
  m_Nonce :: int
  m_Value :: int
  m_Gas :: int
  m_GasPrice :: int
  m_GasFeeCap :: int
  m_GasTipCap :: int
  m_Data :: bytes
  m_AccessList :: "(address \<times> hash list) list"
  m_IsFake :: bool

record EVMConfig_t =
  cfg_Params :: evm_Params
  cfg_Ethereum :: eth_ChainConfig
  cfg_CoinBase :: address
  cfg_BaseFee :: "int option"

record 'k chain_ctx =
  ctx_store :: 'k
  ctx_params :: "evm_Params option"
  ctx_legacyParams :: evm_Params
  ctx_bloom :: int
  ctx_txIndex :: int
  ctx_logSize :: int
  ctx_gasUsed :: int
  ctx_gasConsumed :: int
  ctx_gasLimit :: int
  ctx_BlockHeight :: int
  ctx_Time :: int
  ctx_HeaderHash :: bytes
  ctx_ProposerAddress :: bytes
  ctx_ChainID :: string
  ctx_blockGasLimit :: "int option"
  ctx_MaxGas :: "int option"

record ('k, 't) evm_host =
  ho_keeper :: "'k keeper"
  ho_geth :: "param \<Rightarrow> int"
  ho_lib :: glib
  ho_eth :: eth_fns
  ho_activators :: "'k activator_map"
  ho_feemarket :: "'k \<Rightarrow> fm_ctx"
  ho_dec :: dec_ops
  ho_IntrinsicGas :: "bytes \<Rightarrow> (address \<times> hash list) list \<Rightarrow> bool \<Rightarrow> bool \<Rightarrow> bool \<Rightarrow> string + int"
  ho_RefundQuotient :: int
  ho_RefundQuotientEIP3529 :: int
  ho_LogsBloom :: "Log list \<Rightarrow> int"
  ho_GetValidatorByConsAddr :: "'k \<Rightarrow> bytes \<Rightarrow> address option"
  ho_CurrentHeaderHash :: "'k chain_ctx \<Rightarrow> bytes option"
  ho_HistoricalHash :: "'k \<Rightarrow> int \<Rightarrow> bytes option"
  ho_precompiles :: "address \<Rightarrow> 'k precompile option"
  ho_ERC20Precompile :: "'k \<Rightarrow> address \<Rightarrow> string + 'k precompile option"
  ho_GetBalance :: "'k \<Rightarrow> address \<Rightarrow> string \<Rightarrow> int"
  ho_SendFromModule :: "string \<Rightarrow> address \<Rightarrow> string \<Rightarrow> int \<Rightarrow> 'k \<Rightarrow> string + 'k"
  ho_chainID :: "int option"
  ho_ParseChainID :: "string \<Rightarrow> string + int"
  ho_AsMessage :: "eth_ChainConfig \<Rightarrow> int \<Rightarrow> int option \<Rightarrow> 't \<Rightarrow> string + Message"
  ho_Hash :: "'t \<Rightarrow> hash"
  ho_Value :: "'t \<Rightarrow> int"
  ho_authority :: string

type_synonym ('e, 's) outcome = "evm_stop + (string + 'e) \<times> 's"

definition lift_go_err :: "go_err + 'a \<Rightarrow> evm_stop + string + 'a" where
  "lift_go_err r = (case r of
      Inl (GoPanicked p) \<Rightarrow> Inl (Panicked p)
    | Inl (GoErr e) \<Rightarrow> Inr (Inl e)
    | Inr x \<Rightarrow> Inr (Inr x))"

section \<open>Parameters and other values of the context\<close>

definition evm_GetParams :: "'k chain_ctx \<Rightarrow> evm_Params" where
  "evm_GetParams ctx = (case ctx_params ctx of None \<Rightarrow> ctx_legacyParams ctx | Some p \<Rightarrow> p)"

definition evm_SetParams :: "('k, 't) evm_host \<Rightarrow> evm_Params \<Rightarrow> 'k chain_ctx \<Rightarrow> string + 'k chain_ctx" where
  "evm_SetParams H params ctx =
     (let params = params\<lparr>ActiveStaticPrecompiles := sort (ActiveStaticPrecompiles params)\<rparr>
      in rbind (evm_Params_Validate (ho_eth H) (map fst (ho_activators H)) params) (\<lambda>_.
         Inr (ctx\<lparr>ctx_params := Some params\<rparr>)))"

definition appendPrecompiles :: "eth_fns \<Rightarrow> string list \<Rightarrow> address list \<Rightarrow> string + string list" where
  "appendPrecompiles F existingPrecompiles addresses =
     (if \<exists>a \<in> set addresses. Hex F a \<in> set existingPrecompiles then Inl ''precompile already registered''
      else Inr (sort (existingPrecompiles @ map (Hex F) addresses)))"

definition EnableStaticPrecompiles :: "('k, 't) evm_host \<Rightarrow> address list \<Rightarrow> 'k chain_ctx \<Rightarrow> string + 'k chain_ctx" where
  "EnableStaticPrecompiles H addresses ctx =
     (let params = evm_GetParams ctx in
      rbind (appendPrecompiles (ho_eth H) (ActiveStaticPrecompiles params) addresses) (\<lambda>updatedPrecompiles.
        evm_SetParams H (params\<lparr>ActiveStaticPrecompiles := updatedPrecompiles\<rparr>) ctx))"

definition EnableEIPs :: "('k, 't) evm_host \<Rightarrow> string list \<Rightarrow> 'k chain_ctx \<Rightarrow> string + 'k chain_ctx" where
  "EnableEIPs H eips ctx =
     (let params = evm_GetParams ctx
      in evm_SetParams H (params\<lparr>ExtraEIPs := sort (ExtraEIPs params @ eips)\<rparr>) ctx)"

definition GetProposerAddress :: "'k chain_ctx \<Rightarrow> bytes \<Rightarrow> bytes" where
  "GetProposerAddress ctx proposerAddress =
     (if length proposerAddress = 0 then ctx_ProposerAddress ctx else proposerAddress)"

definition GetCoinbaseAddress :: "('k, 't) evm_host \<Rightarrow> bytes \<Rightarrow> 'k chain_ctx \<Rightarrow> string + address" where
  "GetCoinbaseAddress H proposerAddress ctx =
     (case ho_GetValidatorByConsAddr H (ctx_store ctx) (GetProposerAddress ctx proposerAddress) of
        None \<Rightarrow> Inl ''failed to retrieve validator from block proposer address''
      | Some operator \<Rightarrow> Inr operator)"

text \<open>\<open>ConfigRules\<close> is \<open>Rules\<close> of go-ethereum's configuration; \<open>IsLondon\<close> and its like are among them.\<close>

definition evm_rules :: "('k, 't) evm_host \<Rightarrow> eth_ChainConfig \<Rightarrow> bool \<Rightarrow> 'k chain_ctx \<Rightarrow> rules" where
  "evm_rules H cfg isMerge ctx = ConfigRules (ho_eth H) cfg (ctx_BlockHeight ctx) isMerge"

definition evm_getBaseFee :: "('k, 't) evm_host \<Rightarrow> bool \<Rightarrow> 'k chain_ctx \<Rightarrow> int option" where
  "evm_getBaseFee H london ctx =
     (if \<not> london then None
      else case GetBaseFee (ho_feemarket H (ctx_store ctx)) of None \<Rightarrow> Some 0 | Some baseFee \<Rightarrow> Some baseFee)"

definition evm_GetBaseFee :: "('k, 't) evm_host \<Rightarrow> eth_ChainConfig \<Rightarrow> 'k chain_ctx \<Rightarrow> int option" where
  "evm_GetBaseFee H cfg ctx = evm_getBaseFee H (IsLondon (evm_rules H cfg False ctx)) ctx"

definition GetMinGasMultiplier :: "('k, 't) evm_host \<Rightarrow> 'k chain_ctx \<Rightarrow> int" where
  "GetMinGasMultiplier H ctx = (case MinGasMultiplier (fm_GetParams (ho_feemarket H (ctx_store ctx))) of
      None \<Rightarrow> 0 | Some d \<Rightarrow> d)"

definition EVMConfig :: "('k, 't) evm_host \<Rightarrow> bytes \<Rightarrow> int option \<Rightarrow> 'k chain_ctx \<Rightarrow> string + EVMConfig_t" where
  "EVMConfig H proposerAddress chainID ctx =
     (let params = evm_GetParams ctx;
          ethCfg = EthereumConfig (ho_eth H) (cfg_ChainConfig params) chainID
      in rbind (GetCoinbaseAddress H proposerAddress ctx) (\<lambda>coinbase.
         Inr \<lparr>cfg_Params = params, cfg_Ethereum = ethCfg, cfg_CoinBase = coinbase,
           cfg_BaseFee = evm_GetBaseFee H ethCfg ctx\<rparr>))"

definition NewTxConfig :: "hash \<Rightarrow> hash \<Rightarrow> int \<Rightarrow> int \<Rightarrow> TxConfig" where
  "NewTxConfig bhash thash txIndex logIndex =
     \<lparr>tx_BlockHash = bhash, tx_TxHash = thash, tx_TxIndex = txIndex, tx_LogIndex = logIndex\<rparr>"

definition NewEmptyTxConfig :: "hash \<Rightarrow> TxConfig" where
  "NewEmptyTxConfig bhash = \<lparr>tx_BlockHash = bhash, tx_TxHash = 0, tx_TxIndex = 0, tx_LogIndex = 0\<rparr>"

definition evm_TxConfig :: "hash \<Rightarrow> 'k chain_ctx \<Rightarrow> TxConfig" where
  "evm_TxConfig txHash ctx = NewTxConfig (SetBytes (ctx_HeaderHash ctx)) txHash (ctx_txIndex ctx) (ctx_logSize ctx)"

definition BlockGasLimit :: "'k chain_ctx \<Rightarrow> int" where
  "BlockGasLimit ctx =
     (let from_params = (case ctx_MaxGas ctx of
          None \<Rightarrow> 0
        | Some maxGas \<Rightarrow> if maxGas = - 1 then 2 ^ 64 - 1 else if maxGas > 0 then maxGas else 0)
      in case ctx_blockGasLimit ctx of
           Some l \<Rightarrow> if l \<noteq> 0 then l else from_params
         | None \<Rightarrow> from_params)"

section \<open>Precompiles\<close>

text \<open>The addresses that the maps of the package list (contracts.go).\<close>

definition DefaultActivePrecompiles :: "rules \<Rightarrow> address list" where
  "DefaultActivePrecompiles r =
     (if IsBerlin r then [1, 2, 3, 4, 5, 6, 7, 8, 9]
      else if IsIstanbul r then [1, 2, 3, 4, 5, 6, 7, 8, 9]
      else if IsByzantium r then [1, 2, 3, 4, 5, 6, 7, 8]
      else [1, 2, 3, 4])"

definition PrecompiledAddressesBerlin :: "address list" where
  "PrecompiledAddressesBerlin = [1, 2, 3, 4, 5, 6, 7, 8, 9]"

definition IsAvailableStaticPrecompile :: "('k, 't) evm_host \<Rightarrow> evm_Params \<Rightarrow> address \<Rightarrow> bool" where
  "IsAvailableStaticPrecompile H params address \<longleftrightarrow>
     Hex (ho_eth H) address \<in> set (ActiveStaticPrecompiles params) \<or> address \<in> set PrecompiledAddressesBerlin"

definition GetStaticPrecompileInstance ::
  "('k, 't) evm_host \<Rightarrow> evm_Params \<Rightarrow> address \<Rightarrow> go_err + 'k precompile option" where
  "GetStaticPrecompileInstance H params address =
     (if IsAvailableStaticPrecompile H params address then
        case ho_precompiles H address of
          None \<Rightarrow> Inl (GoPanicked (GoPanic ''precompiled contract not stored in memory''))
        | Some precompile \<Rightarrow> Inr (Some precompile)
      else Inr None)"

definition GetPrecompileInstance ::
  "('k, 't) evm_host \<Rightarrow> 'k chain_ctx \<Rightarrow> address \<Rightarrow> go_err + 'k precompile option" where
  "GetPrecompileInstance H ctx address =
     rbind (GetStaticPrecompileInstance H (evm_GetParams ctx) address) (\<lambda>found. case found of
       Some precompile \<Rightarrow> Inr (Some precompile)
     | None \<Rightarrow> lift_err (ho_ERC20Precompile H (ctx_store ctx) address))"

text \<open>
  The hook of the precompiles puts the instance for the recipient into the machine just before it is
  looked up there, or returns an error. What it finds for an address is the same during the whole
  transaction, so the machine has it as the function \<open>e_precompiles\<close>.
\<close>

definition precompile_at :: "('k, 't) evm_host \<Rightarrow> 'k chain_ctx \<Rightarrow> address \<Rightarrow> 'k precompile option" where
  "precompile_at H ctx address = (case GetPrecompileInstance H ctx address of Inr (Some p) \<Rightarrow> Some p | _ \<Rightarrow> None)"

definition GetPrecompilesCallHook :: "('k, 't) evm_host \<Rightarrow> 'k chain_ctx \<Rightarrow> address \<Rightarrow> go_panic + string option" where
  "GetPrecompilesCallHook H ctx recipient = (case GetPrecompileInstance H ctx recipient of
      Inl (GoPanicked p) \<Rightarrow> Inl p
    | Inl (GoErr e) \<Rightarrow> Inr (Some e)
    | Inr _ \<Rightarrow> Inr None)"

section \<open>The machine for a message\<close>

definition CanTransfer :: "'k keeper \<Rightarrow> address \<Rightarrow> int \<Rightarrow> 'k StateDB \<Rightarrow> bool \<times> 'k StateDB" where
  "CanTransfer K addr amount db = (let (balance, db) = GetBalance K addr db in (balance \<ge> amount, db))"

definition Transfer :: "'k keeper \<Rightarrow> address \<Rightarrow> address \<Rightarrow> int \<Rightarrow> 'k StateDB \<Rightarrow> 'k StateDB" where
  "Transfer K sender recipient amount db = AddBalance K recipient amount (SubBalance K sender amount db)"

definition GetHashFn :: "('k, 't) evm_host \<Rightarrow> 'k chain_ctx \<Rightarrow> int \<Rightarrow> hash" where
  "GetHashFn H ctx height =
     (case SafeInt64 height of
        Inl _ \<Rightarrow> 0
      | Inr h \<Rightarrow>
          if ctx_BlockHeight ctx = h then
            if length (ctx_HeaderHash ctx) \<noteq> 0 then SetBytes (ctx_HeaderHash ctx)
            else case ho_CurrentHeaderHash H ctx of None \<Rightarrow> 0 | Some headerHash \<Rightarrow> SetBytes headerHash
          else if ctx_BlockHeight ctx > h then
            case ho_HistoricalHash H (ctx_store ctx) h of None \<Rightarrow> 0 | Some headerHash \<Rightarrow> SetBytes headerHash
          else 0)"

text \<open>The hooks of the policy, then the one of the precompiles.\<close>

definition policy_hooks :: "('k, 't) evm_host \<Rightarrow> EVMConfig_t \<Rightarrow> address \<Rightarrow> 'k DefaultOpCodesHooks" where
  "policy_hooks H cfg signer =
     (let accessControl = NewRestrictedPermissionPolicy (ho_eth H) (cfg_AccessControl (cfg_Params cfg)) signer
      in AddCallHooks [GetCallHook accessControl]
           (AddCreateHooks [GetCreateHook accessControl] NewDefaultOpCodesHooks))"

definition message_CallHook ::
  "('k, 't) evm_host \<Rightarrow> 'k chain_ctx \<Rightarrow> EVMConfig_t \<Rightarrow> address \<Rightarrow> address \<Rightarrow> address \<Rightarrow> 'k evm
     \<Rightarrow> go_panic + string option \<times> 'k evm" where
  "message_CallHook H ctx cfg signer caller recipient evm =
     (case hooks_CallHook (policy_hooks H cfg signer) evm caller recipient of
        (Some e, evm) \<Rightarrow> Inr (Some e, evm)
      | (None, evm) \<Rightarrow> rbind (GetPrecompilesCallHook H ctx recipient) (\<lambda>err. Inr (err, evm)))"

definition message_CreateHook ::
  "('k, 't) evm_host \<Rightarrow> EVMConfig_t \<Rightarrow> address \<Rightarrow> address \<Rightarrow> 'k evm \<Rightarrow> string option \<times> 'k evm" where
  "message_CreateHook H cfg signer caller evm = hooks_CreateHook (policy_hooks H cfg signer) evm caller"

definition NewEVM_env :: "('k, 't) evm_host \<Rightarrow> Message \<Rightarrow> EVMConfig_t \<Rightarrow> 'k chain_ctx \<Rightarrow> 'k evm_env" where
  "NewEVM_env H msg cfg ctx = \<lparr>e_keeper = ho_keeper H, e_params = ho_geth H, e_lib = ho_lib H,
     e_rules = evm_rules H (cfg_Ethereum cfg) False ctx, e_ChainID = eth_ChainID (cfg_Ethereum cfg),
     e_CanTransfer = CanTransfer (ho_keeper H), e_Transfer = (\<lambda>a b v db. Inr (Transfer (ho_keeper H) a b v db)),
     e_GetHash = GetHashFn H ctx, e_Coinbase = cfg_CoinBase cfg, e_GasLimit = BlockGasLimit ctx,
     e_BlockNumber = ctx_BlockHeight ctx, e_Time = ctx_Time ctx, e_Difficulty = 0, e_BaseFee = cfg_BaseFee cfg,
     e_Random = None, e_Origin = m_From msg, e_GasPrice = m_GasPrice msg,
     e_CallHook = message_CallHook H ctx cfg (m_From msg), e_CreateHook = message_CreateHook H cfg (m_From msg),
     e_precompiles = precompile_at H ctx\<rparr>"

definition NewEVM_state :: "'k StateDB \<Rightarrow> 'k evm" where
  "NewEVM_state db = \<lparr>ev_StateDB = db, ev_depth = 0, ev_callGasTemp = 0, ev_abort = False, ev_readOnly = False,
     ev_returnData = [], ev_jumpdests = []\<rparr>"

definition NewEVM_table :: "('k, 't) evm_host \<Rightarrow> EVMConfig_t \<Rightarrow> 'k chain_ctx \<Rightarrow> go_panic + string list \<times> 'k JumpTable" where
  "NewEVM_table H cfg ctx = NewEVMInterpreter_table (ho_geth H) (ho_activators H)
     (evm_rules H (cfg_Ethereum cfg) False ctx) None (EIPs (cfg_Params cfg))"

section \<open>Gas\<close>

definition GetEthIntrinsicGas ::
  "('k, 't) evm_host \<Rightarrow> Message \<Rightarrow> eth_ChainConfig \<Rightarrow> bool \<Rightarrow> 'k chain_ctx \<Rightarrow> string + int" where
  "GetEthIntrinsicGas H msg cfg isContractCreation ctx =
     (let homestead = IsHomestead (evm_rules H cfg False ctx); istanbul = IsIstanbul (evm_rules H cfg False ctx)
      in ho_IntrinsicGas H (m_Data msg) (m_AccessList msg) isContractCreation homestead istanbul)"

definition GasToRefund :: "int \<Rightarrow> int \<Rightarrow> int \<Rightarrow> go_panic + int" where
  "GasToRefund availableRefund gasConsumed refundQuotient =
     (if refundQuotient = 0 then Inl (GoPanic ''integer divide by zero'')
      else let refund = gasConsumed div refundQuotient
        in Inr (if refund > availableRefund then availableRefund else refund))"

text \<open>The gas meter that the ante handler installs for Ethereum transactions.\<close>

definition addUint64Overflow :: "int \<Rightarrow> int \<Rightarrow> int \<times> bool" where
  "addUint64Overflow a b = (if 2 ^ 64 - 1 - a < b then (0, True) else (a + b, False))"

definition ConsumeGas :: "int \<Rightarrow> 'k chain_ctx \<Rightarrow> go_panic + 'k chain_ctx" where
  "ConsumeGas amount ctx =
     (let (consumed, overflow) = addUint64Overflow (ctx_gasConsumed ctx) amount
      in if overflow then Inl (GoPanic ''ErrorGasOverflow'') else Inr (ctx\<lparr>ctx_gasConsumed := consumed\<rparr>))"

definition meter_RefundGas :: "int \<Rightarrow> 'k chain_ctx \<Rightarrow> go_panic + 'k chain_ctx" where
  "meter_RefundGas amount ctx =
     (if ctx_gasConsumed ctx < amount then Inl (GoPanic ''ErrorNegativeGasConsumed'')
      else Inr (ctx\<lparr>ctx_gasConsumed := ctx_gasConsumed ctx - amount\<rparr>))"

definition ResetGasMeterAndConsumeGas :: "int \<Rightarrow> 'k chain_ctx \<Rightarrow> go_panic + 'k chain_ctx" where
  "ResetGasMeterAndConsumeGas gasUsed ctx =
     rbind (meter_RefundGas (ctx_gasConsumed ctx) ctx) (\<lambda>ctx. ConsumeGas gasUsed ctx)"

text \<open>\<open>FeeCollectorName\<close> is a constant of the SDK.\<close>

definition FeeCollectorName :: string where "FeeCollectorName = ''fee_collector''"

definition evm_RefundGas :: "('k, 't) evm_host \<Rightarrow> Message \<Rightarrow> int \<Rightarrow> string \<Rightarrow> 'k chain_ctx \<Rightarrow> string + 'k chain_ctx" where
  "evm_RefundGas H msg leftoverGas denom ctx =
     (let remaining = leftoverGas * m_GasPrice msg
      in if remaining < 0 then Inl ''refunded amount value cannot be negative''
         else if remaining > 0 then
           case ho_SendFromModule H FeeCollectorName (m_From msg) denom remaining (ctx_store ctx) of
             Inl e \<Rightarrow> Inl ''fee collector account failed to refund fees''
           | Inr store \<Rightarrow> Inr (ctx\<lparr>ctx_store := store\<rparr>)
         else Inr ctx)"

definition AddTransientGasUsed :: "int \<Rightarrow> 'k chain_ctx \<Rightarrow> string + int \<times> 'k chain_ctx" where
  "AddTransientGasUsed gasUsed ctx =
     (let result = u64 (ctx_gasUsed ctx + gasUsed)
      in if result < gasUsed then Inl ''transient gas used''
         else Inr (result, ctx\<lparr>ctx_gasUsed := result\<rparr>))"

section \<open>Applying a message\<close>

record Response =
  res_GasUsed :: int
  res_VmError :: "evm_error option"
  res_Ret :: bytes
  res_Logs :: "Log list"
  res_Hash :: hash

definition Failed :: "Response \<Rightarrow> bool" where
  "Failed res \<longleftrightarrow> res_VmError res \<noteq> None"

text \<open>The call or creation, on the machine and with the gas left after the intrinsic gas.\<close>

definition execute_message ::
  "'k callee \<Rightarrow> 'k keeper \<Rightarrow> Message \<Rightarrow> int \<Rightarrow> 'k evm \<Rightarrow> evm_stop + (bytes \<times> int \<times> evm_error option) \<times> 'k evm" where
  "execute_message C K msg leftoverGas evm =
     (let sender = AccountRef (m_From msg) in
      case m_To msg of
        None \<Rightarrow>
          let evm = set_db (SetNonce K (m_From msg) (m_Nonce msg) (ev_StateDB evm)) evm
          in rbind (c_Create C sender (m_Data msg) leftoverGas (m_Value msg) evm) (\<lambda>((ret, _, leftoverGas, vmErr), evm).
             Inr ((ret, leftoverGas, vmErr),
               set_db (SetNonce K (m_From msg) (u64 (m_Nonce msg + 1)) (ev_StateDB evm)) evm))
      | Some to \<Rightarrow> c_Call C sender to (m_Data msg) leftoverGas (m_Value msg) evm)"

text \<open>The gas that is charged: what was used less the refund, but at least a share of the limit.\<close>

definition gas_charged :: "('k, 't) evm_host \<Rightarrow> Message \<Rightarrow> int \<Rightarrow> 'k chain_ctx \<Rightarrow> evm_stop + string + int" where
  "gas_charged H msg temporaryGasUsed ctx =
     (let gasLimit = i64 (m_Gas msg) * dec_one;
          minimumGasUsed = dec_Mul (ho_dec H) gasLimit (GetMinGasMultiplier H ctx)
      in if \<not> in_u64 (TruncateInt minimumGasUsed) then Inr (Inl ''minimumGasUsed is not a uint64'')
         else let gasUsed = TruncateInt (max minimumGasUsed (i64 temporaryGasUsed * dec_one))
           in if in_u64 gasUsed then Inr (Inr gasUsed) else Inl (Panicked (GoPanic ''Uint64() out of bounds'')))"

definition finish_message ::
  "('k, 't) evm_host \<Rightarrow> Message \<Rightarrow> bool \<Rightarrow> EVMConfig_t \<Rightarrow> TxConfig \<Rightarrow> 'k chain_ctx \<Rightarrow> (bytes \<times> int \<times> evm_error option) \<times> 'k evm
     \<Rightarrow> (Response, 'k) outcome" where
  "finish_message H msg commit cfg txConfig ctx r = (case r of ((ret, leftoverGas, vmErr), evm) \<Rightarrow>
     let db = ev_StateDB evm;
         isLondon = IsLondon (evm_rules H (cfg_Ethereum cfg) False ctx);
         refundQuotient = (if isLondon then ho_RefundQuotientEIP3529 H else ho_RefundQuotient H)
     in if m_Gas msg < leftoverGas then Inr (Inl ''apply message: gas overflow'', ctx_store ctx)
        else let temporaryGasUsed = u64 (m_Gas msg - leftoverGas) in
          rbind (lift_go (GasToRefund (int (sd_refund db)) temporaryGasUsed refundQuotient)) (\<lambda>refund.
          let leftoverGas = u64 (leftoverGas + refund); temporaryGasUsed = u64 (temporaryGasUsed - refund) in
          rbind (if commit then lift_go_err (Commit (ho_keeper H) db) else Inr (Inr (ctx_store ctx))) (\<lambda>committed.
          case committed of
            Inl e \<Rightarrow> Inr (Inl ''failed to commit stateDB'', ctx_store ctx)
          | Inr store \<Rightarrow>
              rbind (gas_charged H msg temporaryGasUsed ctx) (\<lambda>charged.
              case charged of
                Inl e \<Rightarrow> Inr (Inl e, store)
              | Inr gasUsed \<Rightarrow>
                  if m_Gas msg < leftoverGas then Inr (Inl ''message gas limit < leftover gas'', store)
                  else Inr (Inr \<lparr>res_GasUsed = gasUsed, res_VmError = vmErr, res_Ret = ret, res_Logs = sd_logs db,
                    res_Hash = tx_TxHash txConfig\<rparr>, store)))))"

definition ApplyMessageWithConfig ::
  "('k, 't) evm_host \<Rightarrow> Message \<Rightarrow> bool \<Rightarrow> EVMConfig_t \<Rightarrow> TxConfig \<Rightarrow> 'k chain_ctx \<Rightarrow> (Response, 'k) outcome" where
  "ApplyMessageWithConfig H msg commit cfg txConfig ctx =
     rbind (lift_go (NewEVM_table H cfg ctx)) (\<lambda>(_, jt).
     let E = NewEVM_env H msg cfg ctx;
         C = NewEVM_calls E jt;
         contractCreation = (m_To msg = None)
     in case GetEthIntrinsicGas H msg (cfg_Ethereum cfg) contractCreation ctx of
          Inl e \<Rightarrow> Inr (Inl ''intrinsic gas failed'', ctx_store ctx)
        | Inr intrinsicGas \<Rightarrow>
            if m_Gas msg < intrinsicGas then Inr (Inl ''apply message: intrinsic gas too low'', ctx_store ctx)
            else
              let leftoverGas = m_Gas msg - intrinsicGas;
                  db = NewStateDB (ctx_store ctx) txConfig;
                  rules = evm_rules H (cfg_Ethereum cfg) (eth_MergeNetsplitBlock (cfg_Ethereum cfg) \<noteq> None) ctx
              in rbind (if IsBerlin rules then
                     lift_go (PrepareAccessList (m_From msg) (m_To msg)
                       (DefaultActivePrecompiles (evm_rules H (cfg_Ethereum cfg) False ctx)) (m_AccessList msg) db)
                   else Inr db) (\<lambda>db.
                 rbind (execute_message C (ho_keeper H) msg leftoverGas (NewEVM_state db))
                   (finish_message H msg commit cfg txConfig ctx)))"

definition ApplyMessage ::
  "('k, 't) evm_host \<Rightarrow> Message \<Rightarrow> bool \<Rightarrow> 'k chain_ctx \<Rightarrow> (Response, 'k) outcome" where
  "ApplyMessage H msg commit ctx =
     (case EVMConfig H (ctx_ProposerAddress ctx) (ho_chainID H) ctx of
        Inl e \<Rightarrow> Inr (Inl ''failed to load evm config'', ctx_store ctx)
      | Inr cfg \<Rightarrow> ApplyMessageWithConfig H msg commit cfg (NewEmptyTxConfig (SetBytes (ctx_HeaderHash ctx))) ctx)"

section \<open>Applying a transaction\<close>

text \<open>
  The message runs on a cache context, which shares the gas meter; its store is taken over when the
  transaction did not fail.
\<close>

definition settle_transaction ::
  "('k, 't) evm_host \<Rightarrow> Message \<Rightarrow> EVMConfig_t \<Rightarrow> TxConfig \<Rightarrow> Response \<Rightarrow> 'k \<Rightarrow> 'k chain_ctx
     \<Rightarrow> (Response, 'k chain_ctx) outcome" where
  "settle_transaction H msg cfg txConfig res tmpStore ctx0 =
     (let logs = res_Logs res;
          bloom = or (ctx_bloom ctx0) (ho_LogsBloom H logs);
          ctx = (if \<not> Failed res then ctx0\<lparr>ctx_store := tmpStore\<rparr> else ctx0)
      in case evm_RefundGas H msg (u64 (m_Gas msg - res_GasUsed res)) (EvmDenom (cfg_Params cfg)) ctx of
           Inl e \<Rightarrow> Inr (Inl ''failed to refund gas leftover gas to sender'', ctx)
         | Inr ctx \<Rightarrow>
             let ctx = (if length logs > 0
                   then ctx\<lparr>ctx_bloom := bloom, ctx_logSize := u64 (tx_LogIndex txConfig + int (length logs))\<rparr> else ctx);
                 ctx = ctx\<lparr>ctx_txIndex := u64 (tx_TxIndex txConfig + 1)\<rparr>
             in case AddTransientGasUsed (res_GasUsed res) ctx of
                  Inl e \<Rightarrow> Inr (Inl ''failed to add transient gas used'', ctx)
                | Inr (totalGasUsed, ctx) \<Rightarrow>
                    rbind (lift_go (ResetGasMeterAndConsumeGas totalGasUsed ctx)) (\<lambda>ctx. Inr (Inr res, ctx)))"

definition ApplyTransaction :: "('k, 't) evm_host \<Rightarrow> 't \<Rightarrow> 'k chain_ctx \<Rightarrow> (Response, 'k chain_ctx) outcome" where
  "ApplyTransaction H tx ctx =
     (case EVMConfig H (ctx_ProposerAddress ctx) (ho_chainID H) ctx of
        Inl e \<Rightarrow> Inr (Inl ''failed to load evm config'', ctx)
      | Inr cfg \<Rightarrow>
          let txConfig = evm_TxConfig (ho_Hash H tx) ctx in
          case ho_AsMessage H (cfg_Ethereum cfg) (ctx_BlockHeight ctx) (cfg_BaseFee cfg) tx of
            Inl e \<Rightarrow> Inr (Inl ''failed to return ethereum transaction as core message'', ctx)
          | Inr msg \<Rightarrow>
              rbind (ApplyMessageWithConfig H msg True cfg txConfig ctx) (\<lambda>(r, tmpStore). case r of
                Inl e \<Rightarrow>
                  rbind (lift_go (ResetGasMeterAndConsumeGas (ctx_gasLimit ctx) ctx)) (\<lambda>ctx.
                    Inr (Inl ''failed to apply ethereum core message'', ctx))
              | Inr res \<Rightarrow> settle_transaction H msg cfg txConfig res tmpStore ctx))"

section \<open>Calls without a transaction\<close>

record TransactionArgs =
  a_From :: "address option"
  a_To :: "address option"
  a_Gas :: "int option"
  a_GasPrice :: "int option"
  a_MaxFeePerGas :: "int option"
  a_MaxPriorityFeePerGas :: "int option"
  a_Value :: "int option"
  a_Nonce :: "int option"
  a_Data :: "bytes option"
  a_Input :: "bytes option"
  a_AccessList :: "(address \<times> hash list) list option"

definition GetFrom :: "TransactionArgs \<Rightarrow> address" where
  "GetFrom args = (case a_From args of None \<Rightarrow> 0 | Some a \<Rightarrow> a)"

definition GetData :: "TransactionArgs \<Rightarrow> bytes" where
  "GetData args = (case a_Input args of Some i \<Rightarrow> i | None \<Rightarrow> (case a_Data args of Some d \<Rightarrow> d | None \<Rightarrow> []))"

definition ToMessage :: "TransactionArgs \<Rightarrow> int \<Rightarrow> int option \<Rightarrow> string + Message" where
  "ToMessage args globalGasCap baseFee =
     (if a_GasPrice args \<noteq> None \<and> (a_MaxFeePerGas args \<noteq> None \<or> a_MaxPriorityFeePerGas args \<noteq> None)
      then Inl ''both gasPrice and (maxFeePerGas or maxPriorityFeePerGas) specified''
      else
        let addr = GetFrom args;
            gas0 = (if globalGasCap = 0 then (2 ^ 64 - 1) div 2 else globalGasCap);
            gas1 = (case a_Gas args of None \<Rightarrow> gas0 | Some g \<Rightarrow> g);
            gas = (if globalGasCap \<noteq> 0 \<and> globalGasCap < gas1 then globalGasCap else gas1);
            or0 = (\<lambda>v. case v of None \<Rightarrow> 0 | Some x \<Rightarrow> x);
            (gasPrice, gasFeeCap, gasTipCap) = (case baseFee of
                None \<Rightarrow> let p = or0 (a_GasPrice args) in (p, p, p)
              | Some base \<Rightarrow> (case a_GasPrice args of
                  Some p \<Rightarrow> (p, p, p)
                | None \<Rightarrow>
                    let feeCap = or0 (a_MaxFeePerGas args); tipCap = or0 (a_MaxPriorityFeePerGas args)
                    in (if feeCap \<noteq> 0 \<or> tipCap \<noteq> 0 then min (tipCap + base) feeCap else 0, feeCap, tipCap)))
        in Inr \<lparr>m_From = addr, m_To = a_To args, m_Nonce = or0 (a_Nonce args), m_Value = or0 (a_Value args), m_Gas = gas,
             m_GasPrice = gasPrice, m_GasFeeCap = gasFeeCap, m_GasTipCap = gasTipCap, m_Data = GetData args,
             m_AccessList = (case a_AccessList args of None \<Rightarrow> [] | Some l \<Rightarrow> l), m_IsFake = True\<rparr>)"

definition evm_GetNonce :: "('k, 't) evm_host \<Rightarrow> address \<Rightarrow> 'k chain_ctx \<Rightarrow> int" where
  "evm_GetNonce H addr ctx = (case k_GetAccount (ho_keeper H) (ctx_store ctx) addr of
      None \<Rightarrow> 0 | Some acct \<Rightarrow> raw_Nonce acct)"

definition evm_GetBalance :: "('k, 't) evm_host \<Rightarrow> address \<Rightarrow> 'k chain_ctx \<Rightarrow> int" where
  "evm_GetBalance H addr ctx = (let evmDenom = EvmDenom (evm_GetParams ctx) in
     if evmDenom = [] then - 1 else ho_GetBalance H (ctx_store ctx) addr evmDenom)"

definition Balance_query :: "('k, 't) evm_host \<Rightarrow> string \<Rightarrow> 'k chain_ctx \<Rightarrow> string + int" where
  "Balance_query H address ctx =
     (case ValidateAddress (ho_eth H) address of
        Inl _ \<Rightarrow> Inl ''invalid argument: zero address''
      | Inr _ \<Rightarrow> Inr (evm_GetBalance H (HexToAddress (ho_eth H) address) ctx))"

definition getChainID :: "('k, 't) evm_host \<Rightarrow> int \<Rightarrow> 'k chain_ctx \<Rightarrow> string + int" where
  "getChainID H chainID ctx = (if chainID = 0 then ho_ParseChainID H (ctx_ChainID ctx) else Inr chainID)"

text \<open>The arguments arrive as JSON; the model starts from what the decoder makes of it.\<close>

definition EthCall :: "('k, 't) evm_host \<Rightarrow> TransactionArgs \<Rightarrow> int \<Rightarrow> bytes \<Rightarrow> int \<Rightarrow> 'k chain_ctx
    \<Rightarrow> evm_stop + string + Response" where
  "EthCall H args gasCap proposerAddress chainId ctx =
     (case rbind (getChainID H chainId ctx) (\<lambda>chainID.
        rbind (EVMConfig H (GetProposerAddress ctx proposerAddress) (Some chainID) ctx) (\<lambda>cfg.
        let nonce = evm_GetNonce H (GetFrom args) ctx in
        rbind (ToMessage (args\<lparr>a_Nonce := Some nonce\<rparr>) gasCap (cfg_BaseFee cfg)) (\<lambda>msg. Inr (cfg, msg)))) of
        Inl e \<Rightarrow> Inr (Inl e)
      | Inr (cfg, msg) \<Rightarrow>
          if m_To msg = None then Inl (Panicked nil_deref)
          else rbind (ApplyMessageWithConfig H msg False cfg (NewEmptyTxConfig (SetBytes (ctx_HeaderHash ctx))) ctx)
            (\<lambda>(r, _). Inr r))"

end
