(* ===== verification/TxGate.thy ===== *)
theory TxGate
  imports StateTransition
begin

text \<open>
  The message server of x/evm (x/evm/keeper/msg_server.go): a transaction of an address that is not on
  the whitelist runs only while the chain is open and the wallet is not locked, as two contracts say.

  \<^item> The verdicts are kept in two maps of the process, outside the store: \<open>gate_caches\<close>. Their age is
    measured with the clock of the machine the node runs on. \<open>gate_clock\<close> holds its readings, in
    nanoseconds: when the caches are cleaned up, looked up, and written.
  \<^item> The counters for the statistics and the logging are left out, and so are the mutex and the
    telemetry. The ABI encoding of the two calls is written out as the code does it.
\<close>

section \<open>The caches\<close>

record chainStatusCache =
  cs_isOpen :: bool
  cs_timestamp :: int
  cs_height :: int

record walletLockCache =
  wl_isUnlocked :: bool
  wl_timestamp :: int
  wl_height :: int
  wl_amount :: int

record gate_caches =
  chainStatusCacheMap :: "string \<rightharpoonup> chainStatusCache"
  walletLockCacheMap :: "string \<rightharpoonup> walletLockCache"

record gate_clock =
  at_cleanup :: int
  at_lookup :: int
  at_store :: int

definition cacheDuration :: int where
  "cacheDuration = 30 * 10 ^ 9"

definition cleanupCache :: "int \<Rightarrow> gate_caches \<Rightarrow> gate_caches" where
  "cleanupCache now caches = caches
     \<lparr>chainStatusCacheMap := (\<lambda>key. case chainStatusCacheMap caches key of
          Some c \<Rightarrow> if now - cs_timestamp c > cacheDuration then None else Some c | None \<Rightarrow> None),
      walletLockCacheMap := (\<lambda>key. case walletLockCacheMap caches key of
          Some c \<Rightarrow> if now - wl_timestamp c > cacheDuration then None else Some c | None \<Rightarrow> None)\<rparr>"

definition abs_i64 :: "int \<Rightarrow> int" where
  "abs_i64 x = (if x < 0 then i64 (- x) else x)"

definition periodic_cleanup :: "gate_clock \<Rightarrow> int \<Rightarrow> gate_caches \<Rightarrow> gate_caches" where
  "periodic_cleanup clock height caches =
     (if height mod 10 = 0 then cleanupCache (at_cleanup clock) caches else caches)"

section \<open>The contracts\<close>

definition text_bytes :: "string \<Rightarrow> bytes" where
  "text_bytes = map (\<lambda>c. of_nat (of_char c))"

definition getFunctionSelector :: "('k, 't) evm_host \<Rightarrow> string \<Rightarrow> bytes" where
  "getFunctionSelector H signature = take 4 (Bytes32 (keccak (ho_keeper H) (text_bytes signature)))"

definition big_bytes :: "bytes \<Rightarrow> int" where
  "big_bytes bs = foldl (\<lambda>n b. 256 * n + uint b) 0 bs"

definition gate_args :: "address \<Rightarrow> address \<Rightarrow> bytes \<Rightarrow> TransactionArgs" where
  "gate_args from to data = \<lparr>a_From = Some from, a_To = Some to, a_Gas = None, a_GasPrice = None, a_MaxFeePerGas = None,
     a_MaxPriorityFeePerGas = None, a_Value = None, a_Nonce = None, a_Data = Some data, a_Input = None,
     a_AccessList = None\<rparr>"

definition isWhitelisted :: "('k, 't) evm_host \<Rightarrow> address \<Rightarrow> 'k chain_ctx \<Rightarrow> bool" where
  "isWhitelisted H address ctx \<longleftrightarrow> Hex (ho_eth H) address \<in> set (WhitelistedAddresses (evm_GetParams ctx))"

section \<open>Is the chain open?\<close>

definition IsChainOpen ::
  "('k, 't) evm_host \<Rightarrow> gate_clock \<Rightarrow> address \<Rightarrow> 'k chain_ctx \<Rightarrow> gate_caches \<Rightarrow> (bool, gate_caches) outcome" where
  "IsChainOpen H clock from ctx caches0 =
     (let params = evm_GetParams ctx in
      if \<not> EnableChainStatusCheck params then Inr (Inr True, caches0)
      else if \<not> IsContractSet (OnlineServerCountContract params) then Inr (Inr True, caches0)
      else
        let currentHeight = ctx_BlockHeight ctx;
            caches = periodic_cleanup clock currentHeight caches0;
            cacheKey = ''chain_status'';
            hit = (case chainStatusCacheMap caches cacheKey of
                None \<Rightarrow> None
              | Some c \<Rightarrow> if at_lookup clock - cs_timestamp c < cacheDuration \<and>
                    abs_i64 (i64 (currentHeight - cs_height c)) \<le> 10 then Some (cs_isOpen c) else None)
        in case hit of
             Some isOpen \<Rightarrow> Inr (Inr isOpen, caches)
           | None \<Rightarrow>
               let previousCtx = ctx\<lparr>ctx_BlockHeight := i64 (currentHeight - 1)\<rparr>;
                   addr = HexToAddress (ho_eth H) (OnlineServerCountContract params);
                   args = gate_args from addr (getFunctionSelector H ''getOnlineServerCount()'')
               in rbind (EthCall H args 25000000 (ctx_ProposerAddress ctx) 0 previousCtx) (\<lambda>r. case r of
                    Inl err \<Rightarrow> Inr (Inl err, caches)
                  | Inr res \<Rightarrow>
                      let count = big_bytes (res_Ret res); isOpen = (count \<ge> 1000)
                      in Inr (Inr isOpen, caches\<lparr>chainStatusCacheMap := (chainStatusCacheMap caches)(cacheKey \<mapsto>
                           \<lparr>cs_isOpen = isOpen, cs_timestamp = at_store clock, cs_height = currentHeight\<rparr>)\<rparr>)))"

section \<open>Is the wallet unlocked?\<close>

text \<open>What the answer of the contract means for an amount: a verdict, with or without an error.\<close>

definition wallet_verdict :: "('k, 't) evm_host \<Rightarrow> address \<Rightarrow> int \<Rightarrow> bytes \<Rightarrow> 'k chain_ctx \<Rightarrow> string + unit" where
  "wallet_verdict H from txAmount ret ctx =
     (let lockStatus = u64 (big_bytes (take 32 ret)) mod 256;
          lockedAmount = big_bytes (take 32 (drop 32 ret))
      in if lockStatus = 0 then Inr ()
         else if lockStatus = 1 then
           rbind (Balance_query H (Hex (ho_eth H) from) ctx) (\<lambda>totalBalance.
             if totalBalance < lockedAmount then Inl ''locked amount exceeds wallet balance''
             else let maxAllowed = totalBalance - lockedAmount; tolerance = 10 ^ 14 in
               if txAmount > maxAllowed then
                 if txAmount - maxAllowed \<le> tolerance then Inr () else Inl ''exceeds limit''
               else Inr ())
         else if lockStatus = 2 then Inl ''wallet is fully locked''
         else Inl ''unknown lock status'')"

definition IsWalletUnlocked ::
  "('k, 't) evm_host \<Rightarrow> gate_clock \<Rightarrow> address \<Rightarrow> int \<Rightarrow> 'k chain_ctx \<Rightarrow> gate_caches \<Rightarrow> (bool, gate_caches) outcome" where
  "IsWalletUnlocked H clock from txAmount ctx caches0 =
     (let params = evm_GetParams ctx in
      if \<not> EnableWalletLockCheck params then Inr (Inr True, caches0)
      else if \<not> IsContractSet (WalletStateContractAddress params) then Inr (Inr True, caches0)
      else
        let currentHeight = ctx_BlockHeight ctx;
            walletKey = Hex (ho_eth H) from;
            caches = periodic_cleanup clock currentHeight caches0;
            hit = (case walletLockCacheMap caches walletKey of
                None \<Rightarrow> None
              | Some c \<Rightarrow> if at_lookup clock - wl_timestamp c < cacheDuration \<and>
                    abs_i64 (i64 (currentHeight - wl_height c)) \<le> 5 \<and> txAmount \<le> wl_amount c
                  then Some (wl_isUnlocked c) else None)
        in case hit of
             Some isUnlocked \<Rightarrow> Inr (Inr isUnlocked, caches)
           | None \<Rightarrow>
               let addr = HexToAddress (ho_eth H) (WalletStateContractAddress params);
                   paddedAddress = replicate 12 0 @ drop 12 (Bytes32 (ucast from));
                   args = gate_args from addr (getFunctionSelector H ''getWalletLock(address)'' @ paddedAddress)
               in rbind (EthCall H args 25000000 [] 0 ctx) (\<lambda>r. case r of
                    Inl err \<Rightarrow> Inr (Inl err, caches)
                  | Inr res \<Rightarrow>
                      if length (res_Ret res) < 96 then Inr (Inl ''invalid response length'', caches)
                      else case wallet_verdict H from txAmount (res_Ret res) ctx of
                        Inl err \<Rightarrow> Inr (Inl err, caches)
                      | Inr _ \<Rightarrow> Inr (Inr True, caches\<lparr>walletLockCacheMap := (walletLockCacheMap caches)(walletKey \<mapsto>
                          \<lparr>wl_isUnlocked = True, wl_timestamp = at_store clock, wl_height = currentHeight,
                           wl_amount = txAmount\<rparr>)\<rparr>)))"

section \<open>Messages\<close>

text \<open>The two checks that come before a transaction; \<open>clock2\<close> is for the second.\<close>

definition admit_transaction ::
  "('k, 't) evm_host \<Rightarrow> gate_clock \<Rightarrow> gate_clock \<Rightarrow> address \<Rightarrow> int \<Rightarrow> 'k chain_ctx \<Rightarrow> gate_caches
     \<Rightarrow> (unit, gate_caches) outcome" where
  "admit_transaction H clock clock2 from txAmount ctx caches =
     (if isWhitelisted H from ctx \<or> IsBootstrapMode (evm_GetParams ctx) then Inr (Inr (), caches)
      else rbind (IsChainOpen H clock from ctx caches) (\<lambda>(r, caches). case r of
        Inl err \<Rightarrow> Inr (Inl ''failed to check if chain is open'', caches)
      | Inr isOpen \<Rightarrow>
          if \<not> isOpen then Inr (Inl ''chain is closed'', caches)
          else rbind (IsWalletUnlocked H clock2 from txAmount ctx caches) (\<lambda>(r, caches). case r of
            Inr True \<Rightarrow> Inr (Inr (), caches)
          | _ \<Rightarrow> Inr (Inl ''transaction rejected: wallet is locked'', caches))))"

definition EthereumTx ::
  "('k, 't) evm_host \<Rightarrow> gate_clock \<Rightarrow> gate_clock \<Rightarrow> string \<Rightarrow> 't \<Rightarrow> 'k chain_ctx \<Rightarrow> gate_caches
     \<Rightarrow> (Response, 'k chain_ctx \<times> gate_caches) outcome" where
  "EthereumTx H clock clock2 msg_From tx ctx caches =
     (let from = HexToAddress (ho_eth H) msg_From in
      rbind (admit_transaction H clock clock2 from (ho_Value H tx) ctx caches) (\<lambda>(r, caches). case r of
        Inl err \<Rightarrow> Inr (Inl err, ctx, caches)
      | Inr _ \<Rightarrow> rbind (ApplyTransaction H tx ctx) (\<lambda>(r, ctx). case r of
          Inl err \<Rightarrow> Inr (Inl ''failed to apply transaction'', ctx, caches)
        | Inr response \<Rightarrow> Inr (Inr response, ctx, caches))))"

definition evm_UpdateParams ::
  "('k, 't) evm_host \<Rightarrow> string \<Rightarrow> evm_Params \<Rightarrow> 'k chain_ctx \<Rightarrow> string + 'k chain_ctx" where
  "evm_UpdateParams H req_Authority req_Params ctx =
     (if ho_authority H \<noteq> req_Authority then Inl ''invalid authority''
      else evm_SetParams H req_Params ctx)"

end
