(* ===== verification/MessageSafety.thy ===== *)
theory MessageSafety
  imports StateTransition
begin

text \<open>
  The gas of a message and what a transaction leaves behind, on top of what the machine promises.

  \<^item> \<open>host_laws\<close> is what is relied on of the code outside: the constants of go-ethereum, checked
    arithmetic, the precompiles. \<open>gas_laws\<close> adds the intrinsic gas, the refund quotients and the
    product of \<open>LegacyDec\<close>, which is exact when one factor is an integer.
\<close>

section \<open>What is relied on\<close>

definition host_laws :: "('k, 't) evm_host \<Rightarrow> bool" where
  "host_laws H \<longleftrightarrow> params_ok (ho_geth H) \<and> lib_ok (ho_lib H) \<and>
     (\<forall>a p. ho_precompiles H a = Some p \<longrightarrow> precompile_ok p) \<and>
     (\<forall>s a p. ho_ERC20Precompile H s a = Inr (Some p) \<longrightarrow> precompile_ok p)"

definition gas_laws :: "('k, 't) evm_host \<Rightarrow> bool" where
  "gas_laws H \<longleftrightarrow> (\<forall>n d. dec_Mul (ho_dec H) (n * dec_one) d = n * d) \<and>
     0 < ho_RefundQuotient H \<and> 0 < ho_RefundQuotientEIP3529 H \<and>
     (\<forall>data al c h i g. ho_IntrinsicGas H data al c h i = Inr g \<longrightarrow> 0 \<le> g)"

section \<open>The machine of a message\<close>

lemma run_hooks_state:
  "\<forall>hook \<in> set hooks. \<forall>evm. snd (hook evm) = evm \<Longrightarrow> snd (run_hooks hooks evm) = evm"
proof (induction hooks arbitrary: evm)
  case (Cons hook hooks)
  obtain err evm1 where hook: "hook evm = (err, evm1)" by (cases "hook evm")
  moreover have "evm1 = evm" using Cons.prems hook by (metis list.set_intros(1) snd_conv)
  ultimately show ?case using Cons by (cases err) simp_all
qed simp

lemma policy_hooks_state:
  "snd (hooks_CallHook (policy_hooks H cfg signer) evm caller recipient) = evm"
  "snd (hooks_CreateHook (policy_hooks H cfg signer) evm caller) = evm"
  unfolding hooks_CallHook_def hooks_CreateHook_def policy_hooks_def Let_def
  by (rule run_hooks_state; simp add: AddCallHooks_def AddCreateHooks_def NewDefaultOpCodesHooks_def GetCallHook_def
      GetCreateHook_def)+

lemma message_CallHook_state: "message_CallHook H ctx cfg signer caller recipient evm = Inr (err, evm1) \<Longrightarrow> evm1 = evm"
  using policy_hooks_state(1) [of H cfg signer evm caller recipient]
  by (auto simp: message_CallHook_def rbind_def split: prod.splits option.splits sum.splits)

lemma precompile_at_ok:
  assumes "host_laws H" and "precompile_at H ctx a = Some p"
  shows "precompile_ok p"
  using assms
  by (auto simp: host_laws_def precompile_at_def GetPrecompileInstance_def GetStaticPrecompileInstance_def rbind_def
      lift_err_def split: sum.splits option.splits if_splits)

lemma message_env_ok:
  assumes "host_laws H"
  shows "env_ok (NewEVM_env H msg cfg ctx)" and "host_ok (NewEVM_env H msg cfg ctx)"
proof -
  show "env_ok (NewEVM_env H msg cfg ctx)"
    using assms by (simp add: env_ok_def host_laws_def NewEVM_env_def)
  show "host_ok (NewEVM_env H msg cfg ctx)"
    unfolding host_ok_def NewEVM_env_def
    by (auto simp: message_CreateHook_def policy_hooks_state dest!: message_CallHook_state intro: precompile_at_ok [OF assms])
qed

section \<open>The gas of a message\<close>

lemma execute_message_ok:
  assumes "host_laws H" and "table_ok (NewEVM_env H msg cfg ctx) jt" and "in_u64 gas" and "evm_inv 0 evm"
  shows "result_ok 0 gas (execute_message (NewEVM_calls (NewEVM_env H msg cfg ctx) jt) K msg gas evm)"
proof -
  have ok: "callee_ok 0 (NewEVM_calls (NewEVM_env H msg cfg ctx) jt)"
    by (rule machine_ok(2) [OF message_env_ok [OF assms(1)] assms(2)]) simp
  have db: "evm_inv 0 (set_db db evm)" for db using assms(4) by (simp add: evm_inv_def set_db_def)
  note create = callee_create(1) [OF ok db assms(3)]
  show ?thesis
  proof (cases "m_To msg")
    case None
    then show ?thesis
      using create [of "AccountRef (m_From msg)" "m_Data msg" "m_Value msg"
          "SetNonce K (m_From msg) (m_Nonce msg) (ev_StateDB evm)"]
      by (auto simp: execute_message_def rbind_def create_ok_def evm_inv_def set_db_def split: sum.splits)
  next
    case (Some to)
    then show ?thesis using callee_calls(1) [OF ok assms(4,3)] by (simp add: execute_message_def)
  qed
qed

lemma GasToRefund_bounds:
  assumes "0 < q" and "0 \<le> gas"
  shows "\<exists>r. GasToRefund (int available) gas q = Inr r \<and> 0 \<le> r \<and> r \<le> gas"
proof -
  have "gas div q \<le> gas div 1" by (rule zdiv_mono2) (use assms in simp_all)
  moreover have "0 \<le> gas div q" using assms by (simp add: pos_imp_zdiv_nonneg_iff)
  ultimately show ?thesis using assms by (auto simp: GasToRefund_def Let_def)
qed

lemma gas_charged_ok:
  assumes "gas_laws H" and "0 \<le> GetMinGasMultiplier H ctx" and "GetMinGasMultiplier H ctx \<le> dec_one"
    and "0 \<le> used" and "used \<le> m_Gas msg" and "m_Gas msg < 2 ^ 63"
  shows "gas_charged H msg used ctx = Inr (Inr (max (m_Gas msg * GetMinGasMultiplier H ctx div dec_one) used))"
    and "max (m_Gas msg * GetMinGasMultiplier H ctx div dec_one) used \<le> m_Gas msg"
proof -
  let ?d = "GetMinGasMultiplier H ctx"
  have gas: "0 \<le> m_Gas msg" using assms by simp
  have id: "i64 (m_Gas msg) = m_Gas msg" "i64 used = used" using assms by (simp_all add: i64_id in_i64_def)
  have mul: "dec_Mul (ho_dec H) (m_Gas msg * dec_one) ?d = m_Gas msg * ?d" using assms(1) by (simp add: gas_laws_def)
  note share = truncated_share [OF gas assms(2,3)]
  have "0 \<le> m_Gas msg * ?d" using gas assms(2) by simp
  then have "max (m_Gas msg * ?d) (0 * dec_one) = m_Gas msg * ?d" by (simp only: mult_zero_left max_absorb1)
  then have min: "TruncateInt (m_Gas msg * ?d) = max (m_Gas msg * ?d div dec_one) 0"
    using share(1) [OF order_refl] by metis
  show "max (m_Gas msg * ?d div dec_one) used \<le> m_Gas msg" using share(3) [of used] assms by simp
  then show "gas_charged H msg used ctx = Inr (Inr (max (m_Gas msg * ?d div dec_one) used))"
    unfolding gas_charged_def Let_def id mul min share(1) [OF assms(4)]
    using share(2,3) [OF assms(4)] assms by (auto simp: in_u64_def max_def)
qed

text \<open>What the state transition says about the gas of a message.\<close>

definition message_gas_ok :: "Message \<Rightarrow> int \<Rightarrow> (Response, 'k) outcome \<Rightarrow> bool" where
  "message_gas_ok msg share r \<longleftrightarrow> (case r of
      Inl p \<Rightarrow> benign p
    | Inr (Inl e, _) \<Rightarrow> e \<in> {''intrinsic gas failed'', ''apply message: intrinsic gas too low'', ''failed to commit stateDB''}
    | Inr (Inr res, _) \<Rightarrow> share \<le> res_GasUsed res \<and> res_GasUsed res \<le> m_Gas msg)"

text \<open>The end of a message whose machine left no more gas than there was: only the commit can fail.\<close>

lemma finish_message_charges:
  assumes "gas_laws H" and "0 \<le> GetMinGasMultiplier H ctx" and "GetMinGasMultiplier H ctx \<le> dec_one"
    and "0 \<le> left" and "left \<le> m_Gas msg" and "m_Gas msg < 2 ^ 63"
  shows "\<exists>gas. m_Gas msg * GetMinGasMultiplier H ctx div dec_one \<le> gas \<and> gas \<le> m_Gas msg \<and>
    finish_message H msg commit cfg txConfig ctx ((ret, left, err), evm) =
      rbind (if commit then lift_go_err (Commit (ho_keeper H) (ev_StateDB evm)) else Inr (Inr (ctx_store ctx))) (\<lambda>committed.
      case committed of
        Inl e \<Rightarrow> Inr (Inl ''failed to commit stateDB'', ctx_store ctx)
      | Inr store \<Rightarrow> Inr (Inr \<lparr>res_GasUsed = gas, res_VmError = err, res_Ret = ret, res_Logs = sd_logs (ev_StateDB evm),
          res_Hash = tx_TxHash txConfig\<rparr>, store))"
proof -
  let ?used = "m_Gas msg - left" and ?K = "ho_keeper H"
  have u: "u64 ?used = ?used" using assms by (simp add: u64_id in_u64_def)
  have "0 < (if IsLondon (evm_rules H (cfg_Ethereum cfg) False ctx) then ho_RefundQuotientEIP3529 H else ho_RefundQuotient H)"
    using assms(1) by (simp add: gas_laws_def)
  then obtain r where r: "GasToRefund (int (sd_refund (ev_StateDB evm))) ?used
      (if IsLondon (evm_rules H (cfg_Ethereum cfg) False ctx) then ho_RefundQuotientEIP3529 H else ho_RefundQuotient H) = Inr r"
    "0 \<le> r" "r \<le> ?used"
    using GasToRefund_bounds assms by (metis diff_ge_0_iff_ge)
  have u2: "u64 (?used - r) = ?used - r" "u64 (left + r) = left + r" using assms r by (simp_all add: u64_id in_u64_def)
  note charged = gas_charged_ok [OF assms(1-3), of "?used - r" msg]
  have "\<not> m_Gas msg < left" "\<not> m_Gas msg < left + r" using assms(5) r(3) by simp_all
  then have "finish_message H msg commit cfg txConfig ctx ((ret, left, err), evm) =
      rbind (if commit then lift_go_err (Commit ?K (ev_StateDB evm)) else Inr (Inr (ctx_store ctx))) (\<lambda>committed.
      case committed of
        Inl e \<Rightarrow> Inr (Inl ''failed to commit stateDB'', ctx_store ctx)
      | Inr store \<Rightarrow> Inr (Inr \<lparr>res_GasUsed = max (m_Gas msg * GetMinGasMultiplier H ctx div dec_one) (?used - r),
          res_VmError = err, res_Ret = ret, res_Logs = sd_logs (ev_StateDB evm), res_Hash = tx_TxHash txConfig\<rparr>, store))"
    using r charged(1) assms(4,6) by (simp add: finish_message_def Let_def u u2 cong: sum.case_cong)
  moreover have "max (m_Gas msg * GetMinGasMultiplier H ctx div dec_one) (?used - r) \<le> m_Gas msg"
    by (rule charged(2)) (use r assms(4,6) in simp_all)
  ultimately show ?thesis by (metis max.cobounded1)
qed

lemma finish_message_ok:
  assumes "gas_laws H" and "0 \<le> GetMinGasMultiplier H ctx" and "GetMinGasMultiplier H ctx \<le> dec_one"
    and "0 \<le> left" and "left \<le> m_Gas msg" and "m_Gas msg < 2 ^ 63"
  shows "message_gas_ok msg (m_Gas msg * GetMinGasMultiplier H ctx div dec_one)
    (finish_message H msg commit cfg txConfig ctx ((ret, left, err), evm))"
proof -
  define m where "m = (if commit then lift_go_err (Commit (ho_keeper H) (ev_StateDB evm)) else Inr (Inr (ctx_store ctx)))"
  have "benign p" if "m = Inl p" for p
    using that by (auto simp: m_def lift_go_err_def split: if_splits sum.splits go_err.splits)
  then show ?thesis
    using finish_message_charges [OF assms, of commit cfg txConfig ret err evm, folded m_def]
    by (cases m; cases "projr m") (auto simp: message_gas_ok_def rbind_def)
qed

text \<open>A tables of instructions that the machine of a message can be built with.\<close>

definition message_table :: "('k, 't) evm_host \<Rightarrow> Message \<Rightarrow> EVMConfig_t \<Rightarrow> 'k chain_ctx \<Rightarrow> bool" where
  "message_table H msg cfg ctx \<longleftrightarrow>
     (\<exists>rest jt. NewEVM_table H cfg ctx = Inr (rest, jt) \<and> table_ok (NewEVM_env H msg cfg ctx) jt)"

lemma result_ok_finish:
  assumes "result_ok 0 gas r" and "gas \<le> m_Gas msg"
    and "\<And>ret left err evm. 0 \<le> left \<Longrightarrow> left \<le> m_Gas msg \<Longrightarrow> message_gas_ok msg share (f ((ret, left, err), evm))"
  shows "message_gas_ok msg share (rbind r f)"
proof (cases r)
  case (Inl p)
  then show ?thesis using assms(1) by (simp add: message_gas_ok_def)
next
  case (Inr v)
  obtain ret left err evm where "v = ((ret, left, err), evm)" by (metis prod.exhaust)
  then show ?thesis using assms Inr by simp
qed

lemma message_gas_prepare:
  "(\<And>db. message_gas_ok msg share (k db)) \<Longrightarrow> message_gas_ok msg share (rbind (lift_go m) k)"
  by (cases m) (simp_all add: message_gas_ok_def)

lemma message_gas_ok_message:
  assumes "host_laws H" and "gas_laws H" and "message_table H msg cfg ctx"
    and "0 \<le> GetMinGasMultiplier H ctx" and "GetMinGasMultiplier H ctx \<le> dec_one" and "0 \<le> m_Gas msg" and "m_Gas msg < 2 ^ 63"
  shows "message_gas_ok msg (m_Gas msg * GetMinGasMultiplier H ctx div dec_one)
    (ApplyMessageWithConfig H msg commit cfg txConfig ctx)"
proof -
  obtain rest jt where jt: "NewEVM_table H cfg ctx = Inr (rest, jt)" "table_ok (NewEVM_env H msg cfg ctx) jt"
    using assms(3) by (auto simp: message_table_def)
  have call: "message_gas_ok msg (m_Gas msg * GetMinGasMultiplier H ctx div dec_one)
      (rbind (execute_message (NewEVM_calls (NewEVM_env H msg cfg ctx) jt) (ho_keeper H) msg (m_Gas msg - g) (NewEVM_state db))
        (finish_message H msg commit cfg txConfig ctx))" if "0 \<le> g" and "g \<le> m_Gas msg" for g db
  proof (rule result_ok_finish)
    show "result_ok 0 (m_Gas msg - g)
      (execute_message (NewEVM_calls (NewEVM_env H msg cfg ctx) jt) (ho_keeper H) msg (m_Gas msg - g) (NewEVM_state db))"
      by (rule execute_message_ok [OF assms(1) jt(2)]) (use that assms in \<open>simp_all add: in_u64_def evm_inv_def NewEVM_state_def\<close>)
  qed (use that finish_message_ok [OF assms(2,4,5) _ _ assms(7)] in simp_all)
  have intrinsic: "0 \<le> g" if "GetEthIntrinsicGas H msg c cr ctx = Inr g" for c cr g
    using that assms(2) by (auto simp: GetEthIntrinsicGas_def gas_laws_def Let_def)
  show ?thesis
  proof (cases "GetEthIntrinsicGas H msg (cfg_Ethereum cfg) (m_To msg = None) ctx")
    case (Inl e)
    then show ?thesis by (simp add: ApplyMessageWithConfig_def jt(1) message_gas_ok_def)
  next
    case (Inr g)
    show ?thesis
    proof (cases "m_Gas msg < g")
      case True
      then show ?thesis using Inr by (simp add: ApplyMessageWithConfig_def jt(1) message_gas_ok_def)
    next
      case False
      have "message_gas_ok msg (m_Gas msg * GetMinGasMultiplier H ctx div dec_one)
          (rbind (execute_message (NewEVM_calls (NewEVM_env H msg cfg ctx) jt) (ho_keeper H) msg (m_Gas msg - g) (NewEVM_state db))
            (finish_message H msg commit cfg txConfig ctx))" for db
        using call False intrinsic [OF Inr] by simp
      then show ?thesis using Inr False
        by (auto simp: ApplyMessageWithConfig_def jt(1) Let_def intro: message_gas_prepare)
    qed
  qed
qed

text \<open>
  C16: The gas of a message stays within what was bought: whatever the code does, a message that goes through is
  charged at least the share of its gas limit that the fee market asks for and never more than the limit.
  The error returns for a gas that has wrapped around are never taken, and no bound of the machine is met.
\<close>

theorem message_gas_bounds:
  assumes "host_laws H" and "gas_laws H" and "message_table H msg cfg ctx"
    and "0 \<le> GetMinGasMultiplier H ctx" and "GetMinGasMultiplier H ctx \<le> dec_one" and "0 \<le> m_Gas msg" and "m_Gas msg < 2 ^ 63"
  shows "message_gas_ok msg (m_Gas msg * GetMinGasMultiplier H ctx div dec_one)
    (ApplyMessageWithConfig H msg commit cfg txConfig ctx)"
  by (rule message_gas_ok_message [OF assms])

section \<open>Settling a transaction\<close>

text \<open>What is paid for the gas that was not used.\<close>

definition gas_refund :: "Message \<Rightarrow> Response \<Rightarrow> int" where
  "gas_refund msg res = (m_Gas msg - res_GasUsed res) * m_GasPrice msg"

definition refund_store :: "('k, 't) evm_host \<Rightarrow> Message \<Rightarrow> EVMConfig_t \<Rightarrow> Response \<Rightarrow> 'k \<Rightarrow> 'k \<Rightarrow> bool" where
  "refund_store H msg cfg res base store \<longleftrightarrow> 0 \<le> gas_refund msg res \<and>
     (if gas_refund msg res = 0 then store = base
      else ho_SendFromModule H FeeCollectorName (m_From msg) (EvmDenom (cfg_Params cfg)) (gas_refund msg res) base = Inr store)"

lemma evm_RefundGas_store:
  assumes "evm_RefundGas H msg left denom ctx = Inr ctx1"
  shows "\<exists>store. ctx1 = ctx\<lparr>ctx_store := store\<rparr> \<and> 0 \<le> left * m_GasPrice msg \<and>
    (if left * m_GasPrice msg = 0 then store = ctx_store ctx
     else ho_SendFromModule H FeeCollectorName (m_From msg) denom (left * m_GasPrice msg) (ctx_store ctx) = Inr store)"
  using assms by (auto simp: evm_RefundGas_def Let_def split: if_splits sum.splits)

lemma ResetGasMeter_consumes:
  "ResetGasMeterAndConsumeGas gas ctx = Inr ctx1 \<Longrightarrow> ctx1 = ctx\<lparr>ctx_gasConsumed := gas\<rparr>"
  by (auto simp: ResetGasMeterAndConsumeGas_def meter_RefundGas_def ConsumeGas_def addUint64Overflow_def split: if_splits)

lemma settle_transaction_settles:
  assumes "settle_transaction H msg cfg txConfig res tmp ctx = Inr (Inr res1, ctx1)"
    and "0 \<le> res_GasUsed res" and "res_GasUsed res \<le> m_Gas msg" and "m_Gas msg < 2 ^ 63" and "in_u64 (ctx_gasUsed ctx)"
  shows "res1 = res \<and> refund_store H msg cfg res (if Failed res then ctx_store ctx else tmp) (ctx_store ctx1) \<and>
    ctx_gasConsumed ctx1 = ctx_gasUsed ctx + res_GasUsed res \<and> ctx_gasUsed ctx1 = ctx_gasUsed ctx + res_GasUsed res \<and>
    ctx_txIndex ctx1 = u64 (tx_TxIndex txConfig + 1)"
proof -
  have u: "u64 (m_Gas msg - res_GasUsed res) = m_Gas msg - res_GasUsed res" using assms by (simp add: u64_id)
  let ?ctx = "if \<not> Failed res then ctx\<lparr>ctx_store := tmp\<rparr> else ctx"
  obtain ctx2 where r: "evm_RefundGas H msg (m_Gas msg - res_GasUsed res) (EvmDenom (cfg_Params cfg)) ?ctx = Inr ctx2"
    using assms(1) by (auto simp: settle_transaction_def u Let_def split: sum.splits)
  obtain store where store: "ctx2 = ?ctx\<lparr>ctx_store := store\<rparr>" "refund_store H msg cfg res (ctx_store ?ctx) store"
    using evm_RefundGas_store [OF r] by (auto simp: refund_store_def gas_refund_def)
  have sum: "u64 (ctx_gasUsed ctx + res_GasUsed res) = ctx_gasUsed ctx + res_GasUsed res"
    if "res_GasUsed res \<le> u64 (ctx_gasUsed ctx + res_GasUsed res)"
  proof (rule ccontr)
    assume "u64 (ctx_gasUsed ctx + res_GasUsed res) \<noteq> ctx_gasUsed ctx + res_GasUsed res"
    then have "\<not> ctx_gasUsed ctx + res_GasUsed res < 2 ^ 64" using assms(2,5) u64_id by (auto simp: in_u64_def)
    moreover have "u64 (ctx_gasUsed ctx + res_GasUsed res) = u64 (ctx_gasUsed ctx + res_GasUsed res - 2 ^ 64)"
      by (simp add: u64_def)
    ultimately have "u64 (ctx_gasUsed ctx + res_GasUsed res) = ctx_gasUsed ctx + res_GasUsed res - 2 ^ 64"
      using assms(2-5) u64_id [of "ctx_gasUsed ctx + res_GasUsed res - 2 ^ 64"] by (simp add: in_u64_def)
    then show False using that assms(5) by (simp add: in_u64_def)
  qed
  show ?thesis
    using assms(1) r store sum
    by (auto simp: settle_transaction_def u AddTransientGasUsed_def Let_def split: sum.splits if_splits
        dest!: ResetGasMeter_consumes)
qed

lemma ApplyTransaction_settles:
  assumes "host_laws H" and "gas_laws H" and "EVMConfig H (ctx_ProposerAddress ctx) (ho_chainID H) ctx = Inr cfg"
    and "ho_AsMessage H (cfg_Ethereum cfg) (ctx_BlockHeight ctx) (cfg_BaseFee cfg) tx = Inr msg" and "message_table H msg cfg ctx"
    and "0 \<le> GetMinGasMultiplier H ctx" and "GetMinGasMultiplier H ctx \<le> dec_one" and "0 \<le> m_Gas msg" and "m_Gas msg < 2 ^ 63"
    and "in_u64 (ctx_gasUsed ctx)" and "ApplyTransaction H tx ctx = Inr (Inr res, ctx1)"
  shows "m_Gas msg * GetMinGasMultiplier H ctx div dec_one \<le> res_GasUsed res \<and> res_GasUsed res \<le> m_Gas msg \<and>
    (\<exists>tmp. ApplyMessageWithConfig H msg True cfg (evm_TxConfig (ho_Hash H tx) ctx) ctx = Inr (Inr res, tmp) \<and>
       refund_store H msg cfg res (if Failed res then ctx_store ctx else tmp) (ctx_store ctx1)) \<and>
    ctx_gasUsed ctx1 = ctx_gasUsed ctx + res_GasUsed res \<and> ctx_gasConsumed ctx1 = ctx_gasUsed ctx1"
proof -
  obtain r tmp where app: "ApplyMessageWithConfig H msg True cfg (evm_TxConfig (ho_Hash H tx) ctx) ctx = Inr (r, tmp)"
    using assms(3,4,11) by (cases "ApplyMessageWithConfig H msg True cfg (evm_TxConfig (ho_Hash H tx) ctx) ctx")
      (auto simp: ApplyTransaction_def)
  obtain res0 where r: "r = Inr res0" and
    settle: "settle_transaction H msg cfg (evm_TxConfig (ho_Hash H tx) ctx) res0 tmp ctx = Inr (Inr res, ctx1)"
    using assms(3,4,11) app by (cases r) (auto simp: ApplyTransaction_def rbind_def split: sum.splits)
  have gas: "m_Gas msg * GetMinGasMultiplier H ctx div dec_one \<le> res_GasUsed res0" "res_GasUsed res0 \<le> m_Gas msg"
    using message_gas_ok_message [OF assms(1,2,5-9), of True "evm_TxConfig (ho_Hash H tx) ctx"] app r
    by (simp_all add: message_gas_ok_def)
  have "0 \<le> m_Gas msg * GetMinGasMultiplier H ctx div dec_one"
    by (rule truncated_share(2) [OF assms(8,6,7) order_refl])
  with settle_transaction_settles [OF settle _ gas(2) assms(9,10)] gas app r show ?thesis by auto
qed

text \<open>
  C15: A transaction that goes through is charged for the gas used, which is at most its limit and at least
  the share of it that the fee market asks for: the rest of what was bought comes out of the
  fee collector at the same price, and nothing more. If the machine failed, that refund is all that is
  left of the transaction: none of the writes of the message is taken over. The gas meter ends at what all
  messages of the transaction have used.
\<close>

theorem transaction_settles:
  assumes "host_laws H" and "gas_laws H" and "EVMConfig H (ctx_ProposerAddress ctx) (ho_chainID H) ctx = Inr cfg"
    and "ho_AsMessage H (cfg_Ethereum cfg) (ctx_BlockHeight ctx) (cfg_BaseFee cfg) tx = Inr msg" and "message_table H msg cfg ctx"
    and "0 \<le> GetMinGasMultiplier H ctx" and "GetMinGasMultiplier H ctx \<le> dec_one" and "0 \<le> m_Gas msg" and "m_Gas msg < 2 ^ 63"
    and "in_u64 (ctx_gasUsed ctx)" and "ApplyTransaction H tx ctx = Inr (Inr res, ctx1)"
  shows "m_Gas msg * GetMinGasMultiplier H ctx div dec_one \<le> res_GasUsed res \<and> res_GasUsed res \<le> m_Gas msg \<and>
    (\<exists>tmp. ApplyMessageWithConfig H msg True cfg (evm_TxConfig (ho_Hash H tx) ctx) ctx = Inr (Inr res, tmp) \<and>
       refund_store H msg cfg res (if Failed res then ctx_store ctx else tmp) (ctx_store ctx1)) \<and>
    ctx_gasUsed ctx1 = ctx_gasUsed ctx + res_GasUsed res \<and> ctx_gasConsumed ctx1 = ctx_gasUsed ctx1"
  by (rule ApplyTransaction_settles [OF assms])

section \<open>An instance\<close>

text \<open>
  A chain with the rules of Frontier whose accounts are all empty, and a contract outside the machine at
  every address: \<open>f s a input\<close> is what it returns in store \<open>s\<close>. A transaction is its message.
\<close>

definition sample_eth :: eth_fns where
  "sample_eth = \<lparr>Hex = (\<lambda>a. replicate (unat a) (CHR ''x'')), HexToAddress = (\<lambda>s. of_nat (length s)), IsHexAddress = (\<lambda>_. True),
     HexToHash = (\<lambda>_. 0), AccAddressFromBech32 = (\<lambda>_. True), ValidateDenom = (\<lambda>_. True),
     ChannelIdentifierValidator = (\<lambda>_. True), CheckConfigForkOrder = (\<lambda>_. None),
     ConfigRules = (\<lambda>_ _ _. \<lparr>IsHomestead = False, IsEIP150 = False, IsEIP158 = False, IsByzantium = False,
       IsConstantinople = False, IsPetersburg = False, IsIstanbul = False, IsBerlin = False, IsLondon = False, IsMerge = False\<rparr>)\<rparr>"

definition blank_keeper :: "'k keeper" where
  "blank_keeper = \<lparr>k_GetAccount = (\<lambda>_ _. None), k_GetState = (\<lambda>_ _ _. 0), k_GetCode = (\<lambda>_ _. None),
     k_StorageList = (\<lambda>_ _. []), k_SetAccount = (\<lambda>s _ _. Inr s), k_SetState = (\<lambda>s _ _ _. s), k_SetCode = (\<lambda>s _ _. s),
     k_DeleteAccount = (\<lambda>s _. Inr s), keccak = (\<lambda>bs. word_of_int (int (length bs)) + 1)\<rparr>"

definition sample_precompile :: "(bytes \<Rightarrow> bytes) \<Rightarrow> address \<Rightarrow> 'k precompile" where
  "sample_precompile f a = \<lparr>pc_Address = a, pc_RequiredGas = (\<lambda>_. 0),
     pc_Run = (\<lambda>contract readOnly evm. Inr ((f (ct_Input contract), None), contract, evm))\<rparr>"

definition sample_host :: "('k \<Rightarrow> address \<Rightarrow> bytes \<Rightarrow> bytes) \<Rightarrow> (address \<Rightarrow> int) \<Rightarrow> ('k, Message) evm_host" where
  "sample_host f balance = \<lparr>ho_keeper = blank_keeper, ho_geth = mainnet_params, ho_lib = word_lib, ho_eth = sample_eth,
     ho_activators = activators mainnet_params, ho_feemarket = (\<lambda>_. sample_fm 2 0), ho_dec = sample_dec,
     ho_IntrinsicGas = (\<lambda>_ _ _ _ _. Inr 21000), ho_RefundQuotient = 2, ho_RefundQuotientEIP3529 = 5, ho_LogsBloom = (\<lambda>_. 0),
     ho_GetValidatorByConsAddr = (\<lambda>_ _. Some 0), ho_CurrentHeaderHash = (\<lambda>_. None), ho_HistoricalHash = (\<lambda>_ _. None),
     ho_precompiles = (\<lambda>_. None), ho_ERC20Precompile = (\<lambda>s a. Inr (Some (sample_precompile (f s a) a))),
     ho_GetBalance = (\<lambda>_ a _. balance a), ho_SendFromModule = (\<lambda>_ _ _ _ s. Inr s), ho_chainID = Some 9000, ho_ParseChainID = (\<lambda>_. Inr 9000),
     ho_AsMessage = (\<lambda>_ _ _ tx. Inr tx), ho_Hash = (\<lambda>_. 0), ho_Value = m_Value, ho_authority = ''gov''\<rparr>"

definition sample_chain :: "'k \<Rightarrow> evm_Params \<Rightarrow> int \<Rightarrow> 'k chain_ctx" where
  "sample_chain s params height = \<lparr>ctx_store = s, ctx_params = Some (params\<lparr>ExtraEIPs := [], ActiveStaticPrecompiles := []\<rparr>), ctx_legacyParams = evm_DefaultParams,
     ctx_bloom = 0, ctx_txIndex = 0, ctx_logSize = 0, ctx_gasUsed = 0, ctx_gasConsumed = 0, ctx_gasLimit = 100000,
     ctx_BlockHeight = height, ctx_Time = 1, ctx_HeaderHash = [], ctx_ProposerAddress = [], ctx_ChainID = ''nxq_9000-1'',
     ctx_blockGasLimit = None, ctx_MaxGas = None\<rparr>"

lemma sample_eth_hex [simp]: "HexToAddress sample_eth (Hex sample_eth a) = a"
  by (simp add: sample_eth_def)

lemma sample_host_laws: "host_laws (sample_host f balance)" "gas_laws (sample_host f balance)"
  using mainnet_params_ok word_lib_ok sample_dec_exact
  by (auto simp: host_laws_def gas_laws_def sample_host_def precompile_ok_def sample_precompile_def)

text \<open>The addresses of the built-in precompiled contracts are below 10.\<close>

lemma sample_precompile_at:
  assumes "9 < a"
  shows "GetPrecompileInstance (sample_host f balance) (sample_chain s params h) a = Inr (Some (sample_precompile (f s a) a))"
proof -
  have "a \<notin> set PrecompiledAddressesBerlin" using assms by (auto simp: PrecompiledAddressesBerlin_def)
  then show ?thesis
    by (simp add: GetPrecompileInstance_def GetStaticPrecompileInstance_def IsAvailableStaticPrecompile_def sample_host_def
        sample_chain_def evm_GetParams_def lift_err_def)
qed

text \<open>
  Every machine has a table when its extra EIPs have activators, those of eips.go, and the chain has passed the fork of
  Constantinople; without extra EIPs no fork is asked for.
\<close>

definition known_eips :: "('k, 't) evm_host \<Rightarrow> rules \<Rightarrow> string list \<Rightarrow> bool" where
  "known_eips H r eips \<longleftrightarrow> eips = [] \<or> (ho_activators H = activators (ho_geth H) \<and> after_constantinople r \<and> IsEIP150 r \<and>
     archive_eip \<notin> set eips \<and> (\<forall>eip \<in> set eips. ExistsEipActivator (ho_activators H) eip))"

lemma message_table_no_eips:
  assumes "host_laws H" and "rules_ordered (evm_rules H (cfg_Ethereum cfg) False ctx)" and "ExtraEIPs (cfg_Params cfg) = []"
  shows "message_table H msg cfg ctx"
proof -
  let ?E = "NewEVM_env H msg cfg ctx"
  have "rules_ordered (e_rules ?E)" using assms(2) by (simp add: NewEVM_env_def)
  from DefaultJumpTable_ok [OF message_env_ok(1) [OF assms(1)] this]
  obtain jt where "DefaultJumpTable (ho_geth H) (evm_rules H (cfg_Ethereum cfg) False ctx) = Inr jt" "table_ok ?E jt"
    by (auto simp: yields_def NewEVM_env_def)
  then show ?thesis using assms(3)
    by (auto simp: message_table_def NewEVM_table_def NewEVMInterpreter_table_def EIPs_def enable_eips.simps)
qed

lemma message_table_known:
  assumes "host_laws H" and "rules_ordered (evm_rules H (cfg_Ethereum cfg) False ctx)"
    and "known_eips H (evm_rules H (cfg_Ethereum cfg) False ctx) (ExtraEIPs (cfg_Params cfg))"
  shows "message_table H msg cfg ctx"
proof (cases "ExtraEIPs (cfg_Params cfg) = []")
  case True
  with message_table_no_eips [OF assms(1,2)] show ?thesis by blast
next
  case False
  let ?E = "NewEVM_env H msg cfg ctx"
  have "e_rules ?E = evm_rules H (cfg_Ethereum cfg) False ctx" "e_params ?E = ho_geth H" by (simp_all add: NewEVM_env_def)
  with False assms interpreter_table_ok [OF message_env_ok(1) [OF assms(1)], of msg cfg ctx "ExtraEIPs (cfg_Params cfg)"]
  show ?thesis by (auto simp: known_eips_def message_table_def NewEVM_table_def EIPs_def)
qed

lemma sample_table:
  assumes "ExtraEIPs (cfg_Params cfg) = []"
  shows "message_table (sample_host f balance) msg cfg ctx"
  by (rule message_table_no_eips [OF sample_host_laws(1) _ assms])
    (simp add: sample_host_def sample_eth_def evm_rules_def rules_ordered_def)

definition open_access :: AccessControl where
  "open_access = \<lparr>ac_Create = \<lparr>AccessType_of = AccessTypePermissionless, AccessControlList = []\<rparr>,
     ac_Call = \<lparr>AccessType_of = AccessTypePermissionless, AccessControlList = []\<rparr>\<rparr>"

lemma sample_host_sel [simp]:
  "ho_keeper (sample_host f balance) = blank_keeper" "ho_geth (sample_host f balance) = mainnet_params"
  "ho_eth (sample_host f balance) = sample_eth" "ho_GetBalance (sample_host f balance) s a d = balance a"
  "ho_ParseChainID (sample_host f balance) i = Inr 9000" "ho_GetValidatorByConsAddr (sample_host f balance) s b = Some 0"
  "ho_chainID (sample_host f balance) = Some 9000" "ho_IntrinsicGas (sample_host f balance) bs al b1 b2 b3 = Inr 21000"
  "ho_Value (sample_host f balance) = m_Value" "ho_AsMessage (sample_host f balance) c h bf tx = Inr tx"
  "ho_feemarket (sample_host f balance) s = sample_fm 2 0" "ho_SendFromModule (sample_host f balance) m a d n s = Inr s"
  by (simp_all add: sample_host_def)

lemma sample_rules: "\<not> IsBerlin (evm_rules (sample_host f balance) c b ctx)"
  by (simp add: evm_rules_def sample_eth_def)

lemma sample_CallHook:
  assumes "cfg_AccessControl (cfg_Params cfg) = open_access" and "9 < recipient"
  shows "message_CallHook (sample_host f balance) (sample_chain s params h) cfg signer caller recipient evm = Inr (None, evm)"
  using assms
  by (simp add: message_CallHook_def policy_hooks_def hooks_CallHook_def AddCallHooks_def AddCreateHooks_def Let_def
      NewDefaultOpCodesHooks_def GetCallHook_def NewRestrictedPermissionPolicy_def getCanCallFn_def permissionlessCheckFn_def
      open_access_def GetPrecompilesCallHook_def sample_precompile_at)

text \<open>A call of a contract outside the machine, without value.\<close>

lemma evm_Call_precompile:
  assumes "e_CallHook E (Address caller) addr evm = Inr (None, evm)" and "ev_depth evm \<le> e_params E CallCreateDepth"
    and "e_precompiles E addr = Some p" and "\<And>db. \<exists>db1. e_Transfer E (Address caller) addr 0 db = Inr db1"
    and "0 \<le> gas" and "pc_RequiredGas p input = 0" and "\<And>c evm. pc_Run p c False evm = Inr ((f (ct_Input c), None), c, evm)"
  shows "\<exists>evm1. evm_Call run E caller addr input gas 0 evm = Inr ((f input, gas, None), evm1)"
proof -
  obtain snapshot evm1 where s: "with_db Snapshot evm = (snapshot, evm1)" by (cases "with_db Snapshot evm")
  obtain exist evm2 where e: "with_db (Exist (e_keeper E) addr) evm1 = (exist, evm2)" by (cases "with_db (Exist (e_keeper E) addr) evm1")
  define evm3 where "evm3 = (if \<not> exist then set_db (CreateAccount (e_keeper E) addr (ev_StateDB evm2)) evm2 else evm2)"
  obtain db where t: "e_Transfer E (Address caller) addr 0 (ev_StateDB evm3) = Inr db" using assms(4) by blast
  show ?thesis
    using assms(1,2,3,5,6,7) t evm3_def
    by (simp add: evm_Call_def guarded_def s e Let_def RunPrecompiledContract_def UseGas_def NewPrecompile_def settle_def)
qed

lemma sample_call:
  assumes "cfg_AccessControl (cfg_Params cfg) = open_access" and "m_To msg = Some to" and "9 < to" and "m_Value msg = 0" and "0 \<le> gas"
    and E_def: "E = NewEVM_env (sample_host f balance) msg cfg (sample_chain s params h)"
  shows "\<exists>evm. execute_message (NewEVM_calls E jt) K msg gas (NewEVM_state db) = Inr ((f s to (m_Data msg), gas, None), evm)"
proof -
  have p: "e_precompiles E to = Some (sample_precompile (f s to) to)"
    using assms(3) by (simp add: E_def NewEVM_env_def precompile_at_def sample_precompile_at)
  have "ev_depth (NewEVM_state db) \<le> e_params E CallCreateDepth"
    by (simp add: E_def NewEVM_env_def NewEVM_state_def)
  then show ?thesis using assms(1-5) evm_Call_precompile [OF _ _ p, where f = "f s to"] unfolding E_def
    by (simp add: execute_message_def NewEVM_calls_def callee_of_def NewEVM_env_def sample_CallHook sample_precompile_def)
qed

lemma sample_multiplier: "GetMinGasMultiplier (sample_host f balance) ctx = 5 * 10 ^ 17"
  by (simp add: GetMinGasMultiplier_def fm_GetParams_def sample_fm_def or_zero_def)

lemma sample_message:
  assumes "ExtraEIPs (cfg_Params cfg) = []" and "21000 \<le> m_Gas msg" and "m_Gas msg < 2 ^ 63"
    and "\<And>jt. \<exists>evm. execute_message (NewEVM_calls (NewEVM_env (sample_host f balance) msg cfg ctx) jt) blank_keeper msg
      (m_Gas msg - 21000) (NewEVM_state (NewStateDB (ctx_store ctx) txConfig)) = Inr ((ret, m_Gas msg - 21000, err), evm) \<and>
      (commit \<longrightarrow> (\<exists>store. Commit blank_keeper (ev_StateDB evm) = Inr store))"
  shows "\<exists>res store. ApplyMessageWithConfig (sample_host f balance) msg commit cfg txConfig ctx = Inr (Inr res, store) \<and>
    res_Ret res = ret \<and> res_VmError res = err \<and> 0 \<le> res_GasUsed res \<and> res_GasUsed res \<le> m_Gas msg"
proof -
  let ?H = "sample_host f balance"
  obtain rest jt where jt: "NewEVM_table ?H cfg ctx = Inr (rest, jt)"
    using sample_table [OF assms(1), of f balance msg ctx] unfolding message_table_def by blast
  obtain evm where ex: "execute_message (NewEVM_calls (NewEVM_env ?H msg cfg ctx) jt) blank_keeper msg
      (m_Gas msg - 21000) (NewEVM_state (NewStateDB (ctx_store ctx) txConfig)) = Inr ((ret, m_Gas msg - 21000, err), evm)"
    and c: "commit \<longrightarrow> (\<exists>store. Commit blank_keeper (ev_StateDB evm) = Inr store)"
    using assms(4) by blast
  have m: "0 \<le> GetMinGasMultiplier ?H ctx" "GetMinGasMultiplier ?H ctx \<le> dec_one"
    by (simp_all add: sample_multiplier dec_one_def)
  have left: "0 \<le> m_Gas msg - 21000" "m_Gas msg - 21000 \<le> m_Gas msg" using assms(2) by simp_all
  have "GetEthIntrinsicGas ?H msg (cfg_Ethereum cfg) (m_To msg = None) ctx = Inr 21000"
    by (simp add: GetEthIntrinsicGas_def)
  moreover have "0 \<le> m_Gas msg * GetMinGasMultiplier ?H ctx div dec_one"
    by (rule truncated_share(2) [OF _ m order_refl]) (use assms(2) in simp)
  ultimately show ?thesis
    using finish_message_charges [OF sample_host_laws(2) m left assms(3), of commit cfg txConfig ret err evm] ex c assms(2)
    by (cases commit) (auto simp: ApplyMessageWithConfig_def jt sample_rules Let_def lift_go_err_def)
qed

definition sample_message_to :: "address \<Rightarrow> int \<Rightarrow> Message" where
  "sample_message_to to val = \<lparr>m_From = 3, m_To = Some to, m_Nonce = 0, m_Value = val, m_Gas = 100000, m_GasPrice = 7, m_GasFeeCap = 7,
     m_GasTipCap = 7, m_Data = [], m_AccessList = [], m_IsFake = False\<rparr>"

text \<open>A transfer that the sender cannot pay for.\<close>

lemma sample_transfer_fails:
  assumes "cfg_AccessControl (cfg_Params cfg) = open_access"
  shows "execute_message (NewEVM_calls (NewEVM_env (sample_host f balance) (sample_message_to 50 1) cfg (sample_chain s params h)) jt) K
      (sample_message_to 50 1) gas (NewEVM_state (NewStateDB t txConfig)) =
    Inr (([], gas, Some ErrInsufficientBalance), NewEVM_state (NewStateDB t txConfig))"
  using assms
  by (simp add: execute_message_def NewEVM_calls_def callee_of_def evm_Call_def guarded_def NewEVM_env_def sample_CallHook
      sample_message_to_def NewEVM_state_def with_db_def CanTransfer_def GetBalance_def getStateObject_def NewStateDB_def
      blank_keeper_def set_db_def Let_def)

lemma sample_transaction:
  assumes "cfg_AccessControl params = open_access"
  shows "\<exists>cfg res ctx1. EVMConfig (sample_host f balance) [] (Some 9000) (sample_chain s params h) = Inr cfg \<and>
    message_table (sample_host f balance) (sample_message_to 50 1) cfg (sample_chain s params h) \<and>
    ApplyTransaction (sample_host f balance) (sample_message_to 50 1) (sample_chain s params h) = Inr (Inr res, ctx1) \<and> Failed res"
proof -
  let ?H = "sample_host f balance" and ?ctx = "sample_chain s params h" and ?msg = "sample_message_to 50 1"
  obtain cfg where cfg: "EVMConfig ?H [] (Some 9000) ?ctx = Inr cfg" "cfg_Params cfg = params\<lparr>ExtraEIPs := [], ActiveStaticPrecompiles := []\<rparr>"
    by (simp add: EVMConfig_def GetCoinbaseAddress_def sample_chain_def evm_GetParams_def Let_def)
  have empty: "Commit blank_keeper (NewStateDB t txConfig) = Inr t" for t :: 'a and txConfig
    by (simp add: Commit_def commitWithCtx_def sortedDirties_def NewStateDB_def)
  have [simp]: "m_Gas ?msg = 100000" "m_GasPrice ?msg = 7" "ev_StateDB (NewEVM_state db) = db" for db :: "'a StateDB"
    by (simp_all add: sample_message_to_def NewEVM_state_def)
  have "\<exists>res store. ApplyMessageWithConfig ?H ?msg True cfg (evm_TxConfig (ho_Hash ?H ?msg) ?ctx) ?ctx = Inr (Inr res, store) \<and>
      res_Ret res = [] \<and> res_VmError res = Some ErrInsufficientBalance \<and> 0 \<le> res_GasUsed res \<and> res_GasUsed res \<le> m_Gas ?msg"
    by (rule sample_message) (use cfg(2) assms in \<open>simp_all add: sample_transfer_fails empty\<close>)
  then obtain res tmp where res: "ApplyMessageWithConfig ?H ?msg True cfg (evm_TxConfig (ho_Hash ?H ?msg) ?ctx) ?ctx = Inr (Inr res, tmp)"
    "Failed res" "0 \<le> res_GasUsed res" "res_GasUsed res \<le> 100000" by (auto simp: Failed_def)
  have "\<exists>ctx1. settle_transaction ?H ?msg cfg (evm_TxConfig (ho_Hash ?H ?msg) ?ctx) res tmp ?ctx = Inr (Inr res, ctx1)"
    using res(2-4) by (auto simp: settle_transaction_def evm_RefundGas_def AddTransientGasUsed_def u64_id sample_chain_def
        ResetGasMeterAndConsumeGas_def meter_RefundGas_def ConsumeGas_def addUint64Overflow_def Let_def)
  then show ?thesis
    using cfg(1) res sample_table [of cfg] cfg(2)
    by (auto simp: ApplyTransaction_def sample_chain_def [THEN arg_cong, of ctx_ProposerAddress])
qed

section \<open>Witnesses\<close>

definition sample_cfg :: EVMConfig_t where
  "sample_cfg = \<lparr>cfg_Params = evm_DefaultParams\<lparr>ExtraEIPs := []\<rparr>,
     cfg_Ethereum = EthereumConfig sample_eth DefaultChainConfig (Some 9000), cfg_CoinBase = 0, cfg_BaseFee = None\<rparr>"

lemma default_access [simp]: "cfg_AccessControl evm_DefaultParams = open_access"
  by (simp add: evm_DefaultParams_def open_access_def)

theorem message_gas_bounds_witness:
  "message_gas_ok (sample_message_to 50 1) 50000 (ApplyMessageWithConfig (sample_host (\<lambda>_ _ _. []) (\<lambda>_. 0)) (sample_message_to 50 1) True
    sample_cfg (NewEmptyTxConfig 0) (sample_chain () evm_DefaultParams 7))"
  using message_gas_bounds [OF sample_host_laws sample_table, of sample_cfg "\<lambda>_ _ _. []" "\<lambda>_. 0" "sample_chain () evm_DefaultParams 7"
      "sample_message_to 50 1" True "NewEmptyTxConfig 0"]
  by (simp add: sample_multiplier dec_one_def sample_cfg_def sample_message_to_def)

theorem transaction_settles_witness:
  "\<exists>res ctx1. ApplyTransaction (sample_host (\<lambda>_ _ _. []) (\<lambda>_. 0)) (sample_message_to 50 1) (sample_chain () evm_DefaultParams 7) =
      Inr (Inr res, ctx1) \<and> Failed res \<and> 50000 \<le> res_GasUsed res \<and> res_GasUsed res \<le> 100000 \<and>
      ctx_gasConsumed ctx1 = res_GasUsed res"
proof -
  let ?H = "sample_host (\<lambda>_ _ _. []) (\<lambda>_. 0)" and ?ctx = "sample_chain () evm_DefaultParams 7" and ?tx = "sample_message_to 50 1"
  obtain cfg res ctx1 where tx: "EVMConfig ?H [] (Some 9000) ?ctx = Inr cfg" "message_table ?H ?tx cfg ?ctx"
    "ApplyTransaction ?H ?tx ?ctx = Inr (Inr res, ctx1)" "Failed res"
    using sample_transaction [OF default_access, of "\<lambda>_ _ _. []" "\<lambda>_. 0" "()" 7] by blast
  have ctx: "ctx_ProposerAddress ?ctx = []" "ctx_gasUsed ?ctx = 0" by (simp_all add: sample_chain_def)
  have gas: "m_Gas ?tx = 100000" by (simp add: sample_message_to_def)
  show ?thesis
    using transaction_settles [OF sample_host_laws _ _ tx(2) _ _ _ _ _ tx(3)] tx
    by (simp add: ctx gas sample_multiplier dec_one_def in_u64_def)
qed

end
