(* ===== verification/GateTheorems.thy ===== *)
theory GateTheorems
  imports TxGate MessageSafety
begin

text \<open>
  What the message server of x/evm lets through: the meaning of the answers of the two contracts, and what
  their caching does to it.
\<close>

section \<open>Calls on the instance\<close>

lemma GetData_nonce [simp]: "GetData (args\<lparr>a_Nonce := n\<rparr>) = GetData args"
  by (simp add: GetData_def split: option.split)

lemma sample_EthCall:
  assumes "cfg_AccessControl params = open_access" and "9 < to" and "a_To args = Some to" and "a_Value args = None" and "a_Gas args = None"
    and "a_GasPrice args = None" and "gasCap = 0 \<or> 21000 \<le> gasCap \<and> gasCap < 2 ^ 63"
  shows "\<exists>res. EthCall (sample_host f balance) args gasCap pa 0 (sample_chain s params h) = Inr (Inr res) \<and>
    res_Ret res = f s to (GetData args) \<and> res_VmError res = None"
proof -
  let ?H = "sample_host f balance" and ?ctx = "sample_chain s params h"
  obtain cfg where cfg: "EVMConfig ?H p (Some 9000) ?ctx = Inr cfg" "cfg_Params cfg = params\<lparr>ExtraEIPs := [], ActiveStaticPrecompiles := []\<rparr>"
    "cfg_BaseFee cfg = None" for p
    by (simp add: EVMConfig_def GetCoinbaseAddress_def sample_chain_def evm_GetParams_def evm_GetBaseFee_def evm_getBaseFee_def
        evm_rules_def sample_eth_def Let_def)
  define msg where "msg = projr (ToMessage (args\<lparr>a_Nonce := Some (evm_GetNonce ?H (GetFrom args) ?ctx)\<rparr>) gasCap None)"
  have msg: "ToMessage (args\<lparr>a_Nonce := Some (evm_GetNonce ?H (GetFrom args) ?ctx)\<rparr>) gasCap None = Inr msg"
    "m_To msg = Some to" "m_Value msg = 0" "m_Data msg = GetData args" "21000 \<le> m_Gas msg" "m_Gas msg < 2 ^ 63"
    using assms(3-7) by (auto simp: msg_def ToMessage_def Let_def)
  have acc: "cfg_AccessControl (cfg_Params cfg) = open_access" using cfg(2) assms(1) by simp
  have call: "\<exists>evm. execute_message (NewEVM_calls (NewEVM_env ?H msg cfg ?ctx) jt) blank_keeper msg (m_Gas msg - 21000) (NewEVM_state db) =
      Inr ((f s to (GetData args), m_Gas msg - 21000, None), evm)" for jt db
    by (rule sample_call [OF acc msg(2) assms(2) msg(3) _ refl, unfolded msg(4)]) (use msg(5) in simp)
  have "\<exists>res store. ApplyMessageWithConfig ?H msg False cfg txc ?ctx = Inr (Inr res, store) \<and>
      res_Ret res = f s to (GetData args) \<and> res_VmError res = None \<and> 0 \<le> res_GasUsed res \<and> res_GasUsed res \<le> m_Gas msg" for txc
    by (rule sample_message) (use call cfg(2) msg(5,6) in simp_all)
  then show ?thesis using cfg msg
    by (force simp: EthCall_def getChainID_def)
qed

section \<open>What the wallet contract says\<close>

text \<open>The addresses and their text: \<open>Hex\<close> writes what \<open>HexToAddress\<close> reads.\<close>

definition hex_ok :: "eth_fns \<Rightarrow> bool" where
  "hex_ok F \<longleftrightarrow> (\<forall>a. IsHexAddress F (Hex F a) \<and> HexToAddress F (Hex F a) = a)"

lemma sample_hex_ok: "hex_ok sample_eth"
  by (simp add: hex_ok_def) (simp add: sample_eth_def)

lemma big_bytes_snoc: "big_bytes (bs @ [b]) = 256 * big_bytes bs + uint b"
  by (simp add: big_bytes_def)

lemma u64_mod_256: "u64 x mod 256 = x mod 256"
  by (simp add: u64_def mod_mod_cancel)

lemma lock_status:
  assumes "32 \<le> length ret"
  shows "u64 (big_bytes (take 32 ret)) mod 256 = uint (ret ! 31)"
proof -
  have "take 32 ret = take 31 ret @ [ret ! 31]"
    using take_Suc_conv_app_nth [of 31 ret] assms by simp
  moreover have "uint (ret ! 31) < 256" using unsigned_less [of "ret ! 31"] by simp
  ultimately show ?thesis by (simp add: u64_mod_256 big_bytes_snoc)
qed

text \<open>
  The contract answers with a lock status, a locked amount, and a code that is not used. What a wallet may
  send is all of its balance but the locked amount, and 0.0001 of the token more.
\<close>

definition spending_allowed :: "int \<Rightarrow> int \<Rightarrow> int \<Rightarrow> int \<Rightarrow> bool" where
  "spending_allowed status balance locked amount \<longleftrightarrow>
     status = 0 \<or> status = 1 \<and> locked \<le> balance \<and> amount + locked \<le> balance + 10 ^ 14"

definition wallet_call :: "('k, 't) evm_host \<Rightarrow> address \<Rightarrow> 'k chain_ctx \<Rightarrow> evm_stop + string + Response" where
  "wallet_call H from ctx = EthCall H
     (gate_args from (HexToAddress (ho_eth H) (WalletStateContractAddress (evm_GetParams ctx)))
       (getFunctionSelector H ''getWalletLock(address)'' @ replicate 12 0 @ drop 12 (Bytes32 (ucast from)))) 25000000 [] 0 ctx"

text \<open>The check is on, and the contract is set.\<close>

definition wallet_checked :: "'k chain_ctx \<Rightarrow> bool" where
  "wallet_checked ctx \<longleftrightarrow> EnableWalletLockCheck (evm_GetParams ctx) \<and> IsContractSet (WalletStateContractAddress (evm_GetParams ctx))"

definition fresh_wallet :: "gate_clock \<Rightarrow> int \<Rightarrow> int \<Rightarrow> walletLockCache \<Rightarrow> bool" where
  "fresh_wallet clock height amount c \<longleftrightarrow> at_lookup clock - wl_timestamp c < cacheDuration \<and>
     abs_i64 (i64 (height - wl_height c)) \<le> 5 \<and> amount \<le> wl_amount c"

definition no_fresh_wallet :: "('k, 't) evm_host \<Rightarrow> gate_clock \<Rightarrow> address \<Rightarrow> int \<Rightarrow> 'k chain_ctx \<Rightarrow> gate_caches \<Rightarrow> bool" where
  "no_fresh_wallet H clock from amount ctx caches \<longleftrightarrow>
     (\<forall>c. walletLockCacheMap caches (Hex (ho_eth H) from) = Some c \<longrightarrow> \<not> fresh_wallet clock (ctx_BlockHeight ctx) amount c)"

lemma cleanup_keeps_some:
  "walletLockCacheMap (periodic_cleanup clock height caches) key = Some c \<Longrightarrow> walletLockCacheMap caches key = Some c"
  by (auto simp: periodic_cleanup_def cleanupCache_def split: if_splits option.splits)

lemma wallet_verdict_iff:
  assumes "hex_ok (ho_eth H)" and "32 \<le> length ret"
  shows "wallet_verdict H from amount ret ctx = Inr () \<longleftrightarrow>
    spending_allowed (uint (ret ! 31)) (evm_GetBalance H from ctx) (big_bytes (take 32 (drop 32 ret))) amount"
  using assms(1)
  by (auto simp: wallet_verdict_def lock_status [OF assms(2)] spending_allowed_def Balance_query_def ValidateAddress_def
      hex_ok_def Let_def)

text \<open>A check that asks the contract.\<close>

lemma IsWalletUnlocked_asks:
  assumes "wallet_checked ctx" and "no_fresh_wallet H clock from amount ctx caches"
    and "wallet_call H from ctx = Inr (Inr res)" and "96 \<le> length (res_Ret res)"
  shows "IsWalletUnlocked H clock from amount ctx caches =
    (let caches = periodic_cleanup clock (ctx_BlockHeight ctx) caches in
     case wallet_verdict H from amount (res_Ret res) ctx of
       Inl err \<Rightarrow> Inr (Inl err, caches)
     | Inr _ \<Rightarrow> Inr (Inr True, caches\<lparr>walletLockCacheMap := (walletLockCacheMap caches)(Hex (ho_eth H) from \<mapsto>
         \<lparr>wl_isUnlocked = True, wl_timestamp = at_store clock, wl_height = ctx_BlockHeight ctx, wl_amount = amount\<rparr>)\<rparr>))"
proof -
  let ?caches = "periodic_cleanup clock (ctx_BlockHeight ctx) caches"
  have "(case walletLockCacheMap ?caches (Hex (ho_eth H) from) of
      None \<Rightarrow> None
    | Some c \<Rightarrow> if at_lookup clock - wl_timestamp c < cacheDuration \<and>
          abs_i64 (i64 (ctx_BlockHeight ctx - wl_height c)) \<le> 5 \<and> amount \<le> wl_amount c
        then Some (wl_isUnlocked c) else None) = None"
    using assms(2) cleanup_keeps_some [of clock "ctx_BlockHeight ctx" caches]
    by (auto simp: no_fresh_wallet_def fresh_wallet_def split: option.splits)
  then show ?thesis
    using assms(1,3,4) unfolding IsWalletUnlocked_def Let_def wallet_checked_def wallet_call_def
    by simp
qed

text \<open>
  C18: When the wallet check is on and no fresh verdict is cached, a transaction passes it exactly when the
  wallet contract's answer allows the amount: no lock, or an amount lock whose amount stays in the
  wallet, up to 0.0001 of the token. Otherwise the check is an error, never a plain no, so it is not cached.
\<close>

theorem wallet_lock_enforced:
  assumes "hex_ok (ho_eth H)" and "wallet_checked ctx" and "no_fresh_wallet H clock from amount ctx caches"
    and "wallet_call H from ctx = Inr (Inr res)" and "96 \<le> length (res_Ret res)"
  shows "if spending_allowed (uint (res_Ret res ! 31)) (evm_GetBalance H from ctx) (big_bytes (take 32 (drop 32 (res_Ret res)))) amount
    then \<exists>caches1. IsWalletUnlocked H clock from amount ctx caches = Inr (Inr True, caches1)
    else \<exists>err. IsWalletUnlocked H clock from amount ctx caches = Inr (Inl err, periodic_cleanup clock (ctx_BlockHeight ctx) caches)"
proof -
  have "32 \<le> length (res_Ret res)" using assms(5) by simp
  from wallet_verdict_iff [OF assms(1) this, of "from" amount ctx] show ?thesis
    by (cases "wallet_verdict H from amount (res_Ret res) ctx")
      (auto simp: IsWalletUnlocked_asks [OF assms(2-5)] Let_def)
qed

section \<open>What is cached\<close>

definition empty_caches :: gate_caches where
  "empty_caches = \<lparr>chainStatusCacheMap = (\<lambda>_. None), walletLockCacheMap = (\<lambda>_. None)\<rparr>"

lemma no_fresh_empty: "no_fresh_wallet H clock from amount ctx empty_caches"
  by (simp add: no_fresh_wallet_def empty_caches_def)

text \<open>A fresh entry decides.\<close>

lemma fresh_wallet_decides:
  assumes "wallet_checked ctx" and "walletLockCacheMap caches (Hex (ho_eth H) from) = Some c"
    and "fresh_wallet clock (ctx_BlockHeight ctx) amount c" and "at_cleanup clock - wl_timestamp c \<le> cacheDuration"
  shows "IsWalletUnlocked H clock from amount ctx caches =
    Inr (Inr (wl_isUnlocked c), periodic_cleanup clock (ctx_BlockHeight ctx) caches)"
proof -
  have "walletLockCacheMap (periodic_cleanup clock (ctx_BlockHeight ctx) caches) (Hex (ho_eth H) from) = Some c"
    using assms(2,4) by (simp add: periodic_cleanup_def cleanupCache_def)
  then show ?thesis using assms(1,3)
    unfolding IsWalletUnlocked_def Let_def wallet_checked_def fresh_wallet_def by simp
qed

text \<open>
  C19: A verdict outlives the lock, and nodes need not agree. After a transaction of a wallet has passed the
  check, every transaction of it with at most that amount passes for 30 seconds of the node's clock and
  5 blocks, although the contract meanwhile says that the wallet is fully locked; a node with
  empty caches, one that was restarted say, rejects the very same transaction.
\<close>

theorem cached_verdict_outlives_lock:
  assumes "hex_ok (ho_eth H)" and "wallet_checked ctx" and "no_fresh_wallet H clock from amount ctx caches"
    and "wallet_call H from ctx = Inr (Inr res)" and "96 \<le> length (res_Ret res)"
    and "IsWalletUnlocked H clock from amount ctx caches = Inr (Inr True, caches1)"
    and "evm_GetParams ctx2 = evm_GetParams ctx" and "\<bar>ctx_BlockHeight ctx2 - ctx_BlockHeight ctx\<bar> \<le> 5"
    and "at_lookup clock2 - at_store clock < cacheDuration" and "at_cleanup clock2 - at_store clock \<le> cacheDuration"
    and "amount2 \<le> amount" and "wallet_call H from ctx2 = Inr (Inr res2)" and "96 \<le> length (res_Ret res2)"
    and "res_Ret res2 ! 31 = 2"
  shows "(\<exists>c. IsWalletUnlocked H clock2 from amount2 ctx2 caches1 = Inr (Inr True, c)) \<and>
    (\<exists>err c. IsWalletUnlocked H clock2 from amount2 ctx2 empty_caches = Inr (Inl err, c))"
proof
  let ?entry = "\<lparr>wl_isUnlocked = True, wl_timestamp = at_store clock, wl_height = ctx_BlockHeight ctx, wl_amount = amount\<rparr>"
  have checked2: "wallet_checked ctx2" using assms(2,7) by (simp add: wallet_checked_def)
  have "walletLockCacheMap caches1 (Hex (ho_eth H) from) = Some ?entry"
    using assms(6) by (auto simp: IsWalletUnlocked_asks [OF assms(2-5)] Let_def split: sum.splits)
  moreover have "fresh_wallet clock2 (ctx_BlockHeight ctx2) amount2 ?entry"
    using assms(8,9,11) by (auto simp: fresh_wallet_def abs_i64_def i64_id)
  ultimately show "\<exists>c. IsWalletUnlocked H clock2 from amount2 ctx2 caches1 = Inr (Inr True, c)"
    using fresh_wallet_decides [OF checked2] assms(10) by fastforce
  have "32 \<le> length (res_Ret res2)" using assms(13) by simp
  then have "\<exists>err. wallet_verdict H from amount2 (res_Ret res2) ctx2 = Inl err"
    using wallet_verdict_iff [OF assms(1), of "res_Ret res2" "from" amount2 ctx2] assms(14)
    by (cases "wallet_verdict H from amount2 (res_Ret res2) ctx2") (auto simp: spending_allowed_def)
  then show "\<exists>err c. IsWalletUnlocked H clock2 from amount2 ctx2 empty_caches = Inr (Inl err, c)"
    by (auto simp: IsWalletUnlocked_asks [OF checked2 no_fresh_empty assms(12,13)] Let_def)
qed

section \<open>Admission\<close>

text \<open>What lets a transaction through.\<close>

definition admitted :: "('k, 't) evm_host \<Rightarrow> gate_clock \<Rightarrow> gate_clock \<Rightarrow> address \<Rightarrow> int \<Rightarrow> 'k chain_ctx \<Rightarrow> gate_caches \<Rightarrow> bool" where
  "admitted H clock clock2 from amount ctx caches \<longleftrightarrow>
     isWhitelisted H from ctx \<or> IsBootstrapMode (evm_GetParams ctx) \<or>
     (\<exists>caches1 caches2. IsChainOpen H clock from ctx caches = Inr (Inr True, caches1) \<and>
        IsWalletUnlocked H clock2 from amount ctx caches1 = Inr (Inr True, caches2))"

lemma admit_transaction_iff:
  "(\<exists>caches1. admit_transaction H clock clock2 from amount ctx caches = Inr (Inr (), caches1)) \<longleftrightarrow>
    admitted H clock clock2 from amount ctx caches"
  by (auto simp: admit_transaction_def admitted_def rbind_def split: sum.splits bool.splits)

text \<open>
  C20: Only an admitted transaction reaches the machine: one of an address on the whitelist, one in bootstrap
  mode, or one that finds the chain open and the wallet unlocked. An admitted one does what ApplyTransaction does;
  any other is an error that leaves the whole state as it was.
\<close>

theorem only_admitted_transactions_run:
  "if admitted H clock clock2 (HexToAddress (ho_eth H) msg_From) (ho_Value H tx) ctx caches
   then \<exists>caches1. EthereumTx H clock clock2 msg_From tx ctx caches =
      rbind (ApplyTransaction H tx ctx) (\<lambda>(r, ctx1).
        Inr (case r of Inl err \<Rightarrow> Inl ''failed to apply transaction'' | Inr response \<Rightarrow> Inr response, ctx1, caches1))
   else case EthereumTx H clock clock2 msg_From tx ctx caches of
      Inl _ \<Rightarrow> True | Inr (r, ctx1, caches1) \<Rightarrow> isl r \<and> ctx1 = ctx"
proof (cases "admitted H clock clock2 (HexToAddress (ho_eth H) msg_From) (ho_Value H tx) ctx caches")
  case True
  then obtain caches1 where a: "admit_transaction H clock clock2 (HexToAddress (ho_eth H) msg_From) (ho_Value H tx) ctx caches =
      Inr (Inr (), caches1)"
    using admit_transaction_iff by blast
  show ?thesis using True
    by (auto simp: EthereumTx_def a Let_def intro!: exI [of _ caches1] arg_cong [where f = "rbind (ApplyTransaction H tx ctx)"]
        split: sum.split)
next
  case False
  then have "admit_transaction H clock clock2 (HexToAddress (ho_eth H) msg_From) (ho_Value H tx) ctx caches \<noteq> Inr (Inr u, caches1)"
    for u caches1
    using admit_transaction_iff [of H clock clock2 "HexToAddress (ho_eth H) msg_From" "ho_Value H tx" ctx caches]
    by (metis (full_types) unit.exhaust)
  then show ?thesis using False
    by (auto simp: EthereumTx_def Let_def rbind_def split: sum.splits)
qed

text \<open>Every cached verdict about a wallet is that it is unlocked.\<close>

definition cached_unlocked :: "gate_caches \<Rightarrow> bool" where
  "cached_unlocked caches \<longleftrightarrow> (\<forall>key c. walletLockCacheMap caches key = Some c \<longrightarrow> wl_isUnlocked c)"

lemma cleanup_cached_unlocked: "cached_unlocked caches \<Longrightarrow> cached_unlocked (periodic_cleanup clock height caches)"
  unfolding cached_unlocked_def using cleanup_keeps_some by blast

lemma IsChainOpen_wallets:
  assumes "IsChainOpen H clock from ctx caches = Inr (r, caches1)" and "cached_unlocked caches"
  shows "cached_unlocked caches1"
  using assms cleanup_cached_unlocked [OF assms(2), of clock "ctx_BlockHeight ctx"]
  by (auto simp: IsChainOpen_def Let_def rbind_def cached_unlocked_def split: if_splits option.splits sum.splits)

lemma IsWalletUnlocked_wallets:
  assumes "IsWalletUnlocked H clock from amount ctx caches = Inr (r, caches1)" and "cached_unlocked caches"
  shows "cached_unlocked caches1"
  using assms cleanup_cached_unlocked [OF assms(2), of clock "ctx_BlockHeight ctx"]
  by (auto simp: IsWalletUnlocked_def Let_def rbind_def cached_unlocked_def split: if_splits option.splits sum.splits)

lemma admit_wallets:
  assumes "admit_transaction H clock clock2 from amount ctx caches = Inr (r, caches1)" and "cached_unlocked caches"
  shows "cached_unlocked caches1"
  using assms
  by (auto simp: admit_transaction_def rbind_def split: if_splits sum.splits bool.splits;
      meson IsChainOpen_wallets IsWalletUnlocked_wallets)

text \<open>
  Whatever transactions come, the cache of wallets only ever holds verdicts that let them pass: a lock is
  never cached, so it takes effect as soon as no fresh entry is left.
\<close>

theorem cached_verdicts_are_positive:
  assumes "cached_unlocked caches" and "EthereumTx H clock clock2 msg_From tx ctx caches = Inr (r, ctx1, caches1)"
  shows "cached_unlocked caches1"
proof -
  obtain r0 where "admit_transaction H clock clock2 (HexToAddress (ho_eth H) msg_From) (ho_Value H tx) ctx caches = Inr (r0, caches1)"
    using assms(2) by (auto simp: EthereumTx_def Let_def rbind_def split: sum.splits)
  then show ?thesis using assms(1) by (rule admit_wallets)
qed

section \<open>Witnesses\<close>

text \<open>An answer with a lock status and a locked amount, both of one byte.\<close>

definition wallet_answer :: "byte \<Rightarrow> byte \<Rightarrow> bytes" where
  "wallet_answer status locked = replicate 31 0 @ status # replicate 31 0 @ locked # replicate 32 0"

lemma big_bytes_zeros: "big_bytes (replicate n 0 @ bs) = big_bytes bs"
  by (induction n) (simp_all add: big_bytes_def)

lemma wallet_answer_sel [simp]:
  "length (wallet_answer status locked) = 96" "wallet_answer status locked ! 31 = status"
  "big_bytes (take 32 (drop 32 (wallet_answer status locked))) = uint locked"
proof -
  show "length (wallet_answer status locked) = 96" "wallet_answer status locked ! 31 = status"
    by (simp_all add: wallet_answer_def nth_append)
  have "take 32 (drop 32 (wallet_answer status locked)) = replicate 31 0 @ [locked]"
    by (simp add: wallet_answer_def)
  then show "big_bytes (take 32 (drop 32 (wallet_answer status locked))) = uint locked"
    using big_bytes_zeros [of 31 "[locked]"] by (simp add: big_bytes_def)
qed

text \<open>The wallet check is on; its contract is at address 40.\<close>

definition gate_params :: evm_Params where
  "gate_params = evm_DefaultParams\<lparr>EnableWalletLockCheck := True, WalletStateContractAddress := replicate 40 (CHR ''x'')\<rparr>"

lemma gate_params_sel [simp]: "evm_GetParams (sample_chain s gate_params h) =
    gate_params\<lparr>ExtraEIPs := [], ActiveStaticPrecompiles := []\<rparr>"
  by (simp add: evm_GetParams_def sample_chain_def)

lemma gate_checked: "wallet_checked (sample_chain s gate_params h)"
  unfolding wallet_checked_def gate_params_sel by (simp add: gate_params_def IsContractSet_def ZeroAddress_def eval_nat_numeral)

lemma gate_wallet_call:
  "\<exists>res. wallet_call (sample_host (\<lambda>s _ _. f s) balance) from (sample_chain s gate_params h) = Inr (Inr res) \<and> res_Ret res = f s"
proof -
  have "HexToAddress sample_eth (WalletStateContractAddress gate_params) = 40"
    by (simp add: sample_eth_def gate_params_def)
  moreover have "cfg_AccessControl gate_params = open_access" by (simp add: gate_params_def)
  ultimately show ?thesis
    using sample_EthCall [of gate_params 40 "gate_args from 40 data" 25000000 "\<lambda>s _ _. f s" balance "[]" s h for data]
    by (auto simp: wallet_call_def gate_args_def)
qed

theorem wallet_lock_enforced_witness:
  "\<exists>caches1. IsWalletUnlocked (sample_host (\<lambda>_ _ _. wallet_answer 1 5) (\<lambda>_. 12)) \<lparr>at_cleanup = 0, at_lookup = 0, at_store = 0\<rparr> 3
    (7 + 10 ^ 14) (sample_chain () gate_params 7) empty_caches = Inr (Inr True, caches1)"
proof -
  let ?H = "sample_host (\<lambda>_ _ _. wallet_answer 1 5) (\<lambda>_. 12)" and ?ctx = "sample_chain () gate_params 7"
  obtain res where res: "wallet_call ?H 3 ?ctx = Inr (Inr res)" "res_Ret res = wallet_answer 1 5"
    using gate_wallet_call [of "\<lambda>_. wallet_answer 1 5" "\<lambda>_. 12" 3 "()" 7] by blast
  have "evm_GetBalance ?H 3 ?ctx = 12" by (simp add: evm_GetBalance_def Let_def) (simp add: gate_params_def evm_DefaultParams_def)
  then show ?thesis
    using wallet_lock_enforced [OF _ gate_checked no_fresh_empty res(1), where amount = "7 + 10 ^ 14"] res(2) sample_hex_ok
    by (simp add: spending_allowed_def)
qed

text \<open>The store says whether the wallet is locked.\<close>

theorem cached_verdict_outlives_lock_witness:
  "\<exists>caches1 c err c2. let H = sample_host (\<lambda>locked _ _. wallet_answer (if locked then 2 else 0) 0) (\<lambda>_. 12);
       later = \<lparr>at_cleanup = 10, at_lookup = 10, at_store = 10\<rparr> in
     IsWalletUnlocked H \<lparr>at_cleanup = 0, at_lookup = 0, at_store = 0\<rparr> 3 9 (sample_chain False gate_params 7) empty_caches =
       Inr (Inr True, caches1) \<and>
     IsWalletUnlocked H later 3 9 (sample_chain True gate_params 10) caches1 = Inr (Inr True, c) \<and>
     IsWalletUnlocked H later 3 9 (sample_chain True gate_params 10) empty_caches = Inr (Inl err, c2)"
proof -
  define f :: "bool \<Rightarrow> bytes" where "f = (\<lambda>locked. wallet_answer (if locked then 2 else 0) 0)"
  let ?H = "sample_host (\<lambda>s _ _. f s) (\<lambda>_. 12)" and ?now = "\<lparr>at_cleanup = 0, at_lookup = 0, at_store = 0\<rparr>"
    and ?later = "\<lparr>at_cleanup = 10, at_lookup = 10, at_store = 10\<rparr>"
    and ?ctx = "sample_chain False gate_params 7" and ?ctx2 = "sample_chain True gate_params 10"
  obtain res where res: "wallet_call ?H 3 ?ctx = Inr (Inr res)" "res_Ret res = wallet_answer 0 0"
    using gate_wallet_call [of f "\<lambda>_. 12" 3 False 7] by (auto simp: f_def)
  obtain res2 where res2: "wallet_call ?H 3 ?ctx2 = Inr (Inr res2)" "res_Ret res2 = wallet_answer 2 0"
    using gate_wallet_call [of f "\<lambda>_. 12" 3 True 10] by (auto simp: f_def)
  have hex: "hex_ok (ho_eth ?H)" using sample_hex_ok by simp
  have "wallet_verdict ?H 3 9 (res_Ret res) ?ctx = Inr ()"
    by (rule wallet_verdict_iff [OF hex, THEN iffD2]) (simp_all add: res spending_allowed_def)
  then obtain caches1 where c: "IsWalletUnlocked ?H ?now 3 9 ?ctx empty_caches = Inr (Inr True, caches1)"
    using IsWalletUnlocked_asks [OF gate_checked no_fresh_empty res(1), of ?now 9] res(2) by (simp add: Let_def)
  have h: "ctx_BlockHeight (sample_chain s gate_params n) = n" for s :: bool and n by (simp add: sample_chain_def)
  have "(\<exists>c. IsWalletUnlocked ?H ?later 3 9 ?ctx2 caches1 = Inr (Inr True, c)) \<and>
      (\<exists>err c. IsWalletUnlocked ?H ?later 3 9 ?ctx2 empty_caches = Inr (Inl err, c))"
    by (rule cached_verdict_outlives_lock [OF hex gate_checked no_fresh_empty res(1) _ c _ _ _ _ _ res2(1)])
      (simp_all add: res res2 h cacheDuration_def)
  with c show ?thesis unfolding Let_def f_def by blast
qed

text \<open>A transfer that passes the check, and fails in the machine.\<close>

theorem cached_verdicts_are_positive_witness:
  "\<exists>r ctx1 caches1. EthereumTx (sample_host (\<lambda>_ _ _. wallet_answer 0 0) (\<lambda>_. 12)) \<lparr>at_cleanup = 0, at_lookup = 0, at_store = 0\<rparr>
      \<lparr>at_cleanup = 0, at_lookup = 0, at_store = 0\<rparr> ''xxx'' (sample_message_to 50 1) (sample_chain () gate_params 7) empty_caches =
      Inr (r, ctx1, caches1) \<and> cached_unlocked caches1"
proof -
  let ?H = "sample_host (\<lambda>_ _ _. wallet_answer 0 0) (\<lambda>_. 12)" and ?now = "\<lparr>at_cleanup = 0, at_lookup = 0, at_store = 0\<rparr>"
    and ?ctx = "sample_chain () gate_params 7" and ?tx = "sample_message_to 50 1"
  obtain res ctx1 where tx: "ApplyTransaction ?H ?tx ?ctx = Inr (Inr res, ctx1)"
    using sample_transaction [of gate_params "\<lambda>_ _ _. wallet_answer 0 0" "\<lambda>_. 12" "()" 7] by (auto simp: gate_params_def)
  have "\<exists>r caches1. admit_transaction ?H ?now ?now 3 (ho_Value ?H ?tx) ?ctx empty_caches = Inr (r, caches1)"
  proof -
    obtain res where res: "wallet_call ?H 3 ?ctx = Inr (Inr res)" "res_Ret res = wallet_answer 0 0"
      using gate_wallet_call [of "\<lambda>_. wallet_answer 0 0" "\<lambda>_. 12" 3 "()" 7] by blast
    have "IsChainOpen ?H ?now 3 ?ctx empty_caches = Inr (Inr True, empty_caches)"
      by (simp add: IsChainOpen_def) (simp add: gate_params_def evm_DefaultParams_def)
    moreover obtain r2 c2 where "IsWalletUnlocked ?H ?now 3 (ho_Value ?H ?tx) ?ctx empty_caches = Inr (r2, c2)"
      using IsWalletUnlocked_asks [OF gate_checked no_fresh_empty res(1), of ?now "ho_Value ?H ?tx"] res(2)
      by (cases "wallet_verdict ?H 3 (ho_Value ?H ?tx) (wallet_answer 0 0) ?ctx") (simp_all add: Let_def)
    ultimately show ?thesis
      by (auto simp: admit_transaction_def split: sum.split bool.split)
  qed
  then obtain r caches1 where "admit_transaction ?H ?now ?now 3 (ho_Value ?H ?tx) ?ctx empty_caches = Inr (r, caches1)"
    by blast
  then obtain r ctx1 caches1 where e: "EthereumTx ?H ?now ?now ''xxx'' ?tx ?ctx empty_caches = Inr (r, ctx1, caches1)"
    using tx by (cases r) (simp_all add: EthereumTx_def sample_eth_def)
  have "cached_unlocked empty_caches" by (simp add: cached_unlocked_def empty_caches_def)
  from e cached_verdicts_are_positive [OF this e] show ?thesis by blast
qed

end
