(* ===== verification/Schedule.thy ===== *)
theory Schedule
  imports Prelude "HOL-Library.Multiset"
begin

text \<open>
  Vesting schedules (x/vesting/types/schedule.go and utils.go): a start time and a list of periods,
  each with a length in seconds and the coins that its end releases.

  \<^item> \<open>sdk.Coins\<close> is a type of the Cosmos SDK, outside the repository. It is the parameter \<open>'c\<close> with
    the operations of \<open>coins_ops\<close>, and \<open>coins_laws\<close> states their documented behaviour on the
    amount of each denomination. \<open>Sub\<close> panics on a negative result.
  \<^item> Times are \<open>int64\<close> seconds, with wrap-around. The laws of the schedules hold where no time
    passes the range (\<open>fits\<close>).
  \<^item> \<open>events\<close> is what a schedule means: its releases at absolute times. \<open>released\<close> is the step
    function of the amount released up to a time.
\<close>

section \<open>Coins and periods\<close>

record 'c Period =
  Length :: int
  Amount :: 'c

record 'c coins_ops =
  coins_NewCoins :: 'c
  coins_Add :: "'c \<Rightarrow> 'c \<Rightarrow> 'c"
  coins_Min :: "'c \<Rightarrow> 'c \<Rightarrow> 'c"
  coins_Sub :: "'c \<Rightarrow> 'c \<Rightarrow> go_panic + 'c"
  coins_SafeSub :: "'c \<Rightarrow> 'c \<Rightarrow> 'c \<times> bool"
  coins_IsAllLTE :: "'c \<Rightarrow> 'c \<Rightarrow> bool"
  coins_IsZero :: "'c \<Rightarrow> bool"
  coins_AmountOf :: "'c \<Rightarrow> string \<Rightarrow> int"
  coins_list :: "'c \<Rightarrow> (string \<times> int) list"
  coins_AddCoin :: "'c \<Rightarrow> string \<times> int \<Rightarrow> 'c"
  Periods_TotalLength :: "'c Period list \<Rightarrow> int"
  Periods_TotalAmount :: "'c Period list \<Rightarrow> 'c"

definition coins_list_laws :: "'c coins_ops \<Rightarrow> bool" where
  "coins_list_laws C \<longleftrightarrow>
     (\<forall>a k d. 0 \<le> snd k \<longrightarrow> coins_AmountOf C (coins_AddCoin C a k) d
        = coins_AmountOf C a d + (if fst k = d then snd k else 0)) \<and>
     (\<forall>a d. coins_AmountOf C a d = sum_list (map snd (filter (\<lambda>k. fst k = d) (coins_list C a)))) \<and>
     (\<forall>a. \<forall>k \<in> set (coins_list C a). 0 \<le> snd k)"

definition coins_laws :: "'c coins_ops \<Rightarrow> bool" where
  "coins_laws C \<longleftrightarrow>
     (\<forall>d. coins_AmountOf C (coins_NewCoins C) d = 0) \<and>
     (\<forall>a d. 0 \<le> coins_AmountOf C a d) \<and>
     (\<forall>a b d. coins_AmountOf C (coins_Add C a b) d = coins_AmountOf C a d + coins_AmountOf C b d) \<and>
     (\<forall>a b d. coins_AmountOf C (coins_Min C a b) d
        = min (coins_AmountOf C a d) (coins_AmountOf C b d)) \<and>
     (\<forall>a b. coins_IsAllLTE C a b \<longleftrightarrow> (\<forall>d. coins_AmountOf C a d \<le> coins_AmountOf C b d)) \<and>
     (\<forall>a. coins_IsZero C a \<longleftrightarrow> (\<forall>d. coins_AmountOf C a d = 0)) \<and>
     (\<forall>a b. coins_IsAllLTE C b a \<longrightarrow> (\<exists>c. coins_Sub C a b = Inr c \<and> coins_SafeSub C a b = (c, False) \<and>
        (\<forall>d. coins_AmountOf C c d = coins_AmountOf C a d - coins_AmountOf C b d))) \<and>
     (\<forall>a b. \<not> coins_IsAllLTE C b a \<longrightarrow>
        (\<exists>e. coins_Sub C a b = Inl e) \<and> snd (coins_SafeSub C a b)) \<and>
     coins_list_laws C \<and>
     (\<forall>ps. Periods_TotalLength C ps = i64 (sum_list (map Length ps))) \<and>
     (\<forall>ps d. coins_AmountOf C (Periods_TotalAmount C ps) d
        = sum_list (map (\<lambda>p. coins_AmountOf C (Amount p) d) ps))"

definition Max64 :: "int \<Rightarrow> int \<Rightarrow> int" where
  "Max64 i j = (if i > j then i else j)"

definition Min64 :: "int \<Rightarrow> int \<Rightarrow> int" where
  "Min64 i j = (if i < j then i else j)"

definition CoinEq :: "'c coins_ops \<Rightarrow> 'c \<Rightarrow> 'c \<Rightarrow> bool" where
  "CoinEq C a b \<longleftrightarrow> coins_IsAllLTE C a b \<and> coins_IsAllLTE C b a"

section \<open>Reading a schedule\<close>

fun read_periods :: "'c coins_ops \<Rightarrow> int \<Rightarrow> int \<Rightarrow> 'c Period list \<Rightarrow> 'c \<Rightarrow> 'c" where
  "read_periods C readTime elapsedTime [] coins = coins"
| "read_periods C readTime elapsedTime (period # periods) coins =
     (if readTime < i64 (elapsedTime + Length period) then coins
      else read_periods C readTime (i64 (elapsedTime + Length period)) periods
             (coins_Add C coins (Amount period)))"

definition ReadSchedule ::
  "'c coins_ops \<Rightarrow> int \<Rightarrow> int \<Rightarrow> 'c Period list \<Rightarrow> 'c \<Rightarrow> int \<Rightarrow> 'c" where
  "ReadSchedule C startTime endTime periods totalCoins readTime =
     (if readTime \<le> startTime then coins_NewCoins C
      else if readTime \<ge> endTime then totalCoins
      else read_periods C readTime startTime periods (coins_NewCoins C))"

fun count_periods :: "int \<Rightarrow> int \<Rightarrow> 'c Period list \<Rightarrow> nat \<Rightarrow> nat" where
  "count_periods readTime elapsedTime [] passedPeriods = passedPeriods"
| "count_periods readTime elapsedTime (period # periods) passedPeriods =
     (if readTime < i64 (elapsedTime + Length period) then passedPeriods
      else count_periods readTime (i64 (elapsedTime + Length period)) periods (passedPeriods + 1))"

definition ReadPastPeriodCount :: "int \<Rightarrow> int \<Rightarrow> 'c Period list \<Rightarrow> int \<Rightarrow> nat" where
  "ReadPastPeriodCount startTime endTime periods readTime =
     (if readTime \<le> startTime then 0
      else if readTime \<ge> endTime then length periods
      else count_periods readTime startTime periods 0)"

section \<open>Combining schedules\<close>

text \<open>
  The loops run over what is left of both lists. \<open>emit_period\<close> appends a period that ends at
  \<open>nextTime\<close> and makes that the new end.
\<close>

definition emit_period :: "int \<Rightarrow> 'c \<Rightarrow> int \<times> 'c Period list \<Rightarrow> int \<times> 'c Period list" where
  "emit_period nextTime amount = (\<lambda>(endTime, periods).
     (nextTime, periods @ [\<lparr>Length = i64 (nextTime - endTime), Amount = amount\<rparr>]))"

fun disjunct_loop ::
  "'c coins_ops \<Rightarrow> int \<Rightarrow> int \<Rightarrow> 'c Period list \<Rightarrow> 'c Period list \<Rightarrow> int \<times> 'c Period list
     \<Rightarrow> int \<times> 'c Period list" where
  "disjunct_loop C timeA timeB (a # as) (b # bs) out =
     (let nextA = i64 (timeA + Length a); nextB = i64 (timeB + Length b)
      in if nextA < nextB then
           disjunct_loop C nextA timeB as (b # bs) (emit_period nextA (Amount a) out)
         else if nextA > nextB then
           disjunct_loop C timeA nextB (a # as) bs (emit_period nextB (Amount b) out)
         else
           disjunct_loop C nextA nextA as bs
             (emit_period nextA (coins_Add C (Amount a) (Amount b)) out))"
| "disjunct_loop C timeA timeB (a # as) [] out =
     (let nextA = i64 (timeA + Length a)
      in disjunct_loop C nextA timeB as [] (emit_period nextA (Amount a) out))"
| "disjunct_loop C timeA timeB [] (b # bs) out =
     (let nextB = i64 (timeB + Length b)
      in disjunct_loop C timeA nextB [] bs (emit_period nextB (Amount b) out))"
| "disjunct_loop C timeA timeB [] [] out = out"

definition DisjunctPeriods ::
  "'c coins_ops \<Rightarrow> int \<Rightarrow> int \<Rightarrow> 'c Period list \<Rightarrow> 'c Period list \<Rightarrow> int \<times> int \<times> 'c Period list" where
  "DisjunctPeriods C startTimePeriodsA startTimePeriodsB periodsA periodsB =
     (let startTime = Min64 startTimePeriodsA startTimePeriodsB;
          (endTime, periods) = disjunct_loop C startTimePeriodsA startTimePeriodsB
             periodsA periodsB (startTime, [])
      in (startTime, endTime, periods))"

record 'c conjunction =
  cj_totalA :: 'c
  cj_totalB :: 'c
  cj_result :: 'c
  cj_end :: int
  cj_periods :: "'c Period list"

text \<open>The common tail of \<open>consumeA\<close>, \<open>consumeB\<close> and \<open>consumeBoth\<close>.\<close>

definition conjunct_emit :: "'c coins_ops \<Rightarrow> int \<Rightarrow> 'c conjunction \<Rightarrow> go_panic + 'c conjunction" where
  "conjunct_emit C nextTime s =
     (let m = coins_Min C (cj_totalA s) (cj_totalB s)
      in if coins_IsAllLTE C (cj_result s) m then
           rbind (coins_Sub C m (cj_result s)) (\<lambda>diff.
             if \<not> coins_IsZero C diff then
               (let (endTime, periods) = emit_period nextTime diff (cj_end s, cj_periods s)
                in Inr (s\<lparr>cj_periods := periods, cj_end := endTime,
                     cj_result := coins_Add C (cj_result s) diff\<rparr>))
             else Inr s)
         else Inr s)"

fun conjunct_loop ::
  "'c coins_ops \<Rightarrow> int \<Rightarrow> int \<Rightarrow> 'c Period list \<Rightarrow> 'c Period list \<Rightarrow> 'c conjunction
     \<Rightarrow> go_panic + 'c conjunction" where
  "conjunct_loop C timeA timeB (a # as) (b # bs) s =
     (let nextA = i64 (timeA + Length a); nextB = i64 (timeB + Length b);
          addA = coins_Add C (cj_totalA s) (Amount a); addB = coins_Add C (cj_totalB s) (Amount b)
      in if nextA < nextB then
           rbind (conjunct_emit C nextA (s\<lparr>cj_totalA := addA\<rparr>))
             (conjunct_loop C nextA timeB as (b # bs))
         else if nextA > nextB then
           rbind (conjunct_emit C nextB (s\<lparr>cj_totalB := addB\<rparr>))
             (conjunct_loop C timeA nextB (a # as) bs)
         else
           rbind (conjunct_emit C nextA (s\<lparr>cj_totalA := addA, cj_totalB := addB\<rparr>))
             (conjunct_loop C nextA nextA as bs))"
| "conjunct_loop C timeA timeB (a # as) [] s =
     (let nextA = i64 (timeA + Length a)
      in rbind (conjunct_emit C nextA (s\<lparr>cj_totalA := coins_Add C (cj_totalA s) (Amount a)\<rparr>))
           (conjunct_loop C nextA timeB as []))"
| "conjunct_loop C timeA timeB [] (b # bs) s =
     (let nextB = i64 (timeB + Length b)
      in rbind (conjunct_emit C nextB (s\<lparr>cj_totalB := coins_Add C (cj_totalB s) (Amount b)\<rparr>))
           (conjunct_loop C timeA nextB [] bs))"
| "conjunct_loop C timeA timeB [] [] s = Inr s"

definition ConjunctPeriods ::
  "'c coins_ops \<Rightarrow> int \<Rightarrow> int \<Rightarrow> 'c Period list \<Rightarrow> 'c Period list
     \<Rightarrow> go_panic + int \<times> int \<times> 'c Period list" where
  "ConjunctPeriods C startTimePeriodA startTimePeriodB periodsA periodsB =
     (let startTime = Min64 startTimePeriodA startTimePeriodB;
          nil = coins_NewCoins C
      in rbind (conjunct_loop C startTimePeriodA startTimePeriodB periodsA periodsB
           \<lparr>cj_totalA = nil, cj_totalB = nil, cj_result = nil, cj_end = startTime, cj_periods = []\<rparr>)
         (\<lambda>s. Inr (startTime, cj_end s, cj_periods s)))"

text \<open>\<open>AlignSchedules\<close> changes the slices of the caller; here it returns them.\<close>

definition extend_first :: "int \<Rightarrow> 'c Period list \<Rightarrow> 'c Period list" where
  "extend_first t ps = (case ps of [] \<Rightarrow> [] | p # qs \<Rightarrow> p\<lparr>Length := i64 (Length p + t)\<rparr> # qs)"

definition AlignSchedules ::
  "'c coins_ops \<Rightarrow> int \<Rightarrow> int \<Rightarrow> 'c Period list \<Rightarrow> 'c Period list
     \<Rightarrow> (int \<times> int) \<times> 'c Period list \<times> 'c Period list" where
  "AlignSchedules C startTimePeriodA startTimePeriodB periodsA periodsB =
     (let startTime = Min64 startTimePeriodA startTimePeriodB;
          periodsA' = extend_first (i64 (startTimePeriodA - startTime)) periodsA;
          periodsB' = extend_first (i64 (startTimePeriodB - startTime)) periodsB;
          endPeriodsA = i64 (startTime + Periods_TotalLength C periodsA');
          endPeriodsB = i64 (startTime + Periods_TotalLength C periodsB')
      in ((startTime, Max64 endPeriodsA endPeriodsB), periodsA', periodsB'))"

section \<open>What a schedule releases\<close>

fun events :: "int \<Rightarrow> 'c Period list \<Rightarrow> (int \<times> 'c) list" where
  "events t [] = []"
| "events t (p # ps) = (t + Length p, Amount p) # events (t + Length p) ps"

fun released :: "'c coins_ops \<Rightarrow> (int \<times> 'c) list \<Rightarrow> int \<Rightarrow> string \<Rightarrow> int" where
  "released C [] t d = 0"
| "released C ((\<tau>, c) # es) t d = (if \<tau> \<le> t then coins_AmountOf C c d else 0) + released C es t d"

definition end_of :: "int \<Rightarrow> 'c Period list \<Rightarrow> int" where
  "end_of t ps = t + sum_list (map Length ps)"

definition fits :: "int \<Rightarrow> 'c Period list \<Rightarrow> bool" where
  "fits t ps \<longleftrightarrow> 0 \<le> t \<and> (\<forall>p \<in> set ps. 0 \<le> Length p) \<and> end_of t ps < 2 ^ 63"

definition total :: "'c coins_ops \<Rightarrow> 'c Period list \<Rightarrow> string \<Rightarrow> int" where
  "total C ps d = sum_list (map (\<lambda>p. coins_AmountOf C (Amount p) d) ps)"

section \<open>Amounts\<close>

named_theorems coin_amounts "amounts of the coin operations"

lemma coins_amounts [coin_amounts]:
  assumes "coins_laws C"
  shows "coins_AmountOf C (coins_NewCoins C) d = 0"
    and "coins_AmountOf C (coins_Add C a b) d = coins_AmountOf C a d + coins_AmountOf C b d"
    and "coins_AmountOf C (coins_Min C a b) d = min (coins_AmountOf C a d) (coins_AmountOf C b d)"
    and "coins_IsAllLTE C a b \<longleftrightarrow> (\<forall>d. coins_AmountOf C a d \<le> coins_AmountOf C b d)"
    and "coins_IsZero C a \<longleftrightarrow> (\<forall>d. coins_AmountOf C a d = 0)"
  using assms by (simp_all add: coins_laws_def)

lemma coins_AddCoin_amount:
  "coins_laws C \<Longrightarrow> 0 \<le> snd k \<Longrightarrow> coins_AmountOf C (coins_AddCoin C a k) d
     = coins_AmountOf C a d + (if fst k = d then snd k else 0)"
proof -
  assume "coins_laws C" "0 \<le> snd k"
  then have "\<forall>a k d. 0 \<le> snd k \<longrightarrow> coins_AmountOf C (coins_AddCoin C a k) d
      = coins_AmountOf C a d + (if fst k = d then snd k else 0)"
    unfolding coins_laws_def coins_list_laws_def by (elim conjE)
  with \<open>0 \<le> snd k\<close> show ?thesis by blast
qed

lemma coins_nonneg: "coins_laws C \<Longrightarrow> 0 \<le> coins_AmountOf C a d"
  by (simp add: coins_laws_def)

lemma coins_TotalLength: "coins_laws C \<Longrightarrow> Periods_TotalLength C ps = i64 (sum_list (map Length ps))"
  by (simp add: coins_laws_def)

lemma coins_sub:
  assumes "coins_laws C" and "\<And>d. coins_AmountOf C b d \<le> coins_AmountOf C a d"
  obtains c where "coins_Sub C a b = Inr c" and "coins_SafeSub C a b = (c, False)"
    and "\<And>d. coins_AmountOf C c d = coins_AmountOf C a d - coins_AmountOf C b d"
  using assms unfolding coins_laws_def by meson

lemma coins_TotalAmount: "coins_laws C \<Longrightarrow> coins_AmountOf C (Periods_TotalAmount C ps) d = total C ps d"
  by (simp add: coins_laws_def total_def)

lemma total_simps [simp]: "total C [] d = 0" "total C (p # ps) d = coins_AmountOf C (Amount p) d + total C ps d"
  by (simp_all add: total_def)

lemma end_of_simps [simp]: "end_of t [] = t" "end_of t (p # ps) = end_of (t + Length p) ps"
  by (simp_all add: end_of_def)

lemma end_of_snoc [simp]: "end_of t (ps @ [p]) = end_of t ps + Length p"
  by (simp add: end_of_def)

lemma end_of_ge: "\<forall>p \<in> set ps. 0 \<le> Length p \<Longrightarrow> t \<le> end_of t ps"
proof -
  assume "\<forall>p \<in> set ps. 0 \<le> Length p"
  then have "0 \<le> sum_list (map Length ps)" by (intro sum_list_nonneg) auto
  then show ?thesis by (simp add: end_of_def)
qed

lemma fits_Cons:
  assumes "fits t (p # ps)"
  shows "fits (t + Length p) ps" and "0 \<le> t" and "0 \<le> Length p" and "t + Length p < 2 ^ 63"
    and "i64 (t + Length p) = t + Length p"
proof -
  have "t + Length p \<le> end_of (t + Length p) ps"
    using assms by (intro end_of_ge) (simp add: fits_def)
  with assms show "fits (t + Length p) ps" "0 \<le> t" "0 \<le> Length p" "t + Length p < 2 ^ 63"
    by (auto simp: fits_def)
  with assms show "i64 (t + Length p) = t + Length p" by (auto simp: fits_def intro!: i64_id)
qed

lemma events_append: "events t (ps @ qs) = events t ps @ events (end_of t ps) qs"
  by (induction ps arbitrary: t) auto

lemma released_append: "released C (xs @ ys) t d = released C xs t d + released C ys t d"
  by (induction xs) auto

lemma released_before: "\<forall>(\<tau>, c) \<in> set es. t < \<tau> \<Longrightarrow> released C es t d = 0"
  by (induction es) auto

lemma events_bounds: "\<forall>p \<in> set ps. 0 \<le> Length p \<Longrightarrow> (\<tau>, c) \<in> set (events t ps) \<Longrightarrow> t \<le> \<tau> \<and> \<tau> \<le> end_of t ps"
proof (induction ps arbitrary: t)
  case (Cons p ps)
  then have "t + Length p \<le> end_of (t + Length p) ps" by (intro end_of_ge) simp
  with Cons show ?case by fastforce
qed simp

lemma released_none: "fits s ps \<Longrightarrow> t < s \<Longrightarrow> released C (events s ps) t d = 0"
  by (intro released_before) (auto simp: fits_def dest: events_bounds)

lemma released_all: "fits s ps \<Longrightarrow> end_of s ps \<le> t \<Longrightarrow> released C (events s ps) t d = total C ps d"
proof (induction ps arbitrary: s)
  case (Cons p ps)
  note f = fits_Cons [OF Cons.prems(1)]
  then have "s + Length p \<le> end_of (s + Length p) ps" by (intro end_of_ge) (simp add: fits_def)
  with Cons f show ?case by simp
qed simp

lemma released_nonneg: "coins_laws C \<Longrightarrow> 0 \<le> released C es t d"
  by (induction es) (auto simp: coins_nonneg)

lemma released_mono: "coins_laws C \<Longrightarrow> t \<le> u \<Longrightarrow> released C es t d \<le> released C es u d"
  by (induction es) (auto simp: coins_nonneg add_mono add_increasing)

lemma released_le_total: "coins_laws C \<Longrightarrow> released C (events s ps) t d \<le> total C ps d"
  by (induction ps arbitrary: s) (auto simp: coins_nonneg add_mono add_increasing)

section \<open>Reading is the step function\<close>

lemma read_periods_amount:
  "coins_laws C \<Longrightarrow> fits e ps \<Longrightarrow> coins_AmountOf C (read_periods C t e ps c) d
     = coins_AmountOf C c d + released C (events e ps) t d"
proof (induction ps arbitrary: e c)
  case (Cons p ps)
  note f = fits_Cons [OF Cons.prems(2)]
  then show ?case
    using Cons released_none [OF f(1), of t C d] by (simp add: coin_amounts)
qed simp

lemma count_periods_add: "count_periods t e ps n = n + count_periods t e ps 0"
proof (induction ps arbitrary: e n)
  case (Cons p ps)
  let ?c = "count_periods t (i64 (e + Length p)) ps"
  have "?c (Suc n) = Suc n + ?c 0" and "?c (Suc 0) = Suc 0 + ?c 0" by (rule Cons)+
  then show ?case by simp
qed simp

lemma count_periods_take_all:
  assumes "fits e ps"
  shows "count_periods t e ps 0 \<le> length ps \<and>
    total C (take (count_periods t e ps 0) ps) d = released C (events e ps) t d \<and>
    (e \<le> t \<longrightarrow> end_of e (take (count_periods t e ps 0) ps) \<le> t) \<and>
    fits e (take (count_periods t e ps 0) ps)"
  using assms
proof (induction ps arbitrary: e)
  case (Cons p ps)
  note f = fits_Cons [OF Cons.prems]
  have count: "count_periods t e (p # ps) 0 = (if t < e + Length p then 0
      else Suc (count_periods t (e + Length p) ps 0))"
    using f(5) by (simp add: count_periods_add [of _ _ _ "Suc 0"])
  show ?case
    using Cons.IH [OF f(1)] released_none [OF f(1), of t C d] f
    by (auto simp: count fits_def simp del: count_periods.simps)
qed (simp add: fits_def)

lemmas count_periods_take = count_periods_take_all [THEN conjunct1]
  count_periods_take_all [THEN conjunct2, THEN conjunct1]
  count_periods_take_all [THEN conjunct2, THEN conjunct2, THEN conjunct1, rule_format]
  count_periods_take_all [THEN conjunct2, THEN conjunct2, THEN conjunct2]

lemma ReadSchedule_amount:
  assumes "coins_laws C" and "fits s ps" and "\<And>d. coins_AmountOf C tot d = total C ps d"
    and "end_of s ps \<le> e" and "s < t"
  shows "coins_AmountOf C (ReadSchedule C s e ps tot t) d = released C (events s ps) t d"
  using assms released_all [OF assms(2), of t C d]
  by (simp add: ReadSchedule_def read_periods_amount coin_amounts)

section \<open>The union of two schedules\<close>

lemma emit_period_out:
  assumes "fits s ps" and "end_of s ps \<le> n" and "n < 2 ^ 63"
  shows "events s (ps @ [\<lparr>Length = i64 (n - end_of s ps), Amount = c\<rparr>]) = events s ps @ [(n, c)]"
    and "end_of s (ps @ [\<lparr>Length = i64 (n - end_of s ps), Amount = c\<rparr>]) = n"
    and "fits s (ps @ [\<lparr>Length = i64 (n - end_of s ps), Amount = c\<rparr>])"
proof -
  have "0 \<le> end_of s ps" using assms(1) end_of_ge [of ps s] by (simp add: fits_def)
  then have "i64 (n - end_of s ps) = n - end_of s ps" using assms by (intro i64_id) simp_all
  then show "events s (ps @ [\<lparr>Length = i64 (n - end_of s ps), Amount = c\<rparr>]) = events s ps @ [(n, c)]"
    and "end_of s (ps @ [\<lparr>Length = i64 (n - end_of s ps), Amount = c\<rparr>]) = n"
    and "fits s (ps @ [\<lparr>Length = i64 (n - end_of s ps), Amount = c\<rparr>])"
    using assms by (auto simp: events_append fits_def)
qed

text \<open>The end of what is left of a schedule: nothing left leaves the end where it is.\<close>

definition last_end :: "int \<Rightarrow> int \<Rightarrow> 'c Period list \<Rightarrow> int" where
  "last_end e t ps = (if ps = [] then e else end_of t ps)"

definition ahead :: "int \<Rightarrow> int \<Rightarrow> 'c Period list \<Rightarrow> bool" where
  "ahead e t ps \<longleftrightarrow> (case ps of [] \<Rightarrow> True | p # qs \<Rightarrow> e \<le> t + Length p)"

lemma ahead_simps [simp]: "ahead e t []" "ahead e t (p # qs) \<longleftrightarrow> e \<le> t + Length p"
  by (simp_all add: ahead_def)

lemma ahead_next: "fits t ps \<Longrightarrow> ahead t t ps"
  by (cases ps) (auto simp: fits_def)

lemma emit_period_fits:
  assumes "fits s ps" and "end_of s ps \<le> n" and "n < 2 ^ 63"
  obtains ps1 where "emit_period n c (end_of s ps, ps) = (end_of s ps1, ps1)" and "fits s ps1"
    and "end_of s ps1 = n" and "events s ps1 = events s ps @ [(n, c)]"
  using emit_period_out [OF assms, of c]
  by (intro that [of "ps @ [\<lparr>Length = i64 (n - end_of s ps), Amount = c\<rparr>]"])
    (simp_all add: emit_period_def)

text \<open>What the merge of the two rests \<open>as\<close> and \<open>bs\<close> adds to the periods \<open>ps\<close> emitted so far.\<close>

definition merged ::
  "'c coins_ops \<Rightarrow> int \<Rightarrow> 'c Period list \<Rightarrow> int \<Rightarrow> 'c Period list \<Rightarrow> int \<Rightarrow> 'c Period list
     \<Rightarrow> int \<times> 'c Period list \<Rightarrow> bool" where
  "merged C s ps tA as tB bs out \<longleftrightarrow> fits s (snd out) \<and> fst out = end_of s (snd out) \<and>
     fst out = max (last_end (end_of s ps) tA as) (last_end (end_of s ps) tB bs) \<and>
     (\<forall>t d. released C (events s (snd out)) t d = released C (events s ps) t d
        + released C (events tA as) t d + released C (events tB bs) t d)"

lemma last_end_simps [simp]: "last_end t t ps = end_of t ps"
  "last_end e t (p # ps) = end_of (t + Length p) ps" "last_end e t [] = e"
  by (simp_all add: last_end_def)

lemma merged_commute: "merged C s ps tA as tB bs out = merged C s ps tB bs tA as out"
  by (simp add: merged_def max.commute add_ac)

lemma merged_consume:
  assumes "merged C s ps1 (tA + Length a) as tB bs out" and "fits tA (a # as)" and "fits tB bs"
    and "end_of s ps \<le> tA + Length a" and "ahead (tA + Length a) tB bs"
    and "end_of s ps1 = tA + Length a" and "events s ps1 = events s ps @ [(tA + Length a, Amount a)]"
  shows "merged C s ps tA (a # as) tB bs out"
proof -
  have "tA + Length a \<le> end_of (tA + Length a) as"
    using assms(2) by (intro end_of_ge) (simp add: fits_def)
  then show ?thesis
    using assms by (cases bs) (auto simp: merged_def released_append)
qed

lemma merged_both:
  assumes "merged C s ps1 n as n bs out" and "coins_laws C" and "fits tA (a # as)"
    and "fits tB (b # bs)" and "tA + Length a = n" and "tB + Length b = n" and "end_of s ps1 = n"
    and "events s ps1 = events s ps @ [(n, coins_Add C (Amount a) (Amount b))]"
  shows "merged C s ps tA (a # as) tB (b # bs) out"
  using assms by (auto simp: merged_def released_append coin_amounts)

lemma disjunct_loop_correct:
  assumes "coins_laws C" and "fits tA as" and "fits tB bs" and "fits s ps"
    and "ahead (end_of s ps) tA as" and "ahead (end_of s ps) tB bs" and "out = (end_of s ps, ps)"
  shows "merged C s ps tA as tB bs (disjunct_loop C tA tB as bs out)"
  using assms
proof (induction C tA tB as bs out arbitrary: ps rule: disjunct_loop.induct)
  case (1 C tA tB a as b bs out)
  note A = fits_Cons [OF 1(5)] and B = fits_Cons [OF 1(6)]
  show ?case
  proof (cases "tA + Length a" "tB + Length b" rule: linorder_cases)
    case less
    obtain ps1 where ps1: "emit_period (tA + Length a) (Amount a) (end_of s ps, ps) = (end_of s ps1, ps1)"
      "fits s ps1" "end_of s ps1 = tA + Length a"
      "events s ps1 = events s ps @ [(tA + Length a, Amount a)]"
      by (rule emit_period_fits [OF 1(7), of "tA + Length a" "Amount a"]) (use 1(8,9) A B in auto)
    have "merged C s ps1 (tA + Length a) as tB (b # bs)
        (disjunct_loop C (tA + Length a) tB as (b # bs) (emit_period (tA + Length a) (Amount a) out))"
      using 1(1) [OF refl refl, of ps1] 1(4-) A B ps1 less ahead_next [OF A(1)] by simp
    from merged_consume [where ps = ps, OF this 1(5,6)] show ?thesis
      using 1(8) A B less ps1 by (simp add: Let_def)
  next
    case equal
    have nB: "tB + Length b = tA + Length a" using equal by simp
    note B' = B [unfolded nB]
    obtain ps1 where ps1: "emit_period (tA + Length a) (coins_Add C (Amount a) (Amount b)) (end_of s ps, ps)
        = (end_of s ps1, ps1)" "fits s ps1" "end_of s ps1 = tA + Length a"
      "events s ps1 = events s ps @ [(tA + Length a, coins_Add C (Amount a) (Amount b))]"
      by (rule emit_period_fits [OF 1(7), of "tA + Length a" "coins_Add C (Amount a) (Amount b)"]) (use 1(8,9) A B in auto)
    have "merged C s ps1 (tA + Length a) as (tA + Length a) bs
        (disjunct_loop C (tA + Length a) (tA + Length a) as bs
          (emit_period (tA + Length a) (coins_Add C (Amount a) (Amount b)) out))"
      using 1(3) [OF refl refl, of ps1] 1(4,10) A B'(1,5) ps1 ahead_next [OF A(1)] ahead_next [OF B'(1)]
      by (simp add: nB)
    from merged_both [where ps = ps, OF this 1(4-6)] show ?thesis
      using A(5) B'(5) ps1 by (simp add: Let_def nB)
  next
    case greater
    obtain ps1 where ps1: "emit_period (tB + Length b) (Amount b) (end_of s ps, ps) = (end_of s ps1, ps1)"
      "fits s ps1" "end_of s ps1 = tB + Length b"
      "events s ps1 = events s ps @ [(tB + Length b, Amount b)]"
      by (rule emit_period_fits [OF 1(7), of "tB + Length b" "Amount b"]) (use 1(8,9) A B in auto)
    have "merged C s ps1 (tB + Length b) bs tA (a # as)
        (disjunct_loop C tA (tB + Length b) (a # as) bs (emit_period (tB + Length b) (Amount b) out))"
      using 1(2) [OF refl refl, of ps1] 1(4-) A B ps1 greater ahead_next [OF B(1)]
      by (simp add: merged_commute [of _ _ _ "tB + Length b"])
    from merged_consume [where ps = ps, OF this 1(6,5)] show ?thesis
      using 1(9) A B greater ps1 by (simp add: Let_def merged_commute [of _ _ _ tA])
  qed
next
  case (2 C tA tB a as out)
  note A = fits_Cons [OF 2(3)]
  obtain ps1 where ps1: "emit_period (tA + Length a) (Amount a) (end_of s ps, ps) = (end_of s ps1, ps1)"
    "fits s ps1" "end_of s ps1 = tA + Length a"
    "events s ps1 = events s ps @ [(tA + Length a, Amount a)]"
    by (rule emit_period_fits [OF 2(5), of "tA + Length a" "Amount a"]) (use 2(6) A in auto)
  have "merged C s ps1 (tA + Length a) as tB []
      (disjunct_loop C (tA + Length a) tB as [] (emit_period (tA + Length a) (Amount a) out))"
    using 2(1) [OF refl, of ps1] 2(2-) A ps1 ahead_next [OF A(1)] by simp
  from merged_consume [where ps = ps, OF this 2(3,4)] show ?case
    using 2(6) A ps1 by (simp add: Let_def)
next
  case (3 C tA tB b bs out)
  note B = fits_Cons [OF 3(4)]
  obtain ps1 where ps1: "emit_period (tB + Length b) (Amount b) (end_of s ps, ps) = (end_of s ps1, ps1)"
    "fits s ps1" "end_of s ps1 = tB + Length b"
    "events s ps1 = events s ps @ [(tB + Length b, Amount b)]"
    by (rule emit_period_fits [OF 3(5), of "tB + Length b" "Amount b"]) (use 3(7) B in auto)
  have "merged C s ps1 (tB + Length b) bs tA []
      (disjunct_loop C tA (tB + Length b) [] bs (emit_period (tB + Length b) (Amount b) out))"
    using 3(1) [OF refl, of ps1] 3(2-) B ps1 ahead_next [OF B(1)]
    by (simp add: merged_commute [of _ _ _ "tB + Length b"])
  from merged_consume [where ps = ps, OF this 3(4,3)] show ?case
    using 3(7) B ps1 by (simp add: Let_def merged_commute [of _ _ _ tA])
next
  case (4 C tA tB out)
  then show ?case by (simp add: merged_def)
qed

section \<open>The minimum of two schedules\<close>

text \<open>
  \<open>fA\<close> and \<open>fB\<close> are the amounts the consumed parts of the schedules release up to a time; all of
  it is released at \<open>mark\<close>, the time of the last consumed event.
\<close>

definition conj_inv ::
  "'c coins_ops \<Rightarrow> int \<Rightarrow> int \<Rightarrow> (int \<Rightarrow> string \<Rightarrow> int) \<Rightarrow> (int \<Rightarrow> string \<Rightarrow> int) \<Rightarrow> 'c conjunction \<Rightarrow> bool" where
  "conj_inv C s mark fA fB S \<longleftrightarrow>
     (\<forall>d. coins_AmountOf C (cj_result S) d
        = min (coins_AmountOf C (cj_totalA S) d) (coins_AmountOf C (cj_totalB S) d)) \<and>
     (\<forall>t d. mark \<le> t \<longrightarrow> fA t d = coins_AmountOf C (cj_totalA S) d
        \<and> fB t d = coins_AmountOf C (cj_totalB S) d) \<and>
     (\<forall>t d. released C (events s (cj_periods S)) t d = min (fA t d) (fB t d)) \<and>
     fits s (cj_periods S) \<and> cj_end S = end_of s (cj_periods S) \<and> cj_end S \<le> mark"

definition bump :: "int \<Rightarrow> (int \<Rightarrow> string \<Rightarrow> int) \<Rightarrow> (string \<Rightarrow> int) \<Rightarrow> int \<Rightarrow> string \<Rightarrow> int" where
  "bump n f x = (\<lambda>t d. f t d + (if n \<le> t then x d else 0))"

lemma conjunct_emit_inv:
  assumes "coins_laws C" and inv: "conj_inv C s mark fA fB S" and "mark \<le> n" and "n < 2 ^ 63"
    and x: "\<And>d. coins_AmountOf C A d = coins_AmountOf C (cj_totalA S) d + x d" "\<And>d. 0 \<le> x d"
    and y: "\<And>d. coins_AmountOf C B d = coins_AmountOf C (cj_totalB S) d + y d" "\<And>d. 0 \<le> y d"
  shows "\<exists>S'. conjunct_emit C n (S\<lparr>cj_totalA := A, cj_totalB := B\<rparr>) = Inr S' \<and>
    conj_inv C s n (bump n fA x) (bump n fB y) S'"
proof -
  let ?m = "coins_Min C A B"
  note amount = coin_amounts [OF assms(1)]
  have le: "coins_AmountOf C (cj_result S) d \<le> coins_AmountOf C ?m d" for d
    using inv x(2) [of d] y(2) [of d] by (auto simp: conj_inv_def amount x(1) y(1) min_def)
  obtain diff where diff: "coins_Sub C ?m (cj_result S) = Inr diff"
    "\<And>d. coins_AmountOf C diff d = coins_AmountOf C ?m d - coins_AmountOf C (cj_result S) d"
    by (rule coins_sub [OF assms(1) le]) blast
  have rel: "released C (events s (cj_periods S)) t d + (if n \<le> t then coins_AmountOf C diff d else 0)
      = min (bump n fA x t d) (bump n fB y t d)" for t d
    using inv assms(3) diff(2) [of d] by (auto simp: conj_inv_def bump_def amount x(1) y(1))
  have end_: "cj_end S = end_of s (cj_periods S)" "fits s (cj_periods S)" "cj_end S \<le> n"
    using inv assms(3) by (auto simp: conj_inv_def)
  have marks: "n \<le> t \<longrightarrow> bump n fA x t d = coins_AmountOf C A d
      \<and> bump n fB y t d = coins_AmountOf C B d" for t d
    using inv assms(3) by (auto simp: conj_inv_def bump_def x(1) y(1))
  show ?thesis
  proof (cases "coins_IsZero C diff")
    case True
    then have zero: "coins_AmountOf C diff d = 0" for d by (simp add: amount)
    have "conjunct_emit C n (S\<lparr>cj_totalA := A, cj_totalB := B\<rparr>) = Inr (S\<lparr>cj_totalA := A, cj_totalB := B\<rparr>)"
      using diff(1) True by (simp add: conjunct_emit_def Let_def)
    moreover have "conj_inv C s n (bump n fA x) (bump n fB y) (S\<lparr>cj_totalA := A, cj_totalB := B\<rparr>)"
      using rel [unfolded zero] marks end_ zero diff(2) by (simp add: conj_inv_def amount)
    ultimately show ?thesis by blast
  next
    case False
    obtain ps1 where ps1: "emit_period n diff (cj_end S, cj_periods S) = (end_of s ps1, ps1)"
      "fits s ps1" "end_of s ps1 = n" "events s ps1 = events s (cj_periods S) @ [(n, diff)]"
      using end_ assms(4) by (auto elim: emit_period_fits [of s "cj_periods S" n diff])
    let ?S = "S\<lparr>cj_totalA := A, cj_totalB := B, cj_periods := ps1, cj_end := n,
      cj_result := coins_Add C (cj_result S) diff\<rparr>"
    have "\<forall>d. coins_AmountOf C (cj_result S) d \<le> coins_AmountOf C ?m d" using le by blast
    then have lte: "coins_IsAllLTE C (cj_result S) ?m" by (simp add: amount(4))
    have "conjunct_emit C n (S\<lparr>cj_totalA := A, cj_totalB := B\<rparr>) = Inr ?S"
      using diff(1) False ps1 lte by (simp add: conjunct_emit_def Let_def)
    moreover have "conj_inv C s n (bump n fA x) (bump n fB y) ?S"
      using rel marks ps1 diff(2) by (simp add: conj_inv_def amount released_append)
    ultimately show ?thesis by blast
  qed
qed

definition conjoined ::
  "'c coins_ops \<Rightarrow> int \<Rightarrow> (int \<Rightarrow> string \<Rightarrow> int) \<Rightarrow> (int \<Rightarrow> string \<Rightarrow> int) \<Rightarrow> go_panic + 'c conjunction \<Rightarrow> bool"
  where
  "conjoined C s fA fB r \<longleftrightarrow> (\<exists>S. r = Inr S \<and> fits s (cj_periods S) \<and> cj_end S = end_of s (cj_periods S) \<and>
     (\<forall>t d. released C (events s (cj_periods S)) t d = min (fA t d) (fB t d)))"

lemma bump_zero: "bump n f (\<lambda>d. 0) = f"
  by (simp add: bump_def)

definition then_released :: "'c coins_ops \<Rightarrow> (int \<Rightarrow> string \<Rightarrow> int) \<Rightarrow> int \<Rightarrow> 'c Period list \<Rightarrow> int \<Rightarrow> string \<Rightarrow> int" where
  "then_released C f tm ps = (\<lambda>t d. f t d + released C (events tm ps) t d)"

lemma then_released_Cons:
  "then_released C f tm (p # ps)
     = then_released C (bump (tm + Length p) f (coins_AmountOf C (Amount p))) (tm + Length p) ps"
  by (simp add: then_released_def bump_def fun_eq_iff)

lemma conjunct_loop_correct:
  assumes "coins_laws C" and "fits tA as" and "fits tB bs" and "conj_inv C s mark fA fB S"
    and "ahead mark tA as" and "ahead mark tB bs"
  shows "conjoined C s (then_released C fA tA as) (then_released C fB tB bs) (conjunct_loop C tA tB as bs S)"
  using assms
proof (induction C tA tB as bs S arbitrary: mark fA fB rule: conjunct_loop.induct)
  case (1 C tA tB a as b bs S)
  note A = fits_Cons [OF 1(5)] and B = fits_Cons [OF 1(6)]
  note amount = coin_amounts [OF 1(4)] and nonneg = coins_nonneg [OF 1(4)]
  note emit = conjunct_emit_inv [OF 1(4,7)]
  show ?case
  proof (cases "tA + Length a" "tB + Length b" rule: linorder_cases)
    case less
    obtain S' where S': "conjunct_emit C (tA + Length a)
        (S\<lparr>cj_totalA := coins_Add C (cj_totalA S) (Amount a), cj_totalB := cj_totalB S\<rparr>) = Inr S'"
      "conj_inv C s (tA + Length a) (bump (tA + Length a) fA (coins_AmountOf C (Amount a)))
         (bump (tA + Length a) fB (\<lambda>d. 0)) S'"
      using emit [of "tA + Length a" "coins_Add C (cj_totalA S) (Amount a)" "coins_AmountOf C (Amount a)"
          "cj_totalB S" "\<lambda>d. 0"] 1(8) A by (auto simp: amount nonneg)
    have "conjoined C s (then_released C (bump (tA + Length a) fA (coins_AmountOf C (Amount a))) (tA + Length a) as)
        (then_released C fB tB (b # bs)) (conjunct_loop C (tA + Length a) tB as (b # bs) S')"
      using 1(1) [OF refl refl refl refl _ _ 1(4) _ _ S'(2)] S'(1) A less 1(6) ahead_next [OF A(1)]
      by (simp add: B bump_zero)
    with S'(1) show ?thesis
      using A B less by (simp add: then_released_Cons [of _ _ tA] Let_def)
  next
    case equal
    have nB: "tB + Length b = tA + Length a" using equal by simp
    note B' = B [unfolded nB]
    obtain S' where S': "conjunct_emit C (tA + Length a)
        (S\<lparr>cj_totalA := coins_Add C (cj_totalA S) (Amount a),
           cj_totalB := coins_Add C (cj_totalB S) (Amount b)\<rparr>) = Inr S'"
      "conj_inv C s (tA + Length a) (bump (tA + Length a) fA (coins_AmountOf C (Amount a)))
         (bump (tA + Length a) fB (coins_AmountOf C (Amount b))) S'"
      using emit [of "tA + Length a" "coins_Add C (cj_totalA S) (Amount a)" "coins_AmountOf C (Amount a)"
          "coins_Add C (cj_totalB S) (Amount b)" "coins_AmountOf C (Amount b)"] 1(8) A(4)
      by (auto simp: amount nonneg)
    have "conjoined C s
        (then_released C (bump (tA + Length a) fA (coins_AmountOf C (Amount a))) (tA + Length a) as)
        (then_released C (bump (tA + Length a) fB (coins_AmountOf C (Amount b))) (tA + Length a) bs)
        (conjunct_loop C (tA + Length a) (tA + Length a) as bs S')"
      using 1(3) [OF refl refl refl refl _ _ _ 1(4) _ _ S'(2)] S'(1) A(1,5) B'(1,5)
        ahead_next [OF A(1)] ahead_next [OF B'(1)]
      by (simp add: nB)
    with S'(1) show ?thesis
      using A(5) B'(5) by (simp add: then_released_Cons nB Let_def)
  next
    case greater
    obtain S' where S': "conjunct_emit C (tB + Length b)
        (S\<lparr>cj_totalA := cj_totalA S, cj_totalB := coins_Add C (cj_totalB S) (Amount b)\<rparr>) = Inr S'"
      "conj_inv C s (tB + Length b) (bump (tB + Length b) fA (\<lambda>d. 0))
         (bump (tB + Length b) fB (coins_AmountOf C (Amount b))) S'"
      using emit [of "tB + Length b" "cj_totalA S" "\<lambda>d. 0" "coins_Add C (cj_totalB S) (Amount b)"
          "coins_AmountOf C (Amount b)"] 1(9) B by (auto simp: amount nonneg)
    have "conjoined C s (then_released C fA tA (a # as))
        (then_released C (bump (tB + Length b) fB (coins_AmountOf C (Amount b))) (tB + Length b) bs)
        (conjunct_loop C tA (tB + Length b) (a # as) bs S')"
      using 1(2) [OF refl refl refl refl _ _ _ 1(4) _ _ S'(2)] S'(1) B greater 1(5) ahead_next [OF B(1)]
      by (simp add: A bump_zero)
    with S'(1) show ?thesis
      using A B greater by (simp add: then_released_Cons [of _ _ tB] Let_def)
  qed
next
  case (2 C tA tB a as S)
  note A = fits_Cons [OF 2(3)]
  note amount = coin_amounts [OF 2(2)] and nonneg = coins_nonneg [OF 2(2)]
  obtain S' where S': "conjunct_emit C (tA + Length a)
      (S\<lparr>cj_totalA := coins_Add C (cj_totalA S) (Amount a), cj_totalB := cj_totalB S\<rparr>) = Inr S'"
    "conj_inv C s (tA + Length a) (bump (tA + Length a) fA (coins_AmountOf C (Amount a)))
       (bump (tA + Length a) fB (\<lambda>d. 0)) S'"
    using conjunct_emit_inv [OF 2(2,5), of "tA + Length a" "coins_Add C (cj_totalA S) (Amount a)"
        "coins_AmountOf C (Amount a)" "cj_totalB S" "\<lambda>d. 0"] 2(6) A by (auto simp: amount nonneg)
  have "conjoined C s (then_released C (bump (tA + Length a) fA (coins_AmountOf C (Amount a))) (tA + Length a) as)
      (then_released C fB tB []) (conjunct_loop C (tA + Length a) tB as [] S')"
    using 2(1) [OF refl _ 2(2) _ _ S'(2)] S'(1) A 2(4) ahead_next [OF A(1)]
    by (simp add: bump_zero)
  with S'(1) show ?case
    using A by (simp add: then_released_Cons [of _ _ tA] Let_def)
next
  case (3 C tA tB b bs S)
  note B = fits_Cons [OF 3(4)]
  note amount = coin_amounts [OF 3(2)] and nonneg = coins_nonneg [OF 3(2)]
  obtain S' where S': "conjunct_emit C (tB + Length b)
      (S\<lparr>cj_totalA := cj_totalA S, cj_totalB := coins_Add C (cj_totalB S) (Amount b)\<rparr>) = Inr S'"
    "conj_inv C s (tB + Length b) (bump (tB + Length b) fA (\<lambda>d. 0))
       (bump (tB + Length b) fB (coins_AmountOf C (Amount b))) S'"
    using conjunct_emit_inv [OF 3(2,5), of "tB + Length b" "cj_totalA S" "\<lambda>d. 0"
        "coins_Add C (cj_totalB S) (Amount b)" "coins_AmountOf C (Amount b)"] 3(7) B
    by (auto simp: amount nonneg)
  have "conjoined C s (then_released C fA tA [])
      (then_released C (bump (tB + Length b) fB (coins_AmountOf C (Amount b))) (tB + Length b) bs)
      (conjunct_loop C tA (tB + Length b) [] bs S')"
    using 3(1) [OF refl _ 3(2) _ _ S'(2)] S'(1) B 3(3) ahead_next [OF B(1)]
    by (simp add: bump_zero)
  with S'(1) show ?case
    using B by (simp add: then_released_Cons [of _ _ tB] Let_def)
next
  case (4 C tA tB S)
  then show ?case by (auto simp: conjoined_def then_released_def conj_inv_def)
qed

lemma Min64_min: "Min64 i j = min i j" and Max64_max: "Max64 i j = max i j"
  by (auto simp: Min64_def Max64_def)

lemma ahead_start: "fits t ps \<Longrightarrow> e \<le> t \<Longrightarrow> ahead e t ps"
  using ahead_next [of t ps] by (cases ps) auto

lemma fits_Nil_min: "fits a as \<Longrightarrow> fits b bs \<Longrightarrow> fits (min a b) []"
  using end_of_ge [of as a] end_of_ge [of bs b] by (auto simp: fits_def)

lemma ConjunctPeriods_correct:
  assumes "coins_laws C" and "fits sA as" and "fits sB bs"
  shows "\<exists>ps. ConjunctPeriods C sA sB as bs = Inr (min sA sB, end_of (min sA sB) ps, ps)
    \<and> fits (min sA sB) ps
    \<and> (\<forall>t d. released C (events (min sA sB) ps) t d
         = min (released C (events sA as) t d) (released C (events sB bs) t d))"
proof -
  let ?nil = "coins_NewCoins C"
  let ?S = "\<lparr>cj_totalA = ?nil, cj_totalB = ?nil, cj_result = ?nil, cj_end = min sA sB, cj_periods = []\<rparr>"
  have "conj_inv C (min sA sB) (min sA sB) (\<lambda>t d. 0) (\<lambda>t d. 0) ?S"
    using assms fits_Nil_min [OF assms(2,3)] by (simp add: conj_inv_def coin_amounts)
  from conjunct_loop_correct [OF assms this] assms(2,3)
  have "conjoined C (min sA sB) (then_released C (\<lambda>t d. 0) sA as) (then_released C (\<lambda>t d. 0) sB bs)
      (conjunct_loop C sA sB as bs ?S)"
    by (simp add: ahead_start)
  then show ?thesis
    by (auto simp: conjoined_def ConjunctPeriods_def Min64_min Let_def then_released_def)
qed

lemma DisjunctPeriods_correct:
  assumes "coins_laws C" and "fits sA as" and "fits sB bs"
  shows "\<exists>ps. DisjunctPeriods C sA sB as bs = (min sA sB, end_of (min sA sB) ps, ps)
    \<and> fits (min sA sB) ps
    \<and> end_of (min sA sB) ps = max (last_end (min sA sB) sA as) (last_end (min sA sB) sB bs)
    \<and> (\<forall>t d. released C (events (min sA sB) ps) t d
         = released C (events sA as) t d + released C (events sB bs) t d)"
proof -
  let ?s = "min sA sB" and ?out = "disjunct_loop C sA sB as bs (min sA sB, [])"
  have "merged C ?s [] sA as sB bs ?out"
    using disjunct_loop_correct [OF assms fits_Nil_min [OF assms(2,3)]] assms(2,3)
    by (simp add: ahead_start)
  then show ?thesis
    by (intro exI [of _ "snd ?out"])
      (auto simp: merged_def DisjunctPeriods_def Min64_min Let_def prod_eq_iff case_prod_beta)
qed

lemma released_total:
  assumes "fits s ps" and "fits a as" and "fits b bs"
    and "\<And>t. released C (events s ps) t d = released C (events a as) t d + released C (events b bs) t d"
  shows "total C ps d = total C as d + total C bs d"
proof -
  let ?t = "max (end_of s ps) (max (end_of a as) (end_of b bs))"
  show ?thesis
    using released_all [OF assms(1), of ?t C d] released_all [OF assms(2), of ?t C d]
      released_all [OF assms(3), of ?t C d] assms(4) [of ?t] by simp
qed

section \<open>Coins for the examples\<close>

definition bag_coins :: "string multiset coins_ops" where
  "bag_coins =
     \<lparr>coins_NewCoins = {#}, coins_Add = (+), coins_Min = (\<inter>#),
      coins_Sub = (\<lambda>a b. if b \<subseteq># a then Inr (a - b) else Inl (GoPanic ''negative coin amount'')),
      coins_SafeSub = (\<lambda>a b. (a - b, \<not> b \<subseteq># a)), coins_IsAllLTE = (\<subseteq>#),
      coins_IsZero = (\<lambda>a. a = {#}), coins_AmountOf = (\<lambda>a d. int (count a d)),
      coins_list = (\<lambda>a. map (\<lambda>d. (d, int (count a d))) (sorted_list_of_set (set_mset a))),
      coins_AddCoin = (\<lambda>a (d, x). a + replicate_mset (nat x) d),
      Periods_TotalLength = (\<lambda>ps. i64 (sum_list (map Length ps))),
      Periods_TotalAmount = (\<lambda>ps. sum_list (map Amount ps))\<rparr>"

lemma filter_key_distinct:
  "distinct ks \<Longrightarrow> sum_list (map snd (filter (\<lambda>k. fst k = d) (map (\<lambda>k. (k, f k)) ks)))
     = (if d \<in> set ks then f d else (0::int))"
  by (induction ks) auto

lemma count_sum_list: "int (count (sum_list xs) d) = sum_list (map (\<lambda>x. int (count x d)) xs)"
  by (induction xs) auto

lemma bag_laws: "coins_laws bag_coins"
proof -
  have "coins_list_laws bag_coins"
    by (auto simp: coins_list_laws_def bag_coins_def filter_key_distinct not_in_iff)
  then show ?thesis
    by (auto simp: coins_laws_def bag_coins_def subseteq_mset_def multiset_eq_iff
        count_sum_list comp_def)
      (metis count_diff of_nat_diff)
qed

section \<open>Properties of schedules\<close>

text \<open>
  ReadSchedule reads the step function of the schedule: nothing up to the start, afterwards the
  coins of all periods that have ended, which never shrinks and never passes the total.
\<close>

theorem ReadSchedule_step_function:
  assumes "coins_laws C" and "fits s ps" and "\<And>d. coins_AmountOf C tot d = total C ps d"
    and "end_of s ps \<le> e"
  shows "coins_AmountOf C (ReadSchedule C s e ps tot t) d
      = (if t \<le> s then 0 else released C (events s ps) t d)
    \<and> coins_AmountOf C (ReadSchedule C s e ps tot t) d \<le> coins_AmountOf C tot d
    \<and> (t \<le> u \<longrightarrow> coins_AmountOf C (ReadSchedule C s e ps tot t) d
         \<le> coins_AmountOf C (ReadSchedule C s e ps tot u) d)"
proof -
  have read: "coins_AmountOf C (ReadSchedule C s e ps tot v) d
      = (if v \<le> s then 0 else released C (events s ps) v d)" for v
    using ReadSchedule_amount [OF assms(1,2), of tot e v d] assms(1,3,4)
    by (auto simp: ReadSchedule_def coin_amounts)
  show ?thesis
    unfolding read using assms(1,3) released_mono [OF assms(1), of t u] released_nonneg [OF assms(1)]
      released_le_total [OF assms(1)] coins_nonneg [OF assms(1), of tot d] by simp
qed

theorem ReadSchedule_step_function_witness:
  "coins_AmountOf bag_coins (ReadSchedule bag_coins 10 30
     [\<lparr>Length = 5, Amount = {#''a''#}\<rparr>, \<lparr>Length = 15, Amount = {#''b''#}\<rparr>] {#''a'', ''b''#} 20) ''a'' = 1"
proof -
  let ?ps = "[\<lparr>Length = 5, Amount = {#''a''#}\<rparr>, \<lparr>Length = 15, Amount = {#''b''#}\<rparr>]"
  have "coins_AmountOf bag_coins (ReadSchedule bag_coins 10 30 ?ps {#''a'', ''b''#} 20) ''a''
      = (if 20 \<le> (10::int) then 0 else released bag_coins (events 10 ?ps) 20 ''a'')"
    by (rule ReadSchedule_step_function [OF bag_laws, THEN conjunct1])
      (auto simp: fits_def bag_coins_def total_def)
  then show ?thesis by (simp add: bag_coins_def)
qed

text \<open>
  C38: DisjunctPeriods is the sum of the two schedules: at every time the combined schedule has
  released exactly what both have released together. It starts at the earlier start and ends at the
  later end.
\<close>

theorem DisjunctPeriods_adds:
  assumes "coins_laws C" and "fits sA as" and "fits sB bs"
  shows "\<exists>ps. DisjunctPeriods C sA sB as bs = (min sA sB, end_of (min sA sB) ps, ps)
    \<and> fits (min sA sB) ps
    \<and> end_of (min sA sB) ps = max (last_end (min sA sB) sA as) (last_end (min sA sB) sB bs)
    \<and> (\<forall>t d. released C (events (min sA sB) ps) t d
         = released C (events sA as) t d + released C (events sB bs) t d)"
  using assms by (rule DisjunctPeriods_correct)

theorem DisjunctPeriods_adds_witness:
  "\<exists>ps. DisjunctPeriods bag_coins 10 12 [\<lparr>Length = 5, Amount = {#''a''#}\<rparr>]
       [\<lparr>Length = 8, Amount = {#''b''#}\<rparr>] = (10, 20, ps)
     \<and> released bag_coins (events 10 ps) 20 ''b'' = 1"
  using DisjunctPeriods_adds [OF bag_laws, of 10 "[\<lparr>Length = 5, Amount = {#''a''#}\<rparr>]" 12
      "[\<lparr>Length = 8, Amount = {#''b''#}\<rparr>]"]
  by (auto simp: fits_def bag_coins_def)

text \<open>
  ConjunctPeriods never panics and is the minimum of the two schedules: at every time the
  combined schedule has released the smaller of the two amounts, for each denomination.
\<close>

theorem ConjunctPeriods_min:
  assumes "coins_laws C" and "fits sA as" and "fits sB bs"
  shows "\<exists>ps. ConjunctPeriods C sA sB as bs = Inr (min sA sB, end_of (min sA sB) ps, ps)
    \<and> fits (min sA sB) ps
    \<and> (\<forall>t d. released C (events (min sA sB) ps) t d
         = min (released C (events sA as) t d) (released C (events sB bs) t d))"
  using assms by (rule ConjunctPeriods_correct)

theorem ConjunctPeriods_min_witness:
  "\<exists>ps. ConjunctPeriods bag_coins 10 10 [\<lparr>Length = 5, Amount = {#''a'', ''a''#}\<rparr>]
       [\<lparr>Length = 8, Amount = {#''a''#}\<rparr>] = Inr (10, end_of 10 ps, ps)
     \<and> released bag_coins (events 10 ps) 18 ''a'' = 1"
  using ConjunctPeriods_min [OF bag_laws, of 10 "[\<lparr>Length = 5, Amount = {#''a'', ''a''#}\<rparr>]" 10
      "[\<lparr>Length = 8, Amount = {#''a''#}\<rparr>]"]
  by (auto simp: fits_def bag_coins_def)

end
