(* ===== verification/Clawback.thy ===== *)
theory Clawback
  imports Schedule
begin

text \<open>
  The clawback vesting account (x/vesting/types/clawback_vesting_account.go): coins of a funder
  under two schedules, one that unlocks them and one that vests them.

  \<^item> The embedded base account is the parameter \<open>'base\<close>. Of the SDK's \<open>BaseVestingAccount\<close> the
    fields are kept; its own \<open>Validate\<close> is an argument.
  \<^item> A block time is its Unix time in seconds.
  \<^item> \<open>va_inv\<close> is what \<open>Validate\<close> asks of the schedules: both release the original vesting, no later
    than the end time.
\<close>

record ('base, 'c) ClawbackVestingAccount =
  BaseAccount :: 'base
  OriginalVesting :: 'c
  DelegatedFree :: 'c
  DelegatedVesting :: 'c
  EndTime :: int
  FunderAddress :: string
  va_StartTime :: int
  LockupPeriods :: "'c Period list"
  VestingPeriods :: "'c Period list"

definition NewClawbackVestingAccount ::
  "'c coins_ops \<Rightarrow> 'base \<Rightarrow> string \<Rightarrow> 'c \<Rightarrow> int \<Rightarrow> 'c Period list \<Rightarrow> 'c Period list
     \<Rightarrow> ('base, 'c) ClawbackVestingAccount" where
  "NewClawbackVestingAccount C baseAcc funder originalVesting startTime lockupPeriods vestingPeriods =
     (let ((_, endTime), lp, vp) = AlignSchedules C startTime startTime lockupPeriods vestingPeriods
      in \<lparr>BaseAccount = baseAcc, OriginalVesting = originalVesting, DelegatedFree = coins_NewCoins C,
          DelegatedVesting = coins_NewCoins C, EndTime = endTime, FunderAddress = funder,
          va_StartTime = startTime, LockupPeriods = lp, VestingPeriods = vp\<rparr>)"

definition GetUnlockedCoins :: "'c coins_ops \<Rightarrow> ('base, 'c) ClawbackVestingAccount \<Rightarrow> int \<Rightarrow> 'c" where
  "GetUnlockedCoins C va blockTime =
     ReadSchedule C (va_StartTime va) (EndTime va) (LockupPeriods va) (OriginalVesting va) blockTime"

definition GetLockedUpCoins ::
  "'c coins_ops \<Rightarrow> ('base, 'c) ClawbackVestingAccount \<Rightarrow> int \<Rightarrow> go_panic + 'c" where
  "GetLockedUpCoins C va blockTime = coins_Sub C (OriginalVesting va) (GetUnlockedCoins C va blockTime)"

definition GetVestedCoins :: "'c coins_ops \<Rightarrow> ('base, 'c) ClawbackVestingAccount \<Rightarrow> int \<Rightarrow> 'c" where
  "GetVestedCoins C va blockTime =
     ReadSchedule C (va_StartTime va) (EndTime va) (VestingPeriods va) (OriginalVesting va) blockTime"

definition GetPassedPeriodCount :: "('base, 'c) ClawbackVestingAccount \<Rightarrow> int \<Rightarrow> nat" where
  "GetPassedPeriodCount va blockTime =
     ReadPastPeriodCount (va_StartTime va) (EndTime va) (VestingPeriods va) blockTime"

definition GetUnlockedVestedCoins ::
  "'c coins_ops \<Rightarrow> ('base, 'c) ClawbackVestingAccount \<Rightarrow> int \<Rightarrow> 'c" where
  "GetUnlockedVestedCoins C va blockTime =
     (let coins = coins_Min C (GetUnlockedCoins C va blockTime) (GetVestedCoins C va blockTime)
      in if coins_IsZero C coins then coins_NewCoins C else coins)"

definition GetLockedUpVestedCoins ::
  "'c coins_ops \<Rightarrow> ('base, 'c) ClawbackVestingAccount \<Rightarrow> int \<Rightarrow> go_panic + 'c" where
  "GetLockedUpVestedCoins C va blockTime =
     coins_Sub C (GetVestedCoins C va blockTime) (GetUnlockedVestedCoins C va blockTime)"

definition GetVestingCoins ::
  "'c coins_ops \<Rightarrow> ('base, 'c) ClawbackVestingAccount \<Rightarrow> int \<Rightarrow> go_panic + 'c" where
  "GetVestingCoins C va blockTime = coins_Sub C (OriginalVesting va) (GetVestedCoins C va blockTime)"

definition LockedCoins ::
  "'c coins_ops \<Rightarrow> ('base, 'c) ClawbackVestingAccount \<Rightarrow> int \<Rightarrow> go_panic + 'c" where
  "LockedCoins C va blockTime =
     rbind (GetLockedUpVestedCoins C va blockTime) (\<lambda>lockedUpVested.
       let lockedUpVestedDelegatedCoins = coins_Min C (DelegatedFree va) lockedUpVested;
           (res, isNeg) = coins_SafeSub C (OriginalVesting va)
             (coins_Add C (GetUnlockedVestedCoins C va blockTime) lockedUpVestedDelegatedCoins)
       in if isNeg then Inr (coins_NewCoins C) else Inr res)"

fun track_delegation ::
  "'c coins_ops \<Rightarrow> 'c \<Rightarrow> (string \<times> int) list \<Rightarrow> ('base, 'c) ClawbackVestingAccount
     \<Rightarrow> go_panic + ('base, 'c) ClawbackVestingAccount" where
  "track_delegation C balance [] va = Inr va"
| "track_delegation C balance (coin # amount) va =
     (let baseAmt = coins_AmountOf C balance (fst coin)
      in if snd coin = 0 \<or> baseAmt < snd coin
         then Inl (GoPanic ''delegation attempt with zero coins or insufficient funds'')
         else track_delegation C balance amount
                (va\<lparr>DelegatedFree := coins_AddCoin C (DelegatedFree va) coin\<rparr>))"

definition TrackDelegation ::
  "'c coins_ops \<Rightarrow> ('base, 'c) ClawbackVestingAccount \<Rightarrow> 'c \<Rightarrow> 'c
     \<Rightarrow> go_panic + ('base, 'c) ClawbackVestingAccount" where
  "TrackDelegation C va balance amount = track_delegation C balance (coins_list C amount) va"

fun sum_periods :: "'c coins_ops \<Rightarrow> int \<Rightarrow> 'c \<Rightarrow> 'c Period list \<Rightarrow> int \<times> 'c" where
  "sum_periods C endTime coins [] = (endTime, coins)"
| "sum_periods C endTime coins (p # ps) =
     sum_periods C (i64 (endTime + Length p)) (coins_Add C coins (Amount p)) ps"

definition va_Validate ::
  "'c coins_ops \<Rightarrow> (('base, 'c) ClawbackVestingAccount \<Rightarrow> string + unit)
     \<Rightarrow> ('base, 'c) ClawbackVestingAccount \<Rightarrow> string + unit" where
  "va_Validate C base_Validate va =
     (if va_StartTime va \<ge> EndTime va then Inl ''vesting start-time must be before end-time''
      else let (lockupEnd, lockupCoins) = sum_periods C (va_StartTime va) (coins_NewCoins C) (LockupPeriods va)
      in if lockupEnd > EndTime va then Inl ''lockup schedule extends beyond account end time''
      else if \<not> CoinEq C lockupCoins (OriginalVesting va)
        then Inl ''original vesting coins does not match the sum of all coins in lockup periods''
      else let (vestingEnd, vestingCoins) =
                 sum_periods C (va_StartTime va) (coins_NewCoins C) (VestingPeriods va)
      in if vestingEnd > EndTime va then Inl ''vesting schedule extends beyond account end time''
      else if \<not> CoinEq C vestingCoins (OriginalVesting va)
        then Inl ''original vesting coins does not match the sum of all coins in vesting periods''
      else base_Validate va)"

definition ComputeClawback ::
  "'c coins_ops \<Rightarrow> ('base, 'c) ClawbackVestingAccount \<Rightarrow> int
     \<Rightarrow> go_panic + ('base, 'c) ClawbackVestingAccount \<times> 'c" where
  "ComputeClawback C va clawbackTime =
     (let totalVested = GetVestedCoins C va clawbackTime
      in rbind (GetVestingCoins C va clawbackTime) (\<lambda>totalUnvested.
         let passedPeriodID = GetPassedPeriodCount va clawbackTime;
             newVestingPeriods = take passedPeriodID (VestingPeriods va);
             newVestingEnd = i64 (va_StartTime va + Periods_TotalLength C newVestingPeriods);
             capPeriods = [\<lparr>Length = 0, Amount = totalVested\<rparr>]
         in rbind (ConjunctPeriods C (va_StartTime va) (va_StartTime va) (LockupPeriods va) capPeriods)
              (\<lambda>(_, newLockingEnd, newLockupPeriods).
            Inr (va\<lparr>OriginalVesting := totalVested, EndTime := Max64 newVestingEnd newLockingEnd,
                   LockupPeriods := newLockupPeriods, VestingPeriods := newVestingPeriods\<rparr>,
                 totalUnvested))))"

definition HasLockedCoins ::
  "'c coins_ops \<Rightarrow> ('base, 'c) ClawbackVestingAccount \<Rightarrow> int \<Rightarrow> go_panic + bool" where
  "HasLockedCoins C va blockTime =
     rbind (GetLockedUpCoins C va blockTime) (\<lambda>c. Inr (\<not> coins_IsZero C c))"

section \<open>The invariant of an account\<close>

definition va_inv :: "'c coins_ops \<Rightarrow> ('base, 'c) ClawbackVestingAccount \<Rightarrow> bool" where
  "va_inv C va \<longleftrightarrow>
     fits (va_StartTime va) (LockupPeriods va) \<and> fits (va_StartTime va) (VestingPeriods va) \<and>
     end_of (va_StartTime va) (LockupPeriods va) \<le> EndTime va \<and>
     end_of (va_StartTime va) (VestingPeriods va) \<le> EndTime va \<and>
     (\<forall>d. total C (LockupPeriods va) d = coins_AmountOf C (OriginalVesting va) d) \<and>
     (\<forall>d. total C (VestingPeriods va) d = coins_AmountOf C (OriginalVesting va) d)"

lemma sum_periods_eq:
  assumes "coins_laws C" and "fits s ps"
  shows "fst (sum_periods C s c ps) = end_of s ps"
    and "coins_AmountOf C (snd (sum_periods C s c ps)) d = coins_AmountOf C c d + total C ps d"
  using assms(2)
proof (induction ps arbitrary: s c)
  case (Cons p ps)
  case 1 then show ?case using Cons(1) fits_Cons(1,5) [of s p ps] by simp
next
  case (Cons p ps)
  case 2 then show ?case
    using Cons(2) fits_Cons(1,5) [of s p ps] by (simp add: coin_amounts [OF assms(1)])
qed simp_all

lemma CoinEq_amounts:
  "coins_laws C \<Longrightarrow> CoinEq C a b \<longleftrightarrow> (\<forall>d. coins_AmountOf C a d = coins_AmountOf C b d)"
  by (auto simp: CoinEq_def coin_amounts eq_iff)

lemma Validate_inv:
  assumes "coins_laws C" and "va_Validate C bv va = Inr ()"
    and "fits (va_StartTime va) (LockupPeriods va)" and "fits (va_StartTime va) (VestingPeriods va)"
  shows "va_inv C va"
  using assms(2-) sum_periods_eq [OF assms(1,3)] sum_periods_eq [OF assms(1,4)]
  by (auto simp: va_Validate_def va_inv_def CoinEq_amounts [OF assms(1)] coin_amounts [OF assms(1)]
      case_prod_beta Let_def split: if_splits)

lemma unlocked_amount:
  assumes "coins_laws C" and "va_inv C va"
  shows "coins_AmountOf C (GetUnlockedCoins C va t) d = (if t \<le> va_StartTime va then 0
    else released C (events (va_StartTime va) (LockupPeriods va)) t d)"
  using assms ReadSchedule_amount [OF assms(1), of "va_StartTime va" "LockupPeriods va" "OriginalVesting va"
      "EndTime va" t d]
  by (auto simp: GetUnlockedCoins_def va_inv_def ReadSchedule_def coin_amounts)

lemma vested_amount:
  assumes "coins_laws C" and "va_inv C va"
  shows "coins_AmountOf C (GetVestedCoins C va t) d = (if t \<le> va_StartTime va then 0
    else released C (events (va_StartTime va) (VestingPeriods va)) t d)"
  using assms ReadSchedule_amount [OF assms(1), of "va_StartTime va" "VestingPeriods va" "OriginalVesting va"
      "EndTime va" t d]
  by (auto simp: GetVestedCoins_def va_inv_def ReadSchedule_def coin_amounts)

lemma vested_mono:
  "coins_laws C \<Longrightarrow> va_inv C va \<Longrightarrow> t \<le> u \<Longrightarrow>
     coins_AmountOf C (GetVestedCoins C va t) d \<le> coins_AmountOf C (GetVestedCoins C va u) d"
  by (auto simp: vested_amount released_mono released_nonneg)

lemma unlocked_mono:
  "coins_laws C \<Longrightarrow> va_inv C va \<Longrightarrow> t \<le> u \<Longrightarrow>
     coins_AmountOf C (GetUnlockedCoins C va t) d \<le> coins_AmountOf C (GetUnlockedCoins C va u) d"
  by (auto simp: unlocked_amount released_mono released_nonneg)

lemma vested_le:
  assumes "coins_laws C" and "va_inv C va"
  shows "coins_AmountOf C (GetVestedCoins C va t) d \<le> coins_AmountOf C (OriginalVesting va) d"
  using assms(2) released_le_total [OF assms(1), of "va_StartTime va" "VestingPeriods va" t d]
    coins_nonneg [OF assms(1), of "OriginalVesting va" d]
  by (auto simp: vested_amount [OF assms] va_inv_def)

lemma unlocked_vested_amount:
  "coins_laws C \<Longrightarrow> coins_AmountOf C (GetUnlockedVestedCoins C va t) d
     = min (coins_AmountOf C (GetUnlockedCoins C va t) d) (coins_AmountOf C (GetVestedCoins C va t) d)"
  by (auto simp: GetUnlockedVestedCoins_def coin_amounts Let_def)

lemma vesting_amount:
  assumes "coins_laws C" and "va_inv C va"
  obtains c where "GetVestingCoins C va t = Inr c"
    and "\<And>d. coins_AmountOf C c d
      = coins_AmountOf C (OriginalVesting va) d - coins_AmountOf C (GetVestedCoins C va t) d"
  using coins_sub [OF assms(1) vested_le [OF assms]] unfolding GetVestingCoins_def by blast

section \<open>What is locked\<close>

text \<open>
  LockedCoins never panics and never uses its fallback: what is locked is the original vesting
  less the vested coins that are unlocked or, up to the amount delegated, still locked up. As long
  as the delegated amount stays, the locked coins only shrink over time.
\<close>

theorem LockedCoins_shrink:
  assumes "coins_laws C" and "va_inv C va" and "t \<le> u"
  shows "\<exists>r s. LockedCoins C va t = Inr r \<and> LockedCoins C va u = Inr s \<and> (\<forall>d.
    coins_AmountOf C r d = coins_AmountOf C (OriginalVesting va) d
      - min (coins_AmountOf C (GetVestedCoins C va t) d)
          (coins_AmountOf C (GetUnlockedCoins C va t) d + coins_AmountOf C (DelegatedFree va) d)
    \<and> coins_AmountOf C s d \<le> coins_AmountOf C r d)"
proof -
  note amount = coin_amounts [OF assms(1)] unlocked_vested_amount [OF assms(1)]
  let ?spend = "\<lambda>v d. min (coins_AmountOf C (GetVestedCoins C va v) d)
    (coins_AmountOf C (GetUnlockedCoins C va v) d + coins_AmountOf C (DelegatedFree va) d)"
  have "\<exists>r. LockedCoins C va v = Inr r \<and>
      (\<forall>d. coins_AmountOf C r d = coins_AmountOf C (OriginalVesting va) d - ?spend v d)" for v
  proof -
    have "\<And>d. coins_AmountOf C (GetUnlockedVestedCoins C va v) d \<le> coins_AmountOf C (GetVestedCoins C va v) d"
      by (simp add: amount)
    from coins_sub [OF assms(1) this] obtain l where l: "GetLockedUpVestedCoins C va v = Inr l"
      "\<And>d. coins_AmountOf C l d = coins_AmountOf C (GetVestedCoins C va v) d
         - coins_AmountOf C (GetUnlockedVestedCoins C va v) d"
      unfolding GetLockedUpVestedCoins_def by blast
    let ?out = "coins_Add C (GetUnlockedVestedCoins C va v) (coins_Min C (DelegatedFree va) l)"
    have out: "coins_AmountOf C ?out d = ?spend v d" for d
      using coins_nonneg [OF assms(1), of "DelegatedFree va" d] by (auto simp: amount l(2))
    then have "\<And>d. coins_AmountOf C ?out d \<le> coins_AmountOf C (OriginalVesting va) d"
      using vested_le [OF assms(1,2), of v] by (metis min.coboundedI1)
    from coins_sub [OF assms(1) this] obtain r where
      "coins_SafeSub C (OriginalVesting va) ?out = (r, False)"
      "\<And>d. coins_AmountOf C r d = coins_AmountOf C (OriginalVesting va) d - coins_AmountOf C ?out d"
      by blast
    then show ?thesis by (simp add: LockedCoins_def l(1) out Let_def)
  qed
  moreover have "?spend t d \<le> ?spend u d" for d
    using vested_mono [OF assms, of d] unlocked_mono [OF assms, of d] by (intro min.mono) simp_all
  ultimately show ?thesis by (metis diff_left_mono)
qed

definition sample_account :: "(unit, string multiset) ClawbackVestingAccount" where
  "sample_account = \<lparr>BaseAccount = (), OriginalVesting = {#''a'', ''a''#}, DelegatedFree = {#},
     DelegatedVesting = {#}, EndTime = 30, FunderAddress = ''funder'', va_StartTime = 10,
     LockupPeriods = [\<lparr>Length = 20, Amount = {#''a'', ''a''#}\<rparr>],
     VestingPeriods = [\<lparr>Length = 5, Amount = {#''a''#}\<rparr>, \<lparr>Length = 10, Amount = {#''a''#}\<rparr>]\<rparr>"

lemma sample_inv: "va_inv bag_coins sample_account"
  by (simp add: va_inv_def sample_account_def fits_def bag_coins_def)

theorem LockedCoins_shrink_witness:
  "\<exists>r s. LockedCoins bag_coins sample_account 16 = Inr r \<and> LockedCoins bag_coins sample_account 31 = Inr s
     \<and> coins_AmountOf bag_coins s ''a'' \<le> coins_AmountOf bag_coins r ''a''"
  using LockedCoins_shrink [OF bag_laws sample_inv, of 16 31] by auto

section \<open>What a clawback takes\<close>

lemma released_take:
  assumes "fits s ps" and "s < t0"
  shows "released C (events s (take (count_periods t0 s ps 0) ps)) t d
    = released C (events s ps) (min t t0) d"
proof (cases "t \<le> t0")
  case False
  have "end_of s (take (count_periods t0 s ps 0) ps) \<le> t"
    using count_periods_take(3) [OF assms(1), of t0] False assms(2) by simp
  with False show ?thesis
    using released_all [OF count_periods_take(4) [OF assms(1)], of t0 t C d]
      count_periods_take(2) [OF assms(1), of C t0 d] by (simp add: min_def)
next
  case True
  have "released C (events s (take (count_periods t0 s ps 0) ps)) t d = released C (events s ps) t d"
    using assms(1)
  proof (induction ps arbitrary: s)
    case (Cons p ps)
    note f = fits_Cons [OF Cons.prems]
    have count: "count_periods t0 s (p # ps) 0 = (if t0 < s + Length p then 0
        else Suc (count_periods t0 (s + Length p) ps 0))"
      using f(5) by (simp add: count_periods_add [of _ _ _ "Suc 0"])
    show ?case
      using Cons.IH [OF f(1)] released_none [OF f(1), of t C d] True
      by (simp add: count del: count_periods.simps)
  qed simp
  with True show ?thesis by (simp add: min_def)
qed

lemma passed_periods:
  fixes t0 :: int
  assumes "coins_laws C" and "va_inv C va"
  defines "ps \<equiv> take (GetPassedPeriodCount va t0) (VestingPeriods va)"
  shows "fits (va_StartTime va) ps"
    and "total C ps d = coins_AmountOf C (GetVestedCoins C va t0) d"
    and "va_StartTime va < t0 \<Longrightarrow> released C (events (va_StartTime va) ps) t d
      = released C (events (va_StartTime va) (VestingPeriods va)) (min t t0) d"
proof -
  let ?s = "va_StartTime va" and ?vs = "VestingPeriods va"
  from assms(2) have fits: "fits ?s ?vs" and end_: "end_of ?s ?vs \<le> EndTime va"
    and tot: "total C ?vs d = coins_AmountOf C (OriginalVesting va) d" for d
    by (auto simp: va_inv_def)
  consider "t0 \<le> ?s" | "?s < t0" "EndTime va \<le> t0" | "?s < t0" "t0 < EndTime va" by linarith
  then have "fits ?s ps \<and> total C ps d = coins_AmountOf C (GetVestedCoins C va t0) d \<and>
    (?s < t0 \<longrightarrow> released C (events ?s ps) t d = released C (events ?s ?vs) (min t t0) d)"
  proof cases
    case 1
    then show ?thesis using fits
      by (auto simp: ps_def GetPassedPeriodCount_def ReadPastPeriodCount_def GetVestedCoins_def
          ReadSchedule_def coin_amounts [OF assms(1)] fits_def dest: end_of_ge [of ?vs ?s])
  next
    case 2
    then have "released C (events ?s ?vs) t d = released C (events ?s ?vs) (min t t0) d"
      using released_all [OF fits, of t C d] released_all [OF fits, of t0 C d] end_ by (auto simp: min_def)
    with 2 show ?thesis using fits tot
      by (simp add: ps_def GetPassedPeriodCount_def ReadPastPeriodCount_def GetVestedCoins_def ReadSchedule_def)
  next
    case 3
    then have ps: "ps = take (count_periods t0 ?s ?vs 0) ?vs"
      by (simp add: ps_def GetPassedPeriodCount_def ReadPastPeriodCount_def)
    show ?thesis
      unfolding ps using 3 count_periods_take(2) [OF fits, of C t0] count_periods_take(4) [OF fits, of t0] released_take [OF fits 3(1)]
      by (simp add: vested_amount [OF assms(1,2)])
  qed
  then show "fits ?s ps" "total C ps d = coins_AmountOf C (GetVestedCoins C va t0) d"
    "?s < t0 \<Longrightarrow> released C (events ?s ps) t d = released C (events ?s ?vs) (min t t0) d" by auto
qed

text \<open>The account and the coins that \<open>ComputeClawback\<close> returns.\<close>

lemma ComputeClawback_correct:
  assumes "coins_laws C" and "va_inv C va"
  shows "\<exists>va' unvested. ComputeClawback C va t0 = Inr (va', unvested) \<and> va_inv C va' \<and>
    BaseAccount va' = BaseAccount va \<and> va_StartTime va' = va_StartTime va \<and>
    (\<forall>d. coins_AmountOf C (OriginalVesting va') d + coins_AmountOf C unvested d
       = coins_AmountOf C (OriginalVesting va) d) \<and>
    (\<forall>t d. coins_AmountOf C (GetVestedCoins C va' t) d
       = coins_AmountOf C (GetVestedCoins C va (min t t0)) d) \<and>
    (\<forall>t d. coins_AmountOf C (GetUnlockedCoins C va' t) d
       = min (coins_AmountOf C (GetUnlockedCoins C va t) d) (coins_AmountOf C (GetVestedCoins C va t0) d))"
proof -
  let ?s = "va_StartTime va" and ?v = "GetVestedCoins C va t0"
  let ?cap = "[\<lparr>Length = 0, Amount = ?v\<rparr>]"
  let ?vps = "take (GetPassedPeriodCount va t0) (VestingPeriods va)"
  note passed = passed_periods [OF assms, of t0]
  from assms(2) have lock: "fits ?s (LockupPeriods va)"
    and tot: "total C (LockupPeriods va) d = coins_AmountOf C (OriginalVesting va) d" for d
    by (auto simp: va_inv_def)
  then have "fits ?s ?cap" using end_of_ge [of "LockupPeriods va" ?s] by (auto simp: fits_def)
  from ConjunctPeriods_correct [OF assms(1) lock this] obtain lps where
    lps: "ConjunctPeriods C ?s ?s (LockupPeriods va) ?cap = Inr (?s, end_of ?s lps, lps)" "fits ?s lps"
    "\<And>t d. released C (events ?s lps) t d = min (released C (events ?s (LockupPeriods va)) t d)
       (released C (events ?s ?cap) t d)" by auto
  obtain unv where unv: "GetVestingCoins C va t0 = Inr unv" "\<And>d. coins_AmountOf C unv d
      = coins_AmountOf C (OriginalVesting va) d - coins_AmountOf C ?v d"
    by (rule vesting_amount [OF assms, of t0]) blast
  have vend: "i64 (?s + Periods_TotalLength C ?vps) = end_of ?s ?vps"
  proof -
    have "?s \<le> end_of ?s ?vps" using passed(1) by (intro end_of_ge) (simp add: fits_def)
    then have "0 \<le> sum_list (map Length ?vps)" by (simp add: end_of_def)
    then have "i64 (sum_list (map Length ?vps)) = sum_list (map Length ?vps)"
      using passed(1) by (intro i64_id) (auto simp: fits_def end_of_def)
    then show ?thesis
      using passed(1) \<open>?s \<le> end_of ?s ?vps\<close>
      by (simp add: coins_TotalLength [OF assms(1)] fits_def flip: end_of_def) (simp add: end_of_def i64_id)
  qed
  let ?va = "va\<lparr>OriginalVesting := ?v, EndTime := Max64 (end_of ?s ?vps) (end_of ?s lps),
    LockupPeriods := lps, VestingPeriods := ?vps\<rparr>"
  have run: "ComputeClawback C va t0 = Inr (?va, unv)"
    by (simp add: ComputeClawback_def unv(1) lps(1) vend Let_def)
  have ltot: "total C lps d = coins_AmountOf C ?v d" for d
  proof -
    let ?t = "max (end_of ?s lps) (end_of ?s (LockupPeriods va))"
    have "?s \<le> ?t" using end_of_ge [of "LockupPeriods va" ?s] lock by (simp add: fits_def le_max_iff_disj)
    then have "total C lps d = min (total C (LockupPeriods va) d) (coins_AmountOf C ?v d)"
      using released_all [OF lps(2), of ?t C d] released_all [OF lock, of ?t C d] lps(3) [of ?t d] by simp
    with tot vested_le [OF assms] show ?thesis by simp
  qed
  have inv: "va_inv C ?va"
    using passed(1,2) lps(2) ltot by (simp add: va_inv_def Max64_def)
  have vested: "coins_AmountOf C (GetVestedCoins C ?va t) d
      = coins_AmountOf C (GetVestedCoins C va (min t t0)) d" for t d
  proof (cases "?s < t0")
    case True
    then show ?thesis
      using passed(3) [OF True, of t d] by (auto simp: vested_amount [OF assms(1) inv] vested_amount [OF assms])
  next
    case False
    then have "?vps = []"
      by (simp add: GetPassedPeriodCount_def ReadPastPeriodCount_def)
    with False show ?thesis
      by (auto simp: vested_amount [OF assms(1) inv] vested_amount [OF assms] min_def)
  qed
  have unlocked: "coins_AmountOf C (GetUnlockedCoins C ?va t) d
      = min (coins_AmountOf C (GetUnlockedCoins C va t) d) (coins_AmountOf C ?v d)" for t d
    using coins_nonneg [OF assms(1), of ?v d]
    by (simp add: unlocked_amount [OF assms(1) inv] unlocked_amount [OF assms] lps(3))
  show ?thesis
    using run inv vested unlocked unv(2) by (intro exI [of _ ?va] exI [of _ unv]) auto
qed

text \<open>
  ComputeClawback splits the grant at the clawback time: what stays and what is clawed back add
  up to the original vesting; the account that stays is well formed, vests what the old one vested
  up to that time and no more, and unlocks as the old one did, up to what was vested.
\<close>

theorem ComputeClawback_splits:
  assumes "coins_laws C" and "va_inv C va"
  shows "\<exists>va' unvested. ComputeClawback C va t0 = Inr (va', unvested) \<and> va_inv C va' \<and>
    (\<forall>d. coins_AmountOf C (OriginalVesting va') d + coins_AmountOf C unvested d
       = coins_AmountOf C (OriginalVesting va) d) \<and>
    (\<forall>t d. coins_AmountOf C (GetVestedCoins C va' t) d
       = coins_AmountOf C (GetVestedCoins C va (min t t0)) d) \<and>
    (\<forall>t d. coins_AmountOf C (GetUnlockedCoins C va' t) d
       = min (coins_AmountOf C (GetUnlockedCoins C va t) d) (coins_AmountOf C (GetVestedCoins C va t0) d))"
  using ComputeClawback_correct [OF assms, of t0] by blast

theorem ComputeClawback_splits_witness:
  "\<exists>va' unvested. ComputeClawback bag_coins sample_account 16 = Inr (va', unvested)
     \<and> coins_AmountOf bag_coins (OriginalVesting va') ''a'' + coins_AmountOf bag_coins unvested ''a'' = 2"
  using ComputeClawback_splits [OF bag_laws sample_inv, of 16]
  by (auto simp: sample_account_def bag_coins_def)

end
