(* ===== verification/VestingKeeper.thy ===== *)
theory VestingKeeper
  imports Clawback
begin

text \<open>
  The messages of the vesting module and its governance hooks (x/vesting/keeper).

  \<^item> \<open>vest_ctx\<close> holds the accounts, the two key sets of the module's store (governance clawback
    disabled, active clawback proposal), the state \<open>'b\<close> of the other modules, the block time and
    the events.
  \<^item> \<open>vest_env\<close> holds what comes from outside: the bank, staking, distribution and governance
    keepers, the address codec and the hash of no code.
  \<^item> A handler returns the new state, an error (\<open>GoErr\<close>) or a panic (\<open>GoPanicked\<close>); in the last two
    cases the transaction leaves no trace.
\<close>

section \<open>State and environment\<close>

datatype ('base, 'c) account =
  EthAccount 'base string
| ClawbackAccount "('base, 'c) ClawbackVestingAccount"
| OtherAccount 'base

datatype 'c vest_event =
  EvCreate string string
| EvFund string 'c int string
| EvClawback string string string
| EvUpdateFunder string string string

record ('a, 'b, 'base, 'c) vest_ctx =
  vc_accounts :: "'a \<Rightarrow> ('base, 'c) account option"
  vc_govDisabled :: "'a set"
  vc_proposals :: "'a set"
  vc_rest :: 'b
  vc_time :: int
  vc_events :: "'c vest_event list"

datatype 'a gov_msg = ExecLegacyClawback string | ExecLegacyOther | NotLegacyContent

record ('a, 'c) gov_proposal =
  gp_msgs :: "string + 'a gov_msg list"
  gp_totalDeposit :: 'c

record ('a, 'b, 'base, 'c) vest_env =
  ve_coins :: "'c coins_ops"
  ve_IsValid :: "'c \<Rightarrow> bool"
  ve_Coin :: "string \<Rightarrow> int \<Rightarrow> 'c"
  ve_FromBech32 :: "string \<Rightarrow> string + 'a"
  ve_String :: "'a \<Rightarrow> string"
  ve_emptyAddress :: 'a
  ve_zeroAddress :: 'a
  ve_GetAddress :: "'base \<Rightarrow> 'a"
  ve_emptyCodeHash :: string
  ve_authority :: 'a
  ve_GetModuleAddress :: "string \<Rightarrow> 'a"
  ve_BlockedAddr :: "'a \<Rightarrow> bool"
  ve_SendCoins :: "('a \<Rightarrow> ('base, 'c) account option) \<Rightarrow> 'b \<Rightarrow> 'a \<Rightarrow> 'a \<Rightarrow> 'c \<Rightarrow> string + 'b"
  ve_FundCommunityPool :: "('a \<Rightarrow> ('base, 'c) account option) \<Rightarrow> 'b \<Rightarrow> 'c \<Rightarrow> 'a \<Rightarrow> string + 'b"
  ve_GetDelegatorBonded :: "'b \<Rightarrow> 'a \<Rightarrow> int"
  ve_GetDelegatorUnbonding :: "'b \<Rightarrow> 'a \<Rightarrow> int"
  ve_BondDenom :: "'b \<Rightarrow> string"
  ve_GetProposal :: "'b \<Rightarrow> int \<Rightarrow> ('a, 'c) gov_proposal option"
  ve_MinDeposit :: "'b \<Rightarrow> 'c"
  ve_IsAllLT :: "'c \<Rightarrow> 'c \<Rightarrow> bool"

definition MustAccAddress :: "('a, 'b, 'base, 'c) vest_env \<Rightarrow> string \<Rightarrow> go_err + 'a" where
  "MustAccAddress E s = (case ve_FromBech32 E s of
     Inl e \<Rightarrow> Inl (GoPanicked (GoPanic e)) | Inr a \<Rightarrow> Inr a)"

definition SetAccount :: "'a \<Rightarrow> ('base, 'c) account \<Rightarrow> ('a, 'b, 'base, 'c) vest_ctx \<Rightarrow> ('a, 'b, 'base, 'c) vest_ctx" where
  "SetAccount addr acc s = s\<lparr>vc_accounts := (vc_accounts s)(addr := Some acc)\<rparr>"

definition GetClawbackVestingAccount ::
  "('a, 'b, 'base, 'c) vest_ctx \<Rightarrow> 'a \<Rightarrow> go_err + ('base, 'c) ClawbackVestingAccount" where
  "GetClawbackVestingAccount s addr =
     (case vc_accounts s addr of
        None \<Rightarrow> Inl (GoErr ''account does not exist'')
      | Some (ClawbackAccount va) \<Rightarrow> Inr va
      | Some _ \<Rightarrow> Inl (GoErr ''account is not subject to clawback vesting''))"

section \<open>The store of the module\<close>

definition HasGovClawbackDisabled :: "('a, 'b, 'base, 'c) vest_ctx \<Rightarrow> 'a \<Rightarrow> bool" where
  "HasGovClawbackDisabled s addr \<longleftrightarrow> addr \<in> vc_govDisabled s"

definition SetGovClawbackDisabled :: "'a \<Rightarrow> ('a, 'b, 'base, 'c) vest_ctx \<Rightarrow> ('a, 'b, 'base, 'c) vest_ctx" where
  "SetGovClawbackDisabled addr s = s\<lparr>vc_govDisabled := insert addr (vc_govDisabled s)\<rparr>"

definition DeleteGovClawbackDisabled :: "'a \<Rightarrow> ('a, 'b, 'base, 'c) vest_ctx \<Rightarrow> ('a, 'b, 'base, 'c) vest_ctx" where
  "DeleteGovClawbackDisabled addr s = s\<lparr>vc_govDisabled := vc_govDisabled s - {addr}\<rparr>"

definition HasActiveClawbackProposal :: "('a, 'b, 'base, 'c) vest_ctx \<Rightarrow> 'a \<Rightarrow> bool" where
  "HasActiveClawbackProposal s addr \<longleftrightarrow> addr \<in> vc_proposals s"

definition SetActiveClawbackProposal :: "'a \<Rightarrow> ('a, 'b, 'base, 'c) vest_ctx \<Rightarrow> ('a, 'b, 'base, 'c) vest_ctx" where
  "SetActiveClawbackProposal addr s = s\<lparr>vc_proposals := insert addr (vc_proposals s)\<rparr>"

definition DeleteActiveClawbackProposal :: "'a \<Rightarrow> ('a, 'b, 'base, 'c) vest_ctx \<Rightarrow> ('a, 'b, 'base, 'c) vest_ctx" where
  "DeleteActiveClawbackProposal addr s = s\<lparr>vc_proposals := vc_proposals s - {addr}\<rparr>"

section \<open>Creating and funding an account\<close>

text \<open>The Unix time of Go's zero \<open>time.Time\<close>, which a created account starts at.\<close>

definition zero_time_Unix :: int where "zero_time_Unix = - 62135596800"

definition CreateClawbackVestingAccount ::
  "('a, 'b, 'base, 'c) vest_env \<Rightarrow> string \<Rightarrow> string \<Rightarrow> bool \<Rightarrow> ('a, 'b, 'base, 'c) vest_ctx
     \<Rightarrow> go_err + ('a, 'b, 'base, 'c) vest_ctx" where
  "CreateClawbackVestingAccount E msg_Funder msg_Vesting msg_EnableGovClawback s =
     rbind (MustAccAddress E msg_Funder) (\<lambda>funderAddress.
     rbind (MustAccAddress E msg_Vesting) (\<lambda>vestingAddress.
     if ve_BlockedAddr E vestingAddress then Inl (GoErr ''blocked address'')
     else case vc_accounts s vestingAddress of
       None \<Rightarrow> Inl (GoErr ''account does not exist'')
     | Some (ClawbackAccount _) \<Rightarrow> Inl (GoErr ''already a clawback vesting account'')
     | Some (OtherAccount _) \<Rightarrow> Inl (GoErr ''not an Ethereum account'')
     | Some (EthAccount baseAcc codeHash) \<Rightarrow>
         if codeHash \<noteq> ve_emptyCodeHash E then Inl (GoErr ''contract account'')
         else let vestingAcc = \<lparr>BaseAccount = baseAcc, OriginalVesting = coins_NewCoins (ve_coins E),
                    DelegatedFree = coins_NewCoins (ve_coins E),
                    DelegatedVesting = coins_NewCoins (ve_coins E), EndTime = 0,
                    FunderAddress = ve_String E funderAddress, va_StartTime = zero_time_Unix,
                    LockupPeriods = [], VestingPeriods = []\<rparr>;
                  address = ve_GetAddress E baseAcc;
                  s1 = SetAccount address (ClawbackAccount vestingAcc) s;
                  s2 = (if \<not> msg_EnableGovClawback then SetGovClawbackDisabled address s1 else s1)
              in Inr (s2\<lparr>vc_events := vc_events s2 @ [EvCreate msg_Funder msg_Vesting]\<rparr>)))"

definition addGrant ::
  "('a, 'b, 'base, 'c) vest_env \<Rightarrow> ('a, 'b, 'base, 'c) vest_ctx \<Rightarrow> ('base, 'c) ClawbackVestingAccount
     \<Rightarrow> int \<Rightarrow> 'c Period list \<Rightarrow> 'c Period list \<Rightarrow> 'c \<Rightarrow> go_err + ('base, 'c) ClawbackVestingAccount" where
  "addGrant E s va0 grantStartTime grantLockupPeriods grantVestingPeriods grantCoins =
     (let C = ve_coins E;
          va1 = (if LockupPeriods va0 = [] \<and> VestingPeriods va0 = []
                 then va0\<lparr>va_StartTime := grantStartTime\<rparr> else va0);
          vestingAddr = ve_GetAddress E (BaseAccount va1);
          delegatedAmt = ve_GetDelegatorBonded E (vc_rest s) vestingAddr
            + ve_GetDelegatorUnbonding E (vc_rest s) vestingAddr;
          delegated = ve_Coin E (ve_BondDenom E (vc_rest s)) delegatedAmt;
          accStartTime = va_StartTime va1;
          (newLockupStart, newLockupEnd, newLockupPeriods) =
            DisjunctPeriods C accStartTime grantStartTime (LockupPeriods va1) grantLockupPeriods;
          (newVestingStart, newVestingEnd, newVestingPeriods) =
            DisjunctPeriods C accStartTime grantStartTime (VestingPeriods va1) grantVestingPeriods
      in if newLockupStart \<noteq> newVestingStart
         then Inl (GoErr ''vesting start time calculation should match lockup start'')
         else let va2 = va1\<lparr>va_StartTime := newLockupStart, EndTime := Max64 newLockupEnd newVestingEnd,
                    LockupPeriods := newLockupPeriods, VestingPeriods := newVestingPeriods,
                    OriginalVesting := coins_Add C (OriginalVesting va1) grantCoins\<rparr>
         in rbind (lift_panic (GetVestingCoins C va2 (vc_time s))) (\<lambda>unvested.
            let delegatedVesting = coins_Min C delegated unvested
            in rbind (lift_panic (coins_Sub C delegated delegatedVesting)) (\<lambda>delegatedFree.
               Inr (va2\<lparr>DelegatedVesting := delegatedVesting, DelegatedFree := delegatedFree\<rparr>))))"

record ('a, 'c) MsgFundVestingAccount =
  mf_FunderAddress :: string
  mf_VestingAddress :: string
  mf_StartTime :: int
  mf_LockupPeriods :: "'c Period list"
  mf_VestingPeriods :: "'c Period list"

text \<open>The schedules and the coins of a grant: an absent schedule defaults to an instant one.\<close>

definition grant_schedules ::
  "'c coins_ops \<Rightarrow> ('a, 'c) MsgFundVestingAccount \<Rightarrow> 'c Period list \<times> 'c Period list \<times> 'c" where
  "grant_schedules C msg =
     (let vestingCoins0 = Periods_TotalAmount C (mf_VestingPeriods msg);
          lockupCoins0 = Periods_TotalAmount C (mf_LockupPeriods msg);
          (lockupPeriods, lockupCoins) =
            (if \<not> coins_IsZero C vestingCoins0 \<and> mf_LockupPeriods msg = []
             then ([\<lparr>Length = 0, Amount = vestingCoins0\<rparr>], vestingCoins0)
             else (mf_LockupPeriods msg, lockupCoins0))
      in if \<not> coins_IsZero C lockupCoins \<and> mf_VestingPeriods msg = []
         then (lockupPeriods, [\<lparr>Length = 0, Amount = lockupCoins\<rparr>], lockupCoins)
         else (lockupPeriods, mf_VestingPeriods msg, vestingCoins0))"

definition FundVestingAccount ::
  "('a, 'b, 'base, 'c) vest_env \<Rightarrow> ('a, 'c) MsgFundVestingAccount \<Rightarrow> ('a, 'b, 'base, 'c) vest_ctx
     \<Rightarrow> go_err + ('a, 'b, 'base, 'c) vest_ctx" where
  "FundVestingAccount E msg s =
     rbind (MustAccAddress E (mf_FunderAddress msg)) (\<lambda>funderAddr.
     rbind (MustAccAddress E (mf_VestingAddress msg)) (\<lambda>vestingAddr.
     if ve_BlockedAddr E vestingAddr then Inl (GoErr ''not allowed to receive funds'')
     else rbind (GetClawbackVestingAccount s vestingAddr) (\<lambda>vestingAcc.
       let (lockupPeriods, vestingPeriods, vestingCoins) = grant_schedules (ve_coins E) msg
       in if mf_FunderAddress msg \<noteq> FunderAddress vestingAcc
          then Inl (GoErr ''can only accept grants from the funder'')
          else rbind (addGrant E s vestingAcc (mf_StartTime msg) lockupPeriods vestingPeriods vestingCoins)
            (\<lambda>va. let s1 = SetAccount (ve_GetAddress E (BaseAccount va)) (ClawbackAccount va) s
             in rbind (lift_err (ve_SendCoins E (vc_accounts s1) (vc_rest s1) funderAddr vestingAddr vestingCoins))
               (\<lambda>b. Inr (s1\<lparr>vc_rest := b, vc_events := vc_events s1 @
                  [EvFund (mf_FunderAddress msg) vestingCoins (mf_StartTime msg)
                     (mf_VestingAddress msg)]\<rparr>))))))"

section \<open>Clawing back, changing the funder, converting\<close>

definition transferClawback ::
  "('a, 'b, 'base, 'c) vest_env \<Rightarrow> ('base, 'c) ClawbackVestingAccount \<Rightarrow> 'a \<Rightarrow> ('a, 'b, 'base, 'c) vest_ctx
     \<Rightarrow> go_err + 'c \<times> ('a, 'b, 'base, 'c) vest_ctx" where
  "transferClawback E vestingAccount destinationAddr s =
     rbind (lift_panic (ComputeClawback (ve_coins E) vestingAccount (vc_time s))) (\<lambda>(updatedAcc, toClawBack).
       let address = ve_GetAddress E (BaseAccount updatedAcc);
           s1 = SetAccount address (EthAccount (BaseAccount updatedAcc) (ve_emptyCodeHash E)) s;
           s2 = DeleteGovClawbackDisabled address s1
       in rbind (lift_err
            (if ve_String E destinationAddr = ve_String E (ve_GetModuleAddress E ''distribution'')
             then ve_FundCommunityPool E (vc_accounts s2) (vc_rest s2) toClawBack address
             else ve_SendCoins E (vc_accounts s2) (vc_rest s2) address destinationAddr toClawBack))
          (\<lambda>b. Inr (toClawBack, s2\<lparr>vc_rest := b\<rparr>)))"

definition Clawback ::
  "('a, 'b, 'base, 'c) vest_env \<Rightarrow> string \<Rightarrow> string \<Rightarrow> string \<Rightarrow> ('a, 'b, 'base, 'c) vest_ctx
     \<Rightarrow> go_err + 'c \<times> ('a, 'b, 'base, 'c) vest_ctx" where
  "Clawback E msg_Account msg_Funder msg_Dest s =
     rbind (MustAccAddress E msg_Account) (\<lambda>addr.
     rbind (MustAccAddress E msg_Funder) (\<lambda>funder.
       let dest0 = (case ve_FromBech32 E msg_Dest of Inl _ \<Rightarrow> ve_emptyAddress E | Inr d \<Rightarrow> d);
           dest = (if msg_Dest = '''' then funder else dest0)
       in if msg_Funder \<noteq> ve_String E (ve_authority E) \<and> HasActiveClawbackProposal s addr
            then Inl (GoErr ''clawback is disabled while there is an active clawback proposal'')
          else if msg_Funder \<noteq> ve_String E (ve_authority E) \<and> ve_BlockedAddr E dest
            then Inl (GoErr ''blocked address'')
          else rbind (GetClawbackVestingAccount s addr) (\<lambda>va.
            if VestingPeriods va = [] \<and> LockupPeriods va = []
              then Inl (GoErr ''account has no vesting or lockup periods'')
            else if ve_String E (ve_authority E) = msg_Funder \<and> HasGovClawbackDisabled s addr
              then Inl (GoErr ''account does not have governance clawback enabled'')
            else if ve_String E (ve_authority E) \<noteq> msg_Funder \<and> FunderAddress va \<noteq> msg_Funder
              then Inl (GoErr ''clawback can only be requested by original funder'')
            else let dest' = (if ve_String E (ve_authority E) = msg_Funder
                       then ve_GetModuleAddress E ''distribution'' else dest)
              in rbind (transferClawback E va dest' s) (\<lambda>(clawedBack, s1).
                 Inr (clawedBack, s1\<lparr>vc_events := vc_events s1 @
                   [EvClawback msg_Funder msg_Account (ve_String E dest')]\<rparr>)))))"

definition UpdateVestingFunder ::
  "('a, 'b, 'base, 'c) vest_env \<Rightarrow> string \<Rightarrow> string \<Rightarrow> string \<Rightarrow> ('a, 'b, 'base, 'c) vest_ctx
     \<Rightarrow> go_err + ('a, 'b, 'base, 'c) vest_ctx" where
  "UpdateVestingFunder E msg_Funder msg_NewFunder msg_Vesting s =
     rbind (MustAccAddress E msg_NewFunder) (\<lambda>newFunder.
     rbind (MustAccAddress E msg_Vesting) (\<lambda>vestingAccAddr.
       if HasActiveClawbackProposal s vestingAccAddr
         then Inl (GoErr ''cannot update funder while there is an active clawback proposal'')
       else if ve_BlockedAddr E newFunder then Inl (GoErr ''blocked address'')
       else rbind (GetClawbackVestingAccount s vestingAccAddr) (\<lambda>va.
         if FunderAddress va \<noteq> msg_Funder then Inl (GoErr ''not the current funder'')
         else let va' = va\<lparr>FunderAddress := msg_NewFunder\<rparr>;
                  s1 = SetAccount (ve_GetAddress E (BaseAccount va')) (ClawbackAccount va') s
              in Inr (s1\<lparr>vc_events := vc_events s1 @ [EvUpdateFunder msg_Funder msg_Vesting msg_NewFunder]\<rparr>))))"

definition ConvertVestingAccount ::
  "('a, 'b, 'base, 'c) vest_env \<Rightarrow> string \<Rightarrow> ('a, 'b, 'base, 'c) vest_ctx
     \<Rightarrow> go_err + ('a, 'b, 'base, 'c) vest_ctx" where
  "ConvertVestingAccount E msg_Vesting s =
     rbind (MustAccAddress E msg_Vesting) (\<lambda>address.
     rbind (GetClawbackVestingAccount s address) (\<lambda>va.
     rbind (lift_panic (GetVestingCoins (ve_coins E) va (vc_time s))) (\<lambda>vesting.
       if \<not> coins_IsZero (ve_coins E) vesting then Inl (GoErr ''vesting coins still left in account'')
       else rbind (lift_panic (HasLockedCoins (ve_coins E) va (vc_time s))) (\<lambda>locked.
         if locked then Inl (GoErr ''locked up coins still left in account'')
         else Inr (SetAccount (ve_GetAddress E (BaseAccount va))
                (EthAccount (BaseAccount va) (ve_emptyCodeHash E))
                (DeleteGovClawbackDisabled address s))))))"

section \<open>Stateless checks of the messages\<close>

fun validate_periods ::
  "('a, 'b, 'base, 'c) vest_env \<Rightarrow> 'c Period list \<Rightarrow> 'c \<Rightarrow> string + 'c" where
  "validate_periods E [] coins = Inr coins"
| "validate_periods E (period # periods) coins =
     (if Length period < 1 then Inl ''invalid period length''
      else if \<not> ve_IsValid E (Amount period) then Inl ''invalid coins''
      else validate_periods E periods (coins_Add (ve_coins E) coins (Amount period)))"

definition MsgFund_ValidateBasic ::
  "('a, 'b, 'base, 'c) vest_env \<Rightarrow> ('a, 'c) MsgFundVestingAccount \<Rightarrow> string + unit" where
  "MsgFund_ValidateBasic E msg =
     rbind (ve_FromBech32 E (mf_FunderAddress msg)) (\<lambda>_.
     rbind (ve_FromBech32 E (mf_VestingAddress msg)) (\<lambda>vestingAddr.
     if vestingAddr = ve_zeroAddress E then Inl ''vesting address cannot be the zero address''
     else rbind (validate_periods E (mf_LockupPeriods msg) (coins_NewCoins (ve_coins E))) (\<lambda>lockupCoins.
          rbind (validate_periods E (mf_VestingPeriods msg) (coins_NewCoins (ve_coins E))) (\<lambda>vestingCoins.
          if coins_list (ve_coins E) lockupCoins = [] \<and> coins_list (ve_coins E) vestingCoins = []
            then Inl ''vesting and/or lockup schedules must be present''
          else if mf_LockupPeriods msg \<noteq> [] \<and> mf_VestingPeriods msg \<noteq> []
              \<and> \<not> CoinEq (ve_coins E) lockupCoins vestingCoins
            then Inl ''vesting and lockup schedules must have same total coins''
          else Inr ()))))"

definition MsgCreate_ValidateBasic ::
  "('a, 'b, 'base, 'c) vest_env \<Rightarrow> string \<Rightarrow> string \<Rightarrow> string + unit" where
  "MsgCreate_ValidateBasic E msg_Funder msg_Vesting =
     rbind (ve_FromBech32 E msg_Funder) (\<lambda>funderAcc.
     if funderAcc = ve_zeroAddress E then Inl ''funder address cannot be the zero address''
     else rbind (ve_FromBech32 E msg_Vesting) (\<lambda>vestingAcc.
     if vestingAcc = ve_zeroAddress E then Inl ''vesting address cannot be the zero address''
     else Inr ()))"

definition MsgClawback_ValidateBasic ::
  "('a, 'b, 'base, 'c) vest_env \<Rightarrow> string \<Rightarrow> string \<Rightarrow> string \<Rightarrow> string + unit" where
  "MsgClawback_ValidateBasic E msg_Account msg_Funder msg_Dest =
     rbind (ve_FromBech32 E msg_Funder) (\<lambda>_.
     rbind (ve_FromBech32 E msg_Account) (\<lambda>_.
     if msg_Dest \<noteq> '''' then rbind (ve_FromBech32 E msg_Dest) (\<lambda>_. Inr ()) else Inr ()))"

definition MsgUpdateFunder_ValidateBasic ::
  "('a, 'b, 'base, 'c) vest_env \<Rightarrow> string \<Rightarrow> string \<Rightarrow> string \<Rightarrow> string + unit" where
  "MsgUpdateFunder_ValidateBasic E msg_Funder msg_NewFunder msg_Vesting =
     rbind (ve_FromBech32 E msg_Funder) (\<lambda>_.
     rbind (ve_FromBech32 E msg_NewFunder) (\<lambda>newFunderAddr.
     if newFunderAddr = ve_zeroAddress E then Inl ''new funder address cannot be the zero address''
     else if msg_Funder = msg_NewFunder
       then Inl ''new funder address is equal to current funder address''
     else rbind (ve_FromBech32 E msg_Vesting) (\<lambda>_. Inr ())))"

section \<open>Governance hooks\<close>

definition getClawbackProposals :: "('a, 'c) gov_proposal \<Rightarrow> string + string list" where
  "getClawbackProposals p =
     rbind (gp_msgs p) (\<lambda>msgs.
       if msgs = [] then Inl ''proposal has no messages''
       else Inr (concat (map (\<lambda>m. case m of ExecLegacyClawback a \<Rightarrow> [a] | _ \<Rightarrow> []) msgs)))"

definition AfterProposalDeposit ::
  "('a, 'b, 'base, 'c) vest_env \<Rightarrow> int \<Rightarrow> ('a, 'b, 'base, 'c) vest_ctx \<Rightarrow> go_err + ('a, 'b, 'base, 'c) vest_ctx" where
  "AfterProposalDeposit E proposalID s =
     (case ve_GetProposal E (vc_rest s) proposalID of
        None \<Rightarrow> Inr s
      | Some proposal \<Rightarrow>
          (case getClawbackProposals proposal of
             Inl _ \<Rightarrow> Inr s
           | Inr clawbackProposals \<Rightarrow>
               if clawbackProposals = [] then Inr s
               else if ve_IsAllLT E (gp_totalDeposit proposal) (ve_MinDeposit E (vc_rest s)) then Inr s
               else fold_res (\<lambda>address s. rbind (MustAccAddress E address) (\<lambda>a.
                      Inr (SetActiveClawbackProposal a s))) clawbackProposals s))"

definition AfterProposalVotingPeriodEnded ::
  "('a, 'b, 'base, 'c) vest_env \<Rightarrow> int \<Rightarrow> ('a, 'b, 'base, 'c) vest_ctx \<Rightarrow> go_err + ('a, 'b, 'base, 'c) vest_ctx" where
  "AfterProposalVotingPeriodEnded E proposalID s =
     (case ve_GetProposal E (vc_rest s) proposalID of
        None \<Rightarrow> Inr s
      | Some proposal \<Rightarrow>
          (case getClawbackProposals proposal of
             Inl _ \<Rightarrow> Inr s
           | Inr clawbackProposals \<Rightarrow>
               fold_res (\<lambda>address s. rbind (MustAccAddress E address) (\<lambda>a.
                 Inr (DeleteActiveClawbackProposal a s))) clawbackProposals s))"

definition HandleClawbackProposal ::
  "('a, 'b, 'base, 'c) vest_env \<Rightarrow> string \<Rightarrow> string \<Rightarrow> ('a, 'b, 'base, 'c) vest_ctx
     \<Rightarrow> go_err + ('a, 'b, 'base, 'c) vest_ctx" where
  "HandleClawbackProposal E p_Address p_DestinationAddress s =
     rbind (Clawback E p_Address (ve_String E (ve_GetModuleAddress E ''gov'')) p_DestinationAddress s)
       (\<lambda>(_, s1). Inr s1)"

section \<open>Funding\<close>

definition unfunded :: "'c coins_ops \<Rightarrow> ('base, 'c) ClawbackVestingAccount \<Rightarrow> bool" where
  "unfunded C va \<longleftrightarrow> LockupPeriods va = [] \<and> VestingPeriods va = [] \<and>
     (\<forall>d. coins_AmountOf C (OriginalVesting va) d = 0)"

lemma validate_periods_total:
  "coins_laws (ve_coins E) \<Longrightarrow> validate_periods E ps c = Inr r \<Longrightarrow>
     (\<forall>p \<in> set ps. 0 < Length p) \<and>
     (\<forall>d. coins_AmountOf (ve_coins E) r d = coins_AmountOf (ve_coins E) c d + total (ve_coins E) ps d)"
  by (induction ps arbitrary: c) (auto simp: coin_amounts split: if_splits)

lemma IsZero_total:
  "coins_laws C \<Longrightarrow> coins_IsZero C (Periods_TotalAmount C ps) \<longleftrightarrow> (\<forall>d. total C ps d = 0)"
  by (simp add: coin_amounts coins_TotalAmount)

lemma grant_schedules_total:
  assumes "coins_laws (ve_coins E)" and "MsgFund_ValidateBasic E msg = Inr ()"
    and "grant_schedules (ve_coins E) msg = (lps, vps, c)"
  shows "total (ve_coins E) lps d = coins_AmountOf (ve_coins E) c d
    \<and> total (ve_coins E) vps d = coins_AmountOf (ve_coins E) c d"
proof -
  let ?C = "ve_coins E"
  from assms(2) obtain l v where
    l: "validate_periods E (mf_LockupPeriods msg) (coins_NewCoins ?C) = Inr l"
    and v: "validate_periods E (mf_VestingPeriods msg) (coins_NewCoins ?C) = Inr v"
    and eq: "mf_LockupPeriods msg \<noteq> [] \<Longrightarrow> mf_VestingPeriods msg \<noteq> [] \<Longrightarrow> CoinEq ?C l v"
    by (auto simp: MsgFund_ValidateBasic_def split: if_splits)
  note amounts = validate_periods_total [OF assms(1) l] validate_periods_total [OF assms(1) v]
  have "mf_LockupPeriods msg \<noteq> [] \<Longrightarrow> mf_VestingPeriods msg \<noteq> [] \<Longrightarrow>
      total ?C (mf_LockupPeriods msg) d = total ?C (mf_VestingPeriods msg) d"
    using eq amounts by (simp add: CoinEq_amounts [OF assms(1)] coin_amounts [OF assms(1)])
  then show ?thesis
    using assms(3)
    by (cases "mf_LockupPeriods msg = []"; cases "mf_VestingPeriods msg = []")
      (auto simp: grant_schedules_def Let_def IsZero_total [OF assms(1)] coins_TotalAmount [OF assms(1)]
        split: if_splits prod.splits)
qed

lemma grant_schedules_fits:
  assumes "coins_laws (ve_coins E)" and "MsgFund_ValidateBasic E msg = Inr ()"
    and "grant_schedules (ve_coins E) msg = (lps, vps, c)" and "0 \<le> t"
    and "end_of t (mf_LockupPeriods msg) < 2 ^ 63" and "end_of t (mf_VestingPeriods msg) < 2 ^ 63"
  shows "fits t lps \<and> fits t vps"
proof -
  from assms(2) have "\<forall>p \<in> set (mf_LockupPeriods msg). 0 < Length p"
    and "\<forall>p \<in> set (mf_VestingPeriods msg). 0 < Length p"
    by (auto simp: MsgFund_ValidateBasic_def split: if_splits dest!: validate_periods_total [OF assms(1)])
  moreover from this have "t < 2 ^ 63"
    using assms(5) end_of_ge [of "mf_LockupPeriods msg" t] by fastforce
  ultimately show ?thesis
    using assms(3-) by (auto simp: grant_schedules_def Let_def fits_def less_imp_le split: if_splits)
qed

lemma addGrant_correct:
  assumes C: "coins_laws (ve_coins E)" and va: "va_inv (ve_coins E) va \<or> unfunded (ve_coins E) va"
    and fits: "fits t lps" "fits t vps"
    and totals: "\<And>d. total (ve_coins E) lps d = coins_AmountOf (ve_coins E) c d"
      "\<And>d. total (ve_coins E) vps d = coins_AmountOf (ve_coins E) c d"
    and run: "addGrant E s va t lps vps c = Inr va'"
  shows "va_inv (ve_coins E) va' \<and> BaseAccount va' = BaseAccount va \<and> FunderAddress va' = FunderAddress va \<and>
    (\<forall>d. coins_AmountOf (ve_coins E) (OriginalVesting va') d
       = coins_AmountOf (ve_coins E) (OriginalVesting va) d + coins_AmountOf (ve_coins E) c d) \<and>
    (\<forall>v d. released (ve_coins E) (events (va_StartTime va') (LockupPeriods va')) v d
       = released (ve_coins E) (events (va_StartTime va) (LockupPeriods va)) v d
         + released (ve_coins E) (events t lps) v d) \<and>
    (\<forall>v d. released (ve_coins E) (events (va_StartTime va') (VestingPeriods va')) v d
       = released (ve_coins E) (events (va_StartTime va) (VestingPeriods va)) v d
         + released (ve_coins E) (events t vps) v d)"
proof -
  let ?C = "ve_coins E"
  let ?start = "if LockupPeriods va = [] \<and> VestingPeriods va = [] then t else va_StartTime va"
  have t: "0 \<le> t" "t < 2 ^ 63"
    using fits(1) end_of_ge [of lps t] by (auto simp: fits_def)
  have old: "fits ?start (LockupPeriods va)" "fits ?start (VestingPeriods va)"
    "\<And>d. total ?C (LockupPeriods va) d = coins_AmountOf ?C (OriginalVesting va) d"
    "\<And>d. total ?C (VestingPeriods va) d = coins_AmountOf ?C (OriginalVesting va) d"
    using va t by (auto simp: va_inv_def unfunded_def fits_def)
  obtain lps' where l: "DisjunctPeriods ?C ?start t (LockupPeriods va) lps
      = (min ?start t, end_of (min ?start t) lps', lps')" "fits (min ?start t) lps'"
    "\<And>v d. released ?C (events (min ?start t) lps') v d
       = released ?C (events ?start (LockupPeriods va)) v d + released ?C (events t lps) v d"
    using DisjunctPeriods_correct [OF C old(1) fits(1)] by blast
  obtain vps' where v: "DisjunctPeriods ?C ?start t (VestingPeriods va) vps
      = (min ?start t, end_of (min ?start t) vps', vps')" "fits (min ?start t) vps'"
    "\<And>v d. released ?C (events (min ?start t) vps') v d
       = released ?C (events ?start (VestingPeriods va)) v d + released ?C (events t vps) v d"
    using DisjunctPeriods_correct [OF C old(2) fits(2)] by blast
  have start: "va_StartTime (if LockupPeriods va = [] \<and> VestingPeriods va = []
      then va\<lparr>va_StartTime := t\<rparr> else va) = ?start" by simp
  from run obtain dv df where va': "va' = va\<lparr>va_StartTime := min ?start t,
      EndTime := Max64 (end_of (min ?start t) lps') (end_of (min ?start t) vps'),
      LockupPeriods := lps', VestingPeriods := vps',
      OriginalVesting := coins_Add ?C (OriginalVesting va) c, DelegatedVesting := dv, DelegatedFree := df\<rparr>"
    using l(1) v(1) by (auto simp: addGrant_def Let_def split: if_splits)
  have "total ?C lps' d = total ?C (LockupPeriods va) d + total ?C lps d"
    and "total ?C vps' d = total ?C (VestingPeriods va) d + total ?C vps d" for d
    using released_total [OF l(2) old(1) fits(1)] l(3) released_total [OF v(2) old(2) fits(2)] v(3)
    by blast+
  then have "va_inv ?C va'"
    using l(2) v(2) old totals by (simp add: va' va_inv_def Max64_max coin_amounts [OF C])
  then show ?thesis
    using l(3) v(3) by (auto simp: va' coin_amounts [OF C] split: if_splits)
qed

lemma MustAccAddress_Inr [simp]: "MustAccAddress E x = Inr a \<longleftrightarrow> ve_FromBech32 E x = Inr a"
  by (auto simp: MustAccAddress_def split: sum.splits)

lemma GetClawbackVestingAccount_Inr [simp]:
  "GetClawbackVestingAccount s a = Inr va \<longleftrightarrow> vc_accounts s a = Some (ClawbackAccount va)"
  by (auto simp: GetClawbackVestingAccount_def split: option.splits account.splits)

section \<open>A chain for the examples\<close>

definition chain_env :: "(string, (string \<times> string \<times> string multiset) list, string, string multiset) vest_env" where
  "chain_env =
     \<lparr>ve_coins = bag_coins, ve_IsValid = (\<lambda>c. True), ve_Coin = (\<lambda>d x. replicate_mset (nat x) d),
      ve_FromBech32 = (\<lambda>a. if a = '''' then Inl ''empty address'' else Inr a),
      ve_String = (\<lambda>a. a), ve_emptyAddress = '''', ve_zeroAddress = ''zero'', ve_GetAddress = (\<lambda>a. a),
      ve_emptyCodeHash = ''empty'', ve_authority = ''gov'', ve_GetModuleAddress = (\<lambda>m. m),
      ve_BlockedAddr = (\<lambda>a. a = ''blocked''),
      ve_SendCoins = (\<lambda>accs b f t c. Inr (b @ [(f, t, c)])),
      ve_FundCommunityPool = (\<lambda>accs b c f. Inr (b @ [(f, ''pool'', c)])),
      ve_GetDelegatorBonded = (\<lambda>b a. 0), ve_GetDelegatorUnbonding = (\<lambda>b a. 0),
      ve_BondDenom = (\<lambda>b. ''a''), ve_GetProposal = (\<lambda>b i. None), ve_MinDeposit = (\<lambda>b. {#}),
      ve_IsAllLT = (\<lambda>a b. a \<subset># b)\<rparr>"

definition chain_account :: "(string, string multiset) ClawbackVestingAccount" where
  "chain_account = \<lparr>BaseAccount = ''alice'', OriginalVesting = {#''a'', ''a''#}, DelegatedFree = {#},
     DelegatedVesting = {#}, EndTime = 30, FunderAddress = ''funder'', va_StartTime = 10,
     LockupPeriods = [\<lparr>Length = 20, Amount = {#''a'', ''a''#}\<rparr>],
     VestingPeriods = [\<lparr>Length = 5, Amount = {#''a''#}\<rparr>, \<lparr>Length = 10, Amount = {#''a''#}\<rparr>]\<rparr>"

definition chain_ctx ::
  "(string, (string \<times> string \<times> string multiset) list, string, string multiset) vest_ctx" where
  "chain_ctx = \<lparr>vc_accounts = [''alice'' \<mapsto> ClawbackAccount chain_account], vc_govDisabled = {},
     vc_proposals = {}, vc_rest = [], vc_time = 16, vc_events = []\<rparr>"

definition chain_grant :: "(string, string multiset) MsgFundVestingAccount" where
  "chain_grant = \<lparr>mf_FunderAddress = ''funder'', mf_VestingAddress = ''alice'', mf_StartTime = 12,
     mf_LockupPeriods = [], mf_VestingPeriods = [\<lparr>Length = 4, Amount = {#''a''#}\<rparr>]\<rparr>"

lemma chain_laws [simp]: "coins_laws (ve_coins chain_env)"
  by (simp add: chain_env_def bag_laws)

lemma chain_inv: "va_inv (ve_coins chain_env) chain_account"
  by (simp add: va_inv_def chain_account_def fits_def bag_coins_def chain_env_def)

section \<open>Properties of the messages\<close>

text \<open>
  Funding adds exactly the grant: only the funder of a clawback account can fund it; afterwards
  the account is well formed, each of its two schedules releases what it released before plus what
  the grant releases, and the coins of the grant were sent from the funder.
\<close>

theorem FundVestingAccount_adds_grant:
  assumes "coins_laws (ve_coins E)" and "MsgFund_ValidateBasic E msg = Inr ()"
    and "ve_FromBech32 E (mf_VestingAddress msg) = Inr a"
    and "vc_accounts s a = Some (ClawbackAccount va)" and "ve_GetAddress E (BaseAccount va) = a"
    and "va_inv (ve_coins E) va \<or> unfunded (ve_coins E) va" and "0 \<le> mf_StartTime msg"
    and "end_of (mf_StartTime msg) (mf_LockupPeriods msg) < 2 ^ 63"
    and "end_of (mf_StartTime msg) (mf_VestingPeriods msg) < 2 ^ 63"
    and "grant_schedules (ve_coins E) msg = (lps, vps, c)"
    and "FundVestingAccount E msg s = Inr s'"
  shows "mf_FunderAddress msg = FunderAddress va \<and> (\<exists>va' f.
    vc_accounts s' = (vc_accounts s)(a \<mapsto> ClawbackAccount va') \<and> va_inv (ve_coins E) va' \<and>
    (\<forall>d. coins_AmountOf (ve_coins E) (OriginalVesting va') d
       = coins_AmountOf (ve_coins E) (OriginalVesting va) d + coins_AmountOf (ve_coins E) c d) \<and>
    (\<forall>t d. released (ve_coins E) (events (va_StartTime va') (LockupPeriods va')) t d
       = released (ve_coins E) (events (va_StartTime va) (LockupPeriods va)) t d
         + released (ve_coins E) (events (mf_StartTime msg) lps) t d) \<and>
    (\<forall>t d. released (ve_coins E) (events (va_StartTime va') (VestingPeriods va')) t d
       = released (ve_coins E) (events (va_StartTime va) (VestingPeriods va)) t d
         + released (ve_coins E) (events (mf_StartTime msg) vps) t d) \<and>
    ve_FromBech32 E (mf_FunderAddress msg) = Inr f \<and>
    ve_SendCoins E (vc_accounts s') (vc_rest s) f a c = Inr (vc_rest s'))"
proof -
  from assms(11) obtain f va' b where f: "ve_FromBech32 E (mf_FunderAddress msg) = Inr f"
    and funder: "mf_FunderAddress msg = FunderAddress va"
    and run: "addGrant E s va (mf_StartTime msg) lps vps c = Inr va'"
    and send: "ve_SendCoins E ((vc_accounts s)(ve_GetAddress E (BaseAccount va') \<mapsto> ClawbackAccount va'))
      (vc_rest s) f a c = Inr b"
    and s': "vc_accounts s' = (vc_accounts s)(ve_GetAddress E (BaseAccount va') \<mapsto> ClawbackAccount va')"
      "vc_rest s' = b"
    using assms(3,4,10) by (auto simp: FundVestingAccount_def SetAccount_def Let_def split: if_splits)
  have fits: "fits (mf_StartTime msg) lps" "fits (mf_StartTime msg) vps"
    using grant_schedules_fits [OF assms(1,2,10,7-9)] by simp_all
  have "total (ve_coins E) lps d = coins_AmountOf (ve_coins E) c d"
    and "total (ve_coins E) vps d = coins_AmountOf (ve_coins E) c d" for d
    using grant_schedules_total [OF assms(1,2,10)] by simp_all
  from addGrant_correct [OF assms(1,6) fits this run] show ?thesis
    using f funder send s' assms(5) by auto
qed

theorem FundVestingAccount_adds_grant_witness:
  "\<exists>s'. FundVestingAccount chain_env chain_grant chain_ctx = Inr s' \<and>
     vc_rest s' = [(''funder'', ''alice'', {#''a''#})]"
proof -
  have grant: "grant_schedules (ve_coins chain_env) chain_grant
      = ([\<lparr>Length = 0, Amount = {#''a''#}\<rparr>], [\<lparr>Length = 4, Amount = {#''a''#}\<rparr>], {#''a''#})"
    by (simp add: grant_schedules_def chain_grant_def chain_env_def bag_coins_def Let_def)
  have runs: "\<exists>s'. FundVestingAccount chain_env chain_grant chain_ctx = Inr s'"
    unfolding FundVestingAccount_def grant
    by (simp add: MustAccAddress_def chain_env_def chain_grant_def GetClawbackVestingAccount_def chain_ctx_def
        chain_account_def addGrant_def DisjunctPeriods_def Min64_def Max64_def emit_period_def i64_id
        GetVestingCoins_def GetVestedCoins_def ReadSchedule_def bag_coins_def SetAccount_def Let_def)
  then obtain s' where s': "FundVestingAccount chain_env chain_grant chain_ctx = Inr s'" by blast
  have valid: "MsgFund_ValidateBasic chain_env chain_grant = Inr ()"
    by (simp add: MsgFund_ValidateBasic_def chain_env_def chain_grant_def bag_coins_def)
  have "ve_FromBech32 chain_env (mf_VestingAddress chain_grant) = Inr ''alice''"
    and acc: "vc_accounts chain_ctx ''alice'' = Some (ClawbackAccount chain_account)"
    and "ve_GetAddress chain_env (BaseAccount chain_account) = ''alice''"
    by (simp_all add: chain_env_def chain_grant_def chain_ctx_def chain_account_def)
  from FundVestingAccount_adds_grant [OF chain_laws valid this _ _ _ _ grant s'] chain_inv
  have "\<exists>f. ve_FromBech32 chain_env (mf_FunderAddress chain_grant) = Inr f \<and>
    ve_SendCoins chain_env (vc_accounts s') (vc_rest chain_ctx) f ''alice'' {#''a''#} = Inr (vc_rest s')"
    by (auto simp: chain_grant_def)
  with s' show ?thesis by (auto simp: chain_env_def chain_grant_def chain_ctx_def)
qed

text \<open>
  C37: A clawback takes the unvested coins and nothing else, and only who may: the funder, if no
  clawback proposal is active for the account, or governance, if the account has not opted out. The
  account becomes an ordinary account, which lifts the lockup of the coins that were vested but
  still locked.
\<close>

theorem Clawback_takes_unvested:
  assumes "coins_laws (ve_coins E)" and "ve_FromBech32 E msg_Account = Inr a"
    and "vc_accounts s a = Some (ClawbackAccount va)" and "va_inv (ve_coins E) va"
    and "ve_GetAddress E (BaseAccount va) = a"
    and "Clawback E msg_Account msg_Funder msg_Dest s = Inr (c, s')"
  shows "(msg_Funder = FunderAddress va \<and> a \<notin> vc_proposals s
      \<or> msg_Funder = ve_String E (ve_authority E) \<and> a \<notin> vc_govDisabled s)
    \<and> (\<forall>d. coins_AmountOf (ve_coins E) c d = coins_AmountOf (ve_coins E) (OriginalVesting va) d
         - coins_AmountOf (ve_coins E) (GetVestedCoins (ve_coins E) va (vc_time s)) d)
    \<and> vc_accounts s' = (vc_accounts s)(a \<mapsto> EthAccount (BaseAccount va) (ve_emptyCodeHash E))
    \<and> vc_govDisabled s' = vc_govDisabled s - {a} \<and> vc_proposals s' = vc_proposals s
    \<and> (ve_FundCommunityPool E (vc_accounts s') (vc_rest s) c a = Inr (vc_rest s')
       \<or> (\<exists>dest. ve_SendCoins E (vc_accounts s') (vc_rest s) a dest c = Inr (vc_rest s')))"
proof -
  obtain va' un where claw: "ComputeClawback (ve_coins E) va (vc_time s) = Inr (va', un)"
    "BaseAccount va' = BaseAccount va"
    "\<And>d. coins_AmountOf (ve_coins E) (OriginalVesting va') d + coins_AmountOf (ve_coins E) un d
       = coins_AmountOf (ve_coins E) (OriginalVesting va) d"
    using ComputeClawback_correct [OF assms(1,4), of "vc_time s"] by blast
  obtain r where r: "GetVestingCoins (ve_coins E) va (vc_time s) = Inr r"
    "\<And>d. coins_AmountOf (ve_coins E) r d = coins_AmountOf (ve_coins E) (OriginalVesting va) d
       - coins_AmountOf (ve_coins E) (GetVestedCoins (ve_coins E) va (vc_time s)) d"
    by (rule vesting_amount [OF assms(1,4), of "vc_time s"]) blast
  have un: "un = r" using claw(1) r(1) by (auto simp: ComputeClawback_def Let_def)
  from assms(6) obtain dest s1 where dest: "transferClawback E va dest s = Inr (c, s1)"
    and s1: "vc_accounts s' = vc_accounts s1" "vc_govDisabled s' = vc_govDisabled s1"
      "vc_proposals s' = vc_proposals s1" "vc_rest s' = vc_rest s1"
    and auth: "msg_Funder = FunderAddress va \<and> a \<notin> vc_proposals s
      \<or> msg_Funder = ve_String E (ve_authority E) \<and> a \<notin> vc_govDisabled s"
    using assms(2,3)
    by (auto simp: Clawback_def HasActiveClawbackProposal_def HasGovClawbackDisabled_def Let_def
        split: if_splits)
  show ?thesis
    using auth dest s1 claw(1,2) r(2) assms(5)
    by (auto simp: un transferClawback_def SetAccount_def DeleteGovClawbackDisabled_def Let_def
        split: if_splits)
qed

theorem Clawback_takes_unvested_witness:
  "\<exists>c s'. Clawback chain_env ''alice'' ''funder'' '''' chain_ctx = Inr (c, s') \<and>
     coins_AmountOf bag_coins c ''a'' = 1"
proof -
  have acc: "ve_FromBech32 chain_env ''alice'' = Inr ''alice''"
    "vc_accounts chain_ctx ''alice'' = Some (ClawbackAccount chain_account)"
    "ve_GetAddress chain_env (BaseAccount chain_account) = ''alice''"
    by (simp_all add: chain_env_def chain_ctx_def chain_account_def)
  obtain va' un where "ComputeClawback (ve_coins chain_env) chain_account (vc_time chain_ctx) = Inr (va', un)"
    using ComputeClawback_correct [OF chain_laws chain_inv, of "vc_time chain_ctx"] by blast
  then have "\<exists>r. transferClawback chain_env chain_account ''funder'' chain_ctx = Inr r"
    by (simp add: transferClawback_def Let_def) (simp add: chain_env_def)
  moreover have "ve_FromBech32 chain_env ''funder'' = Inr ''funder''"
    and "ve_String chain_env (ve_authority chain_env) = ''gov''"
    and "\<not> ve_BlockedAddr chain_env ''funder''"
    by (simp_all add: chain_env_def)
  moreover have "FunderAddress chain_account = ''funder''" and "VestingPeriods chain_account \<noteq> []"
    and "vc_proposals chain_ctx = {}"
    by (simp_all add: chain_account_def chain_ctx_def)
  ultimately obtain c s' where run: "Clawback chain_env ''alice'' ''funder'' '''' chain_ctx = Inr (c, s')"
    using acc by (auto simp: Clawback_def MustAccAddress_def GetClawbackVestingAccount_def
        HasActiveClawbackProposal_def Let_def)
  have vested: "coins_AmountOf bag_coins (GetVestedCoins bag_coins chain_account 16) ''a'' = 1"
    by (simp add: GetVestedCoins_def ReadSchedule_def chain_account_def bag_coins_def i64_id)
  have "coins_AmountOf bag_coins c ''a''
      = coins_AmountOf bag_coins (OriginalVesting chain_account) ''a''
        - coins_AmountOf bag_coins (GetVestedCoins bag_coins chain_account 16) ''a''"
    using Clawback_takes_unvested [OF chain_laws acc(1,2) chain_inv acc(3) run]
    by (simp add: chain_env_def chain_ctx_def)
  with run vested show ?thesis by (auto simp: chain_account_def bag_coins_def)
qed

section \<open>Active proposals\<close>

datatype ('a, 'c) vest_msg =
  MsgCreate string string bool
| MsgFund "('a, 'c) MsgFundVestingAccount"
| MsgClawback string string string
| MsgUpdateFunder string string string
| MsgConvert string

fun vest_deliver ::
  "('a, 'b, 'base, 'c) vest_env \<Rightarrow> ('a, 'c) vest_msg \<Rightarrow> ('a, 'b, 'base, 'c) vest_ctx
     \<Rightarrow> go_err + ('a, 'b, 'base, 'c) vest_ctx" where
  "vest_deliver E (MsgCreate f v g) s = CreateClawbackVestingAccount E f v g s"
| "vest_deliver E (MsgFund m) s = FundVestingAccount E m s"
| "vest_deliver E (MsgClawback a f d) s = rbind (Clawback E a f d s) (\<lambda>(c, s'). Inr s')"
| "vest_deliver E (MsgUpdateFunder f n v) s = UpdateVestingFunder E f n v s"
| "vest_deliver E (MsgConvert v) s = ConvertVestingAccount E v s"

text \<open>Every stored account is stored under its own address.\<close>

fun account_base :: "('base, 'c) account \<Rightarrow> 'base" where
  "account_base (EthAccount b h) = b"
| "account_base (ClawbackAccount va) = BaseAccount va"
| "account_base (OtherAccount b) = b"

definition addressed :: "('a, 'b, 'base, 'c) vest_env \<Rightarrow> ('a, 'b, 'base, 'c) vest_ctx \<Rightarrow> bool" where
  "addressed E s \<longleftrightarrow> (\<forall>a acc. vc_accounts s a = Some acc \<longrightarrow> ve_GetAddress E (account_base acc) = a)"

lemma addGrant_base:
  "addGrant E s va t lps vps c = Inr va' \<Longrightarrow> BaseAccount va' = BaseAccount va \<and> FunderAddress va' = FunderAddress va"
  by (auto simp: addGrant_def Let_def split: if_splits prod.splits)

text \<open>What a delivered message does to the accounts and to the active proposals.\<close>

definition touches ::
  "('a, 'b, 'base, 'c) vest_ctx \<Rightarrow> ('a, 'b, 'base, 'c) vest_ctx \<Rightarrow> 'a \<Rightarrow> ('base, 'c) account \<Rightarrow> bool" where
  "touches s s' x acc \<longleftrightarrow> vc_proposals s' = vc_proposals s \<and> vc_accounts s' = (vc_accounts s)(x \<mapsto> acc)"

lemma addressed_base: "addressed E s \<Longrightarrow> vc_accounts s a = Some acc \<Longrightarrow> ve_GetAddress E (account_base acc) = a"
  unfolding addressed_def by blast

lemmas addressed_clawback = addressed_base [where acc = "ClawbackAccount va" for va, simplified]
  and addressed_eth = addressed_base [where acc = "EthAccount b h" for b h, simplified]

lemma Create_touches:
  assumes "addressed E s" and "CreateClawbackVestingAccount E f v g s = Inr s'"
  shows "\<exists>x b h va. vc_accounts s x = Some (EthAccount b h) \<and> touches s s' x (ClawbackAccount va)"
proof -
  from assms(2) obtain x b h va where x: "vc_accounts s x = Some (EthAccount b h)"
    and s': "vc_proposals s' = vc_proposals s"
      "vc_accounts s' = (vc_accounts s)(ve_GetAddress E b \<mapsto> ClawbackAccount va)"
    by (fastforce simp: CreateClawbackVestingAccount_def SetAccount_def SetGovClawbackDisabled_def Let_def
        split: if_splits option.splits account.splits)
  from x have "ve_GetAddress E b = x" by (rule addressed_eth [OF assms(1)])
  with x s' show ?thesis by (auto simp: touches_def)
qed

lemma Fund_touches:
  assumes "addressed E s" and "FundVestingAccount E m s = Inr s'"
  shows "\<exists>x va va'. vc_accounts s x = Some (ClawbackAccount va) \<and> FunderAddress va' = FunderAddress va
    \<and> touches s s' x (ClawbackAccount va')"
proof -
  obtain lps vps c where g: "grant_schedules (ve_coins E) m = (lps, vps, c)" by (cases "grant_schedules (ve_coins E) m")
  from assms(2) obtain x va va' where x: "vc_accounts s x = Some (ClawbackAccount va)"
    and run: "addGrant E s va (mf_StartTime m) lps vps c = Inr va'"
    and s': "vc_proposals s' = vc_proposals s"
      "vc_accounts s' = (vc_accounts s)(ve_GetAddress E (BaseAccount va') \<mapsto> ClawbackAccount va')"
    by (auto simp: FundVestingAccount_def SetAccount_def Let_def g split: if_splits)
  from addressed_clawback [OF assms(1) x] addGrant_base [OF run]
  have "ve_GetAddress E (BaseAccount va') = x" by simp
  with x s' addGrant_base [OF run] show ?thesis by (auto simp: touches_def)
qed

lemma Update_touches:
  assumes "addressed E s" and "UpdateVestingFunder E f n v s = Inr s'"
  shows "\<exists>x va va'. x \<notin> vc_proposals s \<and> vc_accounts s x = Some (ClawbackAccount va)
    \<and> touches s s' x (ClawbackAccount va')"
proof -
  from assms(2) obtain x va va' where x: "vc_accounts s x = Some (ClawbackAccount va)" "x \<notin> vc_proposals s"
    and s': "vc_proposals s' = vc_proposals s"
      "vc_accounts s' = (vc_accounts s)(ve_GetAddress E (BaseAccount va) \<mapsto> ClawbackAccount va')"
    by (auto simp: UpdateVestingFunder_def HasActiveClawbackProposal_def SetAccount_def Let_def split: if_splits)
  from x(1) have "ve_GetAddress E (BaseAccount va) = x" by (rule addressed_clawback [OF assms(1)])
  with x s' show ?thesis by (auto simp: touches_def)
qed

lemma Convert_touches:
  assumes "addressed E s" and "ConvertVestingAccount E v s = Inr s'"
  shows "\<exists>x va c. vc_accounts s x = Some (ClawbackAccount va)
    \<and> GetVestingCoins (ve_coins E) va (vc_time s) = Inr c \<and> coins_IsZero (ve_coins E) c
    \<and> touches s s' x (EthAccount (BaseAccount va) (ve_emptyCodeHash E))"
proof -
  from assms(2) obtain x va c where x: "vc_accounts s x = Some (ClawbackAccount va)"
    and c: "GetVestingCoins (ve_coins E) va (vc_time s) = Inr c" "coins_IsZero (ve_coins E) c"
    and s': "vc_proposals s' = vc_proposals s" "vc_accounts s' = (vc_accounts s)
      (ve_GetAddress E (BaseAccount va) \<mapsto> EthAccount (BaseAccount va) (ve_emptyCodeHash E))"
    by (auto simp: ConvertVestingAccount_def DeleteGovClawbackDisabled_def SetAccount_def split: if_splits)
  from x have "ve_GetAddress E (BaseAccount va) = x" by (rule addressed_clawback [OF assms(1)])
  with x c s' show ?thesis by (auto simp: touches_def)
qed

lemma Clawback_touches:
  assumes "addressed E s" and "Clawback E a f d s = Inr (c, s')" and "f \<noteq> ve_String E (ve_authority E)"
  shows "\<exists>x acc. x \<notin> vc_proposals s \<and> touches s s' x acc"
proof -
  from assms(2,3) obtain x va dest s1 where x: "vc_accounts s x = Some (ClawbackAccount va)" "x \<notin> vc_proposals s"
    and run: "transferClawback E va dest s = Inr (c, s1)"
    and s1: "vc_accounts s' = vc_accounts s1" "vc_proposals s' = vc_proposals s1"
    by (auto simp: Clawback_def HasActiveClawbackProposal_def Let_def split: if_splits)
  from run obtain va' where "touches s s1 (ve_GetAddress E (BaseAccount va))
      (EthAccount (BaseAccount va) (ve_emptyCodeHash E))"
    by (auto simp: transferClawback_def ComputeClawback_def SetAccount_def DeleteGovClawbackDisabled_def
        touches_def Let_def)
  moreover from x(1) have "ve_GetAddress E (BaseAccount va) = x" by (rule addressed_clawback [OF assms(1)])
  ultimately show ?thesis using x s1 by (auto simp: touches_def)
qed

text \<open>
  While a clawback proposal is active for an account, no message but that of governance takes
  its coins or changes its funder: whatever message is delivered, the proposal stays active, and the
  account stays a clawback account of the same funder, unless everything in it has vested and it is
  converted.
\<close>

theorem active_proposal_protects:
  assumes "addressed E s" and "a \<in> vc_proposals s" and "vc_accounts s a = Some (ClawbackAccount va)"
    and "vest_deliver E m s = Inr s'" and "\<And>x d. m \<noteq> MsgClawback x (ve_String E (ve_authority E)) d"
  shows "a \<in> vc_proposals s' \<and>
    ((\<exists>va'. vc_accounts s' a = Some (ClawbackAccount va') \<and> FunderAddress va' = FunderAddress va)
     \<or> (\<exists>c. GetVestingCoins (ve_coins E) va (vc_time s) = Inr c \<and> coins_IsZero (ve_coins E) c
          \<and> vc_accounts s' a = Some (EthAccount (BaseAccount va) (ve_emptyCodeHash E))))"
proof (cases m)
  case (MsgCreate f v g)
  with assms Create_touches [of E s f v g s'] show ?thesis by (auto simp: touches_def)
next
  case (MsgFund x)
  with assms Fund_touches [of E s x s'] show ?thesis by (auto simp: touches_def)
next
  case (MsgClawback x f d)
  with assms obtain c where "Clawback E x f d s = Inr (c, s')" by auto
  moreover have "f \<noteq> ve_String E (ve_authority E)" using assms(5) [of x d] MsgClawback by auto
  ultimately show ?thesis
    using Clawback_touches [OF assms(1)] assms(2,3) by (fastforce simp: touches_def)
next
  case (MsgUpdateFunder f n v)
  with assms Update_touches [of E s f n v s'] show ?thesis by (auto simp: touches_def)
next
  case (MsgConvert v)
  with assms(4) have "ConvertVestingAccount E v s = Inr s'" by simp
  from Convert_touches [OF assms(1) this] show ?thesis
    using assms(2,3) by (fastforce simp: touches_def)
qed

theorem active_proposal_protects_witness:
  "\<exists>s'. vest_deliver chain_env (MsgCreate ''funder'' ''bob'' True) (chain_ctx
       \<lparr>vc_accounts := [''alice'' \<mapsto> ClawbackAccount chain_account, ''bob'' \<mapsto> EthAccount ''bob'' ''empty''],
        vc_proposals := {''alice''}\<rparr>) = Inr s' \<and> ''alice'' \<in> vc_proposals s'"
proof -
  let ?s = "chain_ctx\<lparr>vc_accounts := [''alice'' \<mapsto> ClawbackAccount chain_account,
    ''bob'' \<mapsto> EthAccount ''bob'' ''empty''], vc_proposals := {''alice''}\<rparr>"
  have "addressed chain_env ?s"
    by (auto simp: addressed_def chain_env_def chain_account_def split: if_splits)
  moreover obtain s' where "vest_deliver chain_env (MsgCreate ''funder'' ''bob'' True) ?s = Inr s'"
    by (auto simp: CreateClawbackVestingAccount_def MustAccAddress_def chain_env_def Let_def)
  ultimately show ?thesis
    using active_proposal_protects [of chain_env ?s "''alice''" chain_account
        "MsgCreate ''funder'' ''bob'' True" s'] by auto
qed

end
