(* ===== verification/StakingGate.thy ===== *)
theory StakingGate
  imports GateTheorems VestingKeeper
begin

text \<open>
  The wrapper of the staking message server (x/staking/keeper/msg_server.go): who may create a validator,
  as three contracts say, and what a vesting account may delegate.

  \<^item> \<open>staking_host\<close> is what the wrapper is built with: the keeper of x/evm (\<open>None\<close> when there is none), the
    account and bank keepers, the address codec, and the message server of the SDK that it passes messages on to.
  \<^item> \<open>sh_Wrap\<close> is \<open>errors.Wrap\<close> of cosmossdk.io/errors. An error is its text, \<open>None\<close> is nil; \<open>wrap_ok\<close> is its
    documented behaviour: it returns nil for nil.
  \<^item> Logging is left out. The adapter that app.go puts around the keeper of x/evm passes the calls on.
\<close>

section \<open>Messages and environment\<close>

record MsgCreateValidator =
  cv_DelegatorAddress :: string
  cv_ValidatorAddress :: string
  cv_MinSelfDelegation :: int
  cv_Value :: int

record MsgDelegate =
  dl_DelegatorAddress :: string
  dl_ValidatorAddress :: string
  dl_Amount :: int

record ('k, 't, 'base, 'c) staking_host =
  sh_evm :: "('k, 't) evm_host option"
  sh_Wrap :: "string option \<Rightarrow> string \<Rightarrow> string option"
  sh_ValAddress :: "string \<Rightarrow> string + address"
  sh_AccAddress :: "string \<Rightarrow> string + address"
  sh_coins :: "'c coins_ops"
  sh_GetAccount :: "'k \<Rightarrow> address \<Rightarrow> ('base, 'c) account option"
  sh_BondDenom :: "'k \<Rightarrow> string"
  sh_GetBalance :: "'k \<Rightarrow> address \<Rightarrow> string \<Rightarrow> int"
  sh_CreateValidator :: "MsgCreateValidator \<Rightarrow> 'k chain_ctx \<Rightarrow> string + 'k chain_ctx"
  sh_Delegate :: "MsgDelegate \<Rightarrow> 'k chain_ctx \<Rightarrow> string + 'k chain_ctx"

definition wrap_ok :: "(string option \<Rightarrow> string \<Rightarrow> string option) \<Rightarrow> bool" where
  "wrap_ok W \<longleftrightarrow> (\<forall>d. W None d = None) \<and> (\<forall>e d. W (Some e) d \<noteq> None)"

section \<open>Questions to the contracts\<close>

definition staking_args :: "address \<Rightarrow> bytes \<Rightarrow> TransactionArgs" where
  "staking_args to data = \<lparr>a_From = None, a_To = Some to, a_Gas = None, a_GasPrice = None, a_MaxFeePerGas = None,
     a_MaxPriorityFeePerGas = None, a_Value = None, a_Nonce = None, a_Data = Some data, a_Input = None,
     a_AccessList = None\<rparr>"

definition pad_address :: "address \<Rightarrow> bytes" where
  "pad_address a = replicate 12 0 @ drop 12 (Bytes32 (ucast a))"

definition isApprovedValidator :: "('k, 't) evm_host \<Rightarrow> address \<Rightarrow> 'k chain_ctx \<Rightarrow> evm_stop + string + bool" where
  "isApprovedValidator H validatorAddr ctx =
     (let validatorApprovalContract = HexToAddress (ho_eth H) (ValidatorApprovalContractAddress (evm_GetParams ctx));
          callData = getFunctionSelector H ''isApprovedValidator(address)'' @ pad_address validatorAddr
      in rbind (EthCall H (staking_args validatorApprovalContract callData) 0 [] 0 ctx) (\<lambda>r. case r of
           Inl err \<Rightarrow> Inr (Inl ''failed to call isApprovedValidator'')
         | Inr resp \<Rightarrow>
             if length (res_Ret resp) < 32 then Inr (Inl ''unexpected result length'')
             else Inr (Inr (list_ex (\<lambda>b. b \<noteq> 0) (res_Ret resp)))))"

definition getValidatorRequirements :: "('k, 't) evm_host \<Rightarrow> address \<Rightarrow> 'k chain_ctx \<Rightarrow> evm_stop + string + int \<times> int" where
  "getValidatorRequirements H contractAddr ctx =
     rbind (EthCall H (staking_args contractAddr (getFunctionSelector H ''getValidatorRequirements()'')) 25000000 [] 0 ctx)
       (\<lambda>r. case r of
         Inl err \<Rightarrow> Inr (Inl err)
       | Inr response \<Rightarrow>
           if length (res_Ret response) = 0 then Inr (Inl ''empty response from ValidatorApproval contract'')
           else if length (res_Ret response) < 64 then Inr (Inl ''invalid response length from ValidatorApproval contract'')
           else Inr (Inr (big_bytes (take 32 (res_Ret response)), big_bytes (take 32 (drop 32 (res_Ret response))))))"

definition getNFTBalance :: "('k, 't) evm_host \<Rightarrow> address \<Rightarrow> address \<Rightarrow> 'k chain_ctx \<Rightarrow> evm_stop + string + int" where
  "getNFTBalance H contractAddr ownerAddr ctx =
     rbind (EthCall H (staking_args contractAddr ([0x70, 0xa0, 0x82, 0x31] @ pad_address ownerAddr)) 25000000 [] 0 ctx)
       (\<lambda>r. case r of
         Inl err \<Rightarrow> Inr (Inl err)
       | Inr response \<Rightarrow>
           if length (res_Ret response) = 0 then Inr (Inl ''empty response from contract'')
           else Inr (Inr (big_bytes (res_Ret response))))"

section \<open>Creating a validator\<close>

text \<open>The checks once the validator is known to be approved.\<close>

definition approved_checks ::
  "('k, 't, 'base, 'c) staking_host \<Rightarrow> ('k, 't) evm_host \<Rightarrow> address \<Rightarrow> MsgCreateValidator \<Rightarrow> 'k chain_ctx \<Rightarrow> evm_stop + string option" where
  "approved_checks S H valEvmAddr msg ctx =
     (let evmParams = evm_GetParams ctx;
          nftContract = HexToAddress (ho_eth H) (NFTContractAddress evmParams);
          validatorApprovalContract = HexToAddress (ho_eth H) (ValidatorApprovalContractAddress evmParams)
      in rbind (getValidatorRequirements H validatorApprovalContract ctx) (\<lambda>r.
         let (requiredNXQTokens, requiredNXQNFTs) = (case r of Inl err \<Rightarrow> (5000000000000000000, 5) | Inr req \<Rightarrow> req)
         in rbind (getNFTBalance H nftContract valEvmAddr ctx) (\<lambda>r. case r of
              Inl err \<Rightarrow> Inr (sh_Wrap S (Some ''unauthorized'') ''unable to verify NFT ownership'')
            | Inr nftBalance \<Rightarrow>
                if nftBalance < requiredNXQNFTs then Inr (sh_Wrap S (Some ''unauthorized'') ''must own more NXQNFT'')
                else if cv_MinSelfDelegation msg < requiredNXQTokens
                then Inr (sh_Wrap S (Some ''invalid request'') ''minimum self delegation is too low'')
                else Inr None)))"

definition customValidatorChecks ::
  "('k, 't, 'base, 'c) staking_host \<Rightarrow> MsgCreateValidator \<Rightarrow> 'k chain_ctx \<Rightarrow> evm_stop + string option" where
  "customValidatorChecks S msg ctx =
     (if ctx_BlockHeight ctx \<le> 1 then Inr None
      else case sh_evm S of
        None \<Rightarrow> Inr (sh_Wrap S (Some ''invalid request'') ''EVM module not configured'')
      | Some H \<Rightarrow>
          case sh_ValAddress S (cv_ValidatorAddress msg) of
            Inl err \<Rightarrow> Inr (sh_Wrap S (Some err) ''invalid validator address'')
          | Inr valEvmAddr \<Rightarrow> rbind (isApprovedValidator H valEvmAddr ctx) (\<lambda>r. case r of
              Inl err \<Rightarrow> Inr (sh_Wrap S (Some err) ''failed to check if validator is approved'')
            | Inr isApproved \<Rightarrow>
                if isApproved then approved_checks S H valEvmAddr msg ctx
                else Inr (sh_Wrap S None ''validator is not approved'')))"

definition validateDelegationAmountNotUnvested ::
  "('k, 't, 'base, 'c) staking_host \<Rightarrow> string \<Rightarrow> int \<Rightarrow> 'k chain_ctx \<Rightarrow> go_err + unit" where
  "validateDelegationAmountNotUnvested S delegatorAddress amount ctx =
     (case sh_AccAddress S delegatorAddress of
        Inl err \<Rightarrow> Inl (GoErr err)
      | Inr addr \<Rightarrow>
          (case sh_GetAccount S (ctx_store ctx) addr of
             None \<Rightarrow> Inl (GoErr ''account does not exist'')
           | Some (ClawbackAccount clawbackAccount) \<Rightarrow>
               let bondDenom = sh_BondDenom S (ctx_store ctx);
                   balance = sh_GetBalance S (ctx_store ctx) addr bondDenom
               in rbind (lift_panic (GetVestingCoins (sh_coins S) clawbackAccount (ctx_Time ctx))) (\<lambda>unvestedOnly.
                  let unvestedBondableAmt = coins_AmountOf (sh_coins S) unvestedOnly bondDenom;
                      delegatableAmt = balance - unvestedBondableAmt;
                      delegatableAmt = (if delegatableAmt < 0 then 0 else delegatableAmt)
                  in if delegatableAmt < amount then Inl (GoErr ''cannot delegate unvested coins'') else Inr ())
           | Some _ \<Rightarrow> Inr ()))"

definition staking_Delegate ::
  "('k, 't, 'base, 'c) staking_host \<Rightarrow> MsgDelegate \<Rightarrow> 'k chain_ctx \<Rightarrow> evm_stop + string + 'k chain_ctx" where
  "staking_Delegate S msg ctx =
     rbind (lift_go_err (validateDelegationAmountNotUnvested S (dl_DelegatorAddress msg) (dl_Amount msg) ctx)) (\<lambda>r. case r of
       Inl err \<Rightarrow> Inr (Inl err)
     | Inr _ \<Rightarrow> Inr (sh_Delegate S msg ctx))"

definition staking_CreateValidator ::
  "('k, 't, 'base, 'c) staking_host \<Rightarrow> MsgCreateValidator \<Rightarrow> 'k chain_ctx \<Rightarrow> evm_stop + string + 'k chain_ctx" where
  "staking_CreateValidator S msg ctx =
     rbind (customValidatorChecks S msg ctx) (\<lambda>err. case err of
       Some e \<Rightarrow> Inr (Inl e)
     | None \<Rightarrow>
         rbind (lift_go_err (validateDelegationAmountNotUnvested S (cv_DelegatorAddress msg) (cv_Value msg) ctx)) (\<lambda>r. case r of
           Inl err \<Rightarrow> Inr (Inl err)
         | Inr _ \<Rightarrow> Inr (sh_CreateValidator S msg ctx)))"

section \<open>Who may create a validator\<close>

text \<open>What the contract asks for, with the values the code falls back to.\<close>

definition validator_requirements :: "('k, 't) evm_host \<Rightarrow> 'k chain_ctx \<Rightarrow> evm_stop + int \<times> int" where
  "validator_requirements H ctx =
     rbind (getValidatorRequirements H (HexToAddress (ho_eth H) (ValidatorApprovalContractAddress (evm_GetParams ctx))) ctx)
       (\<lambda>r. Inr (case r of Inl _ \<Rightarrow> (5 * 10 ^ 18, 5) | Inr req \<Rightarrow> req))"

text \<open>A validator is looked at: past the first block, with the machine there, under an address that can be read.\<close>

definition checks_validator ::
  "('k, 't, 'base, 'c) staking_host \<Rightarrow> ('k, 't) evm_host \<Rightarrow> address \<Rightarrow> MsgCreateValidator \<Rightarrow> 'k chain_ctx \<Rightarrow> bool" where
  "checks_validator S H val msg ctx \<longleftrightarrow> 1 < ctx_BlockHeight ctx \<and> sh_evm S = Some H \<and> sh_ValAddress S (cv_ValidatorAddress msg) = Inr val"

text \<open>
  C17: A validator that the contract does not approve is not rejected. The check wraps a nil error, which is
  nil again, so the handler takes it for success: whatever NFTs and self-delegation there are, the message goes on as
  if the checks of the validator had passed, to the check of unvested coins, which alone decides, and then to the SDK.
\<close>

theorem unapproved_validator_skips_checks:
  assumes "wrap_ok (sh_Wrap S)" and "checks_validator S H val msg ctx" and "isApprovedValidator H val ctx = Inr (Inr False)"
  shows "customValidatorChecks S msg ctx = Inr None \<and>
    staking_CreateValidator S msg ctx =
      (case validateDelegationAmountNotUnvested S (cv_DelegatorAddress msg) (cv_Value msg) ctx of
         Inr _ \<Rightarrow> Inr (sh_CreateValidator S msg ctx)
       | Inl (GoErr e) \<Rightarrow> Inr (Inl e)
       | Inl (GoPanicked p) \<Rightarrow> Inl (Panicked p))"
  using assms
  by (auto simp: staking_CreateValidator_def customValidatorChecks_def checks_validator_def wrap_ok_def lift_go_err_def
      split: sum.split go_err.split)

text \<open>
  An approved validator passes exactly when it holds as many NFTs as the contract requires and its minimum
  self-delegation is as much as required, 5 NFTs and 5 tokens where the contract gives no answer.
\<close>

theorem approved_validator_requirements:
  assumes "wrap_ok (sh_Wrap S)" and "checks_validator S H val msg ctx" and "isApprovedValidator H val ctx = Inr (Inr True)"
    and "validator_requirements H ctx = Inr (tokens, nfts)"
    and "getNFTBalance H (HexToAddress (ho_eth H) (NFTContractAddress (evm_GetParams ctx))) val ctx = Inr (Inr held)"
  shows "\<exists>err. customValidatorChecks S msg ctx = Inr err \<and>
    (err = None \<longleftrightarrow> nfts \<le> held \<and> tokens \<le> cv_MinSelfDelegation msg)"
proof -
  obtain r where r: "getValidatorRequirements H (HexToAddress (ho_eth H) (ValidatorApprovalContractAddress (evm_GetParams ctx))) ctx = Inr r"
    "(case r of Inl _ \<Rightarrow> (5000000000000000000, 5) | Inr req \<Rightarrow> req) = (tokens, nfts)"
    using assms(4) by (auto simp: validator_requirements_def rbind_def split: sum.splits)
  have "customValidatorChecks S msg ctx = approved_checks S H val msg ctx"
    using assms(2,3) by (simp add: customValidatorChecks_def checks_validator_def)
  then show ?thesis using assms(1,5) r
    by (auto simp: approved_checks_def Let_def wrap_ok_def)
qed

text \<open>
  C21: A clawback vesting account delegates only what is free or vested: its delegation goes on to the SDK
  exactly when the amount is at most its balance less what is still unvested (nothing, if that is
  more than the balance). The check never panics.
\<close>

theorem unvested_coins_stay_undelegated:
  assumes "coins_laws (sh_coins S)" and "sh_AccAddress S (dl_DelegatorAddress msg) = Inr addr"
    and "sh_GetAccount S (ctx_store ctx) addr = Some (ClawbackAccount va)" and "va_inv (sh_coins S) va"
  shows "let denom = sh_BondDenom S (ctx_store ctx);
      unvested = coins_AmountOf (sh_coins S) (OriginalVesting va) denom
        - coins_AmountOf (sh_coins S) (GetVestedCoins (sh_coins S) va (ctx_Time ctx)) denom;
      free = sh_GetBalance S (ctx_store ctx) addr denom - unvested
    in 0 \<le> unvested \<and> staking_Delegate S msg ctx = Inr (if dl_Amount msg \<le> max 0 free then sh_Delegate S msg ctx
      else Inl ''cannot delegate unvested coins'')"
proof -
  obtain c where c: "GetVestingCoins (sh_coins S) va (ctx_Time ctx) = Inr c" "\<And>d. coins_AmountOf (sh_coins S) c d =
      coins_AmountOf (sh_coins S) (OriginalVesting va) d - coins_AmountOf (sh_coins S) (GetVestedCoins (sh_coins S) va (ctx_Time ctx)) d"
    by (rule vesting_amount [OF assms(1,4)]) blast
  show ?thesis
    using assms(2,3) c vested_le [OF assms(1,4)]
    by (auto simp: staking_Delegate_def validateDelegationAmountNotUnvested_def lift_go_err_def Let_def)
qed

section \<open>Witnesses\<close>

text \<open>The approval contract is at address 41 and answers \<open>approval\<close>, the one of the NFTs at address 42 with \<open>nfts\<close>.\<close>

definition staking_params :: evm_Params where
  "staking_params = evm_DefaultParams\<lparr>ValidatorApprovalContractAddress := replicate 41 (CHR ''x''),
     NFTContractAddress := replicate 42 (CHR ''x'')\<rparr>"

definition sample_contracts :: "bytes \<Rightarrow> bytes \<Rightarrow> unit \<Rightarrow> address \<Rightarrow> bytes \<Rightarrow> bytes" where
  "sample_contracts approval nfts s a input = (if a = 41 then approval else nfts)"

definition sample_staking :: "bytes \<Rightarrow> bytes \<Rightarrow> (unit, Message, unit, string multiset) staking_host" where
  "sample_staking approval nfts = \<lparr>sh_evm = Some (sample_host (sample_contracts approval nfts) (\<lambda>_. 0)),
     sh_Wrap = (\<lambda>e d. case e of None \<Rightarrow> None | Some e \<Rightarrow> Some (d @ '': '' @ e)), sh_ValAddress = (\<lambda>_. Inr 3), sh_AccAddress = (\<lambda>_. Inr 3),
     sh_coins = bag_coins, sh_GetAccount = (\<lambda>_ a. Some (if a = 3 then ClawbackAccount sample_account else OtherAccount ())),
     sh_BondDenom = (\<lambda>_. ''a''), sh_GetBalance = (\<lambda>_ _ _. 5), sh_CreateValidator = (\<lambda>_ ctx. Inr ctx), sh_Delegate = (\<lambda>_ ctx. Inr ctx)\<rparr>"

definition sample_validator :: MsgCreateValidator where
  "sample_validator = \<lparr>cv_DelegatorAddress = ''d'', cv_ValidatorAddress = ''v'', cv_MinSelfDelegation = 7, cv_Value = 1\<rparr>"

abbreviation staking_chain :: "unit chain_ctx" where
  "staking_chain \<equiv> sample_chain () staking_params 7"

lemma staking_chain_sel [simp]:
  "evm_GetParams staking_chain = staking_params\<lparr>ExtraEIPs := [], ActiveStaticPrecompiles := []\<rparr>" "ctx_BlockHeight staking_chain = 7"
  "HexToAddress sample_eth (ValidatorApprovalContractAddress staking_params) = 41"
  "HexToAddress sample_eth (NFTContractAddress staking_params) = 42"
  by (simp_all add: evm_GetParams_def sample_chain_def) (simp_all add: staking_params_def sample_eth_def)

lemma staking_call:
  assumes "9 < to" and "gasCap = 0 \<or> gasCap = 25000000"
  shows "\<exists>res. EthCall (sample_host (sample_contracts approval nfts) (\<lambda>_. 0)) (staking_args to data) gasCap [] 0 staking_chain =
    Inr (Inr res) \<and> res_Ret res = sample_contracts approval nfts () to data"
proof -
  have "cfg_AccessControl staking_params = open_access" by (simp add: staking_params_def)
  from sample_EthCall [OF this assms(1), of "staking_args to data" gasCap "sample_contracts approval nfts" "\<lambda>_. 0" "[]" "()" 7] assms(2)
  show ?thesis by (auto simp: staking_args_def GetData_def)
qed

lemma wallet_answer_tokens [simp]: "big_bytes (take 32 (wallet_answer a b)) = uint a"
proof -
  have "take 32 (wallet_answer a b) = replicate 31 0 @ [a]" by (simp add: wallet_answer_def)
  then show ?thesis using big_bytes_zeros [of 31 "[a]"] by (simp add: big_bytes_def)
qed

lemma sample_checks:
  "wrap_ok (sh_Wrap (sample_staking approval nfts))"
  "checks_validator (sample_staking approval nfts) (sample_host (sample_contracts approval nfts) (\<lambda>_. 0)) 3 sample_validator staking_chain"
  by (simp_all add: wrap_ok_def checks_validator_def sample_staking_def)

lemma sample_approval:
  "isApprovedValidator (sample_host (sample_contracts (wallet_answer a b) nfts) (\<lambda>_. 0)) v staking_chain = Inr (Inr (a \<noteq> 0 \<or> b \<noteq> 0))"
proof -
  let ?data = "getFunctionSelector (sample_host (sample_contracts (wallet_answer a b) nfts) (\<lambda>_. 0)) ''isApprovedValidator(address)'' @ pad_address v"
  obtain res where "EthCall (sample_host (sample_contracts (wallet_answer a b) nfts) (\<lambda>_. 0)) (staking_args 41 ?data) 0 [] 0 staking_chain =
      Inr (Inr res)" "res_Ret res = wallet_answer a b"
    using staking_call [of 41 0 "wallet_answer a b" nfts ?data] by (auto simp: sample_contracts_def)
  moreover have "list_ex (\<lambda>b. b \<noteq> 0) (wallet_answer a b) \<longleftrightarrow> a \<noteq> 0 \<or> b \<noteq> 0"
    by (auto simp: wallet_answer_def list_ex_iff)
  ultimately show ?thesis by (simp add: isApprovedValidator_def)
qed

text \<open>No NFT at all, and nothing locked up: the validator is created.\<close>

theorem unapproved_validator_skips_checks_witness:
  "customValidatorChecks (sample_staking (wallet_answer 0 0) [0]) sample_validator staking_chain = Inr None \<and>
   staking_CreateValidator (sample_staking (wallet_answer 0 0) [0]) sample_validator staking_chain = Inr (Inr staking_chain)"
proof -
  have "validateDelegationAmountNotUnvested (sample_staking (wallet_answer 0 0) [0]) ''d'' 1 staking_chain = Inr ()"
    by (simp add: validateDelegationAmountNotUnvested_def sample_staking_def sample_account_def GetVestingCoins_def GetVestedCoins_def
        ReadSchedule_def bag_coins_def sample_chain_def Let_def)
  then show ?thesis
    using unapproved_validator_skips_checks [OF sample_checks] sample_approval [of 0 0 "[0]" 3]
    by (simp add: sample_validator_def) (simp add: sample_staking_def)
qed

theorem approved_validator_requirements_witness:
  "customValidatorChecks (sample_staking (wallet_answer 7 2) [2]) sample_validator staking_chain = Inr None"
proof -
  let ?H = "sample_host (sample_contracts (wallet_answer 7 2) [2]) (\<lambda>_. 0)"
  have "validator_requirements ?H staking_chain = Inr (7, 2)"
    using staking_call [of 41 25000000 "wallet_answer 7 2" "[2]" "getFunctionSelector ?H ''getValidatorRequirements()''"]
    by (auto simp: validator_requirements_def getValidatorRequirements_def sample_contracts_def)
  moreover have "getNFTBalance ?H 42 3 staking_chain = Inr (Inr 2)"
    using staking_call [of 42 25000000 "wallet_answer 7 2" "[2]" "[0x70, 0xa0, 0x82, 0x31] @ pad_address 3"]
    by (auto simp: getNFTBalance_def sample_contracts_def big_bytes_def)
  ultimately show ?thesis
    using approved_validator_requirements [OF sample_checks, of "wallet_answer 7 2" "[2]" 7 2 2] sample_approval [of 7 2 "[2]" 3]
    by (simp add: sample_validator_def)
qed

theorem unvested_coins_stay_undelegated_witness:
  "staking_Delegate (sample_staking [] []) \<lparr>dl_DelegatorAddress = ''d'', dl_ValidatorAddress = ''v'', dl_Amount = 4\<rparr> staking_chain =
    Inr (Inl ''cannot delegate unvested coins'')"
proof -
  have "coins_laws (sh_coins (sample_staking [] []))" "va_inv (sh_coins (sample_staking [] [])) sample_account"
    using bag_laws sample_inv by (simp_all add: sample_staking_def)
  from unvested_coins_stay_undelegated [OF this(1) _ _ this(2), of "\<lparr>dl_DelegatorAddress = ''d'', dl_ValidatorAddress = ''v'', dl_Amount = 4\<rparr>" 3 staking_chain]
  show ?thesis
    by (simp add: sample_staking_def sample_account_def GetVestedCoins_def ReadSchedule_def bag_coins_def sample_chain_def Let_def)
qed

end
