(* ===== verification/TxData.thy ===== *)
theory TxData
  imports StateTransition
begin

text \<open>
  The transactions a message may carry (x/evm/types: tx_data.go, legacy_tx.go, access_list_tx.go,
  dynamic_fee_tx.go, access_list.go, msg.go, tx.go, codec.go, and EffectiveGasPrice of utils.go; types/int.go).

  \<^item> A pointer to a \<open>math.Int\<close> or a \<open>big.Int\<close> is an optional integer, and a slice that the code compares with nil an
    optional list. \<open>big.Int.Bytes\<close> and \<open>SetBytes\<close> are written out.
  \<^item> go-ethereum's \<open>Transaction\<close> is the type \<open>'t\<close> with the functions of \<open>eth_tx_fns\<close>; \<open>EthTxData\<close> are the three
    values that its \<open>NewTx\<close> is called with. \<open>tx_laws\<close> is what the getters return of a new transaction.
  \<^item> The protobuf \<open>Any\<close> of a message is what it holds, or nothing when it holds no transaction.
\<close>

section \<open>Integers and their bytes\<close>

function nat_bytes :: "nat \<Rightarrow> bytes" where
  "nat_bytes n = (if n = 0 then [] else nat_bytes (n div 256) @ [of_nat (n mod 256)])"
  by auto
termination by (relation "measure id") auto

declare nat_bytes.simps [simp del]

definition big_Bytes :: "int \<Rightarrow> bytes" where
  "big_Bytes x = nat_bytes (nat \<bar>x\<bar>)"

definition big_SetBytes :: "bytes \<Rightarrow> int" where
  "big_SetBytes bs = foldl (\<lambda>x b. x * 256 + uint b) 0 bs"

lemma big_SetBytes_snoc: "big_SetBytes (bs @ [b]) = big_SetBytes bs * 256 + uint b"
  by (simp add: big_SetBytes_def)

lemma big_SetBytes_nat: "big_SetBytes (nat_bytes n) = int n"
proof (induction n rule: nat_bytes.induct)
  case (1 n)
  have "uint (of_nat (n mod 256) :: 8 word) = int (n mod 256)" by (simp add: unsigned_of_nat take_bit_eq_mod)
  then show ?case
    using 1 by (subst nat_bytes.simps) (simp add: big_SetBytes_snoc big_SetBytes_def zdiv_int zmod_int)
qed

lemma big_roundtrip [simp]: "big_SetBytes (big_Bytes x) = \<bar>x\<bar>"
  by (simp add: big_Bytes_def big_SetBytes_nat)

lemma big_Bytes_empty [simp]: "big_Bytes x = [] \<longleftrightarrow> x = 0"
  by (subst big_Bytes_def, subst nat_bytes.simps) simp

definition BitLen_le :: "int \<Rightarrow> nat \<Rightarrow> bool" where
  "BitLen_le x n \<longleftrightarrow> \<bar>x\<bar> < 2 ^ n"

definition IsValidInt256 :: "int option \<Rightarrow> bool" where
  "IsValidInt256 i = (case i of None \<Rightarrow> True | Some x \<Rightarrow> BitLen_le x 256)"

definition SafeNewIntFromBigInt :: "int \<Rightarrow> string + int" where
  "SafeNewIntFromBigInt i = (if \<not> IsValidInt256 (Some i) then Inl ''big int out of bound'' else Inr i)"

text \<open>\<open>math.NewIntFromBigInt\<close> of the SDK panics on more than 256 bits.\<close>

definition NewIntFromBigInt :: "int \<Rightarrow> go_panic + int" where
  "NewIntFromBigInt i = (if BitLen_le i 256 then Inr i else Inl (GoPanic ''NewIntFromBigInt() out of bound''))"

section \<open>The three kinds of transaction\<close>

type_synonym access_tuples = "(string \<times> string list) list"
type_synonym eth_access_list = "(address \<times> hash list) list"

record LegacyTx =
  lt_Nonce :: int
  lt_GasPrice :: "int option"
  lt_GasLimit :: int
  lt_To :: string
  lt_Amount :: "int option"
  lt_Data :: bytes
  lt_V :: bytes
  lt_R :: bytes
  lt_S :: bytes

record AccessListTx =
  at_ChainID :: "int option"
  at_Nonce :: int
  at_GasPrice :: "int option"
  at_GasLimit :: int
  at_To :: string
  at_Amount :: "int option"
  at_Data :: bytes
  at_Accesses :: "access_tuples option"
  at_V :: bytes
  at_R :: bytes
  at_S :: bytes

record DynamicFeeTx =
  dt_ChainID :: "int option"
  dt_Nonce :: int
  dt_GasTipCap :: "int option"
  dt_GasFeeCap :: "int option"
  dt_GasLimit :: int
  dt_To :: string
  dt_Amount :: "int option"
  dt_Data :: bytes
  dt_Accesses :: "access_tuples option"
  dt_V :: bytes
  dt_R :: bytes
  dt_S :: bytes

datatype TxData = Legacy LegacyTx | AccessListT AccessListTx | DynamicFee DynamicFeeTx

text \<open>The values of go-ethereum that a transaction is built from; a field that a kind does not have is nil.\<close>

record EthTxFields =
  ef_ChainID :: "int option"
  ef_Nonce :: int
  ef_GasPrice :: "int option"
  ef_GasTipCap :: "int option"
  ef_GasFeeCap :: "int option"
  ef_Gas :: int
  ef_To :: "address option"
  ef_Value :: "int option"
  ef_Data :: bytes
  ef_AccessList :: "eth_access_list option"
  ef_V :: "int option"
  ef_R :: "int option"
  ef_S :: "int option"

datatype EthTxData = EthLegacyTx EthTxFields | EthAccessListTx EthTxFields | EthDynamicFeeTx EthTxFields

record 't eth_tx_fns =
  tf_NewTx :: "EthTxData \<Rightarrow> 't"
  tf_Type :: "'t \<Rightarrow> int"
  tf_ChainId :: "'t \<Rightarrow> int option"
  tf_Nonce :: "'t \<Rightarrow> int"
  tf_Data :: "'t \<Rightarrow> bytes"
  tf_Gas :: "'t \<Rightarrow> int"
  tf_To :: "'t \<Rightarrow> address option"
  tf_Value :: "'t \<Rightarrow> int option"
  tf_GasPrice :: "'t \<Rightarrow> int option"
  tf_GasFeeCap :: "'t \<Rightarrow> int option"
  tf_GasTipCap :: "'t \<Rightarrow> int option"
  tf_AccessList :: "'t \<Rightarrow> eth_access_list option"
  tf_RawSignatureValues :: "'t \<Rightarrow> int option \<times> int option \<times> int option"
  tf_HashHex :: "'t \<Rightarrow> string"
  tf_Protected :: "'t \<Rightarrow> bool"
  tf_String :: "hash \<Rightarrow> string"
  tf_Sender :: "eth_ChainConfig \<Rightarrow> int \<Rightarrow> 't \<Rightarrow> string + address"
  tf_LatestSender :: "int option \<Rightarrow> 't \<Rightarrow> string + address"

text \<open>The type bytes of go-ethereum.\<close>

definition LegacyTxType :: int where "LegacyTxType = 0"
definition AccessListTxType :: int where "AccessListTxType = 1"
definition DynamicFeeTxType :: int where "DynamicFeeTxType = 2"

section \<open>Access lists\<close>

definition NewAccessList :: "eth_fns \<Rightarrow> 't eth_tx_fns \<Rightarrow> eth_access_list option \<Rightarrow> access_tuples option" where
  "NewAccessList F T ethAccessList = (case ethAccessList of None \<Rightarrow> None
     | Some al \<Rightarrow> Some (map (\<lambda>(a, keys). (Hex F a, map (tf_String T) keys)) al))"

text \<open>The slice that the code appends to is nil at the start, and stays nil for an empty list.\<close>

definition ToEthAccessList :: "eth_fns \<Rightarrow> access_tuples \<Rightarrow> eth_access_list option" where
  "ToEthAccessList F al = (if al = [] then None
     else Some (map (\<lambda>(a, keys). (HexToAddress F a, map (HexToHash F) keys)) al))"

section \<open>What the three kinds share\<close>

definition DeriveChainID :: "int option \<Rightarrow> int option" where
  "DeriveChainID v = (case v of None \<Rightarrow> None | Some v \<Rightarrow>
     if v < 1 then None
     else if BitLen_le v 64 then
       let v = u64 v in
       if v = 27 \<or> v = 28 then Some 0 else if v < 35 then None else Some (u64 (v - 35) div 2)
     else Some ((v - 35) div 2))"

definition rawSignatureValues :: "bytes \<Rightarrow> bytes \<Rightarrow> bytes \<Rightarrow> int option \<times> int option \<times> int option" where
  "rawSignatureValues vBz rBz sBz =
     (let read = (\<lambda>bz. if length bz > 0 then Some (big_SetBytes bz) else None) in (read vBz, read rBz, read sBz))"

definition tx_fee :: "int option \<Rightarrow> int \<Rightarrow> go_panic + int" where
  "tx_fee gasPrice gas = (case gasPrice of None \<Rightarrow> Inl nil_deref | Some p \<Rightarrow> Inr (p * gas))"

definition tx_cost :: "int \<Rightarrow> int option \<Rightarrow> int" where
  "tx_cost fee val = (case val of None \<Rightarrow> fee | Some v \<Rightarrow> fee + v)"

definition address_of :: "eth_fns \<Rightarrow> string \<Rightarrow> address option" where
  "address_of F to = (if to = [] then None else Some (HexToAddress F to))"

definition hex_of :: "eth_fns \<Rightarrow> address option \<Rightarrow> string" where
  "hex_of F to = (case to of None \<Rightarrow> [] | Some a \<Rightarrow> Hex F a)"

text \<open>A nil \<open>big.Int\<close> as an argument of \<open>Add\<close> or \<open>Cmp\<close> is read through the pointer, and panics.\<close>

definition EffectiveGasPrice :: "int option \<Rightarrow> int option \<Rightarrow> int option \<Rightarrow> go_panic + int" where
  "EffectiveGasPrice baseFee feeCap tipCap = (case (baseFee, feeCap, tipCap) of
      (Some b, Some f, Some t) \<Rightarrow> Inr (min (t + b) f)
    | _ \<Rightarrow> Inl nil_deref)"

text \<open>An optional integer that is checked before it is stored.\<close>

definition checked_int :: "int option \<Rightarrow> string + int option" where
  "checked_int i = (case i of None \<Rightarrow> Inr None | Some x \<Rightarrow> rbind (SafeNewIntFromBigInt x) (\<lambda>y. Inr (Some y)))"

definition bytes_or :: "bytes \<Rightarrow> int option \<Rightarrow> bytes" where
  "bytes_or old x = (case x of None \<Rightarrow> old | Some x \<Rightarrow> big_Bytes x)"

section \<open>Legacy transactions\<close>

definition LegacyTx_SetSignatureValues ::
  "int option \<Rightarrow> int option \<Rightarrow> int option \<Rightarrow> int option \<Rightarrow> LegacyTx \<Rightarrow> LegacyTx" where
  "LegacyTx_SetSignatureValues chainID v r s tx =
     tx\<lparr>lt_V := bytes_or (lt_V tx) v, lt_R := bytes_or (lt_R tx) r, lt_S := bytes_or (lt_S tx) s\<rparr>"

definition NewLegacyTx :: "eth_fns \<Rightarrow> 't eth_tx_fns \<Rightarrow> 't \<Rightarrow> go_err + LegacyTx" where
  "NewLegacyTx F T tx =
     (case tf_RawSignatureValues T tx of (v, r, s) \<Rightarrow>
      lift_err (rbind (checked_int (tf_Value T tx)) (\<lambda>amount.
        rbind (checked_int (tf_GasPrice T tx)) (\<lambda>gasPrice.
        Inr (LegacyTx_SetSignatureValues (tf_ChainId T tx) v r s
          \<lparr>lt_Nonce = tf_Nonce T tx, lt_GasPrice = gasPrice, lt_GasLimit = tf_Gas T tx, lt_To = hex_of F (tf_To T tx),
           lt_Amount = amount, lt_Data = tf_Data T tx, lt_V = [], lt_R = [], lt_S = []\<rparr>)))))"

definition LegacyTx_GetRawSignatureValues :: "LegacyTx \<Rightarrow> int option \<times> int option \<times> int option" where
  "LegacyTx_GetRawSignatureValues tx = rawSignatureValues (lt_V tx) (lt_R tx) (lt_S tx)"

definition LegacyTx_GetChainID :: "LegacyTx \<Rightarrow> int option" where
  "LegacyTx_GetChainID tx = DeriveChainID (fst (LegacyTx_GetRawSignatureValues tx))"

definition LegacyTx_GetTo :: "eth_fns \<Rightarrow> LegacyTx \<Rightarrow> address option" where
  "LegacyTx_GetTo F tx = address_of F (lt_To tx)"

definition LegacyTx_AsEthereumData :: "eth_fns \<Rightarrow> LegacyTx \<Rightarrow> EthTxData" where
  "LegacyTx_AsEthereumData F tx = (case LegacyTx_GetRawSignatureValues tx of (v, r, s) \<Rightarrow>
     EthLegacyTx \<lparr>ef_ChainID = None, ef_Nonce = lt_Nonce tx, ef_GasPrice = lt_GasPrice tx, ef_GasTipCap = None,
       ef_GasFeeCap = None, ef_Gas = lt_GasLimit tx, ef_To = LegacyTx_GetTo F tx, ef_Value = lt_Amount tx,
       ef_Data = lt_Data tx, ef_AccessList = None, ef_V = v, ef_R = r, ef_S = s\<rparr>)"

definition LegacyTx_Fee :: "LegacyTx \<Rightarrow> go_panic + int" where
  "LegacyTx_Fee tx = tx_fee (lt_GasPrice tx) (lt_GasLimit tx)"

definition LegacyTx_Cost :: "LegacyTx \<Rightarrow> go_panic + int" where
  "LegacyTx_Cost tx = rbind (LegacyTx_Fee tx) (\<lambda>f. Inr (tx_cost f (lt_Amount tx)))"

text \<open>What the three kinds check of the amount, the recipient and the chain, in the order of the code.\<close>

definition validate_amount :: "int option \<Rightarrow> go_err + unit" where
  "validate_amount amount =
     (if case amount of None \<Rightarrow> False | Some a \<Rightarrow> a < 0 then Inl (GoErr ''amount cannot be negative'')
      else ensure (IsValidInt256 amount) (GoErr ''amount out of bound''))"

definition validate_fee :: "go_panic + int \<Rightarrow> go_err + unit" where
  "validate_fee fee = rbind (lift_panic fee) (\<lambda>f. ensure (IsValidInt256 (Some f)) (GoErr ''gas fee out of bound''))"

definition validate_to :: "eth_fns \<Rightarrow> string \<Rightarrow> go_err + unit" where
  "validate_to F to = (if to \<noteq> [] then lift_err (ValidateAddress F to) else Inr ())"

definition LegacyTx_Validate :: "eth_fns \<Rightarrow> LegacyTx \<Rightarrow> go_err + unit" where
  "LegacyTx_Validate F tx =
     (case lt_GasPrice tx of
        None \<Rightarrow> Inl (GoErr ''gas price cannot be nil'')
      | Some gasPrice \<Rightarrow>
          rbind (ensure (\<not> gasPrice < 0) (GoErr ''gas price cannot be negative'')) (\<lambda>_.
          rbind (ensure (IsValidInt256 (Some gasPrice)) (GoErr ''gas price out of bound'')) (\<lambda>_.
          rbind (validate_fee (LegacyTx_Fee tx)) (\<lambda>_.
          rbind (validate_amount (lt_Amount tx)) (\<lambda>_.
          rbind (validate_to F (lt_To tx)) (\<lambda>_.
          ensure (LegacyTx_GetChainID tx \<noteq> None) (GoErr ''chain ID must be derived from LegacyTx txs'')))))))"

section \<open>Transactions with an access list\<close>

definition AccessListTx_SetSignatureValues ::
  "int option \<Rightarrow> int option \<Rightarrow> int option \<Rightarrow> int option \<Rightarrow> AccessListTx \<Rightarrow> go_panic + AccessListTx" where
  "AccessListTx_SetSignatureValues chainID v r s tx =
     (let tx = tx\<lparr>at_V := bytes_or (at_V tx) v, at_R := bytes_or (at_R tx) r, at_S := bytes_or (at_S tx) s\<rparr>
      in case chainID of None \<Rightarrow> Inr tx
         | Some c \<Rightarrow> rbind (NewIntFromBigInt c) (\<lambda>c. Inr (tx\<lparr>at_ChainID := Some c\<rparr>)))"

definition newAccessListTx :: "eth_fns \<Rightarrow> 't eth_tx_fns \<Rightarrow> 't \<Rightarrow> go_err + AccessListTx" where
  "newAccessListTx F T tx =
     (case tf_RawSignatureValues T tx of (v, r, s) \<Rightarrow>
      rbind (lift_err (checked_int (tf_Value T tx))) (\<lambda>amount.
      rbind (lift_err (checked_int (tf_GasPrice T tx))) (\<lambda>gasPrice.
      lift_panic (AccessListTx_SetSignatureValues (tf_ChainId T tx) v r s
        \<lparr>at_ChainID = None, at_Nonce = tf_Nonce T tx, at_GasPrice = gasPrice, at_GasLimit = tf_Gas T tx,
         at_To = hex_of F (tf_To T tx), at_Amount = amount, at_Data = tf_Data T tx,
         at_Accesses = NewAccessList F T (tf_AccessList T tx), at_V = [], at_R = [], at_S = []\<rparr>))))"

definition AccessListTx_GetAccessList :: "eth_fns \<Rightarrow> AccessListTx \<Rightarrow> eth_access_list option" where
  "AccessListTx_GetAccessList F tx = (case at_Accesses tx of None \<Rightarrow> None | Some al \<Rightarrow> ToEthAccessList F al)"

definition AccessListTx_GetTo :: "eth_fns \<Rightarrow> AccessListTx \<Rightarrow> address option" where
  "AccessListTx_GetTo F tx = address_of F (at_To tx)"

definition AccessListTx_AsEthereumData :: "eth_fns \<Rightarrow> AccessListTx \<Rightarrow> EthTxData" where
  "AccessListTx_AsEthereumData F tx = (case rawSignatureValues (at_V tx) (at_R tx) (at_S tx) of (v, r, s) \<Rightarrow>
     EthAccessListTx \<lparr>ef_ChainID = at_ChainID tx, ef_Nonce = at_Nonce tx, ef_GasPrice = at_GasPrice tx, ef_GasTipCap = None,
       ef_GasFeeCap = None, ef_Gas = at_GasLimit tx, ef_To = AccessListTx_GetTo F tx, ef_Value = at_Amount tx,
       ef_Data = at_Data tx, ef_AccessList = AccessListTx_GetAccessList F tx, ef_V = v, ef_R = r, ef_S = s\<rparr>)"

definition AccessListTx_Fee :: "AccessListTx \<Rightarrow> go_panic + int" where
  "AccessListTx_Fee tx = tx_fee (at_GasPrice tx) (at_GasLimit tx)"

definition AccessListTx_Cost :: "AccessListTx \<Rightarrow> go_panic + int" where
  "AccessListTx_Cost tx = rbind (AccessListTx_Fee tx) (\<lambda>f. Inr (tx_cost f (at_Amount tx)))"

definition AccessListTx_Validate :: "eth_fns \<Rightarrow> AccessListTx \<Rightarrow> go_err + unit" where
  "AccessListTx_Validate F tx =
     (case at_GasPrice tx of
        None \<Rightarrow> Inl (GoErr ''cannot be nil'')
      | Some gasPrice \<Rightarrow>
          rbind (ensure (IsValidInt256 (Some gasPrice)) (GoErr ''gas price out of bound'')) (\<lambda>_.
          rbind (ensure (\<not> gasPrice < 0) (GoErr ''gas price cannot be negative'')) (\<lambda>_.
          rbind (validate_amount (at_Amount tx)) (\<lambda>_.
          rbind (validate_fee (AccessListTx_Fee tx)) (\<lambda>_.
          rbind (validate_to F (at_To tx)) (\<lambda>_.
          ensure (at_ChainID tx \<noteq> None) (GoErr ''chain ID must be present on AccessList txs'')))))))"

section \<open>Transactions with a dynamic fee\<close>

definition DynamicFeeTx_SetSignatureValues ::
  "int option \<Rightarrow> int option \<Rightarrow> int option \<Rightarrow> int option \<Rightarrow> DynamicFeeTx \<Rightarrow> go_panic + DynamicFeeTx" where
  "DynamicFeeTx_SetSignatureValues chainID v r s tx =
     (let tx = tx\<lparr>dt_V := bytes_or (dt_V tx) v, dt_R := bytes_or (dt_R tx) r, dt_S := bytes_or (dt_S tx) s\<rparr>
      in case chainID of None \<Rightarrow> Inr tx
         | Some c \<Rightarrow> rbind (NewIntFromBigInt c) (\<lambda>c. Inr (tx\<lparr>dt_ChainID := Some c\<rparr>)))"

definition NewDynamicFeeTx :: "eth_fns \<Rightarrow> 't eth_tx_fns \<Rightarrow> 't \<Rightarrow> go_err + DynamicFeeTx" where
  "NewDynamicFeeTx F T tx =
     (case tf_RawSignatureValues T tx of (v, r, s) \<Rightarrow>
      rbind (lift_err (checked_int (tf_Value T tx))) (\<lambda>amount.
      rbind (lift_err (checked_int (tf_GasFeeCap T tx))) (\<lambda>gasFeeCap.
      rbind (lift_err (checked_int (tf_GasTipCap T tx))) (\<lambda>gasTipCap.
      lift_panic (DynamicFeeTx_SetSignatureValues (tf_ChainId T tx) v r s
        \<lparr>dt_ChainID = None, dt_Nonce = tf_Nonce T tx, dt_GasTipCap = gasTipCap, dt_GasFeeCap = gasFeeCap,
         dt_GasLimit = tf_Gas T tx, dt_To = hex_of F (tf_To T tx), dt_Amount = amount, dt_Data = tf_Data T tx,
         dt_Accesses = NewAccessList F T (tf_AccessList T tx), dt_V = [], dt_R = [], dt_S = []\<rparr>)))))"

definition DynamicFeeTx_GetAccessList :: "eth_fns \<Rightarrow> DynamicFeeTx \<Rightarrow> eth_access_list option" where
  "DynamicFeeTx_GetAccessList F tx = (case dt_Accesses tx of None \<Rightarrow> None | Some al \<Rightarrow> ToEthAccessList F al)"

definition DynamicFeeTx_GetTo :: "eth_fns \<Rightarrow> DynamicFeeTx \<Rightarrow> address option" where
  "DynamicFeeTx_GetTo F tx = address_of F (dt_To tx)"

definition DynamicFeeTx_AsEthereumData :: "eth_fns \<Rightarrow> DynamicFeeTx \<Rightarrow> EthTxData" where
  "DynamicFeeTx_AsEthereumData F tx = (case rawSignatureValues (dt_V tx) (dt_R tx) (dt_S tx) of (v, r, s) \<Rightarrow>
     EthDynamicFeeTx \<lparr>ef_ChainID = dt_ChainID tx, ef_Nonce = dt_Nonce tx, ef_GasPrice = None,
       ef_GasTipCap = dt_GasTipCap tx, ef_GasFeeCap = dt_GasFeeCap tx, ef_Gas = dt_GasLimit tx,
       ef_To = DynamicFeeTx_GetTo F tx, ef_Value = dt_Amount tx, ef_Data = dt_Data tx,
       ef_AccessList = DynamicFeeTx_GetAccessList F tx, ef_V = v, ef_R = r, ef_S = s\<rparr>)"

definition DynamicFeeTx_Fee :: "DynamicFeeTx \<Rightarrow> go_panic + int" where
  "DynamicFeeTx_Fee tx = tx_fee (dt_GasFeeCap tx) (dt_GasLimit tx)"

definition DynamicFeeTx_Cost :: "DynamicFeeTx \<Rightarrow> go_panic + int" where
  "DynamicFeeTx_Cost tx = rbind (DynamicFeeTx_Fee tx) (\<lambda>f. Inr (tx_cost f (dt_Amount tx)))"

definition DynamicFeeTx_EffectiveGasPrice :: "DynamicFeeTx \<Rightarrow> int option \<Rightarrow> go_panic + int" where
  "DynamicFeeTx_EffectiveGasPrice tx baseFee = EffectiveGasPrice baseFee (dt_GasFeeCap tx) (dt_GasTipCap tx)"

definition DynamicFeeTx_EffectiveFee :: "DynamicFeeTx \<Rightarrow> int option \<Rightarrow> go_panic + int" where
  "DynamicFeeTx_EffectiveFee tx baseFee =
     rbind (DynamicFeeTx_EffectiveGasPrice tx baseFee) (\<lambda>p. tx_fee (Some p) (dt_GasLimit tx))"

definition DynamicFeeTx_EffectiveCost :: "DynamicFeeTx \<Rightarrow> int option \<Rightarrow> go_panic + int" where
  "DynamicFeeTx_EffectiveCost tx baseFee =
     rbind (DynamicFeeTx_EffectiveFee tx baseFee) (\<lambda>f. Inr (tx_cost f (dt_Amount tx)))"

definition DynamicFeeTx_Validate :: "eth_fns \<Rightarrow> DynamicFeeTx \<Rightarrow> go_err + unit" where
  "DynamicFeeTx_Validate F tx =
     (case dt_GasTipCap tx of
        None \<Rightarrow> Inl (GoErr ''gas tip cap cannot nil'')
      | Some gasTipCap \<Rightarrow>
          (case dt_GasFeeCap tx of
             None \<Rightarrow> Inl (GoErr ''gas fee cap cannot nil'')
           | Some gasFeeCap \<Rightarrow>
               rbind (ensure (\<not> gasTipCap < 0) (GoErr ''gas tip cap cannot be negative'')) (\<lambda>_.
               rbind (ensure (\<not> gasFeeCap < 0) (GoErr ''gas fee cap cannot be negative'')) (\<lambda>_.
               rbind (ensure (IsValidInt256 (Some gasTipCap)) (GoErr ''gas tip cap out of bound'')) (\<lambda>_.
               rbind (ensure (IsValidInt256 (Some gasFeeCap)) (GoErr ''gas fee cap out of bound'')) (\<lambda>_.
               rbind (ensure (\<not> gasFeeCap < gasTipCap) (GoErr ''max priority fee per gas higher than max fee per gas'')) (\<lambda>_.
               rbind (validate_fee (DynamicFeeTx_Fee tx)) (\<lambda>_.
               rbind (validate_amount (dt_Amount tx)) (\<lambda>_.
               rbind (validate_to F (dt_To tx)) (\<lambda>_.
               ensure (dt_ChainID tx \<noteq> None) (GoErr ''chain ID must be present on DynamicFee txs'')))))))))))"

section \<open>Whatever the kind\<close>

definition TxType :: "TxData \<Rightarrow> int" where
  "TxType d = (case d of Legacy _ \<Rightarrow> LegacyTxType | AccessListT _ \<Rightarrow> AccessListTxType | DynamicFee _ \<Rightarrow> DynamicFeeTxType)"

definition GetChainID :: "TxData \<Rightarrow> int option" where
  "GetChainID d = (case d of Legacy tx \<Rightarrow> LegacyTx_GetChainID tx | AccessListT tx \<Rightarrow> at_ChainID tx | DynamicFee tx \<Rightarrow> dt_ChainID tx)"

definition GetAccessList :: "eth_fns \<Rightarrow> TxData \<Rightarrow> eth_access_list option" where
  "GetAccessList F d = (case d of Legacy _ \<Rightarrow> None | AccessListT tx \<Rightarrow> AccessListTx_GetAccessList F tx
     | DynamicFee tx \<Rightarrow> DynamicFeeTx_GetAccessList F tx)"

definition tx_GetData :: "TxData \<Rightarrow> bytes" where
  "tx_GetData d = (case d of Legacy tx \<Rightarrow> lt_Data tx | AccessListT tx \<Rightarrow> at_Data tx | DynamicFee tx \<Rightarrow> dt_Data tx)"

definition tx_GetNonce :: "TxData \<Rightarrow> int" where
  "tx_GetNonce d = (case d of Legacy tx \<Rightarrow> lt_Nonce tx | AccessListT tx \<Rightarrow> at_Nonce tx | DynamicFee tx \<Rightarrow> dt_Nonce tx)"

definition GetGas :: "TxData \<Rightarrow> int" where
  "GetGas d = (case d of Legacy tx \<Rightarrow> lt_GasLimit tx | AccessListT tx \<Rightarrow> at_GasLimit tx | DynamicFee tx \<Rightarrow> dt_GasLimit tx)"

definition GetGasPrice :: "TxData \<Rightarrow> int option" where
  "GetGasPrice d = (case d of Legacy tx \<Rightarrow> lt_GasPrice tx | AccessListT tx \<Rightarrow> at_GasPrice tx | DynamicFee tx \<Rightarrow> dt_GasFeeCap tx)"

definition GetGasTipCap :: "TxData \<Rightarrow> int option" where
  "GetGasTipCap d = (case d of Legacy tx \<Rightarrow> lt_GasPrice tx | AccessListT tx \<Rightarrow> at_GasPrice tx | DynamicFee tx \<Rightarrow> dt_GasTipCap tx)"

definition GetGasFeeCap :: "TxData \<Rightarrow> int option" where
  "GetGasFeeCap d = (case d of Legacy tx \<Rightarrow> lt_GasPrice tx | AccessListT tx \<Rightarrow> at_GasPrice tx | DynamicFee tx \<Rightarrow> dt_GasFeeCap tx)"

definition GetValue :: "TxData \<Rightarrow> int option" where
  "GetValue d = (case d of Legacy tx \<Rightarrow> lt_Amount tx | AccessListT tx \<Rightarrow> at_Amount tx | DynamicFee tx \<Rightarrow> dt_Amount tx)"

definition GetTo :: "eth_fns \<Rightarrow> TxData \<Rightarrow> address option" where
  "GetTo F d = (case d of Legacy tx \<Rightarrow> LegacyTx_GetTo F tx | AccessListT tx \<Rightarrow> AccessListTx_GetTo F tx
     | DynamicFee tx \<Rightarrow> DynamicFeeTx_GetTo F tx)"

definition AsEthereumData :: "eth_fns \<Rightarrow> TxData \<Rightarrow> EthTxData" where
  "AsEthereumData F d = (case d of Legacy tx \<Rightarrow> LegacyTx_AsEthereumData F tx
     | AccessListT tx \<Rightarrow> AccessListTx_AsEthereumData F tx | DynamicFee tx \<Rightarrow> DynamicFeeTx_AsEthereumData F tx)"

definition tx_Validate :: "eth_fns \<Rightarrow> TxData \<Rightarrow> go_err + unit" where
  "tx_Validate F d = (case d of Legacy tx \<Rightarrow> LegacyTx_Validate F tx | AccessListT tx \<Rightarrow> AccessListTx_Validate F tx
     | DynamicFee tx \<Rightarrow> DynamicFeeTx_Validate F tx)"

definition Fee :: "TxData \<Rightarrow> go_panic + int" where
  "Fee d = (case d of Legacy tx \<Rightarrow> LegacyTx_Fee tx | AccessListT tx \<Rightarrow> AccessListTx_Fee tx | DynamicFee tx \<Rightarrow> DynamicFeeTx_Fee tx)"

definition Cost :: "TxData \<Rightarrow> go_panic + int" where
  "Cost d = (case d of Legacy tx \<Rightarrow> LegacyTx_Cost tx | AccessListT tx \<Rightarrow> AccessListTx_Cost tx | DynamicFee tx \<Rightarrow> DynamicFeeTx_Cost tx)"

text \<open>A legacy price is returned as the pointer it is; who uses it may panic.\<close>

definition tx_EffectiveGasPrice :: "TxData \<Rightarrow> int option \<Rightarrow> go_panic + int option" where
  "tx_EffectiveGasPrice d baseFee = (case d of Legacy tx \<Rightarrow> Inr (lt_GasPrice tx) | AccessListT tx \<Rightarrow> Inr (at_GasPrice tx)
     | DynamicFee tx \<Rightarrow> rbind (DynamicFeeTx_EffectiveGasPrice tx baseFee) (\<lambda>p. Inr (Some p)))"

definition EffectiveFee :: "TxData \<Rightarrow> int option \<Rightarrow> go_panic + int" where
  "EffectiveFee d baseFee = (case d of Legacy tx \<Rightarrow> LegacyTx_Fee tx | AccessListT tx \<Rightarrow> AccessListTx_Fee tx
     | DynamicFee tx \<Rightarrow> DynamicFeeTx_EffectiveFee tx baseFee)"

definition EffectiveCost :: "TxData \<Rightarrow> int option \<Rightarrow> go_panic + int" where
  "EffectiveCost d baseFee = (case d of Legacy tx \<Rightarrow> LegacyTx_Cost tx | AccessListT tx \<Rightarrow> AccessListTx_Cost tx
     | DynamicFee tx \<Rightarrow> DynamicFeeTx_EffectiveCost tx baseFee)"

definition NewTxDataFromTx :: "eth_fns \<Rightarrow> 't eth_tx_fns \<Rightarrow> 't \<Rightarrow> go_err + TxData" where
  "NewTxDataFromTx F T tx =
     (if tf_Type T tx = DynamicFeeTxType then rbind (NewDynamicFeeTx F T tx) (\<lambda>d. Inr (DynamicFee d))
      else if tf_Type T tx = AccessListTxType then rbind (newAccessListTx F T tx) (\<lambda>d. Inr (AccessListT d))
      else rbind (NewLegacyTx F T tx) (\<lambda>d. Inr (Legacy d)))"

text \<open>\<open>DefaultPriorityReduction\<close> is \<open>sdk.DefaultPowerReduction\<close>; \<open>Quo\<close> truncates towards zero.\<close>

definition GetTxPriority :: "int \<Rightarrow> TxData \<Rightarrow> int option \<Rightarrow> go_panic + int" where
  "GetTxPriority reduction d baseFee =
     rbind (tx_EffectiveGasPrice d baseFee) (\<lambda>price. case price of
       None \<Rightarrow> Inl nil_deref
     | Some p \<Rightarrow>
         let tipPrice = (case baseFee of None \<Rightarrow> p | Some b \<Rightarrow> p - b) in
         if reduction = 0 then Inl (GoPanic ''division by zero'')
         else let priorityBig = sgn tipPrice * sgn reduction * (\<bar>tipPrice\<bar> div \<bar>reduction\<bar>)
           in Inr (if in_i64 priorityBig then priorityBig else 2 ^ 63 - 1))"

section \<open>Messages\<close>

record MsgEthereumTx =
  em_Data :: "TxData option"
  em_Size :: bool
  em_Hash :: string
  em_From :: string

text \<open>\<open>em_Size\<close> says whether the deprecated field is other than zero.\<close>

definition UnpackTxData :: "TxData option \<Rightarrow> string + TxData" where
  "UnpackTxData any = (case any of None \<Rightarrow> Inl ''cannot unpack Any into TxData'' | Some d \<Rightarrow> Inr d)"

definition AsTransaction :: "eth_fns \<Rightarrow> 't eth_tx_fns \<Rightarrow> MsgEthereumTx \<Rightarrow> 't option" where
  "AsTransaction F T msg = (case UnpackTxData (em_Data msg) of Inl _ \<Rightarrow> None
     | Inr d \<Rightarrow> Some (tf_NewTx T (AsEthereumData F d)))"

definition FromEthereumTx :: "eth_fns \<Rightarrow> 't eth_tx_fns \<Rightarrow> 't \<Rightarrow> MsgEthereumTx \<Rightarrow> go_err + MsgEthereumTx" where
  "FromEthereumTx F T tx msg =
     rbind (NewTxDataFromTx F T tx) (\<lambda>d. Inr (msg\<lparr>em_Data := Some d, em_Hash := tf_HashHex T tx\<rparr>))"

definition em_ValidateBasic :: "eth_fns \<Rightarrow> 't eth_tx_fns \<Rightarrow> MsgEthereumTx \<Rightarrow> go_err + unit" where
  "em_ValidateBasic F T msg =
     rbind (validate_to F (em_From msg)) (\<lambda>_.
     rbind (ensure (\<not> em_Size msg) (GoErr ''tx size is deprecated'')) (\<lambda>_.
     rbind (lift_err (UnpackTxData (em_Data msg))) (\<lambda>d.
     rbind (ensure (GetGas d \<noteq> 0) (GoErr ''gas limit must not be zero'')) (\<lambda>_.
     rbind (ensure (in_i64 (GetGas d)) (GoErr ''gas limit must be less than math.MaxInt64'')) (\<lambda>_.
     rbind (tx_Validate F d) (\<lambda>_.
     case AsTransaction F T msg of
       None \<Rightarrow> Inl (GoPanicked nil_deref)
     | Some tx \<Rightarrow> ensure (em_Hash msg = tf_HashHex T tx) (GoErr ''invalid tx hash'')))))))"

definition em_GetFrom :: "eth_fns \<Rightarrow> MsgEthereumTx \<Rightarrow> address option" where
  "em_GetFrom F msg = address_of F (em_From msg)"

definition em_GetGas :: "MsgEthereumTx \<Rightarrow> int" where
  "em_GetGas msg = (case UnpackTxData (em_Data msg) of Inl _ \<Rightarrow> 0 | Inr d \<Rightarrow> GetGas d)"

definition em_GetSender :: "eth_fns \<Rightarrow> 't eth_tx_fns \<Rightarrow> int option \<Rightarrow> MsgEthereumTx \<Rightarrow> go_err + address \<times> MsgEthereumTx" where
  "em_GetSender F T chainID msg = (case AsTransaction F T msg of
      None \<Rightarrow> Inl (GoPanicked nil_deref)
    | Some tx \<Rightarrow> rbind (lift_err (tf_LatestSender T chainID tx)) (\<lambda>from. Inr (from, msg\<lparr>em_From := Hex F from\<rparr>)))"

definition em_GetSigners :: "eth_fns \<Rightarrow> 't eth_tx_fns \<Rightarrow> MsgEthereumTx \<Rightarrow> go_panic + address list" where
  "em_GetSigners F T msg = (case UnpackTxData (em_Data msg) of
      Inl e \<Rightarrow> Inl (GoPanic e)
    | Inr d \<Rightarrow> (case em_GetSender F T (GetChainID d) msg of
        Inl (GoPanicked p) \<Rightarrow> Inl p
      | Inl (GoErr e) \<Rightarrow> Inl (GoPanic e)
      | Inr (sender, _) \<Rightarrow> Inr [sender]))"

record EvmTxArgs =
  ea_Nonce :: int
  ea_GasLimit :: int
  ea_Input :: bytes
  ea_GasFeeCap :: "int option"
  ea_GasPrice :: "int option"
  ea_ChainID :: "int option"
  ea_Amount :: "int option"
  ea_GasTipCap :: "int option"
  ea_To :: "address option"
  ea_Accesses :: "eth_access_list option"

definition panic_int :: "int option \<Rightarrow> go_panic + int option" where
  "panic_int i = (case i of None \<Rightarrow> Inr None | Some x \<Rightarrow> rbind (NewIntFromBigInt x) (\<lambda>y. Inr (Some y)))"

text \<open>\<open>NewIntFromBigInt\<close> of a nil pointer is an empty \<open>math.Int\<close>, which here is no value.\<close>

definition newMsgEthereumTx :: "eth_fns \<Rightarrow> 't eth_tx_fns \<Rightarrow> EvmTxArgs \<Rightarrow> go_panic + MsgEthereumTx" where
  "newMsgEthereumTx F T tx =
     (let toAddr = hex_of F (ea_To tx) in
      rbind (panic_int (ea_Amount tx)) (\<lambda>amt.
      rbind (panic_int (ea_ChainID tx)) (\<lambda>cid.
      rbind (panic_int (ea_GasPrice tx)) (\<lambda>gp.
      rbind (if ea_GasFeeCap tx \<noteq> None then
          rbind (panic_int (ea_GasTipCap tx)) (\<lambda>gtc.
          rbind (panic_int (ea_GasFeeCap tx)) (\<lambda>gfc.
          Inr (DynamicFee \<lparr>dt_ChainID = cid, dt_Nonce = ea_Nonce tx, dt_GasTipCap = gtc, dt_GasFeeCap = gfc,
            dt_GasLimit = ea_GasLimit tx, dt_To = toAddr, dt_Amount = amt, dt_Data = ea_Input tx,
            dt_Accesses = NewAccessList F T (ea_Accesses tx), dt_V = [], dt_R = [], dt_S = []\<rparr>)))
        else if ea_Accesses tx \<noteq> None then
          Inr (AccessListT \<lparr>at_ChainID = cid, at_Nonce = ea_Nonce tx, at_GasPrice = gp, at_GasLimit = ea_GasLimit tx,
            at_To = toAddr, at_Amount = amt, at_Data = ea_Input tx, at_Accesses = NewAccessList F T (ea_Accesses tx),
            at_V = [], at_R = [], at_S = []\<rparr>)
        else
          Inr (Legacy \<lparr>lt_Nonce = ea_Nonce tx, lt_GasPrice = gp, lt_GasLimit = ea_GasLimit tx, lt_To = toAddr,
            lt_Amount = amt, lt_Data = ea_Input tx, lt_V = [], lt_R = [], lt_S = []\<rparr>)) (\<lambda>d.
      let msg = \<lparr>em_Data = Some d, em_Size = False, em_Hash = [], em_From = []\<rparr> in
      case AsTransaction F T msg of None \<Rightarrow> Inl nil_deref
      | Some t \<Rightarrow> Inr (msg\<lparr>em_Hash := tf_HashHex T t\<rparr>))))))"

definition ToTxData :: "eth_fns \<Rightarrow> 't eth_tx_fns \<Rightarrow> EvmTxArgs \<Rightarrow> go_err + TxData" where
  "ToTxData F T args = rbind (lift_panic (newMsgEthereumTx F T args)) (\<lambda>msg.
     case AsTransaction F T msg of None \<Rightarrow> Inl (GoPanicked nil_deref) | Some tx \<Rightarrow> NewTxDataFromTx F T tx)"

section \<open>The documented behaviour of go-ethereum's transactions\<close>

text \<open>\<open>NewTx\<close> copies the value it is given: a nil integer counts as zero, a nil list as empty.\<close>

definition or0 :: "int option \<Rightarrow> int option" where
  "or0 i = (case i of None \<Rightarrow> Some 0 | Some x \<Rightarrow> Some x)"

definition norm_fields :: "EthTxFields \<Rightarrow> EthTxFields" where
  "norm_fields f = f\<lparr>ef_ChainID := or0 (ef_ChainID f), ef_GasPrice := or0 (ef_GasPrice f), ef_GasTipCap := or0 (ef_GasTipCap f),
     ef_GasFeeCap := or0 (ef_GasFeeCap f), ef_Value := or0 (ef_Value f),
     ef_AccessList := Some (case ef_AccessList f of None \<Rightarrow> [] | Some l \<Rightarrow> l),
     ef_V := or0 (ef_V f), ef_R := or0 (ef_R f), ef_S := or0 (ef_S f)\<rparr>"

fun norm_data :: "EthTxData \<Rightarrow> EthTxData" where
  "norm_data (EthLegacyTx f) = EthLegacyTx (norm_fields f)"
| "norm_data (EthAccessListTx f) = EthAccessListTx (norm_fields f)"
| "norm_data (EthDynamicFeeTx f) = EthDynamicFeeTx (norm_fields f)"

text \<open>The value a transaction was made from, as its getters show it.\<close>

definition data_of_tx :: "'t eth_tx_fns \<Rightarrow> 't \<Rightarrow> EthTxData" where
  "data_of_tx T tx = (case tf_RawSignatureValues T tx of (v, r, s) \<Rightarrow>
     let f = \<lparr>ef_ChainID = None, ef_Nonce = tf_Nonce T tx, ef_GasPrice = None, ef_GasTipCap = None, ef_GasFeeCap = None,
       ef_Gas = tf_Gas T tx, ef_To = tf_To T tx, ef_Value = tf_Value T tx, ef_Data = tf_Data T tx,
       ef_AccessList = None, ef_V = v, ef_R = r, ef_S = s\<rparr> in
     if tf_Type T tx = DynamicFeeTxType then EthDynamicFeeTx (f\<lparr>ef_ChainID := tf_ChainId T tx,
       ef_GasTipCap := tf_GasTipCap T tx, ef_GasFeeCap := tf_GasFeeCap T tx, ef_AccessList := tf_AccessList T tx\<rparr>)
     else if tf_Type T tx = AccessListTxType then EthAccessListTx (f\<lparr>ef_ChainID := tf_ChainId T tx,
       ef_GasPrice := tf_GasPrice T tx, ef_AccessList := tf_AccessList T tx\<rparr>)
     else EthLegacyTx (f\<lparr>ef_GasPrice := tf_GasPrice T tx\<rparr>))"

definition tx_laws :: "'t eth_tx_fns \<Rightarrow> bool" where
  "tx_laws T \<longleftrightarrow> (\<forall>d e. norm_data d = norm_data e \<longrightarrow> tf_NewTx T d = tf_NewTx T e) \<and>
     (\<forall>d. tf_NewTx T (data_of_tx T (tf_NewTx T d)) = tf_NewTx T d)"

text \<open>Addresses and hashes survive being printed and parsed.\<close>

definition hex_laws :: "eth_fns \<Rightarrow> 't eth_tx_fns \<Rightarrow> bool" where
  "hex_laws F T \<longleftrightarrow> (\<forall>a. HexToAddress F (Hex F a) = a \<and> Hex F a \<noteq> []) \<and> (\<forall>h. HexToHash F (tf_String T h) = h)"

section \<open>Into a message and back\<close>

definition nonneg :: "int option \<Rightarrow> bool" where
  "nonneg i \<longleftrightarrow> (case i of None \<Rightarrow> True | Some x \<Rightarrow> 0 \<le> x)"

lemma or0_read: "nonneg i \<Longrightarrow>
    or0 (if length (bytes_or [] i) > 0 then Some (big_SetBytes (bytes_or [] i)) else None) = or0 i"
  by (cases i) (auto simp: or0_def bytes_or_def nonneg_def)

lemma or0_raw:
  assumes "nonneg v" "nonneg r" "nonneg s"
    and "rawSignatureValues (bytes_or [] v) (bytes_or [] r) (bytes_or [] s) = (v1, r1, s1)"
  shows "or0 v1 = or0 v" "or0 r1 = or0 r" "or0 s1 = or0 s"
  using assms or0_read [of v] or0_read [of r] or0_read [of s] by (auto simp: rawSignatureValues_def Let_def)

lemma checked_int_id: "checked_int i = Inr j \<Longrightarrow> j = i"
  by (auto simp: checked_int_def SafeNewIntFromBigInt_def split: option.splits if_splits)

lemma NewIntFromBigInt_id: "NewIntFromBigInt c = Inr d \<Longrightarrow> d = c"
  by (simp add: NewIntFromBigInt_def split: if_splits)

lemma address_of_hex: "hex_laws F T \<Longrightarrow> address_of F (hex_of F to) = to"
  by (cases to) (auto simp: address_of_def hex_of_def hex_laws_def)

lemma access_list_hex:
  assumes "hex_laws F T"
  shows "(case (case NewAccessList F T al of None \<Rightarrow> None | Some l \<Rightarrow> ToEthAccessList F l) of None \<Rightarrow> [] | Some l \<Rightarrow> l) =
    (case al of None \<Rightarrow> [] | Some l \<Rightarrow> l)"
proof (cases al)
  case (Some l)
  have "map ((\<lambda>(a, keys). (HexToAddress F a, map (HexToHash F) keys)) \<circ> (\<lambda>(a, keys). (Hex F a, map (tf_String T) keys))) l = l"
    using assms by (intro map_idI) (auto simp: hex_laws_def comp_def)
  with Some show ?thesis by (auto simp: NewAccessList_def ToEthAccessList_def)
qed (simp add: NewAccessList_def)

lemma NewLegacyTx_data:
  assumes "hex_laws F T" and "NewLegacyTx F T tx = Inr d" and "tf_RawSignatureValues T tx = (v, r, s)"
    and "nonneg v" "nonneg r" "nonneg s" "tf_Type T tx \<noteq> DynamicFeeTxType" "tf_Type T tx \<noteq> AccessListTxType"
  shows "norm_data (LegacyTx_AsEthereumData F d) = norm_data (data_of_tx T tx)"
proof -
  obtain v1 r1 s1 where raw: "rawSignatureValues (bytes_or [] v) (bytes_or [] r) (bytes_or [] s) = (v1, r1, s1)"
    by (metis prod_cases3)
  note eqs = or0_raw [OF assms(4-6) raw]
  show ?thesis
    using assms(2,3,7,8) raw eqs address_of_hex [OF assms(1)]
    by (auto simp: NewLegacyTx_def LegacyTx_SetSignatureValues_def LegacyTx_AsEthereumData_def LegacyTx_GetTo_def
        LegacyTx_GetRawSignatureValues_def data_of_tx_def norm_fields_def Let_def dest!: checked_int_id)
qed

lemma newAccessListTx_data:
  assumes "hex_laws F T" and "newAccessListTx F T tx = Inr d" and "tf_RawSignatureValues T tx = (v, r, s)"
    and "nonneg v" "nonneg r" "nonneg s" "tf_Type T tx = AccessListTxType"
  shows "norm_data (AccessListTx_AsEthereumData F d) = norm_data (data_of_tx T tx)"
proof -
  obtain v1 r1 s1 where raw: "rawSignatureValues (bytes_or [] v) (bytes_or [] r) (bytes_or [] s) = (v1, r1, s1)"
    by (metis prod_cases3)
  note eqs = or0_raw [OF assms(4-6) raw]
  have "AccessListTxType \<noteq> DynamicFeeTxType" by (simp add: AccessListTxType_def DynamicFeeTxType_def)
  then show ?thesis
    using assms(2,3,7) raw eqs address_of_hex [OF assms(1)] access_list_hex [OF assms(1), of "tf_AccessList T tx"]
    by (auto simp: newAccessListTx_def AccessListTx_SetSignatureValues_def AccessListTx_AsEthereumData_def AccessListTx_GetTo_def
        AccessListTx_GetAccessList_def data_of_tx_def norm_fields_def Let_def split: option.splits
        dest!: checked_int_id NewIntFromBigInt_id)
qed

lemma NewDynamicFeeTx_data:
  assumes "hex_laws F T" and "NewDynamicFeeTx F T tx = Inr d" and "tf_RawSignatureValues T tx = (v, r, s)"
    and "nonneg v" "nonneg r" "nonneg s" "tf_Type T tx = DynamicFeeTxType"
  shows "norm_data (DynamicFeeTx_AsEthereumData F d) = norm_data (data_of_tx T tx)"
proof -
  obtain v1 r1 s1 where raw: "rawSignatureValues (bytes_or [] v) (bytes_or [] r) (bytes_or [] s) = (v1, r1, s1)"
    by (metis prod_cases3)
  note eqs = or0_raw [OF assms(4-6) raw]
  show ?thesis
    using assms(2,3,7) raw eqs address_of_hex [OF assms(1)] access_list_hex [OF assms(1), of "tf_AccessList T tx"]
    by (auto simp: NewDynamicFeeTx_def DynamicFeeTx_SetSignatureValues_def DynamicFeeTx_AsEthereumData_def DynamicFeeTx_GetTo_def
        DynamicFeeTx_GetAccessList_def data_of_tx_def norm_fields_def Let_def split: option.splits
        dest!: checked_int_id NewIntFromBigInt_id)
qed

lemma NewTxDataFromTx_data:
  assumes "hex_laws F T" and "NewTxDataFromTx F T tx = Inr d" and "tf_RawSignatureValues T tx = (v, r, s)"
    and "nonneg v" "nonneg r" "nonneg s"
  shows "norm_data (AsEthereumData F d) = norm_data (data_of_tx T tx)"
  using assms(2) NewLegacyTx_data [OF assms(1) _ assms(3-6)] newAccessListTx_data [OF assms(1) _ assms(3-6)]
    NewDynamicFeeTx_data [OF assms(1) _ assms(3-6)]
  by (auto simp: NewTxDataFromTx_def AsEthereumData_def split: if_splits)

text \<open>
  C12: A transaction that was made into a message is got back from it unchanged, whatever its kind, with its
  recipient, amount, data, access list and signature; so it has the same hash, and the message carries the hash
  that ValidateBasic compares with.
\<close>

theorem transaction_survives_message:
  assumes "tx_laws T" and "hex_laws F T" and "tx = tf_NewTx T e" and "tf_RawSignatureValues T tx = (v, r, s)"
    and "nonneg v" and "nonneg r" and "nonneg s" and "FromEthereumTx F T tx msg = Inr msg1"
  shows "AsTransaction F T msg1 = Some tx \<and> em_Hash msg1 = tf_HashHex T tx"
proof -
  obtain d where d: "NewTxDataFromTx F T tx = Inr d" "msg1 = msg\<lparr>em_Data := Some d, em_Hash := tf_HashHex T tx\<rparr>"
    using assms(8) by (auto simp: FromEthereumTx_def)
  have "norm_data (AsEthereumData F d) = norm_data (data_of_tx T tx)"
    by (rule NewTxDataFromTx_data [OF assms(2) d(1) assms(4-7)])
  with assms(1,3) have "tf_NewTx T (AsEthereumData F d) = tx" unfolding tx_laws_def by metis
  with d show ?thesis by (simp add: AsTransaction_def UnpackTxData_def)
qed

section \<open>What validation gives\<close>

lemma validate_amount_ok [simp]: "validate_amount a = Inr u \<longleftrightarrow> nonneg a \<and> IsValidInt256 a"
  by (auto simp: validate_amount_def nonneg_def split: option.splits)

lemma validate_fee_ok [simp]: "validate_fee f = Inr u \<longleftrightarrow> (\<exists>x. f = Inr x \<and> BitLen_le x 256)"
  by (cases f) (auto simp: validate_fee_def IsValidInt256_def)

lemma tx_fee_Some [simp]: "tx_fee (Some p) g = Inr (p * g)"
  by (simp add: tx_fee_def)

lemma LegacyTx_Validate_ok:
  "LegacyTx_Validate F tx = Inr u \<Longrightarrow> \<exists>p. lt_GasPrice tx = Some p \<and> 0 \<le> p \<and> BitLen_le (p * lt_GasLimit tx) 256 \<and>
     nonneg (lt_Amount tx) \<and> LegacyTx_GetChainID tx \<noteq> None"
  by (auto simp: LegacyTx_Validate_def LegacyTx_Fee_def not_less split: option.splits)

lemma AccessListTx_Validate_ok:
  "AccessListTx_Validate F tx = Inr u \<Longrightarrow> \<exists>p. at_GasPrice tx = Some p \<and> 0 \<le> p \<and> BitLen_le (p * at_GasLimit tx) 256 \<and>
     nonneg (at_Amount tx) \<and> at_ChainID tx \<noteq> None"
  by (auto simp: AccessListTx_Validate_def AccessListTx_Fee_def not_less split: option.splits)

lemma DynamicFeeTx_Validate_ok:
  "DynamicFeeTx_Validate F tx = Inr u \<Longrightarrow> \<exists>t f. dt_GasTipCap tx = Some t \<and> dt_GasFeeCap tx = Some f \<and> 0 \<le> t \<and> t \<le> f \<and>
     BitLen_le (f * dt_GasLimit tx) 256 \<and> nonneg (dt_Amount tx) \<and> dt_ChainID tx \<noteq> None"
  by (auto simp: DynamicFeeTx_Validate_def DynamicFeeTx_Fee_def not_less split: option.splits)

text \<open>The price a validated transaction pays for a unit of gas: its own, capped by its fee cap.\<close>

definition price_per_gas :: "TxData \<Rightarrow> int \<Rightarrow> int" where
  "price_per_gas d baseFee = (case (GetGasTipCap d, GetGasFeeCap d) of
      (Some t, Some f) \<Rightarrow> min (t + baseFee) f | _ \<Rightarrow> 0)"

lemma validated_prices:
  assumes "tx_Validate F d = Inr u" and "0 \<le> b"
  shows "\<exists>f. GetGasFeeCap d = Some f \<and> Fee d = Inr (f * GetGas d) \<and> Cost d = Inr (tx_cost (f * GetGas d) (GetValue d)) \<and>
    tx_EffectiveGasPrice d (Some b) = Inr (Some (price_per_gas d b)) \<and> EffectiveFee d (Some b) = Inr (price_per_gas d b * GetGas d) \<and>
    EffectiveCost d (Some b) = Inr (tx_cost (price_per_gas d b * GetGas d) (GetValue d)) \<and>
    0 \<le> price_per_gas d b \<and> price_per_gas d b \<le> f \<and> \<bar>f * GetGas d\<bar> < 2 ^ 256 \<and> nonneg (GetValue d) \<and> GetChainID d \<noteq> None"
proof (cases d)
  case (Legacy tx)
  with assms LegacyTx_Validate_ok [of F tx] show ?thesis
    by (auto simp: tx_Validate_def GetGasFeeCap_def GetGasTipCap_def Fee_def Cost_def EffectiveFee_def EffectiveCost_def
        LegacyTx_Fee_def LegacyTx_Cost_def price_per_gas_def GetGas_def GetValue_def GetChainID_def tx_EffectiveGasPrice_def BitLen_le_def)
next
  case (AccessListT tx)
  with assms AccessListTx_Validate_ok [of F tx] show ?thesis
    by (auto simp: tx_Validate_def GetGasFeeCap_def GetGasTipCap_def Fee_def Cost_def EffectiveFee_def EffectiveCost_def
        AccessListTx_Fee_def AccessListTx_Cost_def price_per_gas_def GetGas_def GetValue_def GetChainID_def tx_EffectiveGasPrice_def BitLen_le_def)
next
  case (DynamicFee tx)
  with assms DynamicFeeTx_Validate_ok [of F tx] show ?thesis
    by (auto simp: tx_Validate_def GetGasFeeCap_def GetGasTipCap_def Fee_def Cost_def EffectiveFee_def EffectiveCost_def
        DynamicFeeTx_Fee_def DynamicFeeTx_Cost_def DynamicFeeTx_EffectiveFee_def DynamicFeeTx_EffectiveCost_def
        DynamicFeeTx_EffectiveGasPrice_def EffectiveGasPrice_def price_per_gas_def GetGas_def GetValue_def GetChainID_def
        tx_EffectiveGasPrice_def BitLen_le_def)
qed

lemma validated_fees:
  assumes "tx_Validate F d = Inr u" and "0 \<le> b" and "in_u64 (GetGas d)"
  shows "\<exists>fee cost effcost. Fee d = Inr fee \<and> Cost d = Inr cost \<and> EffectiveFee d (Some b) = Inr (price_per_gas d b * GetGas d) \<and>
    EffectiveCost d (Some b) = Inr effcost \<and> 0 \<le> price_per_gas d b * GetGas d \<and> price_per_gas d b * GetGas d \<le> fee \<and>
    fee < 2 ^ 256 \<and> fee \<le> cost \<and> effcost \<le> cost \<and> cost - effcost = fee - price_per_gas d b * GetGas d"
proof -
  have gas: "0 \<le> GetGas d" using assms(3) by (simp add: in_u64_def)
  obtain f where f: "Fee d = Inr (f * GetGas d)" "Cost d = Inr (tx_cost (f * GetGas d) (GetValue d))"
    "EffectiveFee d (Some b) = Inr (price_per_gas d b * GetGas d)"
    "EffectiveCost d (Some b) = Inr (tx_cost (price_per_gas d b * GetGas d) (GetValue d))"
    "0 \<le> price_per_gas d b" "price_per_gas d b \<le> f" "\<bar>f * GetGas d\<bar> < 2 ^ 256" "nonneg (GetValue d)"
    using validated_prices [OF assms(1,2)] by blast
  have "price_per_gas d b * GetGas d \<le> f * GetGas d" "0 \<le> price_per_gas d b * GetGas d"
    using f(5,6) gas by (auto intro: mult_right_mono)
  with f show ?thesis by (auto simp: tx_cost_def nonneg_def split: option.splits)
qed

text \<open>
  A transaction that passes validation has a fee and a cost that neither panic nor pass 256 bits, and whatever the
  base fee, what it effectively pays for its gas is its price per gas times its limit, not negative and never more than
  the fee it declares; in the same way its effective cost is at most its cost.
\<close>

theorem validated_fee_bounds:
  assumes "tx_Validate F d = Inr u" and "0 \<le> b" and "in_u64 (GetGas d)"
  shows "\<exists>fee cost eff effcost. Fee d = Inr fee \<and> Cost d = Inr cost \<and> EffectiveFee d (Some b) = Inr eff \<and>
    EffectiveCost d (Some b) = Inr effcost \<and> eff = price_per_gas d b * GetGas d \<and>
    0 \<le> eff \<and> eff \<le> fee \<and> fee < 2 ^ 256 \<and> fee \<le> cost \<and> effcost \<le> cost \<and> cost - effcost = fee - eff"
  using validated_fees [OF assms] by auto

section \<open>The chain of a legacy transaction\<close>

text \<open>The two ways to compute the chain from \<open>v\<close>, for short and for long values, are one formula.\<close>

lemma DeriveChainID_plain:
  "DeriveChainID (Some v) =
     (if v = 27 \<or> v = 28 then Some 0 else if v < 35 then None else Some ((v - 35) div 2))"
proof -
  have "BitLen_le v 64 \<Longrightarrow> 0 \<le> v \<Longrightarrow> u64 v = v" by (simp add: BitLen_le_def u64_id)
  moreover have "BitLen_le v 64 \<Longrightarrow> 35 \<le> v \<Longrightarrow> u64 (v - 35) = v - 35" by (simp add: BitLen_le_def u64_id)
  ultimately show ?thesis by (auto simp: DeriveChainID_def Let_def BitLen_le_def)
qed

lemma DeriveChainID_eip155: "0 \<le> c \<Longrightarrow> 0 \<le> b \<Longrightarrow> b \<le> 1 \<Longrightarrow> DeriveChainID (Some (b + 2 * c + 35)) = Some c"
  by (simp add: DeriveChainID_plain)

section \<open>An instance\<close>

text \<open>A transaction is the value it was made from.\<close>

fun fields_of :: "EthTxData \<Rightarrow> EthTxFields" where
  "fields_of (EthLegacyTx f) = f"
| "fields_of (EthAccessListTx f) = f"
| "fields_of (EthDynamicFeeTx f) = f"

fun kind_of :: "EthTxData \<Rightarrow> int" where
  "kind_of (EthLegacyTx f) = 0"
| "kind_of (EthAccessListTx f) = 1"
| "kind_of (EthDynamicFeeTx f) = 2"

definition plain_tx_fns :: "EthTxData eth_tx_fns" where
  "plain_tx_fns = \<lparr>tf_NewTx = (\<lambda>d. case norm_data d of
        EthLegacyTx f \<Rightarrow> EthLegacyTx (f\<lparr>ef_ChainID := Some 0, ef_GasTipCap := Some 0, ef_GasFeeCap := Some 0, ef_AccessList := Some []\<rparr>)
      | EthAccessListTx f \<Rightarrow> EthAccessListTx (f\<lparr>ef_GasTipCap := Some 0, ef_GasFeeCap := Some 0\<rparr>)
      | EthDynamicFeeTx f \<Rightarrow> EthDynamicFeeTx (f\<lparr>ef_GasPrice := Some 0\<rparr>)),
     tf_Type = kind_of, tf_ChainId = (\<lambda>t. ef_ChainID (fields_of t)),
     tf_Nonce = (\<lambda>t. ef_Nonce (fields_of t)), tf_Data = (\<lambda>t. ef_Data (fields_of t)), tf_Gas = (\<lambda>t. ef_Gas (fields_of t)),
     tf_To = (\<lambda>t. ef_To (fields_of t)), tf_Value = (\<lambda>t. ef_Value (fields_of t)), tf_GasPrice = (\<lambda>t. ef_GasPrice (fields_of t)),
     tf_GasFeeCap = (\<lambda>t. ef_GasFeeCap (fields_of t)), tf_GasTipCap = (\<lambda>t. ef_GasTipCap (fields_of t)),
     tf_AccessList = (\<lambda>t. ef_AccessList (fields_of t)),
     tf_RawSignatureValues = (\<lambda>t. (ef_V (fields_of t), ef_R (fields_of t), ef_S (fields_of t))),
     tf_HashHex = (\<lambda>t. replicate (nat (ef_Nonce (fields_of t))) (CHR ''h'')), tf_Protected = (\<lambda>_. True),
     tf_String = (\<lambda>h. replicate (unat h) (CHR ''x'')), tf_Sender = (\<lambda>_ _ _. Inr 7), tf_LatestSender = (\<lambda>_ _. Inr 7)\<rparr>"

definition plain_eth :: eth_fns where
  "plain_eth = \<lparr>Hex = (\<lambda>a. replicate (Suc (unat a)) (CHR ''x'')), HexToAddress = (\<lambda>s. of_nat (length s - 1)), IsHexAddress = (\<lambda>_. True),
     HexToHash = (\<lambda>s. of_nat (length s)), AccAddressFromBech32 = (\<lambda>_. True), ValidateDenom = (\<lambda>_. True),
     ChannelIdentifierValidator = (\<lambda>_. True), CheckConfigForkOrder = (\<lambda>_. None),
     ConfigRules = (\<lambda>_ _ _. \<lparr>IsHomestead = True, IsEIP150 = True, IsEIP158 = True, IsByzantium = True,
       IsConstantinople = True, IsPetersburg = True, IsIstanbul = True, IsBerlin = False, IsLondon = True, IsMerge = False\<rparr>)\<rparr>"

lemma plain_laws: "tx_laws plain_tx_fns" "hex_laws plain_eth plain_tx_fns"
proof -
  have "tf_NewTx plain_tx_fns (data_of_tx plain_tx_fns (tf_NewTx plain_tx_fns d)) = tf_NewTx plain_tx_fns d" for d
    by (cases d) (auto simp: plain_tx_fns_def data_of_tx_def norm_fields_def or0_def Let_def LegacyTxType_def
        AccessListTxType_def DynamicFeeTxType_def split: option.splits)
  then show "tx_laws plain_tx_fns" by (simp add: tx_laws_def plain_tx_fns_def)
  show "hex_laws plain_eth plain_tx_fns" by (simp add: hex_laws_def plain_eth_def plain_tx_fns_def)
qed

definition sample_dynamic :: EthTxData where
  "sample_dynamic = EthDynamicFeeTx \<lparr>ef_ChainID = Some 9000, ef_Nonce = 3, ef_GasPrice = None, ef_GasTipCap = Some 2,
     ef_GasFeeCap = Some 50, ef_Gas = 30000, ef_To = Some 5, ef_Value = Some 1000, ef_Data = [1, 2],
     ef_AccessList = Some [(6, [7])], ef_V = Some 0, ef_R = Some 11, ef_S = Some 12\<rparr>"

definition empty_msg :: MsgEthereumTx where
  "empty_msg = \<lparr>em_Data = None, em_Size = False, em_Hash = [], em_From = []\<rparr>"

lemma sample_dynamic_converts:
  "\<exists>msg. FromEthereumTx plain_eth plain_tx_fns (tf_NewTx plain_tx_fns sample_dynamic) empty_msg = Inr msg"
  by (simp add: FromEthereumTx_def NewTxDataFromTx_def NewDynamicFeeTx_def plain_tx_fns_def sample_dynamic_def norm_fields_def
      or0_def checked_int_def SafeNewIntFromBigInt_def IsValidInt256_def BitLen_le_def DynamicFeeTx_SetSignatureValues_def
      NewIntFromBigInt_def DynamicFeeTxType_def Let_def)

theorem transaction_survives_message_witness:
  "\<exists>msg. FromEthereumTx plain_eth plain_tx_fns (tf_NewTx plain_tx_fns sample_dynamic) empty_msg = Inr msg \<and>
     AsTransaction plain_eth plain_tx_fns msg = Some (tf_NewTx plain_tx_fns sample_dynamic) \<and> em_Hash msg = ''hhh''"
proof -
  obtain msg where msg: "FromEthereumTx plain_eth plain_tx_fns (tf_NewTx plain_tx_fns sample_dynamic) empty_msg = Inr msg"
    using sample_dynamic_converts by blast
  have "tf_RawSignatureValues plain_tx_fns (tf_NewTx plain_tx_fns sample_dynamic) = (Some 0, Some 11, Some 12)"
    "tf_HashHex plain_tx_fns (tf_NewTx plain_tx_fns sample_dynamic) = ''hhh''"
    by (simp_all add: plain_tx_fns_def sample_dynamic_def norm_fields_def or0_def numeral_eq_Suc)
  with transaction_survives_message [OF plain_laws refl _ _ _ _ msg] msg show ?thesis by (simp add: nonneg_def)
qed

definition sample_dynamic_data :: TxData where
  "sample_dynamic_data = DynamicFee \<lparr>dt_ChainID = Some 9000, dt_Nonce = 3, dt_GasTipCap = Some 2, dt_GasFeeCap = Some 50,
     dt_GasLimit = 30000, dt_To = ''x'', dt_Amount = Some 1000, dt_Data = [1, 2], dt_Accesses = None, dt_V = [], dt_R = [11], dt_S = [12]\<rparr>"

lemma sample_dynamic_valid: "tx_Validate plain_eth sample_dynamic_data = Inr ()"
  by (simp add: tx_Validate_def sample_dynamic_data_def DynamicFeeTx_Validate_def DynamicFeeTx_Fee_def IsValidInt256_def
      BitLen_le_def nonneg_def validate_to_def ValidateAddress_def plain_eth_def)

theorem validated_fee_bounds_witness:
  "EffectiveFee sample_dynamic_data (Some 7) = Inr 270000 \<and> Fee sample_dynamic_data = Inr 1500000 \<and> (270000 :: int) \<le> 1500000"
  using validated_fee_bounds [OF sample_dynamic_valid, of 7]
  by (simp add: in_u64_def sample_dynamic_data_def GetGas_def EffectiveFee_def Fee_def DynamicFeeTx_Fee_def
      DynamicFeeTx_EffectiveFee_def DynamicFeeTx_EffectiveGasPrice_def EffectiveGasPrice_def)

end
