(* ===== verification/EthAnte.thy ===== *)
theory EthAnte
  imports TxData MessageSafety VestingKeeper
begin

text \<open>
  What a transaction has to pass before its messages run (app/ante/evm: the steps 01 to 12 and mono.go;
  app/ante/utils/claim_rewards.go; x/evm/ante; x/evm/keeper/fees.go), and what it has paid when it has passed.

  \<^item> \<open>ante_host\<close> is what the decorator is built with: the keeper of x/evm with what it is built with, go-ethereum's
    transactions, the account, bank, staking and distribution keepers. \<open>'c\<close> is \<open>sdk.Coins\<close>, \<open>'base\<close> the base account.
  \<^item> \<open>ante_mode\<close> holds the flags and the minimum prices of the context. \<open>ante_tx\<close> is a Cosmos transaction: what the
    interfaces it implements return. Its messages are threaded through, because the steps write their sender.
  \<^item> The gas meter of the steps is infinite and the gas of the store is free, so that no step consumes gas.
  \<^item> Events are kept as their texts. Logging and telemetry are left out.
\<close>

section \<open>The transaction and what the decorator is built with\<close>

datatype ante_message = EthMsg MsgEthereumTx | OtherMsg string

record 'c fee_info =
  fi_Amount :: 'c
  fi_GasLimit :: int
  fi_Payer :: string
  fi_Granter :: string

record 'c ante_tx =
  tx_msgs :: "ante_message list"
  tx_basic :: "string option"
  tx_isGasTx :: bool
  tx_isFeeTx :: bool
  tx_isProto :: bool
  tx_Memo :: string
  tx_TimeoutHeight :: int
  tx_NonCriticalOptions :: nat
  tx_ExtensionOptions :: "string list"
  tx_SignerInfos :: nat
  tx_Fee :: "'c fee_info option"
  tx_Signatures :: nat

record ante_mode =
  md_CheckTx :: bool
  md_ReCheckTx :: bool
  md_simulate :: bool
  md_MinGasPrices :: "string \<Rightarrow> int"
  md_maxGasWanted :: int

record ('k, 't, 'base, 'c) ante_host =
  an_evm :: "('k, 't) evm_host"
  an_tx :: "'t eth_tx_fns"
  an_coins :: "'c coins_ops"
  an_Coin :: "string \<Rightarrow> int \<Rightarrow> 'c"
  an_Find :: "'c \<Rightarrow> string \<Rightarrow> int option"
  an_IsEqual :: "'c \<Rightarrow> 'c \<Rightarrow> bool"
  an_GetAccount :: "'k \<Rightarrow> address \<Rightarrow> ('base, 'c) account option"
  an_SetAccount :: "'k \<Rightarrow> ('base, 'c) account \<Rightarrow> 'k"
  an_NewAccountWithAddress :: "'k \<Rightarrow> address \<Rightarrow> ('base, 'c) account \<times> 'k"
  an_Address :: "'base \<Rightarrow> address"
  an_GetSequence :: "'base \<Rightarrow> int"
  an_SetSequence :: "int \<Rightarrow> 'base \<Rightarrow> string + 'base"
  an_DeductFees :: "address \<Rightarrow> 'c \<Rightarrow> 'k \<Rightarrow> string + 'k"
  an_BondDenom :: "'k \<Rightarrow> string"
  an_Delegations :: "'k \<Rightarrow> address \<Rightarrow> string list"
  an_WithdrawRewards :: "address \<Rightarrow> string \<Rightarrow> 'k \<Rightarrow> string + 'c \<times> 'k"
  an_SetFeemarket :: "fm_ctx \<Rightarrow> 'k \<Rightarrow> 'k"
  an_PriorityReduction :: int

definition err :: "string \<Rightarrow> go_err + 'a" where
  "err e = Inl (GoErr e)"

section \<open>Setting up, and the prices (01 to 03)\<close>

definition SetupContext :: "'c ante_tx \<Rightarrow> 'k chain_ctx \<Rightarrow> go_err + 'k chain_ctx" where
  "SetupContext tx ctx =
     (if \<not> tx_isGasTx tx then err ''invalid transaction type, expected GasTx''
      else Inr (ctx\<lparr>ctx_gasConsumed := 0, ctx_gasLimit := 2 ^ 64 - 1, ctx_gasUsed := 0\<rparr>))"

definition CheckMempoolFee :: "dec_ops \<Rightarrow> int \<Rightarrow> int \<Rightarrow> int \<Rightarrow> bool \<Rightarrow> go_err + unit" where
  "CheckMempoolFee D fee mempoolMinGasPrice gasLimit isLondon =
     (if isLondon then Inr ()
      else ensure (\<not> fee < dec_Mul D mempoolMinGasPrice gasLimit) (GoErr ''insufficient fee''))"

definition CheckGlobalFee :: "dec_ops \<Rightarrow> int \<Rightarrow> int option \<Rightarrow> int \<Rightarrow> go_err + unit" where
  "CheckGlobalFee D fee globalMinGasPrice gasLimit = (case globalMinGasPrice of
      None \<Rightarrow> Inl (GoPanicked nil_deref)
    | Some price \<Rightarrow>
        if price = 0 then Inr ()
        else ensure (\<not> fee < dec_Mul D price gasLimit) (GoErr ''provided fee < minimum global fee''))"

section \<open>The contents of the message and the transaction (04)\<close>

definition checkDisabledCreateCall :: "eth_fns \<Rightarrow> TxData \<Rightarrow> AccessControl \<Rightarrow> go_err + unit" where
  "checkDisabledCreateCall F txData permissions =
     (let to = GetTo F txData;
          blockCreate = (AccessType_of (ac_Create permissions) = AccessTypeRestricted);
          blockCall = (AccessType_of (ac_Call permissions) = AccessTypeRestricted)
      in if blockCreate \<and> to = None then err ''failed to create new contract''
         else if blockCall \<and> to \<noteq> None then err ''failed to perform a call''
         else Inr ())"

definition ValidateMsg :: "eth_fns \<Rightarrow> evm_Params \<Rightarrow> TxData \<Rightarrow> address option \<Rightarrow> go_err + unit" where
  "ValidateMsg F evmParams txData from =
     (if from \<noteq> None then err ''invalid from address; expected nil''
      else checkDisabledCreateCall F txData (cfg_AccessControl evmParams))"

definition ErrNoSignatures :: string where "ErrNoSignatures = ''no signatures supplied''"

definition ValidateTx :: "'c ante_tx \<Rightarrow> go_err + 'c fee_info" where
  "ValidateTx tx =
     (if tx_basic tx \<noteq> None \<and> tx_basic tx \<noteq> Some ErrNoSignatures then err ''tx basic validation failed''
      else if \<not> tx_isProto tx then err ''invalid tx type, didn't implement interface protoTxProvider''
      else if tx_Memo tx \<noteq> [] \<or> tx_TimeoutHeight tx \<noteq> 0 \<or> tx_NonCriticalOptions tx > 0
      then err ''for eth tx body Memo TimeoutHeight NonCriticalExtensionOptions should be empty''
      else if length (tx_ExtensionOptions tx) \<noteq> 1 then err ''for eth tx length of ExtensionOptions should be 1''
      else if tx_SignerInfos tx > 0 then err ''for eth tx AuthInfo SignerInfos should be empty''
      else case tx_Fee tx of
        None \<Rightarrow> Inl (GoPanicked nil_deref)
      | Some fee \<Rightarrow>
          if fi_Payer fee \<noteq> [] \<or> fi_Granter fee \<noteq> [] then err ''for eth tx AuthInfo Fee payer and granter should be empty''
          else if tx_Signatures tx > 0 then err ''for eth tx Signatures should be empty''
          else Inr fee)"

definition CheckTxFee :: "('k, 't, 'base, 'c) ante_host \<Rightarrow> 'c fee_info option \<Rightarrow> 'c \<Rightarrow> int \<Rightarrow> go_err + unit" where
  "CheckTxFee A txFeeInfo txFee txGasLimit = (case txFeeInfo of
      None \<Rightarrow> Inr ()
    | Some info \<Rightarrow>
        if \<not> an_IsEqual A (fi_Amount info) txFee then err ''invalid AuthInfo Fee Amount''
        else ensure (fi_GasLimit info = txGasLimit) (GoErr ''invalid AuthInfo Fee GasLimit''))"

section \<open>Signature, account and transfer (05 to 07)\<close>

definition SignatureVerification ::
  "('k, 't, 'base, 'c) ante_host \<Rightarrow> eth_ChainConfig \<Rightarrow> int \<Rightarrow> bool \<Rightarrow> MsgEthereumTx \<Rightarrow> go_err + MsgEthereumTx" where
  "SignatureVerification A cfg height allowUnprotectedTxs msg =
     (case AsTransaction (ho_eth (an_evm A)) (an_tx A) msg of
        None \<Rightarrow> Inl (GoPanicked nil_deref)
      | Some ethTx \<Rightarrow>
          if \<not> allowUnprotectedTxs \<and> \<not> tf_Protected (an_tx A) ethTx
          then err ''rejected unprotected Ethereum transaction''
          else case tf_Sender (an_tx A) cfg height ethTx of
            Inl e \<Rightarrow> err ''couldn't retrieve sender address from the ethereum transaction''
          | Inr sender \<Rightarrow> Inr (msg\<lparr>em_From := Hex (ho_eth (an_evm A)) sender\<rparr>))"

definition CheckSenderBalance :: "int \<Rightarrow> TxData \<Rightarrow> go_err + unit" where
  "CheckSenderBalance balance txData =
     rbind (lift_panic (Cost txData)) (\<lambda>cost.
     if cost < 0 then err ''tx cost is negative and invalid''
     else ensure (\<not> (balance < 0 \<or> balance < cost)) (GoErr ''sender balance < tx cost''))"

definition IsContract :: "'k keeper \<Rightarrow> RawAccount \<Rightarrow> bool" where
  "IsContract K acct \<longleftrightarrow> raw_CodeHash acct \<noteq> Some (emptyCodeHash K)"

definition VerifyAccountBalance ::
  "('k, 't, 'base, 'c) ante_host \<Rightarrow> RawAccount option \<Rightarrow> address \<Rightarrow> TxData \<Rightarrow> 'k chain_ctx \<Rightarrow> go_err + 'k chain_ctx" where
  "VerifyAccountBalance A account from txData ctx =
     (if case account of None \<Rightarrow> False | Some acct \<Rightarrow> IsContract (ho_keeper (an_evm A)) acct
      then err ''the sender is not EOA''
      else
        let ctx = (case account of
              None \<Rightarrow> let (acc, s) = an_NewAccountWithAddress A (ctx_store ctx) from in ctx\<lparr>ctx_store := an_SetAccount A s acc\<rparr>
            | Some _ \<Rightarrow> ctx);
            balance = (case account of None \<Rightarrow> Some 0 | Some acct \<Rightarrow> raw_Balance acct)
        in case balance of
             None \<Rightarrow> Inl (GoPanicked nil_deref)
           | Some b \<Rightarrow> rbind (lift_panic (NewIntFromBigInt b)) (\<lambda>b.
               rbind (CheckSenderBalance b txData) (\<lambda>_. Inr ctx)))"

definition ante_CanTransfer ::
  "('k, 't) evm_host \<Rightarrow> Message \<Rightarrow> int option \<Rightarrow> eth_ChainConfig \<Rightarrow> evm_Params \<Rightarrow> bool \<Rightarrow> 'k chain_ctx \<Rightarrow> go_err + unit" where
  "ante_CanTransfer H msg baseFee ethCfg params isLondon ctx =
     rbind (if isLondon then case baseFee of
          None \<Rightarrow> Inl (GoPanicked nil_deref)
        | Some b \<Rightarrow> ensure (\<not> m_GasFeeCap msg < b) (GoErr ''max fee per gas less than block base fee'')
      else Inr ()) (\<lambda>_.
     let cfg = \<lparr>cfg_Params = params, cfg_Ethereum = ethCfg, cfg_CoinBase = 0, cfg_BaseFee = baseFee\<rparr>;
         stateDB = NewStateDB (ctx_store ctx) (NewEmptyTxConfig (SetBytes (ctx_HeaderHash ctx)))
     in rbind (lift_panic (NewEVM_table H cfg ctx)) (\<lambda>_.
        ensure (\<not> (m_Value msg > 0 \<and> \<not> fst (CanTransfer (ho_keeper H) (m_From msg) (m_Value msg) stateDB)))
          (GoErr ''failed to transfer using the EVM block context transfer function'')))"

section \<open>Vesting accounts (08)\<close>

text \<open>A tracker is the total, nil when the first value was nil, and what can be spent.\<close>

type_synonym expenses = "address \<rightharpoonup> int option \<times> int"

definition UpdateAccountExpenses ::
  "('k, 't, 'base, 'c) ante_host \<Rightarrow> expenses \<Rightarrow> ('base, 'c) ClawbackVestingAccount \<Rightarrow> int option \<Rightarrow> string \<Rightarrow> 'k chain_ctx
     \<Rightarrow> go_err + (int option \<times> int) \<times> expenses" where
  "UpdateAccountExpenses A accountExpenses account addedExpense denom ctx =
     (let address = an_Address A (BaseAccount account) in
      case accountExpenses address of
        Some (spent, spendable) \<Rightarrow>
          (case (spent, addedExpense) of
             (Some t, Some x) \<Rightarrow> Inr ((Some (t + x), spendable), accountExpenses(address \<mapsto> (Some (t + x), spendable)))
           | _ \<Rightarrow> Inl (GoPanicked nil_deref))
      | None \<Rightarrow>
          let balance = ho_GetBalance (an_evm A) (ctx_store ctx) address denom in
          if balance = 0 then err ''account has no balance to execute transaction''
          else rbind (lift_panic (LockedCoins (an_coins A) account (ctx_Time ctx))) (\<lambda>locked.
            let lockedBalance = (case an_Find A locked denom of None \<Rightarrow> 0 | Some l \<Rightarrow> l);
                spendable = (if balance - lockedBalance < 0 then 0 else balance - lockedBalance);
                expenses = (addedExpense, spendable)
            in Inr (expenses, accountExpenses(address \<mapsto> expenses))))"

definition CheckVesting ::
  "('k, 't, 'base, 'c) ante_host \<Rightarrow> ('base, 'c) account \<Rightarrow> expenses \<Rightarrow> int option \<Rightarrow> string \<Rightarrow> 'k chain_ctx
     \<Rightarrow> go_err + expenses" where
  "CheckVesting A account accountExpenses addedExpense denom ctx = (case account of
      ClawbackAccount clawbackAccount \<Rightarrow>
        rbind (UpdateAccountExpenses A accountExpenses clawbackAccount addedExpense denom ctx) (\<lambda>((spent, spendable), exps).
        case spent of None \<Rightarrow> Inl (GoPanicked nil_deref)
        | Some t \<Rightarrow> rbind (ensure (\<not> t > spendable)
            (GoErr ''clawback vesting account has insufficient unlocked tokens to execute transaction'')) (\<lambda>_. Inr exps))
    | _ \<Rightarrow> Inr accountExpenses)"

section \<open>Fees (09)\<close>

text \<open>The delegations are visited in the order of the iterator, until enough was withdrawn or one fails.\<close>

fun withdraw_rewards ::
  "('k, 't, 'base, 'c) ante_host \<Rightarrow> address \<Rightarrow> string \<Rightarrow> int \<Rightarrow> string list \<Rightarrow> 'c \<Rightarrow> 'k \<Rightarrow> string + 'c \<times> 'k" where
  "withdraw_rewards A addr denom amount [] rewards s = Inr (rewards, s)"
| "withdraw_rewards A addr denom amount (v # vs) rewards s =
     rbind (an_WithdrawRewards A addr v s) (\<lambda>(reward, s).
     let rewards = coins_Add (an_coins A) rewards reward in
     if coins_AmountOf (an_coins A) rewards denom \<ge> amount then Inr (rewards, s)
     else withdraw_rewards A addr denom amount vs rewards s)"

definition ClaimSufficientStakingRewards ::
  "('k, 't, 'base, 'c) ante_host \<Rightarrow> address \<Rightarrow> string \<times> int \<Rightarrow> 'k \<Rightarrow> go_err + 'k" where
  "ClaimSufficientStakingRewards A addr amount s = (case amount of (denom, amt) \<Rightarrow>
     (case withdraw_rewards A addr denom amt (an_Delegations A s addr) (coins_NewCoins (an_coins A)) s of
        Inl e \<Rightarrow> err ''error while withdrawing delegation rewards''
      | Inr (rewards, s1) \<Rightarrow>
          if coins_AmountOf (an_coins A) rewards denom < amt
          then err ''insufficient staking rewards to cover transaction fees'' else Inr s1))"

definition ClaimStakingRewardsIfNecessary ::
  "('k, 't, 'base, 'c) ante_host \<Rightarrow> address \<Rightarrow> 'c \<Rightarrow> 'k \<Rightarrow> go_err + 'k" where
  "ClaimStakingRewardsIfNecessary A addr amount s =
     (let stakingDenom = an_BondDenom A s in
      case an_Find A amount stakingDenom of
        None \<Rightarrow> err ''wrong fee denomination''
      | Some amountInStakingDenom \<Rightarrow>
          let balance = ho_GetBalance (an_evm A) s addr stakingDenom in
          if balance < 0 then err ''balance is negative''
          else if balance \<ge> amountInStakingDenom then Inr s
          else ClaimSufficientStakingRewards A addr (stakingDenom, amountInStakingDenom - balance) s)"

definition DeductTxCostsFromUserBalance ::
  "('k, 't, 'base, 'c) ante_host \<Rightarrow> 'c \<Rightarrow> address \<Rightarrow> 'k \<Rightarrow> go_err + 'k" where
  "DeductTxCostsFromUserBalance A fees from s = (case an_GetAccount A s from of
      None \<Rightarrow> err ''account not found for sender''
    | Some _ \<Rightarrow> (case an_DeductFees A from fees s of
        Inl e \<Rightarrow> err ''failed to deduct full gas cost from the user balance'' | Inr s1 \<Rightarrow> Inr s1))"

definition deductFees :: "('k, 't, 'base, 'c) ante_host \<Rightarrow> 'c \<Rightarrow> address \<Rightarrow> 'k \<Rightarrow> go_err + 'k" where
  "deductFees A fees feePayer s =
     (if coins_IsZero (an_coins A) fees then Inr s
      else rbind (ClaimStakingRewardsIfNecessary A feePayer fees s) (\<lambda>s.
        DeductTxCostsFromUserBalance A fees feePayer s))"

definition VerifyFee ::
  "('k, 't, 'base, 'c) ante_host \<Rightarrow> TxData \<Rightarrow> string \<Rightarrow> int option \<Rightarrow> bool \<Rightarrow> bool \<Rightarrow> bool \<Rightarrow> go_err + 'c" where
  "VerifyFee A txData denom baseFee homestead istanbul isCheckTx =
     (let F = ho_eth (an_evm A);
          isContractCreation = (GetTo F txData = None);
          gasLimit = GetGas txData;
          accessList = (case GetAccessList F txData of None \<Rightarrow> [] | Some al \<Rightarrow> al)
      in case ho_IntrinsicGas (an_evm A) (tx_GetData txData) accessList isContractCreation homestead istanbul of
           Inl e \<Rightarrow> err ''failed to retrieve intrinsic gas''
         | Inr intrinsicGas \<Rightarrow>
             if isCheckTx \<and> gasLimit < intrinsicGas then err ''gas limit too low''
             else rbind (case baseFee of None \<Rightarrow> Inr ()
                 | Some b \<Rightarrow> (case GetGasFeeCap txData of
                     None \<Rightarrow> Inl (GoPanicked nil_deref)
                   | Some cap \<Rightarrow> ensure (\<not> cap < b) (GoErr ''the tx gasfeecap is lower than the tx baseFee''))) (\<lambda>_.
               rbind (lift_panic (EffectiveFee txData baseFee)) (\<lambda>feeAmt.
               if feeAmt = 0 then Inr (coins_NewCoins (an_coins A))
               else rbind (lift_panic (NewIntFromBigInt feeAmt)) (\<lambda>feeAmt. Inr (an_Coin A denom feeAmt)))))"

definition UpdateCumulativeGasWanted :: "ante_mode \<Rightarrow> int \<Rightarrow> int \<Rightarrow> int \<Rightarrow> int" where
  "UpdateCumulativeGasWanted md msgGasWanted maxTxGasWanted cumulativeGasWanted =
     (if md_CheckTx md \<and> maxTxGasWanted \<noteq> 0 then
        if msgGasWanted > maxTxGasWanted then u64 (cumulativeGasWanted + maxTxGasWanted)
        else u64 (cumulativeGasWanted + msgGasWanted)
      else u64 (cumulativeGasWanted + msgGasWanted))"

definition GetMsgPriority :: "int \<Rightarrow> TxData \<Rightarrow> int \<Rightarrow> int option \<Rightarrow> go_panic + int" where
  "GetMsgPriority reduction txData minPriority baseFee =
     rbind (GetTxPriority reduction txData baseFee) (\<lambda>priority.
       Inr (if priority < minPriority then priority else minPriority))"

definition UpdateCumulativeTxFee ::
  "('k, 't, 'base, 'c) ante_host \<Rightarrow> 'c \<Rightarrow> int \<Rightarrow> string \<Rightarrow> go_panic + 'c" where
  "UpdateCumulativeTxFee A cumulativeTxFee msgFee denom =
     rbind (NewIntFromBigInt msgFee) (\<lambda>fee. Inr (coins_AddCoin (an_coins A) cumulativeTxFee (denom, fee)))"

text \<open>The new gas meter counts from zero, and its limit is the gas wanted.\<close>

definition CheckBlockGasLimit :: "int \<Rightarrow> int \<Rightarrow> 'k chain_ctx \<Rightarrow> go_err + int \<times> 'k chain_ctx" where
  "CheckBlockGasLimit gasWanted minPriority ctx =
     (if gasWanted > BlockGasLimit ctx then err ''tx gas exceeds block gas limit''
      else Inr (minPriority, ctx\<lparr>ctx_gasConsumed := 0, ctx_gasLimit := gasWanted\<rparr>))"

section \<open>Nonce, gas wanted, events (10 to 12)\<close>

fun account_base :: "('base, 'c) account \<Rightarrow> 'base" where
  "account_base (EthAccount b h) = b"
| "account_base (ClawbackAccount va) = BaseAccount va"
| "account_base (OtherAccount b) = b"

fun with_base :: "('base, 'c) account \<Rightarrow> 'base \<Rightarrow> ('base, 'c) account" where
  "with_base (EthAccount _ h) b = EthAccount b h"
| "with_base (ClawbackAccount va) b = ClawbackAccount (va\<lparr>BaseAccount := b\<rparr>)"
| "with_base (OtherAccount _) b = OtherAccount b"

definition IncrementNonce ::
  "('k, 't, 'base, 'c) ante_host \<Rightarrow> ('base, 'c) account \<Rightarrow> int \<Rightarrow> 'k \<Rightarrow> go_err + 'k" where
  "IncrementNonce A account txNonce s =
     (let nonce = an_GetSequence A (account_base account) in
      if txNonce \<noteq> nonce then err ''invalid nonce''
      else case an_SetSequence A (u64 (nonce + 1)) (account_base account) of
        Inl e \<Rightarrow> err ''failed to set sequence''
      | Inr b \<Rightarrow> Inr (an_SetAccount A s (with_base account b)))"

definition fee_gas :: "'c ante_tx \<Rightarrow> int" where
  "fee_gas tx = (case tx_Fee tx of None \<Rightarrow> 0 | Some fee \<Rightarrow> fi_GasLimit fee)"

definition CheckGasWanted ::
  "('k, 't, 'base, 'c) ante_host \<Rightarrow> 'c ante_tx \<Rightarrow> bool \<Rightarrow> 'k chain_ctx \<Rightarrow> go_err + 'k chain_ctx" where
  "CheckGasWanted A tx isLondon ctx =
     (if \<not> isLondon then Inr ctx
      else if \<not> tx_isFeeTx tx then Inr ctx
      else if fee_gas tx > BlockGasLimit ctx then err ''tx gas exceeds block gas limit''
      else let fm = ho_feemarket (an_evm A) (ctx_store ctx) in
        if \<not> GetBaseFeeEnabled fm then Inr ctx
        else Inr (ctx\<lparr>ctx_store := an_SetFeemarket A (snd (AddTransientGasWanted (fee_gas tx) fm)) (ctx_store ctx)\<rparr>))"

datatype 'c ante_event = FeeEvent 'c | TxHashEvent string int

section \<open>The whole decorator\<close>

record 'c DecoratorUtils =
  du_EvmParams :: evm_Params
  du_EthConfig :: eth_ChainConfig
  du_Rules :: rules
  du_BaseFee :: "int option"
  du_EvmDenom :: string
  du_MempoolMinGasPrice :: int
  du_GlobalMinGasPrice :: "int option"
  du_BlockTxIndex :: int
  du_TxGasLimit :: int
  du_GasWanted :: int
  du_MinPriority :: int
  du_TxFee :: 'c

definition NewMonoDecoratorUtils ::
  "('k, 't, 'base, 'c) ante_host \<Rightarrow> ante_mode \<Rightarrow> 'k chain_ctx \<Rightarrow> go_err + 'c DecoratorUtils" where
  "NewMonoDecoratorUtils A md ctx =
     (let H = an_evm A;
          evmParams = evm_GetParams ctx;
          ethCfg = EthereumConfig (ho_eth H) (cfg_ChainConfig evmParams) (ho_chainID H);
          rules = evm_rules H ethCfg True ctx;
          baseFee = evm_GetBaseFee H ethCfg ctx;
          feeMarketParams = fm_GetParams (ho_feemarket H (ctx_store ctx))
      in if IsLondon rules \<and> baseFee = None then err ''base fee is supported but evm block context value is nil''
         else Inr \<lparr>du_EvmParams = evmParams, du_EthConfig = ethCfg, du_Rules = rules, du_BaseFee = baseFee,
           du_EvmDenom = EvmDenom evmParams, du_MempoolMinGasPrice = md_MinGasPrices md (EvmDenom evmParams),
           du_GlobalMinGasPrice = MinGasPrice feeMarketParams, du_BlockTxIndex = ctx_txIndex ctx, du_TxGasLimit = 0,
           du_GasWanted = 0, du_MinPriority = 2 ^ 63 - 1, du_TxFee = coins_NewCoins (an_coins A)\<rparr>)"

record ('k, 'c) ante_state =
  as_ctx :: "'k chain_ctx"
  as_utils :: "'c DecoratorUtils"
  as_expenses :: expenses
  as_events :: "'c ante_event list"
  as_msgs :: "ante_message list"

definition UnpackEthMsg :: "eth_fns \<Rightarrow> ante_message \<Rightarrow> go_err + MsgEthereumTx \<times> TxData \<times> address option" where
  "UnpackEthMsg F msg = (case msg of
      OtherMsg url \<Rightarrow> err ''invalid message type''
    | EthMsg ethMsg \<Rightarrow> (case UnpackTxData (em_Data ethMsg) of
        Inl e \<Rightarrow> err ''failed to unpack tx data any for tx''
      | Inr txData \<Rightarrow> Inr (ethMsg, txData, em_GetFrom F ethMsg)))"

text \<open>Steps 2 to 5 read only; they give the message with its sender.\<close>

definition ante_admit ::
  "('k, 't, 'base, 'c) ante_host \<Rightarrow> ante_mode \<Rightarrow> 'c DecoratorUtils \<Rightarrow> int \<Rightarrow> ante_message \<Rightarrow> go_err + MsgEthereumTx \<times> TxData" where
  "ante_admit A md U height msg =
     (let H = an_evm A; F = ho_eth H in
      rbind (UnpackEthMsg F msg) (\<lambda>(ethMsg, txData, from).
      rbind (lift_panic (Fee txData)) (\<lambda>feeAmt.
      let gasLimit = GetGas txData * dec_one in
      rbind (if md_CheckTx md \<and> \<not> md_simulate md
             then CheckMempoolFee (ho_dec H) (feeAmt * dec_one) (du_MempoolMinGasPrice U) gasLimit (IsLondon (du_Rules U))
             else Inr ()) (\<lambda>_.
      rbind (if TxType txData = DynamicFeeTxType \<and> du_BaseFee U \<noteq> None
             then lift_panic (EffectiveFee txData (du_BaseFee U)) else Inr feeAmt) (\<lambda>feeAmt.
      rbind (CheckGlobalFee (ho_dec H) (feeAmt * dec_one) (du_GlobalMinGasPrice U) gasLimit) (\<lambda>_.
      rbind (ValidateMsg F (du_EvmParams U) txData from) (\<lambda>_.
      rbind (SignatureVerification A (du_EthConfig U) height (AllowUnprotectedTxs (du_EvmParams U)) ethMsg) (\<lambda>ethMsg.
      Inr (ethMsg, txData)))))))))"

text \<open>Steps 6 to 8, which give the account of the sender.\<close>

definition ante_account ::
  "('k, 't, 'base, 'c) ante_host \<Rightarrow> 'c DecoratorUtils \<Rightarrow> address \<Rightarrow> MsgEthereumTx \<Rightarrow> TxData \<Rightarrow> expenses \<Rightarrow> 'k chain_ctx
     \<Rightarrow> go_err + ('base, 'c) account \<times> expenses \<times> 'k chain_ctx" where
  "ante_account A U from ethMsg txData exps ctx =
     (let H = an_evm A in
      rbind (VerifyAccountBalance A (k_GetAccount (ho_keeper H) (ctx_store ctx) from) from txData ctx) (\<lambda>ctx.
      rbind (case AsTransaction (ho_eth H) (an_tx A) ethMsg of
          None \<Rightarrow> Inl (GoPanicked nil_deref)
        | Some tx \<Rightarrow> (case ho_AsMessage H (du_EthConfig U) (ctx_BlockHeight ctx) (du_BaseFee U) tx of
            Inl e \<Rightarrow> err ''failed to create an ethereum core.Message'' | Inr m \<Rightarrow> Inr m)) (\<lambda>coreMsg.
      rbind (ante_CanTransfer H coreMsg (du_BaseFee U) (du_EthConfig U) (du_EvmParams U) (IsLondon (du_Rules U)) ctx) (\<lambda>_.
      case an_GetAccount A (ctx_store ctx) from of
        None \<Rightarrow> err ''account does not exist''
      | Some acc \<Rightarrow>
          rbind (CheckVesting A acc exps (GetValue txData) (du_EvmDenom U) ctx) (\<lambda>exps. Inr (acc, exps, ctx))))))"

text \<open>Step 9: the fee is taken, and the figures of the whole transaction grow.\<close>

definition ante_pay ::
  "('k, 't, 'base, 'c) ante_host \<Rightarrow> ante_mode \<Rightarrow> 'c DecoratorUtils \<Rightarrow> address \<Rightarrow> TxData \<Rightarrow> 'k
     \<Rightarrow> go_err + 'c \<times> 'c DecoratorUtils \<times> 'k" where
  "ante_pay A md U from txData s =
     rbind (VerifyFee A txData (du_EvmDenom U) (du_BaseFee U) (IsHomestead (du_Rules U)) (IsIstanbul (du_Rules U)) (md_CheckTx md)) (\<lambda>msgFees.
     rbind (deductFees A msgFees from s) (\<lambda>s.
     let gasWanted = UpdateCumulativeGasWanted md (GetGas txData) (md_maxGasWanted md) (du_GasWanted U) in
     rbind (lift_panic (GetMsgPriority (an_PriorityReduction A) txData (du_MinPriority U) (du_BaseFee U))) (\<lambda>minPriority.
     rbind (lift_panic (Fee txData)) (\<lambda>fee.
     rbind (lift_panic (UpdateCumulativeTxFee A (du_TxFee U) fee (du_EvmDenom U))) (\<lambda>txFee.
     Inr (msgFees, U\<lparr>du_GasWanted := gasWanted, du_MinPriority := minPriority, du_TxFee := txFee,
       du_TxGasLimit := u64 (du_TxGasLimit U + GetGas txData)\<rparr>, s))))))"

definition ante_message_step ::
  "('k, 't, 'base, 'c) ante_host \<Rightarrow> ante_mode \<Rightarrow> 'c ante_tx \<Rightarrow> int \<Rightarrow> ante_message \<Rightarrow> ('k, 'c) ante_state
     \<Rightarrow> go_err + ('k, 'c) ante_state" where
  "ante_message_step A md tx i msg st =
     (let U = as_utils st; ctx = as_ctx st in
      rbind (ante_admit A md U (ctx_BlockHeight ctx) msg) (\<lambda>(ethMsg, txData).
      let from = HexToAddress (ho_eth (an_evm A)) (em_From ethMsg) in
      rbind (ante_account A U from ethMsg txData (as_expenses st) ctx) (\<lambda>(acc, exps, ctx).
      rbind (ante_pay A md U from txData (ctx_store ctx)) (\<lambda>(msgFees, U, s).
      rbind (IncrementNonce A acc (tx_GetNonce txData) s) (\<lambda>s.
      rbind (CheckGasWanted A tx (IsLondon (du_Rules U)) (ctx\<lparr>ctx_store := s\<rparr>)) (\<lambda>ctx.
      Inr \<lparr>as_ctx = ctx, as_utils = U, as_expenses = exps,
        as_events = as_events st @ [FeeEvent msgFees, TxHashEvent (em_Hash ethMsg) (u64 (du_BlockTxIndex U + i))],
        as_msgs = as_msgs st @ [EthMsg ethMsg]\<rparr>))))))"

fun ante_messages ::
  "('k, 't, 'base, 'c) ante_host \<Rightarrow> ante_mode \<Rightarrow> 'c ante_tx \<Rightarrow> int \<Rightarrow> ante_message list \<Rightarrow> ('k, 'c) ante_state
     \<Rightarrow> go_err + ('k, 'c) ante_state" where
  "ante_messages A md tx i [] st = Inr st"
| "ante_messages A md tx i (msg # msgs) st = rbind (ante_message_step A md tx i msg st) (ante_messages A md tx (i + 1) msgs)"

text \<open>What goes on to the messages: the context, its priority, and the messages with their senders.\<close>

definition AnteHandle ::
  "('k, 't, 'base, 'c) ante_host \<Rightarrow> ante_mode \<Rightarrow> 'c ante_tx \<Rightarrow> 'k chain_ctx
     \<Rightarrow> go_err + (int \<times> 'k chain_ctx) \<times> 'c ante_event list \<times> ante_message list" where
  "AnteHandle A md tx ctx =
     rbind (if md_ReCheckTx md then Inr None else rbind (ValidateTx tx) (\<lambda>fee. Inr (Some fee))) (\<lambda>txFeeInfo.
     rbind (SetupContext tx ctx) (\<lambda>ctx.
     rbind (NewMonoDecoratorUtils A md ctx) (\<lambda>U.
     rbind (ante_messages A md tx 0 (tx_msgs tx)
       \<lparr>as_ctx = ctx, as_utils = U, as_expenses = Map.empty, as_events = [], as_msgs = []\<rparr>) (\<lambda>st.
     rbind (CheckTxFee A txFeeInfo (du_TxFee (as_utils st)) (du_TxGasLimit (as_utils st))) (\<lambda>_.
     rbind (CheckBlockGasLimit (du_GasWanted (as_utils st)) (du_MinPriority (as_utils st)) (as_ctx st)) (\<lambda>r.
     Inr (r, as_events st, as_msgs st)))))))"

end
