(* ===== verification/AntePayment.thy ===== *)
theory AntePayment
  imports EthAnte
begin

text \<open>
  What a transaction has paid when the decorator lets it through, and what it costs in the end when its message has
  run: the steps of EthAnte together with the settlement of StateTransition.

  \<^item> \<open>ante_laws\<close> is what is relied on of the keepers of the SDK: a fee moves from the payer to the fee collector,
    writing an account or the gas wanted moves no coins.
  \<^item> \<open>keeper_balance\<close> says that the keeper of x/evm shows the balance of the bank.
\<close>

section \<open>What is relied on\<close>

definition ante_laws :: "('k, 't, 'base, 'c) ante_host \<Rightarrow> address \<Rightarrow> bool" where
  "ante_laws A collector \<longleftrightarrow> coins_laws (an_coins A) \<and>
     (\<forall>d a d'. 0 < a \<longrightarrow> an_Find A (an_Coin A d a) d' = (if d' = d then Some a else None)) \<and>
     (\<forall>d a d'. 0 \<le> a \<longrightarrow> coins_AmountOf (an_coins A) (an_Coin A d a) d' = (if d' = d then a else 0)) \<and>
     (\<forall>s acc. ho_GetBalance (an_evm A) (an_SetAccount A s acc) = ho_GetBalance (an_evm A) s \<and>
        ho_feemarket (an_evm A) (an_SetAccount A s acc) = ho_feemarket (an_evm A) s) \<and>
     (\<forall>s a. ho_GetBalance (an_evm A) (snd (an_NewAccountWithAddress A s a)) = ho_GetBalance (an_evm A) s \<and>
        ho_feemarket (an_evm A) (snd (an_NewAccountWithAddress A s a)) = ho_feemarket (an_evm A) s) \<and>
     (\<forall>s fm. ho_GetBalance (an_evm A) (an_SetFeemarket A fm s) = ho_GetBalance (an_evm A) s \<and>
        ho_feemarket (an_evm A) (an_SetFeemarket A fm s) = fm) \<and>
     (\<forall>a fees s s1. an_DeductFees A a fees s = Inr s1 \<longrightarrow> ho_feemarket (an_evm A) s1 = ho_feemarket (an_evm A) s \<and>
        (\<forall>x d. x \<noteq> collector \<longrightarrow> ho_GetBalance (an_evm A) s1 x d
           = ho_GetBalance (an_evm A) s x d - (if x = a then coins_AmountOf (an_coins A) fees d else 0)))"

definition keeper_balance :: "('k, 't) evm_host \<Rightarrow> string \<Rightarrow> bool" where
  "keeper_balance H denom \<longleftrightarrow> (\<forall>s a acct. k_GetAccount (ho_keeper H) s a = Some acct \<longrightarrow>
     raw_Balance acct = Some (ho_GetBalance H s a denom)) \<and> (\<forall>s a. 0 \<le> ho_GetBalance H s a denom)"

lemma ante_lawsD:
  assumes "ante_laws A collector"
  shows "coins_laws (an_coins A)" "0 < a \<Longrightarrow> an_Find A (an_Coin A d a) d' = (if d' = d then Some a else None)"
    "0 \<le> a \<Longrightarrow> coins_AmountOf (an_coins A) (an_Coin A d a) d' = (if d' = d then a else 0)"
    "ho_GetBalance (an_evm A) (an_SetAccount A s acc) = ho_GetBalance (an_evm A) s"
    "ho_feemarket (an_evm A) (an_SetAccount A s acc) = ho_feemarket (an_evm A) s"
    "ho_GetBalance (an_evm A) (snd (an_NewAccountWithAddress A s x)) = ho_GetBalance (an_evm A) s"
    "ho_feemarket (an_evm A) (snd (an_NewAccountWithAddress A s x)) = ho_feemarket (an_evm A) s"
    "ho_GetBalance (an_evm A) (an_SetFeemarket A fm s) = ho_GetBalance (an_evm A) s"
    "ho_feemarket (an_evm A) (an_SetFeemarket A fm s) = fm"
    "an_DeductFees A x fees s = Inr s1 \<Longrightarrow> ho_feemarket (an_evm A) s1 = ho_feemarket (an_evm A) s"
    "an_DeductFees A x fees s = Inr s1 \<Longrightarrow> y \<noteq> collector \<Longrightarrow> ho_GetBalance (an_evm A) s1 y d
       = ho_GetBalance (an_evm A) s y d - (if y = x then coins_AmountOf (an_coins A) fees d else 0)"
  using assms unfolding ante_laws_def by auto

section \<open>The steps\<close>

lemma ante_err [simp]: "err e \<noteq> Inr x"
  by (simp add: err_def)

lemma VerifyAccountBalance_effect:
  assumes "ante_laws A collector" and "keeper_balance (an_evm A) denom"
    and "VerifyAccountBalance A (k_GetAccount (ho_keeper (an_evm A)) (ctx_store ctx) from) from d ctx = Inr ctx1"
  shows "\<exists>s. ctx1 = ctx\<lparr>ctx_store := s\<rparr> \<and> ho_GetBalance (an_evm A) s = ho_GetBalance (an_evm A) (ctx_store ctx) \<and>
    ho_feemarket (an_evm A) s = ho_feemarket (an_evm A) (ctx_store ctx) \<and>
    (\<exists>cost. Cost d = Inr cost \<and> 0 \<le> cost \<and> cost \<le> ho_GetBalance (an_evm A) s from denom)"
proof -
  let ?H = "an_evm A"
  note laws = ante_lawsD [OF assms(1)]
  show ?thesis
  proof (cases "k_GetAccount (ho_keeper ?H) (ctx_store ctx) from")
    case None
    obtain acc s where new: "an_NewAccountWithAddress A (ctx_store ctx) from = (acc, s)" by fastforce
    have "ho_GetBalance ?H (an_SetAccount A s acc) = ho_GetBalance ?H (ctx_store ctx)"
      "ho_feemarket ?H (an_SetAccount A s acc) = ho_feemarket ?H (ctx_store ctx)"
      using laws(4,5) laws(6,7) [of "ctx_store ctx" "from"] new by simp_all
    moreover have "0 \<le> ho_GetBalance ?H (ctx_store ctx) from denom" using assms(2) by (simp add: keeper_balance_def)
    ultimately show ?thesis
      using assms(3) None new by (auto simp: VerifyAccountBalance_def CheckSenderBalance_def NewIntFromBigInt_def split: if_splits)
  next
    case (Some acct)
    then have "raw_Balance acct = Some (ho_GetBalance ?H (ctx_store ctx) from denom)"
      using assms(2) by (simp add: keeper_balance_def)
    with Some assms(3) show ?thesis
      by (auto simp: VerifyAccountBalance_def CheckSenderBalance_def NewIntFromBigInt_def split: if_splits
          intro!: exI [of _ "ctx_store ctx1"])
  qed
qed

lemma ante_account_effect:
  assumes "ante_laws A collector" and "keeper_balance (an_evm A) denom"
    and "ante_account A U from m d exps ctx = Inr (acc, exps1, ctx1)"
  shows "\<exists>s. ctx1 = ctx\<lparr>ctx_store := s\<rparr> \<and> ho_GetBalance (an_evm A) s = ho_GetBalance (an_evm A) (ctx_store ctx) \<and>
    ho_feemarket (an_evm A) s = ho_feemarket (an_evm A) (ctx_store ctx) \<and> an_GetAccount A s from = Some acc \<and>
    (\<exists>cost. Cost d = Inr cost \<and> 0 \<le> cost \<and> cost \<le> ho_GetBalance (an_evm A) s from denom)"
proof -
  obtain ctx2 where v: "VerifyAccountBalance A (k_GetAccount (ho_keeper (an_evm A)) (ctx_store ctx) from) from d ctx = Inr ctx2"
    and acc: "an_GetAccount A (ctx_store ctx2) from = Some acc" "ctx1 = ctx2"
    using assms(3) by (auto simp: ante_account_def Let_def split: option.splits)
  from VerifyAccountBalance_effect [OF assms(1,2) v] acc show ?thesis by auto
qed

text \<open>A balance that covers the cost covers the fee, so no rewards are withdrawn.\<close>

lemma ante_pay_effect:
  assumes "ante_laws A collector" and "tx_Validate F d = Inr u" and "du_BaseFee U = Some b" and "0 \<le> b" and "in_u64 (GetGas d)"
    and "Cost d = Inr cost" and "cost \<le> ho_GetBalance (an_evm A) s from (du_EvmDenom U)"
    and "ante_pay A md U from d s = Inr (fees, U1, s1)"
  shows "ho_feemarket (an_evm A) s1 = ho_feemarket (an_evm A) s \<and>
    (\<forall>x. x \<noteq> collector \<longrightarrow> ho_GetBalance (an_evm A) s1 x (du_EvmDenom U) =
      ho_GetBalance (an_evm A) s x (du_EvmDenom U) - (if x = from then price_per_gas d b * GetGas d else 0)) \<and>
    du_BaseFee U1 = du_BaseFee U \<and> du_EvmDenom U1 = du_EvmDenom U \<and> du_Rules U1 = du_Rules U"
proof -
  note laws = ante_lawsD [OF assms(1)]
  let ?eff = "price_per_gas d b * GetGas d"
  obtain fee where eff: "EffectiveFee d (Some b) = Inr ?eff" "0 \<le> ?eff" "?eff \<le> fee" "fee \<le> cost"
    using validated_fees [OF assms(2,4,5)] assms(6) by auto
  from assms(8) have fees: "deductFees A fees from s = Inr s1" "du_BaseFee U1 = du_BaseFee U"
    "du_EvmDenom U1 = du_EvmDenom U" "du_Rules U1 = du_Rules U"
    "fees = (if ?eff = 0 then coins_NewCoins (an_coins A) else an_Coin A (du_EvmDenom U) ?eff)"
    by (auto simp: ante_pay_def VerifyFee_def Let_def assms(3) eff(1) NewIntFromBigInt_def split: sum.splits if_splits option.splits)
  show ?thesis
  proof (cases "?eff = 0")
    case True
    then have "coins_IsZero (an_coins A) fees" using fees(5) laws(1) by (simp add: coins_laws_def)
    with fees True show ?thesis by (simp add: deductFees_def)
  next
    case False
    then have amount: "coins_AmountOf (an_coins A) fees x = (if x = du_EvmDenom U then ?eff else 0)" for x
      using fees(5) laws(3) eff(2) by auto
    then have "\<not> coins_IsZero (an_coins A) fees" using laws(1) False by (auto simp: coins_laws_def)
    then obtain s2 where s2: "ClaimStakingRewardsIfNecessary A from fees s = Inr s2"
      "DeductTxCostsFromUserBalance A fees from s2 = Inr s1" using fees(1) by (auto simp: deductFees_def)
    have find: "an_Find A (an_Coin A d' ?eff) d'' = (if d'' = d' then Some ?eff else None)" for d' d''
      by (rule laws(2)) (use eff(2) False in linarith)
    have "s2 = s" using s2(1) fees(5) False find assms(7) eff
      by (auto simp: ClaimStakingRewardsIfNecessary_def Let_def split: option.splits if_splits)
    moreover have "an_DeductFees A from fees s2 = Inr s1" using s2(2)
      by (auto simp: DeductTxCostsFromUserBalance_def split: option.splits sum.splits)
    ultimately show ?thesis using laws(10) [of "from" fees s s1] laws(11) [of "from" fees s s1] amount fees(2-4) by auto
  qed
qed

section \<open>One message, and all of them\<close>

definition valid_message :: "eth_fns \<Rightarrow> ante_message \<Rightarrow> bool" where
  "valid_message F msg \<longleftrightarrow> (case msg of OtherMsg _ \<Rightarrow> True
     | EthMsg m \<Rightarrow> (case em_Data m of None \<Rightarrow> True | Some d \<Rightarrow> tx_Validate F d = Inr () \<and> in_u64 (GetGas d)))"

text \<open>What a message with its sender written in charges an address.\<close>

definition message_charge :: "eth_fns \<Rightarrow> int \<Rightarrow> address \<Rightarrow> ante_message \<Rightarrow> int" where
  "message_charge F b x msg = (case msg of OtherMsg _ \<Rightarrow> 0
     | EthMsg m \<Rightarrow> (case em_Data m of None \<Rightarrow> 0
        | Some d \<Rightarrow> if x = HexToAddress F (em_From m) then price_per_gas d b * GetGas d else 0))"

text \<open>The fee market after a message: its gas wanted grew by that of the whole transaction.\<close>

definition wanted_after :: "'c ante_tx \<Rightarrow> bool \<Rightarrow> fm_ctx \<Rightarrow> fm_ctx" where
  "wanted_after tx isLondon fm = (if isLondon \<and> tx_isFeeTx tx \<and> GetBaseFeeEnabled fm
     then snd (AddTransientGasWanted (fee_gas tx) fm) else fm)"

lemma CheckGasWanted_effect:
  assumes "ante_laws A collector" and "CheckGasWanted A tx isLondon ctx = Inr ctx1"
  shows "\<exists>s. ctx1 = ctx\<lparr>ctx_store := s\<rparr> \<and> ho_GetBalance (an_evm A) s = ho_GetBalance (an_evm A) (ctx_store ctx) \<and>
    ho_feemarket (an_evm A) s = wanted_after tx isLondon (ho_feemarket (an_evm A) (ctx_store ctx))"
proof (cases "isLondon \<and> tx_isFeeTx tx \<and> GetBaseFeeEnabled (ho_feemarket (an_evm A) (ctx_store ctx))")
  case True
  with assms(2) ante_lawsD(8,9) [OF assms(1)] show ?thesis
    by (auto simp: CheckGasWanted_def wanted_after_def Let_def split: if_splits)
next
  case False
  then have "ctx1 = ctx" using assms(2) by (auto simp: CheckGasWanted_def Let_def split: if_splits)
  with False show ?thesis by (intro exI [of _ "ctx_store ctx"]) (auto simp: wanted_after_def)
qed

lemma IncrementNonce_effect:
  assumes "ante_laws A collector" and "IncrementNonce A acc nonce s = Inr s1"
  shows "ho_GetBalance (an_evm A) s1 = ho_GetBalance (an_evm A) s" "ho_feemarket (an_evm A) s1 = ho_feemarket (an_evm A) s"
    "nonce = an_GetSequence A (account_base acc)"
    "\<exists>b. an_SetSequence A (u64 (nonce + 1)) (account_base acc) = Inr b \<and> s1 = an_SetAccount A s (with_base acc b)"
  using assms(2) ante_lawsD(4,5) [OF assms(1)] by (auto simp: IncrementNonce_def Let_def split: if_splits sum.splits)

lemma ante_admit_message:
  assumes "ante_admit A md U height msg = Inr (m, d)"
  shows "\<exists>m0 tx sender. msg = EthMsg m0 \<and> em_Data m0 = Some d \<and> m = m0\<lparr>em_From := Hex (ho_eth (an_evm A)) sender\<rparr> \<and>
    AsTransaction (ho_eth (an_evm A)) (an_tx A) m0 = Some tx \<and> tf_Sender (an_tx A) (du_EthConfig U) height tx = Inr sender \<and>
    em_GetFrom (ho_eth (an_evm A)) m0 = None"
  using assms by (auto simp: ante_admit_def Let_def UnpackEthMsg_def UnpackTxData_def SignatureVerification_def ValidateMsg_def
      split: ante_message.splits option.splits if_splits sum.splits)

lemma ante_step_effect:
  assumes "ante_laws A collector" and "keeper_balance (an_evm A) (du_EvmDenom (as_utils st))" and "du_BaseFee (as_utils st) = Some b"
    and "0 \<le> b" and "valid_message (ho_eth (an_evm A)) msg" and "ante_message_step A md tx i msg st = Inr st1"
  shows "\<exists>m. as_msgs st1 = as_msgs st @ [m] \<and>
    (\<forall>x. x \<noteq> collector \<longrightarrow> ho_GetBalance (an_evm A) (ctx_store (as_ctx st1)) x (du_EvmDenom (as_utils st)) =
       ho_GetBalance (an_evm A) (ctx_store (as_ctx st)) x (du_EvmDenom (as_utils st)) - message_charge (ho_eth (an_evm A)) b x m) \<and>
    ho_feemarket (an_evm A) (ctx_store (as_ctx st1)) =
       wanted_after tx (IsLondon (du_Rules (as_utils st))) (ho_feemarket (an_evm A) (ctx_store (as_ctx st))) \<and>
    du_BaseFee (as_utils st1) = Some b \<and> du_EvmDenom (as_utils st1) = du_EvmDenom (as_utils st) \<and>
    du_Rules (as_utils st1) = du_Rules (as_utils st) \<and> (\<exists>s. as_ctx st1 = (as_ctx st)\<lparr>ctx_store := s\<rparr>)"
proof -
  let ?H = "an_evm A" and ?F = "ho_eth (an_evm A)" and ?U = "as_utils st" and ?ctx = "as_ctx st"
  obtain m d acc exps ctx1 fees U1 s2 s3 ctx2 where
    admit: "ante_admit A md ?U (ctx_BlockHeight ?ctx) msg = Inr (m, d)" and
    account: "ante_account A ?U (HexToAddress ?F (em_From m)) m d (as_expenses st) ?ctx = Inr (acc, exps, ctx1)" and
    pay: "ante_pay A md ?U (HexToAddress ?F (em_From m)) d (ctx_store ctx1) = Inr (fees, U1, s2)" and
    nonce: "IncrementNonce A acc (tx_GetNonce d) s2 = Inr s3" and
    wanted: "CheckGasWanted A tx (IsLondon (du_Rules U1)) (ctx1\<lparr>ctx_store := s3\<rparr>) = Inr ctx2" and
    st1: "as_ctx st1 = ctx2" "as_utils st1 = U1" "as_msgs st1 = as_msgs st @ [EthMsg m]"
    using assms(6) by (fastforce simp: ante_message_step_def Let_def)
  obtain m0 sender where m: "msg = EthMsg m0" "em_Data m0 = Some d" "m = m0\<lparr>em_From := Hex ?F sender\<rparr>"
    using ante_admit_message [OF admit] by blast
  have valid: "tx_Validate ?F d = Inr ()" "in_u64 (GetGas d)" using assms(5) m by (simp_all add: valid_message_def)
  obtain s1 cost where s1: "ctx1 = ?ctx\<lparr>ctx_store := s1\<rparr>" "ho_GetBalance ?H s1 = ho_GetBalance ?H (ctx_store ?ctx)"
    "ho_feemarket ?H s1 = ho_feemarket ?H (ctx_store ?ctx)" "Cost d = Inr cost"
    "cost \<le> ho_GetBalance ?H s1 (HexToAddress ?F (em_From m)) (du_EvmDenom ?U)"
    using ante_account_effect [OF assms(1,2) account] by blast
  note pay1 = ante_pay_effect [OF assms(1) valid(1) assms(3,4) valid(2) s1(4) _ pay]
  note nonce1 = IncrementNonce_effect(1,2) [OF assms(1) nonce]
  obtain s4 where s4: "ctx2 = ctx1\<lparr>ctx_store := s4\<rparr>" "ho_GetBalance ?H s4 = ho_GetBalance ?H s3"
    "ho_feemarket ?H s4 = wanted_after tx (IsLondon (du_Rules U1)) (ho_feemarket ?H s3)"
    using CheckGasWanted_effect [OF assms(1) wanted] by auto
  show ?thesis
    using s1 pay1 nonce1 s4 st1 m assms(3) by (auto simp: message_charge_def)
qed

lemma ante_messages_effect:
  assumes "ante_laws A collector" and "keeper_balance (an_evm A) (du_EvmDenom (as_utils st))" and "du_BaseFee (as_utils st) = Some b"
    and "0 \<le> b" and "\<forall>msg \<in> set msgs. valid_message (ho_eth (an_evm A)) msg" and "ante_messages A md tx i msgs st = Inr st1"
  shows "\<exists>ms. as_msgs st1 = as_msgs st @ ms \<and> length ms = length msgs \<and>
    (\<forall>x. x \<noteq> collector \<longrightarrow> ho_GetBalance (an_evm A) (ctx_store (as_ctx st1)) x (du_EvmDenom (as_utils st)) =
       ho_GetBalance (an_evm A) (ctx_store (as_ctx st)) x (du_EvmDenom (as_utils st))
         - sum_list (map (message_charge (ho_eth (an_evm A)) b x) ms)) \<and>
    ho_feemarket (an_evm A) (ctx_store (as_ctx st1)) =
       (wanted_after tx (IsLondon (du_Rules (as_utils st))) ^^ length msgs) (ho_feemarket (an_evm A) (ctx_store (as_ctx st))) \<and>
    (\<exists>s. as_ctx st1 = (as_ctx st)\<lparr>ctx_store := s\<rparr>)"
  using assms(2,3,5,6)
proof (induction msgs arbitrary: st i)
  case Nil
  then show ?case by (auto intro!: exI [of _ "ctx_store (as_ctx st)"])
next
  case (Cons msg msgs)
  obtain st2 where st2: "ante_message_step A md tx i msg st = Inr st2" "ante_messages A md tx (i + 1) msgs st2 = Inr st1"
    using Cons.prems(4) by auto
  obtain m where m: "as_msgs st2 = as_msgs st @ [m]"
    "\<forall>x. x \<noteq> collector \<longrightarrow> ho_GetBalance (an_evm A) (ctx_store (as_ctx st2)) x (du_EvmDenom (as_utils st)) =
       ho_GetBalance (an_evm A) (ctx_store (as_ctx st)) x (du_EvmDenom (as_utils st)) - message_charge (ho_eth (an_evm A)) b x m"
    "ho_feemarket (an_evm A) (ctx_store (as_ctx st2)) =
       wanted_after tx (IsLondon (du_Rules (as_utils st))) (ho_feemarket (an_evm A) (ctx_store (as_ctx st)))"
    "du_BaseFee (as_utils st2) = Some b" "du_EvmDenom (as_utils st2) = du_EvmDenom (as_utils st)"
    "du_Rules (as_utils st2) = du_Rules (as_utils st)" "\<exists>s. as_ctx st2 = (as_ctx st)\<lparr>ctx_store := s\<rparr>"
    using ante_step_effect [OF assms(1) Cons.prems(1,2) assms(4) _ st2(1)] Cons.prems(3) by auto
  from Cons.IH [of st2 "i + 1"] Cons.prems(1,3) m(4-6) st2(2) obtain ms where
    "as_msgs st1 = as_msgs st2 @ ms" "length ms = length msgs"
    "\<forall>x. x \<noteq> collector \<longrightarrow> ho_GetBalance (an_evm A) (ctx_store (as_ctx st1)) x (du_EvmDenom (as_utils st)) =
       ho_GetBalance (an_evm A) (ctx_store (as_ctx st2)) x (du_EvmDenom (as_utils st))
         - sum_list (map (message_charge (ho_eth (an_evm A)) b x) ms)"
    "ho_feemarket (an_evm A) (ctx_store (as_ctx st1)) =
       (wanted_after tx (IsLondon (du_Rules (as_utils st))) ^^ length msgs) (ho_feemarket (an_evm A) (ctx_store (as_ctx st2)))"
    "\<exists>s. as_ctx st1 = (as_ctx st2)\<lparr>ctx_store := s\<rparr>" by auto
  with m show ?case by (intro exI [of _ "m # ms"]) (auto simp: funpow_swap1)
qed

section \<open>The whole transaction\<close>

definition ante_config :: "('k, 't, 'base, 'c) ante_host \<Rightarrow> 'k chain_ctx \<Rightarrow> eth_ChainConfig" where
  "ante_config A ctx = EthereumConfig (ho_eth (an_evm A)) (cfg_ChainConfig (evm_GetParams ctx)) (ho_chainID (an_evm A))"

definition balance_of :: "('k, 't, 'base, 'c) ante_host \<Rightarrow> 'k chain_ctx \<Rightarrow> address \<Rightarrow> int" where
  "balance_of A ctx x = ho_GetBalance (an_evm A) (ctx_store ctx) x (EvmDenom (evm_GetParams ctx))"

lemma ctx_params_only [simp]:
  "evm_GetParams (ctx\<lparr>ctx_store := s\<rparr>) = evm_GetParams ctx" "evm_GetParams (ctx\<lparr>ctx_gasConsumed := c\<rparr>) = evm_GetParams ctx"
  "evm_GetParams (ctx\<lparr>ctx_gasLimit := c\<rparr>) = evm_GetParams ctx" "evm_GetParams (ctx\<lparr>ctx_gasUsed := c\<rparr>) = evm_GetParams ctx"
  by (simp_all add: evm_GetParams_def cong: option.case_cong)

lemma ctx_rules_only [simp]:
  "evm_rules H cfg m (ctx\<lparr>ctx_store := s\<rparr>) = evm_rules H cfg m ctx" "evm_rules H cfg m (ctx\<lparr>ctx_gasConsumed := c\<rparr>) = evm_rules H cfg m ctx"
  "evm_rules H cfg m (ctx\<lparr>ctx_gasLimit := c\<rparr>) = evm_rules H cfg m ctx" "evm_rules H cfg m (ctx\<lparr>ctx_gasUsed := c\<rparr>) = evm_rules H cfg m ctx"
  by (simp_all add: evm_rules_def)

lemma ctx_base_fee_only [simp]:
  "evm_GetBaseFee H cfg (ctx\<lparr>ctx_gasConsumed := c\<rparr>) = evm_GetBaseFee H cfg ctx"
  "evm_GetBaseFee H cfg (ctx\<lparr>ctx_gasLimit := c\<rparr>) = evm_GetBaseFee H cfg ctx"
  "evm_GetBaseFee H cfg (ctx\<lparr>ctx_gasUsed := c\<rparr>) = evm_GetBaseFee H cfg ctx"
  by (simp_all add: evm_GetBaseFee_def evm_getBaseFee_def)

lemma AnteHandle_effect:
  assumes "ante_laws A collector" and "keeper_balance (an_evm A) (EvmDenom (evm_GetParams ctx))"
    and "evm_GetBaseFee (an_evm A) (ante_config A ctx) ctx = Some b" and "0 \<le> b"
    and "\<forall>msg \<in> set (tx_msgs tx). valid_message (ho_eth (an_evm A)) msg"
    and "AnteHandle A md tx ctx = Inr ((priority, ctx1), evs, msgs)"
  shows "length msgs = length (tx_msgs tx)"
    "x \<noteq> collector \<Longrightarrow> balance_of A ctx1 x = balance_of A ctx x - sum_list (map (message_charge (ho_eth (an_evm A)) b x) msgs)"
    "ho_feemarket (an_evm A) (ctx_store ctx1) =
       (wanted_after tx (IsLondon (evm_rules (an_evm A) (ante_config A ctx) True ctx)) ^^ length (tx_msgs tx))
         (ho_feemarket (an_evm A) (ctx_store ctx))"
    "\<exists>s g. ctx1 = ctx\<lparr>ctx_store := s, ctx_gasConsumed := 0, ctx_gasLimit := g, ctx_gasUsed := 0\<rparr>"
proof -
  let ?H = "an_evm A" and ?ctx0 = "ctx\<lparr>ctx_gasConsumed := 0, ctx_gasLimit := 2 ^ 64 - 1, ctx_gasUsed := 0\<rparr>"
  obtain U st where ready: "SetupContext tx ctx = Inr ?ctx0" and U: "NewMonoDecoratorUtils A md ?ctx0 = Inr U" and
    loop: "ante_messages A md tx 0 (tx_msgs tx)
       \<lparr>as_ctx = ?ctx0, as_utils = U, as_expenses = Map.empty, as_events = [], as_msgs = []\<rparr> = Inr st" and
    fin: "CheckBlockGasLimit (du_GasWanted (as_utils st)) (du_MinPriority (as_utils st)) (as_ctx st) = Inr (priority, ctx1)"
      "msgs = as_msgs st"
    using assms(6) by (auto simp: AnteHandle_def SetupContext_def split: if_splits)
  have fields: "du_BaseFee U = Some b" "du_EvmDenom U = EvmDenom (evm_GetParams ctx)"
    "du_Rules U = evm_rules ?H (ante_config A ctx) True ctx"
    using U assms(3) by (auto simp: NewMonoDecoratorUtils_def Let_def ante_config_def split: if_splits)
  obtain ms s where st: "as_msgs st = ms" "length ms = length (tx_msgs tx)" "as_ctx st = ?ctx0\<lparr>ctx_store := s\<rparr>"
    "\<forall>x. x \<noteq> collector \<longrightarrow> ho_GetBalance ?H s x (du_EvmDenom U) = ho_GetBalance ?H (ctx_store ctx) x (du_EvmDenom U)
       - sum_list (map (message_charge (ho_eth ?H) b x) ms)"
    "ho_feemarket ?H s = (wanted_after tx (IsLondon (du_Rules U)) ^^ length (tx_msgs tx)) (ho_feemarket ?H (ctx_store ctx))"
    using ante_messages_effect [OF assms(1) _ _ assms(4,5) loop] assms(2) fields by auto
  obtain g where ctx1: "ctx1 = (as_ctx st)\<lparr>ctx_gasConsumed := 0, ctx_gasLimit := g\<rparr>"
    using fin(1) by (auto simp: CheckBlockGasLimit_def split: if_splits)
  show "length msgs = length (tx_msgs tx)" using st fin by simp
  show "\<exists>s g. ctx1 = ctx\<lparr>ctx_store := s, ctx_gasConsumed := 0, ctx_gasLimit := g, ctx_gasUsed := 0\<rparr>"
    by (rule exI [of _ s], rule exI [of _ g]) (simp add: ctx1 st(3))
  show "balance_of A ctx1 x = balance_of A ctx x - sum_list (map (message_charge (ho_eth (an_evm A)) b x) msgs)"
    if "x \<noteq> collector"
    using that ctx1 st fin fields by (auto simp: balance_of_def)
  show "ho_feemarket (an_evm A) (ctx_store ctx1) =
       (wanted_after tx (IsLondon (evm_rules (an_evm A) (ante_config A ctx) True ctx)) ^^ length (tx_msgs tx))
         (ho_feemarket (an_evm A) (ctx_store ctx))"
    using ctx1 st fields by auto
qed

lemma wanted_only [simp]:
  "GetBaseFeeEnabled (fm\<lparr>fm_transientGasWanted := g\<rparr>) = GetBaseFeeEnabled fm"
  "GetBaseFee (fm\<lparr>fm_transientGasWanted := g\<rparr>) = GetBaseFee fm"
  "fm_GetParams (fm\<lparr>fm_transientGasWanted := g\<rparr>) = fm_GetParams fm"
  by (simp_all add: GetBaseFeeEnabled_def GetBaseFee_def GetBaseFeeV1_def fm_GetParams_def Let_def cong: option.case_cong)

lemma wanted_after_shape: "\<exists>g. (wanted_after tx l ^^ n) fm = fm\<lparr>fm_transientGasWanted := g\<rparr>"
proof (induction n)
  case 0
  then show ?case by (auto intro: exI [of _ "fm_transientGasWanted fm"])
next
  case (Suc n)
  then show ?case by (auto simp: wanted_after_def AddTransientGasWanted_def SetTransientBlockGasWanted_def Let_def)
qed

lemma wanted_after_step:
  assumes "l" and "tx_isFeeTx tx" and "GetBaseFeeEnabled fm"
  shows "GetTransientGasWanted (wanted_after tx l fm) = u64 (GetTransientGasWanted fm + fee_gas tx)"
  using assms by (simp add: wanted_after_def AddTransientGasWanted_def SetTransientBlockGasWanted_def Let_def
      GetTransientGasWanted_def [of "fm\<lparr>fm_transientGasWanted := _\<rparr>"])

lemma wanted_after_counts:
  assumes "l" and "tx_isFeeTx tx" and "GetBaseFeeEnabled fm"
  shows "GetTransientGasWanted ((wanted_after tx l ^^ Suc n) fm) = u64 (GetTransientGasWanted fm + int (Suc n) * fee_gas tx)"
proof (induction n)
  case 0
  then show ?case using wanted_after_step [OF assms] by simp
next
  case (Suc n)
  obtain g where g: "(wanted_after tx l ^^ Suc n) fm = fm\<lparr>fm_transientGasWanted := g\<rparr>" using wanted_after_shape by blast
  have "u64 (u64 y + z) = u64 (y + z)" for y z by (simp add: u64_def mod_add_left_eq)
  then show ?case
    using Suc wanted_after_step [OF assms(1,2), of "fm\<lparr>fm_transientGasWanted := g\<rparr>"] assms(3) g
    by (simp add: algebra_simps)
qed

text \<open>
  C11: A transaction that passes has paid for all of its messages, and for nothing else: of every address but the fee
  collector, the balance is what it was less the price per gas times the gas limit of each message it sent. A balance
  that covers the cost of a message is checked before, so no staking rewards are withdrawn for the fee.
\<close>

theorem ante_takes_exact_fees:
  assumes "ante_laws A collector" and "keeper_balance (an_evm A) (EvmDenom (evm_GetParams ctx))"
    and "evm_GetBaseFee (an_evm A) (ante_config A ctx) ctx = Some b" and "0 \<le> b"
    and "\<forall>msg \<in> set (tx_msgs tx). valid_message (ho_eth (an_evm A)) msg"
    and "AnteHandle A md tx ctx = Inr ((priority, ctx1), evs, msgs)" and "x \<noteq> collector"
  shows "length msgs = length (tx_msgs tx) \<and>
    balance_of A ctx1 x = balance_of A ctx x - sum_list (map (message_charge (ho_eth (an_evm A)) b x) msgs)"
  using AnteHandle_effect(1) [OF assms(1-6)] AnteHandle_effect(2) [OF assms] by blast

text \<open>
  C27: The gas wanted of a transaction with several messages is counted once for each of them: the check runs inside the
  loop over the messages and adds the gas of the whole transaction every time. A transaction of \<open>n\<close> messages
  pushes the gas wanted of the block, and with it the next base fee, \<open>n\<close> times too far.
\<close>

theorem gas_wanted_counted_per_message:
  assumes "ante_laws A collector" and "keeper_balance (an_evm A) (EvmDenom (evm_GetParams ctx))"
    and "evm_GetBaseFee (an_evm A) (ante_config A ctx) ctx = Some b" and "0 \<le> b"
    and "\<forall>msg \<in> set (tx_msgs tx). valid_message (ho_eth (an_evm A)) msg" and "tx_msgs tx \<noteq> []" and "tx_isFeeTx tx"
    and "GetBaseFeeEnabled (ho_feemarket (an_evm A) (ctx_store ctx))"
    and "IsLondon (evm_rules (an_evm A) (ante_config A ctx) True ctx)"
    and "AnteHandle A md tx ctx = Inr ((priority, ctx1), evs, msgs)"
  shows "GetTransientGasWanted (ho_feemarket (an_evm A) (ctx_store ctx1)) =
    u64 (GetTransientGasWanted (ho_feemarket (an_evm A) (ctx_store ctx)) + int (length (tx_msgs tx)) * fee_gas tx)"
  using AnteHandle_effect(3) [OF assms(1-5,10)] assms(6)
    wanted_after_counts [OF assms(9,7,8), of "length (tx_msgs tx) - 1"] by simp

section \<open>An instance\<close>

text \<open>
  A chain whose store holds one denomination, the fee market and the nonces, with the machine, the rules and the
  transactions of the other examples. Fees go to account 99, which never runs dry, every transaction is from account 7, and every address but
  the built-in ones is a contract outside the machine that returns nothing.
\<close>

record small_store =
  sm_bank :: "address \<Rightarrow> nat"
  sm_feemarket :: fm_ctx
  sm_nonces :: "address \<Rightarrow> int"

definition small_balance :: "small_store \<Rightarrow> address \<Rightarrow> string \<Rightarrow> int" where
  "small_balance s a d = (if d = ''unxq'' then int (sm_bank s a) else 0)"

definition move_small :: "address \<Rightarrow> address \<Rightarrow> nat \<Rightarrow> small_store \<Rightarrow> string + small_store" where
  "move_small a b n s = (if sm_bank s a < n then Inl ''insufficient funds''
     else let bank = (sm_bank s)(a := sm_bank s a - n) in Inr (s\<lparr>sm_bank := bank(b := bank b + n)\<rparr>))"

definition small_keeper :: "small_store keeper" where
  "small_keeper = blank_keeper\<lparr>k_GetAccount := (\<lambda>s a. Some \<lparr>raw_Nonce = sm_nonces s a, raw_Balance = Some (int (sm_bank s a)),
     raw_CodeHash = Some 1\<rparr>)\<rparr>"

definition the_int :: "int option \<Rightarrow> int" where
  "the_int x = (case x of None \<Rightarrow> 0 | Some i \<Rightarrow> i)"

definition message_of :: "int option \<Rightarrow> EthTxData \<Rightarrow> Message" where
  "message_of baseFee tx = (let f = fields_of tx; p = the_int (ef_GasPrice f); tip = the_int (ef_GasTipCap f); cap = the_int (ef_GasFeeCap f);
      dynamic = (kind_of tx = 2)
    in \<lparr>m_From = 7, m_To = ef_To f, m_Nonce = ef_Nonce f, m_Value = the_int (ef_Value f), m_Gas = ef_Gas f,
      m_GasPrice = (if dynamic then min (tip + the_int baseFee) cap else p), m_GasFeeCap = (if dynamic then cap else p),
      m_GasTipCap = (if dynamic then tip else p), m_Data = ef_Data f, m_AccessList = [], m_IsFake = False\<rparr>)"

definition small_evm :: "(small_store, EthTxData) evm_host" where
  "small_evm = \<lparr>ho_keeper = small_keeper, ho_geth = mainnet_params, ho_lib = word_lib, ho_eth = plain_eth,
     ho_activators = activators mainnet_params, ho_feemarket = sm_feemarket, ho_dec = sample_dec,
     ho_IntrinsicGas = (\<lambda>_ _ _ _ _. Inr 21000), ho_RefundQuotient = 2, ho_RefundQuotientEIP3529 = 5, ho_LogsBloom = (\<lambda>_. 0),
     ho_GetValidatorByConsAddr = (\<lambda>_ _. Some 0), ho_CurrentHeaderHash = (\<lambda>_. None), ho_HistoricalHash = (\<lambda>_ _. None),
     ho_precompiles = (\<lambda>_. None), ho_ERC20Precompile = (\<lambda>s a. Inr (Some (sample_precompile (\<lambda>_. []) a))),
     ho_GetBalance = small_balance, ho_SendFromModule = (\<lambda>m a d n s.
       if d = ''unxq'' then Inr (s\<lparr>sm_bank := (sm_bank s)(a := sm_bank s a + nat n)\<rparr>) else Inl ''denom''),
     ho_chainID = Some 9000, ho_ParseChainID = (\<lambda>_. Inr 9000), ho_AsMessage = (\<lambda>_ _ b tx. Inr (message_of b tx)), ho_Hash = (\<lambda>_. 0),
     ho_Value = (\<lambda>tx. the_int (ef_Value (fields_of tx))), ho_authority = ''gov''\<rparr>"

definition small_ante :: "(small_store, EthTxData, address \<times> int, string multiset) ante_host" where
  "small_ante = \<lparr>an_evm = small_evm, an_tx = plain_tx_fns, an_coins = bag_coins, an_Coin = (\<lambda>d a. replicate_mset (nat a) d),
     an_Find = (\<lambda>c d. if count c d = 0 then None else Some (int (count c d))), an_IsEqual = (=),
     an_GetAccount = (\<lambda>s a. Some (EthAccount (a, sm_nonces s a) '''')),
     an_SetAccount = (\<lambda>s acc. let (a, n) = account_base acc in s\<lparr>sm_nonces := (sm_nonces s)(a := n)\<rparr>),
     an_NewAccountWithAddress = (\<lambda>s a. (EthAccount (a, 0) '''', s)), an_Address = fst, an_GetSequence = snd,
     an_SetSequence = (\<lambda>n b. Inr (fst b, n)),
     an_DeductFees = (\<lambda>a fees s. if set_mset fees \<subseteq> {''unxq''} then move_small a 99 (count fees ''unxq'') s else Inl ''denom''),
     an_BondDenom = (\<lambda>_. ''unxq''), an_Delegations = (\<lambda>_ _. []), an_WithdrawRewards = (\<lambda>_ _ s. Inl ''no delegation''),
     an_SetFeemarket = (\<lambda>fm s. s\<lparr>sm_feemarket := fm\<rparr>), an_PriorityReduction = 1000000\<rparr>"

lemma small_ante_sel [simp]:
  "an_evm small_ante = small_evm" "ho_eth small_evm = plain_eth" "ho_feemarket small_evm = sm_feemarket"
  "ho_GetBalance small_evm = small_balance" "ho_keeper small_evm = small_keeper" "ho_chainID small_evm = Some 9000"
  "ho_geth small_evm = mainnet_params" "ho_IntrinsicGas small_evm bs al b1 b2 b3 = Inr 21000" "ho_Value small_evm tx = the_int (ef_Value (fields_of tx))"
  "ho_AsMessage small_evm c h bf tx = Inr (message_of bf tx)"  "ho_dec small_evm = sample_dec"
  "an_tx small_ante = plain_tx_fns" "an_coins small_ante = bag_coins" "an_PriorityReduction small_ante = 1000000"
  by (simp_all add: small_ante_def small_evm_def)

lemma small_laws: "ante_laws small_ante 99" "keeper_balance small_evm ''unxq''" "host_laws small_evm" "gas_laws small_evm"
proof -
  have "account_base acc = (a, n) \<Longrightarrow> an_SetAccount small_ante s acc = s\<lparr>sm_nonces := (sm_nonces s)(a := n)\<rparr>" for acc s a n
    by (simp add: small_ante_def)
  then have set: "\<exists>f. an_SetAccount small_ante s acc = s\<lparr>sm_nonces := f\<rparr>" for acc s by (cases "account_base acc") auto
  have deduct: "an_DeductFees small_ante a fees s = Inr s1 \<Longrightarrow> sm_feemarket s1 = sm_feemarket s \<and>
      (\<forall>x d. x \<noteq> 99 \<longrightarrow> small_balance s1 x d = small_balance s x d - (if x = a then coins_AmountOf bag_coins fees d else 0))"
    for a fees s s1
    by (auto simp: small_ante_def small_balance_def move_small_def bag_coins_def Let_def not_in_iff split: if_splits)
  have setb: "small_balance (an_SetAccount small_ante s acc) = small_balance s \<and> sm_feemarket (an_SetAccount small_ante s acc) = sm_feemarket s"
    for s acc using set [of s acc] by (auto simp: small_balance_def fun_eq_iff)
  have new: "snd (an_NewAccountWithAddress small_ante s a) = s" for s a by (simp add: small_ante_def)
  have fm: "an_SetFeemarket small_ante f s = s\<lparr>sm_feemarket := f\<rparr>" for f s by (simp add: small_ante_def)
  have coin: "0 \<le> a \<Longrightarrow> coins_AmountOf bag_coins (an_Coin small_ante d a) d' = (if d' = d then a else 0)"
    "0 < a \<Longrightarrow> an_Find small_ante (an_Coin small_ante d a) d' = (if d' = d then Some a else None)" for d a d'
    by (simp_all add: small_ante_def bag_coins_def)
  show "ante_laws small_ante 99"
    using setb deduct coin bag_laws unfolding ante_laws_def by (simp add: new fm small_balance_def fun_eq_iff)
  show "keeper_balance small_evm ''unxq''"
    by (auto simp: keeper_balance_def small_keeper_def small_balance_def)
  show "host_laws small_evm" "gas_laws small_evm"
    using mainnet_params_ok word_lib_ok sample_dec_exact
    by (auto simp: host_laws_def gas_laws_def small_evm_def precompile_ok_def sample_precompile_def)
qed

definition small_data :: "int \<Rightarrow> TxData" where
  "small_data n = DynamicFee \<lparr>dt_ChainID = Some 9000, dt_Nonce = n, dt_GasTipCap = Some 500000000, dt_GasFeeCap = Some 2000000000,
     dt_GasLimit = 30000, dt_To = replicate 51 (CHR ''x''), dt_Amount = Some 1000, dt_Data = [], dt_Accesses = None, dt_V = [1], dt_R = [11], dt_S = [12]\<rparr>"

definition small_tx :: "int list \<Rightarrow> string multiset ante_tx" where
  "small_tx ns = \<lparr>tx_msgs = map (\<lambda>n. EthMsg \<lparr>em_Data = Some (small_data n), em_Size = False, em_Hash = ''h'', em_From = []\<rparr>) ns,
     tx_basic = None, tx_isGasTx = True, tx_isFeeTx = True, tx_isProto = True, tx_Memo = [], tx_TimeoutHeight = 0,
     tx_NonCriticalOptions = 0, tx_ExtensionOptions = [''x''], tx_SignerInfos = 0,
     tx_Fee = Some \<lparr>fi_Amount = foldl (\<lambda>c n. coins_AddCoin bag_coins c (''unxq'', 60000000000000)) (coins_NewCoins bag_coins) ns,
       fi_GasLimit = 30000 * int (length ns), fi_Payer = [], fi_Granter = []\<rparr>, tx_Signatures = 0\<rparr>"

definition small_ctx :: "evm_Params \<Rightarrow> small_store chain_ctx" where
  "small_ctx params = (sample_chain \<lparr>sm_bank = (\<lambda>_. 10 ^ 18), sm_feemarket = sample_fm 2 0, sm_nonces = (\<lambda>_. 0)\<rparr> params 7)
     \<lparr>ctx_MaxGas := Some 40000000, ctx_params := Some (params\<lparr>ActiveStaticPrecompiles := []\<rparr>)\<rparr>"

definition deliver :: ante_mode where
  "deliver = \<lparr>md_CheckTx = False, md_ReCheckTx = False, md_simulate = False, md_MinGasPrices = (\<lambda>_. 0), md_maxGasWanted = 0\<rparr>"


text \<open>Calls are for a list of accounts, which is empty.\<close>

definition closed_params :: evm_Params where
  "closed_params = evm_DefaultParams\<lparr>cfg_AccessControl := open_access
     \<lparr>ac_Call := \<lparr>AccessType_of = AccessTypePermissioned, AccessControlList = []\<rparr>\<rparr>,
     ActiveStaticPrecompiles := []\<rparr>"

lemma small_params [simp]:
  "evm_GetParams (small_ctx params) = params\<lparr>ActiveStaticPrecompiles := []\<rparr>"
  by (simp add: small_ctx_def sample_chain_def evm_GetParams_def)

lemma small_rules [simp]: "IsLondon (evm_rules small_evm c b ctx)" "IsHomestead (evm_rules small_evm c b ctx)"
  "IsIstanbul (evm_rules small_evm c b ctx)" "rules_ordered (evm_rules small_evm c b ctx)"
  by (simp_all add: evm_rules_def plain_eth_def rules_ordered_def)

lemma small_base_fee: "sm_feemarket s = sample_fm 2 0 \<lparr>fm_transientGasWanted := g\<rparr> \<Longrightarrow> evm_GetBaseFee small_evm c ((small_ctx params)\<lparr>ctx_store := s\<rparr>) = Some 1000000000"
  by (simp add: evm_GetBaseFee_def evm_getBaseFee_def GetBaseFee_def fm_GetParams_def sample_fm_def or_zero_def)

lemma small_prices: "price_per_gas (small_data n) 1000000000 = 1500000000" "GetGas (small_data n) = 30000"
  "EffectiveFee (small_data n) (Some 1000000000) = Inr 45000000000000" "Fee (small_data n) = Inr 60000000000000"
  "Cost (small_data n) = Inr 60000000001000" "tx_GetNonce (small_data n) = n" "GetGasFeeCap (small_data n) = Some 2000000000"
  "TxType (small_data n) = DynamicFeeTxType" "GetValue (small_data n) = Some 1000"
  by (simp_all add: price_per_gas_def GetGasTipCap_def GetGasFeeCap_def small_data_def GetGas_def EffectiveFee_def Fee_def Cost_def
     DynamicFeeTx_Fee_def DynamicFeeTx_Cost_def tx_cost_def tx_GetNonce_def TxType_def GetValue_def
     DynamicFeeTx_EffectiveFee_def DynamicFeeTx_EffectiveGasPrice_def EffectiveGasPrice_def)

lemma small_known_eips: "known_eips small_evm (evm_rules small_evm c b ctx) (ExtraEIPs closed_params)"
  by (simp add: known_eips_def closed_params_def evm_DefaultParams_def archive_eip_def ExistsEipActivator_def activators_def
      after_constantinople_def evm_rules_def plain_eth_def small_evm_def)

lemma small_table:
  assumes "ExtraEIPs (cfg_Params cfg) = ExtraEIPs closed_params"
  shows "\<exists>t. NewEVM_table small_evm cfg ctx = Inr t"
proof -
  obtain msg :: Message where True by simp
  have "message_table small_evm msg cfg ctx" by (rule message_table_known [OF small_laws(3)]) (simp_all only: assms small_known_eips small_rules)
  then show ?thesis by (auto simp: message_table_def)
qed

lemma small_transaction: "em_Data m = Some (small_data n) \<Longrightarrow> AsTransaction plain_eth plain_tx_fns m = Some (EthDynamicFeeTx
    \<lparr>ef_ChainID = Some 9000, ef_Nonce = n, ef_GasPrice = Some 0, ef_GasTipCap = Some 500000000, ef_GasFeeCap = Some 2000000000, ef_Gas = 30000,
     ef_To = Some 50, ef_Value = Some 1000, ef_Data = [], ef_AccessList = Some [], ef_V = Some 1, ef_R = Some 11, ef_S = Some 12\<rparr>)"
  by (simp add: AsTransaction_def UnpackTxData_def small_data_def plain_tx_fns_def AsEthereumData_def DynamicFeeTx_AsEthereumData_def
      DynamicFeeTx_GetTo_def DynamicFeeTx_GetAccessList_def rawSignatureValues_def big_SetBytes_def norm_fields_def or0_def plain_eth_def address_of_def)

definition small_ready :: "int \<Rightarrow> (small_store, string multiset) ante_state \<Rightarrow> bool" where
  "small_ready n st \<longleftrightarrow> (let s = ctx_store (as_ctx st); U = as_utils st in
     sm_nonces s 7 = n \<and> 0 \<le> n \<and> n < 10 \<and> sm_bank s 7 = 10 ^ 18 - nat n * 45000000000000 \<and>
     (\<exists>g. sm_feemarket s = (sample_fm 2 0)\<lparr>fm_transientGasWanted := g\<rparr>) \<and>
     du_EvmParams U = closed_params \<and> (\<exists>c b. du_Rules U = evm_rules small_evm c b (as_ctx st)) \<and>
     du_BaseFee U = Some 1000000000 \<and> du_EvmDenom U = ''unxq'' \<and> du_GlobalMinGasPrice U = Some 0 \<and>
     ctx_MaxGas (as_ctx st) = Some 40000000 \<and> ctx_blockGasLimit (as_ctx st) = None)"

definition small_message :: "int \<Rightarrow> ante_message" where
  "small_message n = EthMsg \<lparr>em_Data = Some (small_data n), em_Size = False, em_Hash = ''h'', em_From = []\<rparr>"

lemma small_admit:
  assumes "small_ready n st"
  shows "\<exists>m. ante_admit small_ante deliver (as_utils st) h (small_message n) = Inr (m, small_data n) \<and> em_Data m = Some (small_data n) \<and>
     HexToAddress plain_eth (em_From m) = 7"
proof -
  have "AsTransaction plain_eth plain_tx_fns \<lparr>em_Data = Some (small_data n), em_Size = False, em_Hash = ''h'', em_From = []\<rparr> \<noteq> None"
    by (simp add: AsTransaction_def UnpackTxData_def)
  moreover have "GetTo plain_eth (small_data n) \<noteq> None"
    by (simp add: GetTo_def small_data_def DynamicFeeTx_GetTo_def address_of_def)
  moreover have "HexToAddress plain_eth (Hex plain_eth 7) = 7" by (simp add: plain_eth_def)
  moreover have "tf_Protected plain_tx_fns t" "tf_Sender plain_tx_fns c h t = Inr 7" for t c h by (simp_all add: plain_tx_fns_def)
  ultimately show ?thesis using assms
    by (auto simp: ante_admit_def small_message_def UnpackEthMsg_def UnpackTxData_def deliver_def small_prices CheckGlobalFee_def
        ValidateMsg_def em_GetFrom_def checkDisabledCreateCall_def Let_def SignatureVerification_def small_ready_def
        closed_params_def open_access_def lift_panic_def address_of_def)
qed

lemma small_admitted_message:
  assumes "em_Data m = Some (small_data n)"
  shows "\<exists>tx. AsTransaction plain_eth plain_tx_fns m = Some tx \<and> message_of (Some 1000000000) tx =
    \<lparr>m_From = 7, m_To = Some 50, m_Nonce = n, m_Value = 1000, m_Gas = 30000, m_GasPrice = 1500000000, m_GasFeeCap = 2000000000,
      m_GasTipCap = 500000000, m_Data = [], m_AccessList = [], m_IsFake = False\<rparr>"
  using small_transaction [OF assms] by (simp add: message_of_def the_int_def Let_def)

lemma small_can_transfer:
  assumes "1000 \<le> sm_bank (ctx_store ctx) 7" and "ExtraEIPs params = ExtraEIPs closed_params" and "m_From msg = 7" and "m_Value msg = 1000"
    and "1000000000 \<le> m_GasFeeCap msg"
  shows "ante_CanTransfer small_evm msg (Some 1000000000) c params l ctx = Inr ()"
proof -
  obtain t where "NewEVM_table small_evm \<lparr>cfg_Params = params, cfg_Ethereum = c, cfg_CoinBase = 0, cfg_BaseFee = Some 1000000000\<rparr> ctx = Inr t"
    using small_table [of "\<lparr>cfg_Params = params, cfg_Ethereum = c, cfg_CoinBase = 0, cfg_BaseFee = Some 1000000000\<rparr>" ctx] assms(2) by auto
  with assms show ?thesis
    by (simp add: ante_CanTransfer_def Let_def lift_panic_def CanTransfer_def GetBalance_def getStateObject_def NewStateDB_def
        small_keeper_def newObject_def)
qed

lemma small_account:
  assumes "small_ready n st" and "em_Data m = Some (small_data n)"
  shows "ante_account small_ante (as_utils st) 7 m (small_data n) exps (as_ctx st) = Inr (EthAccount (7, n) '''', exps, as_ctx st)"
proof -
  let ?s = "ctx_store (as_ctx st)"
  have bank: "10 ^ 17 \<le> sm_bank ?s 7" "sm_bank ?s 7 \<le> 10 ^ 18" using assms(1) by (auto simp: small_ready_def Let_def)
  obtain tx where tx: "AsTransaction plain_eth plain_tx_fns m = Some tx" "message_of (Some 1000000000) tx =
    \<lparr>m_From = 7, m_To = Some 50, m_Nonce = n, m_Value = 1000, m_Gas = 30000, m_GasPrice = 1500000000, m_GasFeeCap = 2000000000,
      m_GasTipCap = 500000000, m_Data = [], m_AccessList = [], m_IsFake = False\<rparr>" using small_admitted_message [OF assms(2)] by blast
  have "k_GetAccount small_keeper ?s 7 = Some \<lparr>raw_Nonce = n, raw_Balance = Some (int (sm_bank ?s 7)), raw_CodeHash = Some 1\<rparr>"
    "emptyCodeHash small_keeper = 1" "an_GetAccount small_ante ?s 7 = Some (EthAccount (7, n) '''')"
    using assms(1) by (simp_all add: small_keeper_def blank_keeper_def emptyCodeHash_def small_ready_def Let_def small_ante_def)
  moreover have "BitLen_le (int (sm_bank ?s 7)) 256" using bank by (simp add: BitLen_le_def)
  ultimately show ?thesis using assms(1) bank tx small_can_transfer [of "as_ctx st" "du_EvmParams (as_utils st)"]
    by (auto simp: ante_account_def VerifyAccountBalance_def CheckSenderBalance_def IsContract_def small_prices NewIntFromBigInt_def lift_panic_def
        small_ready_def CheckVesting_def closed_params_def Let_def)
qed

text \<open>The fee of a message is taken from the account.\<close>

lemma small_deduct:
  assumes "45000000000000 \<le> sm_bank s 7"
  shows "\<exists>s1. deductFees small_ante (an_Coin small_ante ''unxq'' 45000000000000) 7 s = Inr s1 \<and> sm_bank s1 7 = sm_bank s 7 - 45000000000000 \<and>
    sm_feemarket s1 = sm_feemarket s \<and> sm_nonces s1 = sm_nonces s"
proof -
  define c where "c = an_Coin small_ante ''unxq'' 45000000000000"
  have c: "count c d = (if d = ''unxq'' then 45000000000000 else 0)" for d by (simp add: c_def small_ante_def)
  from c [of "''unxq''"] have "c \<noteq> {#}" by auto
  moreover from c have "set_mset c \<subseteq> {''unxq''}" "an_Find small_ante c ''unxq'' = Some 45000000000000"
    by (auto simp: small_ante_def simp flip: count_greater_zero_iff split: if_splits)
  ultimately show ?thesis using c assms unfolding c_def [symmetric]
    by (auto simp: deductFees_def bag_coins_def ClaimStakingRewardsIfNecessary_def DeductTxCostsFromUserBalance_def small_balance_def
        small_ante_def [THEN arg_cong, of an_BondDenom] small_ante_def [THEN arg_cong, of an_GetAccount]
        small_ante_def [THEN arg_cong, of an_DeductFees] move_small_def Let_def)
qed

lemma small_pay:
  assumes "small_ready n st"
  shows "\<exists>fees p s1. ante_pay small_ante deliver (as_utils st) 7 (small_data n) (ctx_store (as_ctx st)) =
      Inr (fees, (as_utils st)\<lparr>du_GasWanted := u64 (du_GasWanted (as_utils st) + 30000), du_MinPriority := p,
        du_TxFee := coins_AddCoin bag_coins (du_TxFee (as_utils st)) (''unxq'', 60000000000000),
        du_TxGasLimit := u64 (du_TxGasLimit (as_utils st) + 30000)\<rparr>, s1) \<and>
    sm_bank s1 7 = sm_bank (ctx_store (as_ctx st)) 7 - 45000000000000 \<and>
    sm_feemarket s1 = sm_feemarket (ctx_store (as_ctx st)) \<and> sm_nonces s1 = sm_nonces (ctx_store (as_ctx st))"
proof -
  have bank: "45000000000000 \<le> sm_bank (ctx_store (as_ctx st)) 7" using assms by (auto simp: small_ready_def Let_def)
  obtain p where p: "GetMsgPriority 1000000 (small_data n) (du_MinPriority (as_utils st)) (Some 1000000000) = Inr p"
    by (simp add: GetMsgPriority_def GetTxPriority_def small_prices Let_def tx_EffectiveGasPrice_def small_data_def
        DynamicFeeTx_EffectiveGasPrice_def EffectiveGasPrice_def)
  show ?thesis using assms small_deduct [OF bank] p
    by (auto simp: ante_pay_def VerifyFee_def small_ready_def Let_def small_prices deliver_def NewIntFromBigInt_def BitLen_le_def lift_panic_def
        UpdateCumulativeGasWanted_def UpdateCumulativeTxFee_def)
qed

lemma small_step:
  assumes "small_ready n st" and "n < 9" and "fee_gas tx \<le> 40000000"
  shows "\<exists>st1. ante_message_step small_ante deliver tx i (small_message n) st = Inr st1 \<and> small_ready (n + 1) st1 \<and>
    du_GasWanted (as_utils st1) = u64 (du_GasWanted (as_utils st) + 30000) \<and>
    du_TxFee (as_utils st1) = coins_AddCoin bag_coins (du_TxFee (as_utils st)) (''unxq'', 60000000000000) \<and>
    du_TxGasLimit (as_utils st1) = u64 (du_TxGasLimit (as_utils st) + 30000)"
proof -
  let ?U = "as_utils st" and ?ctx = "as_ctx st"
  have n: "0 \<le> n" "u64 (n + 1) = n + 1" using assms(1,2) by (auto simp: small_ready_def Let_def u64_def)
  obtain m where m: "ante_admit small_ante deliver ?U (ctx_BlockHeight ?ctx) (small_message n) = Inr (m, small_data n)"
    "em_Data m = Some (small_data n)" "HexToAddress plain_eth (em_From m) = 7" using small_admit [OF assms(1)] by blast
  obtain fees p s1 where pay: "ante_pay small_ante deliver ?U 7 (small_data n) (ctx_store ?ctx) =
      Inr (fees, ?U\<lparr>du_GasWanted := u64 (du_GasWanted ?U + 30000), du_MinPriority := p,
        du_TxFee := coins_AddCoin bag_coins (du_TxFee ?U) (''unxq'', 60000000000000), du_TxGasLimit := u64 (du_TxGasLimit ?U + 30000)\<rparr>, s1)"
    "sm_bank s1 7 = sm_bank (ctx_store ?ctx) 7 - 45000000000000" "sm_feemarket s1 = sm_feemarket (ctx_store ?ctx)"
    "sm_nonces s1 = sm_nonces (ctx_store ?ctx)" using small_pay [OF assms(1)] by blast
  have nonce: "IncrementNonce small_ante (EthAccount (7, n) '''') n s1 = Inr (s1\<lparr>sm_nonces := (sm_nonces s1)(7 := n + 1)\<rparr>)"
    using n by (simp add: IncrementNonce_def small_ante_def Let_def)
  let ?c = "?ctx\<lparr>ctx_store := s1\<lparr>sm_nonces := (sm_nonces s1)(7 := n + 1)\<rparr>\<rparr>"
  have lim: "BlockGasLimit ?c = 40000000" using assms(1) by (simp add: BlockGasLimit_def small_ready_def Let_def)
  obtain g where g: "sm_feemarket s1 = (sample_fm 2 0)\<lparr>fm_transientGasWanted := g\<rparr>" using assms(1) pay(3) by (auto simp: small_ready_def Let_def)
  have fm: "an_SetFeemarket small_ante f s = s\<lparr>sm_feemarket := f\<rparr>" for f s by (simp add: small_ante_def)
  have fmk: "\<exists>g. CheckGasWanted small_ante tx l ?c = Inr (?c\<lparr>ctx_store := s1\<lparr>sm_nonces := (sm_nonces s1)(7 := n + 1),
      sm_feemarket := (sample_fm 2 0)\<lparr>fm_transientGasWanted := g\<rparr>\<rparr>\<rparr>)" for l
  proof (cases "l \<and> tx_isFeeTx tx \<and> GetBaseFeeEnabled (sm_feemarket s1)")
    case True
    then show ?thesis using assms(3) lim g
      by (auto simp: CheckGasWanted_def Let_def fm AddTransientGasWanted_def SetTransientBlockGasWanted_def)
  next
    case False
    then have "CheckGasWanted small_ante tx l ?c = Inr ?c" using assms(3) lim by (auto simp: CheckGasWanted_def Let_def)
    then show ?thesis using g by (intro exI [of _ g]) simp
  qed
  obtain g1 where g1: "CheckGasWanted small_ante tx (IsLondon (du_Rules ?U)) ?c = Inr (?c\<lparr>ctx_store := s1\<lparr>sm_nonces := (sm_nonces s1)(7 := n + 1),
      sm_feemarket := (sample_fm 2 0)\<lparr>fm_transientGasWanted := g1\<rparr>\<rparr>\<rparr>)" using fmk by blast
  have "nat (n + 1) = Suc (nat n)" using n by simp
  then show ?thesis
    using assms m pay nonce g1 small_account [OF assms(1) m(2)]
    by (auto simp: ante_message_step_def Let_def small_prices small_ready_def)
qed

text \<open>A transaction with two messages passes.\<close>

definition small_start :: "small_store chain_ctx" where
  "small_start = small_ctx closed_params"

lemma small_start_base_fee: "evm_GetBaseFee small_evm c small_start = Some 1000000000"
  using small_base_fee [of "ctx_store small_start" "Some 30000000" c closed_params]
  by (simp add: small_start_def small_ctx_def sample_chain_def sample_fm_def)

lemma small_start_sel: "evm_GetParams small_start = closed_params"
  "ctx_store small_start = \<lparr>sm_bank = (\<lambda>_. 10 ^ 18), sm_feemarket = sample_fm 2 0, sm_nonces = (\<lambda>_. 0)\<rparr>"
  "ctx_MaxGas small_start = Some 40000000" "ctx_blockGasLimit small_start = None" "EvmDenom closed_params = ''unxq''"
  by (simp_all add: small_start_def) (simp_all add: small_ctx_def sample_chain_def closed_params_def evm_DefaultParams_def)

lemma small_utils:
  "\<exists>U. NewMonoDecoratorUtils small_ante deliver (small_start\<lparr>ctx_gasConsumed := 0, ctx_gasLimit := 2 ^ 64 - 1, ctx_gasUsed := 0\<rparr>) = Inr U \<and>
     (\<forall>exps evs ms. small_ready 0 \<lparr>as_ctx = small_start\<lparr>ctx_gasConsumed := 0, ctx_gasLimit := 2 ^ 64 - 1, ctx_gasUsed := 0\<rparr>,
        as_utils = U, as_expenses = exps, as_events = evs, as_msgs = ms\<rparr>) \<and>
     du_GasWanted U = 0 \<and> du_TxGasLimit U = 0 \<and> du_TxFee U = coins_NewCoins bag_coins"
proof -
  have "\<exists>g. sample_fm 2 0 = (sample_fm 2 0)\<lparr>fm_transientGasWanted := g\<rparr>" by (auto simp: sample_fm_def)
  moreover have "MinGasPrice (fm_GetParams (sample_fm 2 0)) = Some 0" by (simp add: fm_GetParams_def sample_fm_def or_zero_def)
  ultimately show ?thesis using small_start_base_fee
    by (auto simp: NewMonoDecoratorUtils_def Let_def small_ready_def small_start_sel)
qed

definition small_init :: "(small_store, string multiset) ante_state" where
  "small_init = (let c = small_start\<lparr>ctx_gasConsumed := 0, ctx_gasLimit := 2 ^ 64 - 1, ctx_gasUsed := 0\<rparr> in
     case NewMonoDecoratorUtils small_ante deliver c of Inr U \<Rightarrow>
       \<lparr>as_ctx = c, as_utils = U, as_expenses = Map.empty, as_events = [], as_msgs = []\<rparr>)"

lemma small_init_ready: "small_ready 0 small_init" "du_GasWanted (as_utils small_init) = 0" "du_TxGasLimit (as_utils small_init) = 0"
  "du_TxFee (as_utils small_init) = coins_NewCoins bag_coins"
  using small_utils by (auto simp: small_init_def Let_def)

lemma small_finish:
  assumes "ante_messages small_ante deliver (small_tx ns) 0 (map small_message ns) small_init = Inr st" and "small_ready k st"
    and "du_GasWanted (as_utils st) \<le> 40000000" and "length ns < 100"
    and "CheckTxFee small_ante (tx_Fee (small_tx ns)) (du_TxFee (as_utils st)) (du_TxGasLimit (as_utils st)) = Inr ()"
  shows "\<exists>r. AnteHandle small_ante deliver (small_tx ns) small_start = Inr r"
proof -
  have "tx_msgs (small_tx ns) = map small_message ns" "SetupContext (small_tx ns) small_start =
      Inr (small_start\<lparr>ctx_gasConsumed := 0, ctx_gasLimit := 2 ^ 64 - 1, ctx_gasUsed := 0\<rparr>)"
    "\<exists>fee. ValidateTx (small_tx ns) = Inr fee \<and> tx_Fee (small_tx ns) = Some fee"
    by (simp_all add: small_tx_def small_message_def SetupContext_def ValidateTx_def)
  moreover have "BlockGasLimit (as_ctx st) = 40000000" using assms(2) by (simp add: small_ready_def BlockGasLimit_def Let_def)
  ultimately have "AnteHandle small_ante deliver (small_tx ns) small_start = Inr ((du_MinPriority (as_utils st),
      (as_ctx st)\<lparr>ctx_gasConsumed := 0, ctx_gasLimit := du_GasWanted (as_utils st)\<rparr>), as_events st, as_msgs st)"
    using assms(1,3,5) small_utils
    by (auto simp: AnteHandle_def deliver_def [THEN arg_cong, of md_ReCheckTx] CheckBlockGasLimit_def small_init_def Let_def intro!: exI [of _ st])
  then show ?thesis ..
qed

lemma small_gas [simp]: "fee_gas (small_tx [0]) = 30000" "fee_gas (small_tx [0, 1]) = 60000"
  by (simp_all add: fee_gas_def small_tx_def)

lemma small_passes: "\<exists>r. AnteHandle small_ante deliver (small_tx [0, 1]) small_start = Inr r"
proof -
  let ?tx = "small_tx [0, 1]"
  obtain st1 where st1: "ante_message_step small_ante deliver ?tx 0 (small_message 0) small_init = Inr st1" "small_ready (0 + 1) st1"
    "du_GasWanted (as_utils st1) = u64 (du_GasWanted (as_utils small_init) + 30000)"
    "du_TxFee (as_utils st1) = coins_AddCoin bag_coins (du_TxFee (as_utils small_init)) (''unxq'', 60000000000000)"
    "du_TxGasLimit (as_utils st1) = u64 (du_TxGasLimit (as_utils small_init) + 30000)"
    using small_step [OF small_init_ready(1), of ?tx 0] by auto
  obtain st2 where st2: "ante_message_step small_ante deliver ?tx 1 (small_message (0 + 1)) st1 = Inr st2" "small_ready (0 + 1 + 1) st2"
    "du_GasWanted (as_utils st2) = u64 (du_GasWanted (as_utils st1) + 30000)"
    "du_TxFee (as_utils st2) = coins_AddCoin bag_coins (du_TxFee (as_utils st1)) (''unxq'', 60000000000000)"
    "du_TxGasLimit (as_utils st2) = u64 (du_TxGasLimit (as_utils st1) + 30000)"
    using small_step [OF st1(2), of ?tx 1] by auto
  have "CheckTxFee small_ante (tx_Fee ?tx) (du_TxFee (as_utils st2)) (du_TxGasLimit (as_utils st2)) = Inr ()"
    using st1(4,5) st2(4,5) small_init_ready(3,4) by (simp add: CheckTxFee_def small_tx_def u64_def small_ante_def)
  then show ?thesis
    using st1 st2 small_init_ready(2) by (intro small_finish [OF _ st2(2)]) (simp_all add: u64_def)
qed

lemma small_passes_one: "\<exists>r. AnteHandle small_ante deliver (small_tx [0]) small_start = Inr r"
proof -
  let ?tx = "small_tx [0]"
  obtain st1 where st1: "ante_message_step small_ante deliver ?tx 0 (small_message 0) small_init = Inr st1" "small_ready (0 + 1) st1"
    "du_GasWanted (as_utils st1) = u64 (du_GasWanted (as_utils small_init) + 30000)"
    "du_TxFee (as_utils st1) = coins_AddCoin bag_coins (du_TxFee (as_utils small_init)) (''unxq'', 60000000000000)"
    "du_TxGasLimit (as_utils st1) = u64 (du_TxGasLimit (as_utils small_init) + 30000)"
    using small_step [OF small_init_ready(1), of ?tx 0] by auto
  have "CheckTxFee small_ante (tx_Fee ?tx) (du_TxFee (as_utils st1)) (du_TxGasLimit (as_utils st1)) = Inr ()"
    using st1(4,5) small_init_ready(3,4) by (simp add: CheckTxFee_def small_tx_def u64_def small_ante_def)
  then show ?thesis
    using st1 small_init_ready(2) by (intro small_finish [OF _ st1(2)]) (simp_all add: u64_def)
qed

lemma small_data_valid: "tx_Validate plain_eth (small_data n) = Inr ()"
  by (simp add: small_data_def tx_Validate_def DynamicFeeTx_Validate_def
      DynamicFeeTx_Fee_def IsValidInt256_def BitLen_le_def nonneg_def validate_to_def ValidateAddress_def plain_eth_def)

lemma small_messages_valid: "\<forall>msg \<in> set (tx_msgs (small_tx ns)). valid_message plain_eth msg"
  by (auto simp: small_tx_def valid_message_def small_prices in_u64_def small_data_valid)

theorem ante_takes_exact_fees_witness:
  "\<exists>priority ctx1 evs msgs. AnteHandle small_ante deliver (small_tx [0, 1]) small_start = Inr ((priority, ctx1), evs, msgs) \<and>
     length msgs = 2 \<and> balance_of small_ante ctx1 7 =
       balance_of small_ante small_start 7 - sum_list (map (message_charge plain_eth 1000000000 7) msgs)"
proof -
  obtain priority ctx1 evs msgs where r: "AnteHandle small_ante deliver (small_tx [0, 1]) small_start = Inr ((priority, ctx1), evs, msgs)"
    using small_passes by auto
  have "length (tx_msgs (small_tx [0, 1])) = 2" by (simp add: small_tx_def)
  then show ?thesis
    using ante_takes_exact_fees [OF small_laws(1) _ _ _ _ r, of 1000000000 7] small_messages_valid r small_laws(2) small_start_base_fee
    by (auto simp: small_start_sel)
qed

theorem gas_wanted_counted_per_message_witness:
  "\<exists>priority ctx1 evs msgs. AnteHandle small_ante deliver (small_tx [0, 1]) small_start = Inr ((priority, ctx1), evs, msgs) \<and>
     fee_gas (small_tx [0, 1]) = 60000 \<and> GetTransientGasWanted (sm_feemarket (ctx_store small_start)) = 30000000 \<and>
     GetTransientGasWanted (sm_feemarket (ctx_store ctx1)) = 30000000 + 2 * 60000"
proof -
  obtain priority ctx1 evs msgs where r: "AnteHandle small_ante deliver (small_tx [0, 1]) small_start = Inr ((priority, ctx1), evs, msgs)"
    using small_passes by auto
  have tx: "length (tx_msgs (small_tx [0, 1])) = 2" "tx_isFeeTx (small_tx [0, 1])" "fee_gas (small_tx [0, 1]) = 60000"
    "tx_msgs (small_tx [0, 1]) \<noteq> []" by (simp_all add: small_tx_def fee_gas_def)
  have fm: "GetBaseFeeEnabled (sm_feemarket (ctx_store small_start))" "GetTransientGasWanted (sm_feemarket (ctx_store small_start)) = 30000000"
    by (simp_all add: small_start_def small_ctx_def sample_chain_def GetBaseFeeEnabled_def fm_GetParams_def sample_fm_def GetTransientGasWanted_def)
  show ?thesis
    using gas_wanted_counted_per_message [OF small_laws(1) _ _ _ _ tx(4,2) _ _ r, of 1000000000] small_messages_valid r small_laws(2)
      small_start_base_fee tx fm
    by (auto simp: small_start_sel u64_def)
qed

end
