(* ===== verification/TxLifecycle.thy ===== *)
theory TxLifecycle
  imports AntePayment
begin

text \<open>
  A transaction from its check to its settlement: the steps of EthAnte that let it through, then \<open>ApplyTransaction\<close> of
  StateTransition on the context they leave.

  \<^item> A transaction that fails in the machine costs its sender the gas used at the price per gas, and nothing else.
  \<^item> A transaction passes only with the nonce its sender is at, and moves that nonce on, so it never passes again.
\<close>

section \<open>Failure costs the gas used\<close>

text \<open>What go-ethereum makes of a transaction: the sender, the limit, and the price that the fee was computed with.\<close>

definition message_laws :: "('k, 't, 'base, 'c) ante_host \<Rightarrow> eth_ChainConfig \<Rightarrow> int \<Rightarrow> bool" where
  "message_laws A cfg height \<longleftrightarrow> (\<forall>m d t b msg. em_Data m = Some d \<longrightarrow>
     tx_Validate (ho_eth (an_evm A)) d = Inr () \<longrightarrow> 0 \<le> b \<longrightarrow> AsTransaction (ho_eth (an_evm A)) (an_tx A) m = Some t \<longrightarrow>
     ho_AsMessage (an_evm A) cfg height (Some b) t = Inr msg \<longrightarrow>
     m_Gas msg = GetGas d \<and> m_GasPrice msg = price_per_gas d b \<and> tf_Sender (an_tx A) cfg height t = Inr (m_From msg))"

text \<open>Coins that come out of the fee collector reach their recipient.\<close>

definition refund_laws :: "('k, 't) evm_host \<Rightarrow> string \<Rightarrow> address \<Rightarrow> bool" where
  "refund_laws H denom collector \<longleftrightarrow> (\<forall>a n s s1. 0 \<le> n \<longrightarrow> ho_SendFromModule H FeeCollectorName a denom n s = Inr s1 \<longrightarrow>
     (\<forall>x. x \<noteq> collector \<longrightarrow> ho_GetBalance H s1 x denom = ho_GetBalance H s x denom + (if x = a then n else 0)))"

lemma refund_balance:
  assumes "refund_store H msg cfg res s s1" and "refund_laws H (EvmDenom (cfg_Params cfg)) collector" and "x \<noteq> collector"
  shows "ho_GetBalance H s1 x (EvmDenom (cfg_Params cfg)) =
    ho_GetBalance H s x (EvmDenom (cfg_Params cfg)) + (if x = m_From msg then (m_Gas msg - res_GasUsed res) * m_GasPrice msg else 0)"
proof -
  have "0 \<le> n \<Longrightarrow> ho_SendFromModule H FeeCollectorName a (EvmDenom (cfg_Params cfg)) n s = Inr s1 \<Longrightarrow>
      ho_GetBalance H s1 x (EvmDenom (cfg_Params cfg)) = ho_GetBalance H s x (EvmDenom (cfg_Params cfg)) + (if x = a then n else 0)" for a n
    using assms(2,3) unfolding refund_laws_def by blast
  with assms(1) show ?thesis by (auto simp: refund_store_def gas_refund_def split: if_splits)
qed

lemma EVMConfig_fields:
  assumes "EVMConfig H proposer chainID ctx = Inr cfg"
  shows "cfg_Params cfg = evm_GetParams ctx" "cfg_Ethereum cfg = EthereumConfig (ho_eth H) (cfg_ChainConfig (evm_GetParams ctx)) chainID"
    "cfg_BaseFee cfg = evm_GetBaseFee H (cfg_Ethereum cfg) ctx"
  using assms by (auto simp: EVMConfig_def Let_def rbind_def split: sum.splits)

text \<open>The context after the check differs from the one before in its store and its meters, and the base fee is the same.\<close>

lemma base_fee_after_check:
  assumes "ho_feemarket H (ctx_store ctx1) = (ho_feemarket H (ctx_store ctx))\<lparr>fm_transientGasWanted := g\<rparr>"
    and "ctx1 = ctx\<lparr>ctx_store := s, ctx_gasConsumed := a, ctx_gasLimit := b, ctx_gasUsed := c\<rparr>"
  shows "evm_GetBaseFee H cfg ctx1 = evm_GetBaseFee H cfg ctx" "evm_GetParams ctx1 = evm_GetParams ctx"
    "ctx_BlockHeight ctx1 = ctx_BlockHeight ctx"
  using assms by (simp_all add: evm_GetBaseFee_def evm_getBaseFee_def)

definition one_message :: "'c ante_tx \<Rightarrow> MsgEthereumTx \<Rightarrow> TxData \<Rightarrow> bool" where
  "one_message tx m d \<longleftrightarrow> tx_msgs tx = [EthMsg m] \<and> em_Data m = Some d"

text \<open>The message that goes on is the one that came, with its sender written in.\<close>

lemma one_message_admitted:
  assumes "one_message tx m d" and "AnteHandle A md tx ctx = Inr ((priority, ctx1), evs, msgs)"
  shows "\<exists>t sender. msgs = [EthMsg (m\<lparr>em_From := Hex (ho_eth (an_evm A)) sender\<rparr>)] \<and>
    AsTransaction (ho_eth (an_evm A)) (an_tx A) m = Some t \<and>
    tf_Sender (an_tx A) (ante_config A ctx) (ctx_BlockHeight ctx) t = Inr sender"
proof -
  let ?ctx0 = "ctx\<lparr>ctx_gasConsumed := 0, ctx_gasLimit := 2 ^ 64 - 1, ctx_gasUsed := 0\<rparr>"
  obtain U st where U: "NewMonoDecoratorUtils A md ?ctx0 = Inr U" and
    loop: "ante_messages A md tx 0 (tx_msgs tx)
       \<lparr>as_ctx = ?ctx0, as_utils = U, as_expenses = Map.empty, as_events = [], as_msgs = []\<rparr> = Inr st" and
    fin: "msgs = as_msgs st"
    using assms(2) by (auto simp: AnteHandle_def SetupContext_def split: if_splits)
  have cfg: "du_EthConfig U = ante_config A ctx"
    using U by (auto simp: NewMonoDecoratorUtils_def Let_def ante_config_def split: if_splits)
  obtain m1 d1 where "ante_admit A md U (ctx_BlockHeight ?ctx0) (EthMsg m) = Inr (m1, d1)" "msgs = [EthMsg m1]"
    using loop fin assms(1) by (fastforce simp: one_message_def ante_message_step_def Let_def)
  with ante_admit_message [of A md U _ "EthMsg m"] cfg show ?thesis by fastforce
qed

lemma settle_params:
  assumes "settle_transaction H msg cfg txConfig res tmp ctx = Inr (Inr res1, ctx1)"
  shows "ctx_params ctx1 = ctx_params ctx \<and> ctx_legacyParams ctx1 = ctx_legacyParams ctx"
  using assms
  by (auto simp: settle_transaction_def evm_RefundGas_def AddTransientGasUsed_def ResetGasMeterAndConsumeGas_def meter_RefundGas_def
      ConsumeGas_def addUint64Overflow_def lift_go_def Let_def rbind_def split: if_splits sum.splits)

lemma ApplyTransaction_params:
  assumes "ApplyTransaction H t ctx = Inr (Inr res, ctx1)"
  shows "evm_GetParams ctx1 = evm_GetParams ctx"
proof -
  have "ctx_params ctx1 = ctx_params ctx \<and> ctx_legacyParams ctx1 = ctx_legacyParams ctx"
    using assms settle_params
    by (fastforce simp: ApplyTransaction_def Let_def rbind_def lift_go_def split: sum.splits prod.splits)
  then show ?thesis by (simp add: evm_GetParams_def cong: option.case_cong)
qed

lemma failed_transaction:
  assumes "ante_laws A collector" and "keeper_balance (an_evm A) (EvmDenom (evm_GetParams ctx))"
    and "message_laws A (ante_config A ctx) (ctx_BlockHeight ctx)" and "refund_laws (an_evm A) (EvmDenom (evm_GetParams ctx)) collector"
    and "hex_laws (ho_eth (an_evm A)) (an_tx A)" and "host_laws (an_evm A)" and "gas_laws (an_evm A)"
    and "evm_GetBaseFee (an_evm A) (ante_config A ctx) ctx = Some b" and "0 \<le> b"
    and "one_message tx m d" and "tx_Validate (ho_eth (an_evm A)) d = Inr ()" and "0 \<le> GetGas d" and "GetGas d < 2 ^ 63"
    and "AnteHandle A md tx ctx = Inr ((priority, ctx1), evs, msgs)"
    and "AsTransaction (ho_eth (an_evm A)) (an_tx A) m = Some t"
    and "EVMConfig (an_evm A) (ctx_ProposerAddress ctx1) (ho_chainID (an_evm A)) ctx1 = Inr cfg"
    and "rules_ordered (evm_rules (an_evm A) (ante_config A ctx) False ctx1)" 
    and "known_eips (an_evm A) (evm_rules (an_evm A) (ante_config A ctx) False ctx1) (ExtraEIPs (evm_GetParams ctx))"
    and "0 \<le> GetMinGasMultiplier (an_evm A) ctx1" and "GetMinGasMultiplier (an_evm A) ctx1 \<le> dec_one"
    and "ApplyTransaction (an_evm A) t ctx1 = Inr (Inr res, ctx2)" and "Failed res" and "x \<noteq> collector"
  shows "\<exists>sender. tf_Sender (an_tx A) (ante_config A ctx) (ctx_BlockHeight ctx) t = Inr sender \<and>
    balance_of A ctx2 x = balance_of A ctx x - (if x = sender then res_GasUsed res * price_per_gas d b else 0)"
proof -
  let ?H = "an_evm A" and ?F = "ho_eth (an_evm A)" and ?den = "EvmDenom (evm_GetParams ctx)"
  have tx: "tx_msgs tx = [EthMsg m]" "em_Data m = Some d" using assms(10) by (simp_all add: one_message_def)
  have valid: "\<forall>msg \<in> set (tx_msgs tx). valid_message ?F msg"
    using tx assms(11-13) by (auto simp: valid_message_def in_u64_def)
  note after = AnteHandle_effect [OF assms(1,2,8,9) valid assms(14)]
  obtain s g where ctx1: "ctx1 = ctx\<lparr>ctx_store := s, ctx_gasConsumed := 0, ctx_gasLimit := g, ctx_gasUsed := 0\<rparr>"
    using after(4) by blast
  obtain w where w: "ho_feemarket ?H (ctx_store ctx1) = (ho_feemarket ?H (ctx_store ctx))\<lparr>fm_transientGasWanted := w\<rparr>"
    using after(3) wanted_after_shape by metis
  note same = base_fee_after_check [OF w ctx1]
  obtain sender where m1: "msgs = [EthMsg (m\<lparr>em_From := Hex ?F sender\<rparr>)]"
    and sender: "tf_Sender (an_tx A) (ante_config A ctx) (ctx_BlockHeight ctx) t = Inr sender"
    using one_message_admitted [OF assms(10,14)] assms(15) by auto
  have hex: "HexToAddress ?F (Hex ?F sender) = sender" using assms(5) by (simp add: hex_laws_def)
  have paid: "balance_of A ctx1 x = balance_of A ctx x - (if x = sender then price_per_gas d b * GetGas d else 0)"
    using after(2) [OF assms(23)] m1 tx hex by (simp add: message_charge_def)
  note fields = EVMConfig_fields [OF assms(16)]
  have cfg: "cfg_Ethereum cfg = ante_config A ctx" "cfg_BaseFee cfg = Some b" "cfg_Params cfg = evm_GetParams ctx"
    using fields same assms(8) by (simp_all add: ante_config_def)
  obtain msg where msg: "ho_AsMessage ?H (cfg_Ethereum cfg) (ctx_BlockHeight ctx1) (cfg_BaseFee cfg) t = Inr msg"
    using assms(16,21) by (cases "ho_AsMessage ?H (cfg_Ethereum cfg) (ctx_BlockHeight ctx1) (cfg_BaseFee cfg) t") (auto simp: ApplyTransaction_def)
  then have fit: "m_Gas msg = GetGas d" "m_GasPrice msg = price_per_gas d b" "m_From msg = sender"
    using assms(3,9,11) tx(2) assms(15) sender cfg same(3) unfolding message_laws_def by auto
  have table: "message_table ?H msg cfg ctx1"
    by (rule message_table_known [OF assms(6)]) (use assms(17,18) cfg in simp_all)
  have "refund_store ?H msg cfg res (ctx_store ctx1) (ctx_store ctx2)"
    using ApplyTransaction_settles [OF assms(6,7,16) msg table assms(19,20) _ _ _ assms(21)] assms(12,13,22) fit ctx1
    by (auto simp: in_u64_def)
  moreover have "evm_GetParams ctx2 = evm_GetParams ctx" using ApplyTransaction_params [OF assms(21)] same(2) by simp
  ultimately have "balance_of A ctx2 x = balance_of A ctx1 x + (if x = sender then (GetGas d - res_GasUsed res) * price_per_gas d b else 0)"
    using refund_balance [of ?H msg cfg res "ctx_store ctx1" "ctx_store ctx2" collector x] assms(4,23) cfg same fit
    by (simp add: balance_of_def)
  with paid sender show ?thesis by (auto simp: algebra_simps)
qed

text \<open>
  C9: A transaction of one message that the check let through and that fails in the machine costs its sender the gas used
  at the price per gas of its fee, and costs no other account but the fee collector anything: the fee taken before is the
  gas limit at that price, the refund after is the rest of it, and none of the writes of the machine is kept. The fee
  market is on, and the extra EIPs of the parameters, the default ones among them, have activators.
\<close>

theorem failed_transaction_costs_gas:
  assumes "ante_laws A collector" and "keeper_balance (an_evm A) (EvmDenom (evm_GetParams ctx))"
    and "message_laws A (ante_config A ctx) (ctx_BlockHeight ctx)" and "refund_laws (an_evm A) (EvmDenom (evm_GetParams ctx)) collector"
    and "hex_laws (ho_eth (an_evm A)) (an_tx A)" and "host_laws (an_evm A)" and "gas_laws (an_evm A)"
    and "evm_GetBaseFee (an_evm A) (ante_config A ctx) ctx = Some b" and "0 \<le> b"
    and "one_message tx m d" and "tx_Validate (ho_eth (an_evm A)) d = Inr ()" and "0 \<le> GetGas d" and "GetGas d < 2 ^ 63"
    and "AnteHandle A md tx ctx = Inr ((priority, ctx1), evs, msgs)"
    and "AsTransaction (ho_eth (an_evm A)) (an_tx A) m = Some t"
    and "EVMConfig (an_evm A) (ctx_ProposerAddress ctx1) (ho_chainID (an_evm A)) ctx1 = Inr cfg"
    and "rules_ordered (evm_rules (an_evm A) (ante_config A ctx) False ctx1)" 
    and "known_eips (an_evm A) (evm_rules (an_evm A) (ante_config A ctx) False ctx1) (ExtraEIPs (evm_GetParams ctx))"
    and "0 \<le> GetMinGasMultiplier (an_evm A) ctx1" and "GetMinGasMultiplier (an_evm A) ctx1 \<le> dec_one"
    and "ApplyTransaction (an_evm A) t ctx1 = Inr (Inr res, ctx2)" and "Failed res" and "x \<noteq> collector"
  shows "\<exists>sender. tf_Sender (an_tx A) (ante_config A ctx) (ctx_BlockHeight ctx) t = Inr sender \<and>
    balance_of A ctx2 x = balance_of A ctx x - (if x = sender then res_GasUsed res * price_per_gas d b else 0)"
  by (rule failed_transaction [OF assms])

section \<open>A transaction passes once\<close>

text \<open>What is relied on of the account keeper; moving coins keeps the accounts there are.\<close>

definition keeps_accounts :: "('k, 't, 'base, 'c) ante_host \<Rightarrow> 'k \<Rightarrow> 'k \<Rightarrow> bool" where
  "keeps_accounts A s s1 \<longleftrightarrow> (\<forall>x acc. an_GetAccount A s x = Some acc \<longrightarrow> an_GetAccount A s1 x = Some acc)"

definition account_laws :: "('k, 't, 'base, 'c) ante_host \<Rightarrow> bool" where
  "account_laws A \<longleftrightarrow>
     (\<forall>s acc. \<exists>acc1. an_GetAccount A (an_SetAccount A s acc) (an_Address A (account_base acc)) = Some acc1 \<and>
        account_base acc1 = account_base acc) \<and>
     (\<forall>s acc x. x \<noteq> an_Address A (account_base acc) \<longrightarrow> an_GetAccount A (an_SetAccount A s acc) x = an_GetAccount A s x) \<and>
     (\<forall>s x acc. an_GetAccount A s x = Some acc \<longrightarrow> an_Address A (account_base acc) = x) \<and>
     (\<forall>s x acc s1. an_NewAccountWithAddress A s x = (acc, s1) \<longrightarrow> an_Address A (account_base acc) = x \<and> keeps_accounts A s s1) \<and>
     (\<forall>n b b1. an_SetSequence A n b = Inr b1 \<longrightarrow> an_Address A b1 = an_Address A b \<and> an_GetSequence A b1 = n) \<and>
     (\<forall>s fm. keeps_accounts A s (an_SetFeemarket A fm s)) \<and>
     (\<forall>s x fees s1. an_DeductFees A x fees s = Inr s1 \<longrightarrow> keeps_accounts A s s1) \<and>
     (\<forall>s x v r s1. an_WithdrawRewards A x v s = Inr (r, s1) \<longrightarrow> keeps_accounts A s s1) \<and>
     (\<forall>s x. k_GetAccount (ho_keeper (an_evm A)) s x = None \<longrightarrow> an_GetAccount A s x = None)"

lemma account_lawsD:
  assumes "account_laws A"
  shows "x \<noteq> an_Address A (account_base acc) \<Longrightarrow> an_GetAccount A (an_SetAccount A s acc) x = an_GetAccount A s x"
    "an_GetAccount A s x = Some acc \<Longrightarrow> an_Address A (account_base acc) = x"
    "an_SetSequence A n bs = Inr b1 \<Longrightarrow> an_Address A b1 = an_Address A bs"
    "an_SetSequence A n bs = Inr b1 \<Longrightarrow> an_GetSequence A b1 = n"
    "keeps_accounts A s (an_SetFeemarket A fm s)" "an_DeductFees A x fees s = Inr s1 \<Longrightarrow> keeps_accounts A s s1"
    "an_WithdrawRewards A x v s = Inr (r, s1) \<Longrightarrow> keeps_accounts A s s1"
    "k_GetAccount (ho_keeper (an_evm A)) s x = None \<Longrightarrow> an_GetAccount A s x = None"
    "an_NewAccountWithAddress A s x = (acc, s1) \<Longrightarrow> an_Address A (account_base acc) = x \<and> keeps_accounts A s s1"
    "\<exists>acc1. an_GetAccount A (an_SetAccount A s acc) (an_Address A (account_base acc)) = Some acc1 \<and> account_base acc1 = account_base acc"
  using assms unfolding account_laws_def by metis+

lemma keeps_refl [simp]: "keeps_accounts A s s"
  by (simp add: keeps_accounts_def)

lemma keeps_trans: "keeps_accounts A s s1 \<Longrightarrow> keeps_accounts A s1 s2 \<Longrightarrow> keeps_accounts A s s2"
  by (simp add: keeps_accounts_def)

lemma withdraw_rewards_keeps:
  assumes "account_laws A" and "withdraw_rewards A x den amt vs rewards s = Inr (r, s1)"
  shows "keeps_accounts A s s1"
  using assms(2)
proof (induction vs arbitrary: rewards s)
  case (Cons v vs)
  then obtain reward s2 where s2: "an_WithdrawRewards A x v s = Inr (reward, s2)" by auto
  then have "keeps_accounts A s s2" by (rule account_lawsD(7) [OF assms(1)])
  moreover have "keeps_accounts A s2 s1" using Cons s2 by (auto simp: Let_def split: if_splits)
  ultimately show ?case by (rule keeps_trans)
qed simp

lemma ante_pay_keeps:
  assumes "account_laws A" and "ante_pay A md U from d s = Inr (fees, U1, s1)"
  shows "keeps_accounts A s s1" "du_Rules U1 = du_Rules U"
proof -
  have fees: "deductFees A fees from s = Inr s1" "du_Rules U1 = du_Rules U" using assms(2) by (auto simp: ante_pay_def Let_def)
  then show "du_Rules U1 = du_Rules U" by simp
  have claim: "keeps_accounts A s s2" if "ClaimStakingRewardsIfNecessary A from fees s = Inr s2" for s2
    using that withdraw_rewards_keeps [OF assms(1)]
    by (auto simp: ClaimStakingRewardsIfNecessary_def ClaimSufficientStakingRewards_def Let_def split: option.splits if_splits sum.splits)
  have "keeps_accounts A s2 s1" if "DeductTxCostsFromUserBalance A fees from s2 = Inr s1" for s2
    using that account_lawsD(6) [OF assms(1)] by (auto simp: DeductTxCostsFromUserBalance_def split: option.splits sum.splits)
  with fees(1) claim show "keeps_accounts A s s1"
    by (auto simp: deductFees_def split: if_splits intro: keeps_trans)
qed

lemma ante_account_keeps:
  assumes "account_laws A" and "ante_account A U from m d exps ctx = Inr (acc, exps1, ctx1)"
  shows "keeps_accounts A (ctx_store ctx) (ctx_store ctx1)" "an_GetAccount A (ctx_store ctx1) from = Some acc"
proof -
  obtain v: "VerifyAccountBalance A (k_GetAccount (ho_keeper (an_evm A)) (ctx_store ctx) from) from d ctx = Inr ctx1"
    and acc: "an_GetAccount A (ctx_store ctx1) from = Some acc"
    using assms(2) by (auto simp: ante_account_def Let_def split: option.splits)
  show "an_GetAccount A (ctx_store ctx1) from = Some acc" by (rule acc)
  show "keeps_accounts A (ctx_store ctx) (ctx_store ctx1)"
  proof (cases "k_GetAccount (ho_keeper (an_evm A)) (ctx_store ctx) from")
    case None
    obtain acc s where new: "an_NewAccountWithAddress A (ctx_store ctx) from = (acc, s)" by fastforce
    with v None have "ctx1 = ctx\<lparr>ctx_store := an_SetAccount A s acc\<rparr>"
      by (auto simp: VerifyAccountBalance_def)
    moreover have "an_Address A (account_base acc) = from" "keeps_accounts A (ctx_store ctx) s"
      using account_lawsD(9) [OF assms(1) new] by simp_all
    moreover have "an_GetAccount A (ctx_store ctx) from = None" by (rule account_lawsD(8) [OF assms(1) None])
    moreover have "an_GetAccount A (an_SetAccount A s acc) x = an_GetAccount A s x" if "x \<noteq> an_Address A (account_base acc)" for x
      using account_lawsD(1) [OF assms(1) that] .
    ultimately show ?thesis unfolding keeps_accounts_def by (metis chain_ctx.select_convs(1) chain_ctx.surjective chain_ctx.update_convs(1) option.distinct(1))
  next
    case (Some acct)
    with v show ?thesis by (auto simp: VerifyAccountBalance_def split: option.splits if_splits)
  qed
qed

lemma with_base_base [simp]: "account_base (with_base acc b) = b"
  by (cases acc) auto

text \<open>A message that passes carries the sequence of its sender's account, if there is one, and moves it on.\<close>

definition sequence_of :: "('k, 't, 'base, 'c) ante_host \<Rightarrow> 'k \<Rightarrow> address \<Rightarrow> int option" where
  "sequence_of A s x = map_option (\<lambda>acc. an_GetSequence A (account_base acc)) (an_GetAccount A s x)"

lemma ante_step_sequence:
  assumes "account_laws A" and "ante_message_step A md tx i msg st = Inr st1"
  shows "\<exists>m d. ante_admit A md (as_utils st) (ctx_BlockHeight (as_ctx st)) msg = Inr (m, d) \<and>
    (\<forall>n. sequence_of A (ctx_store (as_ctx st)) (HexToAddress (ho_eth (an_evm A)) (em_From m)) = Some n \<longrightarrow> n = tx_GetNonce d) \<and>
    sequence_of A (ctx_store (as_ctx st1)) (HexToAddress (ho_eth (an_evm A)) (em_From m)) = Some (u64 (tx_GetNonce d + 1))"
proof -
  let ?F = "ho_eth (an_evm A)" and ?U = "as_utils st" and ?ctx = "as_ctx st"
  note laws = account_lawsD [OF assms(1)]
  obtain m d acc exps ctx1 fees U1 s2 s3 ctx2 where
    admit: "ante_admit A md ?U (ctx_BlockHeight ?ctx) msg = Inr (m, d)" and
    account: "ante_account A ?U (HexToAddress ?F (em_From m)) m d (as_expenses st) ?ctx = Inr (acc, exps, ctx1)" and
    pay: "ante_pay A md ?U (HexToAddress ?F (em_From m)) d (ctx_store ctx1) = Inr (fees, U1, s2)" and
    nonce: "IncrementNonce A acc (tx_GetNonce d) s2 = Inr s3" and
    wanted: "CheckGasWanted A tx (IsLondon (du_Rules U1)) (ctx1\<lparr>ctx_store := s3\<rparr>) = Inr ctx2" and
    st1: "as_ctx st1 = ctx2"
    using assms(2) by (fastforce simp: ante_message_step_def Let_def)
  let ?x = "HexToAddress ?F (em_From m)"
  note acc = ante_account_keeps [OF assms(1) account]
  obtain b where b: "an_SetSequence A (u64 (tx_GetNonce d + 1)) (account_base acc) = Inr b" "s3 = an_SetAccount A s2 (with_base acc b)"
    "tx_GetNonce d = an_GetSequence A (account_base acc)"
    using nonce by (auto simp: IncrementNonce_def Let_def split: if_splits sum.splits)
  have "an_Address A b = ?x" using laws(2) [OF acc(2)] laws(3) [OF b(1)] by simp
  then obtain acc1 where "an_GetAccount A s3 ?x = Some acc1" "account_base acc1 = b" using b(2) laws(10) [of s2 "with_base acc b"] by auto
  moreover have "keeps_accounts A s3 (ctx_store ctx2)"
    using wanted laws(5) by (auto simp: CheckGasWanted_def Let_def split: if_splits)
  ultimately have "sequence_of A (ctx_store (as_ctx st1)) ?x = Some (u64 (tx_GetNonce d + 1))"
    using laws(4) [OF b(1)] st1 by (simp add: sequence_of_def keeps_accounts_def)
  moreover have "n = tx_GetNonce d" if "sequence_of A (ctx_store ?ctx) ?x = Some n" for n
    using that acc b(3) by (auto simp: sequence_of_def keeps_accounts_def)
  ultimately show ?thesis using admit by blast
qed

lemma one_message_sequence:
  assumes "account_laws A" and "hex_laws (ho_eth (an_evm A)) (an_tx A)" and "one_message tx m d"
    and "AnteHandle A md tx ctx = Inr ((priority, ctx1), evs, msgs)"
    and "AsTransaction (ho_eth (an_evm A)) (an_tx A) m = Some t"
    and "tf_Sender (an_tx A) (ante_config A ctx) (ctx_BlockHeight ctx) t = Inr sender"
  shows "\<forall>n. sequence_of A (ctx_store ctx) sender = Some n \<longrightarrow> n = tx_GetNonce d"
    "sequence_of A (ctx_store ctx1) sender = Some (u64 (tx_GetNonce d + 1))"
proof -
  let ?ctx0 = "ctx\<lparr>ctx_gasConsumed := 0, ctx_gasLimit := 2 ^ 64 - 1, ctx_gasUsed := 0\<rparr>"
  obtain U st where U: "NewMonoDecoratorUtils A md ?ctx0 = Inr U" and
    step: "ante_message_step A md tx 0 (EthMsg m)
       \<lparr>as_ctx = ?ctx0, as_utils = U, as_expenses = Map.empty, as_events = [], as_msgs = []\<rparr> = Inr st" and
    fin: "CheckBlockGasLimit (du_GasWanted (as_utils st)) (du_MinPriority (as_utils st)) (as_ctx st) = Inr (priority, ctx1)"
    using assms(3,4) by (auto simp: AnteHandle_def SetupContext_def one_message_def split: if_splits)
  have cfg: "du_EthConfig U = ante_config A ctx"
    using U by (auto simp: NewMonoDecoratorUtils_def Let_def ante_config_def split: if_splits)
  have store: "ctx_store ctx1 = ctx_store (as_ctx st)" using fin by (auto simp: CheckBlockGasLimit_def split: if_splits)
  obtain m1 d1 where m1: "ante_admit A md U (ctx_BlockHeight ?ctx0) (EthMsg m) = Inr (m1, d1)"
    "\<forall>n. sequence_of A (ctx_store ctx) (HexToAddress (ho_eth (an_evm A)) (em_From m1)) = Some n \<longrightarrow> n = tx_GetNonce d1"
    "sequence_of A (ctx_store ctx1) (HexToAddress (ho_eth (an_evm A)) (em_From m1)) = Some (u64 (tx_GetNonce d1 + 1))"
    using ante_step_sequence [OF assms(1) step] store by auto
  have "d1 = d" "HexToAddress (ho_eth (an_evm A)) (em_From m1) = sender"
    using ante_admit_message [OF m1(1)] assms(2,3,5,6) cfg by (auto simp: one_message_def hex_laws_def)
  with m1 show "\<forall>n. sequence_of A (ctx_store ctx) sender = Some n \<longrightarrow> n = tx_GetNonce d"
    "sequence_of A (ctx_store ctx1) sender = Some (u64 (tx_GetNonce d + 1))" by auto
qed

lemma u64_next: "u64 (n + 1) \<noteq> n"
proof
  assume eq: "u64 (n + 1) = n"
  then have "(n + 1) mod 2 ^ 64 = n mod 2 ^ 64" using mod_mod_trivial [of "n + 1" "2 ^ 64"] by (simp add: u64_def)
  then show False by (simp add: mod_eq_dvd_iff)
qed

text \<open>
  C10: A transaction passes only with the nonce that the account of its sender is at, and when it has passed the account is
  at the next one; and the same transaction is refused, in every mode and in every block, wherever its sender is at another
  nonce.
\<close>

theorem transaction_passes_once:
  assumes "account_laws A" and "hex_laws (ho_eth (an_evm A)) (an_tx A)" and "one_message tx m d"
    and "AnteHandle A md tx ctx = Inr ((priority, ctx1), evs, msgs)"
    and "AsTransaction (ho_eth (an_evm A)) (an_tx A) m = Some t"
    and "tf_Sender (an_tx A) (ante_config A ctx) (ctx_BlockHeight ctx) t = Inr sender"
    and "sequence_of A (ctx_store ctx) sender = Some n"
  shows "tx_GetNonce d = n \<and> sequence_of A (ctx_store ctx1) sender = Some (u64 (n + 1)) \<and> u64 (n + 1) \<noteq> n \<and>
    (\<forall>md2 ctx2 k r. tf_Sender (an_tx A) (ante_config A ctx2) (ctx_BlockHeight ctx2) t = Inr sender \<and>
       sequence_of A (ctx_store ctx2) sender = Some k \<and> k \<noteq> n \<longrightarrow> AnteHandle A md2 tx ctx2 \<noteq> Inr r)"
proof -
  have n: "tx_GetNonce d = n" "sequence_of A (ctx_store ctx1) sender = Some (u64 (n + 1))"
    using one_message_sequence [OF assms(1-6)] assms(7) by auto
  moreover have "AnteHandle A md2 tx ctx2 \<noteq> Inr r" if "tf_Sender (an_tx A) (ante_config A ctx2) (ctx_BlockHeight ctx2) t = Inr sender"
    "sequence_of A (ctx_store ctx2) sender = Some k" "k \<noteq> n" for md2 ctx2 k r
  proof
    obtain priority2 ctx3 evs2 msgs2 where r: "r = ((priority2, ctx3), evs2, msgs2)" by (metis prod.collapse)
    assume "AnteHandle A md2 tx ctx2 = Inr r"
    from one_message_sequence(1) [OF assms(1-3) this [unfolded r] assms(5) that(1)] that(2,3) n show False by simp
  qed
  ultimately show ?thesis using n u64_next by blast
qed

section \<open>Witnesses\<close>

text \<open>On the chain of AntePayment account 7 may not call: its transaction passes the check and fails in the machine.\<close>

lemma small_message_laws: "message_laws small_ante c h"
proof -
  have "m_Gas (message_of (Some b) t) = GetGas d \<and> m_GasPrice (message_of (Some b) t) = price_per_gas d b"
    if "em_Data m = Some d" and valid: "tx_Validate plain_eth d = Inr ()" and "0 \<le> b" "AsTransaction plain_eth plain_tx_fns m = Some t" for m d t b
  proof (cases d)
    case (Legacy tx)
    then obtain p where "lt_GasPrice tx = Some p" "0 \<le> p" using valid LegacyTx_Validate_ok [of plain_eth tx] by (auto simp: tx_Validate_def)
    with Legacy that valid show ?thesis
      by (auto simp: AsTransaction_def UnpackTxData_def AsEthereumData_def LegacyTx_AsEthereumData_def plain_tx_fns_def norm_fields_def or0_def
          message_of_def the_int_def Let_def GetGas_def price_per_gas_def GetGasTipCap_def GetGasFeeCap_def split: prod.splits)
  next
    case (AccessListT tx)
    then obtain p where "at_GasPrice tx = Some p" "0 \<le> p" using valid AccessListTx_Validate_ok [of plain_eth tx] by (auto simp: tx_Validate_def)
    with AccessListT that valid show ?thesis
      by (auto simp: AsTransaction_def UnpackTxData_def AsEthereumData_def AccessListTx_AsEthereumData_def plain_tx_fns_def norm_fields_def or0_def
          message_of_def the_int_def Let_def GetGas_def price_per_gas_def GetGasTipCap_def GetGasFeeCap_def split: prod.splits)
  next
    case (DynamicFee tx)
    then obtain p f where "dt_GasTipCap tx = Some p" "dt_GasFeeCap tx = Some f"
      using valid DynamicFeeTx_Validate_ok [of plain_eth tx] by (auto simp: tx_Validate_def)
    with DynamicFee that valid show ?thesis
      by (auto simp: AsTransaction_def UnpackTxData_def AsEthereumData_def DynamicFeeTx_AsEthereumData_def plain_tx_fns_def norm_fields_def or0_def
          message_of_def the_int_def Let_def GetGas_def price_per_gas_def GetGasTipCap_def GetGasFeeCap_def split: prod.splits)
  qed
  moreover have "m_From (message_of b t) = 7" for b t by (simp add: message_of_def Let_def)
  moreover have "tf_Sender plain_tx_fns c h t = Inr 7" for t by (simp add: plain_tx_fns_def)
  ultimately show ?thesis by (auto simp: message_laws_def)
qed

lemma small_refund_laws: "refund_laws small_evm ''unxq'' 99"
  by (auto simp: refund_laws_def small_evm_def small_balance_def move_small_def Let_def split: if_splits)

lemma small_accounts: "an_GetAccount small_ante s x = Some (EthAccount (x, sm_nonces s x) '''')"
  "an_SetAccount small_ante s acc = (let (a, n) = account_base acc in s\<lparr>sm_nonces := (sm_nonces s)(a := n)\<rparr>)"
  "an_Address small_ante = fst" "an_GetSequence small_ante = snd" "an_SetSequence small_ante n b = Inr (fst b, n)"
  "an_NewAccountWithAddress small_ante s x = (EthAccount (x, 0) '''', s)" "an_SetFeemarket small_ante fm s = s\<lparr>sm_feemarket := fm\<rparr>"
  "an_WithdrawRewards small_ante x v s = Inl ''no delegation''" "an_DeductFees small_ante x fees s = Inr s1 \<Longrightarrow> sm_nonces s1 = sm_nonces s"
  by (auto simp: small_ante_def move_small_def Let_def split: if_splits)

lemma small_account_laws: "account_laws small_ante"
proof -
  have keeps: "sm_nonces s1 = sm_nonces s \<Longrightarrow> keeps_accounts small_ante s s1" for s s1
    by (simp add: keeps_accounts_def small_accounts)
  have "k_GetAccount small_keeper s x \<noteq> None" for s x by (simp add: small_keeper_def)
  then show ?thesis
    by (auto simp: account_laws_def small_accounts(1-8) keeps small_accounts(9) split: prod.splits)
qed

theorem transaction_passes_once_witness:
  "\<exists>priority ctx1 evs msgs. AnteHandle small_ante deliver (small_tx [0]) small_start = Inr ((priority, ctx1), evs, msgs) \<and>
     sequence_of small_ante (ctx_store small_start) 7 = Some 0 \<and> sequence_of small_ante (ctx_store ctx1) 7 = Some 1 \<and>
     (\<forall>md r. AnteHandle small_ante md (small_tx [0]) ctx1 \<noteq> Inr r)"
proof -
  obtain priority ctx1 evs msgs where r: "AnteHandle small_ante deliver (small_tx [0]) small_start = Inr ((priority, ctx1), evs, msgs)"
    using small_passes_one by auto
  have one: "one_message (small_tx [0]) \<lparr>em_Data = Some (small_data 0), em_Size = False, em_Hash = ''h'', em_From = []\<rparr> (small_data 0)"
    by (simp add: one_message_def small_tx_def)
  obtain t where t: "AsTransaction plain_eth plain_tx_fns \<lparr>em_Data = Some (small_data 0), em_Size = False, em_Hash = ''h'', em_From = []\<rparr> = Some t"
    by (simp add: AsTransaction_def UnpackTxData_def)
  have sender: "tf_Sender plain_tx_fns c h t = Inr 7" for c h by (simp add: plain_tx_fns_def)
  have start: "sequence_of small_ante (ctx_store small_start) 7 = Some 0"
    by (simp add: sequence_of_def small_accounts small_start_sel)
  show ?thesis
    using transaction_passes_once [OF small_account_laws _ one r, of t 7 0] t sender start r plain_laws(2)
    by (auto simp: u64_def)
qed

text \<open>The message of account 7 does not get through the hooks of the machine.\<close>

lemma small_call_refused:
  assumes "m_From msg = 7" and "m_To msg = Some to" and "cfg_Params cfg = closed_params"
  shows "execute_message (NewEVM_calls (NewEVM_env small_evm msg cfg ctx) jt) K msg gas (NewEVM_state db) =
    Inr (([], gas, Some (OtherError ''caller address does not have permission to perform a call'')), NewEVM_state db)"
  using assms
  by (simp add: execute_message_def NewEVM_calls_def callee_of_def evm_Call_def guarded_def NewEVM_env_def message_CallHook_def
      policy_hooks_def hooks_CallHook_def AddCallHooks_def AddCreateHooks_def Let_def NewDefaultOpCodesHooks_def GetCallHook_def
      NewRestrictedPermissionPolicy_def getCanCallFn_def permissionedCheckFn_def closed_params_def open_access_def lift_go_def)

lemma small_fails:
  assumes "evm_GetParams ctx = closed_params" and "ctx_gasUsed ctx = 0" and "sm_feemarket (ctx_store ctx) = (sample_fm 2 0)\<lparr>fm_transientGasWanted := g\<rparr>"
    and "AsTransaction plain_eth plain_tx_fns m = Some t" and "em_Data m = Some (small_data n)"
  shows "\<exists>cfg res ctx2. EVMConfig small_evm (ctx_ProposerAddress ctx) (Some 9000) ctx = Inr cfg \<and> 
    ApplyTransaction small_evm t ctx = Inr (Inr res, ctx2) \<and> Failed res"
proof -
  let ?msg = "\<lparr>m_From = 7, m_To = Some 50, m_Nonce = n, m_Value = 1000, m_Gas = 30000, m_GasPrice = 1500000000, m_GasFeeCap = 2000000000,
      m_GasTipCap = 500000000, m_Data = [], m_AccessList = [], m_IsFake = False\<rparr>"
  have msg: "message_of (Some 1000000000) t = ?msg" using small_admitted_message [OF assms(5)] assms(4) by auto
  have fee: "evm_GetBaseFee small_evm c ctx = Some 1000000000" for c
    using assms(3) by (simp add: evm_GetBaseFee_def evm_getBaseFee_def GetBaseFee_def fm_GetParams_def sample_fm_def or_zero_def)
  obtain cfg where cfg: "EVMConfig small_evm (ctx_ProposerAddress ctx) (Some 9000) ctx = Inr cfg" "cfg_Params cfg = closed_params"
    "cfg_BaseFee cfg = Some 1000000000"
    using assms(1) fee by (simp add: EVMConfig_def GetCoinbaseAddress_def small_evm_def Let_def)
  obtain rest jt where jt: "NewEVM_table small_evm cfg ctx = Inr (rest, jt)"
    using small_table [of cfg ctx] cfg(2) by (auto simp: closed_params_def)
  have mult: "GetMinGasMultiplier small_evm ctx = 5 * 10 ^ 17"
    using assms(3) by (simp add: GetMinGasMultiplier_def fm_GetParams_def sample_fm_def or_zero_def)
  let ?tc = "evm_TxConfig (ho_Hash small_evm t) ctx"
  let ?db = "NewStateDB (ctx_store ctx) ?tc"
  have commit: "Commit small_keeper (ev_StateDB (NewEVM_state ?db)) = Inr (ctx_store ctx)"
    by (simp add: Commit_def commitWithCtx_def sortedDirties_def NewStateDB_def NewEVM_state_def)
  obtain gas where gas: "30000 * (5 * 10 ^ 17) div dec_one \<le> gas" "gas \<le> 30000"
    "finish_message small_evm ?msg True cfg ?tc ctx (([], 9000, Some (OtherError ''caller address does not have permission to perform a call'')),
       NewEVM_state ?db) = Inr (Inr \<lparr>res_GasUsed = gas,
       res_VmError = Some (OtherError ''caller address does not have permission to perform a call''), res_Ret = [],
       res_Logs = sd_logs (ev_StateDB (NewEVM_state ?db)), res_Hash = tx_TxHash ?tc\<rparr>, ctx_store ctx)"
    using finish_message_charges [OF small_laws(4), of ctx 9000 ?msg True cfg ?tc "[]"
        "Some (OtherError ''caller address does not have permission to perform a call'')" "NewEVM_state ?db"] commit
    by (auto simp: mult dec_one_def lift_go_err_def)
  obtain res where res: "ApplyMessageWithConfig small_evm ?msg True cfg ?tc ctx = Inr (Inr res, ctx_store ctx)" "Failed res"
    "0 \<le> res_GasUsed res" "res_GasUsed res \<le> 30000"
  proof
    show "ApplyMessageWithConfig small_evm ?msg True cfg ?tc ctx = Inr (Inr \<lparr>res_GasUsed = gas,
       res_VmError = Some (OtherError ''caller address does not have permission to perform a call''), res_Ret = [],
       res_Logs = sd_logs (ev_StateDB (NewEVM_state ?db)), res_Hash = tx_TxHash ?tc\<rparr>, ctx_store ctx)"
      using gas(3) small_call_refused [OF _ _ cfg(2), of ?msg 50 ctx jt small_keeper 9000 ?db]
      by (simp add: ApplyMessageWithConfig_def jt GetEthIntrinsicGas_def Let_def evm_rules_def plain_eth_def lift_go_def)
  qed (use gas(1,2) in \<open>simp_all add: Failed_def dec_one_def\<close>)
  have "\<exists>ctx1. settle_transaction small_evm ?msg cfg ?tc res (ctx_store ctx) ctx = Inr (Inr res, ctx1)"
    using res(2-4) cfg(2) assms(2) small_start_sel(5)
    by (auto simp: settle_transaction_def evm_RefundGas_def AddTransientGasUsed_def u64_id small_evm_def
        ResetGasMeterAndConsumeGas_def meter_RefundGas_def ConsumeGas_def addUint64Overflow_def Let_def lift_go_def)
  then show ?thesis
    using cfg res msg by (auto simp: ApplyTransaction_def Let_def)
qed

theorem failed_transaction_costs_gas_witness:
  "\<exists>priority ctx1 evs msgs t res ctx2. AnteHandle small_ante deliver (small_tx [0]) small_start = Inr ((priority, ctx1), evs, msgs) \<and>
     ApplyTransaction small_evm t ctx1 = Inr (Inr res, ctx2) \<and> Failed res \<and>
     ExtraEIPs (evm_GetParams small_start) = [''ethereum_3855''] \<and>
     balance_of small_ante ctx2 7 = balance_of small_ante small_start 7 - res_GasUsed res * 1500000000"
proof -
  obtain priority ctx1 evs msgs where r: "AnteHandle small_ante deliver (small_tx [0]) small_start = Inr ((priority, ctx1), evs, msgs)"
    using small_passes_one by auto
  let ?m = "\<lparr>em_Data = Some (small_data 0), em_Size = False, em_Hash = ''h'', em_From = []\<rparr>"
  have one: "one_message (small_tx [0]) ?m (small_data 0)" by (simp add: one_message_def small_tx_def)
  obtain t where t: "AsTransaction plain_eth plain_tx_fns ?m = Some t" by (simp add: AsTransaction_def UnpackTxData_def)
  have base: "evm_GetBaseFee small_evm (ante_config small_ante small_start) small_start = Some 1000000000" by (rule small_start_base_fee)
  have denom: "EvmDenom (evm_GetParams small_start) = ''unxq''" by (simp only: small_start_sel)
  have keeper: "keeper_balance (an_evm small_ante) (EvmDenom (evm_GetParams small_start))" using small_laws(2) denom by simp
  have refund: "refund_laws (an_evm small_ante) (EvmDenom (evm_GetParams small_start)) 99" using small_refund_laws denom by simp
  note after = AnteHandle_effect(3,4) [OF small_laws(1) keeper, unfolded small_ante_sel, OF base _ small_messages_valid r]
  obtain s g where ctx1: "ctx1 = small_start\<lparr>ctx_store := s, ctx_gasConsumed := 0, ctx_gasLimit := g, ctx_gasUsed := 0\<rparr>" using after(2) by auto
  obtain w where w: "sm_feemarket (ctx_store ctx1) = (sample_fm 2 0)\<lparr>fm_transientGasWanted := w\<rparr>"
    using after(1) wanted_after_shape small_start_sel(2) by (metis small_store.select_convs(2) zero_le_numeral)
  have params: "evm_GetParams ctx1 = closed_params" by (simp add: ctx1 small_start_sel)
  obtain cfg res ctx2 where run: "EVMConfig small_evm (ctx_ProposerAddress ctx1) (Some 9000) ctx1 = Inr cfg"
    "ApplyTransaction small_evm t ctx1 = Inr (Inr res, ctx2)" "Failed res"
    using small_fails [OF params _ w t, of 0] ctx1 by auto
  have mult: "GetMinGasMultiplier small_evm ctx1 = 5 * 10 ^ 17"
    using w by (simp add: GetMinGasMultiplier_def fm_GetParams_def sample_fm_def or_zero_def)
  have eips: "known_eips (an_evm small_ante) (evm_rules (an_evm small_ante) (ante_config small_ante small_start) False ctx1) (ExtraEIPs (evm_GetParams small_start))"
    by (simp add: small_start_sel small_known_eips)
  have "tf_Sender plain_tx_fns c h t = Inr 7" for c h by (simp add: plain_tx_fns_def)
  then have "balance_of small_ante ctx2 7 = balance_of small_ante small_start 7 - res_GasUsed res * 1500000000"
    using failed_transaction_costs_gas [OF small_laws(1) keeper small_message_laws refund _ _ _ _ _ one _ _ _ r _ _ _ eips _ _ _ run(3), of 1000000000 t cfg ctx2 7]
      plain_laws(2) small_laws(3,4) base t run(1,2) mult
    by (simp add: small_data_valid small_prices dec_one_def)
  moreover have "ExtraEIPs (evm_GetParams small_start) = [''ethereum_3855'']"
    by (simp add: small_start_sel closed_params_def evm_DefaultParams_def)
  ultimately show ?thesis using r run(2,3) by blast
qed

end
