(* ===== verification/GasEstimate.thy ===== *)
theory GasEstimate
  imports TxLifecycle
begin

text \<open>
  Gas estimation and internal contract calls (BinSearch of x/evm/types/utils.go; EstimateGas, EstimateGasInternal and the
  plain queries of x/evm/keeper/grpc_query.go; x/evm/keeper/call_evm.go).

  \<^item> The binary search is a partial function: \<open>None\<close> is a search that never ends.
  \<^item> What a gas limit is tried with is a function \<open>exec\<close> of it, which gives whether it failed and the response. It is
    built from the request once (\<open>estimate_request\<close>), and \<open>estimate_search\<close> is the rest of the code.
  \<^item> The arguments arrive as JSON; the model starts from what the decoder makes of it.
\<close>

section \<open>The search\<close>

type_synonym attempt = "evm_stop + string + bool \<times> Response option"

partial_function (option) BinSearch :: "(int \<Rightarrow> attempt) \<Rightarrow> int \<Rightarrow> int \<Rightarrow> (evm_stop + string + int) option" where
  "BinSearch exec lo hi =
     (if u64 (lo + 1) < hi then
        let mid = u64 (hi + lo) div 2 in
        case exec mid of
          Inl stop \<Rightarrow> Some (Inl stop)
        | Inr (Inl e) \<Rightarrow> Some (Inr (Inl e))
        | Inr (Inr (failed, _)) \<Rightarrow> if failed then BinSearch exec mid hi else BinSearch exec lo mid
      else Some (Inr (Inr hi)))"

definition fails :: "(int \<Rightarrow> attempt) \<Rightarrow> int \<Rightarrow> bool" where
  "fails exec g \<longleftrightarrow> (\<exists>rsp. exec g = Inr (Inr (True, rsp)))"

definition succeeds :: "(int \<Rightarrow> attempt) \<Rightarrow> int \<Rightarrow> bool" where
  "succeeds exec g \<longleftrightarrow> (\<exists>rsp. exec g = Inr (Inr (False, rsp)))"

lemma BinSearch_stops: "\<not> u64 (lo + 1) < hi \<Longrightarrow> BinSearch exec lo hi = Some (Inr (Inr hi))"
  by (simp add: BinSearch.simps)

lemma search_mid:
  assumes "0 \<le> lo" and "lo + 1 < hi" and "hi \<le> 2 ^ 63"
  shows "u64 (lo + 1) < hi" "u64 (hi + lo) div 2 = (hi + lo) div 2" "lo < (hi + lo) div 2" "(hi + lo) div 2 < hi"
  using assms by (simp_all add: u64_id in_u64_def)

text \<open>While the sum of the ends stays below \<open>2 ^ 64\<close>, the search is one between them.\<close>

lemma BinSearch_result:
  assumes "0 \<le> lo" and "lo < 2 ^ 63" and "hi \<le> 2 ^ 63"
  shows "\<exists>r. BinSearch exec lo hi = Some r \<and>
    (\<forall>g. r = Inr (Inr g) \<longrightarrow> (g = hi \<or> succeeds exec g) \<and> min (lo + 1) hi \<le> g \<and> g \<le> hi \<and> (lo + 1 < g \<longrightarrow> fails exec (g - 1)))"
  using assms
proof (induction "nat (hi - lo)" arbitrary: lo hi rule: less_induct)
  case less
  show ?case
  proof (cases "lo + 1 < hi")
    case False
    moreover from this have "\<not> u64 (lo + 1) < hi" using less.prems by (simp add: u64_id in_u64_def)
    ultimately show ?thesis by (simp add: BinSearch_stops)
  next
    case True
    note mid = search_mid [OF less.prems(1) True less.prems(3)]
    let ?mid = "(hi + lo) div 2"
    show ?thesis
    proof (cases "exec ?mid")
      case (Inl stop)
      with mid show ?thesis by (subst BinSearch.simps) simp
    next
      case (Inr r)
      show ?thesis
      proof (cases r)
        case (Inl e)
        with mid Inr show ?thesis by (subst BinSearch.simps) simp
      next
        case (Inr a)
        obtain failed rsp where a: "exec ?mid = Inr (Inr (failed, rsp))" using \<open>exec ?mid = Inr r\<close> Inr by (cases a) auto
        show ?thesis
        proof (cases failed)
          case True
          then obtain r1 where r1: "BinSearch exec ?mid hi = Some r1" "\<forall>g. r1 = Inr (Inr g) \<longrightarrow> (g = hi \<or> succeeds exec g) \<and>
              min (?mid + 1) hi \<le> g \<and> g \<le> hi \<and> (?mid + 1 < g \<longrightarrow> fails exec (g - 1))"
            using less.hyps [of hi ?mid] mid less.prems by auto
          moreover have "BinSearch exec lo hi = BinSearch exec ?mid hi"
            using mid a True by (subst BinSearch.simps) simp
          moreover have "fails exec ?mid" using a True by (auto simp: fails_def)
          ultimately show ?thesis using mid(3,4) by (intro exI [of _ r1]) (smt (verit, best))
        next
          case False
          then obtain r1 where r1: "BinSearch exec lo ?mid = Some r1" "\<forall>g. r1 = Inr (Inr g) \<longrightarrow> (g = ?mid \<or> succeeds exec g) \<and>
              min (lo + 1) ?mid \<le> g \<and> g \<le> ?mid \<and> (lo + 1 < g \<longrightarrow> fails exec (g - 1))"
            using less.hyps [of ?mid lo] mid less.prems by auto
          moreover have "BinSearch exec lo hi = BinSearch exec lo ?mid"
            using mid a False by (subst BinSearch.simps) simp
          moreover have "succeeds exec ?mid" using a False by (auto simp: succeeds_def)
          ultimately show ?thesis using mid(3,4) by (intro exI [of _ r1]) (smt (verit, best))
        qed
      qed
    qed
  qed
qed

text \<open>With the largest upper end the sum wraps around, and the lower end is moved down: a search that only fails goes on.\<close>

lemma wrapped_mid:
  assumes "0 \<le> lo" and "lo < 2 ^ 63"
  shows "u64 (lo + 1) < 2 ^ 64 - 1" "0 \<le> u64 (2 ^ 64 - 1 + lo) div 2" "u64 (2 ^ 64 - 1 + lo) div 2 < 2 ^ 63"
  using assms by (simp_all add: u64_id in_u64_def) (simp_all add: u64_def)

lemma BinSearch_never_ends:
  assumes "\<forall>g. 0 \<le> g \<and> g < 2 ^ 63 \<longrightarrow> fails exec g" and "0 \<le> lo" and "lo < 2 ^ 63"
  shows "BinSearch exec lo (2 ^ 64 - 1) = None"
proof (rule ccontr)
  assume "BinSearch exec lo (2 ^ 64 - 1) \<noteq> None"
  then obtain r where r: "BinSearch exec lo (2 ^ 64 - 1) = Some r" by auto
  define P where "P = (\<lambda>exec (lo :: int) (hi :: int) (r :: evm_stop + string + int). (\<forall>g. 0 \<le> g \<and> g < 2 ^ 63 \<longrightarrow> fails exec g) \<longrightarrow>
    0 \<le> lo \<longrightarrow> lo < 2 ^ 63 \<longrightarrow> hi \<noteq> 2 ^ 64 - 1)"
  have "P exec lo (2 ^ 64 - 1) r"
  proof (rule BinSearch.raw_induct [where P = P, OF _ r])
    fix f exec lo hi r
    assume IH: "\<And>exec lo hi r. f exec lo hi = Some r \<Longrightarrow> P exec lo hi r"
      and eq: "(if u64 (lo + 1) < hi then
        let mid = u64 (hi + lo) div 2 in
        case exec mid of
          Inl stop \<Rightarrow> Some (Inl stop)
        | Inr (Inl e) \<Rightarrow> Some (Inr (Inl e))
        | Inr (Inr (failed, _)) \<Rightarrow> if failed then f exec mid hi else f exec lo mid
      else Some (Inr (Inr hi))) = Some r"
    show "P exec lo hi r" unfolding P_def
    proof (intro impI notI)
      assume fail: "\<forall>g. 0 \<le> g \<and> g < 2 ^ 63 \<longrightarrow> fails exec g" and lo: "0 \<le> lo" "lo < 2 ^ 63" and hi: "hi = 2 ^ 64 - 1"
      note mid = wrapped_mid [OF lo]
      from fail mid(2,3) obtain rsp where "exec (u64 (hi + lo) div 2) = Inr (Inr (True, rsp))" unfolding hi fails_def by blast
      with eq hi mid(1) have "f exec (u64 (hi + lo) div 2) hi = Some r" by (simp add: Let_def)
      from IH [OF this] fail mid(2,3) hi show False by (simp add: P_def)
    qed
  qed
  with assms show False by (simp add: P_def)
qed

section \<open>Estimating gas\<close>

text \<open>\<open>TxGas\<close> is a constant of go-ethereum, the intrinsic gas of a plain transaction; \<open>DefaultGasCap\<close> is the one of server/config.\<close>

definition TxGas :: int where "TxGas = 21000"

definition DefaultGasCap :: int where "DefaultGasCap = 25000000"

definition NewEmptyAccount :: "'k keeper \<Rightarrow> Account" where
  "NewEmptyAccount K = \<lparr>Nonce = 0, Balance = 0, CodeHash = emptyCodeHash K\<rparr>"

text \<open>The account as it is written back: without a balance there is nothing to compute with.\<close>

definition account_of_raw :: "RawAccount \<Rightarrow> evm_stop + Account" where
  "account_of_raw acct = (case raw_Balance acct of
      None \<Rightarrow> Inl (Panicked nil_deref)
    | Some b \<Rightarrow> Inr \<lparr>Nonce = raw_Nonce acct, Balance = b, CodeHash = (case raw_CodeHash acct of None \<Rightarrow> 0 | Some h \<Rightarrow> h)\<rparr>)"

text \<open>
  Where an attempt runs. \<open>newAccount s a\<close> is the store with a new account for \<open>a\<close>. For a request from outside the sender
  exists and is at the nonce after that of the message, and the gas meter is a fresh one.
\<close>

definition attempt_ctx ::
  "('k, 't) evm_host \<Rightarrow> ('k \<Rightarrow> address \<Rightarrow> 'k) \<Rightarrow> bool \<Rightarrow> address \<Rightarrow> int \<Rightarrow> int \<Rightarrow> 'k chain_ctx \<Rightarrow> evm_stop + string + 'k chain_ctx" where
  "attempt_ctx H newAccount fromRPC sender nonce gas ctx =
     (if \<not> fromRPC then Inr (Inr ctx)
      else let K = ho_keeper H in
        rbind (case k_GetAccount K (ctx_store ctx) sender of
            None \<Rightarrow> Inr (NewEmptyAccount K, newAccount (ctx_store ctx) sender)
          | Some raw \<Rightarrow> rbind (account_of_raw raw) (\<lambda>acct. Inr (acct, ctx_store ctx))) (\<lambda>(acct, store).
        case k_SetAccount K store sender (acct\<lparr>Nonce := u64 (nonce + 1)\<rparr>) of
          Inl e \<Rightarrow> Inr (Inl e)
        | Inr store \<Rightarrow> Inr (Inr (ctx\<lparr>ctx_store := store, ctx_gasConsumed := 0, ctx_gasLimit := gas\<rparr>))))"

definition executable ::
  "('k, 't) evm_host \<Rightarrow> ('k \<Rightarrow> address \<Rightarrow> 'k) \<Rightarrow> bool \<Rightarrow> EVMConfig_t \<Rightarrow> int \<Rightarrow> Message \<Rightarrow> 'k chain_ctx \<Rightarrow> int \<Rightarrow> attempt" where
  "executable H newAccount fromRPC cfg nonce msg0 ctx gas =
     (let msg = msg0\<lparr>m_Gas := gas\<rparr> in
      rbind (attempt_ctx H newAccount fromRPC (m_From msg) nonce gas ctx) (\<lambda>r. case r of
        Inl e \<Rightarrow> Inr (Inl e)
      | Inr tmpCtx \<Rightarrow>
          rbind (ApplyMessageWithConfig H msg False cfg (NewEmptyTxConfig (SetBytes (ctx_HeaderHash ctx))) tmpCtx) (\<lambda>(rsp, _). case rsp of
            Inl e \<Rightarrow> if e = ''apply message: intrinsic gas too low'' then Inr (Inr (True, None)) else Inr (Inl e)
          | Inr rsp \<Rightarrow> Inr (Inr (Failed rsp, Some rsp)))))"

text \<open>The highest limit to try, and what to try it with.\<close>

definition highest_gas :: "TransactionArgs \<Rightarrow> int \<Rightarrow> 'k chain_ctx \<Rightarrow> int" where
  "highest_gas args gasCap ctx =
     (let from_block = (case ctx_MaxGas ctx of Some m \<Rightarrow> if m > 0 then m else gasCap | None \<Rightarrow> gasCap);
          hi = (case a_Gas args of Some g \<Rightarrow> if g \<ge> TxGas then g else from_block | None \<Rightarrow> from_block)
      in if gasCap \<noteq> 0 \<and> hi > gasCap then gasCap else hi)"

definition estimate_request ::
  "('k, 't) evm_host \<Rightarrow> ('k \<Rightarrow> address \<Rightarrow> 'k) \<Rightarrow> bool \<Rightarrow> TransactionArgs \<Rightarrow> int \<Rightarrow> bytes \<Rightarrow> int \<Rightarrow> 'k chain_ctx
     \<Rightarrow> string + int \<times> (int \<Rightarrow> attempt)" where
  "estimate_request H newAccount fromRPC args gasCap proposerAddress chainId ctx =
     rbind (getChainID H chainId ctx) (\<lambda>chainID.
     if gasCap < TxGas then Inl ''gas cap cannot be lower than 21000''
     else
       let hi = highest_gas args gasCap ctx in
       rbind (EVMConfig H (GetProposerAddress ctx proposerAddress) (Some chainID) ctx) (\<lambda>cfg.
       let nonce = evm_GetNonce H (GetFrom args) ctx in
       rbind (ToMessage (args\<lparr>a_Nonce := Some nonce\<rparr>) gasCap (cfg_BaseFee cfg)) (\<lambda>msg.
       Inr (hi, executable H newAccount fromRPC cfg nonce msg ctx))))"

definition estimate_check :: "(int \<Rightarrow> attempt) \<Rightarrow> int \<Rightarrow> evm_stop + string + int" where
  "estimate_check exec hi =
     rbind (exec hi) (\<lambda>r. case r of
       Inl e \<Rightarrow> Inr (Inl e)
     | Inr (failed, result) \<Rightarrow>
         if failed then
           case result of
             Some rsp \<Rightarrow>
               if res_VmError rsp \<noteq> Some ErrOutOfGas then
                 if res_VmError rsp = Some ErrExecutionReverted then Inr (Inl ''execution reverted'') else Inr (Inl ''vm error'')
               else Inr (Inl ''gas required exceeds allowance'')
           | None \<Rightarrow> Inr (Inl ''gas required exceeds allowance'')
         else Inr (Inr hi))"

definition estimate_search :: "int \<times> (int \<Rightarrow> attempt) \<Rightarrow> (evm_stop + string + int) option" where
  "estimate_search request = (case request of (gasCap, exec) \<Rightarrow>
     (case BinSearch exec (TxGas - 1) gasCap of
        None \<Rightarrow> None
      | Some (Inr (Inr hi)) \<Rightarrow> Some (if hi = gasCap then estimate_check exec hi else Inr (Inr hi))
      | Some r \<Rightarrow> Some r))"

definition EstimateGasInternal ::
  "('k, 't) evm_host \<Rightarrow> ('k \<Rightarrow> address \<Rightarrow> 'k) \<Rightarrow> TransactionArgs \<Rightarrow> int \<Rightarrow> bytes \<Rightarrow> int \<Rightarrow> bool \<Rightarrow> 'k chain_ctx
     \<Rightarrow> (evm_stop + string + int) option" where
  "EstimateGasInternal H newAccount args gasCap proposerAddress chainId fromRPC ctx =
     (case estimate_request H newAccount fromRPC args gasCap proposerAddress chainId ctx of
        Inl e \<Rightarrow> Some (Inr (Inl e))
      | Inr request \<Rightarrow> estimate_search request)"

definition EstimateGas ::
  "('k, 't) evm_host \<Rightarrow> ('k \<Rightarrow> address \<Rightarrow> 'k) \<Rightarrow> TransactionArgs \<Rightarrow> int \<Rightarrow> bytes \<Rightarrow> int \<Rightarrow> 'k chain_ctx
     \<Rightarrow> (evm_stop + string + int) option" where
  "EstimateGas H newAccount args gasCap proposerAddress chainId ctx =
     EstimateGasInternal H newAccount args gasCap proposerAddress chainId True ctx"

section \<open>Calls of the keeper\<close>

text \<open>\<open>getSequence\<close> is the one of the account keeper, which knows no account that is not there.\<close>

definition internal_message :: "address \<Rightarrow> address option \<Rightarrow> bytes \<Rightarrow> int \<Rightarrow> int \<Rightarrow> bool \<Rightarrow> Message" where
  "internal_message from contract data nonce gas isFake = \<lparr>m_From = from, m_To = contract, m_Nonce = nonce, m_Value = 0, m_Gas = gas,
     m_GasPrice = 0, m_GasFeeCap = 0, m_GasTipCap = 0, m_Data = data, m_AccessList = [], m_IsFake = isFake\<rparr>"

definition internal_args :: "address \<Rightarrow> address option \<Rightarrow> bytes \<Rightarrow> TransactionArgs" where
  "internal_args from contract data = \<lparr>a_From = Some from, a_To = contract, a_Gas = None, a_GasPrice = None, a_MaxFeePerGas = None,
     a_MaxPriorityFeePerGas = None, a_Value = None, a_Nonce = None, a_Data = Some data, a_Input = None, a_AccessList = None\<rparr>"

definition CallEVMWithData ::
  "('k, 't) evm_host \<Rightarrow> ('k \<Rightarrow> address \<Rightarrow> 'k) \<Rightarrow> ('k \<Rightarrow> address \<Rightarrow> string + int) \<Rightarrow> address \<Rightarrow> address option \<Rightarrow> bytes \<Rightarrow> bool
     \<Rightarrow> 'k chain_ctx \<Rightarrow> (Response, 'k) outcome option" where
  "CallEVMWithData H newAccount getSequence from contract data commit ctx =
     (case getSequence (ctx_store ctx) from of
        Inl e \<Rightarrow> Some (Inr (Inl e, ctx_store ctx))
      | Inr nonce \<Rightarrow>
          (case (if commit then EstimateGasInternal H newAccount (internal_args from contract data) DefaultGasCap [] 0 False ctx
                 else Some (Inr (Inr DefaultGasCap))) of
             None \<Rightarrow> None
           | Some (Inl stop) \<Rightarrow> Some (Inl stop)
           | Some (Inr (Inl e)) \<Rightarrow> Some (Inr (Inl e, ctx_store ctx))
           | Some (Inr (Inr gasCap)) \<Rightarrow>
               Some (rbind (ApplyMessage H (internal_message from contract data nonce gasCap (\<not> commit)) commit ctx) (\<lambda>(r, store).
                 case r of
                   Inl e \<Rightarrow> Inr (Inl e, store)
                 | Inr res \<Rightarrow> Inr (if Failed res then Inl ''vm execution failed'' else Inr res, store)))))"

text \<open>\<open>Pack\<close> encodes a method of the contract's interface and its arguments.\<close>

definition CallEVM ::
  "('k, 't) evm_host \<Rightarrow> ('k \<Rightarrow> address \<Rightarrow> 'k) \<Rightarrow> ('k \<Rightarrow> address \<Rightarrow> string + int) \<Rightarrow> (string \<Rightarrow> 'args \<Rightarrow> string + bytes) \<Rightarrow> address
     \<Rightarrow> address \<Rightarrow> bool \<Rightarrow> string \<Rightarrow> 'args \<Rightarrow> 'k chain_ctx \<Rightarrow> (Response, 'k) outcome option" where
  "CallEVM H newAccount getSequence Pack from contract commit method args ctx =
     (case Pack method args of
        Inl e \<Rightarrow> Some (Inr (Inl ''failed to create transaction data'', ctx_store ctx))
      | Inr data \<Rightarrow> map_option (\<lambda>out. rbind out (\<lambda>(r, store). Inr (case r of
            Inl e \<Rightarrow> Inl ''contract call failed'' | Inr res \<Rightarrow> Inr res, store)))
          (CallEVMWithData H newAccount getSequence from (Some contract) data commit ctx))"

section \<open>The plain queries\<close>

definition GetAccountOrEmpty :: "('k, 't) evm_host \<Rightarrow> address \<Rightarrow> 'k chain_ctx \<Rightarrow> RawAccount" where
  "GetAccountOrEmpty H addr ctx = (case k_GetAccount (ho_keeper H) (ctx_store ctx) addr of
      Some acct \<Rightarrow> acct
    | None \<Rightarrow> \<lparr>raw_Nonce = 0, raw_Balance = Some 0, raw_CodeHash = Some (emptyCodeHash (ho_keeper H))\<rparr>)"

definition Account_query :: "('k, 't) evm_host \<Rightarrow> string \<Rightarrow> 'k chain_ctx \<Rightarrow> string + RawAccount" where
  "Account_query H address ctx =
     rbind (ValidateAddress (ho_eth H) address) (\<lambda>_. Inr (GetAccountOrEmpty H (HexToAddress (ho_eth H) address) ctx))"

definition Storage_query :: "('k, 't) evm_host \<Rightarrow> string \<Rightarrow> string \<Rightarrow> 'k chain_ctx \<Rightarrow> string + hash" where
  "Storage_query H address key ctx =
     (case ValidateAddress (ho_eth H) address of
        Inl _ \<Rightarrow> Inl ''invalid argument: zero address''
      | Inr _ \<Rightarrow> Inr (k_GetState (ho_keeper H) (ctx_store ctx) (HexToAddress (ho_eth H) address) (HexToHash (ho_eth H) key)))"

definition Code_query :: "('k, 't) evm_host \<Rightarrow> string \<Rightarrow> 'k chain_ctx \<Rightarrow> string + bytes option" where
  "Code_query H address ctx =
     (case ValidateAddress (ho_eth H) address of
        Inl _ \<Rightarrow> Inl ''invalid argument: zero address''
      | Inr _ \<Rightarrow> Inr (case k_GetAccount (ho_keeper H) (ctx_store ctx) (HexToAddress (ho_eth H) address) of
            None \<Rightarrow> None
          | Some acct \<Rightarrow>
              if raw_CodeHash acct = Some (emptyCodeHash (ho_keeper H)) then None
              else k_GetCode (ho_keeper H) (ctx_store ctx) (case raw_CodeHash acct of None \<Rightarrow> 0 | Some h \<Rightarrow> h)))"

definition Params_query :: "'k chain_ctx \<Rightarrow> evm_Params" where
  "Params_query ctx = evm_GetParams ctx"

definition BaseFee_query :: "('k, 't) evm_host \<Rightarrow> 'k chain_ctx \<Rightarrow> int option" where
  "BaseFee_query H ctx =
     evm_GetBaseFee H (EthereumConfig (ho_eth H) (cfg_ChainConfig (evm_GetParams ctx)) (ho_chainID H)) ctx"

section \<open>What an estimate says\<close>

lemma highest_gas_le: "TxGas \<le> gasCap \<Longrightarrow> highest_gas args gasCap ctx \<le> gasCap"
  by (auto simp: highest_gas_def TxGas_def Let_def split: option.splits)

lemma request_gas:
  assumes "estimate_request H newAccount fromRPC args gasCap proposer chainId ctx = Inr (hi, exec)"
  shows "TxGas \<le> gasCap" "hi = highest_gas args gasCap ctx" "hi \<le> gasCap"
  using assms highest_gas_le [of gasCap args ctx] by (auto simp: estimate_request_def Let_def split: if_splits)

lemma succeeds_not_fails: "succeeds exec g \<Longrightarrow> \<not> fails exec g"
  by (auto simp: succeeds_def fails_def)

lemma estimate_check_ok:
  assumes "estimate_check exec hi = Inr (Inr g)"
  shows "g = hi \<and> succeeds exec g"
proof -
  obtain r where r: "exec hi = Inr r" using assms by (auto simp: estimate_check_def)
  obtain failed rsp where a: "exec hi = Inr (Inr (failed, rsp))" using assms r by (cases r) (auto simp: estimate_check_def)
  then have "\<not> failed"
    using assms by (cases rsp) (auto simp: estimate_check_def split: if_splits)
  with a assms show ?thesis by (simp add: estimate_check_def succeeds_def)
qed

lemma estimate_search_ok:
  assumes "hi \<le> 2 ^ 63" and "estimate_search (hi, exec) = Some (Inr (Inr g))"
  shows "succeeds exec g \<and> g \<le> hi \<and> (TxGas < g \<longrightarrow> fails exec (g - 1))"
proof -
  obtain r where r: "BinSearch exec (TxGas - 1) hi = Some r" "\<forall>g. r = Inr (Inr g) \<longrightarrow> (g = hi \<or> succeeds exec g) \<and>
      min TxGas hi \<le> g \<and> g \<le> hi \<and> (TxGas < g \<longrightarrow> fails exec (g - 1))"
    using BinSearch_result [of "TxGas - 1" hi exec] assms(1) by (auto simp: TxGas_def)
  show ?thesis
  proof (cases r)
    case (Inl stop)
    with assms(2) r(1) show ?thesis by (simp add: estimate_search_def)
  next
    case (Inr r1)
    show ?thesis
    proof (cases r1)
      case (Inl e)
      with assms(2) r(1) Inr show ?thesis by (simp add: estimate_search_def)
    next
      case (Inr h)
      with \<open>r = Inr r1\<close> r have "(h = hi \<or> succeeds exec h) \<and> h \<le> hi \<and> (TxGas < h \<longrightarrow> fails exec (h - 1))" by auto
      moreover have "h = hi \<Longrightarrow> estimate_check exec hi = Inr (Inr g)" "h \<noteq> hi \<Longrightarrow> g = h"
        using assms(2) r(1) \<open>r = Inr r1\<close> Inr by (simp_all add: estimate_search_def)
      ultimately show ?thesis using estimate_check_ok [of exec hi g] by auto
    qed
  qed
qed

text \<open>
  C13: The gas that is estimated is enough: with it the request succeeds. It is locally the least, with one unit less the
  request fails unless that is less than any transaction costs; and it is the least of all if more gas never makes the
  request fail.
\<close>

theorem estimate_is_sufficient:
  assumes "estimate_request H newAccount fromRPC args gasCap proposer chainId ctx = Inr (hi, exec)" and "gasCap \<le> 2 ^ 63"
    and "EstimateGasInternal H newAccount args gasCap proposer chainId fromRPC ctx = Some (Inr (Inr g))"
  shows "succeeds exec g \<and> g \<le> gasCap \<and> (TxGas < g \<longrightarrow> fails exec (g - 1)) \<and>
    ((\<forall>a b. succeeds exec a \<and> a \<le> b \<longrightarrow> \<not> fails exec b) \<longrightarrow> (\<forall>a. TxGas \<le> a \<and> a < g \<longrightarrow> \<not> succeeds exec a))"
proof -
  note hi = request_gas [OF assms(1)]
  have "hi \<le> 2 ^ 63" using hi(3) assms(2) by simp
  moreover have "estimate_search (hi, exec) = Some (Inr (Inr g))" using assms(1,3) by (simp add: EstimateGasInternal_def)
  ultimately have g: "succeeds exec g" "g \<le> hi" "TxGas < g \<Longrightarrow> fails exec (g - 1)" using estimate_search_ok by auto
  have "\<not> succeeds exec a" if "\<forall>a b. succeeds exec a \<and> a \<le> b \<longrightarrow> \<not> fails exec b" "TxGas \<le> a" "a < g" for a
    using that(1) [rule_format, of a "g - 1"] that(2,3) g(3) by auto
  moreover have "succeeds exec g \<and> g \<le> gasCap \<and> (TxGas < g \<longrightarrow> fails exec (g - 1))" using g hi(3) by simp
  ultimately show ?thesis by blast
qed

text \<open>
  C29: With a gas cap below \<open>2 ^ 63\<close> an estimate always ends, whatever the attempts do.
\<close>

theorem estimate_ends:
  assumes "gasCap \<le> 2 ^ 63"
  shows "\<exists>r. EstimateGasInternal H newAccount args gasCap proposer chainId fromRPC ctx = Some r"
proof (cases "estimate_request H newAccount fromRPC args gasCap proposer chainId ctx")
  case (Inl e)
  then show ?thesis by (simp add: EstimateGasInternal_def)
next
  case (Inr request)
  obtain hi exec where request: "request = (hi, exec)" by fastforce
  have "hi \<le> 2 ^ 63" using request_gas(3) [OF Inr [unfolded request]] assms by simp
  then obtain r where "BinSearch exec (TxGas - 1) hi = Some r" using BinSearch_result [of "TxGas - 1" hi exec] by (auto simp: TxGas_def)
  with Inr request show ?thesis by (auto simp: EstimateGasInternal_def estimate_search_def split: sum.splits)
qed

text \<open>
  C30: With the largest gas cap, an estimate of a request that fails at every limit never ends, if the search starts from the
  cap: because the request asks for that much gas, or asks for no limit on a chain whose blocks have none. The sum of the
  two ends of the search does not fit 64 bits, its half lies below the lower end, and the interval no longer shrinks. Both
  the gas cap and the gas come from the request.
\<close>

theorem estimate_never_ends:
  assumes "estimate_request H newAccount fromRPC args (2 ^ 64 - 1) proposer chainId ctx = Inr (hi, exec)"
    and "a_Gas args = Some (2 ^ 64 - 1) \<or> a_Gas args = None \<and> (\<forall>m. ctx_MaxGas ctx = Some m \<longrightarrow> m \<le> 0)"
    and "\<forall>g. 0 \<le> g \<and> g < 2 ^ 63 \<longrightarrow> fails exec g"
  shows "EstimateGasInternal H newAccount args (2 ^ 64 - 1) proposer chainId fromRPC ctx = None"
proof -
  have "hi = 2 ^ 64 - 1" using request_gas(2) [OF assms(1)] assms(2) by (auto simp: highest_gas_def TxGas_def split: option.splits)
  moreover have "BinSearch exec (TxGas - 1) (2 ^ 64 - 1) = None"
    by (rule BinSearch_never_ends [OF assms(3)]) (simp_all add: TxGas_def)
  ultimately show ?thesis using assms(1) by (simp add: EstimateGasInternal_def estimate_search_def)
qed

section \<open>The call that was estimated\<close>

lemma message_ignores_fake:
  "NewEVM_env H (msg\<lparr>m_IsFake := b\<rparr>) cfg ctx = NewEVM_env H msg cfg ctx"
  by (simp add: NewEVM_env_def)

lemma finish_commits:
  assumes "finish_message H msg False cfg txConfig ctx r = Inr (Inr res, s)"
    and "finish_message H (msg\<lparr>m_IsFake := b\<rparr>) True cfg txConfig ctx r = Inr (Inr res1, s1)"
  shows "res1 = res"
  using assms
  by (cases r, cases "fst r", cases "snd (fst r)")
    (auto simp: finish_message_def gas_charged_def Let_def split: if_splits sum.splits)

text \<open>The response to a message does not depend on whether its writes are kept.\<close>

lemma response_of_commit:
  assumes "ApplyMessageWithConfig H msg False cfg txConfig ctx = Inr (Inr res, s)"
    and "ApplyMessageWithConfig H (msg\<lparr>m_IsFake := b\<rparr>) True cfg txConfig ctx = Inr (Inr res1, s1)"
  shows "res1 = res"
proof -
  have ex: "execute_message C K (msg\<lparr>m_IsFake := b\<rparr>) gas evm = execute_message C K msg gas evm" for C K gas evm
    by (cases "m_To msg") (simp_all add: execute_message_def)
  have gas: "GetEthIntrinsicGas H (msg\<lparr>m_IsFake := b\<rparr>) c cr ctx = GetEthIntrinsicGas H msg c cr ctx" for c cr
    by (simp add: GetEthIntrinsicGas_def)
  show ?thesis
    using assms finish_commits [of H msg cfg txConfig ctx _ res s b res1 s1]
    by (auto simp: ApplyMessageWithConfig_def message_ignores_fake ex gas Let_def split: sum.splits if_splits)
qed

lemma EVMConfig_chain:
  "EVMConfig H (GetProposerAddress ctx []) (Some c) ctx = EVMConfig H (ctx_ProposerAddress ctx) (Some c) ctx"
  by (simp add: GetProposerAddress_def)

lemma internal_request:
  assumes "getChainID H 0 ctx = Inr c" and "EVMConfig H (ctx_ProposerAddress ctx) (Some c) ctx = Inr cfg" and "evm_GetNonce H from ctx = nonce"
  shows "estimate_request H newAccount False (internal_args from contract data) DefaultGasCap [] 0 ctx =
    Inr (highest_gas (internal_args from contract data) DefaultGasCap ctx,
      executable H newAccount False cfg nonce (internal_message from contract data nonce DefaultGasCap True) ctx)"
  using assms
  by (auto simp: estimate_request_def EVMConfig_chain DefaultGasCap_def TxGas_def internal_args_def internal_message_def ToMessage_def
      GetFrom_def GetData_def Let_def split: option.splits)

lemma executable_succeeds:
  assumes "succeeds (executable H newAccount False cfg nonce msg ctx) g"
  shows "\<exists>rsp s. ApplyMessageWithConfig H (msg\<lparr>m_Gas := g\<rparr>) False cfg (NewEmptyTxConfig (SetBytes (ctx_HeaderHash ctx))) ctx = Inr (Inr rsp, s) \<and>
    \<not> Failed rsp"
proof -
  let ?run = "ApplyMessageWithConfig H (msg\<lparr>m_Gas := g\<rparr>) False cfg (NewEmptyTxConfig (SetBytes (ctx_HeaderHash ctx))) ctx"
  obtain r where exec: "executable H newAccount False cfg nonce msg ctx g = Inr (Inr (False, r))" using assms by (auto simp: succeeds_def)
  then obtain rsp s where run: "?run = Inr (rsp, s)" by (cases ?run) (auto simp: executable_def attempt_ctx_def)
  with exec show ?thesis by (cases rsp) (auto simp: executable_def attempt_ctx_def split: if_split_asm)
qed

text \<open>
  C14: A contract call of the keeper with the gas it was estimated to need does not fail in the machine: the attempt that
  succeeded ran the same message on the same context, only without keeping its writes.
\<close>

theorem estimated_call_succeeds:
  assumes "getChainID H 0 ctx = Inr c" and "ho_chainID H = Some c" and "getSequence (ctx_store ctx) from = Inr nonce"
    and "evm_GetNonce H from ctx = nonce"
    and "EstimateGasInternal H newAccount (internal_args from contract data) DefaultGasCap [] 0 False ctx = Some (Inr (Inr g))"
    and "ApplyMessage H (internal_message from contract data nonce g False) True ctx = Inr (Inr res, store)"
  shows "\<not> Failed res \<and> CallEVMWithData H newAccount getSequence from contract data True ctx = Some (Inr (Inr res, store))"
proof -
  obtain cfg where cfg: "EVMConfig H (ctx_ProposerAddress ctx) (Some c) ctx = Inr cfg"
    using assms(2,6) by (cases "EVMConfig H (ctx_ProposerAddress ctx) (Some c) ctx") (auto simp: ApplyMessage_def)
  let ?msg = "internal_message from contract data nonce DefaultGasCap True"
  let ?exec = "executable H newAccount False cfg nonce ?msg ctx"
  let ?tc = "NewEmptyTxConfig (SetBytes (ctx_HeaderHash ctx))"
  note request = internal_request [OF assms(1) cfg assms(4), of newAccount contract data]
  have "highest_gas (internal_args from contract data) DefaultGasCap ctx \<le> 2 ^ 63"
    using highest_gas_le [of DefaultGasCap "internal_args from contract data" ctx] by (simp add: DefaultGasCap_def TxGas_def)
  moreover have "estimate_search (highest_gas (internal_args from contract data) DefaultGasCap ctx, ?exec) = Some (Inr (Inr g))"
    using assms(5) request by (simp add: EstimateGasInternal_def)
  ultimately have "succeeds ?exec g" using estimate_search_ok by blast
  then obtain rsp s where rsp: "ApplyMessageWithConfig H (?msg\<lparr>m_Gas := g\<rparr>) False cfg ?tc ctx = Inr (Inr rsp, s)" "\<not> Failed rsp"
    using executable_succeeds by blast
  have "internal_message from contract data nonce g False = (?msg\<lparr>m_Gas := g\<rparr>)\<lparr>m_IsFake := False\<rparr>"
    by (simp add: internal_message_def)
  then have "ApplyMessageWithConfig H ((?msg\<lparr>m_Gas := g\<rparr>)\<lparr>m_IsFake := False\<rparr>) True cfg ?tc ctx = Inr (Inr res, store)"
    using assms(2,6) cfg by (simp add: ApplyMessage_def)
  from response_of_commit [OF rsp(1) this] rsp(2) have ok: "\<not> Failed res" by simp
  with assms(3,5,6) show ?thesis by (simp add: CallEVMWithData_def)
qed

section \<open>Instances\<close>

text \<open>On the chain of AntePayment no limit is enough for a call of account 7, which the policy refuses.\<close>

definition refused_args :: TransactionArgs where
  "refused_args = \<lparr>a_From = Some 7, a_To = Some 50, a_Gas = Some (2 ^ 64 - 1), a_GasPrice = None, a_MaxFeePerGas = None,
     a_MaxPriorityFeePerGas = None, a_Value = None, a_Nonce = None, a_Data = None, a_Input = None, a_AccessList = None\<rparr>"

lemma refused_message:
  assumes "sm_feemarket (ctx_store ctx) = sample_fm 2 0" and "cfg_Params cfg = closed_params" and "m_From msg = 7" and "m_To msg = Some to"
    and "0 \<le> m_Gas msg" and "m_Gas msg < 2 ^ 63"
  shows "\<exists>r s. ApplyMessageWithConfig small_evm msg False cfg tc ctx = Inr (r, s) \<and>
    (r = Inl ''apply message: intrinsic gas too low'' \<or> (\<exists>res. r = Inr res \<and> Failed res))"
proof (cases "m_Gas msg < 21000")
  case True
  obtain rest jt where "NewEVM_table small_evm cfg ctx = Inr (rest, jt)" using small_table [of cfg ctx] assms(2) by (auto simp: closed_params_def)
  with True show ?thesis by (simp add: ApplyMessageWithConfig_def GetEthIntrinsicGas_def Let_def lift_go_def)
next
  case False
  let ?err = "Some (OtherError ''caller address does not have permission to perform a call'')"
  let ?db = "NewStateDB (ctx_store ctx) tc"
  obtain rest jt where jt: "NewEVM_table small_evm cfg ctx = Inr (rest, jt)" using small_table [of cfg ctx] assms(2) by (auto simp: closed_params_def)
  have mult: "GetMinGasMultiplier small_evm ctx = 5 * 10 ^ 17"
    using assms(1) by (simp add: GetMinGasMultiplier_def fm_GetParams_def sample_fm_def or_zero_def)
  obtain gas where "finish_message small_evm msg False cfg tc ctx (([], m_Gas msg - 21000, ?err), NewEVM_state ?db) =
      Inr (Inr \<lparr>res_GasUsed = gas, res_VmError = ?err, res_Ret = [], res_Logs = sd_logs (ev_StateDB (NewEVM_state ?db)),
        res_Hash = tx_TxHash tc\<rparr>, ctx_store ctx)"
    using finish_message_charges [OF small_laws(4), of ctx "m_Gas msg - 21000" msg False cfg tc "[]" ?err "NewEVM_state ?db"] False assms(5,6)
    by (auto simp: mult dec_one_def)
  then show ?thesis
    using False small_call_refused [OF assms(3,4,2), of ctx jt small_keeper "m_Gas msg - 21000" ?db]
    by (simp add: ApplyMessageWithConfig_def jt GetEthIntrinsicGas_def Let_def evm_rules_def plain_eth_def lift_go_def Failed_def)
qed

lemma refused_request:
  "\<exists>hi exec. estimate_request small_evm (\<lambda>s a. s) True refused_args (2 ^ 64 - 1) [] 9000 small_start = Inr (hi, exec) \<and>
     (\<forall>g. 0 \<le> g \<and> g < 2 ^ 63 \<longrightarrow> fails exec g)"
proof -
  obtain cfg where cfg: "EVMConfig small_evm (GetProposerAddress small_start []) (Some 9000) small_start = Inr cfg" "cfg_Params cfg = closed_params"
    "cfg_BaseFee cfg = Some 1000000000"
    using small_start_base_fee by (simp add: EVMConfig_def GetCoinbaseAddress_def small_evm_def [THEN arg_cong, of ho_GetValidatorByConsAddr]
        Let_def small_start_sel(1))
  obtain msg where msg: "ToMessage (refused_args\<lparr>a_Nonce := Some (evm_GetNonce small_evm (GetFrom refused_args) small_start)\<rparr>) (2 ^ 64 - 1)
      (cfg_BaseFee cfg) = Inr msg" "m_From msg = 7" "m_To msg = Some 50"
    by (auto simp: ToMessage_def refused_args_def GetFrom_def cfg(3) Let_def)
  have "fails (executable small_evm (\<lambda>s a. s) True cfg n msg small_start) g" if "0 \<le> g \<and> g < 2 ^ 63" for g n
  proof -
    have "attempt_ctx small_evm (\<lambda>s a. s) True 7 n g small_start =
        Inr (Inr (small_start\<lparr>ctx_store := ctx_store small_start, ctx_gasConsumed := 0, ctx_gasLimit := g\<rparr>))"
      by (simp add: attempt_ctx_def small_keeper_def blank_keeper_def account_of_raw_def Let_def)
    then show ?thesis
      using refused_message [of "small_start\<lparr>ctx_store := ctx_store small_start, ctx_gasConsumed := 0, ctx_gasLimit := g\<rparr>" cfg "msg\<lparr>m_Gas := g\<rparr>" 50
          "NewEmptyTxConfig (SetBytes (ctx_HeaderHash small_start))"] cfg(2) msg(2,3) that small_start_sel(2)
      by (auto simp: fails_def executable_def Let_def)
  qed
  with cfg(1) msg(1) show ?thesis
    by (auto simp: estimate_request_def getChainID_def TxGas_def Let_def)
qed

theorem estimate_never_ends_witness:
  "EstimateGas small_evm (\<lambda>s a. s) refused_args (2 ^ 64 - 1) [] 9000 small_start = None"
proof -
  obtain hi exec where "estimate_request small_evm (\<lambda>s a. s) True refused_args (2 ^ 64 - 1) [] 9000 small_start = Inr (hi, exec)"
    "\<forall>g. 0 \<le> g \<and> g < 2 ^ 63 \<longrightarrow> fails exec g" using refused_request by blast
  from estimate_never_ends [OF this(1) _ this(2)] show ?thesis by (simp add: EstimateGas_def refused_args_def)
qed

theorem estimate_ends_witness:
  "\<exists>r. EstimateGasInternal small_evm (\<lambda>s a. s) refused_args (2 ^ 63) [] 9000 True small_start = Some r"
  by (rule estimate_ends) simp

text \<open>A search whose attempts all end with a response ends with a limit.\<close>

lemma BinSearch_no_error:
  assumes "0 \<le> lo" and "lo < 2 ^ 63" and "hi \<le> 2 ^ 63" and "\<forall>g. lo < g \<and> g < hi \<longrightarrow> fails exec g \<or> succeeds exec g"
  shows "\<exists>g. BinSearch exec lo hi = Some (Inr (Inr g))"
  using assms
proof (induction "nat (hi - lo)" arbitrary: lo hi rule: less_induct)
  case less
  show ?case
  proof (cases "lo + 1 < hi")
    case False
    moreover from this have "\<not> u64 (lo + 1) < hi" using less.prems by (simp add: u64_id in_u64_def)
    ultimately show ?thesis by (simp add: BinSearch_stops)
  next
    case True
    note mid = search_mid [OF less.prems(1) True less.prems(3)]
    let ?mid = "(hi + lo) div 2"
    have "fails exec ?mid \<or> succeeds exec ?mid" using less.prems(4) mid(3,4) by blast
    then consider rsp where "exec ?mid = Inr (Inr (True, rsp))" | rsp where "exec ?mid = Inr (Inr (False, rsp))"
      by (auto simp: fails_def succeeds_def)
    then show ?thesis
    proof cases
      case 1
      then have "BinSearch exec lo hi = BinSearch exec ?mid hi" using mid by (subst BinSearch.simps) simp
      then show ?thesis using less.hyps [of hi ?mid] mid(3,4) less.prems by simp
    next
      case 2
      then have "BinSearch exec lo hi = BinSearch exec lo ?mid" using mid by (subst BinSearch.simps) simp
      then show ?thesis using less.hyps [of ?mid lo] mid(3,4) less.prems by simp
    qed
  qed
qed

text \<open>The same chain without precompiles and without accounts, open to everyone: a call of an account that is not there does nothing.\<close>

definition quiet_evm :: "(small_store, EthTxData) evm_host" where
  "quiet_evm = small_evm\<lparr>ho_keeper := blank_keeper, ho_ERC20Precompile := (\<lambda>_ _. Inr None)\<rparr>"

definition quiet_start :: "small_store chain_ctx" where
  "quiet_start = small_ctx evm_DefaultParams"

lemma quiet_sel [simp]: "ho_keeper quiet_evm = blank_keeper" "ho_eth quiet_evm = plain_eth" "ho_chainID quiet_evm = Some 9000"
  "ho_feemarket quiet_evm = sm_feemarket" "ho_geth quiet_evm = mainnet_params" "ho_IntrinsicGas quiet_evm bs al b1 b2 b3 = Inr 21000"
  "ho_ParseChainID quiet_evm i = Inr 9000" "ho_GetValidatorByConsAddr quiet_evm s b = Some 0" "ho_ERC20Precompile quiet_evm s a = Inr None"
  by (simp_all add: quiet_evm_def) (simp_all add: small_evm_def)

lemma quiet_laws: "host_laws quiet_evm" "gas_laws quiet_evm"
  using small_laws(3,4) by (simp_all add: host_laws_def gas_laws_def quiet_evm_def)

lemma quiet_start_sel: "evm_GetParams quiet_start = evm_DefaultParams\<lparr>ActiveStaticPrecompiles := []\<rparr>"
  "sm_feemarket (ctx_store quiet_start) = sample_fm 2 0" "ctx_MaxGas quiet_start = Some 40000000" "ctx_ChainID quiet_start = ''nxq_9000-1''"
  by (simp_all add: quiet_start_def) (simp_all add: small_ctx_def sample_chain_def)

lemma quiet_call:
  assumes "cfg_Params cfg = evm_GetParams quiet_start" and "m_To msg = Some 50" and "m_Value msg = 0"
  shows "\<exists>evm. execute_message (NewEVM_calls (NewEVM_env quiet_evm msg cfg quiet_start) jt) blank_keeper msg gas (NewEVM_state (NewStateDB s tc)) =
    Inr (([], gas, None), evm) \<and> Commit blank_keeper (ev_StateDB evm) = Inr s"
proof -
  have none: "GetPrecompileInstance quiet_evm quiet_start 50 = Inr None"
    by (simp add: GetPrecompileInstance_def GetStaticPrecompileInstance_def IsAvailableStaticPrecompile_def quiet_start_sel(1)
        PrecompiledAddressesBerlin_def lift_err_def)
  have "message_CallHook quiet_evm quiet_start cfg a b 50 evm = Inr (None, evm)" for a b evm
    using assms(1)
    by (simp add: message_CallHook_def policy_hooks_def hooks_CallHook_def AddCallHooks_def AddCreateHooks_def Let_def NewDefaultOpCodesHooks_def
        GetCallHook_def NewRestrictedPermissionPolicy_def getCanCallFn_def permissionlessCheckFn_def quiet_start_sel(1) open_access_def
        GetPrecompilesCallHook_def none lift_go_def)
  moreover have "precompile_at quiet_evm quiet_start 50 = None" by (simp add: precompile_at_def none)
  ultimately show ?thesis
    using assms(2,3)
    by (simp add: execute_message_def NewEVM_calls_def callee_of_def evm_Call_def guarded_def NewEVM_env_def NewEVM_state_def lift_go_def
        with_db_def Snapshot_def Exist_def getStateObject_def NewStateDB_def blank_keeper_def evm_rules_def plain_eth_def set_db_def Let_def Commit_def
        commitWithCtx_def sortedDirties_def)
qed

lemma quiet_message:
  assumes "cfg_Params cfg = evm_GetParams quiet_start" and "m_To msg = Some 50" and "m_Value msg = 0"
    and "0 \<le> m_Gas msg" and "m_Gas msg < 2 ^ 63"
  shows "\<exists>r s. ApplyMessageWithConfig quiet_evm msg commit cfg tc quiet_start = Inr (r, s) \<and>
    (if m_Gas msg < 21000 then r = Inl ''apply message: intrinsic gas too low'' else \<exists>res. r = Inr res \<and> \<not> Failed res)"
proof -
  have "known_eips quiet_evm (evm_rules quiet_evm c b quiet_start) (ExtraEIPs (cfg_Params cfg))" for c b
    using assms(1) by (simp add: quiet_start_sel(1) known_eips_def evm_DefaultParams_def archive_eip_def ExistsEipActivator_def activators_def
        after_constantinople_def evm_rules_def plain_eth_def quiet_evm_def [THEN arg_cong, of ho_activators] small_evm_def [THEN arg_cong, of ho_activators])
  moreover have "rules_ordered (evm_rules quiet_evm c b ctx)" for c b and ctx :: "small_store chain_ctx"
    by (simp add: evm_rules_def plain_eth_def rules_ordered_def)
  ultimately obtain rest jt where jt: "NewEVM_table quiet_evm cfg quiet_start = Inr (rest, jt)"
    using message_table_known [OF quiet_laws(1), of cfg quiet_start msg] by (auto simp: message_table_def)
  show ?thesis
  proof (cases "m_Gas msg < 21000")
    case True
    then show ?thesis by (simp add: ApplyMessageWithConfig_def jt GetEthIntrinsicGas_def Let_def lift_go_def)
  next
    case False
    have mult: "GetMinGasMultiplier quiet_evm quiet_start = 5 * 10 ^ 17"
      by (simp add: GetMinGasMultiplier_def fm_GetParams_def quiet_start_sel(2) sample_fm_def or_zero_def)
    obtain evm where evm: "execute_message (NewEVM_calls (NewEVM_env quiet_evm msg cfg quiet_start) jt) blank_keeper msg (m_Gas msg - 21000)
        (NewEVM_state (NewStateDB (ctx_store quiet_start) tc)) = Inr (([], m_Gas msg - 21000, None), evm)"
      "Commit blank_keeper (ev_StateDB evm) = Inr (ctx_store quiet_start)" using quiet_call [OF assms(1-3)] by blast
    obtain gas where "finish_message quiet_evm msg commit cfg tc quiet_start (([], m_Gas msg - 21000, None), evm) =
        Inr (Inr \<lparr>res_GasUsed = gas, res_VmError = None, res_Ret = [], res_Logs = sd_logs (ev_StateDB evm), res_Hash = tx_TxHash tc\<rparr>,
          ctx_store quiet_start)"
      using finish_message_charges [OF quiet_laws(2), of quiet_start "m_Gas msg - 21000" msg commit cfg tc "[]" None evm] False assms(4,5) evm(2)
      by (auto simp: mult dec_one_def lift_go_err_def)
    then show ?thesis using False evm(1)
      by (simp add: ApplyMessageWithConfig_def jt GetEthIntrinsicGas_def Let_def evm_rules_def plain_eth_def lift_go_def Failed_def)
  qed
qed

lemma quiet_config: "\<exists>cfg. EVMConfig quiet_evm (ctx_ProposerAddress quiet_start) (Some 9000) quiet_start = Inr cfg \<and>
    cfg_Params cfg = evm_GetParams quiet_start"
  by (simp add: EVMConfig_def GetCoinbaseAddress_def Let_def)

lemma quiet_attempt:
  assumes "cfg_Params cfg = evm_GetParams quiet_start" and "0 \<le> g" and "g < 2 ^ 63"
  shows "if g < 21000 then fails (executable quiet_evm newAccount False cfg n (internal_message 7 (Some 50) data k c b) quiet_start) g
    else succeeds (executable quiet_evm newAccount False cfg n (internal_message 7 (Some 50) data k c b) quiet_start) g"
  using quiet_message [OF assms(1), of "(internal_message 7 (Some 50) data k c b)\<lparr>m_Gas := g\<rparr>" False
      "NewEmptyTxConfig (SetBytes (ctx_HeaderHash quiet_start))"] assms(2,3)
  by (auto simp: fails_def succeeds_def executable_def attempt_ctx_def internal_message_def Let_def)

lemma quiet_estimate:
  "\<exists>hi exec g. estimate_request quiet_evm newAccount False (internal_args 7 (Some 50) data) DefaultGasCap [] 0 quiet_start = Inr (hi, exec) \<and>
     EstimateGasInternal quiet_evm newAccount (internal_args 7 (Some 50) data) DefaultGasCap [] 0 False quiet_start = Some (Inr (Inr g))"
proof -
  obtain cfg where cfg: "EVMConfig quiet_evm (ctx_ProposerAddress quiet_start) (Some 9000) quiet_start = Inr cfg"
    "cfg_Params cfg = evm_GetParams quiet_start" using quiet_config by blast
  have chain: "getChainID quiet_evm 0 quiet_start = Inr 9000" by (simp add: getChainID_def)
  let ?exec = "executable quiet_evm newAccount False cfg (evm_GetNonce quiet_evm 7 quiet_start)
    (internal_message 7 (Some 50) data (evm_GetNonce quiet_evm 7 quiet_start) DefaultGasCap True) quiet_start"
  have hi: "highest_gas (internal_args 7 (Some 50) data) DefaultGasCap quiet_start = DefaultGasCap"
    by (simp add: highest_gas_def internal_args_def quiet_start_sel(3) DefaultGasCap_def Let_def)
  note attempt = quiet_attempt [OF cfg(2), where newAccount = newAccount and data = data]
  have "fails ?exec g \<or> succeeds ?exec g" if "0 \<le> g" "g < 2 ^ 63" for g using attempt [OF that] by (metis (full_types))
  then obtain h where h: "BinSearch ?exec (TxGas - 1) DefaultGasCap = Some (Inr (Inr h))"
    using BinSearch_no_error [of "TxGas - 1" DefaultGasCap ?exec] by (force simp: TxGas_def DefaultGasCap_def)
  moreover obtain rsp where "?exec DefaultGasCap = Inr (Inr (False, rsp))"
    using attempt [of DefaultGasCap] by (force simp: succeeds_def DefaultGasCap_def)
  ultimately have "\<exists>g. estimate_search (DefaultGasCap, ?exec) = Some (Inr (Inr g))"
    by (simp add: estimate_search_def estimate_check_def)
  with internal_request [OF chain cfg(1) refl, of newAccount 7 "Some 50" data] hi show ?thesis by (auto simp: EstimateGasInternal_def)
qed

theorem estimate_is_sufficient_witness:
  "\<exists>hi exec g. estimate_request quiet_evm (\<lambda>s a. s) False (internal_args 7 (Some 50) []) DefaultGasCap [] 0 quiet_start = Inr (hi, exec) \<and>
     EstimateGasInternal quiet_evm (\<lambda>s a. s) (internal_args 7 (Some 50) []) DefaultGasCap [] 0 False quiet_start = Some (Inr (Inr g)) \<and>
     succeeds exec g \<and> g \<le> 25000000"
proof -
  obtain hi exec g where est: "estimate_request quiet_evm (\<lambda>s a. s) False (internal_args 7 (Some 50) []) DefaultGasCap [] 0 quiet_start = Inr (hi, exec)"
    "EstimateGasInternal quiet_evm (\<lambda>s a. s) (internal_args 7 (Some 50) []) DefaultGasCap [] 0 False quiet_start = Some (Inr (Inr g))"
    using quiet_estimate by blast
  from estimate_is_sufficient [OF est(1) _ est(2)] est show ?thesis by (auto simp: DefaultGasCap_def)
qed

theorem estimated_call_succeeds_witness:
  "\<exists>res store. CallEVMWithData quiet_evm (\<lambda>s a. s) (\<lambda>s a. Inr 0) 7 (Some 50) [] True quiet_start = Some (Inr (Inr res, store)) \<and> \<not> Failed res"
proof -
  obtain hi exec g where est: "estimate_request quiet_evm (\<lambda>s a. s) False (internal_args 7 (Some 50) []) DefaultGasCap [] 0 quiet_start = Inr (hi, exec)"
    "EstimateGasInternal quiet_evm (\<lambda>s a. s) (internal_args 7 (Some 50) []) DefaultGasCap [] 0 False quiet_start = Some (Inr (Inr g))"
    using quiet_estimate by blast
  obtain cfg where cfg: "EVMConfig quiet_evm (ctx_ProposerAddress quiet_start) (Some 9000) quiet_start = Inr cfg"
    "cfg_Params cfg = evm_GetParams quiet_start" using quiet_config by blast
  have nonce: "evm_GetNonce quiet_evm 7 quiet_start = 0" by (simp add: evm_GetNonce_def blank_keeper_def)
  have chain: "getChainID quiet_evm 0 quiet_start = Inr 9000" by (simp add: getChainID_def)
  have exec: "exec = executable quiet_evm (\<lambda>s a. s) False cfg 0 (internal_message 7 (Some 50) [] 0 DefaultGasCap True) quiet_start"
    using est(1) internal_request [OF chain cfg(1) nonce, where newAccount = "\<lambda>s a. s" and contract = "Some 50" and data = "[]"] by simp
  have bounds: "hi \<le> 2 ^ 63" using request_gas(3) [OF est(1)] by (simp add: DefaultGasCap_def)
  have search: "estimate_search (hi, exec) = Some (Inr (Inr g))" using est by (simp add: EstimateGasInternal_def)
  obtain r where "BinSearch exec (TxGas - 1) hi = Some r" "\<forall>g. r = Inr (Inr g) \<longrightarrow> min TxGas hi \<le> g"
    using BinSearch_result [of "TxGas - 1" hi exec] bounds by (auto simp: TxGas_def)
  moreover have "hi = 25000000" using request_gas(2) [OF est(1)]
    by (simp add: highest_gas_def internal_args_def quiet_start_sel(3) DefaultGasCap_def Let_def)
  ultimately have g: "21000 \<le> g" "g < 2 ^ 63"
    using search estimate_search_ok [OF bounds search] estimate_check_ok [of exec hi g]
    by (auto simp: estimate_search_def TxGas_def split: sum.split_asm if_split_asm)
  obtain res store where "ApplyMessage quiet_evm (internal_message 7 (Some 50) [] 0 g False) True quiet_start = Inr (Inr res, store)"
    using quiet_message [OF cfg(2), of "internal_message 7 (Some 50) [] 0 g False" True "NewEmptyTxConfig (SetBytes (ctx_HeaderHash quiet_start))"]
      cfg(1) g by (auto simp: ApplyMessage_def internal_message_def)
  from estimated_call_succeeds [OF chain _ _ nonce est(2) this, of "\<lambda>s a. Inr 0"] show ?thesis by auto
qed

end
