(* ===== verification/Spec2Isabelle.thy ===== *)
theory Spec2Isabelle
  imports Inflation Revert StakingGate GasEstimate
begin

text \<open>
  NexQloud chain: the state machine of a Cosmos chain with an Ethereum virtual machine.

  The program. The chain is an application of the Cosmos SDK. Its own modules are a virtual machine with a journaled state
  over the stores of the SDK (x/evm), a fee market (x/feemarket), timers (x/epochs), an emission schedule with halvings
  driven by them (x/inflation), vesting accounts that can be clawed back (x/vesting), and a wrapper of the staking messages
  (x/staking). An Ethereum transaction is a message: the checks of app/ante/evm take its fee and its nonce, the message
  server of x/evm asks two contracts whether the chain is open and the wallet unlocked, the state transition runs it on the
  machine over a copy of the store, and what was not used of the gas is paid back. The block handlers of x/epochs call
  the mint of x/inflation, those of x/feemarket compute the next base fee from the gas that transactions wanted.

  Which theory models what, from the bottom.

  \<^item> Prelude: Go's integers with their wrap-around (\<open>u64\<close>, \<open>i64\<close>), results as sums (\<open>go_panic + 'a\<close> where the code can panic,
    \<open>go_err + 'a\<close> where it can also return an error; \<open>rbind\<close>, \<open>fold_res\<close>), and the ordered key-value store with its laws
    (locale \<open>kv_store\<close>, interpreted on association lists as \<open>kv\<close>).
  \<^item> Epochs (x/epochs): the store of timers, \<open>BeginBlocker\<close> with its hooks, genesis. \<open>BeginBlocker_refines\<close> is the refinement
    of the iteration of the code to one map over the timers; the locale \<open>epoch_client\<close> is what a module that hangs on the
    hooks has to keep.
  \<^item> Halving and Inflation (x/inflation/v1/types, keeper): the schedule, the parameters, the mint at the end of a day. The
    interpretation \<open>infl\<close> of \<open>epoch_client\<close> carries the supply cap through every block.
  \<^item> Schedule, Clawback and VestingKeeper (x/vesting): schedules as lists of periods, the account under two of them, messages
    and governance hooks.
  \<^item> FeeMarket (x/feemarket): the base fee of EIP-1559, block gas, parameters, genesis.
  \<^item> AccessList, StateDB and Revert (x/evm/statedb): accounts cached over a keeper, the journal, snapshots, commit. Revert
    proves that going back to a snapshot restores everything observable; the locale \<open>journaled\<close> is the general argument,
    interpreted on the journal of the code as \<open>sdb\<close>.
  \<^item> JumpDest and JumpTargets (x/evm/core/vm: analysis.go, contract.go): jump destinations and their caches.
  \<^item> EvmBase, EvmState, EvmGas, EvmInstr, EvmTable and EvmRun (x/evm/core/vm): stack, memory and contracts; the machine and
    the small language its operations are written in; sizes and dynamic gas; the instructions; the tables of all
    forks with the extra EIPs; the interpreter, calls and creations. EvmSafety, EvmGasSafety, EvmTableSafety and EvmForks prove
    one judgement, \<open>op_ok\<close>, of every table entry; EvmRunSafety lifts it to runs and calls; EvmTheorems states what follows.
  \<^item> EvmParams and StateTransition (x/evm/types, x/evm/keeper): parameters, chain configuration, access policy; from a message
    to the machine, gas, refunds, the transaction, \<open>EthCall\<close>. MessageSafety proves what a message is charged.
  \<^item> TxGate and GateTheorems (x/evm/keeper/msg_server.go): the message server with its two caches and its clock.
  \<^item> StakingGate (x/staking/keeper/msg_server.go): what a validator has to show, what a vesting account may delegate.
  \<^item> TxData (x/evm/types): the kinds of transaction, their validation, fees, conversions and the message around them.
  \<^item> EthAnte, AntePayment and TxLifecycle (app/ante/evm): the checks before a transaction runs, what they take, and the
    composition with the state transition.
  \<^item> GasEstimate (x/evm/keeper/grpc_query.go, call_evm.go): the search for a gas limit, calls of contracts by the keeper, the plain
    queries.
  \<^item> This theory: the epochs module drives the inflation module.

  What the lemmas show. Every operation of the stores and of the keepers has its effect on each branch, errors and panics
  included. The machine terminates, never panics on the stack or the memory, never hands back more gas than it got, and
  jumps only to instructions; reverting restores; a transaction that fails costs its gas and nothing else, and passes
  only once; the supply never exceeds the cap; unvested coins are neither delegated nor kept from a clawback. Where the
  code does not do what it means to, the theorem says what it does (validators that are not approved, cached verdicts,
  a fee market with elasticity zero, precompile writes that survive a revert, gas wanted counted once per message, a search
  for gas that never ends).

  Bounds. The loop of the interpreter has a fuel of one turn more than its gas, which is enough because every turn but the
  last pays at least one unit, and the calls between contracts a depth of \<open>CallCreateDepth\<close> and one more, which the code
  checks itself; \<open>machine_terminates\<close> proves both. The search for a gas limit is a partial function, whose value \<open>None\<close> is not to
  end; when it does and when it does not is proved. All other loops are structural, or have a measure. Integers
  are kept at their width: \<open>w word\<close> in the machine, \<open>u64\<close> and \<open>i64\<close> elsewhere; decimals of the SDK are integers
  scaled by \<open>10 ^ 18\<close> with their operations as parameters.

  What is outside is a parameter: the SDK (coins, accounts, banking, staking, distribution, its store), go-ethereum (rules,
  signers, transactions, hashes, the curve arithmetic of the built-in precompiles), the stateful precompiles, the clock of
  the process. What is relied on of it is named: \<open>coins_laws\<close>, \<open>bank_laws\<close>, \<open>host_laws\<close>, \<open>gas_laws\<close>, \<open>lib_ok\<close>, \<open>params_ok\<close>,
  \<open>tx_laws\<close>, \<open>hex_laws\<close>, \<open>ante_laws\<close>, \<open>account_laws\<close> and others; each has an instance, on which the theorems are applied.

  Not modelled: tracers and loggers, RPC, the server, the client and the indexer, which do not change the state of the
  chain; the wiring of the application, its upgrades and exports (tables of addresses, calls of the SDK); the stateful
  precompiles (codecs of Solidity's ABI around messages of the SDK), of which the journaled part of a call is modelled; erc20
  and the transfer middleware; the checks of Cosmos transactions; key handling and EIP-712 encodings; generated code and
  test utilities. Events, logging and telemetry are left out of the modelled parts, except where they are results.
\<close>

section \<open>The epochs module drives the inflation module\<close>

lemma AfterEpochEnd_other: "i \<noteq> DayEpochID \<Longrightarrow> AfterEpochEnd E i n s = Inr s"
  by (simp add: AfterEpochEnd_def IsValidEpochForHalving_def Let_def)

lemma step_hooks_inflation:
  "step_hooks [Hooks E] t ei s =
     (if shouldEpochEnd t ei
      then AfterEpochEnd E (Identifier ei) (CurrentEpoch (EndEpoch ei)) s else Inr s)"
  using shouldEpochEnd_started [of t ei]
  by (auto simp: step_hooks_def Hooks_def MultiEpochHooks_AfterEpochEnd_def
      MultiEpochHooks_BeforeEpochStart_def BeforeEpochStart_def Let_def advance_def rbind_def
      shouldInitialEpochStart_def shouldEpochEnd_def EndEpoch_def split: sum.splits)

lemma inflation_hooks_other:
  "DayEpochID \<notin> Identifier ` set es \<Longrightarrow> fold_res (step_hooks [Hooks E] t) es s = Inr s"
  by (induction es) (auto simp: step_hooks_inflation AfterEpochEnd_other)

lemma inflation_hooks_day:
  "distinct (map Identifier es) \<Longrightarrow> ei \<in> set es \<Longrightarrow> Identifier ei = DayEpochID
     \<Longrightarrow> fold_res (step_hooks [Hooks E] t) es s = step_hooks [Hooks E] t ei s"
proof (induction es)
  case (Cons e es)
  show ?case
  proof (cases "e = ei")
    case True
    with Cons.prems have "DayEpochID \<notin> Identifier ` set es" by auto
    with True show ?thesis by (simp add: inflation_hooks_other rbind_def split: sum.splits)
  next
    case False
    with Cons.prems have "Identifier e \<noteq> DayEpochID" by (auto simp: image_iff)
    with False Cons show ?thesis by (simp add: step_hooks_inflation AfterEpochEnd_other)
  qed
qed simp

lemma keyed_distinct: "keyed m \<Longrightarrow> distinct (map Identifier (map snd m))"
proof -
  assume "keyed m"
  then have "map Identifier (map snd m) = map fst m" and "distinct (map fst m)"
    by (auto simp: keyed_def kv_ok_def)
  then show ?thesis by metis
qed

lemma BeginBlocker_inflation:
  assumes "keyed (ec_store st)" and "(DayEpochID, ei) \<in> set (ec_store st)"
    and "shouldEpochEnd t ei" and "BeginBlocker [Hooks E] t h st = Inr st'"
  shows "AfterEpochEnd E DayEpochID (CurrentEpoch (EndEpoch ei)) (ec_mods st) = Inr (ec_mods st')"
proof -
  from assms(1,2) have id: "Identifier ei = DayEpochID" by (auto simp: keyed_def)
  from assms(2) have "ei \<in> set (map snd (ec_store st))" by force
  note day = inflation_hooks_day [OF keyed_distinct [OF assms(1)] this id, of E t "ec_mods st"]
  have "fold_res (step_hooks [Hooks E] t) (map snd (ec_store st)) (ec_mods st)
      = AfterEpochEnd E DayEpochID (CurrentEpoch (EndEpoch ei)) (ec_mods st)"
    unfolding day using assms(3) id by (simp add: step_hooks_inflation)
  with assms(1,4) show ?thesis by (auto simp: BeginBlocker_eq)
qed

text \<open>
  C23: The block in which the day timer's epoch n ends mints the emission scheduled for epoch n:
  the hook is called with n + 1 and takes one off again, so no epoch is skipped and none is paid
  twice.
\<close>

theorem day_block_mints_scheduled:
  assumes "bank_laws E" and "keyed (ec_store st)" and "(DayEpochID, ei) \<in> set (ec_store st)"
    and "shouldEpochEnd t ei" and "0 \<le> CurrentEpoch ei" and "CurrentEpoch ei < 2 ^ 63 - 1"
    and "EnableInflation (GetParams (ic_store (ec_mods st)))"
    and "epoch_emission (GetParams (ic_store (ec_mods st)))
      (i64 (StartEpoch (GetHalvingData (ic_store (ec_mods st))))) (CurrentEpoch ei) = Inr (Some x)"
    and "MaxSupply (GetParams (ic_store (ec_mods st))) = Some cap" and "0 < x"
    and "bank_GetSupply E (ic_bank (ec_mods st)) (MintDenom (GetParams (ic_store (ec_mods st)))) + x \<le> cap"
    and "BeginBlocker [Hooks E] t h st = Inr st'"
  shows "bank_GetSupply E (ic_bank (ec_mods st')) (MintDenom (GetParams (ic_store (ec_mods st))))
    = bank_GetSupply E (ic_bank (ec_mods st)) (MintDenom (GetParams (ic_store (ec_mods st)))) + x"
proof -
  let ?n = "CurrentEpoch ei + 1"
  have n: "CurrentEpoch (EndEpoch ei) = ?n" and prev: "i64 (?n - 1) = CurrentEpoch ei"
    using assms(5,6) by (simp_all add: EndEpoch_def i64_id)
  have "mints E DayEpochID ?n (ec_mods st) x"
    using assms(7-11) prev by (simp add: mints_def ended_emission_def not_nil_Some)
  with mint_supply [OF assms(1) BeginBlocker_inflation [OF assms(2-4,12)]] show ?thesis
    by (simp add: n)
qed

theorem day_block_mints_scheduled_witness:
  "\<exists>st'. BeginBlocker [Hooks ledger_env] 121 7 ledger_blocks = Inr st' \<and>
     lg_supply (ic_bank (ec_mods st')) ''unxq'' = 7200000000000000000000"
proof -
  obtain st' where run: "BeginBlocker [Hooks ledger_env] 121 7 ledger_blocks = Inr st'"
    using ledger_blocks_run by (auto simp: run_blocks_def)
  have mods: "ec_mods ledger_blocks = ledger_ctx 0" by (simp add: ledger_blocks_def)
  have day: "(DayEpochID, sample_day\<lparr>CurrentEpoch := 1\<rparr>) \<in> set (ec_store ledger_blocks)"
    by (simp add: ledger_blocks_def)
  have keyed: "keyed (ec_store ledger_blocks)"
    by (simp add: keyed_def kv_ok_def ledger_blocks_def sample_day_def)
  have due: "shouldEpochEnd 121 (sample_day\<lparr>CurrentEpoch := 1\<rparr>)"
    by (simp add: shouldEpochEnd_def shouldInitialEpochStart_def sample_day_def)
  have emission: "epoch_emission DefaultParams (i64 (StartEpoch default_HalvingData)) 1
      = Inr (Some 7200000000000000000000)"
    by (simp add: epoch_emission_def default_HalvingData_def CalculateHalvingPeriod_eq
        DefaultParams_def CalculateDailyEmission_def MaxHalvingPeriod_def i64_id)
  have supply0: "bank_GetSupply ledger_env (ic_bank (ledger_ctx 0)) d = 0" for d
    by (simp add: ledger_ctx_def ledger_env_def)
  have "bank_GetSupply ledger_env (ic_bank (ec_mods st')) (MintDenom DefaultParams)
      = 7200000000000000000000"
    using day_block_mints_scheduled [OF ledger_laws keyed day due _ _ _ _ _ _ _ run,
        of 7200000000000000000000 21000000000000000000000000] emission
    by (simp add: mods supply0) (simp add: DefaultParams_def)
  with run show ?thesis by (auto simp: DefaultParams_def ledger_env_def)
qed

end
